(* ===== verification/Prelude.thy ===== *)
theory Prelude
  imports Main "HOL-Library.Word" "HOL-Library.Monad_Syntax"
begin

text \<open>
  Shared vocabulary of the development: bytes, the result type of code that
  throws, traversals that stop at the first failure, and the arithmetic of
  shift-and-or byte assembly.  Two rule collections are filled by the component
  theories: \<open>codec_simps\<close> (how a decoder reads back what an encoder wrote) and
  \<open>narrow_simps\<close> (how a tag narrower acts on a known tag).
\<close>

unbundle bit_operations_syntax

named_theorems codec_simps \<open>decoders applied to the output of the matching encoder\<close>
named_theorems narrow_simps \<open>tag narrowers applied to the tags they know\<close>

section \<open>Bytes\<close>

type_synonym byte = "8 word"
type_synonym bytes = "byte list"

abbreviation byte_of :: "nat \<Rightarrow> byte" where
  "byte_of n \<equiv> word_of_nat n"

lemma unat_byte_less [simp]: "unat (b :: byte) < 256"
  using unsigned_less [of b] by simp

lemma unat_byte_of [simp]: "unat (byte_of n) = n mod 256"
  by (simp add: unat_of_nat)

lemma byte_of_unat [simp]: "byte_of (unat b) = b"
  by simp

section \<open>Results of code that throws\<close>

text \<open>A call that may throw is a value of \<open>'e + 'a\<close>: \<open>Inl\<close> the error, \<open>Inr\<close> the value.\<close>

definition bind_result :: "'e + 'a \<Rightarrow> ('a \<Rightarrow> 'e + 'b) \<Rightarrow> 'e + 'b" where
  "bind_result m f = (case m of Inl e \<Rightarrow> Inl e | Inr x \<Rightarrow> f x)"

lemma bind_result_Inl [simp]: "bind_result (Inl e) f = Inl e"
  by (simp add: bind_result_def)

lemma bind_result_Inr [simp]: "bind_result (Inr x) f = f x"
  by (simp add: bind_result_def)

lemma bind_result_eq_Inr:
  "bind_result m f = Inr y \<longleftrightarrow> (\<exists>x. m = Inr x \<and> f x = Inr y)"
  by (cases m) auto

lemma bind_result_eq_Inl:
  "bind_result m f = Inl e \<longleftrightarrow> m = Inl e \<or> (\<exists>x. m = Inr x \<and> f x = Inl e)"
  by (cases m) auto

lemma bind_result_cong [fundef_cong]:
  "m = m' \<Longrightarrow> (\<And>x. m' = Inr x \<Longrightarrow> f x = g x) \<Longrightarrow> bind_result m f = bind_result m' g"
  by (cases m') auto

section \<open>All-or-nothing traversals\<close>

text \<open>
  The projections of the program walk a list, narrow every element, and collapse
  the whole list to \<open>null\<close> at the first element that does not narrow.
\<close>

fun traverse :: "('a \<Rightarrow> 'b option) \<Rightarrow> 'a list \<Rightarrow> 'b list option" where
  "traverse f [] = Some []"
| "traverse f (x # xs) =
     (case f x of None \<Rightarrow> None
      | Some y \<Rightarrow> (case traverse f xs of None \<Rightarrow> None | Some ys \<Rightarrow> Some (y # ys)))"

lemma traverse_None: "traverse f xs = None \<longleftrightarrow> (\<exists>x\<in>set xs. f x = None)"
  by (induction xs) (auto split: option.splits)

lemma traverse_Some: "traverse f xs = Some ys \<longleftrightarrow> map f xs = map Some ys"
proof (induction xs arbitrary: ys)
  case Nil
  then show ?case by auto
next
  case (Cons x xs)
  then show ?case
    by (cases ys; cases "f x"; cases "traverse f xs") auto
qed

lemma traverse_map_Some [simp]:
  "(\<And>x. x \<in> set xs \<Longrightarrow> f (g x) = Some x) \<Longrightarrow> traverse f (map g xs) = Some xs"
  by (induction xs) auto

lemma traverse_length: "traverse f xs = Some ys \<Longrightarrow> length ys = length xs"
  by (metis traverse_Some length_map)

lemma traverse_nth:
  "traverse f xs = Some ys \<Longrightarrow> i < length xs \<Longrightarrow> f (xs ! i) = Some (ys ! i)"
  by (metis traverse_Some traverse_length nth_map)

lemma traverse_cong [fundef_cong]:
  assumes "xs = ys" and "\<And>x. x \<in> set ys \<Longrightarrow> f x = g x"
  shows "traverse f xs = traverse g ys"
proof -
  have "traverse f zs = traverse g zs" if "\<And>x. x \<in> set zs \<Longrightarrow> f x = g x" for zs
    using that by (induction zs) (auto split: option.splits)
  with assms show ?thesis by simp
qed

lemma zip_take_length [simp]:
  "zip (take (length ys) xs) ys = zip xs ys"
  "zip xs (take (length xs) ys) = zip xs ys"
  by (induction xs ys rule: list_induct2') auto

section \<open>Shift-and-or assembly\<close>

lemma shift_or_eq_add:
  fixes a b :: nat
  assumes "b < 2 ^ n"
  shows "push_bit n a OR b = a * 2 ^ n + b"
proof -
  have "\<not> bit (push_bit n a) k \<or> \<not> bit b k" for k
  proof (cases "k < n")
    case True
    then show ?thesis by (simp add: bit_push_bit_iff)
  next
    case False
    from assms have "take_bit n b = b"
      by (simp add: take_bit_nat_eq_self)
    then have "bit b k \<Longrightarrow> k < n"
      by (metis bit_take_bit_iff)
    with False show ?thesis by blast
  qed
  then have "push_bit n a + b = push_bit n a OR b"
    by (rule disjunctive_add)
  then show ?thesis by (simp add: push_bit_eq_mult)
qed

lemma shift8_or_byte [simp]: "push_bit 8 (a :: nat) OR unat (b :: byte) = a * 256 + unat b"
  using shift_or_eq_add [of "unat b" 8 a] unat_byte_less [of b] by simp

lemma and_255 [simp]: "(n :: nat) AND 255 = n mod 256"
  using take_bit_eq_mask [of 8 n] by (simp add: take_bit_eq_mod mask_eq_exp_minus_1)

lemma and_31: "(n :: nat) AND 31 = n mod 32"
  using take_bit_eq_mask [of 5 n] by (simp add: take_bit_eq_mod mask_eq_exp_minus_1)

section \<open>Parsers that never look past their item\<close>

text \<open>
  A parser is stable at an input when, having succeeded there, it succeeds with the
  same value on every longer input and leaves the added bytes unread.  The rules
  below follow the structure of a parser's definition.
\<close>

definition stable_at :: "(bytes \<Rightarrow> 'e + 'a \<times> bytes) \<Rightarrow> bytes \<Rightarrow> bool" where
  "stable_at p bs \<longleftrightarrow> (\<forall>v r s. p bs = Inr (v, r) \<longrightarrow> p (bs @ s) = Inr (v, r @ s))"

named_theorems stable_intros \<open>parsers that are stable\<close>

lemma stable_atD: "stable_at p bs \<Longrightarrow> p bs = Inr (v, r) \<Longrightarrow> p (bs @ s) = Inr (v, r @ s)"
  by (simp add: stable_at_def)

lemma stable_return [stable_intros]: "stable_at (\<lambda>bs. Inr (v, bs)) bs"
  by (simp add: stable_at_def)

lemma stable_error [stable_intros]: "stable_at (\<lambda>bs. Inl e) bs"
  by (simp add: stable_at_def)

lemma stable_bind [stable_intros]:
  assumes "stable_at p bs" and "\<And>v r. p bs = Inr (v, r) \<Longrightarrow> stable_at (f v) r"
  shows "stable_at (\<lambda>bs. bind_result (p bs) (\<lambda>(v, r). f v r)) bs"
  unfolding stable_at_def
proof (intro allI impI)
  fix v r s
  assume "bind_result (p bs) (\<lambda>(v, r). f v r) = Inr (v, r)"
  then obtain w q where p: "p bs = Inr (w, q)" and f: "f w q = Inr (v, r)"
    by (auto simp: bind_result_eq_Inr)
  from stable_atD [OF assms(1) p, of s] stable_atD [OF assms(2) [OF p] f, of s]
  show "bind_result (p (bs @ s)) (\<lambda>(v, r). f v r) = Inr (v, r @ s)" by simp
qed

lemma stable_if [stable_intros]:
  "(c \<Longrightarrow> stable_at p bs) \<Longrightarrow> (\<not> c \<Longrightarrow> stable_at q bs) \<Longrightarrow> stable_at (\<lambda>bs. if c then p bs else q bs) bs"
  by (cases c) simp_all

lemma stable_option [stable_intros]:
  "(x = None \<Longrightarrow> stable_at p bs) \<Longrightarrow> (\<And>y. x = Some y \<Longrightarrow> stable_at (q y) bs) \<Longrightarrow>
     stable_at (\<lambda>bs. case x of None \<Rightarrow> p bs | Some y \<Rightarrow> q y bs) bs"
  by (cases x) simp_all

text \<open>
  The other direction: a parser that succeeds on an input, given only a front part
  of it, either had already finished its item there, or fails with the error \<open>e\<close>.
\<close>

definition cut_at :: "'e \<Rightarrow> (bytes \<Rightarrow> 'e + 'a \<times> bytes) \<Rightarrow> bytes \<Rightarrow> bool" where
  "cut_at e p bs \<longleftrightarrow> (\<forall>q s v r. bs = q @ s \<longrightarrow> p bs = Inr (v, r) \<longrightarrow>
     (if length s \<le> length r then \<exists>r'. r = r' @ s \<and> p q = Inr (v, r') else p q = Inl e))"

named_theorems cut_intros \<open>parsers that report truncated input\<close>

lemma cut_atD:
  assumes "cut_at e p (q @ s)" and "p (q @ s) = Inr (v, r)"
  shows "(length s \<le> length r \<and> (\<exists>r'. r = r' @ s \<and> p q = Inr (v, r'))) \<or> (length r < length s \<and> p q = Inl e)"
  using assms by (force simp: cut_at_def not_le split: if_splits)

lemma cut_return [cut_intros]: "cut_at e (\<lambda>bs. Inr (v, bs)) bs"
  by (auto simp: cut_at_def)

lemma cut_error [cut_intros]: "cut_at e (\<lambda>bs. Inl e') bs"
  by (simp add: cut_at_def)

lemma cut_if [cut_intros]:
  "(c \<Longrightarrow> cut_at e p bs) \<Longrightarrow> (\<not> c \<Longrightarrow> cut_at e q bs) \<Longrightarrow> cut_at e (\<lambda>bs. if c then p bs else q bs) bs"
  by (cases c) simp_all

lemma cut_option [cut_intros]:
  "(x = None \<Longrightarrow> cut_at e p bs) \<Longrightarrow> (\<And>y. x = Some y \<Longrightarrow> cut_at e (q y) bs) \<Longrightarrow>
     cut_at e (\<lambda>bs. case x of None \<Rightarrow> p bs | Some y \<Rightarrow> q y bs) bs"
  by (cases x) simp_all

lemma cut_bind [cut_intros]:
  assumes "cut_at e p bs" and "\<And>v r. p bs = Inr (v, r) \<Longrightarrow> cut_at e (f v) r"
    and "\<And>v r w r'. p bs = Inr (v, r) \<Longrightarrow> f v r = Inr (w, r') \<Longrightarrow> length r' \<le> length r"
  shows "cut_at e (\<lambda>bs. bind_result (p bs) (\<lambda>(v, r). f v r)) bs"
  unfolding cut_at_def
proof (intro allI impI)
  fix q s v r
  assume bs: "bs = q @ s" and "bind_result (p bs) (\<lambda>(v, r). f v r) = Inr (v, r)"
  then obtain w u where p: "p bs = Inr (w, u)" and f: "f w u = Inr (v, r)"
    by (auto simp: bind_result_eq_Inr)
  have le: "length r \<le> length u" using assms(3) [OF p f] .
  from cut_atD [OF assms(1) [unfolded bs] p [unfolded bs]]
  consider u' where "u = u' @ s" "p q = Inr (w, u')" | "length u < length s" "p q = Inl e" by auto
  then show "if length s \<le> length r
       then \<exists>r'. r = r' @ s \<and> bind_result (p q) (\<lambda>(v, r). f v r) = Inr (v, r')
       else bind_result (p q) (\<lambda>(v, r). f v r) = Inl e"
  proof cases
    case 1
    from cut_atD [OF assms(2) [OF p, unfolded 1(1)] f [unfolded 1(1)]] show ?thesis
      using 1(2) by auto
  next
    case 2
    then show ?thesis using le by simp
  qed
qed

section \<open>Self-delimiting codecs\<close>

text \<open>
  The contract of a decoder that reads one item from the front of a byte list and
  returns what follows it.  \<open>view\<close> is what a decoded item looks like (the identity
  when nothing is normalised), \<open>ok\<close> the items the encoder can carry.
\<close>

fun decode_seq :: "(bytes \<Rightarrow> 'e + 'b \<times> bytes) \<Rightarrow> nat \<Rightarrow> bytes \<Rightarrow> 'e + 'b list \<times> bytes" where
  "decode_seq dec 0 bs = Inr ([], bs)"
| "decode_seq dec (Suc n) bs =
     bind_result (dec bs) (\<lambda>(x, r). bind_result (decode_seq dec n r) (\<lambda>(xs, r'). Inr (x # xs, r')))"

locale item_codec =
  fixes ok :: "'a \<Rightarrow> bool"
    and enc :: "'a \<Rightarrow> bytes"
    and dec :: "bytes \<Rightarrow> 'e + 'b \<times> bytes"
    and view :: "'a \<Rightarrow> 'b"
  assumes dec_enc: "ok x \<Longrightarrow> dec (enc x @ r) = Inr (view x, r)"
begin

lemma dec_enc_only: "ok x \<Longrightarrow> dec (enc x) = Inr (view x, [])"
  using dec_enc [of x "[]"] by simp

lemma prefix_free:
  assumes "ok x" and "ok y" and "enc x @ r = enc y @ s"
  shows "view x = view y \<and> r = s"
proof -
  have "Inr (view x, r) = (Inr (view y, s) :: 'e + 'b \<times> bytes)"
    using dec_enc [OF assms(1), of r] dec_enc [OF assms(2), of s] assms(3) by simp
  then show ?thesis by simp
qed

lemma enc_inject: "ok x \<Longrightarrow> ok y \<Longrightarrow> enc x = enc y \<Longrightarrow> view x = view y"
  using prefix_free [of x y "[]" "[]"] by simp

lemma decode_seq_concat:
  "list_all ok xs \<Longrightarrow> decode_seq dec (length xs) (concat (map enc xs) @ r) = Inr (map view xs, r)"
  by (induction xs) (simp_all add: dec_enc)

end

end
