(* ===== verification/JsValue.thy ===== *)
theory JsValue
  imports Prelude
begin

text \<open>
  The part of the language the program relies on: numbers, strings, objects and
  the values a decoder builds.

  \<^item> A string is the list of its UTF-8 bytes, as \<open>char\<close>s.  Every well-formed
    string of the program has exactly one such list; a string with a lone
    surrogate has none and is outside the model.  \<open>TextEncoder\<close> is then the
    identity and \<open>TextDecoder\<close> with \<open>fatal: true\<close> is a validity check
    that also drops one leading byte-order mark, its default.
  \<^item> A number is \<open>NInt i\<close> when it is integer-valued and \<open>NFlt b\<close> otherwise, with
    \<open>b\<close> its IEEE-754 double bit pattern (fractions, the infinities, one NaN, and
    minus zero, which is the pattern \<open>2 ^ 63\<close>).
  \<^item> An object is the list of its own enumerable properties in the order
    \<open>Object.keys\<close> visits them.
\<close>

section \<open>Strings\<close>

definition byte_of_char :: "char \<Rightarrow> byte" where
  "byte_of_char c = byte_of (of_char c)"

definition char_of_byte :: "byte \<Rightarrow> char" where
  "char_of_byte b = char_of (unat b)"

lemma char_of_byte_of_char [simp]: "char_of_byte (byte_of_char c) = c"
proof -
  have "of_char c mod (256 :: nat) = of_char c"
    by (metis char_of_nat mod_mod_trivial of_char_mod_256)
  then show ?thesis by (simp add: byte_of_char_def char_of_byte_def)
qed

lemma byte_of_char_of_byte [simp]: "byte_of_char (char_of_byte b) = b"
  by (simp add: byte_of_char_def char_of_byte_def)

lemma char_of_byte_comp [simp]: "char_of_byte \<circ> byte_of_char = id"
  by (simp add: fun_eq_iff)

text \<open>
  Well-formed UTF-8 (Unicode Table 3-7): the check \<open>TextDecoder\<close> makes in fatal
  mode.  Overlong forms, surrogates and code points above 10FFFF are ill-formed.
\<close>

definition cont_byte :: "nat \<Rightarrow> bool" where
  "cont_byte b \<longleftrightarrow> 128 \<le> b \<and> b \<le> 191"

definition utf8_second :: "nat \<Rightarrow> nat \<Rightarrow> bool" where
  "utf8_second a b \<longleftrightarrow> cont_byte b \<and>
     (a = 224 \<longrightarrow> 160 \<le> b) \<and> (a = 237 \<longrightarrow> b \<le> 159) \<and>
     (a = 240 \<longrightarrow> 144 \<le> b) \<and> (a = 244 \<longrightarrow> b \<le> 143)"

fun utf8_seq :: "nat list \<Rightarrow> bool" where
  "utf8_seq [] = True"
| "utf8_seq (a # as) =
     (if a < 128 then utf8_seq as
      else if 194 \<le> a \<and> a \<le> 223 then
        (case as of b # bs \<Rightarrow> cont_byte b \<and> utf8_seq bs | _ \<Rightarrow> False)
      else if 224 \<le> a \<and> a \<le> 239 then
        (case as of b # c # cs \<Rightarrow> utf8_second a b \<and> cont_byte c \<and> utf8_seq cs | _ \<Rightarrow> False)
      else if 240 \<le> a \<and> a \<le> 244 then
        (case as of b # c # d # ds \<Rightarrow>
             utf8_second a b \<and> cont_byte c \<and> cont_byte d \<and> utf8_seq ds
         | _ \<Rightarrow> False)
      else False)"

definition utf8_ok :: "bytes \<Rightarrow> bool" where
  "utf8_ok bs = utf8_seq (map unat bs)"

definition bom :: bytes where
  "bom = [239, 187, 191]"

definition strip_bom :: "bytes \<Rightarrow> bytes" where
  "strip_bom bs = (if take 3 bs = bom then drop 3 bs else bs)"

definition text_encode :: "string \<Rightarrow> bytes" where
  "text_encode s = map byte_of_char s"

definition text_decode :: "bytes \<Rightarrow> string option" where
  "text_decode bs = (if utf8_ok bs then Some (map char_of_byte (strip_bom bs)) else None)"

text \<open>A string the codec gives back as it was: well-formed, not starting with the mark.\<close>

definition text_ok :: "string \<Rightarrow> bool" where
  "text_ok s \<longleftrightarrow> utf8_ok (text_encode s) \<and> take 3 (text_encode s) \<noteq> bom"

lemma text_roundtrip [codec_simps]: "text_ok s \<Longrightarrow> text_decode (text_encode s) = Some s"
  by (simp add: text_ok_def text_decode_def text_encode_def strip_bom_def)

lemma length_text_encode [simp]: "length (text_encode s) = length s"
  by (simp add: text_encode_def)

definition ascii :: "string \<Rightarrow> bool" where
  "ascii s = list_all (\<lambda>c. of_char c < (128 :: nat)) s"

lemma utf8_seq_ascii: "list_all (\<lambda>n. n < 128) ns \<Longrightarrow> utf8_seq ns"
  by (induction ns) auto

lemma ascii_text_ok:
  assumes "ascii s"
  shows "text_ok s"
proof -
  have low: "unat (byte_of_char c) < 128" if "c \<in> set s" for c
  proof -
    from assms that have "of_char c < (128 :: nat)" by (auto simp: ascii_def list_all_iff)
    then show ?thesis by (simp add: byte_of_char_def)
  qed
  then have ok: "utf8_ok (text_encode s)"
    by (auto simp: utf8_ok_def text_encode_def list_all_iff intro!: utf8_seq_ascii)
  have "hd (text_encode s) \<noteq> 239" if "s \<noteq> []"
    using low [of "hd s"] that by (cases s) (auto simp: text_encode_def)
  then have "take 3 (text_encode s) \<noteq> bom"
    by (cases s) (auto simp: bom_def text_encode_def)
  with ok show ?thesis by (simp add: text_ok_def)
qed

subsection \<open>Decimal notation\<close>

fun nat_digits :: "nat \<Rightarrow> string" where
  "nat_digits n =
     (if n < 10 then [char_of (48 + n)] else nat_digits (n div 10) @ [char_of (48 + n mod 10)])"

declare nat_digits.simps [simp del]

definition int_digits :: "int \<Rightarrow> string" where
  "int_digits i = (if i < 0 then CHR ''-'' # nat_digits (nat (- i)) else nat_digits (nat i))"

definition is_digit :: "char \<Rightarrow> bool" where
  "is_digit c \<longleftrightarrow> 48 \<le> (of_char c :: nat) \<and> (of_char c :: nat) \<le> 57"

definition digits_value :: "string \<Rightarrow> nat" where
  "digits_value s = foldl (\<lambda>n c. 10 * n + (of_char c - 48)) 0 s"

lemma digit_char [simp]: "n < 10 \<Longrightarrow> of_char (char_of (48 + n) :: char) = 48 + (n :: nat)"
  by simp

lemma nat_digits_digits: "list_all is_digit (nat_digits n)"
proof (induction n rule: nat_digits.induct)
  case (1 n)
  show ?case
  proof (cases "n < 10")
    case True
    then show ?thesis by (simp add: nat_digits.simps [of n] is_digit_def)
  next
    case False
    have "is_digit (char_of (48 + n mod 10))"
      by (simp add: is_digit_def)
    with False 1 show ?thesis by (simp add: nat_digits.simps [of n])
  qed
qed

lemma nat_digits_value: "digits_value (nat_digits n) = n"
proof (induction n rule: nat_digits.induct)
  case (1 n)
  show ?case
  proof (cases "n < 10")
    case True
    then show ?thesis by (simp add: nat_digits.simps [of n] digits_value_def)
  next
    case False
    with 1 have "digits_value (nat_digits (n div 10)) = n div 10" by simp
    with False show ?thesis by (simp add: nat_digits.simps [of n] digits_value_def)
  qed
qed

lemma nat_digits_inject: "nat_digits m = nat_digits n \<Longrightarrow> m = n"
  by (metis nat_digits_value)

lemma nat_digits_nonempty [simp]: "nat_digits n \<noteq> []"
  by (subst nat_digits.simps) simp

lemma is_digit_ascii: "list_all is_digit s \<Longrightarrow> ascii s"
  by (auto simp: ascii_def is_digit_def list_all_iff)

section \<open>Numbers\<close>

text \<open>
  \<open>NFlt b\<close> carries the double's bit pattern.  The largest integer below which every
  integer is a double of its own is \<open>MAX_SAFE\<close> (\<open>Number.MAX_SAFE_INTEGER\<close>).
\<close>

datatype jsnum = NInt int | NFlt nat

definition minus_zero :: nat where
  "minus_zero = 2 ^ 63"

definition nan_bits :: nat where
  "nan_bits = 0x7ff8000000000000"

definition inf_bits :: "bool \<Rightarrow> nat" where
  "inf_bits neg = (if neg then 2 ^ 63 else 0) + 0x7ff0000000000000"

definition MAX_SAFE :: int where
  "MAX_SAFE = 2 ^ 53 - 1"

definition isInteger :: "jsnum \<Rightarrow> bool" where
  "isInteger n = (case n of NInt _ \<Rightarrow> True | NFlt b \<Rightarrow> b = minus_zero)"

text \<open>\<open>BigInt(n)\<close> on an integer-valued number; minus zero becomes zero.\<close>

definition toBigInt :: "jsnum \<Rightarrow> int" where
  "toBigInt n = (case n of NInt i \<Rightarrow> i | NFlt _ \<Rightarrow> 0)"

text \<open>The number of binary digits.\<close>

fun bitlen :: "nat \<Rightarrow> nat" where
  "bitlen n = (if n = 0 then 0 else Suc (bitlen (n div 2)))"

declare bitlen.simps [simp del]

lemma bitlen_upper: "n < 2 ^ bitlen n"
proof (induction n rule: bitlen.induct)
  case (1 n)
  then show ?case
    by (cases "n = 0") (auto simp: bitlen.simps [of n])
qed

lemma bitlen_lower: "0 < n \<Longrightarrow> 2 ^ (bitlen n - 1) \<le> n"
proof (induction n rule: bitlen.induct)
  case (1 n)
  show ?case
  proof (cases "n div 2 = 0")
    case True
    with 1 show ?thesis by (simp add: bitlen.simps [of n] bitlen.simps [of 0])
  next
    case False
    with 1 have "2 ^ (bitlen (n div 2) - 1) \<le> n div 2" by auto
    moreover from False have "bitlen (n div 2) = Suc (bitlen (n div 2) - 1)"
      by (simp add: bitlen.simps [of "n div 2"])
    ultimately have "2 ^ bitlen (n div 2) \<le> n"
      by (metis (no_types) dual_order.trans le_eq_less_or_eq less_mult_imp_div_less
            not_less power_Suc2)
    with "1.prems" show ?thesis by (simp add: bitlen.simps [of n])
  qed
qed

lemma bitlen_pos: "0 < n \<Longrightarrow> 0 < bitlen n"
  by (subst bitlen.simps) simp

lemma bitlen_le: "n < 2 ^ k \<Longrightarrow> bitlen n \<le> k"
proof (cases "n = 0")
  case True
  then show ?thesis by (simp add: bitlen.simps)
next
  case False
  assume "n < 2 ^ k"
  with False have "(2 :: nat) ^ (bitlen n - 1) < 2 ^ k"
    using bitlen_lower [of n] by (meson le_less_trans neq0_conv)
  then have "bitlen n - 1 < k" by simp
  then show ?thesis by simp
qed

text \<open>
  The bit pattern of the double \<open>m * 2 ^ e\<close> (negated when \<open>neg\<close>) for \<open>m > 0\<close>: the
  53-bit significand with its top bit hidden, under the biased exponent.
\<close>

definition significand :: "nat \<Rightarrow> nat" where
  "significand m = (let k = bitlen m in if k \<le> 53 then m * 2 ^ (53 - k) else m div 2 ^ (k - 53))"

definition dyadic_bits :: "bool \<Rightarrow> nat \<Rightarrow> int \<Rightarrow> nat" where
  "dyadic_bits neg m e =
     (if neg then 2 ^ 63 else 0) + nat (e + int (bitlen m) + 1022) * 2 ^ 52 + (significand m - 2 ^ 52)"

definition f64_bits :: "jsnum \<Rightarrow> nat" where
  "f64_bits n = (case n of NFlt b \<Rightarrow> b
     | NInt i \<Rightarrow> if i = 0 then 0 else dyadic_bits (i < 0) (nat \<bar>i\<bar>) 0)"

text \<open>The number \<open>m * 2 ^ e\<close>, whose bit pattern is \<open>b\<close> when it is not an integer.\<close>

definition dyadic :: "bool \<Rightarrow> nat \<Rightarrow> int \<Rightarrow> nat \<Rightarrow> jsnum" where
  "dyadic neg m e b =
     (let signed = (\<lambda>k. NInt (if neg then - int k else int k))
      in if m = 0 then (if neg then NFlt minus_zero else NInt 0)
         else if 0 \<le> e then signed (m * 2 ^ nat e)
         else if m mod 2 ^ nat (- e) = 0 then signed (m div 2 ^ nat (- e))
         else NFlt b)"

text \<open>\<open>DataView.getFloat64\<close>, \<open>getFloat32\<close>: read a double or a single from its pattern.\<close>

definition f64_read :: "nat \<Rightarrow> jsnum" where
  "f64_read b =
     (let neg = (b div 2 ^ 63 mod 2 = 1); E = b div 2 ^ 52 mod 2 ^ 11; M = b mod 2 ^ 52
      in if E = 2047 then NFlt (if M = 0 then inf_bits neg else nan_bits)
         else if E = 0 then dyadic neg M (- 1074) b
         else dyadic neg (M + 2 ^ 52) (int E - 1075) b)"

definition f32_read :: "nat \<Rightarrow> jsnum" where
  "f32_read b =
     (let neg = (b div 2 ^ 31 mod 2 = 1); E = b div 2 ^ 23 mod 2 ^ 8; M = b mod 2 ^ 23
      in if E = 255 then NFlt (if M = 0 then inf_bits neg else nan_bits)
         else if E = 0 then dyadic neg M (- 149) (dyadic_bits neg M (- 149))
         else dyadic neg (M + 2 ^ 23) (int E - 150) (dyadic_bits neg (M + 2 ^ 23) (int E - 150)))"

text \<open>
  A number of the program: an integer that is a double (its significand fits and
  it is not beyond the range), or a pattern that is read back as itself.
\<close>

definition number_ok :: "jsnum \<Rightarrow> bool" where
  "number_ok n = (case n of
       NInt i \<Rightarrow> (let m = nat \<bar>i\<bar>; k = bitlen m
                in k \<le> 1024 \<and> (k \<le> 53 \<or> m mod 2 ^ (k - 53) = 0))
     | NFlt b \<Rightarrow> b < 2 ^ 64 \<and> f64_read b = NFlt b)"

lemma number_ok_small:
  assumes "\<bar>i\<bar> < 2 ^ 53"
  shows "number_ok (NInt i)"
proof -
  have "nat \<bar>i\<bar> < 2 ^ 53" using assms by (simp add: nat_less_iff)
  then have "bitlen (nat \<bar>i\<bar>) \<le> 53" by (rule bitlen_le)
  then show ?thesis by (simp add: number_ok_def Let_def)
qed

lemma significand_range:
  assumes "0 < m"
  shows "2 ^ 52 \<le> significand m \<and> significand m < 2 ^ 53"
proof -
  let ?k = "bitlen m"
  have up: "m < 2 ^ ?k" and lo: "2 ^ (?k - 1) \<le> m"
    using bitlen_upper [of m] bitlen_lower [OF assms] by auto
  have k: "0 < ?k" using assms by (rule bitlen_pos)
  show ?thesis
  proof (cases "?k \<le> 53")
    case True
    then have "2 ^ (?k - 1) * 2 ^ (53 - ?k) = (2 ^ 52 :: nat)" and "2 ^ ?k * 2 ^ (53 - ?k) = (2 ^ 53 :: nat)"
      using k by (simp_all add: power_add [symmetric])
    moreover have "2 ^ (?k - 1) * 2 ^ (53 - ?k) \<le> m * 2 ^ (53 - ?k)" and "m * 2 ^ (53 - ?k) < 2 ^ ?k * 2 ^ (53 - ?k)"
      using lo up by simp_all
    ultimately show ?thesis
      using True by (simp add: significand_def Let_def)
  next
    case False
    then have "52 + (?k - 53) = ?k - 1" and "53 + (?k - 53) = ?k" by simp_all
    then have "2 ^ 52 * 2 ^ (?k - 53) = (2 ^ (?k - 1) :: nat)" and "2 ^ 53 * 2 ^ (?k - 53) = (2 ^ ?k :: nat)"
      by (metis power_add)+
    with False up lo show ?thesis
      by (simp add: significand_def Let_def less_mult_imp_div_less less_eq_div_iff_mult_less_eq)
  qed
qed

lemma significand_value:
  assumes "0 < m" and "k = bitlen m" and "k \<le> 53 \<or> m mod 2 ^ (k - 53) = 0"
  shows "if k \<le> 53 then significand m mod 2 ^ (53 - k) = 0 \<and> significand m div 2 ^ (53 - k) = m
         else significand m * 2 ^ (k - 53) = m"
  using assms by (auto simp: significand_def Let_def)

lemma dyadic_bits_fields:
  fixes neg :: bool
  assumes "0 < m" and "bitlen m \<le> 1024"
  defines "b \<equiv> dyadic_bits neg m 0"
  shows "b mod 2 ^ 52 = significand m - 2 ^ 52"
    and "b div 2 ^ 52 mod 2 ^ 11 = bitlen m + 1022"
    and "(b div 2 ^ 63 mod 2 = 1) = neg"
    and "b < 2 ^ 64"
proof -
  define s M E where "s = (if neg then 1 else 0 :: nat)" and "M = significand m - 2 ^ 52"
    and "E = bitlen m + 1022"
  have M: "M < 2 ^ 52" using significand_range [OF assms(1)] by (auto simp: M_def)
  have E: "E < 2 ^ 11" using assms(2) by (simp add: E_def)
  have s: "s < 2" by (simp add: s_def)
  have b: "b = (s * 2 ^ 11 + E) * 2 ^ 52 + M"
    by (simp add: b_def dyadic_bits_def s_def E_def M_def nat_add_distrib)
  have q: "b div 2 ^ 52 = s * 2 ^ 11 + E"
    using M by (simp add: b)
  show "b mod 2 ^ 52 = significand m - 2 ^ 52"
    unfolding b M_def [symmetric] mod_mult_self3 using M by (rule mod_less)
  show "b div 2 ^ 52 mod 2 ^ 11 = bitlen m + 1022"
    unfolding q using E by (simp add: E_def)
  have "b div 2 ^ 63 = b div 2 ^ 52 div 2 ^ 11"
    by (simp add: div_mult2_eq [symmetric])
  also have "\<dots> = s" unfolding q using E by simp
  finally show "(b div 2 ^ 63 mod 2 = 1) = neg" by (simp add: s_def)
  show "b < 2 ^ 64" using M E s by (simp add: b)
qed

text \<open>Writing an integer-valued number as a double and reading it back gives the number.\<close>

lemma f64_roundtrip_Int:
  assumes "number_ok (NInt i)"
  shows "f64_read (f64_bits (NInt i)) = NInt i" and "f64_bits (NInt i) < 2 ^ 64"
proof -
  have "f64_read (f64_bits (NInt i)) = NInt i \<and> f64_bits (NInt i) < 2 ^ 64"
  proof (cases "i = 0")
    case True
    then show ?thesis by (simp add: f64_bits_def f64_read_def dyadic_def)
  next
    case False
    define m where "m = nat \<bar>i\<bar>"
    have m: "0 < m" using False by (simp add: m_def)
    have k: "bitlen m \<le> 1024" "bitlen m \<le> 53 \<or> m mod 2 ^ (bitlen m - 53) = 0"
      using assms by (auto simp: number_ok_def Let_def m_def)
    note fields = dyadic_bits_fields [OF m k(1), of "i < 0"]
    note range = significand_range [OF m]
    have s: "significand m - 2 ^ 52 + 2 ^ 52 = significand m" using range by simp
    have i: "i = (if i < 0 then - int m else int m)" by (simp add: m_def)
    have "f64_read (dyadic_bits (i < 0) m 0) =
        dyadic (i < 0) (significand m) (int (bitlen m + 1022) - 1075) (dyadic_bits (i < 0) m 0)"
      using fields(1,2,3) k(1) bitlen_pos [OF m] s by (simp add: f64_read_def Let_def)
    also have "\<dots> = NInt i"
      using significand_value [OF m refl k(2)] range i
      by (cases "bitlen m \<le> 53") (auto simp: dyadic_def Let_def nat_diff_distrib' split: if_splits)
    finally show ?thesis
      using False fields(4) by (simp add: f64_bits_def m_def)
  qed
  then show "f64_read (f64_bits (NInt i)) = NInt i" and "f64_bits (NInt i) < 2 ^ 64" by auto
qed

section \<open>Values\<close>

text \<open>
  The values the wire codec and the request parsers handle.  \<open>JFloat\<close> is an instance
  of the class \<open>CborFloat\<close>, \<open>JBytes\<close> a \<open>Uint8Array\<close>, and \<open>JOther t\<close> a value whose
  \<open>typeof\<close> is \<open>t\<close> and that has no data (a function or a symbol).
\<close>

datatype jsval =
    JNull
  | JUndef
  | JBool bool
  | JNum jsnum
  | JBig int
  | JFloat jsnum
  | JStr string
  | JBytes bytes
  | JArr "jsval list"
  | JObj "(string \<times> jsval) list"
  | JOther string

subsection \<open>Objects\<close>

text \<open>An array-index key, which \<open>Object.keys\<close> visits before the others, in numeric order.\<close>

definition key_index :: "string \<Rightarrow> nat option" where
  "key_index s =
     (if list_all is_digit s \<and> s = nat_digits (digits_value s) \<and> digits_value s < 2 ^ 32 - 1
      then Some (digits_value s) else None)"

definition key_below :: "nat \<Rightarrow> string \<Rightarrow> bool" where
  "key_below n k = (case key_index k of None \<Rightarrow> False | Some m \<Rightarrow> m < n)"

text \<open>\<open>obj[key] = value\<close>: an existing property keeps its place, a new one takes its own.\<close>

definition obj_set :: "(string \<times> 'v) list \<Rightarrow> string \<Rightarrow> 'v \<Rightarrow> (string \<times> 'v) list" where
  "obj_set ob k v =
     (if k \<in> set (map fst ob) then map (\<lambda>(k', v'). if k' = k then (k', v) else (k', v')) ob
      else case key_index k of
        None \<Rightarrow> ob @ [(k, v)]
      | Some n \<Rightarrow> takeWhile (\<lambda>(k', _). key_below n k') ob @ [(k, v)] @ dropWhile (\<lambda>(k', _). key_below n k') ob)"

text \<open>The order \<open>Object.keys\<close> gives to two different keys inserted one after the other.\<close>

definition key_before :: "string \<Rightarrow> string \<Rightarrow> bool" where
  "key_before k k' \<longleftrightarrow> k \<noteq> k' \<and> (case key_index k' of None \<Rightarrow> True | Some n \<Rightarrow> key_below n k)"

definition obj_ok :: "(string \<times> 'v) list \<Rightarrow> bool" where
  "obj_ok ob = sorted_wrt key_before (map fst ob)"

lemma obj_set_append:
  assumes "obj_ok (ob @ [(k, v)])"
  shows "obj_set ob k v = ob @ [(k, v)]"
proof -
  from assms have before: "key_before k' k" if "k' \<in> set (map fst ob)" for k'
    using that by (auto simp: obj_ok_def sorted_wrt_append)
  then have fresh: "k \<notin> set (map fst ob)" by (auto simp: key_before_def)
  show ?thesis
  proof (cases "key_index k")
    case None
    with fresh show ?thesis by (simp add: obj_set_def)
  next
    case (Some n)
    then have "\<forall>x\<in>set ob. (\<lambda>(k', _). key_below n k') x"
      using before by (force simp: key_before_def)
    then have "takeWhile (\<lambda>(k', _). key_below n k') ob = ob" and "dropWhile (\<lambda>(k', _). key_below n k') ob = []"
      by (simp_all add: takeWhile_eq_all_conv dropWhile_eq_Nil_conv)
    with Some fresh show ?thesis by (simp add: obj_set_def)
  qed
qed

lemma obj_ok_append1: "obj_ok (ob @ ob') \<Longrightarrow> obj_ok ob"
  by (simp add: obj_ok_def sorted_wrt_append)

lemma obj_ok_distinct: "obj_ok ob \<Longrightarrow> distinct (map fst ob)"
proof -
  have "sorted_wrt key_before ks \<Longrightarrow> distinct ks" for ks
    by (induction ks) (auto simp: key_before_def)
  then show "obj_ok ob \<Longrightarrow> distinct (map fst ob)" by (simp add: obj_ok_def)
qed

text \<open>Keys that are not array indexes keep insertion order, so only repetition matters.\<close>

lemma obj_ok_plain_keys:
  assumes "distinct (map fst ob)" and "\<And>k. k \<in> set (map fst ob) \<Longrightarrow> key_index k = None"
  shows "obj_ok ob"
proof -
  have "distinct ks \<Longrightarrow> (\<And>k. k \<in> set ks \<Longrightarrow> key_index k = None) \<Longrightarrow> sorted_wrt key_before ks" for ks
    by (induction ks) (auto simp: key_before_def)
  from this [OF assms] show ?thesis by (simp add: obj_ok_def)
qed

lemma key_index_nat_digits: "n < 2 ^ 32 - 1 \<Longrightarrow> key_index (nat_digits n) = Some n"
  by (simp add: key_index_def nat_digits_digits nat_digits_value)

lemma key_index_letter: "\<not> is_digit c \<Longrightarrow> key_index (c # cs) = None"
  by (simp add: key_index_def)

text \<open>Reading a property of a value that is neither \<open>null\<close> nor \<open>undefined\<close>.\<close>

definition get_prop :: "jsval \<Rightarrow> string \<Rightarrow> jsval" where
  "get_prop v k = (case v of JObj ob \<Rightarrow> (case map_of ob k of None \<Rightarrow> JUndef | Some x \<Rightarrow> x) | _ \<Rightarrow> JUndef)"

text \<open>\<open>typeof v === 'object' && v !== null\<close>\<close>

definition is_object :: "jsval \<Rightarrow> bool" where
  "is_object v = (case v of JObj _ \<Rightarrow> True | JArr _ \<Rightarrow> True | JBytes _ \<Rightarrow> True | JFloat _ \<Rightarrow> True | _ \<Rightarrow> False)"

definition nullish :: "jsval \<Rightarrow> bool" where
  "nullish v \<longleftrightarrow> v = JNull \<or> v = JUndef"

text \<open>\<open>a ?? b\<close>\<close>

definition coalesce :: "jsval \<Rightarrow> jsval \<Rightarrow> jsval" where
  "coalesce a b = (if nullish a then b else a)"

definition as_string :: "jsval \<Rightarrow> string option" where
  "as_string v = (case v of JStr s \<Rightarrow> Some s | _ \<Rightarrow> None)"

definition as_bool :: "jsval \<Rightarrow> bool option" where
  "as_bool v = (case v of JBool b \<Rightarrow> Some b | _ \<Rightarrow> None)"

definition as_array :: "jsval \<Rightarrow> jsval list option" where
  "as_array v = (case v of JArr vs \<Rightarrow> Some vs | _ \<Rightarrow> None)"

lemma as_string_Some [simp]: "as_string v = Some s \<longleftrightarrow> v = JStr s"
  by (cases v) (auto simp: as_string_def)

lemma as_bool_Some [simp]: "as_bool v = Some b \<longleftrightarrow> v = JBool b"
  by (cases v) (auto simp: as_bool_def)

lemma as_array_Some [simp]: "as_array v = Some vs \<longleftrightarrow> v = JArr vs"
  by (cases v) (auto simp: as_array_def)

subsection \<open>White space\<close>

text \<open>
  \<open>String.prototype.trim\<close> removes the ECMAScript white space and line terminators,
  here as their UTF-8 byte sequences.
\<close>

definition js_spaces :: "string list" where
  "js_spaces = map (map char_of)
     ([[9], [10], [11], [12], [13], [32], [0xC2, 0xA0], [0xEF, 0xBB, 0xBF], [0xE1, 0x9A, 0x80]]
      @ map (\<lambda>n. [0xE2, 0x80, n]) [0x80, 0x81, 0x82, 0x83, 0x84, 0x85, 0x86, 0x87, 0x88, 0x89, 0x8A, 0xA8, 0xA9, 0xAF]
      @ [[0xE2, 0x81, 0x9F], [0xE3, 0x80, 0x80 :: nat]])"

fun strip_one :: "string list \<Rightarrow> string \<Rightarrow> string option" where
  "strip_one [] s = None"
| "strip_one (w # ws) s = (if w \<noteq> [] \<and> take (length w) s = w then Some (drop (length w) s) else strip_one ws s)"

lemma strip_one_shorter: "strip_one ws s = Some t \<Longrightarrow> length t < length s"
proof (induction ws)
  case Nil
  then show ?case by simp
next
  case (Cons w ws)
  show ?case
  proof (cases "w \<noteq> [] \<and> take (length w) s = w")
    case True
    then have "0 < length w" and "length w \<le> length s"
      by (auto dest: arg_cong [where f = length])
    then have "length s - length w < length s" by arith
    then have "length (drop (length w) s) < length s" by simp
    with True Cons.prems show ?thesis by simp
  next
    case False
    with Cons show ?thesis by (simp split: if_splits)
  qed
qed

function strip_prefixes :: "string list \<Rightarrow> string \<Rightarrow> string" where
  "strip_prefixes ws s = (case strip_one ws s of None \<Rightarrow> s | Some t \<Rightarrow> strip_prefixes ws t)"
  by pat_completeness auto
termination
  by (relation "measure (\<lambda>(ws, s). length s)") (auto dest: strip_one_shorter)

declare strip_prefixes.simps [simp del]

definition trim :: "string \<Rightarrow> string" where
  "trim s = rev (strip_prefixes (map rev js_spaces) (rev (strip_prefixes js_spaces s)))"

lemma strip_prefixes_stuck: "strip_one ws (strip_prefixes ws s) = None"
proof (induction ws s rule: strip_prefixes.induct)
  case (1 ws s)
  then show ?case
    by (cases "strip_one ws s") (simp_all add: strip_prefixes.simps [of ws s])
qed

lemma strip_prefixes_fix: "strip_one ws s = None \<Longrightarrow> strip_prefixes ws s = s"
  by (simp add: strip_prefixes.simps)

lemma strip_one_None: "strip_one ws s = None \<longleftrightarrow> (\<forall>w\<in>set ws. w \<noteq> [] \<longrightarrow> take (length w) s \<noteq> w)"
  by (induction ws) auto

lemma strip_one_front: "strip_one ws (s @ u) = None \<Longrightarrow> strip_one ws s = None"
proof -
  have "take (length w) s \<noteq> w" if "take (length w) (s @ u) \<noteq> w" for w
  proof
    assume "take (length w) s = w"
    then have "length w \<le> length s" by (metis length_take min.cobounded1)
    with that \<open>take (length w) s = w\<close> show False by simp
  qed
  then show "strip_one ws (s @ u) = None \<Longrightarrow> strip_one ws s = None"
    by (auto simp: strip_one_None)
qed

lemma strip_prefixes_suffix: "\<exists>u. s = u @ strip_prefixes ws s"
proof (induction ws s rule: strip_prefixes.induct)
  case (1 ws s)
  show ?case
  proof (cases "strip_one ws s")
    case None
    then show ?thesis by (simp add: strip_prefixes_fix)
  next
    case (Some t)
    have "\<exists>w. s = w @ t" using Some
      by (induction ws) (auto split: if_splits intro: append_take_drop_id [symmetric])
    moreover from 1 [OF Some] obtain u where "t = u @ strip_prefixes ws t" by blast
    ultimately obtain w where "s = (w @ u) @ strip_prefixes ws t" by auto
    moreover have "strip_prefixes ws s = strip_prefixes ws t"
      using Some by (simp add: strip_prefixes.simps [of ws s])
    ultimately show ?thesis by metis
  qed
qed

lemma trim_trim [simp]: "trim (trim s) = trim s"
proof -
  define a b where "a = strip_prefixes js_spaces s" and "b = strip_prefixes (map rev js_spaces) (rev a)"
  have t: "trim s = rev b" by (simp add: trim_def a_def b_def)
  from strip_prefixes_suffix [of "rev a" "map rev js_spaces"] obtain u where "rev a = u @ b" by (auto simp: b_def)
  then have "a = rev b @ rev u" by (metis rev_append rev_rev_ident)
  moreover have "strip_one js_spaces a = None" by (simp add: a_def strip_prefixes_stuck)
  ultimately have "strip_prefixes js_spaces (rev b) = rev b"
    by (intro strip_prefixes_fix) (metis strip_one_front)
  moreover have "strip_prefixes (map rev js_spaces) b = b"
    by (intro strip_prefixes_fix) (simp add: b_def strip_prefixes_stuck)
  ultimately show ?thesis unfolding t trim_def [of "rev b"] by simp
qed

text \<open>A text that starts and ends with a visible character is its own \<open>trim\<close>.\<close>

definition visible :: "string \<Rightarrow> bool" where
  "visible s = (case s of [] \<Rightarrow> False | c # _ \<Rightarrow> 33 \<le> (of_char c :: nat) \<and> (of_char c :: nat) < 127)"

lemma spaces_not_visible:
  "list_all (\<lambda>w. w \<noteq> [] \<and> \<not> visible w) js_spaces" "list_all (\<lambda>w. w \<noteq> [] \<and> \<not> visible w) (map rev js_spaces)"
  by code_simp+

lemma strip_visible:
  assumes "list_all (\<lambda>w. w \<noteq> [] \<and> \<not> visible w) ws" and "visible s"
  shows "strip_prefixes ws s = s"
proof -
  have "take (length w) s \<noteq> w" if "w \<in> set ws" for w
  proof
    assume w: "take (length w) s = w"
    from assms(1) that have "w \<noteq> []" "\<not> visible w" by (auto simp: list_all_iff)
    with w assms(2) show False by (cases w; cases s) (auto simp: visible_def)
  qed
  then show ?thesis by (intro strip_prefixes_fix) (simp add: strip_one_None)
qed

lemma visible_trim: "visible s \<Longrightarrow> visible (rev s) \<Longrightarrow> trim s = s"
  using strip_visible spaces_not_visible by (simp add: trim_def)

subsection \<open>Code units\<close>

text \<open>
  The UTF-16 code units of a well-formed text: what \<open>length\<close> counts and what \<open>sort\<close>
  compares by default.
\<close>

definition surrogates :: "nat \<Rightarrow> nat list" where
  "surrogates cp = [0xD800 + (cp - 0x10000) div 1024, 0xDC00 + (cp - 0x10000) mod 1024]"

fun code_units :: "nat list \<Rightarrow> nat list" where
  "code_units [] = []"
| "code_units (a # as) =
     (if a < 224 then
        (if a < 128 then a # code_units as
         else case as of b # bs \<Rightarrow> ((a mod 32) * 64 + b mod 64) # code_units bs | _ \<Rightarrow> [])
      else if a < 240 then
        (case as of b # c # cs \<Rightarrow> ((a mod 16) * 4096 + (b mod 64) * 64 + c mod 64) # code_units cs | _ \<Rightarrow> [])
      else
        (case as of b # c # d # ds \<Rightarrow>
             surrogates ((a mod 8) * 262144 + (b mod 64) * 4096 + (c mod 64) * 64 + d mod 64) @ code_units ds
         | _ \<Rightarrow> []))"

definition utf16_units :: "string \<Rightarrow> nat list" where
  "utf16_units s = code_units (map of_char s)"

definition utf16_length :: "string \<Rightarrow> nat" where
  "utf16_length s = length (utf16_units s)"

subsection \<open>Splitting\<close>

text \<open>\<open>split\<close> on one character: there is always at least one part.\<close>

fun split_on :: "char \<Rightarrow> string \<Rightarrow> string list" where
  "split_on d [] = [[]]"
| "split_on d (c # s) = (if c = d then [] # split_on d s
     else (case split_on d s of p # ps \<Rightarrow> (c # p) # ps | [] \<Rightarrow> [[c]]))"

lemma split_on_sep: "d \<notin> set s \<Longrightarrow> split_on d (s @ d # u) = s # split_on d u"
  by (induction s) auto

lemma split_on_none: "d \<notin> set s \<Longrightarrow> split_on d s = [s]"
  by (induction s) auto

lemma split_on_nonempty [simp]: "split_on d s \<noteq> []"
  by (induction s) (auto split: list.splits)

lemma split_on_parts: "p \<in> set (split_on d s) \<Longrightarrow> d \<notin> set p"
  by (induction s arbitrary: p) (auto split: list.splits if_splits)

end
