(* ===== verification/Cbor.thy ===== *)
theory Cbor
  imports JsValue
begin

text \<open>
  The CBOR codec of \<open>packages/wire/src/cbor.ts\<close>.  \<open>Writer\<close> appends to a byte list and
  \<open>Reader\<close> is its unread suffix, so \<open>encodeInto\<close> returns the bytes it appends
  and \<open>read\<close> returns a value with the bytes that follow it.  Both are total: the
  reader's recursion is justified by every item taking at least one byte.  The
  main results are the round trip of every value the wire can carry and the
  exact set of inputs on which it is lost.
\<close>

section \<open>Encoder\<close>

datatype cbor_error =
    UnexpectedEnd
  | UnsupportedInfo nat
  | UnsupportedSimple nat
  | UnsupportedMajor nat
  | InvalidUtf8
  | KeyNotString
  | TrailingBytes
  | CannotEncode string

text \<open>\<open>Writer.push\<close>\<close>

definition push :: "nat \<Rightarrow> bytes" where
  "push b = [byte_of (b AND 255)]"

text \<open>The loop \<open>for (shift = 8 * (n - 1); shift >= 0; shift -= 8)\<close> of \<open>Writer.head\<close>.\<close>

fun push_be :: "nat \<Rightarrow> nat \<Rightarrow> bytes" where
  "push_be 0 v = []"
| "push_be (Suc n) v = push (drop_bit (8 * n) v AND 255) @ push_be n v"

text \<open>\<open>Writer.head\<close>: the initial byte and its argument in the shortest form.\<close>

definition head :: "nat \<Rightarrow> nat \<Rightarrow> bytes" where
  "head major value =
     (let m = push_bit 5 major
      in if value < 24 then push (m OR value)
         else if value < 0x100 then push (m OR 24) @ push value
         else if value < 0x10000 then
           push (m OR 25) @ push (drop_bit 8 value) @ push (value AND 0xff)
         else if value < 0x100000000 then push (m OR 26) @ push_be 4 value
         else push (m OR 27) @ push_be 8 value)"

text \<open>\<open>Writer.float64\<close>\<close>

definition float64 :: "jsnum \<Rightarrow> bytes" where
  "float64 n = push 0xfb @ push_be 8 (f64_bits n)"

definition encodeInt :: "int \<Rightarrow> bytes" where
  "encodeInt value = (if 0 \<le> value then head 0 (nat value) else head 1 (nat (- 1 - value)))"

definition encodeText :: "string \<Rightarrow> bytes" where
  "encodeText s = (let bs = text_encode s in head 3 (length bs) @ bs)"

text \<open>
  A \<open>Uint8Array\<close> has no branch of its own: \<open>Object.keys\<close> lists its indexes, so it is
  written as a map from their decimal names to the bytes.
\<close>

definition bytes_entries :: "bytes \<Rightarrow> bytes" where
  "bytes_entries bs = concat (map (\<lambda>(i, b). encodeText (nat_digits i) @ encodeInt (int (unat b))) (enumerate 0 bs))"

fun encodeInto :: "jsval \<Rightarrow> cbor_error + bytes"
  and encodeItems :: "jsval list \<Rightarrow> cbor_error + bytes"
  and encodeEntries :: "(string \<times> jsval) list \<Rightarrow> cbor_error + bytes" where
  "encodeInto JNull = Inr (push 0xf6)"
| "encodeInto JUndef = Inr (push 0xf6)"
| "encodeInto (JFloat n) = Inr (float64 n)"
| "encodeInto (JBool b) = Inr (push (if b then 0xf5 else 0xf4))"
| "encodeInto (JBig i) = Inr (encodeInt i)"
| "encodeInto (JNum n) = Inr (if isInteger n then encodeInt (toBigInt n) else float64 n)"
| "encodeInto (JStr s) = Inr (encodeText s)"
| "encodeInto (JOther t) = Inl (CannotEncode t)"
| "encodeInto (JArr vs) = bind_result (encodeItems vs) (\<lambda>bs. Inr (head 4 (length vs) @ bs))"
| "encodeInto (JObj kvs) = bind_result (encodeEntries kvs) (\<lambda>bs. Inr (head 5 (length kvs) @ bs))"
| "encodeInto (JBytes bs) = Inr (head 5 (length bs) @ bytes_entries bs)"
| "encodeItems [] = Inr []"
| "encodeItems (v # vs) =
     bind_result (encodeInto v) (\<lambda>b. bind_result (encodeItems vs) (\<lambda>bs. Inr (b @ bs)))"
| "encodeEntries [] = Inr []"
| "encodeEntries ((k, v) # kvs) =
     bind_result (encodeInto v) (\<lambda>b. bind_result (encodeEntries kvs) (\<lambda>bs. Inr (encodeText k @ b @ bs)))"

definition encode :: "jsval \<Rightarrow> cbor_error + bytes" where
  "encode value = encodeInto value"

section \<open>Decoder\<close>

text \<open>\<open>Reader.byte\<close>, \<open>Reader.take\<close>\<close>

fun rd_byte :: "bytes \<Rightarrow> cbor_error + nat \<times> bytes" where
  "rd_byte [] = Inl UnexpectedEnd"
| "rd_byte (b # bs) = Inr (unat b, bs)"

definition rd_take :: "nat \<Rightarrow> bytes \<Rightarrow> cbor_error + bytes \<times> bytes" where
  "rd_take n bs = (if length bs < n then Inl UnexpectedEnd else Inr (take n bs, drop n bs))"

text \<open>The loop \<open>v = (v << 8n) | BigInt(this.byte())\<close>, \<open>n\<close> times.\<close>

fun rd_be :: "nat \<Rightarrow> nat \<Rightarrow> bytes \<Rightarrow> cbor_error + nat \<times> bytes" where
  "rd_be 0 v bs = Inr (v, bs)"
| "rd_be (Suc n) v bs = bind_result (rd_byte bs) (\<lambda>(b, bs'). rd_be n (push_bit 8 v OR b) bs')"

text \<open>\<open>Reader.arg\<close>\<close>

definition rd_arg :: "nat \<Rightarrow> bytes \<Rightarrow> cbor_error + nat \<times> bytes" where
  "rd_arg ai bs =
     (if ai < 24 then Inr (ai, bs)
      else if ai = 24 then rd_byte bs
      else if ai = 25 then
        bind_result (rd_byte bs) (\<lambda>(a, bs'). bind_result (rd_byte bs') (\<lambda>(b, bs''). Inr (push_bit 8 a OR b, bs'')))
      else if ai = 26 then rd_be 4 0 bs
      else if ai = 27 then rd_be 8 0 bs
      else Inl (UnsupportedInfo ai))"

text \<open>\<open>Reader.numeric\<close>\<close>

definition numeric :: "int \<Rightarrow> jsval" where
  "numeric v = (if v \<le> MAX_SAFE \<and> - MAX_SAFE \<le> v then JNum (NInt v) else JBig v)"

definition be_value :: "bytes \<Rightarrow> nat" where
  "be_value bs = foldl (\<lambda>v b. 256 * v + unat b) 0 bs"

text \<open>\<open>decodeFloat16\<close>: the half-precision pattern as a number.\<close>

definition decodeFloat16 :: "bytes \<Rightarrow> jsnum" where
  "decodeFloat16 bs =
     (let half = be_value bs; neg = (half AND 0x8000 \<noteq> 0);
          e = drop_bit 10 half AND 0x1f; mant = half AND 0x3ff
      in if e = 0 then dyadic neg mant (- 24) (dyadic_bits neg mant (- 24))
         else if e = 31 then NFlt (if mant \<noteq> 0 then nan_bits else inf_bits neg)
         else dyadic neg (mant + 1024) (int e - 25) (dyadic_bits neg (mant + 1024) (int e - 25)))"

text \<open>\<open>Reader.simple\<close>\<close>

definition rd_simple :: "nat \<Rightarrow> bytes \<Rightarrow> cbor_error + jsval \<times> bytes" where
  "rd_simple ai bs =
     (if ai = 20 then Inr (JBool False, bs)
      else if ai = 21 then Inr (JBool True, bs)
      else if ai = 22 \<or> ai = 23 then Inr (JNull, bs)
      else if ai = 25 then bind_result (rd_take 2 bs) (\<lambda>(p, bs'). Inr (JNum (decodeFloat16 p), bs'))
      else if ai = 26 then bind_result (rd_take 4 bs) (\<lambda>(p, bs'). Inr (JNum (f32_read (be_value p)), bs'))
      else if ai = 27 then bind_result (rd_take 8 bs) (\<lambda>(p, bs'). Inr (JNum (f64_read (be_value p)), bs'))
      else Inl (UnsupportedSimple ai))"

text \<open>
  \<open>String(key)\<close> of a decoded key.  What it gives for the rarer keys (fractions,
  integers of 22 digits and more, byte strings, arrays, maps) is the argument
  \<open>other\<close>, with \<open>None\<close> for a conversion that throws.
\<close>

fun key_string :: "(jsval \<Rightarrow> string option) \<Rightarrow> jsval \<Rightarrow> string option" where
  "key_string other (JStr s) = Some s"
| "key_string other (JNum (NInt i)) =
     (if \<bar>i\<bar> < 10 ^ 21 then Some (int_digits i) else other (JNum (NInt i)))"
| "key_string other (JBig i) = Some (int_digits i)"
| "key_string other (JBool b) = Some (if b then ''true'' else ''false'')"
| "key_string other JNull = Some ''null''"
| "key_string other v = other v"

text \<open>
  \<open>obj[String(key)] = value\<close> on the object under construction.  Assigning to
  \<open>__proto__\<close> runs the inherited setter, which adds no property of the object's own.
\<close>

definition assign :: "(string \<times> jsval) list \<Rightarrow> string \<Rightarrow> jsval \<Rightarrow> (string \<times> jsval) list" where
  "assign ob k v = (if k = ''__proto__'' then ob else obj_set ob k v)"

text \<open>\<open>Reader.read\<close> with its two loops, over the array items and over the map entries.\<close>

function read :: "(jsval \<Rightarrow> string option) \<Rightarrow> bytes \<Rightarrow> cbor_error + jsval \<times> bytes"
  and readItems :: "(jsval \<Rightarrow> string option) \<Rightarrow> nat \<Rightarrow> bytes \<Rightarrow> cbor_error + jsval list \<times> bytes"
  and readEntries :: "(jsval \<Rightarrow> string option) \<Rightarrow> nat \<Rightarrow> (string \<times> jsval) list \<Rightarrow> bytes
        \<Rightarrow> cbor_error + (string \<times> jsval) list \<times> bytes" where
  "read other [] = Inl UnexpectedEnd"
| "read other (b # bs) =
     (let initial = unat b; major = drop_bit 5 initial; ai = initial AND 0x1f
      in if major = 0 then bind_result (rd_arg ai bs) (\<lambda>(v, r). Inr (numeric (int v), r))
         else if major = 1 then bind_result (rd_arg ai bs) (\<lambda>(v, r). Inr (numeric (- 1 - int v), r))
         else if major = 2 then
           bind_result (rd_arg ai bs) (\<lambda>(n, r). bind_result (rd_take n r) (\<lambda>(p, r'). Inr (JBytes p, r')))
         else if major = 3 then
           bind_result (rd_arg ai bs) (\<lambda>(n, r). bind_result (rd_take n r)
             (\<lambda>(p, r'). case text_decode p of None \<Rightarrow> Inl InvalidUtf8 | Some s \<Rightarrow> Inr (JStr s, r')))
         else if major = 4 then
           bind_result (rd_arg ai bs)
             (\<lambda>(n, r). bind_result (readItems other n r) (\<lambda>(vs, r'). Inr (JArr vs, r')))
         else if major = 5 then
           bind_result (rd_arg ai bs)
             (\<lambda>(n, r). bind_result (readEntries other n [] r) (\<lambda>(ob, r'). Inr (JObj ob, r')))
         else if major = 7 then rd_simple ai bs
         else Inl (UnsupportedMajor major))"
| "readItems other 0 bs = Inr ([], bs)"
| "readItems other (Suc n) bs =
     bind_result (read other bs)
       (\<lambda>(v, r). bind_result (readItems other n r) (\<lambda>(vs, r'). Inr (v # vs, r')))"
| "readEntries other 0 ob bs = Inr (ob, bs)"
| "readEntries other (Suc n) ob bs =
     bind_result (read other bs)
       (\<lambda>(key, r). case key_string other key of None \<Rightarrow> Inl KeyNotString
          | Some k \<Rightarrow> bind_result (read other r) (\<lambda>(v, r'). readEntries other n (assign ob k v) r'))"
  by pat_completeness auto

lemma rd_byte_length: "rd_byte bs = Inr (v, r) \<Longrightarrow> length r < length bs"
  by (cases bs) auto

lemma rd_be_length: "rd_be n v bs = Inr (w, r) \<Longrightarrow> length r \<le> length bs"
proof (induction n arbitrary: v bs)
  case (Suc n)
  then obtain b bs' where "rd_byte bs = Inr (b, bs')" and "rd_be n (push_bit 8 v OR b) bs' = Inr (w, r)"
    by (auto simp: bind_result_eq_Inr)
  with Suc.IH [of _ bs'] rd_byte_length [of bs] show ?case by fastforce
qed simp

lemma rd_arg_length: "rd_arg ai bs = Inr (v, r) \<Longrightarrow> length r \<le> length bs"
  by (auto simp: rd_arg_def bind_result_eq_Inr split: if_splits dest!: rd_byte_length rd_be_length)

lemma rd_take_length: "rd_take n bs = Inr (p, r) \<Longrightarrow> length r \<le> length bs"
  by (auto simp: rd_take_def split: if_splits)

lemma rd_arg_take_length:
  "rd_arg ai bs = Inr (n, q) \<Longrightarrow> rd_take n q = Inr (p, r) \<Longrightarrow> length r \<le> length bs"
  using rd_arg_length rd_take_length by fastforce

lemma rd_simple_length: "rd_simple ai bs = Inr (v, r) \<Longrightarrow> length r \<le> length bs"
  by (auto simp: rd_simple_def bind_result_eq_Inr split: if_splits dest!: rd_take_length)

lemma read_length_dom:
  "read_readItems_readEntries_dom (Inl (other, bs)) \<Longrightarrow> read other bs = Inr (v, r) \<Longrightarrow> length r < length bs"
  "read_readItems_readEntries_dom (Inr (Inl (other, n, bs))) \<Longrightarrow> readItems other n bs = Inr (vs, r) \<Longrightarrow>
     length r \<le> length bs"
  "read_readItems_readEntries_dom (Inr (Inr (other, n, ob, bs))) \<Longrightarrow> readEntries other n ob bs = Inr (ob', r) \<Longrightarrow>
     length r \<le> length bs"
proof (induction other bs and other n bs and other n ob bs arbitrary: v r and vs r and ob' r
       rule: read_readItems_readEntries.pinduct)
  case (1 other)
  then show ?case by (simp add: read.psimps)
next
  case (2 other b bs)
  let ?ai = "unat b AND 0x1f"
  have items: "length r \<le> length bs"
    if "drop_bit 5 (unat b) = 4" "rd_arg ?ai bs = Inr (n, q)" "readItems other n q = Inr (vs, r)" for n q vs r
    using "2.IH"(1) [OF refl refl refl _ _ _ _ _ that(2) refl, of vs r] that rd_arg_length [OF that(2)] by simp
  have entries: "length r \<le> length bs"
    if "drop_bit 5 (unat b) = 5" "rd_arg ?ai bs = Inr (n, q)" "readEntries other n [] q = Inr (ob, r)" for n q ob r
    using "2.IH"(2) [OF refl refl refl _ _ _ _ _ _ that(2) refl, of ob r] that rd_arg_length [OF that(2)] by simp
  from "2.hyps" "2.prems" show ?case
    by (auto simp: read.psimps Let_def bind_result_eq_Inr less_Suc_eq_le split: if_splits option.splits
          intro: items entries rd_arg_length rd_simple_length rd_arg_take_length)
next
  case (3 other bs)
  then show ?case by (simp add: readItems.psimps)
next
  case (4 other n bs)
  then show ?case by (fastforce simp: readItems.psimps bind_result_eq_Inr)
next
  case (5 other ob bs)
  then show ?case by (simp add: readEntries.psimps)
next
  case (6 other n ob bs)
  then show ?case
    by (fastforce simp: readEntries.psimps bind_result_eq_Inr split: option.splits)
qed

text \<open>
  Every recursive call is on fewer unread bytes, or on as many with fewer items to
  go, so the reader returns on every input.
\<close>

lemma read_returns: "All read_readItems_readEntries_dom"
  by (rule "read_readItems_readEntries.termination" [where R = "measures [
        \<lambda>x. case x of Inl (_, bs) \<Rightarrow> length bs | Inr (Inl (_, _, bs)) \<Rightarrow> length bs | Inr (Inr (_, _, _, bs)) \<Rightarrow> length bs,
        \<lambda>x. case x of Inl _ \<Rightarrow> 0 | Inr (Inl (_, n, _)) \<Rightarrow> Suc n | Inr (Inr (_, n, _, _)) \<Rightarrow> Suc n]"])
    (auto dest: rd_arg_length read_length_dom(1) intro: less_trans)

termination read
  by (rule read_returns)

text \<open>\<open>decode\<close>: one item, and nothing after it.\<close>

definition decode :: "(jsval \<Rightarrow> string option) \<Rightarrow> bytes \<Rightarrow> cbor_error + jsval" where
  "decode other bs =
     bind_result (read other bs) (\<lambda>(v, r). if r = [] then Inr v else Inl TrailingBytes)"

lemma read_rest_length:
  "read other bs = Inr (v, r) \<Longrightarrow> length r < length bs"
  "readItems other n bs = Inr (vs, r) \<Longrightarrow> length r \<le> length bs"
  "readEntries other n ob bs = Inr (ob', r) \<Longrightarrow> length r \<le> length bs"
  using read_length_dom read_returns by blast+

section \<open>What a value becomes on the wire\<close>

text \<open>
  The value a decoder gives back: \<open>undefined\<close> is \<open>null\<close>, a forced float is a plain
  number, integers beyond the safe range are big integers and safe big integers
  are numbers, minus zero written as an integer is zero, and a byte array is an
  object keyed by its indexes.
\<close>

fun norm :: "jsval \<Rightarrow> jsval" where
  "norm JUndef = JNull"
| "norm (JFloat n) = JNum n"
| "norm (JNum n) = (if isInteger n then numeric (toBigInt n) else JNum n)"
| "norm (JBig i) = numeric i"
| "norm (JArr vs) = JArr (map norm vs)"
| "norm (JObj kvs) = JObj (map (\<lambda>(k, v). (k, norm v)) kvs)"
| "norm (JBytes bs) = JObj (map (\<lambda>(i, b). (nat_digits i, JNum (NInt (int (unat b))))) (enumerate 0 bs))"
| "norm v = v"

definition int_ok :: "int \<Rightarrow> bool" where
  "int_ok i \<longleftrightarrow> - (2 ^ 64) \<le> i \<and> i < 2 ^ 64"

definition str_ok :: "string \<Rightarrow> bool" where
  "str_ok s \<longleftrightarrow> text_ok s \<and> length s < 2 ^ 64"

fun wire_ok :: "jsval \<Rightarrow> bool" where
  "wire_ok (JNum n) = (number_ok n \<and> (isInteger n \<longrightarrow> int_ok (toBigInt n)))"
| "wire_ok (JFloat n) = number_ok n"
| "wire_ok (JBig i) = int_ok i"
| "wire_ok (JStr s) = str_ok s"
| "wire_ok (JBytes bs) = (length bs < 2 ^ 32)"
| "wire_ok (JArr vs) = (length vs < 2 ^ 64 \<and> list_all wire_ok vs)"
| "wire_ok (JObj kvs) =
     (length kvs < 2 ^ 64 \<and> obj_ok kvs \<and>
      list_all (\<lambda>(k, v). str_ok k \<and> k \<noteq> ''__proto__'' \<and> wire_ok v) kvs)"
| "wire_ok (JOther t) = False"
| "wire_ok v = True"

text \<open>
  Field names of the protocol are plain: ASCII, not starting with a digit, and not
  the name of the prototype.  An object built from such names is in the order the
  encoder visits it.
\<close>

definition name_ok :: "string \<Rightarrow> bool" where
  "name_ok k \<longleftrightarrow> ascii k \<and> length k < 2 ^ 32 \<and> k \<noteq> ''__proto__'' \<and>
     (case k of [] \<Rightarrow> False | c # _ \<Rightarrow> \<not> is_digit c)"

lemma str_ok_ascii: "ascii s \<Longrightarrow> length s < 2 ^ 64 \<Longrightarrow> str_ok s"
  by (simp add: str_ok_def ascii_text_ok)

lemma name_ok_str: "name_ok k \<Longrightarrow> str_ok k"
  by (simp add: name_ok_def str_ok_ascii)

lemma name_ok_index: "name_ok k \<Longrightarrow> key_index k = None"
  by (auto simp: name_ok_def key_index_letter split: list.splits)

lemma wire_ok_record:
  assumes "list_all (\<lambda>(k, v). name_ok k \<and> wire_ok v) kvs" and "distinct (map fst kvs)"
    and "length kvs < 2 ^ 64"
  shows "wire_ok (JObj kvs)"
proof -
  have "obj_ok kvs"
    using assms(1,2) by (intro obj_ok_plain_keys) (auto simp: list_all_iff name_ok_index)
  with assms show ?thesis
    by (auto simp: list_all_iff name_ok_str) (auto simp: name_ok_def)
qed

lemma wire_ok_small [simp]: "\<bar>i\<bar> < 2 ^ 53 \<Longrightarrow> wire_ok (JNum (NInt i))"
  by (auto simp: number_ok_small isInteger_def toBigInt_def int_ok_def)

section \<open>Round trip\<close>

lemma push_be_length [simp]: "length (push_be n v) = n"
  by (induction n) (simp_all add: push_def)

lemma rd_be_push_be [codec_simps]:
  "rd_be n w (push_be n v @ r) = Inr (w * 256 ^ n + v mod 256 ^ n, r)"
proof (induction n arbitrary: w)
  case 0
  then show ?case by simp
next
  case (Suc n)
  have "v mod 256 ^ Suc n = v div 256 ^ n mod 256 * 256 ^ n + v mod 256 ^ n"
    using mod_mult2_eq [of v "256 ^ n" 256] by (simp add: mult.commute)
  moreover have "drop_bit (8 * n) v = v div 256 ^ n"
    by (simp add: drop_bit_eq_div power_mult)
  moreover have "push_bit 8 w OR (v div 256 ^ n mod 256) = w * 256 + v div 256 ^ n mod 256"
    using shift_or_eq_add [of "v div 256 ^ n mod 256" 8 w] by simp
  ultimately show ?case
    using Suc by (simp add: push_def algebra_simps)
qed

lemma initial_byte:
  assumes "major < 8" and "ai < 32"
  shows "unat (byte_of ((push_bit 5 major OR ai) AND 255)) = major * 32 + ai"
    and "drop_bit 5 (major * 32 + ai :: nat) = major"
    and "(major * 32 + ai) AND (31 :: nat) = ai"
proof -
  have eq: "push_bit 5 major OR ai = major * 32 + ai"
    using assms shift_or_eq_add [of ai 5 major] by simp
  have "major * 32 + ai < 256" using assms by simp
  then show "unat (byte_of ((push_bit 5 major OR ai) AND 255)) = major * 32 + ai"
    unfolding eq and_255 unat_byte_of by simp
  show "drop_bit 5 (major * 32 + ai :: nat) = major" and "(major * 32 + ai) AND (31 :: nat) = ai"
    using assms by (simp_all add: drop_bit_eq_div and_31)
qed

text \<open>Reading the initial byte and argument that \<open>head\<close> wrote.\<close>

definition heads :: "nat \<Rightarrow> nat \<Rightarrow> byte \<Rightarrow> bytes \<Rightarrow> bool" where
  "heads major v b hs \<longleftrightarrow> drop_bit 5 (unat b) = major \<and> (\<forall>r. rd_arg (unat b AND 31) (hs @ r) = Inr (v, r))"

lemma push_heads:
  assumes "major < 8" and "ai < 32" and "\<And>r. rd_arg ai (hs @ r) = Inr (v, r)"
  shows "heads major v (byte_of ((push_bit 5 major OR ai) AND 255)) hs"
  unfolding heads_def initial_byte(1) [OF assms(1,2)]
  using initial_byte(2,3) [OF assms(1,2)] assms(3) by simp

lemma head_heads_wrap:
  assumes "major < 8"
  shows "\<exists>b hs. head major v = b # hs \<and> heads major (v mod 2 ^ 64) b hs"
proof -
  consider "v < 24" | "24 \<le> v" "v < 0x100" | "0x100 \<le> v" "v < 0x10000"
    | "0x10000 \<le> v" "v < 0x100000000" | "0x100000000 \<le> v"
    by linarith
  then show ?thesis
  proof cases
    case 1
    then show ?thesis using push_heads [OF assms, of v "[]" v]
      by (simp add: head_def Let_def push_def rd_arg_def)
  next
    case 2
    then show ?thesis using push_heads [OF assms, of 24 "push v" v]
      by (simp add: head_def Let_def push_def rd_arg_def)
  next
    case 3
    have "push_bit 8 (v div 256 mod 256) OR (v mod 256) = v"
      using shift_or_eq_add [of "v mod 256" 8 "v div 256 mod 256"] 3 by simp
    with 3 show ?thesis
      using push_heads [OF assms, of 25 "push (drop_bit 8 v) @ push (v AND 0xff)" v]
      by (simp add: head_def Let_def push_def rd_arg_def drop_bit_eq_div)
  next
    case 4
    then show ?thesis using push_heads [OF assms, of 26 "push_be 4 v" v]
      by (simp add: head_def Let_def push_def [of "push_bit 5 major OR 26"] rd_arg_def codec_simps)
  next
    case 5
    then show ?thesis using push_heads [OF assms, of 27 "push_be 8 v" "v mod 2 ^ 64"]
      by (simp add: head_def Let_def push_def [of "push_bit 5 major OR 27"] rd_arg_def codec_simps)
  qed
qed

lemma head_heads:
  assumes "major < 8" and "v < 2 ^ 64"
  shows "\<exists>b hs. head major v = b # hs \<and> heads major v b hs"
  using head_heads_wrap [OF assms(1), of v] assms(2) by simp

lemma be_value_push_be [codec_simps]: "be_value (push_be n v) = v mod 256 ^ n"
proof -
  have fold: "foldl (\<lambda>v b. 256 * v + unat b) w bs = w * 256 ^ length bs + be_value bs" for w :: nat and bs :: bytes
  proof (induction bs arbitrary: w rule: rev_induct)
    case (snoc b bs)
    have "be_value (bs @ [b]) = 256 * be_value bs + unat b" by (simp add: be_value_def)
    with snoc show ?case by (simp add: algebra_simps)
  qed (simp add: be_value_def)
  have "rd_be n w bs = Inr (foldl (\<lambda>v b. 256 * v + unat b) w bs, [])" if "length bs = n" for w bs
    using that by (induction n arbitrary: w bs) (auto simp: length_Suc_conv algebra_simps)
  from this [of "push_be n v" 0] rd_be_push_be [of n 0 v "[]"] show ?thesis
    by (simp add: be_value_def)
qed

subsection \<open>Reading each kind of item\<close>

lemma f64_roundtrip:
  assumes "number_ok n"
  shows "f64_read (f64_bits n) = n" and "f64_bits n < 2 ^ 64"
  using assms f64_roundtrip_Int
  by (cases n; simp add: f64_bits_def number_ok_def)+

lemma read_int [codec_simps]:
  assumes "int_ok i"
  shows "read other (encodeInt i @ r) = Inr (numeric i, r)"
proof (cases "0 \<le> i")
  case True
  then obtain b hs where "head 0 (nat i) = b # hs" "heads 0 (nat i) b hs"
    using assms head_heads [of 0 "nat i"] by (auto simp: int_ok_def nat_less_iff)
  with True show ?thesis by (simp add: encodeInt_def heads_def Let_def)
next
  case False
  then obtain b hs where "head 1 (nat (- 1 - i)) = b # hs" "heads 1 (nat (- 1 - i)) b hs"
    using assms head_heads [of 1 "nat (- 1 - i)"] by (auto simp: int_ok_def nat_less_iff)
  with False show ?thesis by (simp add: encodeInt_def heads_def Let_def)
qed

lemma read_text [codec_simps]:
  assumes "str_ok s"
  shows "read other (encodeText s @ r) = Inr (JStr s, r)"
proof -
  obtain b hs where "head 3 (length s) = b # hs" "heads 3 (length s) b hs"
    using assms head_heads [of 3 "length s"] by (auto simp: str_ok_def)
  then show ?thesis
    using assms by (simp add: encodeText_def heads_def Let_def rd_take_def str_ok_def codec_simps)
qed

lemma read_float [codec_simps]:
  assumes "number_ok n"
  shows "read other (float64 n @ r) = Inr (JNum n, r)"
proof -
  have "unat (251 :: byte) = 251" by simp
  moreover have "drop_bit 5 (251 :: nat) = 7" and "(251 :: nat) AND 31 = 27"
    by (simp_all add: drop_bit_eq_div and_31)
  ultimately show ?thesis
    using f64_roundtrip [OF assms]
    by (simp add: float64_def push_def Let_def rd_simple_def rd_take_def codec_simps)
qed

lemma read_array:
  assumes "n < 2 ^ 64"
  shows "read other (head 4 n @ q) = bind_result (readItems other n q) (\<lambda>(vs, r). Inr (JArr vs, r))"
proof -
  obtain b hs where "head 4 n = b # hs" "heads 4 n b hs"
    using assms head_heads [of 4 n] by auto
  then show ?thesis by (simp add: heads_def Let_def)
qed

lemma read_map:
  assumes "n < 2 ^ 64"
  shows "read other (head 5 n @ q) = bind_result (readEntries other n [] q) (\<lambda>(ob, r). Inr (JObj ob, r))"
proof -
  obtain b hs where "head 5 n = b # hs" "heads 5 n b hs"
    using assms head_heads [of 5 n] by auto
  then show ?thesis by (simp add: heads_def Let_def)
qed

lemma read_simple_byte:
  "read other (push 0xf6 @ r) = Inr (JNull, r)"
  "read other (push (if b then 0xf5 else 0xf4) @ r) = Inr (JBool b, r)"
proof -
  have "unat (246 :: byte) = 246" "unat (245 :: byte) = 245" "unat (244 :: byte) = 244" by simp_all
  moreover have "drop_bit 5 (246 :: nat) = 7" "drop_bit 5 (245 :: nat) = 7" "drop_bit 5 (244 :: nat) = 7"
    by (simp_all add: drop_bit_eq_div)
  moreover have "(246 :: nat) AND 31 = 22" "(245 :: nat) AND 31 = 21" "(244 :: nat) AND 31 = 20"
    by (simp_all add: and_31)
  ultimately show "read other (push 0xf6 @ r) = Inr (JNull, r)"
    and "read other (push (if b then 0xf5 else 0xf4) @ r) = Inr (JBool b, r)"
    by (simp_all add: push_def rd_simple_def Let_def)
qed

lemma readEntries_step:
  assumes "str_ok k" and "k \<noteq> ''__proto__''" and "\<And>r. read other (b @ r) = Inr (v, r)"
    and "obj_ok (acc @ [(k, v)])"
  shows "readEntries other (Suc n) acc (encodeText k @ b @ q) = readEntries other n (acc @ [(k, v)]) q"
  using assms by (simp add: codec_simps assign_def obj_set_append)

subsection \<open>Byte arrays\<close>

lemma byte_keys_ok:
  assumes "i + length bs < 2 ^ 32"
  shows "sorted_wrt key_before (map (\<lambda>(i, b). nat_digits i) (enumerate i bs))"
  using assms
proof (induction bs arbitrary: i)
  case (Cons b bs)
  have "key_before (nat_digits i) (nat_digits j)" if "i < j" "j < i + length (b # bs)" for j
    using that Cons.prems key_index_nat_digits [of i] key_index_nat_digits [of j]
    by (auto simp: key_before_def key_below_def dest: nat_digits_inject)
  with Cons show ?case by (auto simp: in_set_enumerate_eq)
qed simp

lemma str_ok_digits: "n < 2 ^ 32 \<Longrightarrow> str_ok (nat_digits n)"
proof -
  have "length (nat_digits n) \<le> Suc n" for n
    by (induction n rule: nat_digits.induct) (subst nat_digits.simps, auto)
  then have "length (nat_digits n) \<le> Suc n" .
  moreover have "text_ok (nat_digits n)"
    using ascii_text_ok is_digit_ascii nat_digits_digits by blast
  ultimately show "n < 2 ^ 32 \<Longrightarrow> str_ok (nat_digits n)" by (simp add: str_ok_def)
qed

lemma digits_not_proto: "nat_digits n \<noteq> ''__proto__''"
  using nat_digits_digits [of n] by (auto simp: is_digit_def)

lemma read_byte_entries:
  fixes bs :: bytes
  assumes "i + length bs < 2 ^ 32"
    and "obj_ok (acc @ map (\<lambda>(i, b). (nat_digits i, JNum (NInt (int (unat b))))) (enumerate i bs))"
  shows "readEntries other (length bs) acc
           (concat (map (\<lambda>(i, b). encodeText (nat_digits i) @ encodeInt (int (unat b))) (enumerate i bs)) @ r)
         = Inr (acc @ map (\<lambda>(i, b). (nat_digits i, JNum (NInt (int (unat b))))) (enumerate i bs), r)"
  using assms
proof (induction bs arbitrary: i acc)
  case (Cons b bs)
  have small: "int (unat b) \<le> 255" "0 \<le> int (unat b)" using unat_byte_less [of b] by linarith+
  have "int_ok i \<and> numeric i = JNum (NInt i)" if "i \<le> 255" "0 \<le> i" for i
    using that by (simp add: int_ok_def numeric_def MAX_SAFE_def)
  from this [OF small] have "int_ok (int (unat b))" and "numeric (int (unat b)) = JNum (NInt (int (unat b)))"
    by auto
  then have val: "read other (encodeInt (int (unat b)) @ q) = Inr (JNum (NInt (int (unat b))), q)" for q
    by (simp only: read_int)
  have "str_ok (nat_digits i)" using Cons.prems(1) by (intro str_ok_digits) simp
  note step = readEntries_step [OF this digits_not_proto val]
  have "obj_ok (acc @ [(nat_digits i, JNum (NInt (int (unat b))))])"
    using Cons.prems(2) obj_ok_append1 [of "acc @ [(nat_digits i, JNum (NInt (int (unat b))))]"] by simp
  with Cons step [of acc] show ?case by simp
qed simp

subsection \<open>All values\<close>

lemma obj_ok_norm: "obj_ok (map (\<lambda>(k, v). (k, f v)) kvs) = obj_ok kvs"
  by (simp add: obj_ok_def comp_def case_prod_unfold)

lemma read_encode_all:
  "wire_ok v \<Longrightarrow> \<exists>bs. encodeInto v = Inr bs \<and> (\<forall>r. read other (bs @ r) = Inr (norm v, r))"
  "list_all wire_ok vs \<Longrightarrow> \<exists>bs. encodeItems vs = Inr bs \<and>
     (\<forall>r. readItems other (length vs) (bs @ r) = Inr (map norm vs, r))"
  "list_all (\<lambda>(k, v). str_ok k \<and> k \<noteq> ''__proto__'' \<and> wire_ok v) kvs \<Longrightarrow>
     \<exists>bs. encodeEntries kvs = Inr bs \<and>
       (\<forall>acc r. obj_ok (acc @ map (\<lambda>(k, v). (k, norm v)) kvs) \<longrightarrow>
          readEntries other (length kvs) acc (bs @ r) = Inr (acc @ map (\<lambda>(k, v). (k, norm v)) kvs, r))"
proof (induction v and vs and kvs rule: encodeInto_encodeItems_encodeEntries.induct)
  case (9 vs)
  then show ?case by (auto simp: read_array)
next
  case (10 kvs)
  then obtain bs where bs: "encodeEntries kvs = Inr bs"
    and rd: "obj_ok (map (\<lambda>(k, v). (k, norm v)) kvs) \<Longrightarrow>
        readEntries other (length kvs) [] (bs @ r) = Inr (map (\<lambda>(k, v). (k, norm v)) kvs, r)" for r
    by fastforce
  with 10 show ?case by (auto simp: read_map obj_ok_norm)
next
  case (11 bs)
  then have "obj_ok (map (\<lambda>(i, b). (nat_digits i, JNum (NInt (int (unat b))))) (enumerate 0 bs))"
    using byte_keys_ok [of 0 bs] by (simp add: obj_ok_def comp_def case_prod_unfold)
  with 11 show ?case
    using read_byte_entries [of 0 bs "[]"] by (auto simp: read_map bytes_entries_def)
next
  case (13 v vs)
  then show ?case by (auto simp: bind_result_eq_Inr)
next
  case (15 k v kvs)
  then obtain b bs where b: "encodeInto v = Inr b" "\<And>r. read other (b @ r) = Inr (norm v, r)"
    and bs: "encodeEntries kvs = Inr bs"
      "\<And>acc r. obj_ok (acc @ map (\<lambda>(k, v). (k, norm v)) kvs) \<Longrightarrow>
         readEntries other (length kvs) acc (bs @ r) = Inr (acc @ map (\<lambda>(k, v). (k, norm v)) kvs, r)"
    by auto
  have "readEntries other (Suc (length kvs)) acc (encodeText k @ b @ bs @ r) =
        Inr (acc @ (k, norm v) # map (\<lambda>(k, v). (k, norm v)) kvs, r)"
    if ok: "obj_ok (acc @ (k, norm v) # map (\<lambda>(k, v). (k, norm v)) kvs)" for acc r
  proof -
    have "obj_ok (acc @ [(k, norm v)])"
      using ok obj_ok_append1 [of "acc @ [(k, norm v)]"] by simp
    with 15 b(2) have "readEntries other (Suc (length kvs)) acc (encodeText k @ b @ bs @ r) =
        readEntries other (length kvs) (acc @ [(k, norm v)]) (bs @ r)"
      by (intro readEntries_step) auto
    then show ?thesis using bs(2) [of "acc @ [(k, norm v)]" r] ok by simp
  qed
  with b(1) bs(1) show ?case by simp
qed (auto simp: codec_simps read_simple_byte)

text \<open>The encoder as a function on the values it can carry, an instance of the codec contract.\<close>

definition wire_bytes :: "jsval \<Rightarrow> bytes" where
  "wire_bytes v = (case encodeInto v of Inr bs \<Rightarrow> bs | Inl _ \<Rightarrow> [])"

interpretation cbor: item_codec wire_ok wire_bytes "read other" norm
  for other
proof
  fix v r
  assume "wire_ok v"
  then obtain bs where "encodeInto v = Inr bs" "\<forall>r. read other (bs @ r) = Inr (norm v, r)"
    using read_encode_all(1) by blast
  then show "read other (wire_bytes v @ r) = Inr (norm v, r)" by (simp add: wire_bytes_def)
qed

lemma encode_wire_bytes: "wire_ok v \<Longrightarrow> encode v = Inr (wire_bytes v)"
  using read_encode_all(1) [of v "\<lambda>_. None"] by (auto simp: encode_def wire_bytes_def)

lemma decode_wire_bytes [codec_simps]: "wire_ok v \<Longrightarrow> decode other (wire_bytes v) = Inr (norm v)"
  using cbor.dec_enc_only [of v other] by (simp add: decode_def)

section \<open>Items are self-delimiting\<close>

text \<open>A successful read never looks past the item: more input only grows what is left over.\<close>

lemma rd_byte_stable [stable_intros]: "stable_at rd_byte bs"
  by (cases bs) (auto simp: stable_at_def)

lemma rd_take_stable [stable_intros]: "stable_at (rd_take n) bs"
  by (auto simp: stable_at_def rd_take_def)

lemma rd_be_stable [stable_intros]: "stable_at (rd_be n v) bs"
proof (induction n arbitrary: v bs)
  case 0
  then show ?case by (simp add: stable_at_def)
next
  case (Suc n)
  then show ?case unfolding rd_be.simps by (intro stable_intros)
qed

lemma rd_arg_stable [stable_intros]: "stable_at (rd_arg ai) bs"
  unfolding rd_arg_def by (intro stable_intros)

lemma rd_simple_stable [stable_intros]: "stable_at (rd_simple ai) bs"
  unfolding rd_simple_def by (intro stable_intros)

lemma stable_Cons: "stable_at p (b # bs) = stable_at (\<lambda>bs. p (b # bs)) bs"
  by (simp add: stable_at_def)

lemma read_stable_all:
  "stable_at (read other) bs"
  "stable_at (readItems other n) bs"
  "stable_at (readEntries other n ob) bs"
proof (induction other bs and other n bs and other n ob bs rule: read_readItems_readEntries.induct)
  case (1 other)
  then show ?case by (simp add: stable_at_def)
next
  case (2 other b bs)
  show ?case
    unfolding stable_Cons read.simps Let_def
    by (intro stable_intros "2.IH") simp_all
next
  case (4 other n bs)
  show ?case unfolding readItems.simps by (intro stable_intros "4.IH") simp_all
next
  case (6 other n ob bs)
  show ?case unfolding readEntries.simps by (intro stable_intros "6.IH") simp_all
qed (simp_all add: stable_at_def)

lemmas read_append = stable_atD [OF read_stable_all(1)]

text \<open>Truncated input is always reported as such, never as a shorter value.\<close>

lemma rd_byte_cut [cut_intros]: "cut_at UnexpectedEnd rd_byte bs"
  by (auto simp: cut_at_def append_eq_Cons_conv elim!: rd_byte.elims)

lemma rd_take_cut [cut_intros]: "cut_at UnexpectedEnd (rd_take n) bs"
  by (auto simp: cut_at_def rd_take_def split: if_splits)

lemma rd_be_cut [cut_intros]: "cut_at UnexpectedEnd (rd_be n v) bs"
proof (induction n arbitrary: v bs)
  case 0
  then show ?case by (auto simp: cut_at_def)
next
  case (Suc n)
  then show ?case unfolding rd_be.simps
    by (intro cut_intros) (auto dest: rd_be_length)
qed

lemma rd_arg_cut [cut_intros]: "cut_at UnexpectedEnd (rd_arg ai) bs"
  unfolding rd_arg_def
  by (intro cut_intros) (auto simp: bind_result_eq_Inr dest: rd_byte_length)

lemma rd_simple_cut [cut_intros]: "cut_at UnexpectedEnd (rd_simple ai) bs"
  unfolding rd_simple_def by (intro cut_intros) auto

lemma cut_Cons:
  assumes "cut_at e (\<lambda>bs. p (b # bs)) bs" and "p [] = Inl e"
    and "\<And>v r. p (b # bs) = Inr (v, r) \<Longrightarrow> length r \<le> length bs"
  shows "cut_at e p (b # bs)"
  unfolding cut_at_def
proof (intro allI impI)
  fix q s v r
  assume split: "b # bs = q @ s" and ok: "p (b # bs) = Inr (v, r)"
  show "if length s \<le> length r then \<exists>r'. r = r' @ s \<and> p q = Inr (v, r') else p q = Inl e"
  proof (cases q)
    case Nil
    with split assms(2) assms(3) [OF ok] show ?thesis by auto
  next
    case (Cons c q')
    with split have bs: "bs = q' @ s" and q: "q = b # q'" by auto
    with cut_atD [OF assms(1) [unfolded bs]] ok show ?thesis by force
  qed
qed

lemma read_cut_all:
  "cut_at UnexpectedEnd (read other) bs"
  "cut_at UnexpectedEnd (readItems other n) bs"
  "cut_at UnexpectedEnd (readEntries other n ob) bs"
proof (induction other bs and other n bs and other n ob bs rule: read_readItems_readEntries.induct)
  case (1 other)
  then show ?case by (simp add: cut_at_def)
next
  case (2 other b bs)
  have "cut_at UnexpectedEnd (\<lambda>bs. read other (b # bs)) bs"
    unfolding read.simps Let_def
    by (intro cut_intros "2.IH")
      (auto simp: bind_result_eq_Inr split: option.splits dest: rd_take_length read_rest_length less_imp_le)
  then show ?case
    using read_rest_length(1) [of other "b # bs"] by (intro cut_Cons) (auto simp: less_Suc_eq_le)
next
  case (4 other n bs)
  show ?case unfolding readItems.simps
    by (intro cut_intros "4.IH") (auto simp: bind_result_eq_Inr dest: read_rest_length less_imp_le)
next
  case (6 other n ob bs)
  show ?case unfolding readEntries.simps
    by (intro cut_intros "6.IH")
      (fastforce simp: bind_result_eq_Inr split: option.splits dest: read_rest_length less_imp_le)+
qed (auto simp: cut_at_def)

section \<open>Properties of the codec\<close>

text \<open>The first value without data in a value, in the order the encoder meets them.\<close>

fun first_opaque :: "jsval \<Rightarrow> string option"
  and first_opaque_item :: "jsval list \<Rightarrow> string option"
  and first_opaque_entry :: "(string \<times> jsval) list \<Rightarrow> string option" where
  "first_opaque (JOther t) = Some t"
| "first_opaque (JArr vs) = first_opaque_item vs"
| "first_opaque (JObj kvs) = first_opaque_entry kvs"
| "first_opaque v = None"
| "first_opaque_item [] = None"
| "first_opaque_item (v # vs) = (case first_opaque v of None \<Rightarrow> first_opaque_item vs | Some t \<Rightarrow> Some t)"
| "first_opaque_entry [] = None"
| "first_opaque_entry ((k, v) # kvs) = (case first_opaque v of None \<Rightarrow> first_opaque_entry kvs | Some t \<Rightarrow> Some t)"

lemma encode_errors:
  "encodeInto v = Inl e \<longleftrightarrow> map_option CannotEncode (first_opaque v) = Some e"
  "encodeItems vs = Inl e \<longleftrightarrow> map_option CannotEncode (first_opaque_item vs) = Some e"
  "encodeEntries kvs = Inl e \<longleftrightarrow> map_option CannotEncode (first_opaque_entry kvs) = Some e"
proof (induction v and vs and kvs arbitrary: e and e and e rule: encodeInto_encodeItems_encodeEntries.induct)
  case (13 v vs)
  show ?case
  proof (cases "encodeInto v")
    case (Inl e')
    with 13(1) [of e'] show ?thesis by auto
  next
    case (Inr b)
    with 13(1) have "first_opaque v = None" by (cases "first_opaque v") fastforce+
    with Inr 13(2) [OF Inr, of e] show ?thesis by (simp add: bind_result_eq_Inl)
  qed
next
  case (15 k v kvs)
  show ?case
  proof (cases "encodeInto v")
    case (Inl e')
    with 15(1) [of e'] show ?thesis by auto
  next
    case (Inr b)
    with 15(1) have "first_opaque v = None" by (cases "first_opaque v") fastforce+
    with Inr 15(2) [OF Inr, of e] show ?thesis by (simp add: bind_result_eq_Inl)
  qed
qed (auto simp: bind_result_eq_Inl)

text \<open>
  C8. Round trip: every value the wire can carry is encoded, and decoding the bytes
  gives the value back in its wire form \<open>norm\<close>.
\<close>

theorem cbor_roundtrip:
  assumes "wire_ok v"
  shows "\<exists>bs. encode v = Inr bs \<and> decode other bs = Inr (norm v)"
  using encode_wire_bytes [OF assms] decode_wire_bytes [OF assms] by blast

theorem cbor_roundtrip_witness:
  "\<exists>bs. encode (JObj [(''major'', JNum (NInt 1)), (''load'', JFloat (NInt 2)), (''ids'', JArr [JBig (- 7), JUndef])]) = Inr bs \<and>
     decode (\<lambda>_. None) bs =
       Inr (JObj [(''major'', JNum (NInt 1)), (''load'', JNum (NInt 2)), (''ids'', JArr [JNum (NInt (- 7)), JNull])])"
proof -
  let ?v = "JObj [(''major'', JNum (NInt 1)), (''load'', JFloat (NInt 2)), (''ids'', JArr [JBig (- 7), JUndef])]"
  have "wire_ok ?v"
    by (rule wire_ok_record) (simp_all add: name_ok_def ascii_def is_digit_def number_ok_small int_ok_def del: wire_ok.simps(1))
  from cbor_roundtrip [OF this, of "\<lambda>_. None"] show ?thesis
    by (simp add: isInteger_def toBigInt_def numeric_def MAX_SAFE_def)
qed

text \<open>
  Framing by content alone: when a byte string decodes, every proper front part
  of it is refused as truncated and every extension of it as having trailing bytes.
\<close>

theorem cbor_self_delimiting:
  assumes "decode other bs = Inr v" and "s \<noteq> []"
  shows "decode other (bs @ s) = Inl TrailingBytes \<and> (\<forall>p. bs = p @ s \<longrightarrow> decode other p = Inl UnexpectedEnd)"
proof (intro conjI allI impI)
  from assms(1) have rd: "read other bs = Inr (v, [])"
    by (auto simp: decode_def bind_result_eq_Inr split: if_splits)
  then have "read other (bs @ s) = Inr (v, s)"
    using read_append [of other bs v "[]" s] by simp
  then show "decode other (bs @ s) = Inl TrailingBytes"
    using assms(2) by (simp add: decode_def)
  fix p
  assume bs: "bs = p @ s"
  from cut_atD [OF read_cut_all(1) rd [unfolded bs]] assms(2)
  show "decode other p = Inl UnexpectedEnd" by (simp add: decode_def)
qed

theorem cbor_self_delimiting_witness:
  "decode (\<lambda>_. None) ([0x82, 0x01, 0x02] @ [0x00]) = Inl TrailingBytes \<and>
   decode (\<lambda>_. None) [0x82, 0x01] = Inl UnexpectedEnd"
proof -
  have ok: "decode (\<lambda>_. None) [0x82, 0x01, 0x02] = Inr (JArr [JNum (NInt 1), JNum (NInt 2)])"
    using decode_wire_bytes [of "JArr [JNum (NInt 1), JNum (NInt 2)]" "\<lambda>_. None"]
    by (simp add: wire_bytes_def head_def push_def encodeInt_def isInteger_def toBigInt_def numeric_def
          MAX_SAFE_def number_ok_small int_ok_def flip: numeral_2_eq_2)
  show ?thesis
    by (rule conjI [OF cbor_self_delimiting [OF ok, THEN conjunct1]
          cbor_self_delimiting [OF ok, of "[0x02]", THEN conjunct2, rule_format]]) simp_all
qed

text \<open>
  Integers are carried modulo 64 bits: an integer \<open>i\<close> outside the 64-bit CBOR
  range is silently replaced by the one with the same low 64 argument bits.
\<close>

theorem encodeInt_wraps:
  "decode other (encodeInt i) =
     Inr (numeric (if 0 \<le> i then i mod 2 ^ 64 else - 1 - ((- 1 - i) mod 2 ^ 64)))"
proof (cases "0 \<le> i")
  case True
  have "int (nat i mod 2 ^ 64) = i mod 2 ^ 64" using True by (simp add: zmod_int)
  moreover obtain b hs where "head 0 (nat i) = b # hs" "heads 0 (nat i mod 2 ^ 64) b hs"
    using head_heads_wrap [of 0 "nat i"] by auto
  ultimately show ?thesis
    using True by (auto simp: encodeInt_def heads_def Let_def decode_def dest: spec [where x = "[]"])
next
  case False
  have "int (nat (- 1 - i) mod 2 ^ 64) = (- 1 - i) mod 2 ^ 64" using False by (simp add: zmod_int)
  moreover obtain b hs where "head 1 (nat (- 1 - i)) = b # hs" "heads 1 (nat (- 1 - i) mod 2 ^ 64) b hs"
    using head_heads_wrap [of 1 "nat (- 1 - i)"] by auto
  ultimately show ?thesis
    using False by (auto simp: encodeInt_def heads_def Let_def decode_def dest: spec [where x = "[]"])
qed

text \<open>
  Encoding fails on exactly the values that hold something without data, and
  the error names the type of the first such part the encoder meets.
\<close>

theorem encode_error_iff: "encode v = Inl e \<longleftrightarrow> (\<exists>t. first_opaque v = Some t \<and> e = CannotEncode t)"
  using encode_errors(1) [of v e] by (auto simp: encode_def)

text \<open>
  A text that starts with a byte-order mark loses it on the way: the decoder
  returns the text without its first character.
\<close>

theorem text_bom_dropped:
  assumes "utf8_ok (text_encode s)" and "take 3 (text_encode s) = bom" and "length s < 2 ^ 64"
  shows "decode other (encodeText s) = Inr (JStr (drop 3 s))"
proof -
  obtain b hs where "head 3 (length s) = b # hs" "heads 3 (length s) b hs"
    using assms head_heads [of 3 "length s"] by auto
  moreover have "text_decode (text_encode s) = Some (drop 3 s)"
    using assms by (simp add: text_decode_def strip_bom_def) (simp add: text_encode_def drop_map)
  ultimately show ?thesis
    by (simp add: decode_def encodeText_def heads_def Let_def rd_take_def)
qed

theorem text_bom_dropped_witness:
  "decode (\<lambda>_. None) (encodeText (map char_of_byte (bom @ [0x68, 0x69]))) = Inr (JStr ''hi'')"
proof -
  let ?s = "map char_of_byte (bom @ [0x68, 0x69])"
  have "utf8_ok (text_encode ?s)" and "take 3 (text_encode ?s) = bom" and "length ?s < 2 ^ 64"
    by (simp_all add: bom_def text_encode_def utf8_ok_def utf8_second_def cont_byte_def)
  moreover have "drop 3 ?s = ''hi''" by (simp add: bom_def char_of_byte_def) code_simp
  ultimately show ?thesis using text_bom_dropped [of ?s "\<lambda>_. None"] by simp
qed

text \<open>
  A map entry named \<open>__proto__\<close> is consumed but never becomes a property of the
  decoded object.
\<close>

theorem proto_entry_dropped:
  assumes "wire_ok v"
  shows "decode other (wire_bytes (JObj [(''__proto__'', v)])) = Inr (JObj [])"
proof -
  from assms obtain b where b: "encodeInto v = Inr b" "\<And>r. read other (b @ r) = Inr (norm v, r)"
    using read_encode_all(1) by blast
  have "str_ok ''__proto__''" by (rule str_ok_ascii) (simp_all add: ascii_def)
  then have "readEntries other (Suc 0) [] (encodeText ''__proto__'' @ b @ []) = Inr ([], [])"
    using b(2) [of "[]"] by (simp add: read_text assign_def)
  then show ?thesis
    using b(1) read_map [of "Suc 0" other "encodeText ''__proto__'' @ b @ []"]
    by (simp add: decode_def wire_bytes_def)
qed

theorem proto_entry_dropped_witness:
  "decode (\<lambda>_. None) (wire_bytes (JObj [(''__proto__'', JNum (NInt 1))])) = Inr (JObj [])"
  by (rule proto_entry_dropped) (simp del: wire_ok.simps(1))

end
