(* ===== verification/Frame.thy ===== *)
theory Frame
  imports Prelude
begin

text \<open>
  The wire frame header of \<open>packages/wire/src/frame.ts\<close>: 16 big-endian bytes, written
  and read through \<open>DataView\<close>.  A number stored by \<open>setUint16\<close> or \<open>setUint32\<close> is
  reduced to the field's width, which the model does with machine words.
\<close>

section \<open>Constants\<close>

definition HEADER_LEN :: nat where
  "HEADER_LEN = 16"

definition PROTOCOL_V1_0 :: nat where
  "PROTOCOL_V1_0 = 0x0100"

definition END_STREAM :: nat where "END_STREAM = 0x0001"
definition MORE :: nat where "MORE = 0x0002"
definition COMPRESSED :: nat where "COMPRESSED = 0x0004"

definition KNOWN_FLAGS :: nat where
  "KNOWN_FLAGS = END_STREAM OR MORE OR COMPRESSED"

definition DEFAULT_MAX_PAYLOAD :: nat where
  "DEFAULT_MAX_PAYLOAD = 16 * 1024 * 1024"

datatype FrameType =
    Hello | Negotiate | Authenticate | Ready | Ping | Pong | FlowCredit | ResetStream | GoAway | ErrorFrame
  | QuerySubmit | QueryResult | CursorFetch | CursorClose | TxnBegin | TxnCommit | TxnAbort | CommitStatus
  | AgentRequest | AgentResponse | SecuritySearchSubmit | SecuritySearchResult | FindingFetch | FindingResult
  | CognitionRequest | CognitionResponse | OtlpExport | OtlpAck | EnrollSubmit | EnrollResult
  | EnrollIdentityOffer | EnrollIdentityResult | StreamSubscribe | StreamEvent

fun opcode :: "FrameType \<Rightarrow> nat" where
  "opcode Hello = 0x0001"
| "opcode Negotiate = 0x0002"
| "opcode Authenticate = 0x0003"
| "opcode Ready = 0x0004"
| "opcode Ping = 0x0005"
| "opcode Pong = 0x0006"
| "opcode FlowCredit = 0x0007"
| "opcode ResetStream = 0x0008"
| "opcode GoAway = 0x0009"
| "opcode ErrorFrame = 0x000a"
| "opcode QuerySubmit = 0x0010"
| "opcode QueryResult = 0x0011"
| "opcode CursorFetch = 0x0012"
| "opcode CursorClose = 0x0013"
| "opcode TxnBegin = 0x0014"
| "opcode TxnCommit = 0x0015"
| "opcode TxnAbort = 0x0016"
| "opcode CommitStatus = 0x0017"
| "opcode AgentRequest = 0x0020"
| "opcode AgentResponse = 0x0021"
| "opcode SecuritySearchSubmit = 0x0022"
| "opcode SecuritySearchResult = 0x0023"
| "opcode FindingFetch = 0x0024"
| "opcode FindingResult = 0x0025"
| "opcode CognitionRequest = 0x0026"
| "opcode CognitionResponse = 0x0027"
| "opcode OtlpExport = 0x0028"
| "opcode OtlpAck = 0x0029"
| "opcode EnrollSubmit = 0x002a"
| "opcode EnrollResult = 0x002b"
| "opcode EnrollIdentityOffer = 0x002c"
| "opcode EnrollIdentityResult = 0x002d"
| "opcode StreamSubscribe = 0x0030"
| "opcode StreamEvent = 0x0031"

record FrameHeader =
  protocolVersion :: nat
  frameType :: nat
  streamId :: nat
  hflags :: nat
  payloadLen :: nat

datatype FrameError = short_header | reserved_nonzero | unknown_flag | payload_too_large

section \<open>DataView accessors\<close>

definition setUint16 :: "nat \<Rightarrow> bytes" where
  "setUint16 n = (let w = (word_of_nat n :: 16 word) in [ucast (drop_bit 8 w), ucast w])"

definition setUint32 :: "nat \<Rightarrow> bytes" where
  "setUint32 n = (let w = (word_of_nat n :: 32 word)
     in [ucast (drop_bit 24 w), ucast (drop_bit 16 w), ucast (drop_bit 8 w), ucast w])"

definition getUint16 :: "bytes \<Rightarrow> nat \<Rightarrow> nat" where
  "getUint16 bs i = unat (push_bit 8 (ucast (bs ! i)) OR ucast (bs ! (i + 1)) :: 16 word)"

definition getUint32 :: "bytes \<Rightarrow> nat \<Rightarrow> nat" where
  "getUint32 bs i = unat (push_bit 24 (ucast (bs ! i)) OR push_bit 16 (ucast (bs ! (i + 1)))
     OR push_bit 8 (ucast (bs ! (i + 2))) OR ucast (bs ! (i + 3)) :: 32 word)"

section \<open>Operations\<close>

definition packVersion :: "nat \<Rightarrow> nat \<Rightarrow> nat" where
  "packVersion major minor = push_bit 8 (major AND 0xff) OR (minor AND 0xff)"

definition unpackVersion :: "nat \<Rightarrow> nat \<times> nat" where
  "unpackVersion version = (drop_bit 8 version AND 0xff, version AND 0xff)"

definition encodeHeader :: "FrameHeader \<Rightarrow> bytes" where
  "encodeHeader h =
     setUint16 (protocolVersion h) @ setUint16 (frameType h) @ setUint32 (streamId h) @
     setUint16 (hflags h) @ setUint16 0 @ setUint32 (payloadLen h)"

text \<open>\<open>(flags & ~KNOWN_FLAGS) !== 0\<close>, on 32-bit integers as JavaScript's bit operators are.\<close>

definition has_unknown_flag :: "nat \<Rightarrow> bool" where
  "has_unknown_flag f \<longleftrightarrow> (word_of_nat f :: 32 word) AND NOT (word_of_nat KNOWN_FLAGS) \<noteq> 0"

definition decodeHeader :: "bytes \<Rightarrow> nat \<Rightarrow> FrameError + FrameHeader" where
  "decodeHeader bs maxPayload =
     (if length bs < HEADER_LEN then Inl short_header
      else let reserved = getUint16 bs 10;
               h = \<lparr>protocolVersion = getUint16 bs 0, frameType = getUint16 bs 2, streamId = getUint32 bs 4,
                    hflags = getUint16 bs 8, payloadLen = getUint32 bs 12\<rparr>
           in if reserved \<noteq> 0 then Inl reserved_nonzero
              else if has_unknown_flag (hflags h) then Inl unknown_flag
              else if maxPayload < payloadLen h then Inl payload_too_large
              else Inr h)"

definition encodeFrame :: "FrameHeader \<Rightarrow> bytes \<Rightarrow> bytes" where
  "encodeFrame h payload = encodeHeader (h\<lparr>payloadLen := length payload\<rparr>) @ payload"

section \<open>Lemmas\<close>

lemma opcode_less: "opcode ft < 2 ^ 16"
  by (cases ft) simp_all

lemma opcode_inject [simp]: "opcode a = opcode b \<longleftrightarrow> a = b"
  by (cases a; cases b) simp_all

lemma byte_high_bits [simp]: "8 \<le> n \<Longrightarrow> \<not> bit (b :: byte) n"
  using bit_imp_le_length [of b n] by auto

lemma word16_split: "push_bit 8 (ucast (ucast (drop_bit 8 w) :: byte)) OR ucast (ucast w :: byte) = (w :: 16 word)"
  by (rule bit_word_eqI) (auto simp: bit_simps)

lemma word32_split:
  "push_bit 24 (ucast (ucast (drop_bit 24 w) :: byte)) OR push_bit 16 (ucast (ucast (drop_bit 16 w) :: byte))
     OR push_bit 8 (ucast (ucast (drop_bit 8 w) :: byte)) OR ucast (ucast w :: byte) = (w :: 32 word)"
  (is "?l = _")
proof (rule bit_word_eqI)
  fix n
  assume "n < LENGTH(32)"
  then consider "n < 8" | "8 \<le> n" "n < 16" | "16 \<le> n" "n < 24" | "24 \<le> n" "n < 32"
    by fastforce
  then show "bit ?l n = bit w n"
    by cases (auto simp: bit_simps)
qed

lemma word16_join:
  fixes a b :: byte
  shows "ucast (drop_bit 8 (push_bit 8 (ucast a) OR ucast b :: 16 word)) = a"
    and "ucast (push_bit 8 (ucast a) OR ucast b :: 16 word) = b"
  by ((rule bit_word_eqI, auto simp: bit_simps)[1])+

lemma word32_join:
  fixes a b c d :: byte
  defines "w \<equiv> push_bit 24 (ucast a) OR push_bit 16 (ucast b) OR push_bit 8 (ucast c) OR ucast d :: 32 word"
  shows "ucast (drop_bit 24 w) = a" and "ucast (drop_bit 16 w) = b"
    and "ucast (drop_bit 8 w) = c" and "ucast w = d"
  unfolding w_def by ((rule bit_word_eqI, auto simp: bit_simps)[1])+

lemma set16_get16: "setUint16 (getUint16 bs i) = [bs ! i, bs ! (i + 1)]"
  by (simp add: setUint16_def getUint16_def Let_def word16_join del: drop_bit_or)

lemma set32_get32: "setUint32 (getUint32 bs i) = [bs ! i, bs ! (i + 1), bs ! (i + 2), bs ! (i + 3)]"
  by (simp add: setUint32_def getUint32_def Let_def word32_join del: drop_bit_or)

lemma length_set [simp]: "length (setUint16 n) = 2" "length (setUint32 n) = 4"
  by (simp_all add: setUint16_def setUint32_def Let_def)

lemma get16_set16:
  assumes "bs = p @ setUint16 n @ s"
  shows "getUint16 bs (length p) = n mod 2 ^ 16"
  using assms word16_split [of "word_of_nat n"]
  by (simp add: getUint16_def setUint16_def Let_def nth_append unat_of_nat)

lemma get32_set32:
  assumes "bs = p @ setUint32 n @ s"
  shows "getUint32 bs (length p) = n mod 2 ^ 32"
  using assms word32_split [of "word_of_nat n"]
  by (simp add: getUint32_def setUint32_def Let_def nth_append unat_of_nat)

lemma encodeHeader_length [simp]: "length (encodeHeader h) = HEADER_LEN"
  by (simp add: encodeHeader_def HEADER_LEN_def)

text \<open>Every field read back is the field written, reduced to its width.\<close>

lemma header_fields:
  shows "getUint16 (encodeHeader h @ r) 0 = protocolVersion h mod 2 ^ 16"
    and "getUint16 (encodeHeader h @ r) 2 = frameType h mod 2 ^ 16"
    and "getUint32 (encodeHeader h @ r) 4 = streamId h mod 2 ^ 32"
    and "getUint16 (encodeHeader h @ r) 8 = hflags h mod 2 ^ 16"
    and "getUint16 (encodeHeader h @ r) 10 = 0"
    and "getUint32 (encodeHeader h @ r) 12 = payloadLen h mod 2 ^ 32"
proof -
  let ?v = "setUint16 (protocolVersion h)" and ?t = "setUint16 (frameType h)"
    and ?s = "setUint32 (streamId h)" and ?f = "setUint16 (hflags h)" and ?l = "setUint32 (payloadLen h)"
  show "getUint16 (encodeHeader h @ r) 0 = protocolVersion h mod 2 ^ 16"
    using get16_set16 [of "encodeHeader h @ r" "[]" "protocolVersion h"] by (simp add: encodeHeader_def)
  show "getUint16 (encodeHeader h @ r) 2 = frameType h mod 2 ^ 16"
    using get16_set16 [of "encodeHeader h @ r" ?v "frameType h"] by (simp add: encodeHeader_def)
  show "getUint32 (encodeHeader h @ r) 4 = streamId h mod 2 ^ 32"
    using get32_set32 [of "encodeHeader h @ r" "?v @ ?t" "streamId h"] by (simp add: encodeHeader_def)
  show "getUint16 (encodeHeader h @ r) 8 = hflags h mod 2 ^ 16"
    using get16_set16 [of "encodeHeader h @ r" "?v @ ?t @ ?s" "hflags h"] by (simp add: encodeHeader_def)
  show "getUint16 (encodeHeader h @ r) 10 = 0"
    using get16_set16 [of "encodeHeader h @ r" "?v @ ?t @ ?s @ ?f" 0] by (simp add: encodeHeader_def)
  show "getUint32 (encodeHeader h @ r) 12 = payloadLen h mod 2 ^ 32"
    using get32_set32 [of "encodeHeader h @ r" "?v @ ?t @ ?s @ ?f @ setUint16 0" "payloadLen h"]
    by (simp add: encodeHeader_def)
qed

lemma unknown_flag_iff:
  assumes "f < 2 ^ 32"
  shows "has_unknown_flag f \<longleftrightarrow> 8 \<le> f"
proof -
  have known: "KNOWN_FLAGS = 7" by (simp add: KNOWN_FLAGS_def END_STREAM_def MORE_def COMPRESSED_def)
  have "x AND NOT (mask 3) = 0 \<longleftrightarrow> take_bit 3 x = x" for x :: "32 word"
    by (auto simp: bit_eq_iff bit_simps)
  moreover have "take_bit 3 x = x \<longleftrightarrow> x < 8" for x :: "32 word"
  proof -
    have "take_bit 3 x = x \<longleftrightarrow> unat x mod 8 = unat x"
      by (simp add: word_unat_eq_iff take_bit_eq_mod unat_mod_distrib)
    also have "\<dots> \<longleftrightarrow> unat x < 8" by (metis mod_less mod_less_divisor zero_less_numeral)
    finally show ?thesis by (simp add: word_less_nat_alt)
  qed
  moreover have "(word_of_nat f :: 32 word) < 8 \<longleftrightarrow> f < 8"
    using assms by (simp add: word_less_nat_alt unat_of_nat)
  moreover have "has_unknown_flag f \<longleftrightarrow> (word_of_nat f :: 32 word) AND NOT (mask 3) \<noteq> 0"
    by (simp add: has_unknown_flag_def known mask_eq_exp_minus_1)
  ultimately show ?thesis by (metis not_le)
qed

text \<open>The headers that survive the wire: every field in its width, only known flags, payload in bounds.\<close>

definition header_ok :: "nat \<Rightarrow> FrameHeader \<Rightarrow> bool" where
  "header_ok maxPayload h \<longleftrightarrow> protocolVersion h < 2 ^ 16 \<and> frameType h < 2 ^ 16 \<and> streamId h < 2 ^ 32 \<and>
     hflags h < 8 \<and> payloadLen h < 2 ^ 32 \<and> payloadLen h \<le> maxPayload"

lemma getUint_bounds [simp]: "getUint16 bs i < 2 ^ 16" "getUint32 bs i < 2 ^ 32"
  unfolding getUint16_def getUint32_def by (rule order.strict_trans2 [OF unsigned_less]; simp)+

lemma decode_encode_header [codec_simps]:
  assumes "header_ok maxPayload h"
  shows "decodeHeader (encodeHeader h @ r) maxPayload = Inr h"
  using assms
  by (simp add: decodeHeader_def header_fields header_ok_def Let_def unknown_flag_iff not_less)

lemma decodeHeader_Inr:
  assumes "decodeHeader bs maxPayload = Inr h"
  shows "header_ok maxPayload h" and "encodeHeader h = take HEADER_LEN bs" and "HEADER_LEN \<le> length bs"
proof -
  from assms have len: "16 \<le> length bs" and res: "getUint16 bs 10 = 0"
    and h: "h = \<lparr>protocolVersion = getUint16 bs 0, frameType = getUint16 bs 2, streamId = getUint32 bs 4,
                 hflags = getUint16 bs 8, payloadLen = getUint32 bs 12\<rparr>"
    and fl: "\<not> has_unknown_flag (hflags h)" and pl: "payloadLen h \<le> maxPayload"
    by (auto simp: decodeHeader_def HEADER_LEN_def Let_def split: if_splits)
  have "hflags h < 2 ^ 32" using getUint_bounds(1) [of bs 8] by (simp add: h)
  with fl have "hflags h < 8" by (simp add: unknown_flag_iff)
  then show "header_ok maxPayload h"
    using pl getUint_bounds [of bs] by (simp add: header_ok_def h)
  have "setUint16 0 = [bs ! 10, bs ! 11]" using set16_get16 [of bs 10] res by simp
  then have "encodeHeader h = map (\<lambda>i. bs ! i) [0..<16]"
    by (simp add: encodeHeader_def h set16_get16 set32_get32 upt_rec numeral_eq_Suc)
  also have "\<dots> = take 16 bs"
    using len by (intro nth_equalityI) simp_all
  finally show "encodeHeader h = take HEADER_LEN bs" by (simp add: HEADER_LEN_def)
  show "HEADER_LEN \<le> length bs" using len by (simp add: HEADER_LEN_def)
qed

section \<open>Properties\<close>

text \<open>
  The header codec is a bijection between the well-formed headers and the 16-byte
  strings it accepts: a header decodes, whatever follows it, exactly when its bytes
  are the encoding of a well-formed header.
\<close>

theorem header_codec:
  "decodeHeader (bs @ r) maxPayload = Inr h \<and> length bs = HEADER_LEN \<longleftrightarrow>
     header_ok maxPayload h \<and> bs = encodeHeader h"
  using decodeHeader_Inr(1,2) [of "bs @ r" maxPayload h] decode_encode_header [of maxPayload h r]
  by auto

lemma packVersion_eq: "packVersion major minor = (major mod 256) * 256 + minor mod 256"
  unfolding packVersion_def and_255 using shift_or_eq_add [of "minor mod 256" 8 "major mod 256"] by simp

lemma packVersion_less: "packVersion major minor < 2 ^ 16"
  using mod_less_divisor [of 256 major] mod_less_divisor [of 256 minor] by (simp add: packVersion_eq)

text \<open>A version fits the header field and unpacks to the pair it was packed from, reduced to bytes.\<close>

theorem version_roundtrip:
  "unpackVersion (packVersion major minor) = (major mod 256, minor mod 256) \<and> packVersion major minor < 2 ^ 16"
  using packVersion_less [of major minor] by (simp add: unpackVersion_def packVersion_eq drop_bit_eq_div)

end
