(* ===== verification/Transport.thy ===== *)
theory Transport
  imports Frame
begin

text \<open>
  Frame transport: \<open>packages/wire/src/transport.ts\<close> (frames and header defaults) and
  \<open>packages/wire/src/socket-transport.ts\<close> (\<open>StreamFrameTransport\<close>).  The transport is a
  state machine driven by the stream's events and by the client's \<open>send\<close> and \<open>recv\<close>
  calls, in any order.  A pending \<open>recv\<close> promise is a waiter, named by the client;
  settling it appends its name and outcome to \<open>settled\<close>.
\<close>

section \<open>Frames\<close>

record WireFrame =
  wf_header :: FrameHeader
  wf_payload :: bytes

record OutboundFrame =
  of_frameType :: FrameType
  of_payload :: bytes
  of_streamId :: "nat option"
  of_flags :: "nat option"
  of_protocolVersion :: "nat option"

definition outboundHeader :: "OutboundFrame \<Rightarrow> FrameHeader" where
  "outboundHeader frame =
     \<lparr>protocolVersion = (case of_protocolVersion frame of None \<Rightarrow> PROTOCOL_V1_0 | Some v \<Rightarrow> v),
      frameType = opcode (of_frameType frame),
      streamId = (case of_streamId frame of None \<Rightarrow> 0 | Some s \<Rightarrow> s),
      hflags = (case of_flags frame of None \<Rightarrow> END_STREAM | Some f \<Rightarrow> f),
      payloadLen = length (of_payload frame)\<rparr>"

section \<open>The stream transport\<close>

text \<open>Why a transport failed: a stream error, \<open>close\<close> or \<open>end\<close>, or a rejected write.\<close>

datatype wire_error = StreamError string | StreamClosed | StreamEnded | WriteError string

record 'w transport =
  buffer :: bytes
  ready :: "WireFrame list"
  waiters :: "'w list"
  failure :: "wire_error option"
  settled :: "('w \<times> (wire_error + WireFrame)) list"
  written :: bytes

definition init_transport :: "'w transport" where
  "init_transport = \<lparr>buffer = [], ready = [], waiters = [], failure = None, settled = [], written = []\<rparr>"

text \<open>The end of the loop body of \<open>parse\<close>: to the first waiter, or to the queue.\<close>

definition deliver :: "WireFrame \<Rightarrow> 'w transport \<Rightarrow> 'w transport" where
  "deliver frame t = (case waiters t of
       w # ws \<Rightarrow> t\<lparr>waiters := ws, settled := settled t @ [(w, Inr frame)]\<rparr>
     | [] \<Rightarrow> t\<lparr>ready := ready t @ [frame]\<rparr>)"

lemma buffer_deliver [simp]: "buffer (deliver f t) = buffer t"
  by (simp add: deliver_def split: list.split)

text \<open>
  \<open>parse\<close>: reassemble whole frames.  The first component is the header error that
  escapes from it, which the event handler does not catch.
\<close>

function parse :: "'w transport \<Rightarrow> FrameError option \<times> 'w transport" where
  "parse t =
     (if length (buffer t) < HEADER_LEN then (None, t)
      else case decodeHeader (buffer t) DEFAULT_MAX_PAYLOAD of
        Inl e \<Rightarrow> (Some e, t)
      | Inr h \<Rightarrow>
          let total = HEADER_LEN + payloadLen h
          in if length (buffer t) < total then (None, t)
             else parse (deliver \<lparr>wf_header = h, wf_payload = take (payloadLen h) (drop HEADER_LEN (buffer t))\<rparr>
                           (t\<lparr>buffer := drop total (buffer t)\<rparr>)))"
  by pat_completeness auto
termination
  by (relation "measure (\<lambda>t. length (buffer t))") (auto simp: HEADER_LEN_def)

declare parse.simps [simp del]

definition append :: "bytes \<Rightarrow> 'w transport \<Rightarrow> FrameError option \<times> 'w transport" where
  "append chunk t = parse (t\<lparr>buffer := buffer t @ chunk\<rparr>)"

definition fail :: "wire_error \<Rightarrow> 'w transport \<Rightarrow> 'w transport" where
  "fail e t = (if failure t \<noteq> None then t
     else t\<lparr>failure := Some e, settled := settled t @ map (\<lambda>w. (w, Inl e)) (waiters t), waiters := []\<rparr>)"

text \<open>\<open>send\<close>: \<open>outcome\<close> is what the stream's write callback reports.\<close>

definition send :: "OutboundFrame \<Rightarrow> wire_error option \<Rightarrow> 'w transport \<Rightarrow> (wire_error + unit) \<times> 'w transport" where
  "send frame outcome t = (case failure t of
       Some e \<Rightarrow> (Inl e, t)
     | None \<Rightarrow>
         let t' = t\<lparr>written := written t @ encodeFrame (outboundHeader frame) (of_payload frame)\<rparr>
         in (case outcome of None \<Rightarrow> (Inr (), t') | Some e \<Rightarrow> (Inl e, t')))"

definition recv :: "'w \<Rightarrow> 'w transport \<Rightarrow> 'w transport" where
  "recv w t = (case ready t of
       f # fs \<Rightarrow> t\<lparr>ready := fs, settled := settled t @ [(w, Inr f)]\<rparr>
     | [] \<Rightarrow> (case failure t of
          Some e \<Rightarrow> t\<lparr>settled := settled t @ [(w, Inl e)]\<rparr>
        | None \<Rightarrow> t\<lparr>waiters := waiters t @ [w]\<rparr>))"

text \<open>
  The events of a connection.  \<open>Data\<close>, \<open>Broke\<close> come from the stream (the handlers the
  constructor installs), \<open>Recv\<close> and \<open>Send\<close> from the client.
\<close>

datatype 'w event = Data bytes | Broke wire_error | Recv 'w | Send OutboundFrame

fun handle :: "'w event \<Rightarrow> 'w transport \<Rightarrow> 'w transport" where
  "handle (Data chunk) t = snd (append chunk t)"
| "handle (Broke e) t = fail e t"
| "handle (Recv w) t = recv w t"
| "handle (Send f) t = snd (send f None t)"

definition run :: "'w event list \<Rightarrow> 'w transport \<Rightarrow> 'w transport" where
  "run es t = fold handle es t"

section \<open>What the stream carries\<close>

text \<open>
  The specification of reassembly: the frames of the whole byte stream, the bytes
  after the last whole frame, and the header error that stops it, if any.
\<close>

function frames_of :: "bytes \<Rightarrow> WireFrame list \<times> bytes \<times> FrameError option" where
  "frames_of bs =
     (if length bs < HEADER_LEN then ([], bs, None)
      else case decodeHeader bs DEFAULT_MAX_PAYLOAD of
        Inl e \<Rightarrow> ([], bs, Some e)
      | Inr h \<Rightarrow>
          if length bs < HEADER_LEN + payloadLen h then ([], bs, None)
          else let (fs, rest, e) = frames_of (drop (HEADER_LEN + payloadLen h) bs)
               in (\<lparr>wf_header = h, wf_payload = take (payloadLen h) (drop HEADER_LEN bs)\<rparr> # fs, rest, e))"
  by pat_completeness auto
termination
  by (relation "measure length") (auto simp: HEADER_LEN_def)

declare frames_of.simps [simp del]

definition recvs :: "'w event list \<Rightarrow> 'w list" where
  "recvs es = List.map_filter (\<lambda>e. case e of Recv w \<Rightarrow> Some w | _ \<Rightarrow> None) es"

definition inbound :: "'w event list \<Rightarrow> bytes" where
  "inbound es = concat (map (\<lambda>e. case e of Data c \<Rightarrow> c | _ \<Rightarrow> []) es)"

definition outbound :: "'w event list \<Rightarrow> OutboundFrame list" where
  "outbound es = List.map_filter (\<lambda>e. case e of Send f \<Rightarrow> Some f | _ \<Rightarrow> None) es"

definition broken :: "'w event list \<Rightarrow> bool" where
  "broken es = list_ex (\<lambda>e. case e of Broke _ \<Rightarrow> True | _ \<Rightarrow> False) es"

section \<open>Reassembly does not depend on chunk boundaries\<close>

lemma decodeHeader_append:
  "HEADER_LEN \<le> length bs \<Longrightarrow> decodeHeader (bs @ c) m = decodeHeader bs m"
  by (cases bs) (auto simp: decodeHeader_def HEADER_LEN_def getUint16_def getUint32_def nth_append)

lemma frames_of_append:
  "frames_of bs = (fs, rest, e) \<Longrightarrow>
     frames_of (bs @ c) = (if e \<noteq> None then (fs, rest @ c, e)
       else let (fs', rest', e') = frames_of (rest @ c) in (fs @ fs', rest', e'))"
proof (induction bs arbitrary: fs rest e rule: frames_of.induct)
  case (1 bs)
  show ?case
  proof (cases "length bs < HEADER_LEN")
    case True
    with "1.prems" show ?thesis by (auto simp: frames_of.simps [of bs] split: prod.splits)
  next
    case False
    note dec = decodeHeader_append [of bs c DEFAULT_MAX_PAYLOAD]
    show ?thesis
    proof (cases "decodeHeader bs DEFAULT_MAX_PAYLOAD")
      case (Inl err)
      with False dec have "frames_of bs = ([], bs, Some err)" and "frames_of (bs @ c) = ([], bs @ c, Some err)"
        by (simp_all add: frames_of.simps [of bs] frames_of.simps [of "bs @ c"])
      with "1.prems" show ?thesis by simp
    next
      case (Inr h)
      show ?thesis
      proof (cases "length bs < HEADER_LEN + payloadLen h")
        case True
        with False Inr "1.prems" show ?thesis by (auto simp: frames_of.simps [of bs] split: prod.splits)
      next
        case le: False
        obtain fs0 rest0 e0 where rec: "frames_of (drop (HEADER_LEN + payloadLen h) bs) = (fs0, rest0, e0)"
          by (cases "frames_of (drop (HEADER_LEN + payloadLen h) bs)") auto
        have "take (payloadLen h) (drop HEADER_LEN (bs @ c)) = take (payloadLen h) (drop HEADER_LEN bs)"
          using le by simp
        moreover from "1.IH" [OF False Inr le rec]
        have "frames_of (drop (HEADER_LEN + payloadLen h) (bs @ c)) =
           (if e0 \<noteq> None then (fs0, rest0 @ c, e0)
            else let (fs', rest', e') = frames_of (rest0 @ c) in (fs0 @ fs', rest', e'))"
          using le by simp
        ultimately show ?thesis
          using False Inr le rec dec "1.prems"
          by (auto simp: frames_of.simps [of bs] frames_of.simps [of "bs @ c"] split: prod.splits)
      qed
    qed
  qed
qed

section \<open>The reachable states\<close>

lemma frames_of_idem: "frames_of bs = (fs, rest, e) \<Longrightarrow> frames_of rest = ([], rest, e)"
proof (induction bs arbitrary: fs rest e rule: frames_of.induct)
  case (1 bs)
  show ?case
  proof (cases "length bs < HEADER_LEN \<or> (\<exists>err. decodeHeader bs DEFAULT_MAX_PAYLOAD = Inl err) \<or>
      (\<exists>h. decodeHeader bs DEFAULT_MAX_PAYLOAD = Inr h \<and> length bs < HEADER_LEN + payloadLen h)")
    case True
    then have "fst (frames_of bs) = [] \<and> fst (snd (frames_of bs)) = bs"
      by (auto simp: frames_of.simps [of bs])
    with "1.prems" show ?thesis by auto
  next
    case False
    then obtain h where h: "\<not> length bs < HEADER_LEN" "decodeHeader bs DEFAULT_MAX_PAYLOAD = Inr h"
        "\<not> length bs < HEADER_LEN + payloadLen h"
      by (cases "decodeHeader bs DEFAULT_MAX_PAYLOAD") auto
    with "1.prems" obtain fs0 where "frames_of (drop (HEADER_LEN + payloadLen h) bs) = (fs0, rest, e)"
      by (auto simp: frames_of.simps [of bs] split: prod.splits)
    with "1.IH" h show ?thesis by blast
  qed
qed

text \<open>\<open>parse\<close> delivers exactly the frames of the buffer and keeps the rest.\<close>

lemma parse_frames:
  "frames_of (buffer t) = (fs, rest, e) \<Longrightarrow> parse t = (e, (fold deliver fs t)\<lparr>buffer := rest\<rparr>)"
proof (induction t arbitrary: fs rest e rule: parse.induct)
  case (1 t)
  have swap: "deliver f (u\<lparr>buffer := b\<rparr>) = (deliver f u)\<lparr>buffer := b\<rparr>" for f b and u :: "'a transport"
    by (simp add: deliver_def split: list.split)
  have upd: "(fold deliver gs (u\<lparr>buffer := b\<rparr>))\<lparr>buffer := c\<rparr> = (fold deliver gs u)\<lparr>buffer := c\<rparr>"
    for gs b c and u :: "'a transport"
    by (induction gs arbitrary: u) (simp_all add: swap)
  show ?case
  proof (cases "length (buffer t) < HEADER_LEN \<or> (\<exists>err. decodeHeader (buffer t) DEFAULT_MAX_PAYLOAD = Inl err) \<or>
      (\<exists>h. decodeHeader (buffer t) DEFAULT_MAX_PAYLOAD = Inr h \<and> length (buffer t) < HEADER_LEN + payloadLen h)")
    case True
    with "1.prems" show ?thesis
      by (auto simp: parse.simps [of t] frames_of.simps [of "buffer t"] Let_def)
  next
    case False
    then obtain h where h: "\<not> length (buffer t) < HEADER_LEN" "decodeHeader (buffer t) DEFAULT_MAX_PAYLOAD = Inr h"
        "\<not> length (buffer t) < HEADER_LEN + payloadLen h"
      by (cases "decodeHeader (buffer t) DEFAULT_MAX_PAYLOAD") auto
    let ?f = "\<lparr>wf_header = h, wf_payload = take (payloadLen h) (drop HEADER_LEN (buffer t))\<rparr>"
    let ?t = "t\<lparr>buffer := drop (HEADER_LEN + payloadLen h) (buffer t)\<rparr>"
    from h "1.prems" obtain fs0 where rec: "frames_of (buffer ?t) = (fs0, rest, e)" and fs: "fs = ?f # fs0"
      by (auto simp: frames_of.simps [of "buffer t"] split: prod.splits)
    have "parse t = parse (deliver ?f ?t)"
      using h by (simp add: parse.simps [of t] Let_def)
    also have "\<dots> = (e, (fold deliver fs0 (deliver ?f ?t))\<lparr>buffer := rest\<rparr>)"
      using "1.IH" [OF h(1,2) refl h(3), of fs0 rest e] rec by simp
    finally show ?thesis by (simp add: upd swap fs)
  qed
qed

abbreviation got :: "WireFrame \<Rightarrow> wire_error + WireFrame" where
  "got \<equiv> Inr"

text \<open>
  The state after a run without stream failures, as a function of the bytes that
  arrived and the receives that were issued: receive number \<open>i\<close> gets frame number \<open>i\<close>.
\<close>

definition paired :: "'w list \<Rightarrow> WireFrame list \<Rightarrow> bytes \<Rightarrow> 'w transport \<Rightarrow> bool" where
  "paired ws fs rest t \<longleftrightarrow>
     settled t = zip ws (map got fs) \<and> ready t = drop (length ws) fs \<and>
     waiters t = drop (length fs) ws \<and> buffer t = rest \<and> failure t = None"

lemma paired_deliver:
  assumes "paired ws fs rest t"
  shows "paired ws (fs @ [f]) rest (deliver f t)"
proof (cases "length fs < length ws")
  case True
  then have "drop (length fs) ws = ws ! length fs # drop (Suc (length fs)) ws"
    by (rule Cons_nth_drop_Suc [symmetric])
  moreover from True have "zip ws (map got fs @ [got f]) = zip ws (map got fs) @ [(ws ! length fs, got f)]"
    using zip_take_length(1) [of "map got fs" ws]
    by (subst zip_append2) (simp add: Cons_nth_drop_Suc [symmetric])
  ultimately show ?thesis using assms True by (simp add: paired_def deliver_def)
next
  case False
  then show ?thesis using assms by (simp add: paired_def deliver_def zip_append2)
qed

lemma paired_fold_deliver: "paired ws fs rest t \<Longrightarrow> paired ws (fs @ gs) rest (fold deliver gs t)"
proof (induction gs arbitrary: fs t)
  case (Cons g gs)
  from Cons.IH [OF paired_deliver [OF Cons.prems]] show ?case by simp
qed simp

lemma paired_recv:
  assumes "paired ws fs rest t"
  shows "paired (ws @ [w]) fs rest (recv w t)"
proof (cases "length ws < length fs")
  case True
  then have "drop (length ws) fs = fs ! length ws # drop (Suc (length ws)) fs"
    by (rule Cons_nth_drop_Suc [symmetric])
  moreover from True have "zip (ws @ [w]) (map got fs) = zip ws (map got fs) @ [(w, got (fs ! length ws))]"
    using zip_take_length(2) [of ws "map got fs"]
    by (subst zip_append1) (simp add: drop_map Cons_nth_drop_Suc [symmetric])
  ultimately show ?thesis using assms True by (simp add: paired_def recv_def)
next
  case False
  then show ?thesis using assms by (simp add: paired_def recv_def zip_append1)
qed

lemma paired_data:
  assumes "paired ws fs rest t" and "frames_of (rest @ c) = (gs, rest', e)"
  shows "paired ws (fs @ gs) rest' (snd (append c t))"
proof -
  have "buffer (t\<lparr>buffer := rest @ c\<rparr>) = rest @ c" by simp
  with assms have "snd (append c t) = (fold deliver gs (t\<lparr>buffer := rest @ c\<rparr>))\<lparr>buffer := rest'\<rparr>"
    using parse_frames [of "t\<lparr>buffer := rest @ c\<rparr>" gs rest' e] by (simp add: append_def paired_def)
  moreover have "paired ws fs (rest @ c) (t\<lparr>buffer := rest @ c\<rparr>)"
    using assms(1) by (simp add: paired_def)
  ultimately show ?thesis
    using paired_fold_deliver [of ws fs "rest @ c" "t\<lparr>buffer := rest @ c\<rparr>" gs] by (simp add: paired_def)
qed

lemma frames_of_stuck: "frames_of bs = (fs, rest, e) \<Longrightarrow>
    frames_of (bs @ c) = (fs @ fst (frames_of (rest @ c)), snd (frames_of (rest @ c)))"
proof -
  assume a: "frames_of bs = (fs, rest, e)"
  have "frames_of (rest @ c) = ([], rest @ c, e)" if "e \<noteq> None"
    using frames_of_append [OF frames_of_idem [OF a], of c] that by simp
  then show ?thesis
    using frames_of_append [OF a, of c] by (auto split: prod.splits if_splits)
qed

lemma run_snoc [simp]: "run (es @ [ev]) t = handle ev (run es t)"
  by (simp add: run_def)

lemma events_snoc [simp]:
  "recvs (es @ [ev]) = recvs es @ (case ev of Recv w \<Rightarrow> [w] | _ \<Rightarrow> [])"
  "inbound (es @ [ev]) = inbound es @ (case ev of Data c \<Rightarrow> c | _ \<Rightarrow> [])"
  "outbound (es @ [ev]) = outbound es @ (case ev of Send f \<Rightarrow> [f] | _ \<Rightarrow> [])"
  "broken (es @ [ev]) = (broken es \<or> (case ev of Broke _ \<Rightarrow> True | _ \<Rightarrow> False))"
  by (auto simp: recvs_def inbound_def outbound_def broken_def List.map_filter_def split: event.split)

lemma run_paired:
  assumes "\<not> broken es" and "frames_of (inbound es) = (fs, rest, e)"
  shows "paired (recvs es) fs rest (run es init_transport)"
  using assms
proof (induction es arbitrary: fs rest e rule: rev_induct)
  case Nil
  then show ?case
    by (simp add: frames_of.simps HEADER_LEN_def inbound_def recvs_def paired_def run_def init_transport_def
        List.map_filter_def)
next
  case (snoc ev es)
  obtain gs q d where pre: "frames_of (inbound es) = (gs, q, d)" by (cases "frames_of (inbound es)") auto
  with snoc have IH: "paired (recvs es) gs q (run es init_transport)" by simp
  show ?case
  proof (cases ev)
    case (Data c)
    then have "frames_of (inbound es @ c) = (fs, rest, e)" using snoc.prems by simp
    with frames_of_stuck [OF pre, of c] have "fs = gs @ fst (frames_of (q @ c))" and "snd (frames_of (q @ c)) = (rest, e)"
      by simp_all
    with paired_data [OF IH, of c "fst (frames_of (q @ c))" rest e] Data show ?thesis
      by (metis events_snoc(1) append_Nil2 event.simps(17) handle.simps(1) prod.collapse run_snoc)
  next
    case (Recv w)
    with pre snoc.prems paired_recv [OF IH, of w] show ?thesis by simp
  next
    case (Send f)
    with pre snoc.prems IH show ?thesis
      by (auto simp: send_def paired_def split: option.splits)
  next
    case (Broke b)
    with snoc.prems show ?thesis by simp
  qed
qed

section \<open>Conservation: every receive and every frame is accounted for\<close>

definition oks :: "('w \<times> (wire_error + WireFrame)) list \<Rightarrow> WireFrame list" where
  "oks xs = List.map_filter (\<lambda>(w, r). case r of Inl _ \<Rightarrow> None | Inr f \<Rightarrow> Some f) xs"

lemma oks_simps [simp]:
  "oks [] = []"
  "oks (xs @ ys) = oks xs @ oks ys"
  "oks [(w, Inr f)] = [f]"
  "oks [(w, Inl e)] = []"
  "oks (map (\<lambda>w. (w, Inl e)) ws) = []"
  by (simp_all add: oks_def List.map_filter_def)

text \<open>What every event keeps, for receives \<open>ws\<close> issued and frames \<open>fs\<close> arrived.\<close>

definition accounted :: "'w list \<Rightarrow> WireFrame list \<Rightarrow> 'w transport \<Rightarrow> bool" where
  "accounted ws fs t \<longleftrightarrow>
     map fst (settled t) @ waiters t = ws \<and> oks (settled t) @ ready t = fs \<and>
     (waiters t = [] \<or> ready t = [] \<and> failure t = None)"

lemma accounted_deliver: "accounted ws fs t \<Longrightarrow> accounted ws (fs @ [f]) (deliver f t)"
  by (auto simp: accounted_def deliver_def split: list.split)

lemma accounted_fold_deliver: "accounted ws fs t \<Longrightarrow> accounted ws (fs @ gs) (fold deliver gs t)"
proof (induction gs arbitrary: fs t)
  case (Cons g gs)
  from Cons.IH [OF accounted_deliver [OF Cons.prems]] show ?case by simp
qed simp

lemma accounted_buffer [simp]: "accounted ws fs (t\<lparr>buffer := b\<rparr>) = accounted ws fs t"
  by (simp add: accounted_def)

lemma accounted_recv: "accounted ws fs t \<Longrightarrow> accounted (ws @ [w]) fs (recv w t)"
  by (auto simp: accounted_def recv_def split: list.split option.split)

lemma accounted_fail: "accounted ws fs t \<Longrightarrow> accounted ws fs (fail e t)"
  by (auto simp: accounted_def fail_def comp_def)

lemma failure_fold_deliver [simp]: "failure (fold deliver fs t) = failure t"
  by (induction fs arbitrary: t) (auto simp: deliver_def split: list.split)

lemma append_data:
  assumes "frames_of (buffer t @ c) = (gs, rest, e)"
  shows "append c t = (e, (fold deliver gs (t\<lparr>buffer := buffer t @ c\<rparr>))\<lparr>buffer := rest\<rparr>)"
  using parse_frames [of "t\<lparr>buffer := buffer t @ c\<rparr>" gs rest e] assms by (simp add: append_def)

lemma run_accounted:
  "accounted (recvs es) (fst (frames_of (inbound es))) (run es init_transport) \<and>
   buffer (run es init_transport) = fst (snd (frames_of (inbound es))) \<and>
   (failure (run es init_transport) \<noteq> None \<longleftrightarrow> broken es)"
proof (induction es rule: rev_induct)
  case Nil
  show ?case
    by (simp add: frames_of.simps HEADER_LEN_def inbound_def recvs_def accounted_def run_def init_transport_def
        List.map_filter_def broken_def)
next
  case (snoc ev es)
  let ?t = "run es init_transport"
  show ?case
  proof (cases ev)
    case (Data c)
    obtain fs q d where pre: "frames_of (inbound es) = (fs, q, d)" by (cases "frames_of (inbound es)") auto
    obtain gs rest e where new: "frames_of (q @ c) = (gs, rest, e)" by (cases "frames_of (q @ c)") auto
    from snoc.IH pre have "buffer ?t = q" by simp
    with new have "append c ?t = (e, (fold deliver gs (?t\<lparr>buffer := q @ c\<rparr>))\<lparr>buffer := rest\<rparr>)"
      using append_data [of ?t c gs rest e] by simp
    with snoc.IH pre new frames_of_stuck [OF pre, of c] Data show ?thesis
      by (simp add: accounted_fold_deliver)
  next
    case (Recv w)
    with snoc.IH show ?thesis
      by (auto simp: accounted_recv) (auto simp: recv_def split: list.splits option.splits)
  next
    case (Send f)
    with snoc.IH show ?thesis by (auto simp: send_def accounted_def split: option.splits)
  next
    case (Broke b)
    with snoc.IH show ?thesis by (auto simp: accounted_fail) (auto simp: fail_def split: if_splits)
  qed
qed

section \<open>From the sender's frames to the receiver's\<close>

definition outbound_ok :: "OutboundFrame \<Rightarrow> bool" where
  "outbound_ok f = header_ok DEFAULT_MAX_PAYLOAD (outboundHeader f)"

definition carried :: "OutboundFrame \<Rightarrow> WireFrame" where
  "carried f = \<lparr>wf_header = outboundHeader f, wf_payload = of_payload f\<rparr>"

definition outbound_bytes :: "OutboundFrame \<Rightarrow> bytes" where
  "outbound_bytes f = encodeFrame (outboundHeader f) (of_payload f)"

lemma encodeFrame_outbound: "outbound_bytes f = encodeHeader (outboundHeader f) @ of_payload f"
  by (simp add: outbound_bytes_def encodeFrame_def outboundHeader_def)

lemma payloadLen_outbound [simp]: "payloadLen (outboundHeader f) = length (of_payload f)"
  by (simp add: outboundHeader_def)

lemma frames_of_outbound_step:
  assumes "outbound_ok f"
  shows "frames_of (outbound_bytes f @ bs) = (carried f # fst (frames_of bs), snd (frames_of bs))"
proof -
  let ?w = "encodeHeader (outboundHeader f) @ of_payload f @ bs"
  have "decodeHeader ?w DEFAULT_MAX_PAYLOAD = Inr (outboundHeader f)"
    using assms decode_encode_header by (simp add: outbound_ok_def)
  moreover have "length (encodeHeader (outboundHeader f)) = HEADER_LEN" by simp
  ultimately have "frames_of ?w = (carried f # fst (frames_of bs), snd (frames_of bs))"
    by (simp add: frames_of.simps [of ?w] carried_def case_prod_unfold Let_def)
  then show ?thesis by (simp add: encodeFrame_outbound)
qed

lemma frames_of_outbound:
  "list_all outbound_ok fs \<Longrightarrow> frames_of (concat (map outbound_bytes fs)) = (map carried fs, [], None)"
  by (induction fs) (simp_all add: frames_of_outbound_step, simp add: frames_of.simps HEADER_LEN_def)

lemma written_deliver [simp]: "written (fold deliver fs t) = written t"
  by (induction fs arbitrary: t) (auto simp: deliver_def split: list.split)

lemma written_append [simp]: "written (snd (append c t)) = written t"
  using append_data [of t c] by (cases "frames_of (buffer t @ c)") simp

lemma written_run:
  "\<not> broken es \<Longrightarrow> written (run es init_transport) = concat (map outbound_bytes (outbound es))"
proof (induction es rule: rev_induct)
  case Nil
  then show ?case by (simp add: run_def init_transport_def outbound_def List.map_filter_def)
next
  case (snoc ev es)
  moreover from snoc.prems have "failure (run es init_transport) = None" using run_accounted [of es] by simp
  ultimately show ?case
    by (cases ev) (auto simp: send_def recv_def outbound_bytes_def split: list.split option.split)
qed

section \<open>Properties\<close>

text \<open>
  C9. Whatever the chunking of the inbound bytes and however receives, sends, data and
  stream failures interleave: receives settle in the order they were issued, each at
  most once; the frames handed out followed by the queued ones are exactly the frames
  of the byte stream, so none is lost, repeated or reordered; the buffer keeps the
  incomplete tail; a receiver waits only while nothing is queued and the stream is up.
\<close>

theorem transport_conservation:
  fixes es :: "'w event list"
  shows "let t = run es init_transport in
    map fst (settled t) @ waiters t = recvs es \<and>
    oks (settled t) @ ready t = fst (frames_of (inbound es)) \<and>
    buffer t = fst (snd (frames_of (inbound es))) \<and>
    (waiters t = [] \<or> ready t = [] \<and> failure t = None) \<and>
    (failure t = None) = (\<not> broken es)"
  using run_accounted [of es] unfolding Let_def accounted_def by auto

text \<open>
  C33. End to end: when the bytes one transport wrote arrive at another, in any chunks,
  the \<open>i\<close>-th receive resolves with the \<open>i\<close>-th frame sent, with its header defaults
  filled in and its payload unchanged.
\<close>

theorem transport_end_to_end:
  assumes "\<not> broken tx" and "\<not> broken rx"
    and "list_all outbound_ok (outbound tx)"
    and "inbound rx = written (run tx init_transport)"
  shows "settled (run rx init_transport) = zip (recvs rx) (map (\<lambda>f. Inr (carried f)) (outbound tx))"
proof -
  have "frames_of (inbound rx) = (map carried (outbound tx), [], None)"
    using assms by (simp add: written_run frames_of_outbound)
  from run_paired [OF assms(2) this] show ?thesis by (simp add: paired_def comp_def)
qed

theorem transport_end_to_end_witness:
  "settled (run [Recv (1::nat), Data [1,0,0,5,0], Recv 2, Data [0,0,0,0,1,0,0,0,0,0,1,7]] init_transport) =
     [(1, Inr (carried \<lparr>of_frameType = Ping, of_payload = [7], of_streamId = None, of_flags = None,
                        of_protocolVersion = None\<rparr>))]"
proof -
  let ?f = "\<lparr>of_frameType = Ping, of_payload = [7], of_streamId = None, of_flags = None, of_protocolVersion = None\<rparr>"
  let ?tx = "[Send ?f] :: nat event list"
  let ?rx = "[Recv (1::nat), Data [1,0,0,5,0], Recv 2, Data [0,0,0,0,1,0,0,0,0,0,1,7]]"
  have fr: "outbound ?tx = [?f]" by (simp add: outbound_def List.map_filter_def)
  have "outbound_ok ?f"
    by (simp add: outbound_ok_def header_ok_def outboundHeader_def PROTOCOL_V1_0_def END_STREAM_def
        DEFAULT_MAX_PAYLOAD_def KNOWN_FLAGS_def MORE_def COMPRESSED_def)
  moreover have "written (run ?tx init_transport) = [1,0,0,5,0,0,0,0,0,1,0,0,0,0,0,1,7]"
    by (simp add: run_def init_transport_def send_def encodeFrame_def encodeHeader_def outboundHeader_def
        setUint16_def setUint32_def PROTOCOL_V1_0_def END_STREAM_def)
  ultimately show ?thesis
    using transport_end_to_end [of ?tx ?rx]
    by (simp add: fr broken_def inbound_def recvs_def List.map_filter_def)
qed

text \<open>
  Failure of the stream: from then on nobody waits, every receive issued before or
  after has settled, sends are refused with the first failure, and a receive drains the
  frames that had already arrived before it reports that failure.
\<close>

theorem transport_failed:
  fixes es :: "'w event list"
  assumes "broken es"
  shows "let t = run es init_transport in
    \<exists>e. failure t = Some e \<and> waiters t = [] \<and> map fst (settled t) = recvs es \<and>
    (\<forall>f out. send f out t = (Inl e, t)) \<and>
    (\<forall>w. settled (recv w t) = settled t @ [(w, case ready t of [] \<Rightarrow> Inl e | f # _ \<Rightarrow> Inr f)])"
proof -
  let ?t = "run es init_transport"
  from assms(1) obtain e where e: "failure ?t = Some e"
    using run_accounted [of es] by auto
  moreover have "waiters ?t = []" and "map fst (settled ?t) = recvs es"
    using run_accounted [of es] e unfolding accounted_def by auto
  ultimately show ?thesis by (auto simp: Let_def send_def recv_def split: list.split)
qed

theorem transport_failed_witness:
  "\<exists>e. failure (run [Recv (1::nat), Broke StreamClosed, Broke StreamEnded] init_transport) = Some e \<and>
     map fst (settled (run [Recv (1::nat), Broke StreamClosed, Broke StreamEnded] init_transport)) = [1]"
  using transport_failed [of "[Recv (1::nat), Broke StreamClosed, Broke StreamEnded]"]
  by (auto simp: Let_def broken_def recvs_def List.map_filter_def)

text \<open>
  A malformed header is not handled: the error escapes from the stream's data
  handler, the transport records no failure, and however the connection goes on (short
  of the stream itself breaking) the receives beyond the frames before the bad header
  never settle.
\<close>

theorem malformed_header_wedges:
  assumes "\<not> broken es" and "frames_of (inbound es) = (fs, rest, Some e)" and "\<not> broken later"
  shows "fst (append c (run es init_transport)) = Some e \<and>
    failure (run (es @ later) init_transport) = None \<and>
    waiters (run (es @ later) init_transport) = drop (length fs) (recvs (es @ later)) \<and>
    length (settled (run (es @ later) init_transport)) = min (length (recvs (es @ later))) (length fs)"
proof -
  have nb: "\<not> broken (es @ later)" using assms by (simp add: broken_def)
  have "frames_of (inbound es @ inbound later) = (fs, rest @ inbound later, Some e)"
    using frames_of_append [OF assms(2), of "inbound later"] by simp
  then have "frames_of (inbound (es @ later)) = (fs, rest @ inbound later, Some e)"
    by (simp add: inbound_def)
  from run_paired [OF nb this] have after: "paired (recvs (es @ later)) fs (rest @ inbound later) (run (es @ later) init_transport)" .
  have "frames_of (rest @ c) = ([], rest @ c, Some e)"
    using frames_of_append [OF frames_of_idem [OF assms(2)], of c] by simp
  moreover have "buffer (run es init_transport) = rest"
    using run_paired [OF assms(1,2)] by (simp add: paired_def)
  ultimately have "fst (append c (run es init_transport)) = Some e"
    using append_data [of "run es init_transport" c "[]"] by simp
  with after show ?thesis by (simp add: paired_def)
qed

theorem malformed_header_wedges_witness:
  "waiters (run [Data [1,0,0,6,0,0,0,0,0,1,0,9,0,0,0,0], Recv (1::nat), Recv 2] init_transport) = [1, 2]"
proof -
  let ?h = "[1,0,0,6,0,0,0,0,0,1,0,9,0,0,0,0] :: bytes"
  have "frames_of ?h = ([], ?h, Some reserved_nonzero)"
    by (simp add: frames_of.simps HEADER_LEN_def decodeHeader_def getUint16_def Let_def)
  with malformed_header_wedges [of "[Data ?h] :: nat event list" "[]" ?h reserved_nonzero "[Recv 1, Recv 2]" "[]"]
  show ?thesis by (simp add: broken_def inbound_def recvs_def List.map_filter_def)
qed

end
