(* ===== verification/Async.thy ===== *)
theory Async
  imports Cbor Transport
begin

text \<open>
  The client code of \<open>packages/wire\<close> is \<open>async\<close>: it awaits the promises of a
  \<open>FrameTransport\<close> (\<open>packages/wire/src/transport.ts\<close>).  An async computation here is a
  state transformer with the outcome of its promise; a promise that never settles is
  \<open>Pending\<close>.  The interface \<open>FrameTransport\<close> is the record \<open>channel\<close>; what its clients
  rely on is the locale \<open>frame_transport\<close>.  \<open>socket_channel\<close> is the interface as
  \<open>StreamFrameTransport\<close> implements it, under a schedule of stream events, and the
  locale is interpreted on it.
\<close>

section \<open>Promises\<close>

text \<open>
  Why a client call rejects: a transport failure, an unexpected frame, a request with no
  opcode (\<open>WireProtocolError\<close>), a request with no encoding, an error of the codec, or a
  \<open>TypeError\<close> of the language.
\<close>

datatype client_error =
    TransportError wire_error
  | ExpectedFrame FrameType nat
  | NotWired
  | Unsupported
  | Codec cbor_error
  | TypeError

datatype 'a outcome = Resolved 'a | Rejected client_error | Pending

type_synonym ('s, 'a) async = "'s \<Rightarrow> 'a outcome \<times> 's"

definition async_return :: "'a \<Rightarrow> ('s, 'a) async" where
  "async_return x s = (Resolved x, s)"

definition async_throw :: "client_error \<Rightarrow> ('s, 'a) async" where
  "async_throw err s = (Rejected err, s)"

definition async_bind :: "('s, 'a) async \<Rightarrow> ('a \<Rightarrow> ('s, 'b) async) \<Rightarrow> ('s, 'b) async" where
  "async_bind m k s = (case m s of
       (Resolved x, s') \<Rightarrow> k x s'
     | (Rejected e, s') \<Rightarrow> (Rejected e, s')
     | (Pending, s') \<Rightarrow> (Pending, s'))"

definition async_result :: "('e \<Rightarrow> client_error) \<Rightarrow> 'e + 'a \<Rightarrow> ('s, 'a) async" where
  "async_result wrap r = (case r of Inl e \<Rightarrow> async_throw (wrap e) | Inr x \<Rightarrow> async_return x)"

named_theorems async_simps

lemma async_steps [async_simps]:
  "async_result wrap (Inr x) s = (Resolved x, s)"
  "async_result wrap (Inl e) s = (Rejected (wrap e), s)"
  "async_return x s = (Resolved x, s)"
  "async_throw err s = (Rejected err, s)"
  "async_bind (async_result wrap (Inr x)) k s = k x s"
  "async_bind (async_result wrap (Inl e)) k s = (Rejected (wrap e), s)"
  by (simp_all add: async_result_def async_return_def async_throw_def async_bind_def)

section \<open>The interface\<close>

record 's channel =
  ch_send :: "OutboundFrame \<Rightarrow> ('s, unit) async"
  ch_recv :: "('s, WireFrame) async"

text \<open>
  What a client relies on, for an open connection: a send completes and adds the
  bytes of its frame to those sent; a receive resolves with the next frame that is to arrive, and cannot
  resolve when there is none.
\<close>

locale frame_transport =
  fixes chan :: "'s channel"
    and open_at :: "'s \<Rightarrow> bool"
    and sent :: "'s \<Rightarrow> bytes"
    and coming :: "'s \<Rightarrow> WireFrame list"
  assumes send_ok: "open_at s \<Longrightarrow>
      \<exists>s'. ch_send chan f s = (Resolved (), s') \<and> open_at s' \<and> sent s' = sent s @ outbound_bytes f \<and> coming s' = coming s"
    and recv_next: "open_at s \<Longrightarrow> coming s = r # fs \<Longrightarrow>
      \<exists>s'. ch_recv chan s = (Resolved r, s') \<and> open_at s' \<and> sent s' = sent s \<and> coming s' = fs"
    and recv_none: "open_at s \<Longrightarrow> coming s = [] \<Longrightarrow>
      \<exists>s'. ch_recv chan s = (Pending, s') \<and> sent s' = sent s \<and> coming s' = []"
begin

text \<open>One request frame out, one frame in, whatever the client does with it.\<close>

lemma exchange:
  assumes "open_at s" "coming s = r # fs"
  shows "\<exists>s'. (\<forall>k. async_bind (ch_send chan f) (\<lambda>_. async_bind (ch_recv chan) k) s = k r s') \<and>
    open_at s' \<and> sent s' = sent s @ outbound_bytes f \<and> coming s' = fs"
proof -
  from send_ok [OF assms(1), of f] obtain s1 where s1: "ch_send chan f s = (Resolved (), s1)" "open_at s1"
    "sent s1 = sent s @ outbound_bytes f" "coming s1 = r # fs"
    using assms(2) by auto
  moreover from recv_next [OF s1(2,4)] obtain s2 where "ch_recv chan s1 = (Resolved r, s2)" "open_at s2"
    "sent s2 = sent s1" "coming s2 = fs"
    by blast
  ultimately show ?thesis by (auto simp: async_bind_def)
qed

lemma exchange_unanswered:
  assumes "open_at s" "coming s = []"
  shows "\<exists>s'. (\<forall>k. async_bind (ch_send chan f) (\<lambda>_. async_bind (ch_recv chan) k) s = (Pending, s')) \<and>
    sent s' = sent s @ outbound_bytes f"
proof -
  from send_ok [OF assms(1), of f] obtain s1 where s1: "ch_send chan f s = (Resolved (), s1)" "open_at s1"
    "sent s1 = sent s @ outbound_bytes f" "coming s1 = []"
    using assms(2) by auto
  moreover from recv_none [OF s1(2,4)] obtain s2 where "ch_recv chan s1 = (Pending, s2)" "sent s2 = sent s1"
    by blast
  ultimately show ?thesis by (auto simp: async_bind_def)
qed

end

section \<open>The interface on the stream transport\<close>

text \<open>
  A world is a transport with the stream events still to come.  Waiters are named by
  the number of their receive.  Awaiting a receive lets events happen until it settles.
\<close>

record world =
  w_transport :: "nat transport"
  w_events :: "nat event list"

fun pump :: "nat \<Rightarrow> nat event list \<Rightarrow> nat transport \<Rightarrow> world" where
  "pump n [] t = \<lparr>w_transport = t, w_events = []\<rparr>"
| "pump n (ev # evs) t =
     (if n < length (settled t) then \<lparr>w_transport = t, w_events = ev # evs\<rparr> else pump n evs (handle ev t))"

definition socket_recv :: "(world, WireFrame) async" where
  "socket_recv w =
     (let n = length (settled (w_transport w));
          w' = pump n (w_events w) (recv n (w_transport w))
      in (if n < length (settled (w_transport w'))
          then (case snd (settled (w_transport w') ! n) of
                  Inl e \<Rightarrow> Rejected (TransportError e) | Inr f \<Rightarrow> Resolved f)
          else Pending, w'))"

definition socket_send :: "OutboundFrame \<Rightarrow> (world, unit) async" where
  "socket_send f w = (case send f None (w_transport w) of
       (Inl e, t) \<Rightarrow> (Rejected (TransportError e), w\<lparr>w_transport := t\<rparr>)
     | (Inr u, t) \<Rightarrow> (Resolved u, w\<lparr>w_transport := t\<rparr>))"

definition socket_channel :: "world channel" where
  "socket_channel = \<lparr>ch_send = socket_send, ch_recv = socket_recv\<rparr>"

text \<open>An open world: no failure now or to come, nobody waiting, no whole frame left
  unparsed, only data to come.\<close>

definition data_only :: "nat event list \<Rightarrow> bool" where
  "data_only es = list_all (\<lambda>e. case e of Data _ \<Rightarrow> True | _ \<Rightarrow> False) es"

definition settled_buffer :: "'w transport \<Rightarrow> bool" where
  "settled_buffer t \<longleftrightarrow> fst (frames_of (buffer t)) = []"

definition world_open :: "world \<Rightarrow> bool" where
  "world_open w \<longleftrightarrow> failure (w_transport w) = None \<and> waiters (w_transport w) = [] \<and>
     settled_buffer (w_transport w) \<and> data_only (w_events w)"

definition world_coming :: "world \<Rightarrow> WireFrame list" where
  "world_coming w = ready (w_transport w) @
     fst (frames_of (buffer (w_transport w) @ inbound (w_events w)))"


lemma pump_done: "n < length (settled t) \<Longrightarrow> pump n evs t = \<lparr>w_transport = t, w_events = evs\<rparr>"
  by (cases evs) simp_all

lemma frames_of_none: "fst (frames_of bs) = [] \<Longrightarrow> fst (snd (frames_of bs)) = bs"
  by (subst (asm) frames_of.simps, subst frames_of.simps) (auto split: sum.splits prod.splits if_splits)

lemma ready_fold_deliver: "waiters t = [] \<Longrightarrow> fold deliver fs t = t\<lparr>ready := ready t @ fs\<rparr>"
  by (induction fs arbitrary: t) (simp_all add: deliver_def)

lemma world_coming_Data: "inbound (Data c # evs) = c @ inbound evs"
  by (simp add: inbound_def)

text \<open>The states \<open>pump\<close> leaves: the waiter is served by the next frame, or waits for ever.\<close>

lemma pump_waiter:
  assumes "waiters t = [length (settled t)]" "ready t = []" "failure t = None" "settled_buffer t" "data_only evs"
  defines "w \<equiv> pump (length (settled t)) evs t"
  shows "case fst (frames_of (buffer t @ inbound evs)) of
      [] \<Rightarrow> settled (w_transport w) = settled t \<and> written (w_transport w) = written t \<and> world_coming w = []
    | f # fs \<Rightarrow> settled (w_transport w) = settled t @ [(length (settled t), Inr f)] \<and>
        written (w_transport w) = written t \<and> world_open w \<and> world_coming w = fs"
  using assms(1-5) unfolding w_def
proof (induction evs arbitrary: t)
  case Nil
  then show ?case by (simp add: settled_buffer_def inbound_def world_coming_def)
next
  case (Cons ev evs)
  then obtain c where ev: "ev = Data c" by (auto simp: data_only_def split: event.splits)
  obtain gs rest e where fr: "frames_of (buffer t @ c) = (gs, rest, e)" by (cases "frames_of (buffer t @ c)") auto
  have all: "fst (frames_of (buffer t @ inbound (ev # evs))) = gs @ fst (frames_of (rest @ inbound evs))"
    using frames_of_stuck [OF fr, of "inbound evs"] by (simp add: ev world_coming_Data)
  have rest: "fst (frames_of rest) = []" using frames_of_idem [OF fr] by simp
  have step: "handle ev t = (fold deliver gs (t\<lparr>buffer := buffer t @ c\<rparr>))\<lparr>buffer := rest\<rparr>"
    using append_data [OF fr] by (simp add: ev)
  show ?case
  proof (cases gs)
    case Nil
    with step have "handle ev t = t\<lparr>buffer := rest\<rparr>" by simp
    with Cons.IH [of "t\<lparr>buffer := rest\<rparr>"] Cons.prems all Nil rest show ?thesis
      by (simp add: settled_buffer_def data_only_def split: list.splits)
  next
    case (Cons g gs')
    with step Cons.prems(1) have "handle ev t =
        t\<lparr>buffer := rest, waiters := [], ready := ready t @ gs', settled := settled t @ [(length (settled t), Inr g)]\<rparr>"
      by (simp add: deliver_def ready_fold_deliver)
    with Cons.prems all Cons rest show ?thesis
      by (simp add: pump_done world_open_def world_coming_def settled_buffer_def data_only_def)
  qed
qed

interpretation socket: frame_transport socket_channel world_open "\<lambda>w. written (w_transport w)" world_coming
proof
  fix w f
  assume "world_open w"
  then show "\<exists>w'. ch_send socket_channel f w = (Resolved (), w') \<and> world_open w' \<and>
      written (w_transport w') = written (w_transport w) @ outbound_bytes f \<and> world_coming w' = world_coming w"
    by (simp add: socket_channel_def socket_send_def send_def world_open_def world_coming_def outbound_bytes_def
        settled_buffer_def)
next
  fix w r fs
  assume op: "world_open w" and co: "world_coming w = r # fs"
  let ?t = "w_transport w"
  show "\<exists>w'. ch_recv socket_channel w = (Resolved r, w') \<and> world_open w' \<and>
      written (w_transport w') = written ?t \<and> world_coming w' = fs"
  proof (cases "ready ?t")
    case Nil
    with op co pump_waiter [of "recv (length (settled ?t)) ?t" "w_events w"] show ?thesis
      by (simp add: world_open_def world_coming_def recv_def settled_buffer_def socket_channel_def socket_recv_def Let_def)
  next
    case (Cons g gs)
    with op co show ?thesis
      by (auto simp: world_open_def world_coming_def recv_def settled_buffer_def socket_channel_def socket_recv_def
          Let_def pump_done)
  qed
next
  fix w
  assume op: "world_open w" and co: "world_coming w = []"
  let ?t = "w_transport w"
  from op co pump_waiter [of "recv (length (settled ?t)) ?t" "w_events w"]
  show "\<exists>w'. ch_recv socket_channel w = (Pending, w') \<and> written (w_transport w') = written ?t \<and> world_coming w' = []"
    by (simp add: world_open_def world_coming_def recv_def settled_buffer_def socket_channel_def socket_recv_def Let_def)
qed

text \<open>A fresh connection over which \<open>bs\<close> will arrive, cut into \<open>chunks\<close>.\<close>

definition connection :: "bytes list \<Rightarrow> world" where
  "connection chunks = \<lparr>w_transport = init_transport, w_events = map Data chunks\<rparr>"

lemma connection_open [simp]: "world_open (connection chunks)"
  by (auto simp: connection_def world_open_def init_transport_def settled_buffer_def data_only_def list_all_iff
      frames_of.simps HEADER_LEN_def)

lemma connection_coming [simp]: "world_coming (connection chunks) = fst (frames_of (concat chunks))"
  by (simp add: connection_def world_coming_def init_transport_def inbound_def comp_def)

lemma connection_written [simp]: "written (w_transport (connection chunks)) = []"
  by (simp add: connection_def init_transport_def)

end
