(* ===== verification/Handshake.thy ===== *)
theory Handshake
  imports Async
begin

text \<open>
  Client handshakes: \<open>packages/wire/src/handshake.ts\<close>.  Both drivers are written against
  the \<open>FrameTransport\<close> interface (a \<open>channel\<close>); their behaviour is proved once for every
  \<open>frame_transport\<close> and read off for the stream transport.  The decoded profiles are
  unchecked casts in the code, so their fields are JavaScript values here.
\<close>

section \<open>Profiles\<close>

record ClientHello =
  hello_major :: nat
  hello_maxMinor :: nat
  hello_required :: "string list"
  hello_optional :: "string list"

record Negotiated =
  neg_major :: jsval
  neg_minor :: jsval
  neg_enabled :: jsval

record WireReady =
  ready_major :: jsval
  ready_minor :: jsval
  ready_enabled :: jsval
  ready_leaseTtlSecs :: jsval

definition DEFAULT_HELLO :: ClientHello where
  "DEFAULT_HELLO = \<lparr>hello_major = 1, hello_maxMinor = 0, hello_required = [], hello_optional = []\<rparr>"

abbreviation js_nat :: "nat \<Rightarrow> jsval" where
  "js_nat n \<equiv> JNum (NInt (int n))"

definition hello_value :: "ClientHello \<Rightarrow> jsval" where
  "hello_value hello = JObj [
     (''major'', js_nat (hello_major hello)),
     (''max_minor'', js_nat (hello_maxMinor hello)),
     (''required'', JArr (map JStr (hello_required hello))),
     (''optional'', JArr (map JStr (hello_optional hello)))]"

definition encodeClientHello :: "ClientHello \<Rightarrow> cbor_error + bytes" where
  "encodeClientHello hello = encode (hello_value hello)"

text \<open>Reading a property throws on \<open>null\<close> and \<open>undefined\<close>.\<close>

definition prop_of :: "jsval \<Rightarrow> string \<Rightarrow> client_error + jsval" where
  "prop_of v k = (if nullish v then Inl TypeError else Inr (get_prop v k))"

definition decode_value :: "(jsval \<Rightarrow> string option) \<Rightarrow> bytes \<Rightarrow> client_error + jsval" where
  "decode_value other bs = (case decode other bs of Inl e \<Rightarrow> Inl (Codec e) | Inr v \<Rightarrow> Inr v)"

definition decodeNegotiated :: "(jsval \<Rightarrow> string option) \<Rightarrow> bytes \<Rightarrow> client_error + Negotiated" where
  "decodeNegotiated other payload =
     bind_result (decode_value other payload) (\<lambda>raw.
     bind_result (prop_of raw ''version'') (\<lambda>version.
     bind_result (prop_of version ''major'') (\<lambda>major.
     bind_result (prop_of version ''minor'') (\<lambda>minor.
       Inr \<lparr>neg_major = major, neg_minor = minor, neg_enabled = get_prop raw ''enabled''\<rparr>))))"

section \<open>The operand of a bitwise operator\<close>

text \<open>
  \<open>packVersion\<close> masks its arguments with \<open>& 0xff\<close>.  On a value that is not known to be a
  number this is \<open>ToInt32\<close>, which truncates a fraction, maps \<open>NaN\<close> and the infinities
  to zero, and refuses a big integer beside a number.  The conversion of strings and
  objects is the parameter \<open>coerce\<close>.
\<close>

definition flt_trunc :: "nat \<Rightarrow> int" where
  "flt_trunc b =
     (let ex = b div 2 ^ 52 mod 2 ^ 11; m = b mod 2 ^ 52 + 2 ^ 52; neg = b div 2 ^ 63 mod 2 = 1;
          mag = (if ex = 2047 \<or> ex < 1023 then 0
                 else if ex < 1075 then m div 2 ^ (1075 - ex) else m * 2 ^ (ex - 1075))
      in if neg then - int mag else int mag)"

definition low_byte :: "(jsval \<Rightarrow> nat) \<Rightarrow> jsval \<Rightarrow> client_error + nat" where
  "low_byte coerce v = (case v of
       JNum (NInt i) \<Rightarrow> Inr (nat (i mod 256))
     | JNum (NFlt b) \<Rightarrow> Inr (nat (flt_trunc b mod 256))
     | JNull \<Rightarrow> Inr 0
     | JUndef \<Rightarrow> Inr 0
     | JBool b \<Rightarrow> Inr (if b then 1 else 0)
     | JBig _ \<Rightarrow> Inl TypeError
     | _ \<Rightarrow> Inr (coerce v mod 256))"

section \<open>The two drivers\<close>

definition hello_frame :: "ClientHello \<Rightarrow> bytes \<Rightarrow> OutboundFrame" where
  "hello_frame hello payload =
     \<lparr>of_frameType = Hello, of_payload = payload, of_streamId = None, of_flags = Some END_STREAM,
      of_protocolVersion = Some (packVersion (hello_major hello) (hello_maxMinor hello))\<rparr>"

definition authenticate_frame :: "nat \<Rightarrow> OutboundFrame" where
  "authenticate_frame version =
     \<lparr>of_frameType = Authenticate, of_payload = [], of_streamId = None, of_flags = Some END_STREAM,
      of_protocolVersion = Some version\<rparr>"

definition clientHandshake ::
    "(jsval \<Rightarrow> string option) \<Rightarrow> (jsval \<Rightarrow> nat) \<Rightarrow> 's channel \<Rightarrow> ClientHello \<Rightarrow> ('s, Negotiated) async" where
  "clientHandshake other coerce transport hello =
     async_bind (async_result Codec (encodeClientHello hello)) (\<lambda>payload.
     async_bind (ch_send transport (hello_frame hello payload)) (\<lambda>_.
     async_bind (ch_recv transport) (\<lambda>negotiateFrame.
     if frameType (wf_header negotiateFrame) \<noteq> opcode Negotiate
     then async_throw (ExpectedFrame Negotiate (frameType (wf_header negotiateFrame)))
     else
     async_bind (async_result id (decodeNegotiated other (wf_payload negotiateFrame))) (\<lambda>negotiated.
     async_bind (async_result id (low_byte coerce (neg_major negotiated))) (\<lambda>major.
     async_bind (async_result id (low_byte coerce (neg_minor negotiated))) (\<lambda>minor.
     async_bind (ch_send transport (authenticate_frame (packVersion major minor))) (\<lambda>_.
     async_bind (ch_recv transport) (\<lambda>readyFrame.
     if frameType (wf_header readyFrame) \<noteq> opcode Ready
     then async_throw (ExpectedFrame Ready (frameType (wf_header readyFrame)))
     else async_return negotiated))))))))"

definition ready_profile :: "(jsval \<Rightarrow> string option) \<Rightarrow> ClientHello \<Rightarrow> bytes \<Rightarrow> client_error + WireReady" where
  "ready_profile other hello payload =
     (if payload = [] then
        Inr \<lparr>ready_major = js_nat (hello_major hello), ready_minor = js_nat (hello_maxMinor hello),
             ready_enabled = JArr [], ready_leaseTtlSecs = js_nat 0\<rparr>
      else
        bind_result (decode_value other payload) (\<lambda>raw.
        bind_result (prop_of raw ''major'') (\<lambda>major.
          Inr \<lparr>ready_major = coalesce major (js_nat (hello_major hello)),
               ready_minor = coalesce (get_prop raw ''minor'') (js_nat (hello_maxMinor hello)),
               ready_enabled = coalesce (get_prop raw ''enabled'') (JArr []),
               ready_leaseTtlSecs = coalesce (get_prop raw ''lease_ttl_secs'') (js_nat 0)\<rparr>)))"

definition wireHandshake ::
    "(jsval \<Rightarrow> string option) \<Rightarrow> 's channel \<Rightarrow> ClientHello \<Rightarrow> ('s, WireReady) async" where
  "wireHandshake other transport hello =
     async_bind (async_result Codec (encodeClientHello hello)) (\<lambda>payload.
     async_bind (ch_send transport (hello_frame hello payload)) (\<lambda>_.
     async_bind (ch_recv transport) (\<lambda>readyFrame.
     if frameType (wf_header readyFrame) \<noteq> opcode Ready
     then async_throw (ExpectedFrame Ready (frameType (wf_header readyFrame)))
     else async_result id (ready_profile other hello (wf_payload readyFrame)))))"

section \<open>Over any frame transport\<close>

definition hello_ok :: "ClientHello \<Rightarrow> bool" where
  "hello_ok hello \<longleftrightarrow> hello_major hello < 2 ^ 53 \<and> hello_maxMinor hello < 2 ^ 53 \<and>
     list_all str_ok (hello_required hello) \<and> length (hello_required hello) < 2 ^ 64 \<and>
     list_all str_ok (hello_optional hello) \<and> length (hello_optional hello) < 2 ^ 64"

lemma hello_names: "name_ok ''major''" "name_ok ''max_minor''" "name_ok ''required''" "name_ok ''optional''"
  by (simp_all add: name_ok_def ascii_def is_digit_def)

lemma hello_wire_ok: "hello_ok hello \<Longrightarrow> wire_ok (hello_value hello)"
  unfolding hello_value_def
  by (rule wire_ok_record) (auto simp: hello_ok_def hello_names list_all_iff simp del: wire_ok.simps(1))

lemma encodeClientHello_ok: "hello_ok hello \<Longrightarrow> encodeClientHello hello = Inr (wire_bytes (hello_value hello))"
  by (simp add: encodeClientHello_def encode_wire_bytes hello_wire_ok)

context frame_transport
begin

text \<open>What the first exchange of both drivers does.\<close>

lemma hello_exchange:
  assumes "open_at s" "coming s = r # fs" "encodeClientHello hello = Inr p"
  shows "\<exists>s'. (\<forall>k. async_bind (async_result Codec (encodeClientHello hello)) (\<lambda>payload.
       async_bind (ch_send chan (hello_frame hello payload)) (\<lambda>_. async_bind (ch_recv chan) k)) s = k r s') \<and>
    open_at s' \<and> sent s' = sent s @ outbound_bytes (hello_frame hello p) \<and> coming s' = fs"
  using exchange [OF assms(1,2), of "hello_frame hello p"] assms(3) by (simp add: async_simps)

lemma clientHandshake_accepts:
  assumes "open_at s" "coming s = f # g # fs" "encodeClientHello hello = Inr p"
    and "frameType (wf_header f) = opcode Negotiate" "decodeNegotiated other (wf_payload f) = Inr n"
    and "low_byte coerce (neg_major n) = Inr ma" "low_byte coerce (neg_minor n) = Inr mi"
  shows "\<exists>s'. clientHandshake other coerce chan hello s =
      (if frameType (wf_header g) = opcode Ready then Resolved n
       else Rejected (ExpectedFrame Ready (frameType (wf_header g))), s') \<and> coming s' = fs \<and> open_at s' \<and>
    sent s' = sent s @ outbound_bytes (hello_frame hello p) @ outbound_bytes (authenticate_frame (packVersion ma mi))"
proof -
  from hello_exchange [OF assms(1-3)] obtain s1 where
    s1: "\<And>k :: WireFrame \<Rightarrow> ('s, Negotiated) async. async_bind (async_result Codec (encodeClientHello hello)) (\<lambda>payload.
         async_bind (ch_send chan (hello_frame hello payload)) (\<lambda>_. async_bind (ch_recv chan) k)) s = k f s1"
      "open_at s1" "sent s1 = sent s @ outbound_bytes (hello_frame hello p)" "coming s1 = g # fs"
    by blast
  from exchange [OF s1(2,4), of "authenticate_frame (packVersion ma mi)"] obtain s2 where
    s2: "\<And>k :: WireFrame \<Rightarrow> ('s, Negotiated) async. async_bind (ch_send chan (authenticate_frame (packVersion ma mi))) (\<lambda>_. async_bind (ch_recv chan) k) s1 = k g s2"
      "open_at s2" "sent s2 = sent s1 @ outbound_bytes (authenticate_frame (packVersion ma mi))" "coming s2 = fs"
    by blast
  then show ?thesis unfolding clientHandshake_def s1(1) by (simp add: assms(4-7) s1(3) async_simps)
qed

lemma clientHandshake_refuses:
  assumes "open_at s" "coming s = f # fs" "encodeClientHello hello = Inr p"
    and "frameType (wf_header f) \<noteq> opcode Negotiate"
  shows "\<exists>s'. clientHandshake other coerce chan hello s =
      (Rejected (ExpectedFrame Negotiate (frameType (wf_header f))), s') \<and>
    sent s' = sent s @ outbound_bytes (hello_frame hello p)"
proof -
  from hello_exchange [OF assms(1-3)] obtain s1 where
    s1: "\<And>k :: WireFrame \<Rightarrow> ('s, Negotiated) async. async_bind (async_result Codec (encodeClientHello hello)) (\<lambda>payload.
         async_bind (ch_send chan (hello_frame hello payload)) (\<lambda>_. async_bind (ch_recv chan) k)) s = k f s1"
      "open_at s1" "sent s1 = sent s @ outbound_bytes (hello_frame hello p)" "coming s1 = fs"
    by blast
  then show ?thesis unfolding clientHandshake_def s1(1) using assms(4) by (simp add: async_simps)
qed

lemma handshakes_unanswered:
  assumes "open_at s" "coming s = []" "encodeClientHello hello = Inr p"
  shows "\<exists>s'. clientHandshake other coerce chan hello s = (Pending, s')"
    and "\<exists>s'. wireHandshake other chan hello s = (Pending, s')"
  using exchange_unanswered [OF assms(1,2), of "hello_frame hello p"] assms(3)
  by (auto simp: clientHandshake_def wireHandshake_def async_simps)

lemma wireHandshake_answers:
  assumes "open_at s" "coming s = f # fs" "encodeClientHello hello = Inr p"
  shows "\<exists>s'. wireHandshake other chan hello s =
      (if frameType (wf_header f) \<noteq> opcode Ready
       then Rejected (ExpectedFrame Ready (frameType (wf_header f)))
       else (case ready_profile other hello (wf_payload f) of Inl e \<Rightarrow> Rejected e | Inr r \<Rightarrow> Resolved r), s') \<and>
    open_at s' \<and> coming s' = fs \<and> sent s' = sent s @ outbound_bytes (hello_frame hello p)"
proof -
  from hello_exchange [OF assms] obtain s1 where
    s1: "\<And>k :: WireFrame \<Rightarrow> ('s, WireReady) async. async_bind (async_result Codec (encodeClientHello hello)) (\<lambda>payload.
         async_bind (ch_send chan (hello_frame hello payload)) (\<lambda>_. async_bind (ch_recv chan) k)) s = k f s1"
      "open_at s1" "sent s1 = sent s @ outbound_bytes (hello_frame hello p)" "coming s1 = fs"
    by blast
  then show ?thesis unfolding wireHandshake_def s1(1) 
    by (cases "ready_profile other hello (wf_payload f)") (simp_all add: async_simps)
qed

end

section \<open>Over the stream transport\<close>

definition profile_value :: "nat \<Rightarrow> nat \<Rightarrow> string list \<Rightarrow> jsval" where
  "profile_value ma mi caps = JObj [
     (''version'', JObj [(''major'', js_nat ma), (''minor'', js_nat mi)]),
     (''enabled'', JArr (map JStr caps))]"

lemma numeric_small [simp]: "n < 256 \<Longrightarrow> numeric (int n) = js_nat n"
  by (simp add: numeric_def MAX_SAFE_def)

lemma profile_names: "name_ok ''version''" "name_ok ''minor''" "name_ok ''enabled''"
  by (simp_all add: name_ok_def ascii_def is_digit_def)

lemma profile_wire_ok:
  assumes "ma < 256" "mi < 256" "list_all str_ok caps" "length caps < 2 ^ 64"
  shows "wire_ok (profile_value ma mi caps)"
proof -
  have "wire_ok (JObj [(''major'', js_nat ma), (''minor'', js_nat mi)])"
    by (rule wire_ok_record) (use assms in \<open>auto simp: hello_names profile_names simp del: wire_ok.simps(1)\<close>)
  with assms show ?thesis
    unfolding profile_value_def
    by (intro wire_ok_record) (auto simp: profile_names list_all_iff simp del: wire_ok.simps(1,7))
qed

lemma norm_strings [simp]: "map (norm \<circ> JStr) xs = map JStr xs"
  by simp

lemma decodeNegotiated_profile:
  assumes "ma < 256" "mi < 256" "list_all str_ok caps" "length caps < 2 ^ 64"
  shows "decodeNegotiated other (wire_bytes (profile_value ma mi caps)) =
    Inr \<lparr>neg_major = js_nat ma, neg_minor = js_nat mi, neg_enabled = JArr (map JStr caps)\<rparr>"
proof -
  have "decode other (wire_bytes (profile_value ma mi caps)) = Inr (profile_value ma mi caps)"
    using decode_wire_bytes [OF profile_wire_ok [OF assms]] assms(1,2)
    by (simp add: profile_value_def isInteger_def toBigInt_def comp_def)
  then show ?thesis
    by (simp add: decodeNegotiated_def decode_value_def prop_of_def nullish_def get_prop_def profile_value_def)
qed

lemma hello_frame_ok:
  assumes "length p \<le> DEFAULT_MAX_PAYLOAD"
  shows "outbound_ok (hello_frame hello p)"
  using assms packVersion_less
  by (simp add: outbound_ok_def header_ok_def hello_frame_def outboundHeader_def END_STREAM_def DEFAULT_MAX_PAYLOAD_def)

lemma authenticate_frame_ok: "outbound_ok (authenticate_frame (packVersion ma mi))"
  using packVersion_less
  by (simp add: outbound_ok_def header_ok_def authenticate_frame_def outboundHeader_def END_STREAM_def
      DEFAULT_MAX_PAYLOAD_def)

text \<open>
  The agent-plane handshake: when the server answers NEGOTIATE and READY, the client
  resolves with exactly the negotiated profile, and what it wrote is exactly two frames:
  HELLO with its offer, then an empty AUTHENTICATE at the negotiated version.
\<close>

theorem client_handshake_completes:
  assumes "hello_ok hello" "length (wire_bytes (hello_value hello)) \<le> DEFAULT_MAX_PAYLOAD"
    and "fst (frames_of (concat chunks)) = f # g # fs"
    and "frameType (wf_header f) = opcode Negotiate" "wf_payload f = wire_bytes (profile_value ma mi caps)"
    and "ma < 256" "mi < 256" "list_all str_ok caps" "length caps < 2 ^ 64"
    and "frameType (wf_header g) = opcode Ready"
  shows "\<exists>w. clientHandshake other coerce socket_channel hello (connection chunks) =
      (Resolved \<lparr>neg_major = js_nat ma, neg_minor = js_nat mi, neg_enabled = JArr (map JStr caps)\<rparr>, w) \<and>
    frames_of (written (w_transport w)) =
      ([carried (hello_frame hello (wire_bytes (hello_value hello))),
        carried (authenticate_frame (packVersion ma mi))], [], None)"
proof -
  let ?n = "\<lparr>neg_major = js_nat ma, neg_minor = js_nat mi, neg_enabled = JArr (map JStr caps)\<rparr>"
  let ?hello = "hello_frame hello (wire_bytes (hello_value hello))"
  let ?auth = "authenticate_frame (packVersion ma mi)"
  have "decodeNegotiated other (wf_payload f) = Inr ?n"
    using decodeNegotiated_profile [OF assms(6-9)] assms(5) by simp
  moreover have "low_byte coerce (js_nat ma) = Inr ma" "low_byte coerce (js_nat mi) = Inr mi"
    using assms(6,7) by (simp_all add: low_byte_def nat_mod_as_int)
  ultimately obtain w where "clientHandshake other coerce socket_channel hello (connection chunks) = (Resolved ?n, w)"
    "written (w_transport w) = outbound_bytes ?hello @ outbound_bytes ?auth"
    using socket.clientHandshake_accepts [of "connection chunks" f g fs hello _ other ?n coerce ma mi]
      assms(3,4,10) encodeClientHello_ok [OF assms(1)]
    by auto
  moreover have "frames_of (concat (map outbound_bytes [?hello, ?auth])) = ([carried ?hello, carried ?auth], [], None)"
    by (subst frames_of_outbound) (simp_all add: hello_frame_ok assms(2) authenticate_frame_ok)
  ultimately show ?thesis by simp
qed

definition server_frame :: "FrameType \<Rightarrow> bytes \<Rightarrow> OutboundFrame" where
  "server_frame ft payload = \<lparr>of_frameType = ft, of_payload = payload, of_streamId = None, of_flags = None,
     of_protocolVersion = None\<rparr>"

lemma server_frame_ok: "length payload \<le> DEFAULT_MAX_PAYLOAD \<Longrightarrow> outbound_ok (server_frame ft payload)"
  using opcode_less [of ft]
  by (simp add: outbound_ok_def header_ok_def server_frame_def outboundHeader_def END_STREAM_def
      DEFAULT_MAX_PAYLOAD_def PROTOCOL_V1_0_def)

lemma carried_server_frame [simp]:
  "frameType (wf_header (carried (server_frame ft payload))) = opcode ft"
  "wf_payload (carried (server_frame ft payload)) = payload"
  by (simp_all add: carried_def server_frame_def outboundHeader_def)

lemma default_hello_ok: "hello_ok DEFAULT_HELLO"
  by (simp add: hello_ok_def DEFAULT_HELLO_def)

lemma default_hello_bytes: "length (wire_bytes (hello_value DEFAULT_HELLO)) \<le> DEFAULT_MAX_PAYLOAD"
  by (simp add: wire_bytes_def hello_value_def DEFAULT_HELLO_def encodeText_def encodeInt_def head_def push_def
      isInteger_def toBigInt_def DEFAULT_MAX_PAYLOAD_def)

lemma profile_bytes: "length (wire_bytes (profile_value 2 3 [])) \<le> DEFAULT_MAX_PAYLOAD"
  by (simp add: wire_bytes_def profile_value_def encodeText_def encodeInt_def head_def push_def
      isInteger_def toBigInt_def DEFAULT_MAX_PAYLOAD_def)

theorem client_handshake_completes_witness:
  "\<exists>w. clientHandshake (\<lambda>_. None) (\<lambda>_. 0) socket_channel DEFAULT_HELLO
        (connection [outbound_bytes (server_frame Negotiate (wire_bytes (profile_value 2 3 []))),
                     outbound_bytes (server_frame Ready [])]) =
      (Resolved \<lparr>neg_major = js_nat 2, neg_minor = js_nat 3, neg_enabled = JArr []\<rparr>, w)"
proof -
  let ?fs = "[server_frame Negotiate (wire_bytes (profile_value 2 3 [])), server_frame Ready []]"
  have "frames_of (concat (map outbound_bytes ?fs)) = (map carried ?fs, [], None)"
    by (rule frames_of_outbound) (simp add: server_frame_ok profile_bytes)
  then show ?thesis
    using client_handshake_completes [of DEFAULT_HELLO "map outbound_bytes ?fs" "carried (?fs ! 0)" "carried (?fs ! 1)"
        "[]" 2 3 "[]" "\<lambda>_. None" "\<lambda>_. 0"] default_hello_ok default_hello_bytes
    by auto
qed

text \<open>
  Out-of-order servers are refused before anything more is sent: unless the first
  frame is NEGOTIATE the agent-plane driver rejects with the opcode it got and has
  written HELLO only, so never AUTHENTICATE; the reactor-plane driver does the same
  unless the first frame is READY; and with no answer at all neither ever resolves.
\<close>

theorem handshake_out_of_order:
  assumes "hello_ok hello"
  shows "(case fst (frames_of (concat chunks)) of
      [] \<Rightarrow> (\<exists>w. clientHandshake other coerce socket_channel hello (connection chunks) = (Pending, w)) \<and>
            (\<exists>w. wireHandshake other socket_channel hello (connection chunks) = (Pending, w))
    | f # _ \<Rightarrow>
       (frameType (wf_header f) \<noteq> opcode Negotiate \<longrightarrow>
          (\<exists>w. clientHandshake other coerce socket_channel hello (connection chunks) =
             (Rejected (ExpectedFrame Negotiate (frameType (wf_header f))), w) \<and>
             written (w_transport w) = outbound_bytes (hello_frame hello (wire_bytes (hello_value hello))))) \<and>
       (frameType (wf_header f) \<noteq> opcode Ready \<longrightarrow>
          (\<exists>w. wireHandshake other socket_channel hello (connection chunks) =
             (Rejected (ExpectedFrame Ready (frameType (wf_header f))), w) \<and>
             written (w_transport w) = outbound_bytes (hello_frame hello (wire_bytes (hello_value hello))))))"
proof (cases "fst (frames_of (concat chunks))")
  case Nil
  with socket.handshakes_unanswered [OF connection_open _ encodeClientHello_ok [OF assms]] show ?thesis by simp
next
  case (Cons f fs)
  with socket.clientHandshake_refuses [OF connection_open _ encodeClientHello_ok [OF assms], of chunks f fs other coerce]
    socket.wireHandshake_answers [OF connection_open _ encodeClientHello_ok [OF assms], of chunks f fs other]
  show ?thesis by auto
qed

theorem handshake_out_of_order_witness:
  "\<exists>w. clientHandshake (\<lambda>_. None) (\<lambda>_. 0) socket_channel DEFAULT_HELLO
        (connection [outbound_bytes (server_frame GoAway [])]) = (Rejected (ExpectedFrame Negotiate 9), w)"
proof -
  have "frames_of (concat (map outbound_bytes [server_frame GoAway []])) = (map carried [server_frame GoAway []], [], None)"
    by (rule frames_of_outbound) (simp add: server_frame_ok)
  then show ?thesis
    using handshake_out_of_order [OF default_hello_ok, where chunks = "[outbound_bytes (server_frame GoAway [])]"
        and other = "\<lambda>_. None" and coerce = "\<lambda>_. 0"]
    by auto
qed

end
