(* ===== verification/WireDto.thy ===== *)
theory WireDto
  imports JsValue
begin

text \<open>
  The request side of the wire contract: the interfaces of
  \<open>packages/contracts/src/generated/wire-dto.ts\<close> that a \<open>WireRequest\<close> carries.  A number
  is a \<open>jsnum\<close>.  An optional field is an \<open>option\<close>; \<open>None\<close> stands for a field that is
  undefined, and for \<open>null\<close> where its type also allows that, which no code that reads it
  distinguishes.  Interfaces share their common fields by record extension, and
  interfaces with the same fields (one type in a structural type system) share a record.
  The payload of a variant that the client never looks into is a JavaScript value.
\<close>

section \<open>Shared parts\<close>

record OperatorDelegation =
  od_principal :: string
  od_tenant :: string
  od_settings_tier :: "string option"

datatype WireValue =
    VBool bool
  | VInt jsnum
  | VFloat jsnum
  | VText string
  | VBytes "jsnum list"
  | VTimestamp jsnum
  | VVector "jsnum list"

record WireRead =
  request_id :: jsnum
  operator :: "OperatorDelegation option"

type_synonym WireListAgents = WireRead
type_synonym WireListPrincipals = WireRead
type_synonym WireListGroups = WireRead
type_synonym WireObjectList = WireRead
type_synonym WireIdamConnectors = WireRead
type_synonym WirePolicyListQuery = WireRead
type_synonym WireDetectSummaryQuery = WireRead
type_synonym WireSettingsApprovalsQuery = WireRead
type_synonym WireSocSettingsQuery = WireRead

record WireQuerySubmit = WireRead +
  qs_text :: string
  qs_params :: "(string \<times> WireValue) list"

record 'spec WireSpecWrite = WireRead +
  rq_spec :: 'spec

section \<open>Users, objects and connectors\<close>

record WireNamed = WireRead +
  rq_name :: string

type_synonym WireObjectDetailQuery = WireNamed
type_synonym WireObjectDelete = WireNamed

record WireGroupWrite = WireNamed +
  gw_description :: string

record WireGroupSetMembers = WireNamed +
  gm_members :: "string list"

record WirePrincipalSpec =
  ps_username :: string
  ps_subject_type :: string
  ps_email :: "string option"
  ps_org :: "string option"

type_synonym WirePrincipalCreate = "WirePrincipalSpec WireSpecWrite"
type_synonym WirePrincipalEdit = "WirePrincipalSpec WireSpecWrite"

record WirePrincipalSetStatus = WireRead +
  pss_username :: string
  pss_status :: string

record WireObjectSpec =
  os_name :: string
  os_kind :: string
  os_selector_kind :: string
  os_selector_value :: string
  os_attributes :: "string list option"
  os_description :: string
  os_tags :: "string list option"
  os_lifecycle :: string

type_synonym WireObjectCreate = "WireObjectSpec WireSpecWrite"
type_synonym WireObjectEdit = "WireObjectSpec WireSpecWrite"

record WireIdamSync = WireRead +
  idam_provider :: string

record WireIdamConfigure = WireIdamSync +
  idam_enabled :: bool
  idam_poll_interval_secs :: jsnum
  idam_full_sync_cadence_hours :: jsnum

record WireIdamConnect = WireIdamSync +
  idam_domain :: string
  idam_client_id :: string
  idam_audience :: string
  idam_client_secret_ref :: string

section \<open>Entities, connectivity and logs\<close>

record WireEntityDecisions = WireRead +
  ed_entity_type :: string
  ed_entity_value :: string
  ed_limit :: jsnum

record WireEntityConnections = WireRead +
  ec_subject_kind :: string
  ec_subject_id :: string
  ec_limit :: jsnum

record WireConnectivityQuery = WireRead +
  cq_since :: "jsnum option"
  cq_until :: "jsnum option"
  cq_limit :: jsnum

record WireConnectivityMembers = WireRead +
  cm_class :: string
  cm_limit :: jsnum

record WireLogQuery = WireRead +
  lq_since :: "jsnum option"
  lq_until :: "jsnum option"
  lq_technique :: "string option"
  lq_tactic :: "string option"
  lq_rule_id :: "string option"
  lq_confidence :: "string option"
  lq_action :: "string option"
  lq_search :: "string option"
  lq_limit :: jsnum
  lq_offset :: "jsnum option"

record WireLogExplain = WireRead +
  le_decision_id :: string

record WireLogExport =
  lx_operator :: "OperatorDelegation option"
  lx_query :: WireLogQuery
  lx_command_id :: string
  lx_issued_at :: jsnum

record WireContain =
  ct_operator :: "OperatorDelegation option"
  ct_request :: jsval

section \<open>Zones and policy bundles\<close>

record WireDomainPosture =
  dp_domain :: string
  dp_posture :: string
  dp_floor :: bool

record WireVtzSpec =
  vs_name :: string
  vs_description :: string
  vs_zone_type :: string
  vs_own_postures :: "WireDomainPosture list"
  vs_micro_segmentation :: bool
  vs_telemetry :: string
  vs_reauth_interval_hours :: jsnum
  vs_lifecycle :: string

type_synonym WireVtzCreate = "WireVtzSpec WireSpecWrite"
type_synonym WireVtzEdit = "WireVtzSpec WireSpecWrite"

record WireVtzTreeQuery = WireRead +
  vt_limit :: jsnum

record WireVtzRef = WireRead +
  vr_vtz_id :: string

type_synonym WireVtzDetailQuery = WireVtzRef
type_synonym WireVtzDelete = WireVtzRef

record WireVtzRescope = WireVtzRef +
  vr_new_name :: string

record WireBundleCommit = WireRead +
  bc_bundle :: "jsnum list"

record WireBundleConvergenceQuery =
  bq_request_id :: jsnum
  bq_vtz_id :: string

section \<open>Policies\<close>

record WirePolicyRule =
  pr_source_kind :: string
  pr_source_selector_kind :: string
  pr_source_selector_value :: string
  pr_destination_kind :: string
  pr_destination_selector_kind :: string
  pr_destination_selector_value :: string
  pr_action :: string

record WireScopeMember =
  sm_endpoint_cn :: string
  sm_agent :: "string option"

record WirePolicySpec =
  sp_vtz :: string
  sp_name :: string
  sp_description :: string
  sp_rules :: "WirePolicyRule list"
  sp_protocols :: "string list option"
  sp_ports :: "string option"
  sp_schedule_days :: "string list option"
  sp_schedule_start_minute :: "jsnum option"
  sp_schedule_end_minute :: "jsnum option"
  sp_active_from :: "jsnum option"
  sp_active_until :: "jsnum option"
  sp_geo :: "string list option"
  sp_restriction_tags :: "string list option"
  sp_logging :: string
  sp_applied_to :: "WireScopeMember list option"
  sp_max_classification :: string
  sp_default_postures :: "WireDomainPosture list option"

record WirePolicyEffectiveQuery = WireRead +
  pq_vtz :: string

record WirePolicyRef = WirePolicyEffectiveQuery +
  pq_id :: string

type_synonym WirePolicyDetailQuery = WirePolicyRef
type_synonym WirePolicyDelete = WirePolicyRef

record WirePolicyPublish = WirePolicyRef +
  pq_version :: string

type_synonym WirePolicyCreate = "WirePolicySpec WireSpecWrite"

record WirePolicyEdit = "WirePolicySpec WireSpecWrite" +
  pe_id :: string

section \<open>SOC operations\<close>

record WireSocIncidentListQuery = WireRead +
  si_limit :: jsnum
  si_cursor :: "string option"

record WireIncident = WireRead +
  incident :: string

type_synonym WireSocNarrativeQuery = WireIncident
type_synonym WireSocIncidentDetailQuery = WireIncident
type_synonym WireSocTelemetryQuery = WireIncident
type_synonym WireSocAuditQuery = WireIncident
type_synonym WireSocNotesQuery = WireIncident
type_synonym WireSocImpactQuery = WireIncident
type_synonym WireSocReportQuery = WireIncident
type_synonym WireSocUebaQuery = WireIncident
type_synonym WireSocCognitionRun = WireIncident

record WireSocPlanApprove = WireIncident +
  pa_at_revision :: jsnum

record WirePlanStepInput =
  st_title :: string
  st_action :: "string option"

record WireSocPlanModify = WireIncident +
  pm_steps :: "WirePlanStepInput list"

record WireSocDisposition = WireIncident +
  sd_disposition :: string
  sd_justification :: "string option"
  sd_authorized_by :: "string option"
  sd_action_taken :: "string option"
  sd_blocking_control :: "string option"
  sd_accepting_party :: "string option"
  sd_expiry_seconds :: "jsnum option"
  sd_predecessor :: "string option"

record WireSocIncidentAct = WireIncident +
  ia_act :: string
  ia_assignee :: "string option"
  ia_note :: "string option"

record WireSocWeeklyQuery = WireRead +
  sw_weeks :: jsnum
  sw_until_seconds :: "jsnum option"

section \<open>Settings and model access\<close>

record WireSettingsQuery = WireRead +
  sq_surface :: "string option"

record WireSettingsReportsQuery = WireRead +
  sr_reports :: "string list"

record WireModelAccessQuery = WireRead +
  ma_from_unix_ms :: jsnum
  ma_to_unix_ms :: jsnum

record WireAgentGrantSet = WireRead +
  ag_agent :: string
  ag_models :: "string list"
  ag_tools :: "string list"
  ag_expected_models :: "string list"
  ag_expected_tools :: "string list"

record WireSettingEdit =
  se_key :: string
  se_value :: string

record WireEgressSetting =
  eg_id :: string
  eg_ceiling :: string

record WireLugExposureSettings =
  lu_enabled :: bool
  lu_resolution_enabled :: bool
  lu_max_accounts_per_namespace :: jsnum
  lu_max_groups_per_namespace :: jsnum
  lu_max_sessions_per_device :: jsnum
  lu_last_seen_bucket_hours :: jsnum
  lu_binding_confirm_threshold_permille :: jsnum
  lu_snapshot_cadence_hours :: jsnum

record WireSourceFormatMapping =
  sf_source :: string
  sf_format :: string

record WireSectionPatch =
  sc_dual_control :: "string list option"
  sc_egress_destinations :: "WireEgressSetting list option"
  sc_lug_exposure :: "WireLugExposureSettings option"
  sc_disabled_decoder_families :: "string list option"
  sc_source_format_map :: "WireSourceFormatMapping list option"
  sc_soc_narrative_model_ref :: "string option"

record WireSettingsCommit = WireRead +
  sc_edits :: "WireSettingEdit list"
  sc_sections :: "WireSectionPatch option"

record WireSettingsApprove = WireRead +
  sa_proposal :: jsnum

record WireSettingsHistoryQuery = WireRead +
  sh_limit :: "jsnum option"

record WireSettingsRollback = WireRead +
  sb_to :: jsnum

record WireSocTierSettings =
  ti_p_low_milli :: jsnum
  ti_p_high_milli :: jsnum

record WireSiemWritebackSettings =
  sm_enabled :: bool
  sm_vendor :: string
  sm_host :: string
  sm_stream :: string
  sm_case_url_base :: string
  sm_ceiling :: string

record WireSocSettingsCommit = WireRead +
  sk_tiers :: "WireSocTierSettings option"
  sk_siem_writeback :: "WireSiemWritebackSettings option"

section \<open>Requests\<close>

text \<open>
  The 84 variants of \<open>WireRequest\<close>, grouped by the surface they serve to keep the
  datatypes small; a group is not a level of the wire form.
\<close>

datatype CoreRequest =
    ReqQuerySubmit WireQuerySubmit
  | ReqPrepare jsval
  | ReqExecutePrepared jsval
  | ReqCursorFetch "jsnum list"
  | ReqCursorClose "jsnum list"
  | ReqTxnBegin
  | ReqTxnWrite jsval
  | ReqTxnCommit jsval
  | ReqTxnAbort jsval
  | ReqSubmitMemoryWrite WireQuerySubmit
  | ReqEntityDecisions WireEntityDecisions
  | ReqEntityConnections WireEntityConnections
  | ReqContain WireContain
  | ReqLogQuery WireLogQuery
  | ReqLogExplain WireLogExplain
  | ReqLogExport WireLogExport
  | ReqConnectivityGraph WireConnectivityQuery
  | ReqConnectivityMembers WireConnectivityMembers
  | ReqUsageOverview jsval

datatype DirectoryRequest =
    ReqListAgents WireListAgents
  | ReqListPrincipals WireListPrincipals
  | ReqListGroups WireListGroups
  | ReqObjectList WireObjectList
  | ReqObjectDetail WireObjectDetailQuery
  | ReqObjectCreate WireObjectCreate
  | ReqObjectEdit WireObjectEdit
  | ReqObjectDelete WireObjectDelete
  | ReqIdamConnectors WireIdamConnectors
  | ReqIdamSync WireIdamSync
  | ReqIdamConfigure WireIdamConfigure
  | ReqIdamConnect WireIdamConnect
  | ReqPrincipalCreate WirePrincipalCreate
  | ReqPrincipalEdit WirePrincipalEdit
  | ReqPrincipalSetStatus WirePrincipalSetStatus
  | ReqGroupCreate WireGroupWrite
  | ReqGroupEdit WireGroupWrite
  | ReqGroupSetMembers WireGroupSetMembers
  | ReqLugSnapshot jsval
  | ReqLugEvents jsval

datatype ZoneRequest =
    ReqVtzTree WireVtzTreeQuery
  | ReqVtzDetail WireVtzDetailQuery
  | ReqVtzCreate WireVtzCreate
  | ReqVtzEdit WireVtzEdit
  | ReqVtzRescope WireVtzRescope
  | ReqVtzDelete WireVtzDelete
  | ReqPolicyListByZone WirePolicyListQuery
  | ReqPolicyDetail WirePolicyDetailQuery
  | ReqPolicyEffective WirePolicyEffectiveQuery
  | ReqPolicyCreate WirePolicyCreate
  | ReqPolicyEdit WirePolicyEdit
  | ReqPolicyPublish WirePolicyPublish
  | ReqPolicyDelete WirePolicyDelete
  | ReqBundleCommit WireBundleCommit
  | ReqBundleFetch jsval
  | ReqBundleReport jsval
  | ReqBundleConvergence WireBundleConvergenceQuery

datatype SocRequest =
    ReqDetectSummary WireDetectSummaryQuery
  | ReqSocNarrative WireSocNarrativeQuery
  | ReqSocIncidentList WireSocIncidentListQuery
  | ReqSocIncidentDetail WireSocIncidentDetailQuery
  | ReqSocTelemetry WireSocTelemetryQuery
  | ReqSocAudit WireSocAuditQuery
  | ReqSocDisposition WireSocDisposition
  | ReqSocIncidentAct WireSocIncidentAct
  | ReqSocNotes WireSocNotesQuery
  | ReqSocImpact WireSocImpactQuery
  | ReqSocReport WireSocReportQuery
  | ReqSocUeba WireSocUebaQuery
  | ReqSocWeekly WireSocWeeklyQuery
  | ReqSocSettingsRead WireSocSettingsQuery
  | ReqSocSettingsCommit WireSocSettingsCommit
  | ReqSocCognitionRun WireSocCognitionRun
  | ReqSocPlanApprove WireSocPlanApprove
  | ReqSocPlanModify WireSocPlanModify

datatype SettingsRequest =
    ReqSettingsRead WireSettingsQuery
  | ReqSettingsReports WireSettingsReportsQuery
  | ReqModelAccessRead WireModelAccessQuery
  | ReqAgentGrantSet WireAgentGrantSet
  | ReqSettingsCommit WireSettingsCommit
  | ReqSettingsPropose WireSettingsCommit
  | ReqSettingsApprovals WireSettingsApprovalsQuery
  | ReqSettingsApprove WireSettingsApprove
  | ReqSettingsHistory WireSettingsHistoryQuery
  | ReqSettingsRollback WireSettingsRollback

datatype WireRequest =
    Core CoreRequest
  | Directory DirectoryRequest
  | Zone ZoneRequest
  | Soc SocRequest
  | Settings SettingsRequest

text \<open>The key of the externally tagged form of a request.\<close>

fun core_tag :: "CoreRequest \<Rightarrow> string" where
  "core_tag (ReqQuerySubmit _) = ''QuerySubmit''"
| "core_tag (ReqPrepare _) = ''Prepare''"
| "core_tag (ReqExecutePrepared _) = ''ExecutePrepared''"
| "core_tag (ReqCursorFetch _) = ''CursorFetch''"
| "core_tag (ReqCursorClose _) = ''CursorClose''"
| "core_tag ReqTxnBegin = ''TxnBegin''"
| "core_tag (ReqTxnWrite _) = ''TxnWrite''"
| "core_tag (ReqTxnCommit _) = ''TxnCommit''"
| "core_tag (ReqTxnAbort _) = ''TxnAbort''"
| "core_tag (ReqSubmitMemoryWrite _) = ''SubmitMemoryWrite''"
| "core_tag (ReqEntityDecisions _) = ''EntityDecisions''"
| "core_tag (ReqEntityConnections _) = ''EntityConnections''"
| "core_tag (ReqContain _) = ''Contain''"
| "core_tag (ReqLogQuery _) = ''LogQuery''"
| "core_tag (ReqLogExplain _) = ''LogExplain''"
| "core_tag (ReqLogExport _) = ''LogExport''"
| "core_tag (ReqConnectivityGraph _) = ''ConnectivityGraph''"
| "core_tag (ReqConnectivityMembers _) = ''ConnectivityMembers''"
| "core_tag (ReqUsageOverview _) = ''UsageOverview''"

fun directory_tag :: "DirectoryRequest \<Rightarrow> string" where
  "directory_tag (ReqListAgents _) = ''ListAgents''"
| "directory_tag (ReqListPrincipals _) = ''ListPrincipals''"
| "directory_tag (ReqListGroups _) = ''ListGroups''"
| "directory_tag (ReqObjectList _) = ''ObjectList''"
| "directory_tag (ReqObjectDetail _) = ''ObjectDetail''"
| "directory_tag (ReqObjectCreate _) = ''ObjectCreate''"
| "directory_tag (ReqObjectEdit _) = ''ObjectEdit''"
| "directory_tag (ReqObjectDelete _) = ''ObjectDelete''"
| "directory_tag (ReqIdamConnectors _) = ''IdamConnectors''"
| "directory_tag (ReqIdamSync _) = ''IdamSync''"
| "directory_tag (ReqIdamConfigure _) = ''IdamConfigure''"
| "directory_tag (ReqIdamConnect _) = ''IdamConnect''"
| "directory_tag (ReqPrincipalCreate _) = ''PrincipalCreate''"
| "directory_tag (ReqPrincipalEdit _) = ''PrincipalEdit''"
| "directory_tag (ReqPrincipalSetStatus _) = ''PrincipalSetStatus''"
| "directory_tag (ReqGroupCreate _) = ''GroupCreate''"
| "directory_tag (ReqGroupEdit _) = ''GroupEdit''"
| "directory_tag (ReqGroupSetMembers _) = ''GroupSetMembers''"
| "directory_tag (ReqLugSnapshot _) = ''LugSnapshot''"
| "directory_tag (ReqLugEvents _) = ''LugEvents''"

fun zone_tag :: "ZoneRequest \<Rightarrow> string" where
  "zone_tag (ReqVtzTree _) = ''VtzTree''"
| "zone_tag (ReqVtzDetail _) = ''VtzDetail''"
| "zone_tag (ReqVtzCreate _) = ''VtzCreate''"
| "zone_tag (ReqVtzEdit _) = ''VtzEdit''"
| "zone_tag (ReqVtzRescope _) = ''VtzRescope''"
| "zone_tag (ReqVtzDelete _) = ''VtzDelete''"
| "zone_tag (ReqPolicyListByZone _) = ''PolicyListByZone''"
| "zone_tag (ReqPolicyDetail _) = ''PolicyDetail''"
| "zone_tag (ReqPolicyEffective _) = ''PolicyEffective''"
| "zone_tag (ReqPolicyCreate _) = ''PolicyCreate''"
| "zone_tag (ReqPolicyEdit _) = ''PolicyEdit''"
| "zone_tag (ReqPolicyPublish _) = ''PolicyPublish''"
| "zone_tag (ReqPolicyDelete _) = ''PolicyDelete''"
| "zone_tag (ReqBundleCommit _) = ''BundleCommit''"
| "zone_tag (ReqBundleFetch _) = ''BundleFetch''"
| "zone_tag (ReqBundleReport _) = ''BundleReport''"
| "zone_tag (ReqBundleConvergence _) = ''BundleConvergence''"

fun soc_tag :: "SocRequest \<Rightarrow> string" where
  "soc_tag (ReqDetectSummary _) = ''DetectSummary''"
| "soc_tag (ReqSocNarrative _) = ''SocNarrative''"
| "soc_tag (ReqSocIncidentList _) = ''SocIncidentList''"
| "soc_tag (ReqSocIncidentDetail _) = ''SocIncidentDetail''"
| "soc_tag (ReqSocTelemetry _) = ''SocTelemetry''"
| "soc_tag (ReqSocAudit _) = ''SocAudit''"
| "soc_tag (ReqSocDisposition _) = ''SocDisposition''"
| "soc_tag (ReqSocIncidentAct _) = ''SocIncidentAct''"
| "soc_tag (ReqSocNotes _) = ''SocNotes''"
| "soc_tag (ReqSocImpact _) = ''SocImpact''"
| "soc_tag (ReqSocReport _) = ''SocReport''"
| "soc_tag (ReqSocUeba _) = ''SocUeba''"
| "soc_tag (ReqSocWeekly _) = ''SocWeekly''"
| "soc_tag (ReqSocSettingsRead _) = ''SocSettingsRead''"
| "soc_tag (ReqSocSettingsCommit _) = ''SocSettingsCommit''"
| "soc_tag (ReqSocCognitionRun _) = ''SocCognitionRun''"
| "soc_tag (ReqSocPlanApprove _) = ''SocPlanApprove''"
| "soc_tag (ReqSocPlanModify _) = ''SocPlanModify''"

fun settings_tag :: "SettingsRequest \<Rightarrow> string" where
  "settings_tag (ReqSettingsRead _) = ''SettingsRead''"
| "settings_tag (ReqSettingsReports _) = ''SettingsReports''"
| "settings_tag (ReqModelAccessRead _) = ''ModelAccessRead''"
| "settings_tag (ReqAgentGrantSet _) = ''AgentGrantSet''"
| "settings_tag (ReqSettingsCommit _) = ''SettingsCommit''"
| "settings_tag (ReqSettingsPropose _) = ''SettingsPropose''"
| "settings_tag (ReqSettingsApprovals _) = ''SettingsApprovals''"
| "settings_tag (ReqSettingsApprove _) = ''SettingsApprove''"
| "settings_tag (ReqSettingsHistory _) = ''SettingsHistory''"
| "settings_tag (ReqSettingsRollback _) = ''SettingsRollback''"

fun request_tag :: "WireRequest \<Rightarrow> string" where
  "request_tag (Core r) = core_tag r"
| "request_tag (Directory r) = directory_tag r"
| "request_tag (Zone r) = zone_tag r"
| "request_tag (Soc r) = soc_tag r"
| "request_tag (Settings r) = settings_tag r"

end
