(* ===== verification/Payload.thy ===== *)
theory Payload
  imports Handshake WireDto "HOL-Library.Sublist"
begin

text \<open>
  Typed request payloads: \<open>packages/wire/src/payload.ts\<close>.  Every \<open>...ToCbor\<close> function
  builds an object by an object literal followed by assignments to keys that are not yet
  present, so an object under construction is a list of entries and an assignment adds
  one at the end.
\<close>

section \<open>Building blocks\<close>

type_synonym entries = "(string \<times> jsval) list"

text \<open>\<open>if (v != null) out[k] = v\<close>\<close>

definition opt :: "string \<Rightarrow> jsval option \<Rightarrow> entries" where
  "opt k v = (case v of None \<Rightarrow> [] | Some x \<Rightarrow> [(k, x)])"

abbreviation "opt_str k v \<equiv> opt k (map_option JStr v)"
abbreviation "opt_num k v \<equiv> opt k (map_option JNum v)"
abbreviation "strs xs \<equiv> JArr (map JStr xs)"

text \<open>\<open>if (xs !== undefined && xs.length > 0) out[k] = xs\<close>\<close>

definition nonempty :: "'a list option \<Rightarrow> 'a list option" where
  "nonempty v = (case v of None \<Rightarrow> None | Some xs \<Rightarrow> if xs = [] then None else Some xs)"

definition delegation :: "OperatorDelegation \<Rightarrow> jsval" where
  "delegation op = JObj ([
       (''principal'', JStr (od_principal op)),
       (''tenant'', JStr (od_tenant op))]
     @ opt_str ''settings_tier'' (od_settings_tier op))"

definition applyOperator :: "entries \<Rightarrow> OperatorDelegation option \<Rightarrow> entries" where
  "applyOperator out op = out @ opt ''operator'' (map_option delegation op)"

text \<open>Numbers wrapped so that they are written as floats.\<close>

definition wireValueToCbor :: "WireValue \<Rightarrow> jsval" where
  "wireValueToCbor value = (case value of
       VFloat n \<Rightarrow> JObj [(''Float'', JFloat n)]
     | VVector ns \<Rightarrow> JObj [(''Vector'', JArr (map JFloat ns))]
     | VBool b \<Rightarrow> JObj [(''Bool'', JBool b)]
     | VInt n \<Rightarrow> JObj [(''Int'', JNum n)]
     | VText s \<Rightarrow> JObj [(''Text'', JStr s)]
     | VBytes ns \<Rightarrow> JObj [(''Bytes'', JArr (map JNum ns))]
     | VTimestamp n \<Rightarrow> JObj [(''Timestamp'', JNum n)])"

definition submitToCbor :: "WireQuerySubmit \<Rightarrow> jsval" where
  "submitToCbor submit = JObj (applyOperator [
       (''request_id'', JNum (request_id submit)),
       (''text'', JStr (qs_text submit)),
       (''params'', JArr (map (\<lambda>(key, value). JArr [JStr key, wireValueToCbor value]) (qs_params submit)))]
     (operator submit))"

text \<open>A request that carries nothing but its identity and the operator.\<close>

definition read_entries :: "'a WireRead_scheme \<Rightarrow> entries" where
  "read_entries request = [(''request_id'', JNum (request_id request))]"

section \<open>Users, objects and connectors\<close>

definition listAgentsToCbor :: "WireListAgents \<Rightarrow> jsval" where
  "listAgentsToCbor request = JObj (applyOperator (read_entries request) (operator request))"

definition directoryReadToCbor :: "WireRead \<Rightarrow> jsval" where
  "directoryReadToCbor request = JObj (applyOperator (read_entries request) (operator request))"

definition groupWriteToCbor :: "WireGroupWrite \<Rightarrow> jsval" where
  "groupWriteToCbor request = JObj (applyOperator [
       (''request_id'', JNum (request_id request)),
       (''name'', JStr (rq_name request)),
       (''description'', JStr (gw_description request))]
     (operator request))"

definition principalSpecToCbor :: "WirePrincipalSpec \<Rightarrow> jsval" where
  "principalSpecToCbor spec = JObj ([
       (''username'', JStr (ps_username spec)),
       (''subject_type'', JStr (ps_subject_type spec))]
     @ opt_str ''email'' (ps_email spec)
     @ opt_str ''org'' (ps_org spec))"

definition principalWriteToCbor :: "WirePrincipalSpec WireSpecWrite \<Rightarrow> jsval" where
  "principalWriteToCbor request = JObj (applyOperator [
       (''request_id'', JNum (request_id request)),
       (''spec'', principalSpecToCbor (rq_spec request))]
     (operator request))"

definition principalSetStatusToCbor :: "WirePrincipalSetStatus \<Rightarrow> jsval" where
  "principalSetStatusToCbor request = JObj (applyOperator [
       (''request_id'', JNum (request_id request)),
       (''username'', JStr (pss_username request)),
       (''status'', JStr (pss_status request))]
     (operator request))"

definition groupSetMembersToCbor :: "WireGroupSetMembers \<Rightarrow> jsval" where
  "groupSetMembersToCbor request = JObj (applyOperator [
       (''request_id'', JNum (request_id request)),
       (''name'', JStr (rq_name request)),
       (''members'', strs (gm_members request))]
     (operator request))"

definition objectListToCbor :: "WireObjectList \<Rightarrow> jsval" where
  "objectListToCbor request = JObj (applyOperator (read_entries request) (operator request))"

definition idamConnectorsToCbor :: "WireIdamConnectors \<Rightarrow> jsval" where
  "idamConnectorsToCbor request = JObj (applyOperator (read_entries request) (operator request))"

definition idamSyncToCbor :: "WireIdamSync \<Rightarrow> jsval" where
  "idamSyncToCbor request = JObj (applyOperator [
       (''request_id'', JNum (request_id request)),
       (''provider'', JStr (idam_provider request))]
     (operator request))"

definition idamConfigureToCbor :: "WireIdamConfigure \<Rightarrow> jsval" where
  "idamConfigureToCbor request = JObj (applyOperator [
       (''request_id'', JNum (request_id request)),
       (''provider'', JStr (idam_provider request)),
       (''enabled'', JBool (idam_enabled request)),
       (''poll_interval_secs'', JNum (idam_poll_interval_secs request)),
       (''full_sync_cadence_hours'', JNum (idam_full_sync_cadence_hours request))]
     (operator request))"

definition idamConnectToCbor :: "WireIdamConnect \<Rightarrow> jsval" where
  "idamConnectToCbor request = JObj (applyOperator [
       (''request_id'', JNum (request_id request)),
       (''provider'', JStr (idam_provider request)),
       (''domain'', JStr (idam_domain request)),
       (''client_id'', JStr (idam_client_id request)),
       (''audience'', JStr (idam_audience request)),
       (''client_secret_ref'', JStr (idam_client_secret_ref request))]
     (operator request))"

definition objectDetailToCbor :: "WireObjectDetailQuery \<Rightarrow> jsval" where
  "objectDetailToCbor request = JObj (applyOperator [
       (''request_id'', JNum (request_id request)),
       (''name'', JStr (rq_name request))]
     (operator request))"

definition objectSpecToCbor :: "WireObjectSpec \<Rightarrow> jsval" where
  "objectSpecToCbor spec = JObj ([
       (''name'', JStr (os_name spec)),
       (''kind'', JStr (os_kind spec)),
       (''selector_kind'', JStr (os_selector_kind spec)),
       (''selector_value'', JStr (os_selector_value spec))]
     @ opt ''attributes'' (map_option strs (nonempty (os_attributes spec)))
     @ [(''description'', JStr (os_description spec))]
     @ opt ''tags'' (map_option strs (nonempty (os_tags spec)))
     @ [(''lifecycle'', JStr (os_lifecycle spec))])"

definition objectWriteToCbor :: "WireObjectSpec WireSpecWrite \<Rightarrow> jsval" where
  "objectWriteToCbor request = JObj (applyOperator [
       (''request_id'', JNum (request_id request)),
       (''spec'', objectSpecToCbor (rq_spec request))]
     (operator request))"

definition objectDeleteToCbor :: "WireObjectDelete \<Rightarrow> jsval" where
  "objectDeleteToCbor request = JObj (applyOperator [
       (''request_id'', JNum (request_id request)),
       (''name'', JStr (rq_name request))]
     (operator request))"

section \<open>Entities, connectivity and logs\<close>

definition entityDecisionsToCbor :: "WireEntityDecisions \<Rightarrow> jsval" where
  "entityDecisionsToCbor request = JObj (applyOperator [
       (''request_id'', JNum (request_id request)),
       (''entity_type'', JStr (ed_entity_type request)),
       (''entity_value'', JStr (ed_entity_value request)),
       (''limit'', JNum (ed_limit request))]
     (operator request))"

definition entityConnectionsToCbor :: "WireEntityConnections \<Rightarrow> jsval" where
  "entityConnectionsToCbor request = JObj (applyOperator [
       (''request_id'', JNum (request_id request)),
       (''subject_kind'', JStr (ec_subject_kind request)),
       (''subject_id'', JStr (ec_subject_id request)),
       (''limit'', JNum (ec_limit request))]
     (operator request))"

definition connectivityQueryToCbor :: "WireConnectivityQuery \<Rightarrow> jsval" where
  "connectivityQueryToCbor request = JObj (applyOperator ([
       (''request_id'', JNum (request_id request))]
     @ opt_num ''since'' (cq_since request)
     @ opt_num ''until'' (cq_until request)
     @ [(''limit'', JNum (cq_limit request))])
     (operator request))"

definition connectivityMembersToCbor :: "WireConnectivityMembers \<Rightarrow> jsval" where
  "connectivityMembersToCbor request = JObj (applyOperator [
       (''request_id'', JNum (request_id request)),
       (''class'', JStr (cm_class request)),
       (''limit'', JNum (cm_limit request))]
     (operator request))"

text \<open>\<open>n > 0\<close>: the sign and the exponent of the double; \<open>NaN\<close> is not greater.\<close>

definition num_positive :: "jsnum \<Rightarrow> bool" where
  "num_positive n = (case n of NInt i \<Rightarrow> 0 < i | NFlt b \<Rightarrow> 0 < b \<and> b \<le> 0x7ff0000000000000)"

definition positive :: "jsnum option \<Rightarrow> jsnum option" where
  "positive v = (case v of None \<Rightarrow> None | Some n \<Rightarrow> if num_positive n then Some n else None)"

definition logQueryToCbor :: "WireLogQuery \<Rightarrow> jsval" where
  "logQueryToCbor request = JObj (applyOperator ([
       (''request_id'', JNum (request_id request))]
     @ opt_num ''since'' (lq_since request)
     @ opt_num ''until'' (lq_until request)
     @ opt_str ''technique'' (lq_technique request)
     @ opt_str ''tactic'' (lq_tactic request)
     @ opt_str ''rule_id'' (lq_rule_id request)
     @ opt_str ''confidence'' (lq_confidence request)
     @ opt_str ''action'' (lq_action request)
     @ opt_str ''search'' (lq_search request)
     @ [(''limit'', JNum (lq_limit request))]
     @ opt_num ''offset'' (positive (lq_offset request)))
     (operator request))"

definition logExplainToCbor :: "WireLogExplain \<Rightarrow> jsval" where
  "logExplainToCbor request = JObj (applyOperator [
       (''request_id'', JNum (request_id request)),
       (''decision_id'', JStr (le_decision_id request))]
     (operator request))"

definition logExportToCbor :: "WireLogExport \<Rightarrow> jsval" where
  "logExportToCbor request = JObj (applyOperator [] (lx_operator request) @ [
       (''query'', logQueryToCbor (lx_query request)),
       (''command_id'', JStr (lx_command_id request)),
       (''issued_at'', JNum (lx_issued_at request))])"

definition containToCbor :: "WireContain \<Rightarrow> jsval" where
  "containToCbor request = JObj (applyOperator [] (ct_operator request) @ [
       (''request'', ct_request request)])"

section \<open>Zones and policy bundles\<close>

definition domainPostureToCbor :: "WireDomainPosture \<Rightarrow> jsval" where
  "domainPostureToCbor p = JObj [
       (''domain'', JStr (dp_domain p)),
       (''posture'', JStr (dp_posture p)),
       (''floor'', JBool (dp_floor p))]"

definition vtzSpecToCbor :: "WireVtzSpec \<Rightarrow> jsval" where
  "vtzSpecToCbor spec = JObj [
       (''name'', JStr (vs_name spec)),
       (''description'', JStr (vs_description spec)),
       (''zone_type'', JStr (vs_zone_type spec)),
       (''own_postures'', JArr (map domainPostureToCbor (vs_own_postures spec))),
       (''micro_segmentation'', JBool (vs_micro_segmentation spec)),
       (''telemetry'', JStr (vs_telemetry spec)),
       (''reauth_interval_hours'', JNum (vs_reauth_interval_hours spec)),
       (''lifecycle'', JStr (vs_lifecycle spec))]"

definition vtzTreeToCbor :: "WireVtzTreeQuery \<Rightarrow> jsval" where
  "vtzTreeToCbor request = JObj (applyOperator [
       (''request_id'', JNum (request_id request)),
       (''limit'', JNum (vt_limit request))]
     (operator request))"

definition vtzDetailToCbor :: "WireVtzDetailQuery \<Rightarrow> jsval" where
  "vtzDetailToCbor request = JObj (applyOperator [
       (''request_id'', JNum (request_id request)),
       (''vtz_id'', JStr (vr_vtz_id request))]
     (operator request))"

definition bundleConvergenceToCbor :: "WireBundleConvergenceQuery \<Rightarrow> jsval" where
  "bundleConvergenceToCbor request = JObj [
       (''request_id'', JNum (bq_request_id request)),
       (''vtz_id'', JStr (bq_vtz_id request))]"

definition bundleCommitToCbor :: "WireBundleCommit \<Rightarrow> jsval" where
  "bundleCommitToCbor request = JObj (applyOperator [
       (''request_id'', JNum (request_id request)),
       (''bundle'', JArr (map JNum (bc_bundle request)))]
     (operator request))"

definition vtzSpecRequestToCbor :: "WireVtzSpec WireSpecWrite \<Rightarrow> jsval" where
  "vtzSpecRequestToCbor request = JObj (applyOperator [
       (''request_id'', JNum (request_id request)),
       (''spec'', vtzSpecToCbor (rq_spec request))]
     (operator request))"

definition vtzRescopeToCbor :: "WireVtzRescope \<Rightarrow> jsval" where
  "vtzRescopeToCbor request = JObj (applyOperator [
       (''request_id'', JNum (request_id request)),
       (''vtz_id'', JStr (vr_vtz_id request)),
       (''new_name'', JStr (vr_new_name request))]
     (operator request))"

definition vtzDeleteToCbor :: "WireVtzDelete \<Rightarrow> jsval" where
  "vtzDeleteToCbor request = JObj (applyOperator [
       (''request_id'', JNum (request_id request)),
       (''vtz_id'', JStr (vr_vtz_id request))]
     (operator request))"

section \<open>Policies\<close>

definition policyListToCbor :: "WirePolicyListQuery \<Rightarrow> jsval" where
  "policyListToCbor request = JObj (applyOperator (read_entries request) (operator request))"

definition policyDetailToCbor :: "WirePolicyDetailQuery \<Rightarrow> jsval" where
  "policyDetailToCbor request = JObj (applyOperator [
       (''request_id'', JNum (request_id request)),
       (''vtz'', JStr (pq_vtz request)),
       (''id'', JStr (pq_id request))]
     (operator request))"

definition policyEffectiveToCbor :: "WirePolicyEffectiveQuery \<Rightarrow> jsval" where
  "policyEffectiveToCbor request = JObj (applyOperator [
       (''request_id'', JNum (request_id request)),
       (''vtz'', JStr (pq_vtz request))]
     (operator request))"

definition policyRuleToCbor :: "WirePolicyRule \<Rightarrow> jsval" where
  "policyRuleToCbor rule = JObj [
       (''source_kind'', JStr (pr_source_kind rule)),
       (''source_selector_kind'', JStr (pr_source_selector_kind rule)),
       (''source_selector_value'', JStr (pr_source_selector_value rule)),
       (''destination_kind'', JStr (pr_destination_kind rule)),
       (''destination_selector_kind'', JStr (pr_destination_selector_kind rule)),
       (''destination_selector_value'', JStr (pr_destination_selector_value rule)),
       (''action'', JStr (pr_action rule))]"

definition scopeMemberToCbor :: "WireScopeMember \<Rightarrow> jsval" where
  "scopeMemberToCbor member = JObj ([
       (''endpoint_cn'', JStr (sm_endpoint_cn member))]
     @ opt_str ''agent'' (sm_agent member))"

definition policySpecToCbor :: "WirePolicySpec \<Rightarrow> jsval" where
  "policySpecToCbor spec = JObj ([
       (''vtz'', JStr (sp_vtz spec)),
       (''name'', JStr (sp_name spec)),
       (''description'', JStr (sp_description spec)),
       (''rules'', JArr (map policyRuleToCbor (sp_rules spec)))]
     @ opt ''protocols'' (map_option strs (nonempty (sp_protocols spec)))
     @ opt_str ''ports'' (nonempty (sp_ports spec))
     @ opt ''schedule_days'' (map_option strs (nonempty (sp_schedule_days spec)))
     @ opt_num ''schedule_start_minute'' (sp_schedule_start_minute spec)
     @ opt_num ''schedule_end_minute'' (sp_schedule_end_minute spec)
     @ opt_num ''active_from'' (sp_active_from spec)
     @ opt_num ''active_until'' (sp_active_until spec)
     @ opt ''geo'' (map_option strs (nonempty (sp_geo spec)))
     @ opt ''restriction_tags'' (map_option strs (nonempty (sp_restriction_tags spec)))
     @ [(''logging'', JStr (sp_logging spec))]
     @ opt ''applied_to'' (map_option (\<lambda>ms. JArr (map scopeMemberToCbor ms)) (nonempty (sp_applied_to spec)))
     @ [(''max_classification'', JStr (sp_max_classification spec))]
     @ opt ''default_postures'' (map_option (\<lambda>ps. JArr (map domainPostureToCbor ps)) (nonempty (sp_default_postures spec))))"

definition policyCreateToCbor :: "WirePolicyCreate \<Rightarrow> jsval" where
  "policyCreateToCbor request = JObj (applyOperator [
       (''request_id'', JNum (request_id request)),
       (''spec'', policySpecToCbor (rq_spec request))]
     (operator request))"

definition policyEditToCbor :: "WirePolicyEdit \<Rightarrow> jsval" where
  "policyEditToCbor request = JObj (applyOperator [
       (''request_id'', JNum (request_id request)),
       (''id'', JStr (pe_id request)),
       (''spec'', policySpecToCbor (rq_spec request))]
     (operator request))"

definition policyPublishToCbor :: "WirePolicyPublish \<Rightarrow> jsval" where
  "policyPublishToCbor request = JObj (applyOperator [
       (''request_id'', JNum (request_id request)),
       (''vtz'', JStr (pq_vtz request)),
       (''id'', JStr (pq_id request)),
       (''version'', JStr (pq_version request))]
     (operator request))"

definition policyDeleteToCbor :: "WirePolicyDelete \<Rightarrow> jsval" where
  "policyDeleteToCbor request = JObj (applyOperator [
       (''request_id'', JNum (request_id request)),
       (''vtz'', JStr (pq_vtz request)),
       (''id'', JStr (pq_id request))]
     (operator request))"

section \<open>SOC operations\<close>

definition detectSummaryToCbor :: "WireDetectSummaryQuery \<Rightarrow> jsval" where
  "detectSummaryToCbor request = JObj (applyOperator (read_entries request) (operator request))"

definition socIncidentListToCbor :: "WireSocIncidentListQuery \<Rightarrow> jsval" where
  "socIncidentListToCbor request = JObj (applyOperator [
       (''request_id'', JNum (request_id request)),
       (''limit'', JNum (si_limit request))]
     (operator request)
     @ opt_str ''cursor'' (si_cursor request))"

definition incident_entries :: "'a WireIncident_scheme \<Rightarrow> entries" where
  "incident_entries request = [
       (''request_id'', JNum (request_id request)),
       (''incident'', JStr (incident request))]"

definition socIncidentDetailToCbor :: "WireSocIncidentDetailQuery \<Rightarrow> jsval" where
  "socIncidentDetailToCbor request = JObj (applyOperator (incident_entries request) (operator request))"

definition socPlanApproveToCbor :: "WireSocPlanApprove \<Rightarrow> jsval" where
  "socPlanApproveToCbor request = JObj (applyOperator [
       (''request_id'', JNum (request_id request)),
       (''incident'', JStr (incident request)),
       (''at_revision'', JNum (pa_at_revision request))]
     (operator request))"

definition socDispositionToCbor :: "WireSocDisposition \<Rightarrow> jsval" where
  "socDispositionToCbor request = JObj (applyOperator ([
       (''request_id'', JNum (request_id request)),
       (''incident'', JStr (incident request)),
       (''disposition'', JStr (sd_disposition request))]
     @ opt_str ''justification'' (sd_justification request)
     @ opt_str ''authorized_by'' (sd_authorized_by request)
     @ opt_str ''action_taken'' (sd_action_taken request)
     @ opt_str ''blocking_control'' (sd_blocking_control request)
     @ opt_str ''accepting_party'' (sd_accepting_party request)
     @ opt_num ''expiry_seconds'' (sd_expiry_seconds request)
     @ opt_str ''predecessor'' (sd_predecessor request))
     (operator request))"

definition planStep :: "WirePlanStepInput \<Rightarrow> jsval" where
  "planStep step = JObj [
       (''title'', JStr (st_title step)),
       (''action'', JStr (case st_action step of None \<Rightarrow> [] | Some a \<Rightarrow> a))]"

definition socPlanModifyToCbor :: "WireSocPlanModify \<Rightarrow> jsval" where
  "socPlanModifyToCbor request = JObj (applyOperator [
       (''request_id'', JNum (request_id request)),
       (''incident'', JStr (incident request)),
       (''steps'', JArr (map planStep (pm_steps request)))]
     (operator request))"

definition socNarrativeToCbor :: "WireSocNarrativeQuery \<Rightarrow> jsval" where
  "socNarrativeToCbor request = JObj (applyOperator (incident_entries request) (operator request))"

definition socTelemetryToCbor :: "WireSocTelemetryQuery \<Rightarrow> jsval" where
  "socTelemetryToCbor request = JObj (applyOperator (incident_entries request) (operator request))"

definition socAuditToCbor :: "WireSocAuditQuery \<Rightarrow> jsval" where
  "socAuditToCbor request = JObj (applyOperator (incident_entries request) (operator request))"

definition socIncidentActToCbor :: "WireSocIncidentAct \<Rightarrow> jsval" where
  "socIncidentActToCbor request = JObj (applyOperator ([
       (''request_id'', JNum (request_id request)),
       (''incident'', JStr (incident request)),
       (''act'', JStr (ia_act request))]
     @ opt_str ''assignee'' (ia_assignee request)
     @ opt_str ''note'' (ia_note request))
     (operator request))"

definition socNotesToCbor :: "WireSocNotesQuery \<Rightarrow> jsval" where
  "socNotesToCbor request = JObj (applyOperator (incident_entries request) (operator request))"

definition socImpactToCbor :: "WireSocImpactQuery \<Rightarrow> jsval" where
  "socImpactToCbor request = JObj (applyOperator (incident_entries request) (operator request))"

definition socReportToCbor :: "WireSocReportQuery \<Rightarrow> jsval" where
  "socReportToCbor request = JObj (applyOperator (incident_entries request) (operator request))"

definition socUebaToCbor :: "WireSocUebaQuery \<Rightarrow> jsval" where
  "socUebaToCbor request = JObj (applyOperator (incident_entries request) (operator request))"

definition socWeeklyToCbor :: "WireSocWeeklyQuery \<Rightarrow> jsval" where
  "socWeeklyToCbor request = JObj (applyOperator ([
       (''request_id'', JNum (request_id request)),
       (''weeks'', JNum (sw_weeks request))]
     @ opt_num ''until_seconds'' (sw_until_seconds request))
     (operator request))"

definition socSettingsReadToCbor :: "WireSocSettingsQuery \<Rightarrow> jsval" where
  "socSettingsReadToCbor request = JObj (applyOperator (read_entries request) (operator request))"

definition tiersToCbor :: "WireSocTierSettings \<Rightarrow> jsval" where
  "tiersToCbor tiers = JObj [
       (''p_low_milli'', JNum (ti_p_low_milli tiers)),
       (''p_high_milli'', JNum (ti_p_high_milli tiers))]"

definition siemWritebackToCbor :: "WireSiemWritebackSettings \<Rightarrow> jsval" where
  "siemWritebackToCbor w = JObj [
       (''enabled'', JBool (sm_enabled w)),
       (''vendor'', JStr (sm_vendor w)),
       (''host'', JStr (sm_host w)),
       (''stream'', JStr (sm_stream w)),
       (''case_url_base'', JStr (sm_case_url_base w)),
       (''ceiling'', JStr (sm_ceiling w))]"

definition socSettingsCommitToCbor :: "WireSocSettingsCommit \<Rightarrow> jsval" where
  "socSettingsCommitToCbor request = JObj (applyOperator (read_entries request
     @ opt ''tiers'' (map_option tiersToCbor (sk_tiers request))
     @ opt ''siem_writeback'' (map_option siemWritebackToCbor (sk_siem_writeback request)))
     (operator request))"

definition socCognitionRunToCbor :: "WireSocCognitionRun \<Rightarrow> jsval" where
  "socCognitionRunToCbor request = JObj (applyOperator (incident_entries request) (operator request))"

section \<open>Settings and model access\<close>

definition settingsReadToCbor :: "WireSettingsQuery \<Rightarrow> jsval" where
  "settingsReadToCbor request = JObj (applyOperator (read_entries request
     @ opt_str ''surface'' (sq_surface request))
     (operator request))"

definition settingsReportsToCbor :: "WireSettingsReportsQuery \<Rightarrow> jsval" where
  "settingsReportsToCbor request = JObj (applyOperator [
       (''request_id'', JNum (request_id request)),
       (''reports'', strs (sr_reports request))]
     (operator request))"

definition modelAccessReadToCbor :: "WireModelAccessQuery \<Rightarrow> jsval" where
  "modelAccessReadToCbor request = JObj (applyOperator [
       (''request_id'', JNum (request_id request)),
       (''from_unix_ms'', JNum (ma_from_unix_ms request)),
       (''to_unix_ms'', JNum (ma_to_unix_ms request))]
     (operator request))"

definition agentGrantSetToCbor :: "WireAgentGrantSet \<Rightarrow> jsval" where
  "agentGrantSetToCbor request = JObj (applyOperator [
       (''request_id'', JNum (request_id request)),
       (''agent'', JStr (ag_agent request)),
       (''models'', strs (ag_models request)),
       (''tools'', strs (ag_tools request)),
       (''expected_models'', strs (ag_expected_models request)),
       (''expected_tools'', strs (ag_expected_tools request))]
     (operator request))"

definition settingsApprovalsToCbor :: "WireSettingsApprovalsQuery \<Rightarrow> jsval" where
  "settingsApprovalsToCbor request = JObj (applyOperator (read_entries request) (operator request))"

definition settingsApproveToCbor :: "WireSettingsApprove \<Rightarrow> jsval" where
  "settingsApproveToCbor request = JObj (applyOperator [
       (''request_id'', JNum (request_id request)),
       (''proposal'', JNum (sa_proposal request))]
     (operator request))"

definition settingsHistoryToCbor :: "WireSettingsHistoryQuery \<Rightarrow> jsval" where
  "settingsHistoryToCbor request = JObj (applyOperator [
       (''request_id'', JNum (request_id request)),
       (''limit'', JNum (case sh_limit request of None \<Rightarrow> NInt 0 | Some n \<Rightarrow> n))]
     (operator request))"

definition settingsRollbackToCbor :: "WireSettingsRollback \<Rightarrow> jsval" where
  "settingsRollbackToCbor request = JObj (applyOperator [
       (''request_id'', JNum (request_id request)),
       (''to'', JNum (sb_to request))]
     (operator request))"

definition lugExposureToCbor :: "WireLugExposureSettings \<Rightarrow> jsval" where
  "lugExposureToCbor l = JObj [
       (''enabled'', JBool (lu_enabled l)),
       (''resolution_enabled'', JBool (lu_resolution_enabled l)),
       (''max_accounts_per_namespace'', JNum (lu_max_accounts_per_namespace l)),
       (''max_groups_per_namespace'', JNum (lu_max_groups_per_namespace l)),
       (''max_sessions_per_device'', JNum (lu_max_sessions_per_device l)),
       (''last_seen_bucket_hours'', JNum (lu_last_seen_bucket_hours l)),
       (''binding_confirm_threshold_permille'', JNum (lu_binding_confirm_threshold_permille l)),
       (''snapshot_cadence_hours'', JNum (lu_snapshot_cadence_hours l))]"

definition settingEdit :: "WireSettingEdit \<Rightarrow> jsval" where
  "settingEdit e = JObj [(''key'', JStr (se_key e)), (''value'', JStr (se_value e))]"

definition egressSetting :: "WireEgressSetting \<Rightarrow> jsval" where
  "egressSetting e = JObj [(''id'', JStr (eg_id e)), (''ceiling'', JStr (eg_ceiling e))]"

definition formatMapping :: "WireSourceFormatMapping \<Rightarrow> jsval" where
  "formatMapping m = JObj [(''source'', JStr (sf_source m)), (''format'', JStr (sf_format m))]"

definition sectionsToCbor :: "WireSectionPatch \<Rightarrow> jsval" where
  "sectionsToCbor p = JObj (
       opt ''dual_control'' (map_option strs (sc_dual_control p))
     @ opt ''egress_destinations'' (map_option (\<lambda>es. JArr (map egressSetting es)) (sc_egress_destinations p))
     @ opt ''lug_exposure'' (map_option lugExposureToCbor (sc_lug_exposure p))
     @ opt ''disabled_decoder_families'' (map_option strs (sc_disabled_decoder_families p))
     @ opt ''source_format_map'' (map_option (\<lambda>ms. JArr (map formatMapping ms)) (sc_source_format_map p))
     @ opt_str ''soc_narrative_model_ref'' (sc_soc_narrative_model_ref p))"

definition settingsCommitToCbor :: "WireSettingsCommit \<Rightarrow> jsval" where
  "settingsCommitToCbor request = JObj (applyOperator ([
       (''request_id'', JNum (request_id request)),
       (''edits'', JArr (map settingEdit (sc_edits request)))]
     @ opt ''sections'' (map_option sectionsToCbor (sc_sections request)))
     (operator request))"

section \<open>Requests\<close>

text \<open>The externally tagged form of a variant; \<open>None\<close> is the \<open>throw\<close> at the end.\<close>

definition tagged :: "string \<Rightarrow> jsval \<Rightarrow> jsval" where
  "tagged tag body = JObj [(tag, body)]"

fun core_value :: "CoreRequest \<Rightarrow> jsval option" where
  "core_value (ReqQuerySubmit r) = Some (tagged ''QuerySubmit'' (submitToCbor r))"
| "core_value (ReqPrepare _) = None"
| "core_value (ReqExecutePrepared _) = None"
| "core_value (ReqCursorFetch cursor) = Some (tagged ''CursorFetch'' (JObj [(''handle'', JArr (map JNum cursor))]))"
| "core_value (ReqCursorClose cursor) = Some (tagged ''CursorClose'' (JObj [(''handle'', JArr (map JNum cursor))]))"
| "core_value ReqTxnBegin = Some (JStr ''TxnBegin'')"
| "core_value (ReqTxnWrite _) = None"
| "core_value (ReqTxnCommit _) = None"
| "core_value (ReqTxnAbort _) = None"
| "core_value (ReqSubmitMemoryWrite r) = Some (tagged ''SubmitMemoryWrite'' (submitToCbor r))"
| "core_value (ReqEntityDecisions r) = Some (tagged ''EntityDecisions'' (entityDecisionsToCbor r))"
| "core_value (ReqEntityConnections r) = Some (tagged ''EntityConnections'' (entityConnectionsToCbor r))"
| "core_value (ReqContain r) = Some (tagged ''Contain'' (containToCbor r))"
| "core_value (ReqLogQuery r) = Some (tagged ''LogQuery'' (logQueryToCbor r))"
| "core_value (ReqLogExplain r) = Some (tagged ''LogExplain'' (logExplainToCbor r))"
| "core_value (ReqLogExport r) = Some (tagged ''LogExport'' (logExportToCbor r))"
| "core_value (ReqConnectivityGraph r) = Some (tagged ''ConnectivityGraph'' (connectivityQueryToCbor r))"
| "core_value (ReqConnectivityMembers r) = Some (tagged ''ConnectivityMembers'' (connectivityMembersToCbor r))"
| "core_value (ReqUsageOverview _) = None"

fun directory_value :: "DirectoryRequest \<Rightarrow> jsval option" where
  "directory_value (ReqListAgents r) = Some (tagged ''ListAgents'' (listAgentsToCbor r))"
| "directory_value (ReqListPrincipals r) = Some (tagged ''ListPrincipals'' (directoryReadToCbor r))"
| "directory_value (ReqListGroups r) = Some (tagged ''ListGroups'' (directoryReadToCbor r))"
| "directory_value (ReqObjectList r) = Some (tagged ''ObjectList'' (objectListToCbor r))"
| "directory_value (ReqObjectDetail r) = Some (tagged ''ObjectDetail'' (objectDetailToCbor r))"
| "directory_value (ReqObjectCreate r) = Some (tagged ''ObjectCreate'' (objectWriteToCbor r))"
| "directory_value (ReqObjectEdit r) = Some (tagged ''ObjectEdit'' (objectWriteToCbor r))"
| "directory_value (ReqObjectDelete r) = Some (tagged ''ObjectDelete'' (objectDeleteToCbor r))"
| "directory_value (ReqIdamConnectors r) = Some (tagged ''IdamConnectors'' (idamConnectorsToCbor r))"
| "directory_value (ReqIdamSync r) = Some (tagged ''IdamSync'' (idamSyncToCbor r))"
| "directory_value (ReqIdamConfigure r) = Some (tagged ''IdamConfigure'' (idamConfigureToCbor r))"
| "directory_value (ReqIdamConnect r) = Some (tagged ''IdamConnect'' (idamConnectToCbor r))"
| "directory_value (ReqPrincipalCreate r) = Some (tagged ''PrincipalCreate'' (principalWriteToCbor r))"
| "directory_value (ReqPrincipalEdit r) = Some (tagged ''PrincipalEdit'' (principalWriteToCbor r))"
| "directory_value (ReqPrincipalSetStatus r) = Some (tagged ''PrincipalSetStatus'' (principalSetStatusToCbor r))"
| "directory_value (ReqGroupCreate r) = Some (tagged ''GroupCreate'' (groupWriteToCbor r))"
| "directory_value (ReqGroupEdit r) = Some (tagged ''GroupEdit'' (groupWriteToCbor r))"
| "directory_value (ReqGroupSetMembers r) = Some (tagged ''GroupSetMembers'' (groupSetMembersToCbor r))"
| "directory_value (ReqLugSnapshot _) = None"
| "directory_value (ReqLugEvents _) = None"

fun zone_value :: "ZoneRequest \<Rightarrow> jsval option" where
  "zone_value (ReqVtzTree r) = Some (tagged ''VtzTree'' (vtzTreeToCbor r))"
| "zone_value (ReqVtzDetail r) = Some (tagged ''VtzDetail'' (vtzDetailToCbor r))"
| "zone_value (ReqVtzCreate r) = Some (tagged ''VtzCreate'' (vtzSpecRequestToCbor r))"
| "zone_value (ReqVtzEdit r) = Some (tagged ''VtzEdit'' (vtzSpecRequestToCbor r))"
| "zone_value (ReqVtzRescope r) = Some (tagged ''VtzRescope'' (vtzRescopeToCbor r))"
| "zone_value (ReqVtzDelete r) = Some (tagged ''VtzDelete'' (vtzDeleteToCbor r))"
| "zone_value (ReqPolicyListByZone r) = Some (tagged ''PolicyListByZone'' (policyListToCbor r))"
| "zone_value (ReqPolicyDetail r) = Some (tagged ''PolicyDetail'' (policyDetailToCbor r))"
| "zone_value (ReqPolicyEffective r) = Some (tagged ''PolicyEffective'' (policyEffectiveToCbor r))"
| "zone_value (ReqPolicyCreate r) = Some (tagged ''PolicyCreate'' (policyCreateToCbor r))"
| "zone_value (ReqPolicyEdit r) = Some (tagged ''PolicyEdit'' (policyEditToCbor r))"
| "zone_value (ReqPolicyPublish r) = Some (tagged ''PolicyPublish'' (policyPublishToCbor r))"
| "zone_value (ReqPolicyDelete r) = Some (tagged ''PolicyDelete'' (policyDeleteToCbor r))"
| "zone_value (ReqBundleCommit r) = Some (tagged ''BundleCommit'' (bundleCommitToCbor r))"
| "zone_value (ReqBundleFetch _) = None"
| "zone_value (ReqBundleReport _) = None"
| "zone_value (ReqBundleConvergence r) = Some (tagged ''BundleConvergence'' (bundleConvergenceToCbor r))"

fun soc_value :: "SocRequest \<Rightarrow> jsval option" where
  "soc_value (ReqDetectSummary r) = Some (tagged ''DetectSummary'' (detectSummaryToCbor r))"
| "soc_value (ReqSocNarrative r) = Some (tagged ''SocNarrative'' (socNarrativeToCbor r))"
| "soc_value (ReqSocIncidentList r) = Some (tagged ''SocIncidentList'' (socIncidentListToCbor r))"
| "soc_value (ReqSocIncidentDetail r) = Some (tagged ''SocIncidentDetail'' (socIncidentDetailToCbor r))"
| "soc_value (ReqSocTelemetry r) = Some (tagged ''SocTelemetry'' (socTelemetryToCbor r))"
| "soc_value (ReqSocAudit r) = Some (tagged ''SocAudit'' (socAuditToCbor r))"
| "soc_value (ReqSocDisposition r) = Some (tagged ''SocDisposition'' (socDispositionToCbor r))"
| "soc_value (ReqSocIncidentAct r) = Some (tagged ''SocIncidentAct'' (socIncidentActToCbor r))"
| "soc_value (ReqSocNotes r) = Some (tagged ''SocNotes'' (socNotesToCbor r))"
| "soc_value (ReqSocImpact r) = Some (tagged ''SocImpact'' (socImpactToCbor r))"
| "soc_value (ReqSocReport r) = Some (tagged ''SocReport'' (socReportToCbor r))"
| "soc_value (ReqSocUeba r) = Some (tagged ''SocUeba'' (socUebaToCbor r))"
| "soc_value (ReqSocWeekly r) = Some (tagged ''SocWeekly'' (socWeeklyToCbor r))"
| "soc_value (ReqSocSettingsRead r) = Some (tagged ''SocSettingsRead'' (socSettingsReadToCbor r))"
| "soc_value (ReqSocSettingsCommit r) = Some (tagged ''SocSettingsCommit'' (socSettingsCommitToCbor r))"
| "soc_value (ReqSocCognitionRun r) = Some (tagged ''SocCognitionRun'' (socCognitionRunToCbor r))"
| "soc_value (ReqSocPlanApprove r) = Some (tagged ''SocPlanApprove'' (socPlanApproveToCbor r))"
| "soc_value (ReqSocPlanModify r) = Some (tagged ''SocPlanModify'' (socPlanModifyToCbor r))"

fun settings_value :: "SettingsRequest \<Rightarrow> jsval option" where
  "settings_value (ReqSettingsRead r) = Some (tagged ''SettingsRead'' (settingsReadToCbor r))"
| "settings_value (ReqSettingsReports r) = Some (tagged ''SettingsReports'' (settingsReportsToCbor r))"
| "settings_value (ReqModelAccessRead r) = Some (tagged ''ModelAccessRead'' (modelAccessReadToCbor r))"
| "settings_value (ReqAgentGrantSet r) = Some (tagged ''AgentGrantSet'' (agentGrantSetToCbor r))"
| "settings_value (ReqSettingsCommit r) = Some (tagged ''SettingsCommit'' (settingsCommitToCbor r))"
| "settings_value (ReqSettingsPropose r) = Some (tagged ''SettingsPropose'' (settingsCommitToCbor r))"
| "settings_value (ReqSettingsApprovals r) = Some (tagged ''SettingsApprovals'' (settingsApprovalsToCbor r))"
| "settings_value (ReqSettingsApprove r) = Some (tagged ''SettingsApprove'' (settingsApproveToCbor r))"
| "settings_value (ReqSettingsHistory r) = Some (tagged ''SettingsHistory'' (settingsHistoryToCbor r))"
| "settings_value (ReqSettingsRollback r) = Some (tagged ''SettingsRollback'' (settingsRollbackToCbor r))"

fun request_value :: "WireRequest \<Rightarrow> jsval option" where
  "request_value (Core r) = core_value r"
| "request_value (Directory r) = directory_value r"
| "request_value (Zone r) = zone_value r"
| "request_value (Soc r) = soc_value r"
| "request_value (Settings r) = settings_value r"

definition encodeWireRequest :: "WireRequest \<Rightarrow> client_error + bytes" where
  "encodeWireRequest request = (case request_value request of
       None \<Rightarrow> Inl Unsupported
     | Some v \<Rightarrow> (case encode v of Inl e \<Rightarrow> Inl (Codec e) | Inr bs \<Rightarrow> Inr bs))"

definition decodeWireReply :: "(jsval \<Rightarrow> string option) \<Rightarrow> bytes \<Rightarrow> client_error + jsval" where
  "decodeWireReply other payload = decode_value other payload"

end
