(* ===== verification/PayloadShape.thy ===== *)
theory PayloadShape
  imports Payload
begin

text \<open>
  What the payloads of \<open>Payload\<close> look like: every object has distinct, plain field names
  and no \<open>null\<close> or \<open>undefined\<close> anywhere, so the codec carries it unchanged, and the
  operator's delegation is where the engine looks for it.
\<close>

section \<open>Shape\<close>

fun shaped :: "jsval \<Rightarrow> bool" where
  "shaped (JObj kvs) =
     (distinct (map fst kvs) \<and> length kvs < 2 ^ 64 \<and> list_all (\<lambda>(k, v). name_ok k \<and> shaped v) kvs)"
| "shaped (JArr vs) = list_all shaped vs"
| "shaped v = (case v of JNull \<Rightarrow> False | JUndef \<Rightarrow> False | JOther _ \<Rightarrow> False | JBytes _ \<Rightarrow> False | _ \<Rightarrow> True)"

text \<open>The texts and numbers of a value fit the codec.\<close>

fun scalars_ok :: "jsval \<Rightarrow> bool" where
  "scalars_ok (JObj kvs) = list_all (\<lambda>(k, v). scalars_ok v) kvs"
| "scalars_ok (JArr vs) = (length vs < 2 ^ 64 \<and> list_all scalars_ok vs)"
| "scalars_ok v = wire_ok v"

lemma shaped_wire_ok: "shaped v \<Longrightarrow> scalars_ok v \<Longrightarrow> wire_ok v"
proof (induction v rule: shaped.induct)
  case (1 kvs)
  then show ?case by (intro wire_ok_record) (fastforce simp: list_all_iff)+
next
  case (2 vs)
  then show ?case by (auto simp: list_all_iff)
qed auto

section \<open>Fields in order\<close>

definition keys_in :: "entries \<Rightarrow> string list \<Rightarrow> bool" where
  "keys_in kvs ks \<longleftrightarrow> subseq (map fst kvs) ks"

lemma keys_append: "keys_in a ka \<Longrightarrow> keys_in b kb \<Longrightarrow> keys_in (a @ b) (ka @ kb)"
  by (simp add: keys_in_def list_emb_append_mono)

lemma keys_base:
  "keys_in [] []"
  "keys_in kvs ks \<Longrightarrow> keys_in ((k, v) # kvs) (k # ks)"
  "keys_in (opt k x) [k]"
  by (auto simp: keys_in_def opt_def split: option.split)

lemmas keys_intros = keys_append keys_base

lemma subseq_keeps: "subseq xs ys \<Longrightarrow> distinct ys \<Longrightarrow> distinct xs \<and> set xs \<subseteq> set ys \<and> length xs \<le> length ys"
  by (induction rule: list_emb.induct) auto

lemma shaped_record:
  assumes "keys_in kvs ks" "distinct ks \<and> list_all name_ok ks \<and> length ks < 2 ^ 64" "list_all (\<lambda>e. shaped (snd e)) kvs"
  shows "shaped (JObj kvs)"
  using subseq_keeps [of "map fst kvs" ks] assms by (fastforce simp: keys_in_def list_all_iff)

lemma list_all_opt [simp]: "list_all (\<lambda>e. P (snd e)) (opt k x) = pred_option P x"
  by (simp add: opt_def split: option.split)

lemma pred_const [simp]: "pred_option (\<lambda>_. True) x" "list_all (\<lambda>_. True) xs"
  by (cases x) (simp_all add: list_all_iff)

lemmas shape_simps = name_ok_def ascii_def is_digit_def option.pred_map list.pred_map comp_def case_prod_unfold

lemma shaped_wireValue [simp]: "shaped (wireValueToCbor v)"
  by (cases v) (simp_all add: wireValueToCbor_def shape_simps)

lemma shaped_parts [simp]:
  "shaped (delegation r1)"
  "shaped (principalSpecToCbor r2)"
  "shaped (objectSpecToCbor r3)"
  "shaped (domainPostureToCbor r4)"
  "shaped (policyRuleToCbor r5)"
  "shaped (scopeMemberToCbor r6)"
  "shaped (planStep r7)"
  "shaped (tiersToCbor r8)"
  "shaped (siemWritebackToCbor r9)"
  "shaped (lugExposureToCbor r10)"
  "shaped (settingEdit r11)"
  "shaped (egressSetting r12)"
  "shaped (formatMapping r13)"
  unfolding delegation_def principalSpecToCbor_def objectSpecToCbor_def domainPostureToCbor_def policyRuleToCbor_def scopeMemberToCbor_def planStep_def tiersToCbor_def siemWritebackToCbor_def lugExposureToCbor_def settingEdit_def egressSetting_def formatMapping_def applyOperator_def read_entries_def incident_entries_def append_Cons append_Nil append_assoc
  by (rule shaped_record, (rule keys_intros)+, simp add: shape_simps, simp add: shape_simps)+

lemma shaped_specs [simp]:
  "shaped (vtzSpecToCbor r1)"
  "shaped (policySpecToCbor r2)"
  "shaped (sectionsToCbor r3)"
  "shaped (logQueryToCbor r4)"
  unfolding vtzSpecToCbor_def policySpecToCbor_def sectionsToCbor_def logQueryToCbor_def applyOperator_def read_entries_def incident_entries_def append_Cons append_Nil append_assoc
  by (rule shaped_record, (rule keys_intros)+, simp add: shape_simps, simp add: shape_simps)+

lemma shaped_submit [simp]:
  "shaped (submitToCbor r1)"
  unfolding submitToCbor_def applyOperator_def read_entries_def incident_entries_def append_Cons append_Nil append_assoc
  by (rule shaped_record, (rule keys_intros)+, simp add: shape_simps, simp add: shape_simps)+

lemma shaped_users [simp]:
  "shaped (listAgentsToCbor r1)"
  "shaped (directoryReadToCbor r2)"
  "shaped (groupWriteToCbor r3)"
  "shaped (principalWriteToCbor r4)"
  "shaped (principalSetStatusToCbor r5)"
  "shaped (groupSetMembersToCbor r6)"
  "shaped (objectListToCbor r7)"
  "shaped (idamConnectorsToCbor r8)"
  "shaped (idamSyncToCbor r9)"
  "shaped (idamConfigureToCbor r10)"
  "shaped (idamConnectToCbor r11)"
  "shaped (objectDetailToCbor r12)"
  "shaped (objectWriteToCbor r13)"
  "shaped (objectDeleteToCbor r14)"
  unfolding listAgentsToCbor_def directoryReadToCbor_def groupWriteToCbor_def principalWriteToCbor_def principalSetStatusToCbor_def groupSetMembersToCbor_def objectListToCbor_def idamConnectorsToCbor_def idamSyncToCbor_def idamConfigureToCbor_def idamConnectToCbor_def objectDetailToCbor_def objectWriteToCbor_def objectDeleteToCbor_def applyOperator_def read_entries_def incident_entries_def append_Cons append_Nil append_assoc
  by (rule shaped_record, (rule keys_intros)+, simp add: shape_simps, simp add: shape_simps)+

lemma shaped_entities [simp]:
  "shaped (entityDecisionsToCbor r1)"
  "shaped (entityConnectionsToCbor r2)"
  "shaped (connectivityQueryToCbor r3)"
  "shaped (connectivityMembersToCbor r4)"
  "shaped (logExplainToCbor r5)"
  "shaped (logExportToCbor r6)"
  unfolding entityDecisionsToCbor_def entityConnectionsToCbor_def connectivityQueryToCbor_def connectivityMembersToCbor_def logExplainToCbor_def logExportToCbor_def applyOperator_def read_entries_def incident_entries_def append_Cons append_Nil append_assoc
  by (rule shaped_record, (rule keys_intros)+, simp add: shape_simps, simp add: shape_simps)+

lemma shaped_zones [simp]:
  "shaped (vtzTreeToCbor r1)"
  "shaped (vtzDetailToCbor r2)"
  "shaped (bundleConvergenceToCbor r3)"
  "shaped (bundleCommitToCbor r4)"
  "shaped (vtzSpecRequestToCbor r5)"
  "shaped (vtzRescopeToCbor r6)"
  "shaped (vtzDeleteToCbor r7)"
  unfolding vtzTreeToCbor_def vtzDetailToCbor_def bundleConvergenceToCbor_def bundleCommitToCbor_def vtzSpecRequestToCbor_def vtzRescopeToCbor_def vtzDeleteToCbor_def applyOperator_def read_entries_def incident_entries_def append_Cons append_Nil append_assoc
  by (rule shaped_record, (rule keys_intros)+, simp add: shape_simps, simp add: shape_simps)+

lemma shaped_policies [simp]:
  "shaped (policyListToCbor r1)"
  "shaped (policyDetailToCbor r2)"
  "shaped (policyEffectiveToCbor r3)"
  "shaped (policyCreateToCbor r4)"
  "shaped (policyEditToCbor r5)"
  "shaped (policyPublishToCbor r6)"
  "shaped (policyDeleteToCbor r7)"
  unfolding policyListToCbor_def policyDetailToCbor_def policyEffectiveToCbor_def policyCreateToCbor_def policyEditToCbor_def policyPublishToCbor_def policyDeleteToCbor_def applyOperator_def read_entries_def incident_entries_def append_Cons append_Nil append_assoc
  by (rule shaped_record, (rule keys_intros)+, simp add: shape_simps, simp add: shape_simps)+

lemma shaped_soc [simp]:
  "shaped (detectSummaryToCbor r1)"
  "shaped (socIncidentListToCbor r2)"
  "shaped (socIncidentDetailToCbor r3)"
  "shaped (socPlanApproveToCbor r4)"
  "shaped (socDispositionToCbor r5)"
  "shaped (socPlanModifyToCbor r6)"
  "shaped (socNarrativeToCbor r7)"
  "shaped (socTelemetryToCbor r8)"
  "shaped (socAuditToCbor r9)"
  "shaped (socIncidentActToCbor r10)"
  "shaped (socNotesToCbor r11)"
  "shaped (socImpactToCbor r12)"
  "shaped (socReportToCbor r13)"
  "shaped (socUebaToCbor r14)"
  "shaped (socWeeklyToCbor r15)"
  "shaped (socSettingsReadToCbor r16)"
  "shaped (socSettingsCommitToCbor r17)"
  "shaped (socCognitionRunToCbor r18)"
  unfolding detectSummaryToCbor_def socIncidentListToCbor_def socIncidentDetailToCbor_def socPlanApproveToCbor_def socDispositionToCbor_def socPlanModifyToCbor_def socNarrativeToCbor_def socTelemetryToCbor_def socAuditToCbor_def socIncidentActToCbor_def socNotesToCbor_def socImpactToCbor_def socReportToCbor_def socUebaToCbor_def socWeeklyToCbor_def socSettingsReadToCbor_def socSettingsCommitToCbor_def socCognitionRunToCbor_def applyOperator_def read_entries_def incident_entries_def append_Cons append_Nil append_assoc
  by (rule shaped_record, (rule keys_intros)+, simp add: shape_simps, simp add: shape_simps)+

lemma shaped_settings [simp]:
  "shaped (settingsReadToCbor r1)"
  "shaped (settingsReportsToCbor r2)"
  "shaped (modelAccessReadToCbor r3)"
  "shaped (agentGrantSetToCbor r4)"
  "shaped (settingsApprovalsToCbor r5)"
  "shaped (settingsApproveToCbor r6)"
  "shaped (settingsHistoryToCbor r7)"
  "shaped (settingsRollbackToCbor r8)"
  "shaped (settingsCommitToCbor r9)"
  unfolding settingsReadToCbor_def settingsReportsToCbor_def modelAccessReadToCbor_def agentGrantSetToCbor_def settingsApprovalsToCbor_def settingsApproveToCbor_def settingsHistoryToCbor_def settingsRollbackToCbor_def settingsCommitToCbor_def applyOperator_def read_entries_def incident_entries_def append_Cons append_Nil append_assoc
  by (rule shaped_record, (rule keys_intros)+, simp add: shape_simps, simp add: shape_simps)+

lemma shaped_contain [simp]: "shaped (ct_request r) \<Longrightarrow> shaped (containToCbor r)"
  unfolding containToCbor_def applyOperator_def append_Nil
  by (rule shaped_record, (rule keys_intros)+) (simp_all add: shape_simps)

section \<open>Whole requests\<close>

text \<open>The one variant with a part the client passes through unseen.\<close>

fun opaque_part :: "WireRequest \<Rightarrow> jsval option" where
  "opaque_part (Core (ReqContain r)) = Some (ct_request r)"
| "opaque_part _ = None"

text \<open>The operator field of a request; \<open>None\<close> for a variant that has no such field.\<close>

fun core_operator :: "CoreRequest \<Rightarrow> OperatorDelegation option option" where
  "core_operator (ReqQuerySubmit r) = Some (operator r)"
| "core_operator (ReqSubmitMemoryWrite r) = Some (operator r)"
| "core_operator (ReqEntityDecisions r) = Some (operator r)"
| "core_operator (ReqEntityConnections r) = Some (operator r)"
| "core_operator (ReqContain r) = Some (ct_operator r)"
| "core_operator (ReqLogQuery r) = Some (operator r)"
| "core_operator (ReqLogExplain r) = Some (operator r)"
| "core_operator (ReqLogExport r) = Some (lx_operator r)"
| "core_operator (ReqConnectivityGraph r) = Some (operator r)"
| "core_operator (ReqConnectivityMembers r) = Some (operator r)"
| "core_operator _ = None"

fun directory_operator :: "DirectoryRequest \<Rightarrow> OperatorDelegation option option" where
  "directory_operator (ReqListAgents r) = Some (operator r)"
| "directory_operator (ReqListPrincipals r) = Some (operator r)"
| "directory_operator (ReqListGroups r) = Some (operator r)"
| "directory_operator (ReqObjectList r) = Some (operator r)"
| "directory_operator (ReqObjectDetail r) = Some (operator r)"
| "directory_operator (ReqObjectCreate r) = Some (operator r)"
| "directory_operator (ReqObjectEdit r) = Some (operator r)"
| "directory_operator (ReqObjectDelete r) = Some (operator r)"
| "directory_operator (ReqIdamConnectors r) = Some (operator r)"
| "directory_operator (ReqIdamSync r) = Some (operator r)"
| "directory_operator (ReqIdamConfigure r) = Some (operator r)"
| "directory_operator (ReqIdamConnect r) = Some (operator r)"
| "directory_operator (ReqPrincipalCreate r) = Some (operator r)"
| "directory_operator (ReqPrincipalEdit r) = Some (operator r)"
| "directory_operator (ReqPrincipalSetStatus r) = Some (operator r)"
| "directory_operator (ReqGroupCreate r) = Some (operator r)"
| "directory_operator (ReqGroupEdit r) = Some (operator r)"
| "directory_operator (ReqGroupSetMembers r) = Some (operator r)"
| "directory_operator _ = None"

fun zone_operator :: "ZoneRequest \<Rightarrow> OperatorDelegation option option" where
  "zone_operator (ReqVtzTree r) = Some (operator r)"
| "zone_operator (ReqVtzDetail r) = Some (operator r)"
| "zone_operator (ReqVtzCreate r) = Some (operator r)"
| "zone_operator (ReqVtzEdit r) = Some (operator r)"
| "zone_operator (ReqVtzRescope r) = Some (operator r)"
| "zone_operator (ReqVtzDelete r) = Some (operator r)"
| "zone_operator (ReqPolicyListByZone r) = Some (operator r)"
| "zone_operator (ReqPolicyDetail r) = Some (operator r)"
| "zone_operator (ReqPolicyEffective r) = Some (operator r)"
| "zone_operator (ReqPolicyCreate r) = Some (operator r)"
| "zone_operator (ReqPolicyEdit r) = Some (operator r)"
| "zone_operator (ReqPolicyPublish r) = Some (operator r)"
| "zone_operator (ReqPolicyDelete r) = Some (operator r)"
| "zone_operator (ReqBundleCommit r) = Some (operator r)"
| "zone_operator _ = None"

fun soc_operator :: "SocRequest \<Rightarrow> OperatorDelegation option option" where
  "soc_operator (ReqDetectSummary r) = Some (operator r)"
| "soc_operator (ReqSocNarrative r) = Some (operator r)"
| "soc_operator (ReqSocIncidentList r) = Some (operator r)"
| "soc_operator (ReqSocIncidentDetail r) = Some (operator r)"
| "soc_operator (ReqSocTelemetry r) = Some (operator r)"
| "soc_operator (ReqSocAudit r) = Some (operator r)"
| "soc_operator (ReqSocDisposition r) = Some (operator r)"
| "soc_operator (ReqSocIncidentAct r) = Some (operator r)"
| "soc_operator (ReqSocNotes r) = Some (operator r)"
| "soc_operator (ReqSocImpact r) = Some (operator r)"
| "soc_operator (ReqSocReport r) = Some (operator r)"
| "soc_operator (ReqSocUeba r) = Some (operator r)"
| "soc_operator (ReqSocWeekly r) = Some (operator r)"
| "soc_operator (ReqSocSettingsRead r) = Some (operator r)"
| "soc_operator (ReqSocSettingsCommit r) = Some (operator r)"
| "soc_operator (ReqSocCognitionRun r) = Some (operator r)"
| "soc_operator (ReqSocPlanApprove r) = Some (operator r)"
| "soc_operator (ReqSocPlanModify r) = Some (operator r)"

fun settings_operator :: "SettingsRequest \<Rightarrow> OperatorDelegation option option" where
  "settings_operator (ReqSettingsRead r) = Some (operator r)"
| "settings_operator (ReqSettingsReports r) = Some (operator r)"
| "settings_operator (ReqModelAccessRead r) = Some (operator r)"
| "settings_operator (ReqAgentGrantSet r) = Some (operator r)"
| "settings_operator (ReqSettingsCommit r) = Some (operator r)"
| "settings_operator (ReqSettingsPropose r) = Some (operator r)"
| "settings_operator (ReqSettingsApprovals r) = Some (operator r)"
| "settings_operator (ReqSettingsApprove r) = Some (operator r)"
| "settings_operator (ReqSettingsHistory r) = Some (operator r)"
| "settings_operator (ReqSettingsRollback r) = Some (operator r)"

fun request_operator :: "WireRequest \<Rightarrow> OperatorDelegation option option" where
  "request_operator (Core r) = core_operator r"
| "request_operator (Directory r) = directory_operator r"
| "request_operator (Zone r) = zone_operator r"
| "request_operator (Soc r) = soc_operator r"
| "request_operator (Settings r) = settings_operator r"

lemma tagged_names [simp]:
  "shaped (tagged tag body) \<longleftrightarrow> name_ok tag \<and> shaped body"
  by (auto simp: tagged_def)

lemma core_shaped:
  "core_value r = Some v \<Longrightarrow> pred_option shaped (opaque_part (Core r)) \<Longrightarrow> shaped v"
  by (cases r) (auto simp: shape_simps)

lemma directory_shaped: "directory_value r = Some v \<Longrightarrow> shaped v"
  by (cases r) (auto simp: shape_simps)

lemma zone_shaped: "zone_value r = Some v \<Longrightarrow> shaped v"
  by (cases r) (auto simp: shape_simps)

lemma soc_shaped: "soc_value r = Some v \<Longrightarrow> shaped v"
  by (cases r) (auto simp: shape_simps)

lemma settings_shaped: "settings_value r = Some v \<Longrightarrow> shaped v"
  by (cases r) (auto simp: shape_simps)

lemma request_shaped:
  "request_value r = Some v \<Longrightarrow> pred_option shaped (opaque_part r) \<Longrightarrow> shaped v"
  by (cases r) (auto dest: core_shaped directory_shaped zone_shaped soc_shaped settings_shaped)

section \<open>The tag and the delegation\<close>

lemmas to_cbor_defs =
  submitToCbor_def listAgentsToCbor_def directoryReadToCbor_def groupWriteToCbor_def
  principalSpecToCbor_def principalWriteToCbor_def principalSetStatusToCbor_def
  groupSetMembersToCbor_def objectListToCbor_def idamConnectorsToCbor_def idamSyncToCbor_def
  idamConfigureToCbor_def idamConnectToCbor_def objectDetailToCbor_def objectSpecToCbor_def
  objectWriteToCbor_def objectDeleteToCbor_def entityDecisionsToCbor_def entityConnectionsToCbor_def
  connectivityQueryToCbor_def connectivityMembersToCbor_def logQueryToCbor_def logExplainToCbor_def
  logExportToCbor_def containToCbor_def domainPostureToCbor_def vtzSpecToCbor_def vtzTreeToCbor_def
  vtzDetailToCbor_def bundleConvergenceToCbor_def bundleCommitToCbor_def vtzSpecRequestToCbor_def
  vtzRescopeToCbor_def vtzDeleteToCbor_def policyListToCbor_def policyDetailToCbor_def
  policyEffectiveToCbor_def policyRuleToCbor_def scopeMemberToCbor_def policySpecToCbor_def
  policyCreateToCbor_def policyEditToCbor_def policyPublishToCbor_def policyDeleteToCbor_def
  detectSummaryToCbor_def socIncidentListToCbor_def socIncidentDetailToCbor_def
  socPlanApproveToCbor_def socDispositionToCbor_def socPlanModifyToCbor_def socNarrativeToCbor_def
  socTelemetryToCbor_def socAuditToCbor_def socIncidentActToCbor_def socNotesToCbor_def
  socImpactToCbor_def socReportToCbor_def socUebaToCbor_def socWeeklyToCbor_def
  socSettingsReadToCbor_def tiersToCbor_def siemWritebackToCbor_def socSettingsCommitToCbor_def
  socCognitionRunToCbor_def settingsReadToCbor_def settingsReportsToCbor_def
  modelAccessReadToCbor_def agentGrantSetToCbor_def settingsApprovalsToCbor_def
  settingsApproveToCbor_def settingsHistoryToCbor_def settingsRollbackToCbor_def
  lugExposureToCbor_def sectionsToCbor_def settingsCommitToCbor_def

lemma map_of_opt [simp]: "map_of (opt k x) = (\<lambda>j. if j = k then x else None)"
  by (auto simp: opt_def split: option.split)

text \<open>A payload with the given tag whose body carries exactly the given delegation.\<close>

definition delegates :: "string \<Rightarrow> OperatorDelegation option \<Rightarrow> jsval \<Rightarrow> bool" where
  "delegates tag op v \<longleftrightarrow>
     (\<exists>body. v = tagged tag (JObj body) \<and> map_of body ''operator'' = map_option delegation op)"

lemmas delegates_simps = delegates_def tagged_def to_cbor_defs applyOperator_def read_entries_def incident_entries_def
  map_add_def

lemma core_delegates:
  "core_operator r = Some op \<Longrightarrow> \<exists>v. core_value r = Some v \<and> delegates (core_tag r) op v"
  by (cases r) (auto simp: delegates_simps split: option.split)

lemma directory_delegates:
  "directory_operator r = Some op \<Longrightarrow> \<exists>v. directory_value r = Some v \<and> delegates (directory_tag r) op v"
  by (cases r) (auto simp: delegates_simps split: option.split)

lemma zone_delegates:
  "zone_operator r = Some op \<Longrightarrow> \<exists>v. zone_value r = Some v \<and> delegates (zone_tag r) op v"
  by (cases r) (auto simp: delegates_simps split: option.split)

lemma soc_delegates:
  "soc_operator r = Some op \<Longrightarrow> \<exists>v. soc_value r = Some v \<and> delegates (soc_tag r) op v"
  by (cases r) (auto simp: delegates_simps split: option.split)

lemma settings_delegates:
  "settings_operator r = Some op \<Longrightarrow> \<exists>v. settings_value r = Some v \<and> delegates (settings_tag r) op v"
  by (cases r) (auto simp: delegates_simps split: option.split)

lemma request_delegates:
  "request_operator r = Some op \<Longrightarrow> \<exists>v. request_value r = Some v \<and> delegates (request_tag r) op v"
  by (cases r) (auto dest: core_delegates directory_delegates zone_delegates soc_delegates settings_delegates)

lemma request_tagged:
  "request_value r = Some v \<Longrightarrow> r \<noteq> Core ReqTxnBegin \<Longrightarrow> \<exists>body. v = tagged (request_tag r) body"
proof (cases r)
  case (Core q)
  then show "request_value r = Some v \<Longrightarrow> r \<noteq> Core ReqTxnBegin \<Longrightarrow> ?thesis" by (cases q) auto
next
  case (Directory q)
  then show "request_value r = Some v \<Longrightarrow> r \<noteq> Core ReqTxnBegin \<Longrightarrow> ?thesis" by (cases q) auto
next
  case (Zone q)
  then show "request_value r = Some v \<Longrightarrow> r \<noteq> Core ReqTxnBegin \<Longrightarrow> ?thesis" by (cases q) auto
next
  case (Soc q)
  then show "request_value r = Some v \<Longrightarrow> r \<noteq> Core ReqTxnBegin \<Longrightarrow> ?thesis" by (cases q) auto
next
  case (Settings q)
  then show "request_value r = Some v \<Longrightarrow> r \<noteq> Core ReqTxnBegin \<Longrightarrow> ?thesis" by (cases q) auto
qed

end
