(* ===== verification/Dispatch.thy ===== *)
theory Dispatch
  imports PayloadShape
begin

text \<open>
  Request and reply dispatch: \<open>packages/wire/src/dispatch.ts\<close>.  A request is sent as one
  frame on stream 0 and the next frame that arrives is its reply.
\<close>

section \<open>Operations\<close>

text \<open>The tags that ride the \<open>QuerySubmit\<close> opcode, in the order of the condition.\<close>

definition submit_tags :: "string list" where
  "submit_tags = [
     ''QuerySubmit'', ''SubmitMemoryWrite'', ''ListAgents'', ''EntityDecisions'',
     ''EntityConnections'', ''ConnectivityGraph'', ''ConnectivityMembers'', ''LogQuery'',
     ''LogExplain'', ''LogExport'', ''Contain'', ''VtzTree'', ''VtzDetail'', ''VtzCreate'',
     ''VtzEdit'', ''VtzRescope'', ''VtzDelete'', ''BundleCommit'', ''BundleConvergence'',
     ''ListPrincipals'', ''ListGroups'', ''ObjectList'', ''ObjectDetail'', ''PolicyListByZone'',
     ''PolicyDetail'', ''PolicyEffective'', ''PolicyCreate'', ''PolicyEdit'', ''PolicyPublish'',
     ''PolicyDelete'', ''IdamConnectors'', ''IdamSync'', ''IdamConnect'', ''IdamConfigure'',
     ''ObjectCreate'', ''ObjectEdit'', ''ObjectDelete'', ''GroupCreate'', ''GroupEdit'',
     ''GroupSetMembers'', ''PrincipalCreate'', ''PrincipalEdit'', ''PrincipalSetStatus'',
     ''DetectSummary'', ''SocIncidentList'', ''SocIncidentDetail'', ''SocNarrative'',
     ''SocTelemetry'', ''SocAudit'', ''SocImpact'', ''SocCognitionRun'', ''SocPlanApprove'',
     ''SocPlanModify'', ''SocDisposition'', ''SocIncidentAct'', ''SocNotes'', ''SocReport'',
     ''SocUeba'', ''SocWeekly'', ''SocSettingsRead'', ''SocSettingsCommit'', ''SettingsRead'',
     ''SettingsReports'', ''ModelAccessRead'', ''AgentGrantSet'', ''SettingsPropose'',
     ''SettingsApprovals'', ''SettingsApprove'', ''SettingsHistory'', ''SettingsRollback'',
     ''SettingsCommit'']"

definition frameTypeForRequest :: "WireRequest \<Rightarrow> client_error + FrameType" where
  "frameTypeForRequest request =
     (if request = Core ReqTxnBegin then Inr TxnBegin
      else if List.member submit_tags (request_tag request) then Inr QuerySubmit
      else if request_tag request = ''CursorFetch'' then Inr CursorFetch
      else if request_tag request = ''CursorClose'' then Inr CursorClose
      else Inl NotWired)"

definition stream0_frame :: "FrameType \<Rightarrow> bytes \<Rightarrow> OutboundFrame" where
  "stream0_frame ft payload =
     \<lparr>of_frameType = ft, of_payload = payload, of_streamId = Some 0, of_flags = Some END_STREAM,
      of_protocolVersion = None\<rparr>"

definition dispatch :: "(jsval \<Rightarrow> string option) \<Rightarrow> 's channel \<Rightarrow> WireRequest \<Rightarrow> ('s, jsval) async" where
  "dispatch other transport request =
     async_bind (async_result id (frameTypeForRequest request)) (\<lambda>ft.
     async_bind (async_result id (encodeWireRequest request)) (\<lambda>payload.
     async_bind (ch_send transport (stream0_frame ft payload)) (\<lambda>_.
     async_bind (ch_recv transport) (\<lambda>frame.
     async_result id (decodeWireReply other (wf_payload frame))))))"

definition heartbeat :: "'s channel \<Rightarrow> ('s, unit) async" where
  "heartbeat transport =
     async_bind (ch_send transport (stream0_frame Ping [])) (\<lambda>_.
     async_bind (ch_recv transport) (\<lambda>frame.
     if frameType (wf_header frame) \<noteq> opcode Pong
     then async_throw (ExpectedFrame Pong (frameType (wf_header frame)))
     else async_return ()))"

text \<open>A client that dispatches one request after another.\<close>

fun dispatch_all :: "(jsval \<Rightarrow> string option) \<Rightarrow> 's channel \<Rightarrow> WireRequest list \<Rightarrow> ('s, jsval list) async" where
  "dispatch_all other transport [] = async_return []"
| "dispatch_all other transport (r # rs) =
     async_bind (dispatch other transport r) (\<lambda>v.
     async_bind (dispatch_all other transport rs) (\<lambda>vs. async_return (v # vs)))"

section \<open>Which requests are wired\<close>

lemma core_wired: "frameTypeForRequest (Core r) =
    (case core_value r of None \<Rightarrow> Inl NotWired
     | Some _ \<Rightarrow> (case r of ReqTxnBegin \<Rightarrow> Inr TxnBegin | ReqCursorFetch _ \<Rightarrow> Inr CursorFetch
                  | ReqCursorClose _ \<Rightarrow> Inr CursorClose | _ \<Rightarrow> Inr QuerySubmit))"
  by (cases r) (simp_all add: frameTypeForRequest_def submit_tags_def)

lemma directory_wired: "frameTypeForRequest (Directory r) =
    (if directory_value r = None then Inl NotWired else Inr QuerySubmit)"
  by (cases r) (simp_all add: frameTypeForRequest_def submit_tags_def)

lemma zone_wired: "frameTypeForRequest (Zone r) =
    (if zone_value r = None then Inl NotWired else Inr QuerySubmit)"
  by (cases r) (simp_all add: frameTypeForRequest_def submit_tags_def)

lemma soc_wired: "frameTypeForRequest (Soc r) = Inr QuerySubmit" "soc_value r \<noteq> None"
  by (cases r; simp add: frameTypeForRequest_def submit_tags_def)+

lemma settings_wired: "frameTypeForRequest (Settings r) = Inr QuerySubmit" "settings_value r \<noteq> None"
  by (cases r; simp add: frameTypeForRequest_def submit_tags_def)+

lemma frameTypeForRequest_None: "request_value r = None \<Longrightarrow> frameTypeForRequest r = Inl NotWired"
  by (cases r) (auto simp: core_wired directory_wired zone_wired soc_wired settings_wired)

lemma frameTypeForRequest_Some: "request_value r = Some v \<Longrightarrow> \<exists>ft. frameTypeForRequest r = Inr ft"
  by (cases r) (auto simp: core_wired directory_wired zone_wired soc_wired settings_wired split: CoreRequest.split)

section \<open>Requests the codec carries\<close>

definition dispatchable :: "WireRequest \<Rightarrow> bool" where
  "dispatchable r = (case request_value r of None \<Rightarrow> False
     | Some v \<Rightarrow> wire_ok v \<and> length (wire_bytes v) \<le> DEFAULT_MAX_PAYLOAD)"

text \<open>The frame a dispatchable request is sent as.\<close>

definition request_frame :: "WireRequest \<Rightarrow> OutboundFrame" where
  "request_frame r = stream0_frame
     (case frameTypeForRequest r of Inr ft \<Rightarrow> ft | Inl _ \<Rightarrow> QuerySubmit)
     (case request_value r of Some v \<Rightarrow> wire_bytes v | None \<Rightarrow> [])"

lemma dispatchable_steps:
  assumes "dispatchable r"
  obtains ft v where "frameTypeForRequest r = Inr ft" "request_value r = Some v" "wire_ok v"
    "encodeWireRequest r = Inr (wire_bytes v)" "request_frame r = stream0_frame ft (wire_bytes v)"
    "length (wire_bytes v) \<le> DEFAULT_MAX_PAYLOAD"
proof -
  from assms obtain v where v: "request_value r = Some v" "wire_ok v" "length (wire_bytes v) \<le> DEFAULT_MAX_PAYLOAD"
    by (auto simp: dispatchable_def split: option.splits)
  moreover obtain ft where "frameTypeForRequest r = Inr ft" using frameTypeForRequest_Some [OF v(1)] by blast
  ultimately show thesis using that by (simp add: encodeWireRequest_def encode_wire_bytes request_frame_def)
qed

lemma stream0_frame_ok: "length p \<le> DEFAULT_MAX_PAYLOAD \<Longrightarrow> outbound_ok (stream0_frame ft p)"
  using opcode_less [of ft]
  by (simp add: outbound_ok_def header_ok_def stream0_frame_def outboundHeader_def END_STREAM_def
      DEFAULT_MAX_PAYLOAD_def PROTOCOL_V1_0_def)

lemma request_frame_ok: "dispatchable r \<Longrightarrow> outbound_ok (request_frame r)"
  by (erule dispatchable_steps) (simp add: stream0_frame_ok)

lemma wf_payload_request_frame: "dispatchable r \<Longrightarrow> request_value r = Some v \<Longrightarrow> wf_payload (carried (request_frame r)) = wire_bytes v"
  by (erule dispatchable_steps) (simp add: carried_def stream0_frame_def)

section \<open>Over any frame transport\<close>

context frame_transport
begin

lemma dispatch_answered:
  assumes "open_at s" "coming s = f # fs" "dispatchable r"
  shows "\<exists>s'. dispatch other chan r s =
      (case decodeWireReply other (wf_payload f) of Inl e \<Rightarrow> Rejected e | Inr v \<Rightarrow> Resolved v, s') \<and>
    open_at s' \<and> coming s' = fs \<and> sent s' = sent s @ outbound_bytes (request_frame r)"
proof -
  obtain ft v where ft: "frameTypeForRequest r = Inr ft" "encodeWireRequest r = Inr (wire_bytes v)"
      "request_frame r = stream0_frame ft (wire_bytes v)"
    using dispatchable_steps [OF assms(3)] by metis
  from exchange [OF assms(1,2), of "request_frame r"] obtain s' where
    s': "\<And>k :: WireFrame \<Rightarrow> ('s, jsval) async.
        async_bind (ch_send chan (request_frame r)) (\<lambda>_. async_bind (ch_recv chan) k) s = k f s'"
      "open_at s'" "sent s' = sent s @ outbound_bytes (request_frame r)" "coming s' = fs"
    by blast
  have "dispatch other chan r s = async_result id (decodeWireReply other (wf_payload f)) s'"
    using ft s'(1) by (simp add: dispatch_def async_simps)
  with s' show ?thesis
    by (cases "decodeWireReply other (wf_payload f)") (simp_all add: async_simps)
qed

lemma dispatch_all_answered:
  assumes "open_at s" "coming s = fs @ rest" "list_all dispatchable rs"
    and "list_all2 (\<lambda>f v. decodeWireReply other (wf_payload f) = Inr v) fs vs" "length fs = length rs"
  shows "\<exists>s'. dispatch_all other chan rs s = (Resolved vs, s') \<and> open_at s' \<and> coming s' = rest \<and>
    sent s' = sent s @ concat (map (\<lambda>r. outbound_bytes (request_frame r)) rs)"
  using assms
proof (induction rs arbitrary: s fs vs)
  case Nil
  then show ?case by (simp add: async_simps)
next
  case (Cons r rs)
  then obtain f fs' v vs' where fs: "fs = f # fs'" "vs = v # vs'" "decodeWireReply other (wf_payload f) = Inr v"
      "list_all2 (\<lambda>f v. decodeWireReply other (wf_payload f) = Inr v) fs' vs'"
    by (cases fs) (auto simp: list_all2_Cons1)
  with Cons.prems dispatch_answered [of s f "fs' @ rest" r other] obtain s1 where
    s1: "dispatch other chan r s = (Resolved v, s1)" "open_at s1" "coming s1 = fs' @ rest"
      "sent s1 = sent s @ outbound_bytes (request_frame r)"
    by auto
  with Cons.IH [of s1 fs' vs'] Cons.prems fs obtain s2 where
    "dispatch_all other chan rs s1 = (Resolved vs', s2)" "open_at s2" "coming s2 = rest"
    "sent s2 = sent s1 @ concat (map (\<lambda>r. outbound_bytes (request_frame r)) rs)"
    by auto
  with s1 fs show ?case by (simp add: async_bind_def async_simps)
qed

lemma heartbeat_answered:
  assumes "open_at s" "coming s = f # fs"
  shows "\<exists>s'. heartbeat chan s =
      (if frameType (wf_header f) = opcode Pong then Resolved ()
       else Rejected (ExpectedFrame Pong (frameType (wf_header f))), s') \<and>
    open_at s' \<and> coming s' = fs \<and> sent s' = sent s @ outbound_bytes (stream0_frame Ping [])"
proof -
  from exchange [OF assms, of "stream0_frame Ping []"] obtain s' where
    s': "\<And>k :: WireFrame \<Rightarrow> ('s, unit) async.
        async_bind (ch_send chan (stream0_frame Ping [])) (\<lambda>_. async_bind (ch_recv chan) k) s = k f s'"
      "open_at s'" "sent s' = sent s @ outbound_bytes (stream0_frame Ping [])" "coming s' = fs"
    by blast
  then show ?thesis unfolding heartbeat_def s'(1) by (simp add: async_simps)
qed

end

section \<open>Properties\<close>

lemma norm_delegation [simp]: "norm (delegation op) = delegation op"
  by (cases "od_settings_tier op") (simp_all add: delegation_def opt_def)

text \<open>A sample request: the agent directory, read on behalf of an operator.\<close>

definition sample_request :: WireRequest where
  "sample_request = Directory (ReqListAgents \<lparr>request_id = NInt 7,
     operator = Some \<lparr>od_principal = ''p1'', od_tenant = ''t1'', od_settings_tier = None\<rparr>\<rparr>)"

lemma sample_value: "request_value sample_request = Some (JObj [(''ListAgents'', JObj [(''request_id'', JNum (NInt 7)),
    (''operator'', JObj [(''principal'', JStr ''p1''), (''tenant'', JStr ''t1'')])])])"
  by (simp add: sample_request_def tagged_def listAgentsToCbor_def applyOperator_def read_entries_def delegation_def opt_def)

lemma sample_scalars: "scalars_ok (the (request_value sample_request))"
  by (simp add: sample_value str_ok_ascii ascii_def del: wire_ok.simps(1))

lemma sample_shaped: "pred_option shaped (opaque_part sample_request)"
  by (simp add: sample_request_def)

lemma sample_dispatchable: "dispatchable sample_request"
  using shaped_wire_ok [OF request_shaped [OF sample_value sample_shaped]] sample_scalars
  by (simp add: dispatchable_def sample_value wire_bytes_def encodeText_def encodeInt_def head_def push_def
      isInteger_def toBigInt_def DEFAULT_MAX_PAYLOAD_def del: wire_ok.simps)

text \<open>
  A variant has an opcode exactly when it has an encoding, so no request falls
  between the two tables; a request without an opcode is rejected with nothing sent.
\<close>

theorem wired_iff_encodable:
  "case frameTypeForRequest r of
     Inl e \<Rightarrow> e = NotWired \<and> encodeWireRequest r = Inl Unsupported \<and> dispatch other chan r s = (Rejected NotWired, s)
   | Inr _ \<Rightarrow> encodeWireRequest r \<noteq> Inl Unsupported"
proof (cases "request_value r")
  case None
  then show ?thesis
    by (simp add: frameTypeForRequest_None encodeWireRequest_def dispatch_def async_simps)
next
  case (Some v)
  from frameTypeForRequest_Some [OF this] Some show ?thesis
    by (auto simp: encodeWireRequest_def split: sum.splits)
qed



text \<open>
  C10. No variant with an operator field drops or alters it: the body carries, under
  \<open>operator\<close>, the delegation when there is one and no such key otherwise.
\<close>

theorem request_carries_operator:
  assumes "request_operator r = Some op"
  shows "\<exists>body. request_value r = Some (JObj [(request_tag r, JObj body)]) \<and>
    map_of body ''operator'' = map_option delegation op"
  using request_delegates [OF assms] by (auto simp: delegates_def tagged_def)

theorem request_carries_operator_witness:
  "\<exists>body. request_value sample_request = Some (JObj [(''ListAgents'', JObj body)]) \<and>
     map_of body ''operator'' = Some (JObj [(''principal'', JStr ''p1''), (''tenant'', JStr ''t1'')])"
  using request_carries_operator [of sample_request]
  by (simp add: sample_request_def delegation_def opt_def)

text \<open>
  Dispatching requests one after another over a connection: each resolves with the
  value its own reply carries, in order, and what was written is exactly one frame per
  request, on the request's opcode with its payload.
\<close>

theorem dispatch_pairs_replies:
  assumes "list_all dispatchable rs" "list_all wire_ok vs" "length vs = length rs"
    and "map wf_payload (fst (frames_of (concat chunks))) = map wire_bytes vs @ later"
  shows "\<exists>w. dispatch_all other socket_channel rs (connection chunks) = (Resolved (map norm vs), w) \<and>
    frames_of (written (w_transport w)) = (map (\<lambda>r. carried (request_frame r)) rs, [], None)"
proof -
  let ?fs = "fst (frames_of (concat chunks))"
  let ?n = "length vs"
  have "map wf_payload (take ?n ?fs) = map wire_bytes vs"
    using assms(4) by (simp add: take_map [symmetric])
  then have len: "length (take ?n ?fs) = ?n" and nth: "\<And>i. i < ?n \<Longrightarrow> wf_payload (take ?n ?fs ! i) = wire_bytes (vs ! i)"
    by (metis length_map, metis length_map nth_map)
  have "list_all2 (\<lambda>f v. decodeWireReply other (wf_payload f) = Inr v) (take ?n ?fs) (map norm vs)"
    using len nth assms(2) decode_wire_bytes
    by (auto simp: list_all2_conv_all_nth list_all_length decodeWireReply_def decode_value_def simp del: nth_take)
  with socket.dispatch_all_answered [of "connection chunks" "take ?n ?fs" "drop ?n ?fs" rs other "map norm vs"] assms(1,3) len
  obtain w where "dispatch_all other socket_channel rs (connection chunks) = (Resolved (map norm vs), w)"
    "written (w_transport w) = concat (map (\<lambda>r. outbound_bytes (request_frame r)) rs)"
    by auto
  moreover have "frames_of (concat (map outbound_bytes (map request_frame rs))) = (map carried (map request_frame rs), [], None)"
    by (rule frames_of_outbound) (use assms(1) in \<open>auto simp: list_all_iff request_frame_ok\<close>)
  ultimately show ?thesis by (simp add: comp_def)
qed

theorem dispatch_pairs_replies_witness:
  "\<exists>w. dispatch_all (\<lambda>_. None) socket_channel [sample_request, sample_request]
      (connection [outbound_bytes (server_frame QueryResult (wire_bytes (JBool True))),
                   outbound_bytes (server_frame QueryResult (wire_bytes JNull))]) =
    (Resolved [JBool True, JNull], w)"
proof -
  let ?fs = "[server_frame QueryResult (wire_bytes (JBool True)), server_frame QueryResult (wire_bytes JNull)]"
  have "frames_of (concat (map outbound_bytes ?fs)) = (map carried ?fs, [], None)"
    by (rule frames_of_outbound) (simp add: server_frame_ok wire_bytes_def push_def DEFAULT_MAX_PAYLOAD_def)
  then show ?thesis
    using dispatch_pairs_replies [of "[sample_request, sample_request]" "[JBool True, JNull]" "map outbound_bytes ?fs" "[]"
        "\<lambda>_. None"] sample_dispatchable
    by auto
qed

text \<open>A heartbeat resolves exactly when the next frame is a PONG, and sends one empty PING.\<close>

theorem heartbeat_pong:
  assumes "fst (frames_of (concat chunks)) = f # fs"
  shows "\<exists>w. heartbeat socket_channel (connection chunks) =
      (if frameType (wf_header f) = opcode Pong then Resolved ()
       else Rejected (ExpectedFrame Pong (frameType (wf_header f))), w) \<and>
    frames_of (written (w_transport w)) = ([carried (stream0_frame Ping [])], [], None)"
proof -
  have "frames_of (concat (map outbound_bytes [stream0_frame Ping []])) = (map carried [stream0_frame Ping []], [], None)"
    by (rule frames_of_outbound) (simp add: stream0_frame_ok)
  with socket.heartbeat_answered [of "connection chunks" f fs] assms show ?thesis by auto
qed

theorem heartbeat_pong_witness:
  "\<exists>w. heartbeat socket_channel (connection [outbound_bytes (server_frame Pong [])]) = (Resolved (), w)"
proof -
  have "frames_of (concat (map outbound_bytes [server_frame Pong []])) = (map carried [server_frame Pong []], [], None)"
    by (rule frames_of_outbound) (simp add: server_frame_ok)
  then show ?thesis
    using heartbeat_pong [of "[outbound_bytes (server_frame Pong [])]" "carried (server_frame Pong [])" "[]"] by auto
qed

end
