(* ===== verification/Rbac.thy ===== *)
theory Rbac
  imports JsValue
begin

text \<open>
  Operator authority: \<open>apps/bff/src/auth/rbac.ts\<close> (roles and tenants) and
  \<open>apps/bff/src/auth/tier.ts\<close> (EXPLAIN tiers).  A configuration record indexed by an
  arbitrary string also finds the properties every object inherits; what it finds
  there is not a grant, and the model keeps it apart.
\<close>

section \<open>Looking up a record by a string\<close>

datatype 'a found = Missing | Inherited | Own 'a

definition object_prototype :: "string list" where
  "object_prototype =
     [''constructor'', ''__defineGetter__'', ''__defineSetter__'', ''hasOwnProperty'', ''__lookupGetter__'',
      ''__lookupSetter__'', ''isPrototypeOf'', ''propertyIsEnumerable'', ''toString'', ''valueOf'',
      ''__proto__'', ''toLocaleString'']"

definition record_get :: "(string \<times> 'a) list \<Rightarrow> string \<Rightarrow> 'a found" where
  "record_get m k = (case map_of m k of
       Some v \<Rightarrow> Own v
     | None \<Rightarrow> if List.member object_prototype k then Inherited else Missing)"

lemma record_get_Own [simp]: "record_get m k = Own v \<longleftrightarrow> map_of m k = Some v"
  by (auto simp: record_get_def split: option.splits)

section \<open>Roles and grants\<close>

datatype OperatorRole = TenantUser | TenantAdmin | GlobalAdmin

fun role_rank :: "OperatorRole \<Rightarrow> int" where
  "role_rank TenantUser = 0"
| "role_rank TenantAdmin = 1"
| "role_rank GlobalAdmin = 2"

record RoleGrant =
  grant_role :: OperatorRole
  grant_tenant :: "string option"

record RbacConfig =
  groupRoles :: "(string \<times> RoleGrant) list"
  localRbac :: "(string \<times> RoleGrant) list"
  defaultTenant :: "string option"

record OperatorAuthority =
  oa_role :: OperatorRole
  oa_activeTenant :: string
  oa_allTenants :: bool

text \<open>\<open>ROLE_ORDER.indexOf(grant.role)\<close>: an inherited property has no role, so index -1.\<close>

definition grant_rank :: "RoleGrant found \<Rightarrow> int" where
  "grant_rank g = (case g of Own grant \<Rightarrow> role_rank (grant_role grant) | _ \<Rightarrow> -1)"

definition better :: "RoleGrant found \<Rightarrow> RoleGrant found \<Rightarrow> RoleGrant found" where
  "better best grant =
     (if grant \<noteq> Missing \<and> (best = Missing \<or> grant_rank grant > grant_rank best) then grant else best)"

definition highestGroupGrant :: "string list \<Rightarrow> (string \<times> RoleGrant) list \<Rightarrow> RoleGrant found" where
  "highestGroupGrant groups roles = fold (\<lambda>group best. better best (record_get roles group)) groups Missing"

definition resolveAuthority :: "string \<Rightarrow> string list \<Rightarrow> RbacConfig \<Rightarrow> OperatorAuthority option" where
  "resolveAuthority subject groups config =
     (case (if groups \<noteq> [] then highestGroupGrant groups (groupRoles config)
            else record_get (localRbac config) subject) of
        Missing \<Rightarrow> None
      | Inherited \<Rightarrow> None
      | Own grant \<Rightarrow>
          if grant_role grant = GlobalAdmin then
            (case defaultTenant config of
               None \<Rightarrow> None
             | Some t \<Rightarrow> Some \<lparr>oa_role = GlobalAdmin, oa_activeTenant = t, oa_allTenants = True\<rparr>)
          else
            (case grant_tenant grant of
               None \<Rightarrow> None
             | Some t \<Rightarrow> Some \<lparr>oa_role = grant_role grant, oa_activeTenant = t, oa_allTenants = False\<rparr>))"

section \<open>Tiers\<close>

datatype ExplainTier = User | Developer | Admin | SecurityAudit

fun tier_rank :: "ExplainTier \<Rightarrow> nat" where
  "tier_rank User = 0"
| "tier_rank Developer = 1"
| "tier_rank Admin = 2"
| "tier_rank SecurityAudit = 3"

definition DEFAULT_ROLE_TIERS :: "(string \<times> ExplainTier) list" where
  "DEFAULT_ROLE_TIERS =
     [(''console-user'', User), (''console-developer'', Developer), (''console-admin'', Admin),
      (''console-security-audit'', SecurityAudit)]"

fun tierForRole :: "OperatorRole \<Rightarrow> ExplainTier" where
  "tierForRole GlobalAdmin = Admin"
| "tierForRole TenantAdmin = Admin"
| "tierForRole TenantUser = User"

definition maxTier :: "ExplainTier \<Rightarrow> ExplainTier \<Rightarrow> ExplainTier" where
  "maxTier a b = (if tier_rank a \<ge> tier_rank b then a else b)"

text \<open>
  \<open>toLowerCase\<close>, as far as a comparison with an ASCII key can see: the ASCII capitals and
  the Kelvin sign become ASCII letters; every other character outside ASCII has a lower
  case with a character outside ASCII in it, and is left as it is.
\<close>

definition lower_char :: "char \<Rightarrow> char" where
  "lower_char c = (if 65 \<le> (of_char c :: nat) \<and> (of_char c :: nat) \<le> 90 then char_of ((of_char c :: nat) + 32) else c)"

definition kelvin :: string where
  "kelvin = map char_of [0xE2, 0x84, 0xAA :: nat]"

fun toLowerCase :: "string \<Rightarrow> string" where
  "toLowerCase (a # b # c # s) = (if [a, b, c] = kelvin then CHR ''k'' # toLowerCase s
     else lower_char a # toLowerCase (b # c # s))"
| "toLowerCase s = map lower_char s"

text \<open>\<open>TIER_ORDER.indexOf(mapped)\<close> is -1 on an inherited property, which never raises the tier.\<close>

definition raise_tier :: "ExplainTier \<Rightarrow> ExplainTier found \<Rightarrow> ExplainTier" where
  "raise_tier tier mapped = (case mapped of
       Own t \<Rightarrow> if tier_rank t > tier_rank tier then t else tier
     | _ \<Rightarrow> tier)"

definition deriveTier :: "string list \<Rightarrow> (string \<times> ExplainTier) list \<Rightarrow> ExplainTier" where
  "deriveTier roles roleTiers =
     fold (\<lambda>role tier. raise_tier tier (record_get roleTiers (toLowerCase role))) roles User"

section \<open>The highest grant\<close>

text \<open>The grants the groups of a token have in the configuration.\<close>

definition matched :: "(string \<times> RoleGrant) list \<Rightarrow> string list \<Rightarrow> RoleGrant list" where
  "matched roles groups = List.map_filter (map_of roles) groups"

lemma highest_snoc:
  "highestGroupGrant (gs @ [g]) roles = better (highestGroupGrant gs roles) (record_get roles g)"
  by (simp add: highestGroupGrant_def)

lemma matched_snoc: "matched roles (gs @ [g]) = matched roles gs @ (case map_of roles g of None \<Rightarrow> [] | Some x \<Rightarrow> [x])"
  by (simp add: matched_def List.map_filter_def split: option.split)

lemma highestGroupGrant_matched:
  "case highestGroupGrant groups roles of
     Own grant \<Rightarrow> grant \<in> set (matched roles groups) \<and>
       (\<forall>other \<in> set (matched roles groups). role_rank (grant_role other) \<le> role_rank (grant_role grant))
   | _ \<Rightarrow> matched roles groups = []"
proof (induction groups rule: rev_induct)
  case Nil
  then show ?case by (simp add: highestGroupGrant_def matched_def List.map_filter_def)
next
  case (snoc g gs)
  have nonneg: "-1 < role_rank r" for r by (cases r) simp_all
  show ?case
  proof (cases "map_of roles g")
    case None
    then have "grant_rank (record_get roles g) = -1" and "\<forall>x. record_get roles g \<noteq> Own x"
      by (auto simp: grant_rank_def record_get_def)
    with None snoc show ?thesis
      by (auto simp: highest_snoc matched_snoc better_def grant_rank_def less_le_not_le less_imp_le [OF nonneg]
          split: found.splits)
  next
    case (Some x)
    then have get: "highestGroupGrant (gs @ [g]) roles = better (highestGroupGrant gs roles) (Own x)"
      by (simp add: highest_snoc record_get_def)
    show ?thesis
    proof (cases "highestGroupGrant gs roles")
      case (Own y)
      with snoc have "y \<in> set (matched roles gs)"
        and max: "\<And>z. z \<in> set (matched roles gs) \<Longrightarrow> role_rank (grant_role z) \<le> role_rank (grant_role y)"
        by auto
      with Own Some get show ?thesis
        by (cases "role_rank (grant_role x) > role_rank (grant_role y)")
          (auto simp: matched_snoc better_def grant_rank_def dest!: max)
    qed (use snoc Some get nonneg in \<open>auto simp: matched_snoc better_def grant_rank_def\<close>)
  qed
qed

text \<open>The grants \<open>resolveAuthority\<close> may use: those of the groups, else the subject's own.\<close>

definition candidates :: "string \<Rightarrow> string list \<Rightarrow> RbacConfig \<Rightarrow> RoleGrant list" where
  "candidates subject groups config =
     (if groups \<noteq> [] then matched (groupRoles config) groups
      else (case map_of (localRbac config) subject of None \<Rightarrow> [] | Some g \<Rightarrow> [g]))"

lemma candidates_chosen:
  "case (if groups \<noteq> [] then highestGroupGrant groups (groupRoles config) else record_get (localRbac config) subject) of
     Own grant \<Rightarrow> grant \<in> set (candidates subject groups config) \<and>
       (\<forall>other \<in> set (candidates subject groups config). role_rank (grant_role other) \<le> role_rank (grant_role grant))
   | _ \<Rightarrow> candidates subject groups config = []"
  using highestGroupGrant_matched [where groups = groups and roles = "groupRoles config"]
  by (auto simp: candidates_def record_get_def split: option.split found.splits)

section \<open>The derived tier\<close>

lemma deriveTier_snoc: "deriveTier (rs @ [r]) m = raise_tier (deriveTier rs m) (record_get m (toLowerCase r))"
  by (simp add: deriveTier_def)

lemma deriveTier_max:
  "(deriveTier roles m = User \<or> (\<exists>r \<in> set roles. map_of m (toLowerCase r) = Some (deriveTier roles m))) \<and>
   (\<forall>r \<in> set roles. \<forall>t. map_of m (toLowerCase r) = Some t \<longrightarrow> tier_rank t \<le> tier_rank (deriveTier roles m))"
proof (induction roles rule: rev_induct)
  case Nil
  then show ?case by (simp add: deriveTier_def)
next
  case (snoc r rs)
  show ?case
  proof (cases "map_of m (toLowerCase r)")
    case None
    then have "deriveTier (rs @ [r]) m = deriveTier rs m"
      by (auto simp: deriveTier_snoc raise_tier_def record_get_def)
    with snoc None show ?thesis by auto
  next
    case (Some t)
    then have "deriveTier (rs @ [r]) m = (if tier_rank t > tier_rank (deriveTier rs m) then t else deriveTier rs m)"
      by (simp add: deriveTier_snoc raise_tier_def record_get_def)
    with snoc Some show ?thesis by (auto intro: less_imp_le le_less_trans)
  qed
qed

section \<open>Properties\<close>

text \<open>
  C14. Authority comes only from a configured grant: the highest among the operator's
  groups, or the subject's local grant when the token carries no group at all.  A global
  admin acts in the configured default tenant and in all tenants, anyone else in the
  tenant of the grant only; without a matching grant or a tenant there is no authority.
\<close>

theorem authority_granted:
  "case resolveAuthority subject groups config of
     Some a \<Rightarrow>
       \<exists>grant \<in> set (candidates subject groups config).
         oa_role a = grant_role grant \<and>
         list_all (\<lambda>other. role_rank (grant_role other) \<le> role_rank (oa_role a)) (candidates subject groups config) \<and>
         Some (oa_activeTenant a) = (if oa_role a = GlobalAdmin then defaultTenant config else grant_tenant grant) \<and>
         oa_allTenants a = (oa_role a = GlobalAdmin)
   | None \<Rightarrow> candidates subject groups config = [] \<or>
       (\<exists>grant \<in> set (candidates subject groups config).
          (if grant_role grant = GlobalAdmin then defaultTenant config else grant_tenant grant) = None)"
proof -
  let ?g = "if groups \<noteq> [] then highestGroupGrant groups (groupRoles config) else record_get (localRbac config) subject"
  note chosen = candidates_chosen [where groups = groups and config = config and subject = subject]
  show ?thesis
  proof (cases ?g)
    case (Own grant)
    with chosen have "grant \<in> set (candidates subject groups config)"
      "list_all (\<lambda>other. role_rank (grant_role other) \<le> role_rank (grant_role grant)) (candidates subject groups config)"
      by (simp_all only: found.case list_all_iff) blast
    moreover from Own have "resolveAuthority subject groups config =
        map_option (\<lambda>t. \<lparr>oa_role = grant_role grant, oa_activeTenant = t, oa_allTenants = grant_role grant = GlobalAdmin\<rparr>)
          (if grant_role grant = GlobalAdmin then defaultTenant config else grant_tenant grant)"
      unfolding resolveAuthority_def by (simp only: found.case) (simp split: option.split)
    ultimately show ?thesis by (cases "if grant_role grant = GlobalAdmin then defaultTenant config else grant_tenant grant")
        (auto split: if_splits intro!: bexI [of _ grant])
  qed (use chosen in \<open>simp_all only: found.case resolveAuthority_def option.case simp_thms\<close>)
qed

end
