(* ===== verification/Stores.thy ===== *)
theory Stores
  imports Rbac "HOL-Library.Sublist"
begin

text \<open>
  The ephemeral stores of the BFF: sessions (\<open>apps/bff/src/auth/session.ts\<close>), device
  logins in flight (\<open>apps/bff/src/auth/login-store.ts\<close>) and the read cache
  (\<open>apps/bff/src/cache.ts\<close>).  A JavaScript \<open>Map\<close> is an association list in insertion
  order.  Times are integer milliseconds; the clock and the random identifiers are
  arguments.  What the three share is the locale \<open>ttl_store\<close>.
\<close>

section \<open>Insertion-ordered maps\<close>

type_synonym ('k, 'v) jsmap = "('k \<times> 'v) list"

definition map_get :: "('k, 'v) jsmap \<Rightarrow> 'k \<Rightarrow> 'v option" where
  "map_get m k = map_of m k"

definition map_delete :: "'k \<Rightarrow> ('k, 'v) jsmap \<Rightarrow> ('k, 'v) jsmap" where
  "map_delete k m = filter (\<lambda>e. fst e \<noteq> k) m"

fun map_set :: "('k, 'v) jsmap \<Rightarrow> 'k \<Rightarrow> 'v \<Rightarrow> ('k, 'v) jsmap" where
  "map_set [] k v = [(k, v)]"
| "map_set ((j, x) # m) k v = (if j = k then (j, v) # m else (j, x) # map_set m k v)"

text \<open>\<open>if (size >= max) { oldest = keys().next().value; if (oldest !== undefined) delete(oldest) }\<close>\<close>

definition evict_oldest :: "nat \<Rightarrow> ('k, 'v) jsmap \<Rightarrow> ('k, 'v) jsmap" where
  "evict_oldest limit m =
     (if length m \<ge> limit then (case m of [] \<Rightarrow> [] | (k, _) # _ \<Rightarrow> map_delete k m) else m)"

definition map_ok :: "('k, 'v) jsmap \<Rightarrow> bool" where
  "map_ok m = distinct (map fst m)"

named_theorems map_simps

lemma map_of_delete [map_simps]: "map_of (map_delete k m) j = (if j = k then None else map_of m j)"
  by (induction m) (auto simp: map_delete_def)

lemma map_of_set [map_simps]: "map_of (map_set m k v) j = (if j = k then Some v else map_of m j)"
  by (induction m k v rule: map_set.induct) auto

lemma map_set_keys: "fst ` set (map_set m k v) = insert k (fst ` set m)"
  by (induction m k v rule: map_set.induct) auto

lemma map_set_new: "k \<notin> fst ` set m \<Longrightarrow> map_set m k v = m @ [(k, v)]"
  by (induction m k v rule: map_set.induct) auto

lemma map_ok_delete [map_simps]: "map_ok m \<Longrightarrow> map_ok (map_delete k m)"
  by (simp add: map_ok_def map_delete_def distinct_map_filter)

lemma map_ok_set [map_simps]: "map_ok m \<Longrightarrow> map_ok (map_set m k v)"
  by (induction m k v rule: map_set.induct) (auto simp: map_ok_def map_set_keys)

lemma map_ok_evict [map_simps]: "map_ok m \<Longrightarrow> map_ok (evict_oldest n m)"
  by (auto simp: evict_oldest_def map_ok_delete split: list.split)

lemma map_of_evict: "map_of (evict_oldest n m) k = Some v \<Longrightarrow> map_of m k = Some v"
  by (auto simp: evict_oldest_def map_of_delete split: list.splits if_splits)

lemma length_delete_le [simp]: "length (map_delete k m) \<le> length m"
  by (simp add: map_delete_def)

lemma length_set_le: "length (map_set m k v) \<le> Suc (length m)"
  by (induction m k v rule: map_set.induct) auto

lemma evict_tl: "map_ok m \<Longrightarrow> evict_oldest n m = (if length m \<ge> n then tl m else m)"
  by (auto simp: evict_oldest_def map_ok_def map_delete_def filter_id_conv rev_image_eqI split: list.split)

lemma length_evict_set: "map_ok m \<Longrightarrow> length m \<le> max (Suc 0) n \<Longrightarrow> length (map_set (evict_oldest n m) k v) \<le> max (Suc 0) n"
  using length_set_le [of "evict_oldest n m" k v] by (auto simp: evict_tl max_def split: if_splits)

section \<open>Sessions\<close>

record OperatorSession =
  s_sessionId :: string
  s_subject :: string
  s_email :: "string option"
  s_tier :: ExplainTier
  s_principalId :: string
  s_tenant :: string
  s_role :: OperatorRole
  s_expiresAt :: int

record OperatorIdentity =
  oi_subject :: string
  oi_email :: "string option"
  oi_tier :: ExplainTier
  oi_principalId :: string
  oi_tenant :: string
  oi_role :: OperatorRole

type_synonym sessions = "(string, OperatorSession) jsmap"

definition new_session :: "string \<Rightarrow> OperatorIdentity \<Rightarrow> int \<Rightarrow> OperatorSession" where
  "new_session sessionId identity expiresAt =
     \<lparr>s_sessionId = sessionId, s_subject = oi_subject identity, s_email = oi_email identity,
      s_tier = oi_tier identity, s_principalId = oi_principalId identity, s_tenant = oi_tenant identity,
      s_role = oi_role identity, s_expiresAt = expiresAt\<rparr>"

text \<open>\<open>create\<close>, with the random identifier and the time of the call.\<close>

definition session_create :: "nat \<Rightarrow> string \<Rightarrow> int \<Rightarrow> OperatorIdentity \<Rightarrow> int \<Rightarrow> sessions \<Rightarrow> OperatorSession \<times> sessions" where
  "session_create maxSessions sessionId now identity ttlMs sessions =
     (let sessions = evict_oldest maxSessions sessions;
          session = new_session sessionId identity (now + ttlMs)
      in (session, map_set sessions sessionId session))"

definition session_get :: "string \<Rightarrow> int \<Rightarrow> sessions \<Rightarrow> OperatorSession option \<times> sessions" where
  "session_get sessionId now sessions =
     (case map_get sessions sessionId of
        None \<Rightarrow> (None, sessions)
      | Some session \<Rightarrow>
          if s_expiresAt session \<le> now then (None, map_delete sessionId sessions)
          else (Some session, sessions))"

definition session_destroy :: "string \<Rightarrow> sessions \<Rightarrow> sessions" where
  "session_destroy sessionId sessions = map_delete sessionId sessions"

section \<open>Device logins\<close>

record PendingLogin =
  l_loginId :: string
  l_deviceCode :: string
  l_intervalSecs :: int
  l_expiresAt :: int

type_synonym logins = "(string, PendingLogin) jsmap"

definition login_create :: "nat \<Rightarrow> string \<Rightarrow> int \<Rightarrow> string \<Rightarrow> int \<Rightarrow> int \<Rightarrow> logins \<Rightarrow> PendingLogin \<times> logins" where
  "login_create maxLogins loginId now deviceCode intervalSecs ttlMs logins =
     (let logins = evict_oldest maxLogins logins;
          login = \<lparr>l_loginId = loginId, l_deviceCode = deviceCode, l_intervalSecs = intervalSecs,
                   l_expiresAt = now + ttlMs\<rparr>
      in (login, map_set logins loginId login))"

definition login_get :: "string \<Rightarrow> int \<Rightarrow> logins \<Rightarrow> PendingLogin option \<times> logins" where
  "login_get loginId now logins =
     (case map_get logins loginId of
        None \<Rightarrow> (None, logins)
      | Some login \<Rightarrow>
          if l_expiresAt login \<le> now then (None, map_delete loginId logins) else (Some login, logins))"

definition login_destroy :: "string \<Rightarrow> logins \<Rightarrow> logins" where
  "login_destroy loginId logins = map_delete loginId logins"

section \<open>The read cache\<close>

record 'v Entry =
  e_value :: 'v
  e_version :: string
  e_expiresAt :: int

type_synonym 'v cache = "(string, 'v Entry) jsmap"

definition cache_get :: "string \<Rightarrow> string \<Rightarrow> int \<Rightarrow> 'v cache \<Rightarrow> 'v option \<times> 'v cache" where
  "cache_get key version now entries =
     (case map_get entries key of
        None \<Rightarrow> (None, entries)
      | Some entry \<Rightarrow>
          if e_version entry \<noteq> version \<or> e_expiresAt entry \<le> now then (None, map_delete key entries)
          else (Some (e_value entry), entries))"

definition cache_set :: "nat \<Rightarrow> int \<Rightarrow> string \<Rightarrow> 'v \<Rightarrow> string \<Rightarrow> int \<Rightarrow> 'v cache \<Rightarrow> 'v cache" where
  "cache_set maxEntries ttlMs key value version now entries =
     map_set (evict_oldest maxEntries (map_delete key entries)) key
       \<lparr>e_value = value, e_version = version, e_expiresAt = now + ttlMs\<rparr>"

definition cache_deletePrefix :: "string \<Rightarrow> 'v cache \<Rightarrow> 'v cache" where
  "cache_deletePrefix pre entries =
     fold (\<lambda>key m. if prefix pre key then map_delete key m else m) (map fst entries) entries"

definition cache_clear :: "'v cache \<Rightarrow> 'v cache" where
  "cache_clear entries = []"

section \<open>What the stores have in common\<close>

text \<open>
  \<open>writes op\<close> is the entry an operation stores, \<open>drops op k v\<close> says that it removes the
  entry \<open>(k, v)\<close>, as a deletion or because it finds it stale.  A store keeps its bound;
  whatever it holds was written and not dropped or overwritten since; and it evicts an
  entry only for \<open>limit\<close> younger ones.
\<close>

locale ttl_store =
  fixes step :: "'op \<Rightarrow> ('k, 'v) jsmap \<Rightarrow> ('k, 'v) jsmap"
    and writes :: "'op \<Rightarrow> ('k \<times> 'v) option"
    and drops :: "'op \<Rightarrow> 'k \<Rightarrow> 'v \<Rightarrow> bool"
    and limit :: nat
  assumes step_ok: "map_ok m \<Longrightarrow> map_ok (step op m)"
    and step_bound: "map_ok m \<Longrightarrow> length m \<le> max (Suc 0) limit \<Longrightarrow> length (step op m) \<le> max (Suc 0) limit"
    and step_writes: "writes op = Some (k, v) \<Longrightarrow> map_of (step op m) k = Some v"
    and step_source: "map_of (step op m) k = Some v \<Longrightarrow> writes op \<noteq> Some (k, v) \<Longrightarrow>
      (\<forall>w. writes op \<noteq> Some (k, w)) \<and> \<not> drops op k v \<and> map_of m k = Some v"
    and step_keeps: "map_ok (xs @ (k, v) # ys) \<Longrightarrow> \<not> drops op k v \<Longrightarrow> (\<forall>w. writes op \<noteq> Some (k, w)) \<Longrightarrow>
      writes op = None \<or> Suc (length ys) < limit \<Longrightarrow>
      \<exists>xs' ys'. step op (xs @ (k, v) # ys) = xs' @ (k, v) # ys' \<and>
        length ys' \<le> length ys + (if writes op = None then 0 else 1)"
begin

lemma run_ok: "map_ok (fold step ops [])"
proof (induction ops rule: rev_induct)
  case Nil
  then show ?case by (simp add: map_ok_def)
next
  case (snoc op ops)
  then show ?case by (simp add: step_ok)
qed

lemma run_bound: "length (fold step ops []) \<le> max (Suc 0) limit"
proof (induction ops rule: rev_induct)
  case (snoc op ops)
  then show ?case using step_bound [OF run_ok] by simp
qed simp

text \<open>The operations after which an entry written before is still the current one.\<close>

lemma run_source:
  "map_of (fold step ops []) k = Some v \<Longrightarrow>
     \<exists>pre op post. ops = pre @ op # post \<and> writes op = Some (k, v) \<and>
       list_all (\<lambda>p. \<not> drops p k v \<and> (\<forall>w. writes p \<noteq> Some (k, w))) post"
proof (induction ops rule: rev_induct)
  case (snoc op ops)
  show ?case
  proof (cases "writes op = Some (k, v)")
    case True
    then show ?thesis by (intro exI [of _ ops] exI [of _ op] exI [of _ "[]"]) simp
  next
    case False
    with snoc.prems step_source [of op "fold step ops []" k v]
    have "map_of (fold step ops []) k = Some v" "\<not> drops op k v" "\<forall>w. writes op \<noteq> Some (k, w)" by auto
    with snoc.IH obtain pre o' post where "ops = pre @ o' # post" "writes o' = Some (k, v)"
      "list_all (\<lambda>p. \<not> drops p k v \<and> (\<forall>w. writes p \<noteq> Some (k, w))) (post @ [op])"
      by auto
    then show ?thesis by (intro exI [of _ pre] exI [of _ o'] exI [of _ "post @ [op]"]) simp
  qed
qed simp

lemma fold_keeps:
  assumes "map_ok m" "m = xs @ (k, v) # ys" "list_all (\<lambda>p. \<not> drops p k v \<and> (\<forall>w. writes p \<noteq> Some (k, w))) post"
    and "length ys + length (filter (\<lambda>p. writes p \<noteq> None) post) < limit"
  shows "\<exists>xs' ys'. fold step post m = xs' @ (k, v) # ys'"
  using assms
proof (induction post arbitrary: m xs ys)
  case (Cons op post)
  then have "writes op = None \<or> Suc (length ys) < limit" by (cases "writes op") auto
  with Cons.prems step_keeps [of xs k v ys op] obtain xs' ys' where
    s: "step op m = xs' @ (k, v) # ys'" "length ys' \<le> length ys + (if writes op = None then 0 else 1)"
    by auto
  show ?case
    using Cons.IH [OF step_ok [OF Cons.prems(1), of op] s(1)] Cons.prems(3,4) s(2)
    by (cases "writes op") auto
qed auto

text \<open>An entry is there as long as nothing drops or overwrites it and fewer than \<open>limit\<close> are written after it.\<close>

lemma run_keeps:
  assumes "writes op = Some (k, v)" "list_all (\<lambda>p. \<not> drops p k v \<and> (\<forall>w. writes p \<noteq> Some (k, w))) post"
    and "step op (fold step pre []) = xs @ [(k, v)]" and "length (filter (\<lambda>p. writes p \<noteq> None) post) < limit"
  shows "map_of (fold step (pre @ op # post) []) k = Some v"
proof -
  let ?m = "step op (fold step pre [])"
  from fold_keeps [OF step_ok [OF run_ok] assms(3,2)] assms(4)
  obtain xs' ys' where *: "fold step (pre @ op # post) [] = xs' @ (k, v) # ys'" by auto
  moreover from this have "map_ok (xs' @ (k, v) # ys')" using run_ok by metis
  then have "k \<notin> fst ` set xs'" by (auto simp: map_ok_def)
  ultimately show ?thesis by (simp add: map_add_dom_app_simps(3) dom_map_of_conv_image_fst)
qed

end

lemma delete_split: "j \<noteq> k \<Longrightarrow>
    \<exists>xs' ys'. map_delete j (xs @ (k, v) # ys) = xs' @ (k, v) # ys' \<and> length ys' \<le> length ys"
  by (intro exI [of _ "map_delete j ys"] exI [where x = "map_delete j xs"]) (simp add: map_delete_def)

text \<open>What a lookup leaves in the map: a stale entry is removed.\<close>

definition drop_stale :: "('v \<Rightarrow> bool) \<Rightarrow> 'k \<Rightarrow> ('k, 'v) jsmap \<Rightarrow> ('k, 'v) jsmap" where
  "drop_stale stale k m = (case map_get m k of
       None \<Rightarrow> m | Some v \<Rightarrow> if stale v then map_delete k m else m)"

lemma drop_stale_map:
  "map_ok m \<Longrightarrow> map_ok (drop_stale stale k m)"
  "length m \<le> n \<Longrightarrow> length (drop_stale stale k m) \<le> n"
  "map_of (drop_stale stale k m) j = Some v \<longleftrightarrow> map_of m j = Some v \<and> \<not> (j = k \<and> stale v)"
  using length_delete_le [of k m, THEN order_trans]
  by (auto simp: drop_stale_def map_get_def map_simps split: option.split)

lemma map_of_split: "map_ok (xs @ (k, v) # ys) \<Longrightarrow> map_of (xs @ (k, v) # ys) k = Some v"
  by (simp add: map_ok_def map_add_dom_app_simps(3) dom_map_of_conv_image_fst)

lemma drop_stale_split:
  assumes "map_ok (xs @ (k, v) # ys)" "\<not> (k = j \<and> stale v)"
  shows "\<exists>xs' ys'. drop_stale stale j (xs @ (k, v) # ys) = xs' @ (k, v) # ys' \<and> length ys' \<le> length ys"
proof (cases "j = k")
  case True
  with assms map_of_split [OF assms(1)] show ?thesis by (auto simp: drop_stale_def map_get_def)
next
  case False
  with delete_split [of j k xs v ys] show ?thesis by (auto simp: drop_stale_def split: option.split)
qed

lemma set_split: "j \<noteq> k \<Longrightarrow>
    \<exists>xs' ys'. map_set (xs @ (k, v) # ys) j w = xs' @ (k, v) # ys' \<and> length ys' \<le> Suc (length ys)"
proof (induction xs)
  case Nil
  then have "map_set ([] @ (k, v) # ys) j w = [] @ (k, v) # map_set ys j w \<and> length (map_set ys j w) \<le> Suc (length ys)"
    using length_set_le [of ys j w] by simp
  then show ?case by blast
next
  case (Cons e xs)
  then obtain xs' ys' where *: "map_set (xs @ (k, v) # ys) j w = xs' @ (k, v) # ys'" "length ys' \<le> Suc (length ys)"
    by blast
  obtain i y where e: "e = (i, y)" by (cases e) auto
  show ?case
  proof (cases "i = j")
    case True
    then show ?thesis by (simp add: e) (rule exI [of _ "(i, w) # xs"], rule exI [of _ ys], simp)
  next
    case False
    with * show ?thesis by (simp add: e) (rule exI [of _ "(i, y) # xs'"], rule exI [of _ ys'], simp)
  qed
qed

text \<open>Writing another key under the bound keeps an entry that fewer than \<open>n\<close> younger ones follow.\<close>

lemma evict_set_split:
  assumes "map_ok (xs @ (k, v) # ys)" "j \<noteq> k" "Suc (length ys) < n"
  shows "\<exists>xs' ys'. map_set (evict_oldest n (xs @ (k, v) # ys)) j w = xs' @ (k, v) # ys' \<and> length ys' \<le> Suc (length ys)"
proof (cases "length (xs @ (k, v) # ys) \<ge> n")
  case True
  with assms(3) obtain e xs1 where "xs = e # xs1" by (cases xs) auto
  with True assms(1) have "evict_oldest n (xs @ (k, v) # ys) = xs1 @ (k, v) # ys" by (simp add: evict_tl)
  with set_split [OF assms(2)] show ?thesis by simp
next
  case False
  then show ?thesis using set_split [OF assms(2)] by (simp add: evict_oldest_def)
qed

lemma evict_set_last: "k \<notin> fst ` set m \<Longrightarrow> \<exists>xs. map_set (evict_oldest n m) k v = xs @ [(k, v)]"
proof -
  assume "k \<notin> fst ` set m"
  then have "k \<notin> fst ` set (evict_oldest n m)"
    by (auto simp: evict_oldest_def map_delete_def split: list.splits if_splits)
  then show ?thesis by (simp add: map_set_new)
qed

section \<open>Sessions as a store\<close>

datatype session_op = SCreate string int OperatorIdentity int | SGet string int | SDestroy string

fun session_step :: "nat \<Rightarrow> session_op \<Rightarrow> sessions \<Rightarrow> sessions" where
  "session_step n (SCreate sid now identity ttl) m = snd (session_create n sid now identity ttl m)"
| "session_step n (SGet sid now) m = snd (session_get sid now m)"
| "session_step n (SDestroy sid) m = session_destroy sid m"

fun session_writes :: "session_op \<Rightarrow> (string \<times> OperatorSession) option" where
  "session_writes (SCreate sid now identity ttl) = Some (sid, new_session sid identity (now + ttl))"
| "session_writes _ = None"

fun session_drops :: "session_op \<Rightarrow> string \<Rightarrow> OperatorSession \<Rightarrow> bool" where
  "session_drops (SDestroy sid) k v = (k = sid)"
| "session_drops (SGet sid now) k v = (k = sid \<and> s_expiresAt v \<le> now)"
| "session_drops (SCreate _ _ _ _) k v = False"

lemma session_get_stale: "snd (session_get sid now m) = drop_stale (\<lambda>s. s_expiresAt s \<le> now) sid m"
  by (simp add: session_get_def drop_stale_def split: option.split)

interpretation session_store: ttl_store "session_step n" session_writes session_drops n
  for n
proof
  fix op m k v xs ys
  show "map_ok m \<Longrightarrow> map_ok (session_step n op m)"
    by (cases op) (auto simp: session_create_def Let_def session_get_stale drop_stale_map session_destroy_def map_simps)
  show "map_ok m \<Longrightarrow> length m \<le> max (Suc 0) n \<Longrightarrow> length (session_step n op m) \<le> max (Suc 0) n"
    using length_delete_le [of _ m, THEN order_trans]
    by (cases op) (auto simp: session_create_def Let_def session_get_stale drop_stale_map session_destroy_def length_evict_set)
  show "session_writes op = Some (k, v) \<Longrightarrow> map_of (session_step n op m) k = Some v"
    by (cases op) (auto simp: session_create_def Let_def map_simps)
  show "map_of (session_step n op m) k = Some v \<Longrightarrow> session_writes op \<noteq> Some (k, v) \<Longrightarrow>
      (\<forall>w. session_writes op \<noteq> Some (k, w)) \<and> \<not> session_drops op k v \<and> map_of m k = Some v"
    by (cases op) (auto simp: session_create_def Let_def session_get_stale drop_stale_map session_destroy_def map_simps
        dest: map_of_evict split: if_splits)
  show "map_ok (xs @ (k, v) # ys) \<Longrightarrow> \<not> session_drops op k v \<Longrightarrow> \<forall>w. session_writes op \<noteq> Some (k, w) \<Longrightarrow>
      session_writes op = None \<or> Suc (length ys) < n \<Longrightarrow>
      \<exists>xs' ys'. session_step n op (xs @ (k, v) # ys) = xs' @ (k, v) # ys' \<and>
        length ys' \<le> length ys + (if session_writes op = None then 0 else 1)"
    using evict_set_split [of xs k v ys _ n] delete_split [of _ k xs v ys] drop_stale_split [of xs k v ys]
    by (cases op) (auto simp: session_create_def Let_def session_get_stale session_destroy_def)
qed

section \<open>Device logins as a store\<close>

datatype login_op = LCreate string int string int int | LGet string int | LDestroy string

fun login_step :: "nat \<Rightarrow> login_op \<Rightarrow> logins \<Rightarrow> logins" where
  "login_step n (LCreate lid now code interval ttl) m = snd (login_create n lid now code interval ttl m)"
| "login_step n (LGet lid now) m = snd (login_get lid now m)"
| "login_step n (LDestroy lid) m = login_destroy lid m"

fun login_writes :: "login_op \<Rightarrow> (string \<times> PendingLogin) option" where
  "login_writes (LCreate lid now code interval ttl) =
     Some (lid, \<lparr>l_loginId = lid, l_deviceCode = code, l_intervalSecs = interval, l_expiresAt = now + ttl\<rparr>)"
| "login_writes _ = None"

fun login_drops :: "login_op \<Rightarrow> string \<Rightarrow> PendingLogin \<Rightarrow> bool" where
  "login_drops (LDestroy lid) k v = (k = lid)"
| "login_drops (LGet lid now) k v = (k = lid \<and> l_expiresAt v \<le> now)"
| "login_drops (LCreate _ _ _ _ _) k v = False"

lemma login_get_stale: "snd (login_get lid now m) = drop_stale (\<lambda>l. l_expiresAt l \<le> now) lid m"
  by (simp add: login_get_def drop_stale_def split: option.split)

interpretation login_store: ttl_store "login_step n" login_writes login_drops n
  for n
proof
  fix op m k v xs ys
  show "map_ok m \<Longrightarrow> map_ok (login_step n op m)"
    by (cases op) (auto simp: login_create_def Let_def login_get_stale drop_stale_map login_destroy_def map_simps)
  show "map_ok m \<Longrightarrow> length m \<le> max (Suc 0) n \<Longrightarrow> length (login_step n op m) \<le> max (Suc 0) n"
    using length_delete_le [of _ m, THEN order_trans]
    by (cases op) (auto simp: login_create_def Let_def login_get_stale drop_stale_map login_destroy_def length_evict_set)
  show "login_writes op = Some (k, v) \<Longrightarrow> map_of (login_step n op m) k = Some v"
    by (cases op) (auto simp: login_create_def Let_def map_simps)
  show "map_of (login_step n op m) k = Some v \<Longrightarrow> login_writes op \<noteq> Some (k, v) \<Longrightarrow>
      (\<forall>w. login_writes op \<noteq> Some (k, w)) \<and> \<not> login_drops op k v \<and> map_of m k = Some v"
    by (cases op) (auto simp: login_create_def Let_def login_get_stale drop_stale_map login_destroy_def map_simps
        dest: map_of_evict split: if_splits)
  show "map_ok (xs @ (k, v) # ys) \<Longrightarrow> \<not> login_drops op k v \<Longrightarrow> \<forall>w. login_writes op \<noteq> Some (k, w) \<Longrightarrow>
      login_writes op = None \<or> Suc (length ys) < n \<Longrightarrow>
      \<exists>xs' ys'. login_step n op (xs @ (k, v) # ys) = xs' @ (k, v) # ys' \<and>
        length ys' \<le> length ys + (if login_writes op = None then 0 else 1)"
    using evict_set_split [of xs k v ys _ n] delete_split [of _ k xs v ys] drop_stale_split [of xs k v ys]
    by (cases op) (auto simp: login_create_def Let_def login_get_stale login_destroy_def)
qed

section \<open>The cache as a store\<close>

datatype 'v cache_op = CGet string string int | CSet string 'v string int | CDeletePrefix string | CClear

fun cache_step :: "nat \<Rightarrow> int \<Rightarrow> 'v cache_op \<Rightarrow> 'v cache \<Rightarrow> 'v cache" where
  "cache_step n ttl (CGet key version now) m = snd (cache_get key version now m)"
| "cache_step n ttl (CSet key value version now) m = cache_set n ttl key value version now m"
| "cache_step n ttl (CDeletePrefix pre) m = cache_deletePrefix pre m"
| "cache_step n ttl CClear m = cache_clear m"

fun cache_writes :: "int \<Rightarrow> 'v cache_op \<Rightarrow> (string \<times> 'v Entry) option" where
  "cache_writes ttl (CSet key value version now) =
     Some (key, \<lparr>e_value = value, e_version = version, e_expiresAt = now + ttl\<rparr>)"
| "cache_writes ttl _ = None"

fun cache_drops :: "'v cache_op \<Rightarrow> string \<Rightarrow> 'v Entry \<Rightarrow> bool" where
  "cache_drops (CGet key version now) k v = (k = key \<and> (e_version v \<noteq> version \<or> e_expiresAt v \<le> now))"
| "cache_drops (CSet _ _ _ _) k v = False"
| "cache_drops (CDeletePrefix pre) k v = prefix pre k"
| "cache_drops CClear k v = True"

lemma cache_get_stale:
  "snd (cache_get key version now m) = drop_stale (\<lambda>e. e_version e \<noteq> version \<or> e_expiresAt e \<le> now) key m"
  by (simp add: cache_get_def drop_stale_def split: option.split)

lemma deletePrefix_filter: "cache_deletePrefix pre m = filter (\<lambda>e. \<not> prefix pre (fst e)) m"
proof -
  have "fold (\<lambda>key m. if prefix pre key then map_delete key m else m) ks m =
      filter (\<lambda>e. \<not> (fst e \<in> set ks \<and> prefix pre (fst e))) m" for ks and m :: "'b cache"
  proof (induction ks arbitrary: m)
    case (Cons k ks)
    then show ?case by (auto simp: map_delete_def intro!: filter_cong)
  qed simp
  then have "cache_deletePrefix pre m = filter (\<lambda>e. \<not> (fst e \<in> set (map fst m) \<and> prefix pre (fst e))) m"
    unfolding cache_deletePrefix_def by blast
  also have "\<dots> = filter (\<lambda>e. \<not> prefix pre (fst e)) m" by (rule filter_cong) auto
  finally show ?thesis .
qed

lemma map_of_filter_keys:
  "map_of (filter (\<lambda>e. \<not> prefix pre (fst e)) m) k = (if prefix pre k then None else map_of m k)"
  by (induction m) auto

lemma map_ok_filter: "map_ok m \<Longrightarrow> map_ok (filter P m)"
  by (simp add: map_ok_def distinct_map_filter)

lemma length_cache_set:
  "map_ok m \<Longrightarrow> length m \<le> max (Suc 0) n \<Longrightarrow> length (cache_set n ttl key value version now m) \<le> max (Suc 0) n"
  unfolding cache_set_def
  by (rule length_evict_set) (auto simp: map_simps intro: length_delete_le [THEN order_trans])

lemma cache_set_split:
  assumes "map_ok (xs @ (k, v) # ys)" "key \<noteq> k" "Suc (length ys) < n"
  shows "\<exists>xs' ys'. cache_set n ttl key value version now (xs @ (k, v) # ys) = xs' @ (k, v) # ys' \<and>
    length ys' \<le> Suc (length ys)"
proof -
  from delete_split [OF assms(2), of xs v ys] obtain xs1 ys1 where
    d: "map_delete key (xs @ (k, v) # ys) = xs1 @ (k, v) # ys1" "length ys1 \<le> length ys" by blast
  then have "map_ok (xs1 @ (k, v) # ys1)" using assms(1) map_ok_delete by metis
  with evict_set_split [of xs1 k v ys1 key n] assms(2,3) d show ?thesis
    by (fastforce simp: cache_set_def)
qed

lemma deletePrefix_split: "\<not> prefix pre k \<Longrightarrow>
    \<exists>xs' ys'. cache_deletePrefix pre (xs @ (k, v) # ys) = xs' @ (k, v) # ys' \<and> length ys' \<le> length ys"
  by (rule exI [of _ "cache_deletePrefix pre xs"], rule exI [of _ "cache_deletePrefix pre ys"])
    (simp add: deletePrefix_filter)

interpretation cache_store: ttl_store "cache_step n ttl" "cache_writes ttl" cache_drops n
  for n ttl
proof
  fix op :: "'v cache_op" and m k v xs ys
  show "map_ok m \<Longrightarrow> map_ok (cache_step n ttl op m)"
    by (cases op) (auto simp: cache_set_def cache_get_stale drop_stale_map deletePrefix_filter cache_clear_def map_simps
        map_ok_filter, simp add: map_ok_def)
  show "map_ok m \<Longrightarrow> length m \<le> max (Suc 0) n \<Longrightarrow> length (cache_step n ttl op m) \<le> max (Suc 0) n"
    by (cases op) (auto simp: length_cache_set cache_get_stale drop_stale_map deletePrefix_filter cache_clear_def
        intro: length_filter_le [THEN order_trans])
  show "cache_writes ttl op = Some (k, v) \<Longrightarrow> map_of (cache_step n ttl op m) k = Some v"
    by (cases op) (auto simp: cache_set_def map_simps)
  show "map_of (cache_step n ttl op m) k = Some v \<Longrightarrow> cache_writes ttl op \<noteq> Some (k, v) \<Longrightarrow>
      (\<forall>w. cache_writes ttl op \<noteq> Some (k, w)) \<and> \<not> cache_drops op k v \<and> map_of m k = Some v"
    by (cases op) (auto simp: cache_set_def cache_get_stale drop_stale_map deletePrefix_filter map_of_filter_keys
        cache_clear_def map_simps dest: map_of_evict split: if_splits)
  show "map_ok (xs @ (k, v) # ys) \<Longrightarrow> \<not> cache_drops op k v \<Longrightarrow> \<forall>w. cache_writes ttl op \<noteq> Some (k, w) \<Longrightarrow>
      cache_writes ttl op = None \<or> Suc (length ys) < n \<Longrightarrow>
      \<exists>xs' ys'. cache_step n ttl op (xs @ (k, v) # ys) = xs' @ (k, v) # ys' \<and>
        length ys' \<le> length ys + (if cache_writes ttl op = None then 0 else 1)"
    using cache_set_split [of xs k v ys _ n] drop_stale_split [of xs k v ys] deletePrefix_split [of _ k xs v ys]
    by (cases op) (auto simp: cache_get_stale)
qed

section \<open>Properties\<close>

text \<open>
  C11. A session lookup is sound: what it finds was created under that identifier, by a
  login with exactly that identity, has not been ended or replaced since, and has not
  expired.
\<close>

theorem session_get_sound:
  assumes "fst (session_get sid t (fold (session_step n) ops [])) = Some s"
  shows "\<exists>pre now identity ttl post. ops = pre @ SCreate sid now identity ttl # post \<and>
     s = new_session sid identity (now + ttl) \<and> t < now + ttl \<and>
     list_all (\<lambda>p. p \<noteq> SDestroy sid \<and> (\<forall>w. session_writes p \<noteq> Some (sid, w))) post"
proof -
  let ?m = "fold (session_step n) ops []"
  from assms have "map_of ?m sid = Some s" and live: "t < s_expiresAt s"
    by (auto simp: session_get_def map_get_def split: option.splits if_splits)
  with session_store.run_source [of n ops sid s] obtain pre op post where
    run: "ops = pre @ op # post" "session_writes op = Some (sid, s)"
      "list_all (\<lambda>p. \<not> session_drops p sid s \<and> (\<forall>w. session_writes p \<noteq> Some (sid, w))) post"
    by blast
  then obtain now identity ttl where op: "op = SCreate sid now identity ttl" "s = new_session sid identity (now + ttl)"
    by (cases op) auto
  have "list_all (\<lambda>p. p \<noteq> SDestroy sid \<and> (\<forall>w. session_writes p \<noteq> Some (sid, w))) post"
    using run(3) by (auto simp: list_all_iff)
  moreover have "t < now + ttl" using live op(2) by (simp add: new_session_def)
  ultimately show ?thesis using run(1) op by blast
qed

text \<open>
  A session lookup is complete: a session created under a fresh identifier is found,
  with the identity of its login, until it expires or is ended, as long as fewer than
  \<open>maxSessions\<close> sessions were created after it.
\<close>

theorem session_get_complete:
  assumes "ops = pre @ SCreate sid now identity ttl # post" and "t < now + ttl"
    and "sid \<notin> fst ` set (fold (session_step n) pre [])"
    and "list_all (\<lambda>p. \<not> session_drops p sid (new_session sid identity (now + ttl)) \<and>
                    (\<forall>w. session_writes p \<noteq> Some (sid, w))) post"
    and "length (filter (\<lambda>p. session_writes p \<noteq> None) post) < n"
  shows "fst (session_get sid t (fold (session_step n) ops [])) = Some (new_session sid identity (now + ttl))"
proof -
  let ?s = "new_session sid identity (now + ttl)"
  obtain xs where "session_step n (SCreate sid now identity ttl) (fold (session_step n) pre []) = xs @ [(sid, ?s)]"
    using evict_set_last [OF assms(3), of n ?s] by (auto simp: session_create_def Let_def)
  with session_store.run_keeps [of "SCreate sid now identity ttl" sid ?s post n pre xs] assms(1,4,5)
  have "map_of (fold (session_step n) ops []) sid = Some ?s" by simp
  with assms(2) show ?thesis by (simp add: session_get_def map_get_def) (simp add: new_session_def)
qed

definition sample_identity :: OperatorIdentity where
  "sample_identity = \<lparr>oi_subject = ''alice'', oi_email = None, oi_tier = Admin, oi_principalId = ''p'',
     oi_tenant = ''t'', oi_role = TenantAdmin\<rparr>"

theorem session_get_sound_witness:
  "\<exists>pre now identity ttl post.
     [SCreate ''a'' 0 sample_identity 10, SGet ''a'' 5] = pre @ SCreate ''a'' now identity ttl # post \<and>
     new_session ''a'' sample_identity 10 = new_session ''a'' identity (now + ttl) \<and> 7 < now + ttl"
proof -
  have "fst (session_get ''a'' 7 (fold (session_step 2) [SCreate ''a'' 0 sample_identity 10, SGet ''a'' 5] [])) =
      Some (new_session ''a'' sample_identity 10)"
    by (simp add: session_get_def session_create_def evict_oldest_def map_get_def Let_def) (simp add: new_session_def)
  from session_get_sound [OF this] show ?thesis by blast
qed

theorem session_get_complete_witness:
  "fst (session_get ''a'' 7 (fold (session_step 2)
      [SCreate ''a'' 0 sample_identity 10, SCreate ''b'' 1 sample_identity 10, SGet ''a'' 5] [])) =
    Some (new_session ''a'' sample_identity 10)"
  using session_get_complete [of "[SCreate ''a'' 0 sample_identity 10, SCreate ''b'' 1 sample_identity 10, SGet ''a'' 5]"
      "[]" "''a''" 0 sample_identity 10 "[SCreate ''b'' 1 sample_identity 10, SGet ''a'' 5]" 7 2]
  by (simp add: new_session_def)

text \<open>
  A device login is found only between its start and its expiry or end, and the
  device code it holds is the one it was started with.
\<close>

theorem login_get_sound:
  assumes "fst (login_get lid t (fold (login_step n) ops [])) = Some l"
  shows "\<exists>pre now code interval ttl post. ops = pre @ LCreate lid now code interval ttl # post \<and>
     l_loginId l = lid \<and> l_deviceCode l = code \<and> l_intervalSecs l = interval \<and> t < now + ttl \<and>
     list_all (\<lambda>p. p \<noteq> LDestroy lid \<and> (\<forall>w. login_writes p \<noteq> Some (lid, w))) post"
proof -
  let ?m = "fold (login_step n) ops []"
  from assms have "map_of ?m lid = Some l" and live: "t < l_expiresAt l"
    by (auto simp: login_get_def map_get_def split: option.splits if_splits)
  with login_store.run_source [of n ops lid l] obtain pre op post where
    run: "ops = pre @ op # post" "login_writes op = Some (lid, l)"
      "list_all (\<lambda>p. \<not> login_drops p lid l \<and> (\<forall>w. login_writes p \<noteq> Some (lid, w))) post"
    by blast
  then obtain now code interval ttl where op: "op = LCreate lid now code interval ttl"
    "l = \<lparr>l_loginId = lid, l_deviceCode = code, l_intervalSecs = interval, l_expiresAt = now + ttl\<rparr>"
    by (cases op) auto
  have "list_all (\<lambda>p. p \<noteq> LDestroy lid \<and> (\<forall>w. login_writes p \<noteq> Some (lid, w))) post"
    using run(3) by (auto simp: list_all_iff)
  with run(1) op live show ?thesis by auto
qed

theorem login_get_sound_witness:
  "\<exists>pre now code interval ttl post. [LCreate ''l'' 0 ''code'' 5 10] = pre @ LCreate ''l'' now code interval ttl # post \<and>
     ''code'' = code \<and> 9 < now + ttl"
proof -
  have "fst (login_get ''l'' 9 (fold (login_step 1) [LCreate ''l'' 0 ''code'' 5 10] [])) =
      Some \<lparr>l_loginId = ''l'', l_deviceCode = ''code'', l_intervalSecs = 5, l_expiresAt = 10\<rparr>"
    by (simp add: login_get_def login_create_def evict_oldest_def map_get_def Let_def)
  from login_get_sound [OF this] show ?thesis unfolding PendingLogin.simps by blast
qed

text \<open>
  The cache serves only current projections: a hit is the value last stored for the
  key, stored at the version asked for, less than the time to live ago, with no
  invalidation of a prefix of the key and no clearing since.
\<close>

theorem cache_hit_current:
  assumes "fst (cache_get key version t (fold (cache_step n ttl) ops [])) = Some value"
  shows "\<exists>pre now post. ops = pre @ CSet key value version now # post \<and> t < now + ttl \<and>
     list_all (\<lambda>p. p \<noteq> CClear \<and> (\<forall>pre. p = CDeletePrefix pre \<longrightarrow> \<not> prefix pre key) \<and>
        (\<forall>w v s. p \<noteq> CSet key w v s)) post"
proof -
  let ?m = "fold (cache_step n ttl) ops []"
  from assms obtain e where e: "map_of ?m key = Some e" "e_version e = version" "t < e_expiresAt e" "e_value e = value"
    by (auto simp: cache_get_def map_get_def split: option.splits if_splits)
  with cache_store.run_source [of n ttl ops key e] obtain pre op post where
    run: "ops = pre @ op # post" "cache_writes ttl op = Some (key, e)"
      "list_all (\<lambda>p. \<not> cache_drops p key e \<and> (\<forall>w. cache_writes ttl p \<noteq> Some (key, w))) post"
    by blast
  then obtain now where op: "op = CSet key value version now" "t < now + ttl"
    using e(2-4) by (cases op) auto
  have "list_all (\<lambda>p. p \<noteq> CClear \<and> (\<forall>pre. p = CDeletePrefix pre \<longrightarrow> \<not> prefix pre key) \<and>
        (\<forall>w v s. p \<noteq> CSet key w v s)) post"
    using run(3) by (auto simp: list_all_iff)
  with run(1) op show ?thesis by blast
qed

theorem cache_hit_current_witness:
  "\<exists>pre now post. [CSet ''t/k'' True ''v1'' 0, CDeletePrefix ''u/''] = pre @ CSet ''t/k'' True ''v1'' now # post \<and> 4 < now + 5"
proof -
  have "fst (cache_get ''t/k'' ''v1'' 4 (fold (cache_step 3 5) [CSet ''t/k'' True ''v1'' 0, CDeletePrefix ''u/''] [])) = Some True"
    by (simp add: cache_get_def cache_set_def evict_oldest_def map_delete_def deletePrefix_filter map_get_def)
  from cache_hit_current [OF this] show ?thesis by blast
qed

text \<open>
  C37. The stores are bounded: whatever the operations, no store ever holds more entries
  than its limit (a limit of 0 acts as 1).
\<close>

theorem stores_bounded:
  "length (fold (session_step n) sops []) \<le> max (Suc 0) n \<and>
   length (fold (login_step n) lops []) \<le> max (Suc 0) n \<and>
   length (fold (cache_step n ttl) cops []) \<le> max (Suc 0) n"
  using session_store.run_bound login_store.run_bound cache_store.run_bound by blast

end
