(* ===== verification/Auth.thy ===== *)
theory Auth
  imports Stores
begin

text \<open>
  Operator login: the session cookie (\<open>apps/bff/src/auth/cookie.ts\<close>), the operator's
  engine identifier (\<open>operator-id.ts\<close>), the identity derived from verified claims
  (\<open>oidc.ts\<close>), the principal an engine call runs as (\<open>engine/principal.ts\<close>) and the
  HTTP surface of the login lifecycle (\<open>router.ts\<close>).  The identity provider's answers,
  the random identifiers, the clock, SHA-1, \<open>JSON.parse\<close> and the conversion of a claim
  that is not a string are arguments.
\<close>

section \<open>Cookies\<close>

record CookieOptions =
  co_name :: string
  co_secure :: bool

text \<open>One part of a cookie header: name and value around the first \<open>=\<close>, if it has a name.\<close>

definition cookie_part :: "string \<Rightarrow> (string \<times> string) option" where
  "cookie_part part =
     (let before = takeWhile (\<lambda>c. c \<noteq> CHR ''='') part
      in if before = part \<or> before = [] then None
         else let name = trim before; value = trim (drop (Suc (length before)) part)
              in if name = [] then None else Some (name, value))"

definition parseCookies :: "string option \<Rightarrow> (string, string) jsmap" where
  "parseCookies header = (case header of
       None \<Rightarrow> []
     | Some h \<Rightarrow>
         if h = [] then []
         else fold (\<lambda>part out. case cookie_part part of
                None \<Rightarrow> out
              | Some (name, value) \<Rightarrow> if map_get out name \<noteq> None then out else map_set out name value)
              (split_on CHR '';'' h) [])"

definition readCookie :: "string option \<Rightarrow> string \<Rightarrow> string option" where
  "readCookie header name = map_get (parseCookies header) name"

definition BASE_ATTRS :: string where
  "BASE_ATTRS = ''HttpOnly; SameSite=Strict; Path=/''"

fun join :: "string \<Rightarrow> string list \<Rightarrow> string" where
  "join sep [] = []"
| "join sep [s] = s"
| "join sep (s # ss) = s @ sep @ join sep ss"

text \<open>\<open>maxAgeSecs\<close> is an integer number of seconds, as its caller has floored it.\<close>

definition serializeSessionCookie :: "string \<Rightarrow> int \<Rightarrow> CookieOptions \<Rightarrow> string" where
  "serializeSessionCookie value maxAgeSecs opts =
     join ''; '' ([co_name opts @ ''='' @ value, BASE_ATTRS, ''Max-Age='' @ int_digits maxAgeSecs]
       @ (if co_secure opts then [''Secure''] else []))"

definition clearSessionCookie :: "CookieOptions \<Rightarrow> string" where
  "clearSessionCookie opts =
     join ''; '' ([co_name opts @ ''='', BASE_ATTRS, ''Max-Age=0'']
       @ (if co_secure opts then [''Secure''] else []))"

section \<open>The operator's identifier\<close>

definition hex_digit :: "nat \<Rightarrow> char" where
  "hex_digit n = (if n < 10 then char_of (48 + n) else char_of (87 + n))"

definition hex_value :: "char \<Rightarrow> nat option" where
  "hex_value c = (let n = of_char c :: nat in
     if 48 \<le> n \<and> n \<le> 57 then Some (n - 48)
     else if 97 \<le> n \<and> n \<le> 102 then Some (n - 87)
     else if 65 \<le> n \<and> n \<le> 70 then Some (n - 55) else None)"

definition to_hex :: "bytes \<Rightarrow> string" where
  "to_hex bs = concat (map (\<lambda>b. [hex_digit (unat b div 16), hex_digit (unat b mod 16)]) bs)"

text \<open>\<open>Buffer.from(s, 'hex')\<close> stops at the first pair that is not hexadecimal.\<close>

fun from_hex :: "string \<Rightarrow> bytes" where
  "from_hex (a # b # s) = (case (hex_value a, hex_value b) of
       (Some x, Some y) \<Rightarrow> byte_of (16 * x + y) # from_hex s
     | _ \<Rightarrow> [])"
| "from_hex _ = []"

definition OPERATOR_NAMESPACE :: string where
  "OPERATOR_NAMESPACE = ''a7c9e1f0-3b2d-4c5e-8f6a-1d2b3c4d5e6f''"

definition uuidToBytes :: "string \<Rightarrow> bytes option" where
  "uuidToBytes uuid = (let hex = filter (\<lambda>c. c \<noteq> CHR ''-'') uuid in if length hex \<noteq> 32 then None else Some (from_hex hex))"

definition slice :: "nat \<Rightarrow> nat \<Rightarrow> 'a list \<Rightarrow> 'a list" where
  "slice a b xs = take (b - a) (drop a xs)"

definition bytesToUuid :: "bytes \<Rightarrow> string" where
  "bytesToUuid bs = (let h = to_hex bs in
     slice 0 8 h @ ''-'' @ slice 8 12 h @ ''-'' @ slice 12 16 h @ ''-'' @ slice 16 20 h @ ''-'' @ slice 20 32 h)"

text \<open>The version and variant bits; a byte that is not there reads as 0 and is not stored.\<close>

definition stamp :: "bytes \<Rightarrow> bytes" where
  "stamp bs = (let b6 = (if 6 < length bs then bs ! 6 else 0); bs = bs[6 := (b6 AND 0x0f) OR 0x50];
                   b8 = (if 8 < length bs then bs ! 8 else 0)
               in bs[8 := (b8 AND 0x3f) OR 0x80])"

definition operatorPrincipalId :: "(bytes \<Rightarrow> bytes) \<Rightarrow> string \<Rightarrow> string option" where
  "operatorPrincipalId sha1 subject = (case uuidToBytes OPERATOR_NAMESPACE of
       None \<Rightarrow> None
     | Some ns \<Rightarrow> Some (bytesToUuid (stamp (take 16 (sha1 (ns @ text_encode subject))))))"

section \<open>The identity of a login\<close>

definition string_items :: "jsval \<Rightarrow> string list" where
  "string_items v = (case v of JArr vs \<Rightarrow> List.map_filter as_string vs | _ \<Rightarrow> [])"

definition operatorFromClaims ::
    "(bytes \<Rightarrow> bytes) \<Rightarrow> (jsval \<Rightarrow> string) \<Rightarrow> jsval \<Rightarrow> string \<Rightarrow> RbacConfig \<Rightarrow> OperatorIdentity option" where
  "operatorFromClaims sha1 stringify payload roleClaim rbac =
     (let email = as_string (get_prop payload ''email'');
          groups = string_items (get_prop payload roleClaim);
          subject = (case coalesce (get_prop payload ''sub'') (JStr []) of JStr s \<Rightarrow> s | v \<Rightarrow> stringify v)
      in case resolveAuthority subject groups rbac of
           None \<Rightarrow> None
         | Some authority \<Rightarrow>
             map_option (\<lambda>pid.
               \<lparr>oi_subject = subject, oi_email = email,
                oi_tier = maxTier (deriveTier groups DEFAULT_ROLE_TIERS) (tierForRole (oa_role authority)),
                oi_principalId = pid, oi_tenant = oa_activeTenant authority, oi_role = oa_role authority\<rparr>)
             (operatorPrincipalId sha1 subject))"

section \<open>The principal of an engine call\<close>

record OperatorPrincipal =
  op_subject :: string
  op_tier :: ExplainTier
  op_principalId :: string
  op_tenant :: string
  op_settingsTier :: "ExplainTier option"

definition principalFromSession :: "OperatorSession \<Rightarrow> string option \<Rightarrow> OperatorPrincipal" where
  "principalFromSession session activeTenantOverride =
     (let override = (case activeTenantOverride of None \<Rightarrow> [] | Some s \<Rightarrow> trim s);
          tenant = (if s_role session = GlobalAdmin \<and> override \<noteq> [] then override else s_tenant session)
      in \<lparr>op_subject = s_subject session, op_tier = s_tier session, op_principalId = s_principalId session,
          op_tenant = tenant,
          op_settingsTier = (if s_role session = GlobalAdmin then Some (s_tier session) else None)\<rparr>)"

section \<open>The login surface\<close>

record http_request =
  rq_url :: "string option"
  rq_method :: "string option"
  rq_cookie :: "string option"
  rq_chunks :: "bytes list"

record http_response =
  rs_status :: nat
  rs_body :: jsval
  rs_setCookie :: "string option"

record AuthRouterDeps =
  d_maxSessions :: nat
  d_maxLogins :: nat
  d_sessionTtlMs :: int
  d_cookie :: CookieOptions

record auth_state =
  au_sessions :: sessions
  au_pending :: logins

text \<open>The identity provider, as this request meets it: \<open>None\<close> and \<open>Failed\<close> are exceptions.\<close>

record DeviceCode =
  dc_deviceCode :: string
  dc_userCode :: string
  dc_verificationUri :: string
  dc_verificationUriComplete :: string
  dc_expiresInSecs :: int
  dc_intervalSecs :: int

datatype poll_result = PollFailed | PollPending | PollComplete string

datatype verify_result = TokenInvalid | NoAuthority | Verified OperatorIdentity

record OidcProvider =
  requestDeviceCode :: "DeviceCode option"
  pollToken :: "string \<Rightarrow> poll_result"
  verifyLogin :: "string \<Rightarrow> verify_result"

text \<open>
  What a request draws from outside: a fresh identifier, the time at its start and after
  it awaited the identity provider, and what other requests did to the stores meanwhile.
\<close>

record ambient =
  am_fresh :: string
  am_now :: int
  am_later :: int
  am_meanwhile :: "auth_state \<Rightarrow> auth_state"

definition MAX_BODY_BYTES :: nat where
  "MAX_BODY_BYTES = 4096"

definition tier_name :: "ExplainTier \<Rightarrow> string" where
  "tier_name t = (case t of User \<Rightarrow> ''User'' | Developer \<Rightarrow> ''Developer'' | Admin \<Rightarrow> ''Admin''
     | SecurityAudit \<Rightarrow> ''SecurityAudit'')"

definition operatorDto :: "OperatorSession \<Rightarrow> jsval" where
  "operatorDto session = JObj ([
       (''subject'', JStr (s_subject session)),
       (''tier'', JStr (tier_name (s_tier session)))]
     @ (case s_email session of None \<Rightarrow> [] | Some e \<Rightarrow> [(''email'', JStr e)]))"

definition sendJson :: "nat \<Rightarrow> jsval \<Rightarrow> string option \<Rightarrow> http_response" where
  "sendJson status body setCookie = \<lparr>rs_status = status, rs_body = body, rs_setCookie = setCookie\<rparr>"

definition error_body :: "string \<Rightarrow> jsval" where
  "error_body e = JObj [(''error'', JStr e)]"

definition status_error :: "string \<Rightarrow> jsval" where
  "status_error e = JObj [(''status'', JStr ''error''), (''error'', JStr e)]"

fun collect_body :: "nat \<Rightarrow> bytes list \<Rightarrow> bytes option" where
  "collect_body got [] = Some []"
| "collect_body got (chunk # chunks) =
     (if got + length chunk > MAX_BODY_BYTES then None
      else map_option (\<lambda>rest. chunk @ rest) (collect_body (got + length chunk) chunks))"

text \<open>\<open>None\<close> is an exception: the body is too large or \<open>JSON.parse\<close> refuses it.\<close>

definition readJsonBody :: "(bytes \<Rightarrow> jsval option) \<Rightarrow> bytes list \<Rightarrow> jsval option" where
  "readJsonBody parse_json chunks = (case collect_body 0 chunks of
       None \<Rightarrow> None | Some bs \<Rightarrow> if bs = [] then Some JUndef else parse_json bs)"

definition stringField :: "jsval \<Rightarrow> string \<Rightarrow> string option" where
  "stringField body field =
     (if \<not> is_object body then None
      else case get_prop body field of JStr s \<Rightarrow> if s \<noteq> [] then Some s else None | _ \<Rightarrow> None)"

definition resolveSession :: "AuthRouterDeps \<Rightarrow> int \<Rightarrow> http_request \<Rightarrow> auth_state \<Rightarrow> OperatorSession option \<times> auth_state" where
  "resolveSession deps now req st = (case readCookie (rq_cookie req) (co_name (d_cookie deps)) of
       None \<Rightarrow> (None, st)
     | Some sid \<Rightarrow> (case session_get sid now (au_sessions st) of (s, m) \<Rightarrow> (s, st\<lparr>au_sessions := m\<rparr>)))"

definition handleLogin :: "AuthRouterDeps \<Rightarrow> OidcProvider \<Rightarrow> ambient \<Rightarrow> auth_state \<Rightarrow> http_response \<times> auth_state" where
  "handleLogin deps oidc am st = (case requestDeviceCode oidc of
       None \<Rightarrow> (sendJson 502 (error_body ''idp_unavailable'') None, st)
     | Some dc \<Rightarrow>
         (case login_create (d_maxLogins deps) (am_fresh am) (am_now am) (dc_deviceCode dc) (dc_intervalSecs dc)
                 (dc_expiresInSecs dc * 1000) (au_pending st) of
            (login, m) \<Rightarrow>
              (sendJson 200 (JObj [
                 (''loginId'', JStr (l_loginId login)),
                 (''userCode'', JStr (dc_userCode dc)),
                 (''verificationUri'', JStr (dc_verificationUri dc)),
                 (''verificationUriComplete'', JStr (dc_verificationUriComplete dc)),
                 (''expiresInSecs'', JNum (NInt (dc_expiresInSecs dc))),
                 (''intervalSecs'', JNum (NInt (dc_intervalSecs dc)))]) None,
               st\<lparr>au_pending := m\<rparr>)))"

text \<open>What \<open>handlePoll\<close> does once the provider has answered, in the state it finds then.\<close>

definition finish_poll ::
    "AuthRouterDeps \<Rightarrow> OidcProvider \<Rightarrow> ambient \<Rightarrow> string \<Rightarrow> PendingLogin \<Rightarrow> auth_state \<Rightarrow> http_response \<times> auth_state" where
  "finish_poll deps oidc am loginId login st =
     (let ended = st\<lparr>au_pending := login_destroy loginId (au_pending st)\<rparr>
      in case pollToken oidc (l_deviceCode login) of
           PollFailed \<Rightarrow> (sendJson 401 (status_error ''login_failed'') None, ended)
         | PollPending \<Rightarrow> (sendJson 200 (JObj [(''status'', JStr ''pending'')]) None, st)
         | PollComplete idToken \<Rightarrow>
             (case verifyLogin oidc idToken of
                TokenInvalid \<Rightarrow> (sendJson 401 (status_error ''token_invalid'') None, ended)
              | NoAuthority \<Rightarrow> (sendJson 403 (status_error ''no_authority'') None, ended)
              | Verified identity \<Rightarrow>
                  (case session_create (d_maxSessions deps) (am_fresh am) (am_later am) identity (d_sessionTtlMs deps)
                          (au_sessions st) of
                     (session, m) \<Rightarrow>
                       (sendJson 200
                          (JObj [(''status'', JStr ''complete''), (''operator'', operatorDto session)])
                          (Some (serializeSessionCookie (s_sessionId session) (d_sessionTtlMs deps div 1000) (d_cookie deps))),
                        ended\<lparr>au_sessions := m\<rparr>))))"

definition handlePoll ::
    "(bytes \<Rightarrow> jsval option) \<Rightarrow> AuthRouterDeps \<Rightarrow> OidcProvider \<Rightarrow> ambient \<Rightarrow> http_request \<Rightarrow> auth_state \<Rightarrow>
      http_response \<times> auth_state" where
  "handlePoll parse_json deps oidc am req st = (case readJsonBody parse_json (rq_chunks req) of
       None \<Rightarrow> (sendJson 400 (error_body ''bad_request'') None, st)
     | Some body \<Rightarrow> (case stringField body ''loginId'' of
         None \<Rightarrow> (sendJson 400 (error_body ''bad_request'') None, st)
       | Some loginId \<Rightarrow> (case login_get loginId (am_now am) (au_pending st) of
           (None, m) \<Rightarrow> (sendJson 404 (error_body ''login_expired'') None, st\<lparr>au_pending := m\<rparr>)
         | (Some login, m) \<Rightarrow>
             finish_poll deps oidc am loginId login (am_meanwhile am (st\<lparr>au_pending := m\<rparr>)))))"

definition handleLogout :: "AuthRouterDeps \<Rightarrow> http_request \<Rightarrow> auth_state \<Rightarrow> http_response \<times> auth_state" where
  "handleLogout deps req st =
     (sendJson 200 (JObj [(''ok'', JBool True)]) (Some (clearSessionCookie (d_cookie deps))),
      (case readCookie (rq_cookie req) (co_name (d_cookie deps)) of
         None \<Rightarrow> st
       | Some sid \<Rightarrow> st\<lparr>au_sessions := session_destroy sid (au_sessions st)\<rparr>))"

definition handleMe :: "AuthRouterDeps \<Rightarrow> ambient \<Rightarrow> http_request \<Rightarrow> auth_state \<Rightarrow> http_response \<times> auth_state" where
  "handleMe deps am req st = (case resolveSession deps (am_now am) req st of
       (None, st') \<Rightarrow> (sendJson 401 (error_body ''unauthenticated'') None, st')
     | (Some session, st') \<Rightarrow> (sendJson 200 (JObj [(''operator'', operatorDto session)]) None, st'))"

definition path_of :: "http_request \<Rightarrow> string" where
  "path_of req = hd (split_on CHR ''?'' (case rq_url req of None \<Rightarrow> ''/'' | Some u \<Rightarrow> u))"

definition auth_handle ::
    "(bytes \<Rightarrow> jsval option) \<Rightarrow> AuthRouterDeps \<Rightarrow> OidcProvider \<Rightarrow> ambient \<Rightarrow> http_request \<Rightarrow> auth_state \<Rightarrow>
      http_response option \<times> auth_state" where
  "auth_handle parse_json deps oidc am req st =
     (let path = path_of req;
          meth = (case rq_method req of None \<Rightarrow> ''GET'' | Some m \<Rightarrow> m);
          not_allowed = (Some (sendJson 405 (error_body ''method_not_allowed'') None), st);
          answer = (\<lambda>(r, s). (Some r, s))
      in if path = ''/auth/login'' then
           (if meth \<noteq> ''POST'' then not_allowed else answer (handleLogin deps oidc am st))
         else if path = ''/auth/login/poll'' then
           (if meth \<noteq> ''POST'' then not_allowed else answer (handlePoll parse_json deps oidc am req st))
         else if path = ''/auth/logout'' then
           (if meth \<noteq> ''POST'' then not_allowed else answer (handleLogout deps req st))
         else if path = ''/auth/me'' then
           (if meth \<noteq> ''GET'' then not_allowed else answer (handleMe deps am req st))
         else (None, st))"

section \<open>Cookie headers\<close>

definition token_char :: "char \<Rightarrow> bool" where
  "token_char c \<longleftrightarrow> 33 \<le> (of_char c :: nat) \<and> (of_char c :: nat) < 127 \<and> c \<noteq> CHR '';''"

definition cookie_name :: "string \<Rightarrow> bool" where
  "cookie_name s \<longleftrightarrow> s \<noteq> [] \<and> list_all token_char s \<and> CHR ''='' \<notin> set s"

text \<open>No white space sequence starts or ends with a token character.\<close>

lemma strip_one_token:
  assumes "list_all (\<lambda>w. w \<noteq> [] \<longrightarrow> \<not> token_char (hd w)) ws" "list_all token_char s"
  shows "strip_one ws s = None"
  using assms
proof (induction ws)
  case (Cons w ws)
  then show ?case by (cases w; cases s) auto
qed simp

lemma js_spaces_ends:
  "list_all (\<lambda>w. w \<noteq> [] \<longrightarrow> \<not> token_char (hd w)) js_spaces"
  "list_all (\<lambda>w. w \<noteq> [] \<longrightarrow> \<not> token_char (hd w)) (map rev js_spaces)"
  by (simp_all add: js_spaces_def token_char_def)

lemma strip_token:
  "list_all token_char s \<Longrightarrow> strip_prefixes js_spaces s = s"
  "list_all token_char s \<Longrightarrow> strip_prefixes (map rev js_spaces) s = s"
  using strip_one_token [OF js_spaces_ends(1)] strip_one_token [OF js_spaces_ends(2)]
  by (subst strip_prefixes.simps; simp)+

lemma trim_token: "list_all token_char s \<Longrightarrow> trim s = s"
  by (simp add: trim_def strip_token list_all_rev)

lemma trim_space_token: "list_all token_char s \<Longrightarrow> trim (CHR '' '' # s) = s"
proof -
  assume s: "list_all token_char s"
  have "strip_one js_spaces (CHR '' '' # s) = Some s" by (simp add: js_spaces_def char_of_def bit_0)
  then have "strip_prefixes js_spaces (CHR '' '' # s) = s"
    using strip_token(1) [OF s] by (subst strip_prefixes.simps) simp
  then show ?thesis using strip_token(2) [of "rev s"] s by (simp add: trim_def list_all_rev)
qed

definition pair_text :: "string \<times> string \<Rightarrow> string" where
  "pair_text kv = fst kv @ ''='' @ snd kv"

definition pair_ok :: "string \<times> string \<Rightarrow> bool" where
  "pair_ok kv \<longleftrightarrow> cookie_name (fst kv) \<and> list_all token_char (snd kv)"

lemma pair_no_sep: "pair_ok kv \<Longrightarrow> CHR '';'' \<notin> set (pair_text kv)"
  by (auto simp: pair_ok_def cookie_name_def pair_text_def list_all_iff token_char_def)

lemma cookie_part_pair:
  assumes "pair_ok kv"
  shows "cookie_part (pair_text kv) = Some kv" "cookie_part (CHR '' '' # pair_text kv) = Some kv"
proof -
  obtain k v where kv: "kv = (k, v)" by (cases kv) auto
  with assms have k: "list_all token_char k" "k \<noteq> []" "CHR ''='' \<notin> set k" and v: "list_all token_char v"
    by (auto simp: pair_ok_def cookie_name_def)
  have "takeWhile (\<lambda>c. c \<noteq> CHR ''='') (k @ CHR ''='' # v) = k"
    using k(3) by (induction k) auto
  then show "cookie_part (pair_text kv) = Some kv" "cookie_part (CHR '' '' # pair_text kv) = Some kv"
    using k v by (simp_all add: cookie_part_def pair_text_def kv Let_def trim_token trim_space_token)
qed

text \<open>The parts of a header: all but the first start with the space of the separator.\<close>

lemma split_header:
  "list_all pair_ok (kv # kvs) \<Longrightarrow>
     split_on CHR '';'' (join ''; '' (map pair_text (kv # kvs))) =
       pair_text kv # map (\<lambda>kv. CHR '' '' # pair_text kv) kvs"
proof (induction kvs arbitrary: kv)
  case Nil
  then show ?case using split_on_none [OF pair_no_sep [of kv]] by simp
next
  case (Cons kv' kvs)
  have "split_on CHR '';'' (CHR '' '' # s) = (CHR '' '' # hd (split_on CHR '';'' s)) # tl (split_on CHR '';'' s)" for s
    by (cases s) (auto split: list.split)
  with Cons split_on_sep [OF pair_no_sep [of kv]] show ?case by simp
qed

lemma first_wins:
  "map_of (fold (\<lambda>(k, v) out. if map_get out k \<noteq> None then out else map_set out k v) kvs out) j =
     (case map_of out j of Some v \<Rightarrow> Some v | None \<Rightarrow> map_of kvs j)"
proof (induction kvs arbitrary: out)
  case (Cons kv kvs)
  then show ?case by (cases "map_of out (fst kv)") (auto simp: map_get_def map_simps case_prod_unfold split: option.split)
qed (simp split: option.split)

lemma read_header:
  assumes "list_all pair_ok kvs" "kvs \<noteq> []"
  shows "readCookie (Some (join ''; '' (map pair_text kvs))) name = map_of kvs name"
proof -
  obtain kv rest where kvs: "kvs = kv # rest" using assms(2) by (cases kvs) auto
  let ?add = "\<lambda>part out. case cookie_part part of None \<Rightarrow> out
     | Some (name, value) \<Rightarrow> if map_get out name \<noteq> None then out else map_set out name value"
  have "join ''; '' (map pair_text kvs) \<noteq> []"
    using assms kvs by (cases rest) (auto simp: pair_text_def)
  then have "parseCookies (Some (join ''; '' (map pair_text kvs))) =
      fold ?add (pair_text kv # map (\<lambda>kv. CHR '' '' # pair_text kv) rest) []"
    using assms(1) split_header [of kv rest] unfolding kvs by (simp add: parseCookies_def)
  also have "fold ?add (map (\<lambda>kv. CHR '' '' # pair_text kv) rest) out =
      fold (\<lambda>(k, v) out. if map_get out k \<noteq> None then out else map_set out k v) rest out" for out
    using assms(1) unfolding kvs by (induction rest arbitrary: out) (simp_all add: cookie_part_pair case_prod_unfold)
  then have "fold ?add (pair_text kv # map (\<lambda>kv. CHR '' '' # pair_text kv) rest) [] =
      fold (\<lambda>(k, v) out. if map_get out k \<noteq> None then out else map_set out k v) kvs []"
    using assms(1) unfolding kvs by (simp add: cookie_part_pair case_prod_unfold)
  finally show ?thesis
    unfolding readCookie_def map_get_def [of "parseCookies header" for header] using first_wins [of kvs "[]"] by simp
qed

section \<open>Properties\<close>

text \<open>
  Reading a cookie back: in a header of several cookies, each name finds the value
  it was sent with, the first one when a name repeats, and no other name finds anything.
\<close>

theorem cookie_roundtrip:
  assumes "list_all pair_ok kvs" "kvs \<noteq> []"
  shows "readCookie (Some (join ''; '' (map pair_text kvs))) name = map_of kvs name"
  by (rule read_header [OF assms])

theorem cookie_roundtrip_witness:
  "readCookie (Some ''a=1; fc_session=beef; a=2'') ''fc_session'' = Some ''beef''"
  using cookie_roundtrip [of "[(''a'', ''1''), (''fc_session'', ''beef''), (''a'', ''2'')]" "''fc_session''"]
  by (simp add: pair_ok_def cookie_name_def token_char_def pair_text_def)

text \<open>A sample login: the group \<open>ops\<close> administers the tenant \<open>t1\<close>.\<close>

definition sample_rbac :: RbacConfig where
  "sample_rbac = \<lparr>groupRoles = [(''ops'', \<lparr>grant_role = TenantAdmin, grant_tenant = Some ''t1''\<rparr>)],
     localRbac = [], defaultTenant = Some ''t0''\<rparr>"

definition sample_claims :: jsval where
  "sample_claims = JObj [(''sub'', JStr ''alice''), (''groups'', JArr [JStr ''ops''])]"

lemma operatorPrincipalId_some: "\<exists>pid. operatorPrincipalId sha1 subject = Some pid"
  by (simp add: operatorPrincipalId_def uuidToBytes_def OPERATOR_NAMESPACE_def)

lemma sample_login:
  "\<exists>pid. operatorFromClaims sha1 stringify sample_claims ''groups'' sample_rbac =
     Some \<lparr>oi_subject = ''alice'', oi_email = None, oi_tier = Admin, oi_principalId = pid, oi_tenant = ''t1'',
           oi_role = TenantAdmin\<rparr>"
proof -
  obtain pid where "operatorPrincipalId sha1 ''alice'' = Some pid" using operatorPrincipalId_some by blast
  then show ?thesis
    by (simp add: operatorFromClaims_def sample_claims_def sample_rbac_def get_prop_def coalesce_def nullish_def
        string_items_def List.map_filter_def as_string_def resolveAuthority_def highestGroupGrant_def better_def
        record_get_def deriveTier_def raise_tier_def DEFAULT_ROLE_TIERS_def object_prototype_def maxTier_def
        kelvin_def lower_char_def Let_def)
qed

lemma principal_tenant_cases:
  assumes "operatorFromClaims sha1 stringify payload roleClaim rbac = Some identity"
  shows "let p = principalFromSession (new_session sid identity expiry) override;
             chosen = (case override of None \<Rightarrow> [] | Some s \<Rightarrow> trim s)
         in if oi_role identity = GlobalAdmin
            then Some (op_tenant p) = (if chosen = [] then defaultTenant rbac else Some chosen)
            else op_settingsTier p = None \<and>
              Some (op_tenant p) \<in> set (map grant_tenant
                (candidates (oi_subject identity) (string_items (get_prop payload roleClaim)) rbac))"
proof -
  let ?groups = "string_items (get_prop payload roleClaim)"
  from assms obtain a where a: "resolveAuthority (oi_subject identity) ?groups rbac = Some a"
    "oi_tenant identity = oa_activeTenant a" "oi_role identity = oa_role a"
    by (auto simp: operatorFromClaims_def Let_def split: option.splits)
  from candidates_chosen [where groups = ?groups and config = rbac and subject = "oi_subject identity"] a
  show ?thesis
    by (auto simp: resolveAuthority_def principalFromSession_def new_session_def Let_def image_iff
        split: found.splits option.splits if_splits) (metis | force)+
qed

text \<open>
  Tenant isolation across login and requests: whatever tenant a request asks for, an
  operator who is not a global admin acts in the tenant of one of the configured grants
  of the token (or of the subject, when the token carries no group) and without a
  settings tier; a global admin acts in the requested tenant or the configured default.
\<close>

theorem principal_tenant_granted:
  assumes "operatorFromClaims sha1 stringify payload roleClaim rbac = Some identity"
  shows "let p = principalFromSession (new_session sid identity expiry) override;
             chosen = (case override of None \<Rightarrow> [] | Some s \<Rightarrow> trim s)
         in if oi_role identity = GlobalAdmin
            then Some (op_tenant p) = (if chosen = [] then defaultTenant rbac else Some chosen)
            else op_settingsTier p = None \<and>
              Some (op_tenant p) \<in> set (map grant_tenant
                (candidates (oi_subject identity) (string_items (get_prop payload roleClaim)) rbac))"
  using assms by (rule principal_tenant_cases)

theorem principal_tenant_granted_witness:
  "\<exists>identity. operatorFromClaims (\<lambda>_. replicate 20 0) (\<lambda>_. []) sample_claims ''groups'' sample_rbac = Some identity \<and>
     op_tenant (principalFromSession (new_session ''s'' identity 10) (Some ''other'')) = ''t1''"
proof -
  obtain pid where id: "operatorFromClaims (\<lambda>_. replicate 20 0) (\<lambda>_. []) sample_claims ''groups'' sample_rbac =
     Some \<lparr>oi_subject = ''alice'', oi_email = None, oi_tier = Admin, oi_principalId = pid, oi_tenant = ''t1'',
           oi_role = TenantAdmin\<rparr>"
    using sample_login by blast
  let ?id = "\<lparr>oi_subject = ''alice'', oi_email = None, oi_tier = Admin, oi_principalId = pid, oi_tenant = ''t1'',
      oi_role = TenantAdmin\<rparr>"
  from principal_tenant_granted [OF id, of "''s''" 10 "Some ''other''"]
  have "op_tenant (principalFromSession (new_session ''s'' ?id 10) (Some ''other'')) = ''t1''"
    by (simp add: Let_def candidates_def matched_def sample_claims_def sample_rbac_def get_prop_def string_items_def
        List.map_filter_def as_string_def)
  with id show ?thesis by blast
qed

text \<open>
  The tier is fail-closed: an operator's tier is \<open>User\<close>, the one of the resolved
  role, or the one a group of the token maps to, and never anything else.
\<close>

theorem operator_tier_granted:
  assumes "operatorFromClaims sha1 stringify payload roleClaim rbac = Some identity"
  shows "oi_tier identity = tierForRole (oi_role identity) \<or> oi_tier identity = User \<or>
    (\<exists>g \<in> set (string_items (get_prop payload roleClaim)).
       map_of DEFAULT_ROLE_TIERS (toLowerCase g) = Some (oi_tier identity))"
  using assms deriveTier_max [of "string_items (get_prop payload roleClaim)" DEFAULT_ROLE_TIERS]
  by (auto simp: operatorFromClaims_def Let_def maxTier_def split: option.splits if_splits)

theorem operator_tier_granted_witness:
  "\<exists>identity. operatorFromClaims (\<lambda>_. replicate 20 0) (\<lambda>_. []) sample_claims ''groups'' sample_rbac = Some identity \<and>
     (oi_tier identity = Admin \<or> oi_tier identity = User)"
proof -
  obtain pid where id: "operatorFromClaims (\<lambda>_. replicate 20 0) (\<lambda>_. []) sample_claims ''groups'' sample_rbac =
     Some \<lparr>oi_subject = ''alice'', oi_email = None, oi_tier = Admin, oi_principalId = pid, oi_tenant = ''t1'',
           oi_role = TenantAdmin\<rparr>"
    using sample_login by blast
  from operator_tier_granted [OF id] show ?thesis by (auto simp: id)
qed

text \<open>
  C35. A session cookie is handed out only for a verified login: the request named a live
  device login, the provider completed it, its token verified to an identity with
  authority.  Then the store holds exactly that identity under the fresh identifier the
  cookie carries, and the device login is over.
\<close>

theorem poll_session_verified:
  assumes "handlePoll parse_json deps oidc am req st = (resp, st')" "rs_setCookie resp = Some c"
  shows "\<exists>body lid login token identity.
    readJsonBody parse_json (rq_chunks req) = Some body \<and> stringField body ''loginId'' = Some lid \<and>
    fst (login_get lid (am_now am) (au_pending st)) = Some login \<and>
    pollToken oidc (l_deviceCode login) = PollComplete token \<and> verifyLogin oidc token = Verified identity \<and>
    rs_status resp = 200 \<and>
    c = serializeSessionCookie (am_fresh am) (d_sessionTtlMs deps div 1000) (d_cookie deps) \<and>
    map_of (au_sessions st') (am_fresh am) =
      Some (new_session (am_fresh am) identity (am_later am + d_sessionTtlMs deps)) \<and>
    map_of (au_pending st') lid = None"
  using assms
  by (auto simp: handlePoll_def finish_poll_def sendJson_def Let_def session_create_def login_destroy_def new_session_def
      map_simps split: option.splits prod.splits poll_result.splits verify_result.splits)

definition sample_deps :: AuthRouterDeps where
  "sample_deps = \<lparr>d_maxSessions = 10, d_maxLogins = 10, d_sessionTtlMs = 60000,
     d_cookie = \<lparr>co_name = ''fc_session'', co_secure = True\<rparr>\<rparr>"

definition sample_state :: auth_state where
  "sample_state = \<lparr>au_sessions = [(''beef'', new_session ''beef'' sample_identity 100)],
     au_pending = [(''l1'', \<lparr>l_loginId = ''l1'', l_deviceCode = ''dev'', l_intervalSecs = 5, l_expiresAt = 100\<rparr>)]\<rparr>"

definition sample_oidc :: OidcProvider where
  "sample_oidc = \<lparr>requestDeviceCode = None, pollToken = (\<lambda>_. PollComplete ''token''),
     verifyLogin = (\<lambda>_. Verified sample_identity)\<rparr>"

definition sample_ambient :: ambient where
  "sample_ambient = \<lparr>am_fresh = ''f00d'', am_now = 10, am_later = 11, am_meanwhile = (\<lambda>st. st)\<rparr>"

definition sample_http :: http_request where
  "sample_http = \<lparr>rq_url = None, rq_method = None, rq_cookie = Some ''fc_session=beef'', rq_chunks = [[1]]\<rparr>"

theorem poll_session_verified_witness:
  "\<exists>token. pollToken sample_oidc ''dev'' = PollComplete token \<and>
     rs_setCookie (fst (handlePoll (\<lambda>_. Some (JObj [(''loginId'', JStr ''l1'')])) sample_deps sample_oidc sample_ambient
       sample_http sample_state)) = Some (serializeSessionCookie ''f00d'' 60 (d_cookie sample_deps))"
proof -
  let ?r = "handlePoll (\<lambda>_. Some (JObj [(''loginId'', JStr ''l1'')])) sample_deps sample_oidc sample_ambient
       sample_http sample_state"
  obtain c where c: "rs_setCookie (fst ?r) = Some c"
    by (simp add: handlePoll_def finish_poll_def readJsonBody_def MAX_BODY_BYTES_def stringField_def is_object_def
        get_prop_def login_get_def map_get_def sample_deps_def sample_oidc_def sample_ambient_def sample_http_def
        sample_state_def session_create_def sendJson_def Let_def)
  from poll_session_verified [OF prod.collapse [symmetric] c]
  have "c = serializeSessionCookie (am_fresh sample_ambient) (d_sessionTtlMs sample_deps div 1000) (d_cookie sample_deps)"
    by blast
  with c show ?thesis by (simp add: sample_oidc_def) (simp add: sample_ambient_def sample_deps_def)
qed


text \<open>
  Logging out ends the session: afterwards the same cookie is unauthenticated, at any
  time and until another login, and only that session is gone.
\<close>

theorem logout_ends_session:
  assumes "handleLogout deps req st = (resp, st')"
    and "readCookie (rq_cookie req) (co_name (d_cookie deps)) = Some sid"
  shows "rs_status (fst (handleMe deps am req st')) = 401 \<and>
    rs_setCookie resp = Some (clearSessionCookie (d_cookie deps)) \<and>
    (\<forall>k. map_of (au_sessions st') k = (if k = sid then None else map_of (au_sessions st) k))"
  using assms
  by (auto simp: handleLogout_def handleMe_def resolveSession_def session_get_def session_destroy_def map_get_def
      map_simps sendJson_def)

theorem logout_ends_session_witness:
  "rs_status (fst (handleMe sample_deps sample_ambient sample_http
     (snd (handleLogout sample_deps sample_http sample_state)))) = 401"
proof -
  have "readCookie (rq_cookie sample_http) (co_name (d_cookie sample_deps)) = Some ''beef''"
    using read_header [of "[(''fc_session'', ''beef'')]" "''fc_session''"]
    by (simp add: sample_http_def sample_deps_def pair_ok_def cookie_name_def token_char_def pair_text_def)
  from logout_ends_session [OF prod.collapse [symmetric] this] show ?thesis by blast
qed

section \<open>The shape of an operator identifier\<close>

lemma length_to_hex [simp]: "length (to_hex bs) = 2 * length bs"
  by (induction bs) (simp_all add: to_hex_def)

lemma nth_to_hex: "i < length bs \<Longrightarrow> to_hex bs ! (2 * i) = hex_digit (unat (bs ! i) div 16)"
proof (induction bs arbitrary: i)
  case (Cons b bs)
  then show ?case by (cases i) (simp_all add: to_hex_def)
qed simp

lemma stamp_nth:
  assumes "length bs = 16"
  shows "length (stamp bs) = 16" "unat (stamp bs ! 6) div 16 = 5" "unat (stamp bs ! 8) div 16 \<in> {8, 9, 10, 11}"
proof -
  have "drop_bit 4 ((b AND 0x0f) OR 0x50 :: byte) = 5" for b
    by (simp add: drop_bit_or drop_bit_and)
  then have v: "unat ((b AND 0x0f) OR 0x50 :: byte) div 16 = 5" for b
    using unat_drop_bit_eq [of 4 "(b AND 0x0f) OR 0x50 :: byte"] by (simp add: drop_bit_eq_div)
  have w: "unat ((b AND 0x3f) OR 0x80 :: byte) div 16 \<in> {8, 9, 10, 11}" for b
  proof -
    define n where "n = unat (drop_bit 4 b) mod 4"
    have "drop_bit 4 b AND 3 = take_bit 2 (drop_bit 4 b)" by (simp add: take_bit_eq_mask mask_eq_exp_minus_1)
    also have "\<dots> = of_nat n" unfolding n_def by (simp add: take_bit_eq_mod word_arith_nat_mod)
    finally have "drop_bit 4 ((b AND 0x3f) OR 0x80 :: byte) = of_nat n OR 8"
      by (simp add: drop_bit_or drop_bit_and)
    moreover have "n \<in> {0, 1, 2, 3}" unfolding n_def by auto
    ultimately have mem: "unat (drop_bit 4 ((b AND 0x3f) OR 0x80 :: byte)) \<in> {8, 9, 10, 11}" by auto
    have "unat (drop_bit 4 x) = unat x div 16" for x :: byte
      by (simp only: unat_drop_bit_eq) (simp add: drop_bit_eq_div)
    with mem show ?thesis by (simp only:)
  qed
  show "length (stamp bs) = 16" "unat (stamp bs ! 6) div 16 = 5" "unat (stamp bs ! 8) div 16 \<in> {8, 9, 10, 11}"
    using assms v w by (simp_all add: stamp_def Let_def)
qed

lemma hex_digit_values:
  "hex_digit 5 = CHR ''5''" "hex_digit 8 = CHR ''8''" "hex_digit 9 = CHR ''9''" "hex_digit 10 = CHR ''a''"
  "hex_digit 11 = CHR ''b''"
  by (simp_all add: hex_digit_def char_of_def bit_0)

lemma uuid_nth:
  assumes "length bs = 16"
  shows "length (bytesToUuid bs) = 36"
    and "bytesToUuid bs ! 14 = to_hex bs ! 12" and "bytesToUuid bs ! 19 = to_hex bs ! 16"
    and "bytesToUuid bs ! 8 = CHR ''-'' \<and> bytesToUuid bs ! 13 = CHR ''-'' \<and> bytesToUuid bs ! 18 = CHR ''-'' \<and>
         bytesToUuid bs ! 23 = CHR ''-''"
  using assms by (simp_all add: bytesToUuid_def slice_def Let_def nth_append)

text \<open>
  An operator's engine identifier is a well-formed name-based UUID (version 5, RFC
  4122 variant) for every subject, given a hash of at least 16 bytes.
\<close>

theorem operator_id_wellformed:
  assumes "\<And>bs. 16 \<le> length (sha1 bs)"
  shows "\<exists>u. operatorPrincipalId sha1 subject = Some u \<and> length u = 36 \<and>
    map ((!) u) [8, 13, 18, 23] = ''----'' \<and> u ! 14 = CHR ''5'' \<and> u ! 19 \<in> set ''89ab''"
proof -
  obtain ns where ns: "uuidToBytes OPERATOR_NAMESPACE = Some ns"
    by (simp add: uuidToBytes_def OPERATOR_NAMESPACE_def)
  let ?bs = "stamp (take 16 (sha1 (ns @ text_encode subject)))"
  have len: "length (take 16 (sha1 (ns @ text_encode subject))) = 16" using assms by (simp add: min_absorb2)
  note st = stamp_nth [OF len]
  have "to_hex ?bs ! 12 = hex_digit 5" using nth_to_hex [of 6 ?bs] st by simp
  moreover have "to_hex ?bs ! 16 \<in> set ''89ab''"
    using nth_to_hex [of 8 ?bs] st by (auto simp: hex_digit_values)
  ultimately show ?thesis
    using uuid_nth [OF st(1)] by (simp add: operatorPrincipalId_def ns hex_digit_values)
qed

theorem operator_id_wellformed_witness:
  "\<exists>u. operatorPrincipalId (\<lambda>_. replicate 20 0xff) ''alice'' = Some u \<and> u ! 14 = CHR ''5''"
  using operator_id_wellformed [of "\<lambda>_. replicate 20 0xff" "''alice''"] by auto

end
