(* ===== verification/Tags.thy ===== *)
theory Tags
  imports JsValue
begin

text \<open>
  The contract modules of \<open>packages/contracts/src\<close> narrow the free strings of the wire
  to closed unions: a tag the console knows becomes a value, every other tag \<open>null\<close>.
  This theory holds what all narrowers share.  A registry lists the values it knows and
  their tags; the locale \<open>exact_projection\<close> is the contract of a
  narrower, and \<open>tag_list\<close> gives it to every narrower that searches such a list.
\<close>

section \<open>Searching a registry\<close>

text \<open>\<open>KNOWN.includes(tag) ? tag : null\<close>, and \<open>KNOWN.find((known) => known === tag) ?? null\<close>.\<close>

definition narrow_in :: "'a list \<Rightarrow> ('a \<Rightarrow> string) \<Rightarrow> string \<Rightarrow> 'a option" where
  "narrow_in known tag s = List.find (\<lambda>k. tag k = s) known"

text \<open>\<open>typeof v === 'string' ? narrow(v) : null\<close>\<close>

definition narrow_string :: "(string \<Rightarrow> 'a option) \<Rightarrow> jsval \<Rightarrow> 'a option" where
  "narrow_string narrow v = Option.bind (as_string v) narrow"

lemma narrow_string_JStr [simp]: "narrow_string narrow (JStr s) = narrow s"
  by (simp add: narrow_string_def as_string_def)

lemma narrow_string_Some: "narrow_string narrow v = Some a \<longleftrightarrow> (\<exists>s. v = JStr s \<and> narrow s = Some a)"
  by (auto simp: narrow_string_def Option.bind_eq_Some_conv)

section \<open>The contracts of a projection\<close>

text \<open>
  A projection reads a view model off what the engine sent, or gives up.  The weak
  contract: the wire form of every view is read back as that view.  The exact contract
  adds that nothing else is read as that view, so that what the operator sees determines
  what the engine sent, and everything that is not the wire form of some view is refused.
\<close>

locale projection =
  fixes render :: "'a \<Rightarrow> 'w"
    and project :: "'w \<Rightarrow> 'a option"
  assumes project_render [simp]: "project (render a) = Some a"
begin

lemma render_inject: "render a = render b \<longleftrightarrow> a = b"
  by (metis project_render option.inject)

lemma traverse_render [simp]: "traverse project (map render as) = Some as"
  by (induction as) simp_all

end

locale exact_projection = projection +
  assumes render_project: "project w = Some a \<Longrightarrow> render a = w"
begin

lemma project_Some: "project w = Some a \<longleftrightarrow> w = render a"
  using render_project by auto

lemma project_None: "project w = None \<longleftrightarrow> w \<notin> range render"
proof -
  have "project w \<noteq> None \<longleftrightarrow> (\<exists>a. project w = Some a)" by blast
  also have "\<dots> \<longleftrightarrow> w \<in> range render" by (auto simp: project_Some)
  finally show ?thesis by blast
qed

lemma traverse_Some_render: "traverse project ws = Some as \<longleftrightarrow> ws = map render as"
proof
  assume "traverse project ws = Some as"
  then show "ws = map render as"
    by (induction ws arbitrary: as) (auto simp: project_Some split: option.splits)
qed simp

lemma traverse_None_render: "traverse project ws = None \<longleftrightarrow> \<not> set ws \<subseteq> range render"
  by (auto simp: traverse_None project_None)

end

text \<open>A registry that lists every value of the union under a tag of its own is a narrower.\<close>

locale tag_list =
  fixes known :: "'a list"
    and tag :: "'a \<Rightarrow> string"
  assumes listed: "a \<in> set known"
    and tags_distinct: "distinct (map tag known)"
begin

lemma tag_inj: "tag a = tag b \<Longrightarrow> a = b"
  using listed tags_distinct by (metis distinct_map inj_onD)

lemma narrow_in_tag: "narrow_in known tag (tag a) = Some a"
proof -
  obtain b where "List.find (\<lambda>k. tag k = tag a) known = Some b"
    using listed [of a] by (metis (mono_tags, lifting) find_None_iff2 not_None_eq)
  moreover from this have "tag b = tag a" by (auto simp: find_Some_iff)
  ultimately show ?thesis using tag_inj by (simp add: narrow_in_def)
qed

lemma tag_narrow_in: "narrow_in known tag s = Some a \<Longrightarrow> tag a = s"
  by (auto simp: narrow_in_def find_Some_iff)

end

sublocale tag_list \<subseteq> exact_projection tag "narrow_in known tag"
  by unfold_locales (simp_all add: narrow_in_tag tag_narrow_in)

end
