(* ===== verification/Objects.thy ===== *)
theory Objects
  imports Tags WireDto
begin

text \<open>
  The catalog of named objects: \<open>packages/contracts/src/objects.ts\<close>.  Three registries
  (kinds, selector forms, lifecycles), the projections of the engine's replies into what
  the console renders, and the way a form draft takes to the wire.  Replies are taken at
  the types \<open>generated/wire-dto.ts\<close> declares for them; a property that may be absent or
  \<open>null\<close> is an \<open>option\<close>.
\<close>

section \<open>Registries\<close>

datatype ObjectKind =
    UserObject | GroupObject | AgentObject | ServiceObject | ServerObject | ApplicationObject
  | UriObject | NetworkObject | RegistryKeyObject | CertificateObject | ScriptObject | DataStoreObject

fun object_kind_tag :: "ObjectKind \<Rightarrow> string" where
  "object_kind_tag UserObject = ''user''"
| "object_kind_tag GroupObject = ''group''"
| "object_kind_tag AgentObject = ''agent''"
| "object_kind_tag ServiceObject = ''service''"
| "object_kind_tag ServerObject = ''server''"
| "object_kind_tag ApplicationObject = ''application''"
| "object_kind_tag UriObject = ''uri''"
| "object_kind_tag NetworkObject = ''network''"
| "object_kind_tag RegistryKeyObject = ''registry_key''"
| "object_kind_tag CertificateObject = ''certificate''"
| "object_kind_tag ScriptObject = ''script''"
| "object_kind_tag DataStoreObject = ''data_store''"

definition OBJECT_KINDS :: "ObjectKind list" where
  "OBJECT_KINDS =
     [UserObject, GroupObject, AgentObject, ServiceObject, ServerObject, ApplicationObject,
      UriObject, NetworkObject, RegistryKeyObject, CertificateObject, ScriptObject, DataStoreObject]"

datatype SelectorKind = Exact | Glob | GroupRef | Cidr

fun selector_kind_tag :: "SelectorKind \<Rightarrow> string" where
  "selector_kind_tag Exact = ''exact''"
| "selector_kind_tag Glob = ''glob''"
| "selector_kind_tag GroupRef = ''group_ref''"
| "selector_kind_tag Cidr = ''cidr''"

definition SELECTOR_KINDS :: "SelectorKind list" where
  "SELECTOR_KINDS = [Exact, Glob, GroupRef, Cidr]"

text \<open>The lifecycle tags are the same for objects, zones and policies.\<close>

datatype Lifecycle = Draft | Published

fun lifecycle_tag :: "Lifecycle \<Rightarrow> string" where
  "lifecycle_tag Draft = ''draft''"
| "lifecycle_tag Published = ''published''"

definition OBJECT_LIFECYCLES :: "Lifecycle list" where
  "OBJECT_LIFECYCLES = [Draft, Published]"

definition toKind :: "string \<Rightarrow> ObjectKind option" where
  "toKind = narrow_in OBJECT_KINDS object_kind_tag"

definition toSelectorKind :: "string \<Rightarrow> SelectorKind option" where
  "toSelectorKind = narrow_in SELECTOR_KINDS selector_kind_tag"

definition toLifecycle :: "string \<Rightarrow> Lifecycle option" where
  "toLifecycle = narrow_in OBJECT_LIFECYCLES lifecycle_tag"

lemma object_kind_listed: "a \<in> set OBJECT_KINDS"
  by (cases a) (simp_all add: OBJECT_KINDS_def)

interpretation object_kind: tag_list OBJECT_KINDS object_kind_tag
  rewrites "narrow_in OBJECT_KINDS object_kind_tag = toKind"
  by (unfold_locales, rule object_kind_listed, simp_all add: OBJECT_KINDS_def toKind_def)

lemma selector_kind_listed: "a \<in> set SELECTOR_KINDS"
  by (cases a) (simp_all add: SELECTOR_KINDS_def)

interpretation selector_kind: tag_list SELECTOR_KINDS selector_kind_tag
  rewrites "narrow_in SELECTOR_KINDS selector_kind_tag = toSelectorKind"
  by (unfold_locales, rule selector_kind_listed, simp_all add: SELECTOR_KINDS_def toSelectorKind_def)

lemma lifecycle_listed: "a \<in> set OBJECT_LIFECYCLES"
  by (cases a) (simp_all add: OBJECT_LIFECYCLES_def)

interpretation lifecycle: tag_list OBJECT_LIFECYCLES lifecycle_tag
  rewrites "narrow_in OBJECT_LIFECYCLES lifecycle_tag = toLifecycle"
  by (unfold_locales, rule lifecycle_listed, simp_all add: OBJECT_LIFECYCLES_def toLifecycle_def)

section \<open>Records\<close>

record WireObjectRecord =
  or_name :: string
  or_kind :: string
  or_selector_kind :: string
  or_selector_value :: string
  or_attributes :: "string list"
  or_description :: string
  or_tags :: "string list"
  or_lifecycle :: string

record WireObjectCatalog =
  cat_objects :: "WireObjectRecord list"

record WireObjectDetail =
  od_members :: "string list"
  od_record :: "WireObjectRecord option"

record WireObjectMutated =
  om_name :: string

record ObjectDraft =
  o_name :: string
  o_kind :: ObjectKind
  o_selectorKind :: SelectorKind
  o_selectorValue :: string
  o_description :: string
  o_tags :: "string list"
  o_lifecycle :: Lifecycle

text \<open>A card has the fields of a draft and the attributes the engine keeps.\<close>

record ObjectCard = ObjectDraft +
  o_attributes :: "string list"

record ObjectDetailView =
  odv_object :: "ObjectCard option"
  odv_members :: "string list"

record ObjectMutation =
  omv_name :: string

section \<open>Projections\<close>

definition toObjectCard :: "WireObjectRecord \<Rightarrow> ObjectCard option" where
  "toObjectCard r =
     (case (toKind (or_kind r), toSelectorKind (or_selector_kind r), toLifecycle (or_lifecycle r)) of
        (Some kind, Some selectorKind, Some lifecycle) \<Rightarrow>
          Some \<lparr>o_name = or_name r, o_kind = kind, o_selectorKind = selectorKind,
                o_selectorValue = or_selector_value r, o_description = or_description r,
                o_tags = or_tags r, o_lifecycle = lifecycle, o_attributes = or_attributes r\<rparr>
      | _ \<Rightarrow> None)"

definition toObjectCatalog :: "WireObjectCatalog \<Rightarrow> ObjectCard list option" where
  "toObjectCatalog catalog = traverse toObjectCard (cat_objects catalog)"

definition toObjectDetail :: "WireObjectDetail \<Rightarrow> ObjectDetailView option" where
  "toObjectDetail d = (case od_record d of
       None \<Rightarrow> Some \<lparr>odv_object = None, odv_members = od_members d\<rparr>
     | Some r \<Rightarrow> (case toObjectCard r of
           None \<Rightarrow> None
         | Some view \<Rightarrow> Some \<lparr>odv_object = Some view, odv_members = od_members d\<rparr>))"

definition toWireObjectSpec :: "ObjectDraft \<Rightarrow> WireObjectSpec" where
  "toWireObjectSpec d =
     \<lparr>os_name = o_name d, os_kind = object_kind_tag (o_kind d),
      os_selector_kind = selector_kind_tag (o_selectorKind d), os_selector_value = o_selectorValue d,
      os_attributes = None, os_description = o_description d,
      os_tags = (if o_tags d = [] then None else Some (o_tags d)),
      os_lifecycle = lifecycle_tag (o_lifecycle d)\<rparr>"

definition toObjectMutation :: "WireObjectMutated \<Rightarrow> ObjectMutation" where
  "toObjectMutation reply = \<lparr>omv_name = om_name reply\<rparr>"

fun objectKindLabel :: "ObjectKind \<Rightarrow> string" where
  "objectKindLabel UserObject = ''User''"
| "objectKindLabel GroupObject = ''Group''"
| "objectKindLabel AgentObject = ''Agent''"
| "objectKindLabel ServiceObject = ''Service''"
| "objectKindLabel ServerObject = ''Server''"
| "objectKindLabel ApplicationObject = ''Application''"
| "objectKindLabel UriObject = ''URI''"
| "objectKindLabel NetworkObject = ''Network''"
| "objectKindLabel RegistryKeyObject = ''Registry Key''"
| "objectKindLabel CertificateObject = ''Certificate''"
| "objectKindLabel ScriptObject = ''Script''"
| "objectKindLabel DataStoreObject = ''Data Store''"

section \<open>What a card is a projection of\<close>

text \<open>The record a card stands for: the projection is its partial inverse.\<close>

definition record_of_card :: "ObjectCard \<Rightarrow> WireObjectRecord" where
  "record_of_card c =
     \<lparr>or_name = o_name c, or_kind = object_kind_tag (o_kind c),
      or_selector_kind = selector_kind_tag (o_selectorKind c), or_selector_value = o_selectorValue c,
      or_attributes = o_attributes c, or_description = o_description c, or_tags = o_tags c,
      or_lifecycle = lifecycle_tag (o_lifecycle c)\<rparr>"


interpretation object_card: exact_projection record_of_card toObjectCard
proof
  show "toObjectCard (record_of_card c) = Some c" for c
    by (simp add: toObjectCard_def record_of_card_def)
  show "record_of_card c = r" if "toObjectCard r = Some c" for r c
    using that by (auto simp: toObjectCard_def record_of_card_def object_kind.project_Some
        selector_kind.project_Some lifecycle.project_Some split: option.splits)
qed

end
