(* ===== verification/Vtz.thy ===== *)
theory Vtz
  imports Objects
begin

text \<open>
  Virtual trust zones: \<open>packages/contracts/src/vtz.ts\<close>.  The projections of the zone
  tree, the zone detail and the mutation receipts, the check of a dotted zone name, and
  the way an authored zone takes from an untrusted request body to the wire.
\<close>

section \<open>Registries\<close>

datatype VtzObjectDomain =
    GovernedEgress | Execution | PrivilegeEscalation | KernelModule | CredentialStore | Persistence
  | OrdinaryNetwork | FileAndConfig | Memory | Ipc | Device

fun domain_tag :: "VtzObjectDomain \<Rightarrow> string" where
  "domain_tag GovernedEgress = ''governed-egress''"
| "domain_tag Execution = ''execution''"
| "domain_tag PrivilegeEscalation = ''privilege-escalation''"
| "domain_tag KernelModule = ''kernel-module''"
| "domain_tag CredentialStore = ''credential-store''"
| "domain_tag Persistence = ''persistence''"
| "domain_tag OrdinaryNetwork = ''ordinary-network''"
| "domain_tag FileAndConfig = ''file-and-config''"
| "domain_tag Memory = ''memory''"
| "domain_tag Ipc = ''ipc''"
| "domain_tag Device = ''device''"

definition VTZ_OBJECT_DOMAINS :: "VtzObjectDomain list" where
  "VTZ_OBJECT_DOMAINS =
     [GovernedEgress, Execution, PrivilegeEscalation, KernelModule, CredentialStore, Persistence,
      OrdinaryNetwork, FileAndConfig, Memory, Ipc, Device]"

datatype VtzPosture = DenyPosture | PermitDenyRisky

fun posture_tag :: "VtzPosture \<Rightarrow> string" where
  "posture_tag DenyPosture = ''deny''"
| "posture_tag PermitDenyRisky = ''permit-deny-risky''"

datatype VtzArchetype = Standard | QuarantineZone | Isolation | Public | Observability

fun archetype_tag :: "VtzArchetype \<Rightarrow> string" where
  "archetype_tag Standard = ''standard''"
| "archetype_tag QuarantineZone = ''quarantine''"
| "archetype_tag Isolation = ''isolation''"
| "archetype_tag Public = ''public''"
| "archetype_tag Observability = ''observability''"

definition VTZ_ARCHETYPES :: "VtzArchetype list" where
  "VTZ_ARCHETYPES = [Standard, QuarantineZone, Isolation, Public, Observability]"

datatype VtzTelemetry = FullTelemetry | SampledTelemetry | OffTelemetry

fun telemetry_tag :: "VtzTelemetry \<Rightarrow> string" where
  "telemetry_tag FullTelemetry = ''full''"
| "telemetry_tag SampledTelemetry = ''sampled''"
| "telemetry_tag OffTelemetry = ''off''"

definition toVtzObjectDomain :: "string \<Rightarrow> VtzObjectDomain option" where
  "toVtzObjectDomain = narrow_in VTZ_OBJECT_DOMAINS domain_tag"

definition toVtzPosture :: "string \<Rightarrow> VtzPosture option" where
  "toVtzPosture s = (if s = ''deny'' then Some DenyPosture
     else if s = ''permit-deny-risky'' then Some PermitDenyRisky else None)"

definition toVtzLifecycle :: "string \<Rightarrow> Lifecycle option" where
  "toVtzLifecycle s = (if s = ''draft'' then Some Draft else if s = ''published'' then Some Published else None)"

definition toVtzArchetype :: "string \<Rightarrow> VtzArchetype option" where
  "toVtzArchetype = narrow_in VTZ_ARCHETYPES archetype_tag"

definition toVtzTelemetry :: "string \<Rightarrow> VtzTelemetry option" where
  "toVtzTelemetry s = (if s = ''full'' then Some FullTelemetry
     else if s = ''sampled'' then Some SampledTelemetry
     else if s = ''off'' then Some OffTelemetry else None)"

lemma domain_listed: "a \<in> set VTZ_OBJECT_DOMAINS"
  by (cases a) (simp_all add: VTZ_OBJECT_DOMAINS_def)

interpretation domain: tag_list VTZ_OBJECT_DOMAINS domain_tag
  rewrites "narrow_in VTZ_OBJECT_DOMAINS domain_tag = toVtzObjectDomain"
  by (unfold_locales, rule domain_listed, simp_all add: VTZ_OBJECT_DOMAINS_def toVtzObjectDomain_def)

lemma archetype_listed: "a \<in> set VTZ_ARCHETYPES"
  by (cases a) (simp_all add: VTZ_ARCHETYPES_def)

interpretation archetype: tag_list VTZ_ARCHETYPES archetype_tag
  rewrites "narrow_in VTZ_ARCHETYPES archetype_tag = toVtzArchetype"
  by (unfold_locales, rule archetype_listed, simp_all add: VTZ_ARCHETYPES_def toVtzArchetype_def)

interpretation posture: exact_projection posture_tag toVtzPosture
proof
  show "toVtzPosture (posture_tag a) = Some a" for a by (cases a) (simp_all add: toVtzPosture_def)
qed (auto simp: toVtzPosture_def split: if_splits)

interpretation vtz_lifecycle: exact_projection lifecycle_tag toVtzLifecycle
proof
  show "toVtzLifecycle (lifecycle_tag a) = Some a" for a by (cases a) (simp_all add: toVtzLifecycle_def)
qed (auto simp: toVtzLifecycle_def split: if_splits)

interpretation telemetry: exact_projection telemetry_tag toVtzTelemetry
proof
  show "toVtzTelemetry (telemetry_tag a) = Some a" for a by (cases a) (simp_all add: toVtzTelemetry_def)
qed (auto simp: toVtzTelemetry_def split: if_splits)

section \<open>Records\<close>

record DomainPosture =
  dpv_domain :: VtzObjectDomain
  dpv_posture :: VtzPosture
  dpv_floor :: bool

record WireVtzTreeNode =
  tn_id :: string
  tn_name :: string
  tn_parent :: "string option"
  tn_zone_type :: string
  tn_lifecycle :: string
  tn_micro_segmentation :: bool
  tn_telemetry :: string
  tn_reauth_interval_hours :: jsnum
  tn_own_postures :: "WireDomainPosture list"
  tn_effective_postures :: "WireDomainPosture list"
  tn_sub_zone_count :: jsnum

record WireVtzTree =
  wt_nodes :: "WireVtzTreeNode list"
  wt_truncated :: bool

record WireVtzAncestor =
  an_id :: string
  an_name :: string

record WireVtzDetail =
  wd_ancestors :: "WireVtzAncestor list"
  wd_commit_version :: jsnum
  wd_zone :: "WireVtzTreeNode option"

record WireVtzMutation =
  wm_id :: string
  wm_lifecycle :: string

record VtzZone =
  z_id :: string
  z_name :: string
  z_parent :: "string option"
  z_zoneType :: VtzArchetype
  z_lifecycle :: Lifecycle
  z_microSegmentation :: bool
  z_telemetry :: VtzTelemetry
  z_reauthIntervalHours :: jsnum
  z_ownPostures :: "DomainPosture list"
  z_effectivePostures :: "DomainPosture list"
  z_subZoneCount :: jsnum

record VtzTree =
  vt_zones :: "VtzZone list"
  vt_truncated :: bool

record VtzAncestorRef =
  ar_id :: string
  ar_name :: string

record VtzDetailView =
  vd_zone :: "VtzZone option"
  vd_ancestors :: "VtzAncestorRef list"
  vd_commitVersion :: jsnum

record VtzMutationResult =
  vm_id :: string
  vm_lifecycle :: "Lifecycle option"

record VtzSpecInput =
  si_name :: string
  si_description :: string
  si_zoneType :: VtzArchetype
  si_ownPostures :: "DomainPosture list"
  si_microSegmentation :: bool
  si_telemetry :: VtzTelemetry
  si_reauthIntervalHours :: jsnum
  si_lifecycle :: Lifecycle

section \<open>Projections\<close>

definition toDomainPosture :: "WireDomainPosture \<Rightarrow> DomainPosture option" where
  "toDomainPosture w = (case (toVtzObjectDomain (dp_domain w), toVtzPosture (dp_posture w)) of
       (Some domain, Some posture) \<Rightarrow> Some \<lparr>dpv_domain = domain, dpv_posture = posture, dpv_floor = dp_floor w\<rparr>
     | _ \<Rightarrow> None)"

fun index_in :: "'a \<Rightarrow> 'a list \<Rightarrow> nat option" where
  "index_in a [] = None"
| "index_in a (x # xs) = (if x = a then Some 0 else map_option Suc (index_in a xs))"

text \<open>\<open>rank.get(domain) ?? 0\<close>\<close>

definition domain_rank :: "VtzObjectDomain \<Rightarrow> nat" where
  "domain_rank d = (case index_in d VTZ_OBJECT_DOMAINS of None \<Rightarrow> 0 | Some i \<Rightarrow> i)"

text \<open>\<open>Array.prototype.sort\<close> is stable, as \<open>sort_key\<close> is.\<close>

definition toDomainPostures :: "WireDomainPosture list \<Rightarrow> DomainPosture list option" where
  "toDomainPostures ws = (case traverse toDomainPosture ws of
       None \<Rightarrow> None
     | Some projected \<Rightarrow> Some (sort_key (\<lambda>p. domain_rank (dpv_domain p)) projected))"

definition toVtzZone :: "WireVtzTreeNode \<Rightarrow> VtzZone option" where
  "toVtzZone node =
     (case (toVtzArchetype (tn_zone_type node), toVtzLifecycle (tn_lifecycle node),
            toVtzTelemetry (tn_telemetry node), toDomainPostures (tn_own_postures node),
            toDomainPostures (tn_effective_postures node)) of
        (Some zoneType, Some lifecycle, Some telemetry, Some ownPostures, Some effectivePostures) \<Rightarrow>
          Some \<lparr>z_id = tn_id node, z_name = tn_name node, z_parent = tn_parent node, z_zoneType = zoneType,
                z_lifecycle = lifecycle, z_microSegmentation = tn_micro_segmentation node,
                z_telemetry = telemetry, z_reauthIntervalHours = tn_reauth_interval_hours node,
                z_ownPostures = ownPostures, z_effectivePostures = effectivePostures,
                z_subZoneCount = tn_sub_zone_count node\<rparr>
      | _ \<Rightarrow> None)"

definition toVtzTree :: "WireVtzTree \<Rightarrow> VtzTree option" where
  "toVtzTree reply = (case traverse toVtzZone (wt_nodes reply) of
       None \<Rightarrow> None
     | Some zones \<Rightarrow> Some \<lparr>vt_zones = zones, vt_truncated = wt_truncated reply\<rparr>)"

definition ancestor_ref :: "WireVtzAncestor \<Rightarrow> VtzAncestorRef" where
  "ancestor_ref a = \<lparr>ar_id = an_id a, ar_name = an_name a\<rparr>"

definition toVtzDetail :: "WireVtzDetail \<Rightarrow> VtzDetailView option" where
  "toVtzDetail reply =
     (let view = (\<lambda>zone. \<lparr>vd_zone = zone, vd_ancestors = map ancestor_ref (wd_ancestors reply),
                          vd_commitVersion = wd_commit_version reply\<rparr>)
      in case wd_zone reply of
           None \<Rightarrow> Some (view None)
         | Some wireZone \<Rightarrow> (case toVtzZone wireZone of None \<Rightarrow> None | Some zone \<Rightarrow> Some (view (Some zone))))"

definition toVtzMutation :: "WireVtzMutation \<Rightarrow> VtzMutationResult option" where
  "toVtzMutation reply =
     (if wm_lifecycle reply = [] then Some \<lparr>vm_id = wm_id reply, vm_lifecycle = None\<rparr>
      else case toVtzLifecycle (wm_lifecycle reply) of
             None \<Rightarrow> None
           | Some lifecycle \<Rightarrow> Some \<lparr>vm_id = wm_id reply, vm_lifecycle = Some lifecycle\<rparr>)"

section \<open>Authoring\<close>

definition MIN_REAUTH_INTERVAL_HOURS :: int where
  "MIN_REAUTH_INTERVAL_HOURS = 1"

definition MAX_REAUTH_INTERVAL_HOURS :: int where
  "MAX_REAUTH_INTERVAL_HOURS = 24"

definition VTZ_NAME_MAX_BYTES :: nat where
  "VTZ_NAME_MAX_BYTES = 255"

definition VTZ_NAME_MAX_LABELS :: nat where
  "VTZ_NAME_MAX_LABELS = 16"

definition VTZ_LABEL_MAX_BYTES :: nat where
  "VTZ_LABEL_MAX_BYTES = 63"

definition utf8ByteLength :: "string \<Rightarrow> nat" where
  "utf8ByteLength s = length (text_encode s)"

definition alphanumeric :: "char \<Rightarrow> bool" where
  "alphanumeric c = (let n = (of_char c :: nat)
     in (65 \<le> n \<and> n \<le> 90) \<or> (97 \<le> n \<and> n \<le> 122) \<or> (48 \<le> n \<and> n \<le> 57))"

text \<open>The regular expression \<open>^[A-Za-z0-9](?:[A-Za-z0-9-]*[A-Za-z0-9])?$\<close>\<close>

definition VTZ_LABEL_SHAPE :: "string \<Rightarrow> bool" where
  "VTZ_LABEL_SHAPE s \<longleftrightarrow> s \<noteq> [] \<and> alphanumeric (hd s) \<and> alphanumeric (last s) \<and>
     list_all (\<lambda>c. alphanumeric c \<or> c = CHR ''-'') s"

definition label_problem :: "string \<Rightarrow> string option" where
  "label_problem label =
     (if label = [] then Some ''A level of the name is empty.''
      else if utf8ByteLength label > VTZ_LABEL_MAX_BYTES then
        Some (''A level of the name is longer than '' @ nat_digits VTZ_LABEL_MAX_BYTES @ '' characters.'')
      else if \<not> VTZ_LABEL_SHAPE label then
        Some ''Use only ASCII letters, digits and hyphens, starting and ending with a letter or digit.''
      else None)"

fun labels_problem :: "string list \<Rightarrow> string option" where
  "labels_problem [] = None"
| "labels_problem (label # labels) =
     (case label_problem label of None \<Rightarrow> labels_problem labels | Some problem \<Rightarrow> Some problem)"

definition vtzNameProblem :: "string \<Rightarrow> string option" where
  "vtzNameProblem s =
     (if s = [] then Some ''Enter a name.''
      else if utf8ByteLength s > VTZ_NAME_MAX_BYTES then
        Some (''The full name is longer than '' @ nat_digits VTZ_NAME_MAX_BYTES @ '' bytes.'')
      else let labels = split_on CHR ''.'' s
           in if length labels > VTZ_NAME_MAX_LABELS then
                Some (''The name has more than '' @ nat_digits VTZ_NAME_MAX_LABELS @ '' levels.'')
              else labels_problem labels)"

definition wire_posture :: "DomainPosture \<Rightarrow> WireDomainPosture" where
  "wire_posture p = \<lparr>dp_domain = domain_tag (dpv_domain p), dp_posture = posture_tag (dpv_posture p),
                     dp_floor = dpv_floor p\<rparr>"

definition toWireVtzSpec :: "VtzSpecInput \<Rightarrow> WireVtzSpec" where
  "toWireVtzSpec spec =
     \<lparr>vs_name = si_name spec, vs_description = si_description spec,
      vs_zone_type = archetype_tag (si_zoneType spec),
      vs_own_postures = map wire_posture (si_ownPostures spec),
      vs_micro_segmentation = si_microSegmentation spec, vs_telemetry = telemetry_tag (si_telemetry spec),
      vs_reauth_interval_hours = si_reauthIntervalHours spec, vs_lifecycle = lifecycle_tag (si_lifecycle spec)\<rparr>"

text \<open>\<open>typeof hours === 'number'\<close>, an integer, from 1 to 24.\<close>

definition reauth_hours :: "jsval \<Rightarrow> jsnum option" where
  "reauth_hours v = (case v of
       JNum n \<Rightarrow> if isInteger n \<and> MIN_REAUTH_INTERVAL_HOURS \<le> toBigInt n \<and> toBigInt n \<le> MAX_REAUTH_INTERVAL_HOURS
                then Some n else None
     | _ \<Rightarrow> None)"

definition posture_input :: "jsval \<Rightarrow> DomainPosture option" where
  "posture_input raw =
     (if \<not> is_object raw then None
      else case (narrow_string toVtzObjectDomain (get_prop raw ''domain''),
                 narrow_string toVtzPosture (get_prop raw ''posture''), as_bool (get_prop raw ''floor'')) of
             (Some domain, Some posture, Some floor) \<Rightarrow>
               Some \<lparr>dpv_domain = domain, dpv_posture = posture, dpv_floor = floor\<rparr>
           | _ \<Rightarrow> None)"

definition toVtzSpecInput :: "jsval \<Rightarrow> VtzSpecInput option" where
  "toVtzSpecInput body =
     (if \<not> is_object body then None
      else do {
        zone_name \<leftarrow> as_string (get_prop body ''name'');
        if trim zone_name = [] then None else do {
        description \<leftarrow> as_string (get_prop body ''description'');
        microSegmentation \<leftarrow> as_bool (get_prop body ''microSegmentation'');
        archetype \<leftarrow> narrow_string toVtzArchetype (get_prop body ''zoneType'');
        mode \<leftarrow> narrow_string toVtzTelemetry (get_prop body ''telemetry'');
        state \<leftarrow> narrow_string toVtzLifecycle (get_prop body ''lifecycle'');
        hours \<leftarrow> reauth_hours (get_prop body ''reauthIntervalHours'');
        rawPostures \<leftarrow> as_array (coalesce (get_prop body ''ownPostures'') (JArr []));
        ownPostures \<leftarrow> traverse posture_input rawPostures;
        Some \<lparr>si_name = trim zone_name, si_description = description, si_zoneType = archetype,
              si_ownPostures = ownPostures, si_microSegmentation = microSegmentation,
              si_telemetry = mode, si_reauthIntervalHours = hours, si_lifecycle = state\<rparr>
      }})"


section \<open>Postures\<close>

interpretation domain_posture: exact_projection wire_posture toDomainPosture
proof
  show "toDomainPosture (wire_posture p) = Some p" for p
    by (simp add: toDomainPosture_def wire_posture_def)
  show "wire_posture p = w" if "toDomainPosture w = Some p" for w p
    using that by (auto simp: toDomainPosture_def wire_posture_def domain.project_Some
        posture.project_Some split: option.splits)
qed

text \<open>
  What a posture list is projected to: the entries of the wire, those of one domain in
  the order of the wire, in the order of the registry.
\<close>

definition ordered_view :: "WireDomainPosture list \<Rightarrow> DomainPosture list \<Rightarrow> bool" where
  "ordered_view ws ps \<longleftrightarrow>
     sorted (map (\<lambda>p. domain_rank (dpv_domain p)) ps) \<and>
     (\<forall>d. map wire_posture (filter (\<lambda>p. dpv_domain p = d) ps) = filter (\<lambda>w. dp_domain w = domain_tag d) ws) \<and>
     set (map dp_domain ws) \<subseteq> range domain_tag"

lemma domain_rank_inject: "domain_rank d = domain_rank d' \<longleftrightarrow> d = d'"
  by (cases d; cases d') (simp_all add: domain_rank_def VTZ_OBJECT_DOMAINS_def)

lemma filter_wire_posture:
  "filter (\<lambda>w. dp_domain w = domain_tag d) (map wire_posture ps) =
     map wire_posture (filter (\<lambda>p. dpv_domain p = d) ps)"
  by (simp add: filter_map o_def wire_posture_def domain.render_inject cong: filter_cong)

lemma toDomainPostures_Some: "toDomainPostures ws = Some ps \<Longrightarrow> ordered_view ws ps"
proof -
  let ?rank = "\<lambda>p. domain_rank (dpv_domain p)"
  assume "toDomainPostures ws = Some ps"
  then obtain qs where ws: "ws = map wire_posture qs" and ps: "ps = sort_key ?rank qs"
    by (auto simp: toDomainPostures_def domain_posture.traverse_Some_render split: option.splits)
  have "filter (\<lambda>p. dpv_domain p = d) ps = filter (\<lambda>p. dpv_domain p = d) qs" for d
    using sort_key_stable [of ?rank "domain_rank d" qs] by (simp add: ps domain_rank_inject)
  then show ?thesis
    by (auto simp: ordered_view_def ws ps filter_wire_posture wire_posture_def)
qed

lemma toDomainPostures_None: "toDomainPostures ws = None \<longleftrightarrow> \<not> set ws \<subseteq> range wire_posture"
  by (simp add: toDomainPostures_def domain_posture.traverse_None_render [symmetric] split: option.splits)

lemma toDomainPostures_sorted:
  "sorted (map (\<lambda>p. domain_rank (dpv_domain p)) ps) \<Longrightarrow> toDomainPostures (map wire_posture ps) = Some ps"
  by (simp add: toDomainPostures_def sort_key_id_if_sorted)

section \<open>Zones\<close>

text \<open>A node with no tag outside the registries.\<close>

definition known_node :: "WireVtzTreeNode \<Rightarrow> bool" where
  "known_node node \<longleftrightarrow> tn_zone_type node \<in> range archetype_tag \<and> tn_lifecycle node \<in> range lifecycle_tag \<and>
     tn_telemetry node \<in> range telemetry_tag \<and>
     set (tn_own_postures node) \<union> set (tn_effective_postures node) \<subseteq> range wire_posture"

lemma toVtzZone_None: "toVtzZone node = None \<longleftrightarrow> \<not> known_node node"
  by (auto simp: toVtzZone_def known_node_def archetype.project_None [symmetric]
      vtz_lifecycle.project_None [symmetric] telemetry.project_None [symmetric]
      toDomainPostures_None [symmetric] split: option.splits)

definition zone_view :: "WireVtzTreeNode \<Rightarrow> VtzZone \<Rightarrow> bool" where
  "zone_view node z \<longleftrightarrow>
     z_id z = tn_id node \<and> z_name z = tn_name node \<and> z_parent z = tn_parent node \<and>
     archetype_tag (z_zoneType z) = tn_zone_type node \<and> lifecycle_tag (z_lifecycle z) = tn_lifecycle node \<and>
     telemetry_tag (z_telemetry z) = tn_telemetry node \<and>
     z_microSegmentation z = tn_micro_segmentation node \<and>
     z_reauthIntervalHours z = tn_reauth_interval_hours node \<and> z_subZoneCount z = tn_sub_zone_count node \<and>
     ordered_view (tn_own_postures node) (z_ownPostures z) \<and>
     ordered_view (tn_effective_postures node) (z_effectivePostures z)"

lemma toVtzZone_Some: "toVtzZone node = Some z \<Longrightarrow> zone_view node z"
  by (auto simp: toVtzZone_def zone_view_def archetype.project_Some vtz_lifecycle.project_Some
      telemetry.project_Some toDomainPostures_Some split: option.splits)

text \<open>
  The zone tree is shown whole or not at all: it is refused exactly when some node
  has a zone type, lifecycle, telemetry, domain or posture tag that the console does not
  know, and otherwise shows one zone per node, in order, each with the tags of its node
  and with every posture entry of its node, none added or lost, in the fixed order of
  domains and, within a domain, in the order of the engine.
\<close>
theorem zone_tree_faithful:
  "case toVtzTree reply of
     None \<Rightarrow> \<not> list_all known_node (wt_nodes reply)
   | Some tree \<Rightarrow> list_all known_node (wt_nodes reply) \<and> list_all2 zone_view (wt_nodes reply) (vt_zones tree) \<and>
       vt_truncated tree = wt_truncated reply"
proof (cases "traverse toVtzZone (wt_nodes reply)")
  case None
  then have "\<not> list_all known_node (wt_nodes reply)"
    by (auto simp: traverse_None toVtzZone_None list_all_iff)
  with None show ?thesis by (simp add: toVtzTree_def)
next
  case (Some zones)
  then have "list_all2 zone_view (wt_nodes reply) zones"
    by (auto simp: list_all2_conv_all_nth traverse_length dest: traverse_nth intro: toVtzZone_Some)
  moreover from Some have "list_all known_node (wt_nodes reply)"
    by (metis list_all_iff option.distinct(1) toVtzZone_None traverse_None)
  ultimately show ?thesis using Some by (simp add: toVtzTree_def)
qed

section \<open>Zone names\<close>

fun join_on :: "char \<Rightarrow> string list \<Rightarrow> string" where
  "join_on d [] = []"
| "join_on d [p] = p"
| "join_on d (p # ps) = p @ d # join_on d ps"

lemma split_join: "ps \<noteq> [] \<Longrightarrow> (\<And>p. p \<in> set ps \<Longrightarrow> d \<notin> set p) \<Longrightarrow> split_on d (join_on d ps) = ps"
  by (induction d ps rule: join_on.induct) (simp_all add: split_on_none split_on_sep)

lemma join_split: "join_on d (split_on d s) = s"
proof (induction s)
  case (Cons c s)
  obtain p ps where s: "split_on d s = p # ps"
    by (metis list.exhaust split_on_nonempty)
  with Cons.IH have "join_on d (p # ps) = s" by simp
  then show ?case using s by (cases ps) auto
qed simp

definition label_ok :: "string \<Rightarrow> bool" where
  "label_ok label \<longleftrightarrow> VTZ_LABEL_SHAPE label \<and> length label \<le> 63"

lemma label_problem_None: "label_problem label = None \<longleftrightarrow> label_ok label"
  by (auto simp: label_problem_def label_ok_def utf8ByteLength_def VTZ_LABEL_MAX_BYTES_def VTZ_LABEL_SHAPE_def)

lemma labels_problem_None: "labels_problem labels = None \<longleftrightarrow> list_all label_ok labels"
  by (induction labels) (auto simp: label_problem_None [symmetric] split: option.splits)

lemma label_no_dot: "label_ok label \<Longrightarrow> CHR ''.'' \<notin> set label"
  by (auto simp: label_ok_def VTZ_LABEL_SHAPE_def list_all_iff alphanumeric_def Let_def)

text \<open>
  A zone name is accepted exactly when it is 1 to 16 labels joined by dots, 255
  bytes at most in all, each label 1 to 63 letters, digits and hyphens that does not
  start or end with a hyphen.
\<close>
theorem zone_name_accepted:
  "vtzNameProblem s = None \<longleftrightarrow>
     (\<exists>labels. s = join_on CHR ''.'' labels \<and> labels \<noteq> [] \<and> length labels \<le> 16 \<and> length s \<le> 255 \<and>
        list_all label_ok labels)"
proof -
  have "vtzNameProblem s = None \<longleftrightarrow> s \<noteq> [] \<and> length s \<le> 255 \<and> length (split_on CHR ''.'' s) \<le> 16 \<and>
      list_all label_ok (split_on CHR ''.'' s)"
    by (auto simp: vtzNameProblem_def Let_def labels_problem_None utf8ByteLength_def
        VTZ_NAME_MAX_BYTES_def VTZ_NAME_MAX_LABELS_def)
  moreover have "split_on CHR ''.'' (join_on CHR ''.'' labels) = labels"
    if "labels \<noteq> []" "list_all label_ok labels" for labels
    using that by (intro split_join) (auto simp: list_all_iff dest: label_no_dot)
  moreover have "s \<noteq> []" if "list_all label_ok (split_on CHR ''.'' s)"
    using that by (auto simp: label_ok_def VTZ_LABEL_SHAPE_def)
  ultimately show ?thesis
    by (metis join_split split_on_nonempty)
qed


section \<open>Authored zones\<close>

text \<open>A zone the authoring boundary lets through, and the body that asks for it.\<close>

definition spec_ok :: "VtzSpecInput \<Rightarrow> bool" where
  "spec_ok spec \<longleftrightarrow> si_name spec \<noteq> [] \<and> trim (si_name spec) = si_name spec \<and>
     (\<exists>h\<in>{1..24}. si_reauthIntervalHours spec = NInt h)"

definition posture_json :: "DomainPosture \<Rightarrow> jsval" where
  "posture_json p = JObj [(''domain'', JStr (domain_tag (dpv_domain p))),
     (''posture'', JStr (posture_tag (dpv_posture p))), (''floor'', JBool (dpv_floor p))]"

definition spec_json :: "VtzSpecInput \<Rightarrow> jsval" where
  "spec_json spec = JObj
     [(''name'', JStr (si_name spec)), (''description'', JStr (si_description spec)),
      (''zoneType'', JStr (archetype_tag (si_zoneType spec))),
      (''ownPostures'', JArr (map posture_json (si_ownPostures spec))),
      (''microSegmentation'', JBool (si_microSegmentation spec)),
      (''telemetry'', JStr (telemetry_tag (si_telemetry spec))),
      (''reauthIntervalHours'', JNum (si_reauthIntervalHours spec)),
      (''lifecycle'', JStr (lifecycle_tag (si_lifecycle spec)))]"

interpretation posture_input: projection posture_json posture_input
  by unfold_locales (simp add: posture_input_def posture_json_def is_object_def get_prop_def as_bool_def)

lemma reauth_hours_Some: "reauth_hours v = Some n \<longleftrightarrow> (\<exists>h\<in>{1..24}. n = NInt h \<and> v = JNum (NInt h))"
  by (auto simp: reauth_hours_def isInteger_def toBigInt_def MIN_REAUTH_INTERVAL_HOURS_def
      MAX_REAUTH_INTERVAL_HOURS_def split: jsval.splits jsnum.splits if_splits)

lemma toVtzSpecInput_ok: "toVtzSpecInput body = Some spec \<Longrightarrow> spec_ok spec"
  by (auto simp: toVtzSpecInput_def spec_ok_def reauth_hours_Some Option.bind_eq_Some_conv split: if_splits)

lemma toVtzSpecInput_json:
  assumes "spec_ok spec"
  shows "toVtzSpecInput (spec_json spec) = Some spec"
proof -
  from assms obtain h where h: "h \<in> {1..24}" "si_reauthIntervalHours spec = NInt h"
    and nm: "si_name spec \<noteq> []" "trim (si_name spec) = si_name spec"
    by (auto simp: spec_ok_def)
  then have "reauth_hours (JNum (NInt h)) = Some (NInt h)" by (simp add: reauth_hours_Some)
  with h(2) nm show ?thesis
    by (simp add: toVtzSpecInput_def spec_json_def is_object_def get_prop_def as_string_def as_bool_def
        as_array_def coalesce_def nullish_def)
qed

text \<open>A node of the engine that has the fields of a specification.\<close>

definition echoes :: "WireVtzSpec \<Rightarrow> WireVtzTreeNode \<Rightarrow> bool" where
  "echoes wire node \<longleftrightarrow>
     tn_name node = vs_name wire \<and> tn_zone_type node = vs_zone_type wire \<and>
     tn_lifecycle node = vs_lifecycle wire \<and> tn_telemetry node = vs_telemetry wire \<and>
     tn_micro_segmentation node = vs_micro_segmentation wire \<and>
     tn_reauth_interval_hours node = vs_reauth_interval_hours wire \<and>
     tn_own_postures node = vs_own_postures wire"

definition shows_spec :: "VtzSpecInput \<Rightarrow> VtzZone \<Rightarrow> bool" where
  "shows_spec spec z \<longleftrightarrow>
     z_name z = si_name spec \<and> z_zoneType z = si_zoneType spec \<and> z_lifecycle z = si_lifecycle spec \<and>
     z_telemetry z = si_telemetry spec \<and> z_microSegmentation z = si_microSegmentation spec \<and>
     z_reauthIntervalHours z = si_reauthIntervalHours spec \<and>
     z_ownPostures z = sort_key (\<lambda>p. domain_rank (dpv_domain p)) (si_ownPostures spec)"

lemma echoed_zone: "echoes (toWireVtzSpec spec) node \<Longrightarrow> toVtzZone node = Some z \<Longrightarrow> shows_spec spec z"
  by (auto simp: echoes_def shows_spec_def toWireVtzSpec_def toVtzZone_def toDomainPostures_def split: option.splits)

text \<open>
  A request body authors a zone only with a name that is not blank and a session
  duration of 1 to 24 whole hours; every such zone can be authored, by the body that spells
  its fields out; and when the engine then shows the zone with the fields of the
  specification it was sent, the console shows what was authored, with every authored
  posture in the fixed order of domains.
\<close>
theorem zone_authoring:
  assumes "toVtzSpecInput body = Some spec"
  shows "spec_ok spec \<and> toVtzSpecInput (spec_json spec) = Some spec \<and>
    (\<forall>node z. echoes (toWireVtzSpec spec) node \<longrightarrow> toVtzZone node = Some z \<longrightarrow> shows_spec spec z)"
  using toVtzSpecInput_ok [OF assms] toVtzSpecInput_json echoed_zone by blast

definition sample_spec :: VtzSpecInput where
  "sample_spec = \<lparr>si_name = ''Corp.Finance'', si_description = [], si_zoneType = Isolation,
     si_ownPostures = [\<lparr>dpv_domain = Memory, dpv_posture = PermitDenyRisky, dpv_floor = False\<rparr>,
                       \<lparr>dpv_domain = Execution, dpv_posture = DenyPosture, dpv_floor = True\<rparr>],
     si_microSegmentation = True, si_telemetry = FullTelemetry, si_reauthIntervalHours = NInt 8,
     si_lifecycle = Draft\<rparr>"

definition sample_node :: WireVtzTreeNode where
  "sample_node = \<lparr>tn_id = ''Corp.Finance'', tn_name = ''Corp.Finance'', tn_parent = Some ''Corp'',
     tn_zone_type = ''isolation'', tn_lifecycle = ''draft'', tn_micro_segmentation = True,
     tn_telemetry = ''full'', tn_reauth_interval_hours = NInt 8,
     tn_own_postures = vs_own_postures (toWireVtzSpec sample_spec), tn_effective_postures = [],
     tn_sub_zone_count = NInt 0\<rparr>"

theorem zone_authoring_witness:
  "spec_ok sample_spec \<and>
   (case toVtzZone sample_node of None \<Rightarrow> False
    | Some z \<Rightarrow> map dpv_domain (z_ownPostures z) = [Execution, Memory])"
proof -
  have "trim ''Corp.Finance'' = ''Corp.Finance''" by code_simp
  then have "spec_ok sample_spec" by (simp add: spec_ok_def sample_spec_def)
  then have accepted: "toVtzSpecInput (spec_json sample_spec) = Some sample_spec" by (rule toVtzSpecInput_json)
  have "toVtzZone sample_node \<noteq> None" by code_simp
  then obtain z where z: "toVtzZone sample_node = Some z" by blast
  have "echoes (toWireVtzSpec sample_spec) sample_node" by code_simp
  with zone_authoring [OF accepted] z have "spec_ok sample_spec" "shows_spec sample_spec z" by blast+
  then show ?thesis
    by (simp add: z shows_spec_def sample_spec_def domain_rank_def VTZ_OBJECT_DOMAINS_def)
qed

end
