(* ===== verification/Policies.thy ===== *)
theory Policies
  imports Vtz
begin

text \<open>
  Policies: \<open>packages/contracts/src/policies.ts\<close>.  The projections of the policy list,
  detail and receipts, the way a draft takes to the wire, and the parser of untrusted
  draft bodies, one definition per axis as in the source.
\<close>

section \<open>Registries\<close>

datatype PolicyAction = Permit | Monitor | Quarantine | Deny

fun action_tag :: "PolicyAction \<Rightarrow> string" where
  "action_tag Permit = ''permit''"
| "action_tag Monitor = ''monitor''"
| "action_tag Quarantine = ''quarantine''"
| "action_tag Deny = ''deny''"

definition POLICY_ACTIONS :: "PolicyAction list" where
  "POLICY_ACTIONS = [Permit, Monitor, Quarantine, Deny]"

datatype PolicyLogging = FullLogging | SampledLogging | OffLogging

fun logging_tag :: "PolicyLogging \<Rightarrow> string" where
  "logging_tag FullLogging = ''full''"
| "logging_tag SampledLogging = ''sampled''"
| "logging_tag OffLogging = ''off''"

definition POLICY_LOGGING :: "PolicyLogging list" where
  "POLICY_LOGGING = [FullLogging, SampledLogging, OffLogging]"

datatype PolicyProtocol = Tcp | Udp | Https | Ssh

fun protocol_tag :: "PolicyProtocol \<Rightarrow> string" where
  "protocol_tag Tcp = ''tcp''"
| "protocol_tag Udp = ''udp''"
| "protocol_tag Https = ''https''"
| "protocol_tag Ssh = ''ssh''"

definition POLICY_PROTOCOLS :: "PolicyProtocol list" where
  "POLICY_PROTOCOLS = [Tcp, Udp, Https, Ssh]"

definition POLICY_LIFECYCLES :: "Lifecycle list" where
  "POLICY_LIFECYCLES = [Draft, Published]"

datatype ScheduleDay = Mon | Tue | Wed | Thu | Fri | Sat | Sun

fun day_tag :: "ScheduleDay \<Rightarrow> string" where
  "day_tag Mon = ''mon''"
| "day_tag Tue = ''tue''"
| "day_tag Wed = ''wed''"
| "day_tag Thu = ''thu''"
| "day_tag Fri = ''fri''"
| "day_tag Sat = ''sat''"
| "day_tag Sun = ''sun''"

definition SCHEDULE_DAYS :: "ScheduleDay list" where
  "SCHEDULE_DAYS = [Mon, Tue, Wed, Thu, Fri, Sat, Sun]"

datatype PolicyClassification = Unclassified | Internal | Confidential | Restricted | Secret

fun classification_tag :: "PolicyClassification \<Rightarrow> string" where
  "classification_tag Unclassified = ''unclassified''"
| "classification_tag Internal = ''internal''"
| "classification_tag Confidential = ''confidential''"
| "classification_tag Restricted = ''restricted''"
| "classification_tag Secret = ''secret''"

definition POLICY_CLASSIFICATIONS :: "PolicyClassification list" where
  "POLICY_CLASSIFICATIONS = [Unclassified, Internal, Confidential, Restricted, Secret]"

definition toAction :: "string \<Rightarrow> PolicyAction option" where
  "toAction = narrow_in POLICY_ACTIONS action_tag"

definition toLogging :: "string \<Rightarrow> PolicyLogging option" where
  "toLogging = narrow_in POLICY_LOGGING logging_tag"

definition toProtocol :: "string \<Rightarrow> PolicyProtocol option" where
  "toProtocol = narrow_in POLICY_PROTOCOLS protocol_tag"

definition toPolicyLifecycle :: "string \<Rightarrow> Lifecycle option" where
  "toPolicyLifecycle = narrow_in POLICY_LIFECYCLES lifecycle_tag"

definition toScheduleDay :: "string \<Rightarrow> ScheduleDay option" where
  "toScheduleDay = narrow_in SCHEDULE_DAYS day_tag"

definition toClassification :: "string \<Rightarrow> PolicyClassification option" where
  "toClassification = narrow_in POLICY_CLASSIFICATIONS classification_tag"

lemma action_listed: "a \<in> set POLICY_ACTIONS"
  by (cases a) (simp_all add: POLICY_ACTIONS_def)

interpretation action: tag_list POLICY_ACTIONS action_tag
  rewrites "narrow_in POLICY_ACTIONS action_tag = toAction"
  by (unfold_locales, rule action_listed, simp_all add: POLICY_ACTIONS_def toAction_def)

lemma logging_listed: "a \<in> set POLICY_LOGGING"
  by (cases a) (simp_all add: POLICY_LOGGING_def)

interpretation logging: tag_list POLICY_LOGGING logging_tag
  rewrites "narrow_in POLICY_LOGGING logging_tag = toLogging"
  by (unfold_locales, rule logging_listed, simp_all add: POLICY_LOGGING_def toLogging_def)

lemma protocol_listed: "a \<in> set POLICY_PROTOCOLS"
  by (cases a) (simp_all add: POLICY_PROTOCOLS_def)

interpretation protocol: tag_list POLICY_PROTOCOLS protocol_tag
  rewrites "narrow_in POLICY_PROTOCOLS protocol_tag = toProtocol"
  by (unfold_locales, rule protocol_listed, simp_all add: POLICY_PROTOCOLS_def toProtocol_def)

lemma policy_lifecycle_listed: "a \<in> set POLICY_LIFECYCLES"
  by (cases a) (simp_all add: POLICY_LIFECYCLES_def)

interpretation policy_lifecycle: tag_list POLICY_LIFECYCLES lifecycle_tag
  rewrites "narrow_in POLICY_LIFECYCLES lifecycle_tag = toPolicyLifecycle"
  by (unfold_locales, rule policy_lifecycle_listed, simp_all add: POLICY_LIFECYCLES_def toPolicyLifecycle_def)

lemma day_listed: "a \<in> set SCHEDULE_DAYS"
  by (cases a) (simp_all add: SCHEDULE_DAYS_def)

interpretation day: tag_list SCHEDULE_DAYS day_tag
  rewrites "narrow_in SCHEDULE_DAYS day_tag = toScheduleDay"
  by (unfold_locales, rule day_listed, simp_all add: SCHEDULE_DAYS_def toScheduleDay_def)

lemma classification_listed: "a \<in> set POLICY_CLASSIFICATIONS"
  by (cases a) (simp_all add: POLICY_CLASSIFICATIONS_def)

interpretation classification: tag_list POLICY_CLASSIFICATIONS classification_tag
  rewrites "narrow_in POLICY_CLASSIFICATIONS classification_tag = toClassification"
  by (unfold_locales, rule classification_listed, simp_all add: POLICY_CLASSIFICATIONS_def toClassification_def)

section \<open>Records\<close>

text \<open>A record of the store has the fields of a specification and three the store owns.\<close>

record WirePolicyRecord = WirePolicySpec +
  rec_id :: string
  rec_lifecycle :: string
  rec_version :: string

record WirePolicyZone =
  pz_vtz :: string
  pz_policies :: "WirePolicyRecord list"

record WirePolicyList =
  pl_zones :: "WirePolicyZone list"

record WirePolicyVersionRow =
  pvr_version :: string
  pvr_lifecycle :: string

record WirePolicyDetail =
  wpd_record :: "WirePolicyRecord option"
  wpd_versions :: "WirePolicyVersionRow list"

record WirePolicyMutated =
  mut_id :: string
  mut_version :: string
  mut_lifecycle :: string
  mut_breaking :: "bool option"

record RuleEndpoint =
  re_kind :: ObjectKind
  re_selectorKind :: SelectorKind
  re_selectorValue :: string

record PolicyRule =
  rl_source :: RuleEndpoint
  rl_destination :: RuleEndpoint
  rl_action :: PolicyAction

record NetworkMatchView =
  nm_protocols :: "PolicyProtocol list"
  nm_ports :: string

record PolicyRestrictionsView =
  rv_scheduleDays :: "ScheduleDay list"
  rv_scheduleStartMinute :: "jsnum option"
  rv_scheduleEndMinute :: "jsnum option"
  rv_activeFrom :: "jsnum option"
  rv_activeUntil :: "jsnum option"
  rv_geo :: "string list"
  rv_tags :: "string list"

record AppliedToMember =
  at_endpointCn :: string
  at_agent :: "string option"

record PolicyDraft =
  p_vtz :: string
  p_name :: string
  p_description :: string
  p_rules :: "PolicyRule list"
  p_network :: NetworkMatchView
  p_restrictions :: PolicyRestrictionsView
  p_logging :: PolicyLogging
  p_appliedTo :: "AppliedToMember list"
  p_maxClassification :: PolicyClassification

record PolicyRow = PolicyDraft +
  p_id :: string
  p_version :: string
  p_lifecycle :: Lifecycle

record PolicyZoneGroup =
  pg_vtz :: string
  pg_policies :: "PolicyRow list"

record PolicyVersionView =
  pv_version :: string
  pv_lifecycle :: Lifecycle

record PolicyDetailView =
  pd_policy :: "PolicyRow option"
  pd_versions :: "PolicyVersionView list"

record PolicyMutation =
  pm_id :: string
  pm_version :: string
  pm_lifecycle :: Lifecycle
  pm_breaking :: bool

record PolicyDeleted =
  pdel_id :: string

section \<open>Projections\<close>

definition toRuleEndpoint :: "string \<Rightarrow> string \<Rightarrow> string \<Rightarrow> RuleEndpoint option" where
  "toRuleEndpoint kind selectorKind selectorValue = (case (toKind kind, toSelectorKind selectorKind) of
       (Some objectKind, Some selector) \<Rightarrow>
         Some \<lparr>re_kind = objectKind, re_selectorKind = selector, re_selectorValue = selectorValue\<rparr>
     | _ \<Rightarrow> None)"

definition toPolicyRule :: "WirePolicyRule \<Rightarrow> PolicyRule option" where
  "toPolicyRule rule =
     (case (toRuleEndpoint (pr_source_kind rule) (pr_source_selector_kind rule) (pr_source_selector_value rule),
            toRuleEndpoint (pr_destination_kind rule) (pr_destination_selector_kind rule)
              (pr_destination_selector_value rule),
            toAction (pr_action rule)) of
        (Some source, Some destination, Some action) \<Rightarrow>
          Some \<lparr>rl_source = source, rl_destination = destination, rl_action = action\<rparr>
      | _ \<Rightarrow> None)"

text \<open>\<open>xs ?? []\<close>\<close>

definition or_empty :: "'a list option \<Rightarrow> 'a list" where
  "or_empty xs = (case xs of None \<Rightarrow> [] | Some ys \<Rightarrow> ys)"

definition toProtocols :: "string list option \<Rightarrow> PolicyProtocol list option" where
  "toProtocols tags = traverse toProtocol (or_empty tags)"

definition toScheduleDays :: "string list option \<Rightarrow> ScheduleDay list option" where
  "toScheduleDays tags = traverse toScheduleDay (or_empty tags)"

definition toAppliedToMember :: "WireScopeMember \<Rightarrow> AppliedToMember" where
  "toAppliedToMember m = \<lparr>at_endpointCn = sm_endpoint_cn m, at_agent = sm_agent m\<rparr>"

definition toPolicyRow :: "WirePolicyRecord \<Rightarrow> PolicyRow option" where
  "toPolicyRow r = do {
     lifecycle \<leftarrow> toPolicyLifecycle (rec_lifecycle r);
     logging \<leftarrow> toLogging (sp_logging r);
     maxClassification \<leftarrow> toClassification (sp_max_classification r);
     protocols \<leftarrow> toProtocols (sp_protocols r);
     scheduleDays \<leftarrow> toScheduleDays (sp_schedule_days r);
     rules \<leftarrow> traverse toPolicyRule (sp_rules r);
     Some \<lparr>p_vtz = sp_vtz r, p_name = sp_name r, p_description = sp_description r, p_rules = rules,
           p_network = \<lparr>nm_protocols = protocols, nm_ports = or_empty (sp_ports r)\<rparr>,
           p_restrictions =
             \<lparr>rv_scheduleDays = scheduleDays, rv_scheduleStartMinute = sp_schedule_start_minute r,
              rv_scheduleEndMinute = sp_schedule_end_minute r, rv_activeFrom = sp_active_from r,
              rv_activeUntil = sp_active_until r, rv_geo = or_empty (sp_geo r),
              rv_tags = or_empty (sp_restriction_tags r)\<rparr>,
           p_logging = logging, p_appliedTo = map toAppliedToMember (or_empty (sp_applied_to r)),
           p_maxClassification = maxClassification, p_id = rec_id r, p_version = rec_version r,
           p_lifecycle = lifecycle\<rparr>
   }"

definition toPolicyZone :: "WirePolicyZone \<Rightarrow> PolicyZoneGroup option" where
  "toPolicyZone zone = do {
     policies \<leftarrow> traverse toPolicyRow (pz_policies zone);
     Some \<lparr>pg_vtz = pz_vtz zone, pg_policies = policies\<rparr>
   }"

definition toPolicyZones :: "WirePolicyList \<Rightarrow> PolicyZoneGroup list option" where
  "toPolicyZones ps = traverse toPolicyZone (pl_zones ps)"

definition toPolicyVersion :: "WirePolicyVersionRow \<Rightarrow> PolicyVersionView option" where
  "toPolicyVersion v = do {
     lifecycle \<leftarrow> toPolicyLifecycle (pvr_lifecycle v);
     Some \<lparr>pv_version = pvr_version v, pv_lifecycle = lifecycle\<rparr>
   }"

definition toPolicyDetail :: "WirePolicyDetail \<Rightarrow> PolicyDetailView option" where
  "toPolicyDetail detail = do {
     versions \<leftarrow> traverse toPolicyVersion (wpd_versions detail);
     (case wpd_record detail of
        None \<Rightarrow> Some \<lparr>pd_policy = None, pd_versions = versions\<rparr>
      | Some r \<Rightarrow> do {
          policy \<leftarrow> toPolicyRow r;
          Some \<lparr>pd_policy = Some policy, pd_versions = versions\<rparr>
        })
   }"

definition wire_rule :: "PolicyRule \<Rightarrow> WirePolicyRule" where
  "wire_rule rule =
     \<lparr>pr_source_kind = object_kind_tag (re_kind (rl_source rule)),
      pr_source_selector_kind = selector_kind_tag (re_selectorKind (rl_source rule)),
      pr_source_selector_value = re_selectorValue (rl_source rule),
      pr_destination_kind = object_kind_tag (re_kind (rl_destination rule)),
      pr_destination_selector_kind = selector_kind_tag (re_selectorKind (rl_destination rule)),
      pr_destination_selector_value = re_selectorValue (rl_destination rule),
      pr_action = action_tag (rl_action rule)\<rparr>"

definition wire_member :: "AppliedToMember \<Rightarrow> WireScopeMember" where
  "wire_member m = \<lparr>sm_endpoint_cn = at_endpointCn m, sm_agent = at_agent m\<rparr>"

text \<open>\<open>if (xs.length > 0) spec.axis = [...xs]\<close>: an empty axis is left out.\<close>

definition unless_empty :: "'a list \<Rightarrow> 'a list option" where
  "unless_empty xs = (if xs = [] then None else Some xs)"

definition toWirePolicySpec :: "PolicyDraft \<Rightarrow> WirePolicySpec" where
  "toWirePolicySpec d =
     \<lparr>sp_vtz = p_vtz d, sp_name = p_name d, sp_description = p_description d,
      sp_rules = map wire_rule (p_rules d),
      sp_protocols = unless_empty (map protocol_tag (nm_protocols (p_network d))),
      sp_ports = unless_empty (nm_ports (p_network d)),
      sp_schedule_days = unless_empty (map day_tag (rv_scheduleDays (p_restrictions d))),
      sp_schedule_start_minute = rv_scheduleStartMinute (p_restrictions d),
      sp_schedule_end_minute = rv_scheduleEndMinute (p_restrictions d),
      sp_active_from = rv_activeFrom (p_restrictions d), sp_active_until = rv_activeUntil (p_restrictions d),
      sp_geo = unless_empty (rv_geo (p_restrictions d)),
      sp_restriction_tags = unless_empty (rv_tags (p_restrictions d)),
      sp_logging = logging_tag (p_logging d),
      sp_applied_to = unless_empty (map wire_member (p_appliedTo d)),
      sp_max_classification = classification_tag (p_maxClassification d),
      sp_default_postures = None\<rparr>"

definition toPolicyDeleted :: "WirePolicyMutated \<Rightarrow> PolicyDeleted option" where
  "toPolicyDeleted reply = (if mut_id reply = [] then None else Some \<lparr>pdel_id = mut_id reply\<rparr>)"

definition toPolicyMutation :: "WirePolicyMutated \<Rightarrow> PolicyMutation option" where
  "toPolicyMutation reply = do {
     lifecycle \<leftarrow> toPolicyLifecycle (mut_lifecycle reply);
     Some \<lparr>pm_id = mut_id reply, pm_version = mut_version reply, pm_lifecycle = lifecycle,
           pm_breaking = (case mut_breaking reply of None \<Rightarrow> False | Some b \<Rightarrow> b)\<rparr>
   }"

section \<open>Untrusted drafts\<close>

definition toEndpointInput :: "jsval \<Rightarrow> RuleEndpoint option" where
  "toEndpointInput raw = (if \<not> is_object raw then None else do {
     kind \<leftarrow> narrow_string toKind (get_prop raw ''kind'');
     selectorKind \<leftarrow> narrow_string toSelectorKind (get_prop raw ''selectorKind'');
     selectorValue \<leftarrow> as_string (get_prop raw ''selectorValue'');
     Some \<lparr>re_kind = kind, re_selectorKind = selectorKind, re_selectorValue = selectorValue\<rparr>
   })"

definition toRuleInput :: "jsval \<Rightarrow> PolicyRule option" where
  "toRuleInput raw = (if \<not> is_object raw then None else do {
     source \<leftarrow> toEndpointInput (get_prop raw ''source'');
     destination \<leftarrow> toEndpointInput (get_prop raw ''destination'');
     action \<leftarrow> narrow_string toAction (get_prop raw ''action'');
     Some \<lparr>rl_source = source, rl_destination = destination, rl_action = action\<rparr>
   })"

definition toNetworkInput :: "jsval \<Rightarrow> NetworkMatchView option" where
  "toNetworkInput raw =
     (if nullish raw then Some \<lparr>nm_protocols = [], nm_ports = []\<rparr>
      else if \<not> is_object raw then None
      else do {
        rawProtocols \<leftarrow> as_array (coalesce (get_prop raw ''protocols'') (JArr []));
        protocols \<leftarrow> traverse (narrow_string toProtocol) rawProtocols;
        ports \<leftarrow> (if get_prop raw ''ports'' = JUndef then Some [] else as_string (get_prop raw ''ports''));
        Some \<lparr>nm_protocols = protocols, nm_ports = ports\<rparr>
      })"

text \<open>\<open>Number.isFinite\<close>\<close>

definition isFinite :: "jsnum \<Rightarrow> bool" where
  "isFinite n = (case n of NInt _ \<Rightarrow> True | NFlt b \<Rightarrow> b div 2 ^ 52 mod 2 ^ 11 \<noteq> 2047)"

text \<open>\<open>{ ok: true, value }\<close> is \<open>Some value\<close>, \<open>{ ok: false }\<close> is \<open>None\<close>.\<close>

definition toEpochInput :: "jsval \<Rightarrow> jsnum option option" where
  "toEpochInput raw =
     (if nullish raw then Some None
      else case raw of JNum n \<Rightarrow> if isFinite n then Some (Some n) else None | _ \<Rightarrow> None)"

definition toStringArrayInput :: "jsval \<Rightarrow> string list option" where
  "toStringArrayInput raw =
     (if nullish raw then Some [] else do { items \<leftarrow> as_array raw; traverse as_string items })"

definition toRestrictionsInput :: "jsval \<Rightarrow> PolicyRestrictionsView option" where
  "toRestrictionsInput raw =
     (if nullish raw then
        Some \<lparr>rv_scheduleDays = [], rv_scheduleStartMinute = None, rv_scheduleEndMinute = None,
              rv_activeFrom = None, rv_activeUntil = None, rv_geo = [], rv_tags = []\<rparr>
      else if \<not> is_object raw then None
      else do {
        rawDays \<leftarrow> as_array (coalesce (get_prop raw ''scheduleDays'') (JArr []));
        scheduleDays \<leftarrow> traverse (narrow_string toScheduleDay) rawDays;
        start \<leftarrow> toEpochInput (get_prop raw ''scheduleStartMinute'');
        finish \<leftarrow> toEpochInput (get_prop raw ''scheduleEndMinute'');
        active_from \<leftarrow> toEpochInput (get_prop raw ''activeFrom'');
        active_until \<leftarrow> toEpochInput (get_prop raw ''activeUntil'');
        geo \<leftarrow> toStringArrayInput (get_prop raw ''geo'');
        tags \<leftarrow> toStringArrayInput (get_prop raw ''tags'');
        Some \<lparr>rv_scheduleDays = scheduleDays, rv_scheduleStartMinute = start, rv_scheduleEndMinute = finish,
              rv_activeFrom = active_from, rv_activeUntil = active_until, rv_geo = geo, rv_tags = tags\<rparr>
      })"

definition member_input :: "jsval \<Rightarrow> AppliedToMember option" where
  "member_input m = (if \<not> is_object m then None else do {
     endpointCn \<leftarrow> as_string (get_prop m ''endpointCn'');
     agent \<leftarrow> (if nullish (get_prop m ''agent'') then Some None
              else map_option Some (as_string (get_prop m ''agent'')));
     Some \<lparr>at_endpointCn = endpointCn, at_agent = agent\<rparr>
   })"

definition toAppliedToInput :: "jsval \<Rightarrow> AppliedToMember list option" where
  "toAppliedToInput raw =
     (if nullish raw then Some [] else do { items \<leftarrow> as_array raw; traverse member_input items })"

definition toPolicyDraftInput :: "jsval \<Rightarrow> PolicyDraft option" where
  "toPolicyDraftInput body =
     (if \<not> is_object body then None
      else let text = (\<lambda>k. case get_prop body k of JStr s \<Rightarrow> s | _ \<Rightarrow> []);
               policy_name = trim (text ''name''); vtz = trim (text ''vtz'')
      in if policy_name = [] \<or> vtz = [] then None else do {
        logging \<leftarrow> narrow_string toLogging (get_prop body ''logging'');
        maxClassification \<leftarrow> narrow_string toClassification (get_prop body ''maxClassification'');
        rawRules \<leftarrow> as_array (get_prop body ''rules'');
        if rawRules = [] then None else do {
        rules \<leftarrow> traverse toRuleInput rawRules;
        network \<leftarrow> toNetworkInput (get_prop body ''network'');
        restrictions \<leftarrow> toRestrictionsInput (get_prop body ''restrictions'');
        appliedTo \<leftarrow> toAppliedToInput (get_prop body ''appliedTo'');
        Some \<lparr>p_vtz = vtz, p_name = policy_name, p_description = text ''description'', p_rules = rules,
              p_network = network, p_restrictions = restrictions, p_logging = logging,
              p_appliedTo = appliedTo, p_maxClassification = maxClassification\<rparr>
      }})"

section \<open>Labels\<close>

fun policyActionLabel :: "PolicyAction \<Rightarrow> string" where
  "policyActionLabel Permit = ''Permit''"
| "policyActionLabel Monitor = ''Monitor''"
| "policyActionLabel Quarantine = ''Quarantine''"
| "policyActionLabel Deny = ''Deny''"

fun policyLoggingLabel :: "PolicyLogging \<Rightarrow> string" where
  "policyLoggingLabel FullLogging = ''Full''"
| "policyLoggingLabel SampledLogging = ''Sampled''"
| "policyLoggingLabel OffLogging = ''Off''"

fun policyProtocolLabel :: "PolicyProtocol \<Rightarrow> string" where
  "policyProtocolLabel Tcp = ''TCP''"
| "policyProtocolLabel Udp = ''UDP''"
| "policyProtocolLabel Https = ''HTTPS''"
| "policyProtocolLabel Ssh = ''SSH''"


section \<open>Rows and records\<close>

lemma toRuleEndpoint_Some:
  "toRuleEndpoint k s v = Some e \<longleftrightarrow>
     k = object_kind_tag (re_kind e) \<and> s = selector_kind_tag (re_selectorKind e) \<and> v = re_selectorValue e"
  by (cases e) (auto simp: toRuleEndpoint_def object_kind.project_Some selector_kind.project_Some
      object_kind.render_inject selector_kind.render_inject split: option.splits)

interpretation policy_rule: exact_projection wire_rule toPolicyRule
proof
  have ends: "toRuleEndpoint (object_kind_tag (re_kind e)) (selector_kind_tag (re_selectorKind e))
      (re_selectorValue e) = Some e" for e
    by (simp add: toRuleEndpoint_Some)
  show "toPolicyRule (wire_rule r) = Some r" for r
    by (simp add: toPolicyRule_def wire_rule_def ends)
  show "wire_rule r = w" if "toPolicyRule w = Some r" for r w
    using that by (auto simp: toPolicyRule_def wire_rule_def toRuleEndpoint_Some action.project_Some
        split: option.splits)
qed

lemma member_inverse [simp]: "toAppliedToMember (wire_member m) = m" "wire_member (toAppliedToMember w) = w"
  by (simp_all add: toAppliedToMember_def wire_member_def)

lemma map_member_inverse [simp]:
  "map (toAppliedToMember \<circ> wire_member) ms = ms" "map (wire_member \<circ> toAppliedToMember) ws = ws"
  by (simp_all add: o_def)

lemma or_unless_empty [simp]: "or_empty (unless_empty xs) = xs"
  by (simp add: or_empty_def unless_empty_def)

lemma unless_empty_map: "unless_empty (map f xs) = map_option (map f) (unless_empty xs)"
  by (simp add: unless_empty_def)

text \<open>
  The record of a row, and the records it stands for: an axis may be absent or empty, and
  the default postures are not shown.
\<close>

definition record_of_row :: "PolicyRow \<Rightarrow> WirePolicyRecord" where
  "record_of_row row = WirePolicySpec.extend (toWirePolicySpec (PolicyDraft.truncate row))
     (WirePolicyRecord.fields (p_id row) (lifecycle_tag (p_lifecycle row)) (p_version row))"

definition canonical :: "WirePolicyRecord \<Rightarrow> WirePolicyRecord" where
  "canonical r = r\<lparr>sp_protocols := unless_empty (or_empty (sp_protocols r)),
     sp_ports := unless_empty (or_empty (sp_ports r)),
     sp_schedule_days := unless_empty (or_empty (sp_schedule_days r)),
     sp_geo := unless_empty (or_empty (sp_geo r)),
     sp_restriction_tags := unless_empty (or_empty (sp_restriction_tags r)),
     sp_applied_to := unless_empty (or_empty (sp_applied_to r)), sp_default_postures := None\<rparr>"

lemmas record_of_row_unfold = record_of_row_def toWirePolicySpec_def WirePolicySpec.defs
  WirePolicyRecord.defs PolicyDraft.defs

interpretation policy_row: projection record_of_row toPolicyRow
proof
  show "toPolicyRow (record_of_row row) = Some row" for row
    by (cases row) (simp add: toPolicyRow_def record_of_row_unfold toProtocols_def toScheduleDays_def)
qed

lemma toPolicyRow_Some: "toPolicyRow r = Some row \<longleftrightarrow> canonical r = record_of_row row"
proof
  assume "toPolicyRow r = Some row"
  then show "canonical r = record_of_row row"
    by (auto simp: toPolicyRow_def Option.bind_eq_Some_conv toProtocols_def toScheduleDays_def canonical_def
        record_of_row_unfold policy_lifecycle.project_Some logging.project_Some classification.project_Some
        protocol.traverse_Some_render day.traverse_Some_render policy_rule.traverse_Some_render)
next
  have "toPolicyRow (canonical r) = toPolicyRow r"
    by (simp add: canonical_def toPolicyRow_def toProtocols_def toScheduleDays_def)
  moreover assume "canonical r = record_of_row row"
  ultimately show "toPolicyRow r = Some row" by (metis policy_row.project_render)
qed

text \<open>A record with no tag outside the registries.\<close>

definition known_policy :: "WirePolicyRecord \<Rightarrow> bool" where
  "known_policy r \<longleftrightarrow> rec_lifecycle r \<in> range lifecycle_tag \<and> sp_logging r \<in> range logging_tag \<and>
     sp_max_classification r \<in> range classification_tag \<and>
     set (or_empty (sp_protocols r)) \<subseteq> range protocol_tag \<and>
     set (or_empty (sp_schedule_days r)) \<subseteq> range day_tag \<and> set (sp_rules r) \<subseteq> range wire_rule"

lemma toPolicyRow_None: "toPolicyRow r = None \<longleftrightarrow> \<not> known_policy r"
  by (auto simp: toPolicyRow_def Option.bind_eq_None_conv toProtocols_def toScheduleDays_def known_policy_def
      policy_lifecycle.project_None [symmetric] logging.project_None [symmetric]
      classification.project_None [symmetric] protocol.traverse_None_render [symmetric]
      day.traverse_None_render [symmetric] policy_rule.traverse_None_render [symmetric])

lemma policy_rows:
  "case traverse toPolicyRow rs of
     None \<Rightarrow> \<not> list_all known_policy rs
   | Some rows \<Rightarrow> list_all known_policy rs \<and> map record_of_row rows = map canonical rs"
proof (induction rs)
  case (Cons r rs)
  show ?case
  proof (cases "toPolicyRow r")
    case None
    moreover from this have "\<not> known_policy r" using toPolicyRow_None by blast
    ultimately show ?thesis by simp
  next
    case (Some row)
    moreover from this have "canonical r = record_of_row row" using toPolicyRow_Some by blast
    moreover from Some have "known_policy r" using toPolicyRow_None [of r] by simp
    ultimately show ?thesis using Cons.IH by (auto split: option.splits)
  qed
qed simp

text \<open>
  The policy list is shown whole or not at all: it is refused exactly when some
  record of some zone has a tag the console does not know (lifecycle, logging,
  classification, protocol, day, or an object kind, selector or action of a rule), and
  otherwise every zone shows one row per record, in order, and each row determines
  its record up to axes that are absent or empty and the default postures.
\<close>
theorem policy_list_faithful:
  "let known = list_all (\<lambda>zone. list_all known_policy (pz_policies zone)) (pl_zones ps) in
   case toPolicyZones ps of
     None \<Rightarrow> \<not> known
   | Some groups \<Rightarrow> known \<and> map pg_vtz groups = map pz_vtz (pl_zones ps) \<and>
       map (\<lambda>g. map record_of_row (pg_policies g)) groups = map (\<lambda>z. map canonical (pz_policies z)) (pl_zones ps)"
proof -
  have "case traverse toPolicyZone zones of
      None \<Rightarrow> \<not> list_all (\<lambda>zone. list_all known_policy (pz_policies zone)) zones
    | Some groups \<Rightarrow> list_all (\<lambda>zone. list_all known_policy (pz_policies zone)) zones \<and>
        map pg_vtz groups = map pz_vtz zones \<and>
        map (\<lambda>g. map record_of_row (pg_policies g)) groups = map (\<lambda>z. map canonical (pz_policies z)) zones" for zones
  proof (induction zones)
    case (Cons zone zones)
    then show ?case using policy_rows [of "pz_policies zone"]
      by (auto simp: toPolicyZone_def split: option.splits)
  qed simp
  then show ?thesis by (simp add: toPolicyZones_def)
qed


section \<open>Accepted drafts\<close>

definition finite_opt :: "jsnum option \<Rightarrow> bool" where
  "finite_opt x = (case x of None \<Rightarrow> True | Some n \<Rightarrow> isFinite n)"

definition restrictions_ok :: "PolicyRestrictionsView \<Rightarrow> bool" where
  "restrictions_ok v \<longleftrightarrow> finite_opt (rv_scheduleStartMinute v) \<and> finite_opt (rv_scheduleEndMinute v) \<and>
     finite_opt (rv_activeFrom v) \<and> finite_opt (rv_activeUntil v)"

definition draft_ok :: "PolicyDraft \<Rightarrow> bool" where
  "draft_ok d \<longleftrightarrow> p_name d \<noteq> [] \<and> trim (p_name d) = p_name d \<and> p_vtz d \<noteq> [] \<and> trim (p_vtz d) = p_vtz d \<and>
     p_rules d \<noteq> [] \<and> restrictions_ok (p_restrictions d)"

text \<open>The body that spells out a draft.\<close>

definition null_or :: "('a \<Rightarrow> jsval) \<Rightarrow> 'a option \<Rightarrow> jsval" where
  "null_or f x = (case x of None \<Rightarrow> JNull | Some y \<Rightarrow> f y)"

definition endpoint_json :: "RuleEndpoint \<Rightarrow> jsval" where
  "endpoint_json e = JObj [(''kind'', JStr (object_kind_tag (re_kind e))),
     (''selectorKind'', JStr (selector_kind_tag (re_selectorKind e))),
     (''selectorValue'', JStr (re_selectorValue e))]"

definition rule_json :: "PolicyRule \<Rightarrow> jsval" where
  "rule_json r = JObj [(''source'', endpoint_json (rl_source r)),
     (''destination'', endpoint_json (rl_destination r)), (''action'', JStr (action_tag (rl_action r)))]"

definition network_json :: "NetworkMatchView \<Rightarrow> jsval" where
  "network_json n = JObj [(''protocols'', JArr (map (JStr \<circ> protocol_tag) (nm_protocols n))),
     (''ports'', JStr (nm_ports n))]"

definition restrictions_json :: "PolicyRestrictionsView \<Rightarrow> jsval" where
  "restrictions_json v = JObj
     [(''scheduleDays'', JArr (map (JStr \<circ> day_tag) (rv_scheduleDays v))),
      (''scheduleStartMinute'', null_or JNum (rv_scheduleStartMinute v)),
      (''scheduleEndMinute'', null_or JNum (rv_scheduleEndMinute v)),
      (''activeFrom'', null_or JNum (rv_activeFrom v)), (''activeUntil'', null_or JNum (rv_activeUntil v)),
      (''geo'', JArr (map JStr (rv_geo v))), (''tags'', JArr (map JStr (rv_tags v)))]"

definition member_json :: "AppliedToMember \<Rightarrow> jsval" where
  "member_json m = JObj [(''endpointCn'', JStr (at_endpointCn m)), (''agent'', null_or JStr (at_agent m))]"

definition draft_json :: "PolicyDraft \<Rightarrow> jsval" where
  "draft_json d = JObj
     [(''vtz'', JStr (p_vtz d)), (''name'', JStr (p_name d)), (''description'', JStr (p_description d)),
      (''rules'', JArr (map rule_json (p_rules d))), (''network'', network_json (p_network d)),
      (''restrictions'', restrictions_json (p_restrictions d)),
      (''logging'', JStr (logging_tag (p_logging d))),
      (''appliedTo'', JArr (map member_json (p_appliedTo d))),
      (''maxClassification'', JStr (classification_tag (p_maxClassification d)))]"

lemmas reading = is_object_def get_prop_def as_string_def as_array_def coalesce_def nullish_def

interpretation endpoint_input: projection endpoint_json toEndpointInput
  by unfold_locales (simp add: toEndpointInput_def endpoint_json_def reading)

interpretation rule_input: projection rule_json toRuleInput
  by unfold_locales (simp add: toRuleInput_def rule_json_def reading)

interpretation member_input: projection member_json member_input
proof
  show "member_input (member_json m) = Some m" for m
    by (cases "at_agent m") (simp_all add: member_input_def member_json_def null_or_def reading)
qed

interpretation string_item: projection JStr as_string
  by unfold_locales (simp add: as_string_def)

interpretation protocol_input: projection "JStr \<circ> protocol_tag" "narrow_string toProtocol"
  by unfold_locales simp

interpretation day_input: projection "JStr \<circ> day_tag" "narrow_string toScheduleDay"
  by unfold_locales simp

interpretation network_input: projection network_json toNetworkInput
  by unfold_locales (simp add: toNetworkInput_def network_json_def reading del: map_map)

lemma toEpochInput_json: "finite_opt x \<Longrightarrow> toEpochInput (null_or JNum x) = Some x"
  by (cases x) (simp_all add: toEpochInput_def null_or_def finite_opt_def nullish_def)

lemma toEpochInput_finite: "toEpochInput raw = Some x \<Longrightarrow> finite_opt x"
  by (auto simp: toEpochInput_def finite_opt_def split: if_splits jsval.splits)

lemma toStringArrayInput_json: "toStringArrayInput (JArr (map JStr xs)) = Some xs"
  by (simp add: toStringArrayInput_def reading string_item.traverse_render [unfolded as_string_def])

lemma toRestrictionsInput_json:
  assumes "restrictions_ok v"
  shows "toRestrictionsInput (restrictions_json v) = Some v"
  using assms
  by (simp add: toRestrictionsInput_def restrictions_json_def restrictions_ok_def reading toEpochInput_json
      toStringArrayInput_json del: map_map)

lemma toRestrictionsInput_ok: "toRestrictionsInput raw = Some v \<Longrightarrow> restrictions_ok v"
  by (auto simp: toRestrictionsInput_def restrictions_ok_def finite_opt_def [of None] Option.bind_eq_Some_conv
      dest: toEpochInput_finite split: if_splits)

lemma toPolicyDraftInput_ok: "toPolicyDraftInput body = Some d \<Longrightarrow> draft_ok d"
  by (auto simp: toPolicyDraftInput_def draft_ok_def Let_def Option.bind_eq_Some_conv
      dest: toRestrictionsInput_ok traverse_length split: if_splits)

lemma toPolicyDraftInput_json: "draft_ok d \<Longrightarrow> toPolicyDraftInput (draft_json d) = Some d"
  by (simp add: toPolicyDraftInput_def draft_json_def draft_ok_def Let_def toRestrictionsInput_json
      toAppliedToInput_def reading del: map_map)

lemma stored_row:
  assumes spec: "WirePolicySpec.truncate r = toWirePolicySpec d" and l: "rec_lifecycle r = lifecycle_tag l"
  shows "toPolicyRow r = Some (PolicyDraft.extend d (PolicyRow.fields (rec_id r) (rec_version r) l))"
proof -
  let ?row = "PolicyDraft.extend d (PolicyRow.fields (rec_id r) (rec_version r) l)"
  have row: "PolicyDraft.truncate ?row = d" "p_id ?row = rec_id r" "p_lifecycle ?row = l" "p_version ?row = rec_version r"
    by (simp_all add: PolicyDraft.defs PolicyRow.defs)
  have "record_of_row ?row = WirePolicySpec.extend (WirePolicySpec.truncate r)
      (WirePolicyRecord.fields (rec_id r) (rec_lifecycle r) (rec_version r))"
    unfolding record_of_row_def row spec l ..
  also have "\<dots> = r" by (simp add: WirePolicySpec.defs WirePolicyRecord.defs)
  finally have "r = record_of_row ?row" by simp
  then show ?thesis by (metis policy_row.project_render)
qed

text \<open>
  C13. A request body becomes a policy draft only with a name and a zone that are not blank, at least
  one rule, and finite times; the body that spells such a draft out is read as that draft; and
  when the store keeps the specification the draft is compiled to, under an identifier and
  a version of its own, the console shows the draft again, rule by rule and axis by axis.
\<close>
theorem policy_authoring:
  assumes "toPolicyDraftInput body = Some d"
  shows "draft_ok d \<and> toPolicyDraftInput (draft_json d) = Some d \<and>
    (\<forall>r l. WirePolicySpec.truncate r = toWirePolicySpec d \<longrightarrow> rec_lifecycle r = lifecycle_tag l \<longrightarrow>
      toPolicyRow r = Some (PolicyDraft.extend d (PolicyRow.fields (rec_id r) (rec_version r) l)))"
  using toPolicyDraftInput_ok [OF assms] toPolicyDraftInput_json stored_row by blast

definition sample_draft :: PolicyDraft where
  "sample_draft = \<lparr>p_vtz = ''Corp'', p_name = ''Baseline'', p_description = [],
     p_rules = [\<lparr>rl_source = \<lparr>re_kind = GroupObject, re_selectorKind = GroupRef, re_selectorValue = ''staff''\<rparr>,
                 rl_destination = \<lparr>re_kind = UriObject, re_selectorKind = Glob, re_selectorValue = ''*''\<rparr>,
                 rl_action = Monitor\<rparr>],
     p_network = \<lparr>nm_protocols = [Https], nm_ports = ''443''\<rparr>,
     p_restrictions = \<lparr>rv_scheduleDays = [Mon], rv_scheduleStartMinute = Some (NInt 480),
                       rv_scheduleEndMinute = None, rv_activeFrom = None, rv_activeUntil = None,
                       rv_geo = [], rv_tags = []\<rparr>,
     p_logging = FullLogging, p_appliedTo = [\<lparr>at_endpointCn = ''host-a'', at_agent = None\<rparr>],
     p_maxClassification = Internal\<rparr>"

definition sample_record :: WirePolicyRecord where
  "sample_record = WirePolicySpec.extend (toWirePolicySpec sample_draft)
     (WirePolicyRecord.fields ''p-7'' ''draft'' ''1.0.0'')"

theorem policy_authoring_witness:
  "draft_ok sample_draft \<and>
   toPolicyRow sample_record = Some (PolicyDraft.extend sample_draft (PolicyRow.fields ''p-7'' ''1.0.0'' Draft))"
proof -
  have "trim ''Corp'' = ''Corp''" by code_simp
  moreover have "trim ''Baseline'' = ''Baseline''" by code_simp
  ultimately have "draft_ok sample_draft"
    by (simp add: draft_ok_def sample_draft_def restrictions_ok_def finite_opt_def isFinite_def)
  then have read: "toPolicyDraftInput (draft_json sample_draft) = Some sample_draft"
    by (rule toPolicyDraftInput_json)
  have "WirePolicySpec.truncate sample_record = toWirePolicySpec sample_draft"
    and "rec_lifecycle sample_record = lifecycle_tag Draft"
    and "rec_id sample_record = ''p-7''" "rec_version sample_record = ''1.0.0''"
    by (simp_all add: sample_record_def WirePolicySpec.defs WirePolicyRecord.defs)
  with policy_authoring [OF read] show ?thesis by metis
qed

end
