(* ===== verification/Forge.thy ===== *)
theory Forge
  imports Policies
begin

text \<open>
  Composing a policy bundle: \<open>packages/contracts/src/forge.ts\<close>.  The endpoint policy of a
  zone with the record of what it cannot carry, the rules and contributors of the
  effective policies, and the projection of the convergence ledger.
\<close>

section \<open>Bundle types\<close>

text \<open>\<open>Classification\<close> of \<open>generated/forge-dto.ts\<close>, whose tags are capitalised.\<close>

datatype Classification = CUnclassified | CInternal | CConfidential | CRestricted | CSecret

datatype ExecDisposition = DenyUnwrappedExec

record ResourceBound =
  rb_cpu_millicores :: jsnum
  rb_memory_bytes :: jsnum
  rb_pids :: jsnum
  rb_io_bytes_per_sec :: jsnum
  rb_cost_micros :: jsnum
  rb_storage_bytes :: jsnum
  rb_rate_per_sec :: jsnum

record ModelMcpDestSet =
  destinations :: "string list"

record EndpointPolicy =
  ep_max_classification :: Classification
  ep_brokered :: ModelMcpDestSet
  ep_restricted :: "string list"
  ep_allow_ordinary_internet :: bool
  ep_exec :: ExecDisposition
  ep_resource_bound :: ResourceBound

record Version =
  major :: jsnum
  minor :: jsnum
  patch :: jsnum

record PolicyVersionRef =
  pvref_policy :: string
  pvref_version :: Version

record BundleRule =
  br_policy_id :: string
  br_policy_version :: string
  br_source_kind :: string
  br_source_selector_kind :: string
  br_source_selector_value :: string
  br_destination_kind :: string
  br_destination_selector_kind :: string
  br_destination_selector_value :: string
  br_action :: string
  br_protocols :: "string list"
  br_ports :: string
  br_logging :: string

section \<open>The endpoint policy of a zone\<close>

definition EXPRESSIBLE_DOMAINS :: "VtzObjectDomain list" where
  "EXPRESSIBLE_DOMAINS = [OrdinaryNetwork, Execution]"

definition UNEXPRESSIBLE_ZONE_FIELDS :: "string list" where
  "UNEXPRESSIBLE_ZONE_FIELDS = [''microSegmentation'', ''telemetry'', ''reauthIntervalHours'', ''zoneType'']"

definition unexpressibleDomains :: "VtzObjectDomain list" where
  "unexpressibleDomains = filter (\<lambda>d. d \<notin> set EXPRESSIBLE_DOMAINS) VTZ_OBJECT_DOMAINS"

record UnexpressedDomain =
  ud_domain :: VtzObjectDomain
  ud_posture :: "VtzPosture option"

record ComposedEndpointPolicy =
  ce_policy :: EndpointPolicy
  ce_unexpressedDomains :: "UnexpressedDomain list"
  ce_unexpressedFields :: "string list"

definition FAIL_CLOSED_RESOURCE_BOUND :: ResourceBound where
  "FAIL_CLOSED_RESOURCE_BOUND =
     \<lparr>rb_cpu_millicores = NInt 0, rb_memory_bytes = NInt 0, rb_pids = NInt 0, rb_io_bytes_per_sec = NInt 0,
      rb_cost_micros = NInt 0, rb_storage_bytes = NInt 0, rb_rate_per_sec = NInt 0\<rparr>"

definition EXEC_FLOOR :: ExecDisposition where
  "EXEC_FLOOR = DenyUnwrappedExec"

definition FAIL_CLOSED_CLASSIFICATION :: Classification where
  "FAIL_CLOSED_CLASSIFICATION = CUnclassified"

text \<open>\<open>new Map(entries)\<close>: the last entry of a key wins.\<close>

definition effective_map :: "DomainPosture list \<Rightarrow> VtzObjectDomain \<Rightarrow> VtzPosture option" where
  "effective_map ps = foldl (\<lambda>m p. m(dpv_domain p \<mapsto> dpv_posture p)) (\<lambda>_. None) ps"

definition composeEndpointPolicy :: "VtzZone \<Rightarrow> ComposedEndpointPolicy" where
  "composeEndpointPolicy zone =
     (let effective = effective_map (z_effectivePostures zone);
          ordinary = effective OrdinaryNetwork;
          allowOrdinaryInternet = (ordinary = Some PermitDenyRisky)
      in \<lparr>ce_policy =
            \<lparr>ep_max_classification = FAIL_CLOSED_CLASSIFICATION, ep_brokered = \<lparr>destinations = []\<rparr>,
             ep_restricted = [], ep_allow_ordinary_internet = allowOrdinaryInternet, ep_exec = EXEC_FLOOR,
             ep_resource_bound = FAIL_CLOSED_RESOURCE_BOUND\<rparr>,
          ce_unexpressedDomains =
            map (\<lambda>d. \<lparr>ud_domain = d, ud_posture = effective d\<rparr>) unexpressibleDomains,
          ce_unexpressedFields = UNEXPRESSIBLE_ZONE_FIELDS\<rparr>)"

section \<open>The rules of the effective policies\<close>

text \<open>
  \<open>Number(digits)\<close>: the double nearest to the decimal, ties to even, and infinity from
  halfway past the largest double on.
\<close>

definition round_significand :: "nat \<Rightarrow> nat \<Rightarrow> nat" where
  "round_significand n e =
     (let q = n div 2 ^ e; r = 2 * (n mod 2 ^ e)
      in if r > 2 ^ e \<or> r = 2 ^ e \<and> odd q then Suc q else q)"

definition number_of_nat :: "nat \<Rightarrow> jsnum" where
  "number_of_nat n =
     (let k = bitlen n
      in if k \<le> 53 then NInt (int n)
         else let m = round_significand n (k - 53) * 2 ^ (k - 53)
              in if 2 ^ 1024 \<le> m then NFlt (inf_bits False) else NInt (int m))"

definition toNumber :: "string \<Rightarrow> jsnum" where
  "toNumber digits = number_of_nat (digits_value digits)"

text \<open>The regular expression \<open>^(\d+)\.(\d+)\.(\d+)$\<close>\<close>

definition digit_run :: "string \<Rightarrow> bool" where
  "digit_run s \<longleftrightarrow> s \<noteq> [] \<and> list_all is_digit s"

definition parseSemver :: "string \<Rightarrow> Version option" where
  "parseSemver s = (case split_on CHR ''.'' s of
       [a, b, c] \<Rightarrow>
         if digit_run a \<and> digit_run b \<and> digit_run c
         then Some \<lparr>major = toNumber a, minor = toNumber b, patch = toNumber c\<rparr> else None
     | _ \<Rightarrow> None)"

record ComposedBundleRules =
  cb_rules :: "BundleRule list"
  cb_contributors :: "PolicyVersionRef list"

definition bundle_rule :: "PolicyRow \<Rightarrow> PolicyRule \<Rightarrow> BundleRule" where
  "bundle_rule policy rule =
     \<lparr>br_policy_id = p_id policy, br_policy_version = p_version policy,
      br_source_kind = object_kind_tag (re_kind (rl_source rule)),
      br_source_selector_kind = selector_kind_tag (re_selectorKind (rl_source rule)),
      br_source_selector_value = re_selectorValue (rl_source rule),
      br_destination_kind = object_kind_tag (re_kind (rl_destination rule)),
      br_destination_selector_kind = selector_kind_tag (re_selectorKind (rl_destination rule)),
      br_destination_selector_value = re_selectorValue (rl_destination rule),
      br_action = action_tag (rl_action rule),
      br_protocols = map protocol_tag (nm_protocols (p_network policy)),
      br_ports = nm_ports (p_network policy), br_logging = logging_tag (p_logging policy)\<rparr>"

text \<open>The loop over the policies, with the rules and the contributors pushed so far.\<close>

fun compose_loop :: "PolicyRow list \<Rightarrow> BundleRule list \<Rightarrow> PolicyVersionRef list \<Rightarrow> ComposedBundleRules option" where
  "compose_loop [] rules contributors = Some \<lparr>cb_rules = rules, cb_contributors = contributors\<rparr>"
| "compose_loop (policy # policies) rules contributors = (case parseSemver (p_version policy) of
       None \<Rightarrow> None
     | Some version \<Rightarrow>
         compose_loop policies (rules @ map (bundle_rule policy) (p_rules policy))
           (contributors @ [\<lparr>pvref_policy = p_id policy, pvref_version = version\<rparr>]))"

definition composeBundleRules :: "PolicyRow list \<Rightarrow> ComposedBundleRules option" where
  "composeBundleRules policies = compose_loop policies [] []"

section \<open>Convergence\<close>

datatype EndpointConvergenceState = Applied | RejectedBundle | Silent

fun convergence_tag :: "EndpointConvergenceState \<Rightarrow> string" where
  "convergence_tag Applied = ''applied''"
| "convergence_tag RejectedBundle = ''rejected''"
| "convergence_tag Silent = ''silent''"

definition CONVERGENCE_STATES :: "EndpointConvergenceState list" where
  "CONVERGENCE_STATES = [Applied, RejectedBundle, Silent]"

definition toConvergenceState :: "string \<Rightarrow> EndpointConvergenceState option" where
  "toConvergenceState = narrow_in CONVERGENCE_STATES convergence_tag"

lemma convergence_listed: "a \<in> set CONVERGENCE_STATES"
  by (cases a) (simp_all add: CONVERGENCE_STATES_def)

interpretation convergence: tag_list CONVERGENCE_STATES convergence_tag
  rewrites "narrow_in CONVERGENCE_STATES convergence_tag = toConvergenceState"
  by (unfold_locales, rule convergence_listed, simp_all add: CONVERGENCE_STATES_def toConvergenceState_def)

record WireConvergenceMember =
  wcm_endpoint_cn :: string
  wcm_reason :: "string option"
  wcm_state :: string

record WireBundleConvergence =
  wbc_has_bundle :: bool
  wbc_members :: "WireConvergenceMember list"
  wbc_version :: jsnum

record ConvergenceMemberView =
  cm_endpointCn :: string
  cm_state :: EndpointConvergenceState
  cm_reason :: "string option"

record BundleConvergenceView =
  bc_hasBundle :: bool
  bc_version :: jsnum
  bc_members :: "ConvergenceMemberView list"

definition toConvergenceMember :: "WireConvergenceMember \<Rightarrow> ConvergenceMemberView option" where
  "toConvergenceMember m = (case toConvergenceState (wcm_state m) of
       None \<Rightarrow> None
     | Some state \<Rightarrow>
         if state = RejectedBundle \<and> wcm_reason m = None then None
         else if state \<noteq> RejectedBundle \<and> wcm_reason m \<noteq> None then None
         else Some \<lparr>cm_endpointCn = wcm_endpoint_cn m, cm_state = state, cm_reason = wcm_reason m\<rparr>)"

definition toBundleConvergence :: "WireBundleConvergence \<Rightarrow> BundleConvergenceView option" where
  "toBundleConvergence reply = (case traverse toConvergenceMember (wbc_members reply) of
       None \<Rightarrow> None
     | Some members \<Rightarrow> Some \<lparr>bc_hasBundle = wbc_has_bundle reply, bc_version = wbc_version reply,
                              bc_members = members\<rparr>)"

section \<open>What a bundle permits\<close>

lemma effective_map_last:
  "effective_map ps d =
     (let qs = filter (\<lambda>p. dpv_domain p = d) ps in if qs = [] then None else Some (dpv_posture (last qs)))"
proof (induction ps rule: rev_induct)
  case (snoc p ps)
  then show ?case by (auto simp: effective_map_def Let_def)
qed (simp add: effective_map_def)

text \<open>The posture tag the engine sent last for a domain.\<close>

definition last_posture :: "WireDomainPosture list \<Rightarrow> string \<Rightarrow> string option" where
  "last_posture ws d =
     (let vs = filter (\<lambda>w. dp_domain w = d) ws in if vs = [] then None else Some (dp_posture (last vs)))"

lemma effective_map_wire:
  assumes "ordered_view ws ps"
  shows "last_posture ws (domain_tag d) = map_option posture_tag (effective_map ps d)"
proof -
  let ?qs = "filter (\<lambda>p. dpv_domain p = d) ps"
  from assms have "filter (\<lambda>w. dp_domain w = domain_tag d) ws = map wire_posture ?qs"
    by (simp add: ordered_view_def)
  then show ?thesis
    by (auto simp: last_posture_def effective_map_last Let_def last_map wire_posture_def)
qed

text \<open>
  C15. The policy composed from a zone opens ordinary internet access only on an explicit permit: exactly when
  the last entry the engine sent for that domain, among the effective postures, says
  permit.  Everything else of the policy is the most restrictive value there is, and every
  other domain but execution is recorded with the posture that is lost, once and in order.
\<close>
theorem endpoint_policy_fail_closed:
  assumes "toVtzZone node = Some zone"
  shows "let composed = composeEndpointPolicy zone; policy = ce_policy composed;
             sent = last_posture (tn_effective_postures node) in
     (ep_allow_ordinary_internet policy \<longleftrightarrow> sent ''ordinary-network'' = Some ''permit-deny-risky'') \<and>
     ep_max_classification policy = CUnclassified \<and> destinations (ep_brokered policy) = [] \<and>
     ep_restricted policy = [] \<and> ep_exec policy = DenyUnwrappedExec \<and>
     ep_resource_bound policy = FAIL_CLOSED_RESOURCE_BOUND \<and>
     set (map ud_domain (ce_unexpressedDomains composed)) = - {OrdinaryNetwork, Execution} \<and>
     distinct (map ud_domain (ce_unexpressedDomains composed)) \<and>
     list_all (\<lambda>u. map_option posture_tag (ud_posture u) = sent (domain_tag (ud_domain u)))
       (ce_unexpressedDomains composed)"
proof -
  have "ordered_view (tn_effective_postures node) (z_effectivePostures zone)"
    using toVtzZone_Some [OF assms] by (simp add: zone_view_def)
  note wire = effective_map_wire [OF this]
  have allow: "last_posture (tn_effective_postures node) ''ordinary-network'' = Some ''permit-deny-risky''
      \<longleftrightarrow> effective_map (z_effectivePostures zone) OrdinaryNetwork = Some PermitDenyRisky"
    using wire [of OrdinaryNetwork] posture.render_inject [of _ PermitDenyRisky] by auto
  have domains: "set unexpressibleDomains = - {OrdinaryNetwork, Execution}"
    using domain_listed by (auto simp: unexpressibleDomains_def EXPRESSIBLE_DOMAINS_def)
  have distinct: "distinct unexpressibleDomains"
    by (simp add: unexpressibleDomains_def EXPRESSIBLE_DOMAINS_def VTZ_OBJECT_DOMAINS_def)
  show ?thesis
    by (simp add: composeEndpointPolicy_def Let_def allow domains distinct o_def list_all_iff wire image_image
        FAIL_CLOSED_CLASSIFICATION_def EXEC_FLOOR_def)
qed

theorem endpoint_policy_fail_closed_witness:
  "\<exists>zone. toVtzZone sample_node = Some zone \<and> \<not> ep_allow_ordinary_internet (ce_policy (composeEndpointPolicy zone))"
proof -
  have "toVtzZone sample_node \<noteq> None" by code_simp
  then obtain zone where zone: "toVtzZone sample_node = Some zone" by blast
  have "last_posture (tn_effective_postures sample_node) ''ordinary-network'' = None" by code_simp
  with endpoint_policy_fail_closed [OF zone] zone show ?thesis by (simp add: Let_def)
qed

section \<open>What a bundle carries\<close>

text \<open>The composition as a specification, without the loop.\<close>

definition version_ref :: "PolicyRow \<Rightarrow> PolicyVersionRef option" where
  "version_ref policy = map_option (\<lambda>v. \<lparr>pvref_policy = p_id policy, pvref_version = v\<rparr>) (parseSemver (p_version policy))"

definition bundle_spec :: "PolicyRow list \<Rightarrow> ComposedBundleRules option" where
  "bundle_spec policies = map_option
     (\<lambda>refs. \<lparr>cb_rules = concat (map (\<lambda>policy. map (bundle_rule policy) (p_rules policy)) policies),
             cb_contributors = refs\<rparr>) (traverse version_ref policies)"

lemma compose_loop_spec:
  "compose_loop policies rules contributors =
     map_option (\<lambda>c. \<lparr>cb_rules = rules @ cb_rules c, cb_contributors = contributors @ cb_contributors c\<rparr>)
       (bundle_spec policies)"
  by (induction policies arbitrary: rules contributors)
    (auto simp: bundle_spec_def version_ref_def split: option.splits)

text \<open>
  A bundle carries every rule of every effective policy, in policy order then rule
  order, each with the tags, qualifiers and logging its policy was read with from the store and
  under the identifier and version of its policy, and one contributor per policy with the
  parsed version; one version that does not parse and there is no bundle.
\<close>
theorem bundle_rules_equivalence:
  "composeBundleRules policies = bundle_spec policies"
  by (cases "bundle_spec policies") (simp_all add: composeBundleRules_def compose_loop_spec)

section \<open>Versions\<close>

lemma number_of_small: "n < 2 ^ 53 \<Longrightarrow> number_of_nat n = NInt (int n)"
  by (simp add: number_of_nat_def bitlen_le)

lemma digits_split: "digit_run s \<Longrightarrow> CHR ''.'' \<notin> set s"
  by (auto simp: digit_run_def list_all_iff is_digit_def)

definition version_text :: "nat \<Rightarrow> nat \<Rightarrow> nat \<Rightarrow> string" where
  "version_text a b c = nat_digits a @ ''.'' @ nat_digits b @ ''.'' @ nat_digits c"

lemma digit_run_nat_digits: "digit_run (nat_digits n)"
  by (simp add: digit_run_def nat_digits_digits)

lemma split_version: "split_on CHR ''.'' (version_text a b c) = [nat_digits a, nat_digits b, nat_digits c]"
  using digits_split [OF digit_run_nat_digits]
  by (simp add: version_text_def split_on_sep split_on_none)

text \<open>
  The versions the store mints, three numbers in decimal, are read as those numbers,
  as long as each is below 2 to the 53; so two of them are read alike only when equal.
\<close>
theorem semver_roundtrip:
  assumes "a < 2 ^ 53" and "b < 2 ^ 53" and "c < 2 ^ 53"
  shows "parseSemver (version_text a b c) =
    Some \<lparr>major = NInt (int a), minor = NInt (int b), patch = NInt (int c)\<rparr>"
  using assms
  by (simp add: parseSemver_def split_version digit_run_nat_digits toNumber_def nat_digits_value number_of_small)

theorem semver_roundtrip_witness:
  "parseSemver (version_text 2 10 4) = Some \<lparr>major = NInt 2, minor = NInt 10, patch = NInt 4\<rparr>"
  using semver_roundtrip [of 2 10 4] by simp

end
