(* ===== verification/WireClient.thy ===== *)
theory WireClient
  imports Dispatch
begin

text \<open>
  The engine client: \<open>apps/bff/src/engine/wire-client.ts\<close>.  One connection, dialled on
  the first call and kept; a call that fails on it drops the connection and is tried once
  more on a fresh one.  A transport object is named by a number; \<open>network\<close> is what the
  client reaches the world through: the channel of each transport, the connector
  (\<open>EngineConnector\<close>, which the constructor takes as a parameter too), and closing.  The
  outcome of a promise that never settles is \<open>None\<close>; an operation that does not settle
  within its time limit is one that does not settle.

  This theory models one call at a time; \<open>ClientQueue\<close> has the interleaving of calls.
\<close>

section \<open>Errors and replies\<close>

datatype engine_error =
    EngineRefused jsval
  | UnexpectedReply string
  | EngineTimeout
  | ClientFault client_error

type_synonym coercion = "jsval \<Rightarrow> string option"

text \<open>\<open>throw new EngineRefusedError(reply.Refused.error)\<close>; the constructor reads the class of the error.\<close>

definition refusal :: "jsval \<Rightarrow> engine_error" where
  "refusal refused =
     (if nullish refused then ClientFault TypeError
      else let wireError = get_prop refused ''error''
           in if nullish wireError then ClientFault TypeError else EngineRefused wireError)"

text \<open>
  The shape all reply readers share: the payload under the expected key, the refusal, or
  an unexpected reply.  \<open>typeof null\<close> is \<open>object\<close>, so looking for a key in it throws.
\<close>

definition reply_as :: "string \<Rightarrow> string \<Rightarrow> jsval \<Rightarrow> engine_error + jsval" where
  "reply_as key what reply = (case reply of
       JNull \<Rightarrow> Inl (ClientFault TypeError)
     | JObj ob \<Rightarrow> (case map_of ob key of
           Some v \<Rightarrow> Inr v
         | None \<Rightarrow> (case map_of ob ''Refused'' of
               Some refused \<Rightarrow> Inl (refusal refused)
             | None \<Rightarrow> Inl (UnexpectedReply what)))
     | _ \<Rightarrow> Inl (UnexpectedReply what))"

definition replyToQueryRows :: "jsval \<Rightarrow> engine_error + jsval" where
  "replyToQueryRows = reply_as ''QueryRows'' ''a query''"

definition replyToAgentList :: "jsval \<Rightarrow> engine_error + jsval" where
  "replyToAgentList = reply_as ''AgentList'' ''a list-agents read''"

definition replyToPrincipalList :: "jsval \<Rightarrow> engine_error + jsval" where
  "replyToPrincipalList = reply_as ''PrincipalList'' ''a list-principals read''"

definition replyToGroupList :: "jsval \<Rightarrow> engine_error + jsval" where
  "replyToGroupList = reply_as ''GroupList'' ''a list-groups read''"

definition replyToLugProvisioned :: "jsval \<Rightarrow> engine_error + jsval" where
  "replyToLugProvisioned = reply_as ''LugProvisioned'' ''a provisioning command''"

definition replyToObjectCatalog :: "jsval \<Rightarrow> engine_error + jsval" where
  "replyToObjectCatalog = reply_as ''ObjectCatalog'' ''an object-list read''"

definition replyToIdamConnectors :: "jsval \<Rightarrow> engine_error + jsval" where
  "replyToIdamConnectors = reply_as ''IdamConnectors'' ''an idam-connectors read''"

definition replyToIdamSyncStarted :: "jsval \<Rightarrow> engine_error + jsval" where
  "replyToIdamSyncStarted = reply_as ''IdamSyncStarted'' ''an idam-sync command''"

definition replyToObjectMutated :: "jsval \<Rightarrow> engine_error + jsval" where
  "replyToObjectMutated = reply_as ''ObjectMutated'' ''an object command''"

definition replyToObjectDetail :: "jsval \<Rightarrow> engine_error + jsval" where
  "replyToObjectDetail = reply_as ''ObjectDetail'' ''an object-detail read''"

definition replyToDetectSummary :: "jsval \<Rightarrow> engine_error + jsval" where
  "replyToDetectSummary = reply_as ''DetectSummary'' ''a detect-summary read''"

definition replyToSocIncidentList :: "jsval \<Rightarrow> engine_error + jsval" where
  "replyToSocIncidentList = reply_as ''SocIncidentList'' ''a SOC incident-list read''"

definition replyToSocIncidentDetail :: "jsval \<Rightarrow> engine_error + jsval" where
  "replyToSocIncidentDetail = reply_as ''SocIncidentDetail'' ''a SOC incident-detail read''"

definition replyToSocTelemetry :: "jsval \<Rightarrow> engine_error + jsval" where
  "replyToSocTelemetry = reply_as ''SocTelemetry'' ''a SOC telemetry read''"

definition replyToSocAudit :: "jsval \<Rightarrow> engine_error + jsval" where
  "replyToSocAudit = reply_as ''SocAudit'' ''a SOC audit read''"

definition replyToSocActOutcome :: "jsval \<Rightarrow> engine_error + jsval" where
  "replyToSocActOutcome = reply_as ''SocActed'' ''a SOC case act''"

definition replyToSocNotes :: "jsval \<Rightarrow> engine_error + jsval" where
  "replyToSocNotes = reply_as ''SocNotes'' ''a SOC notes read''"

definition replyToSocDispositionOutcome :: "jsval \<Rightarrow> engine_error + jsval" where
  "replyToSocDispositionOutcome = reply_as ''SocDispositioned'' ''a SOC disposition''"

definition replyToSocImpact :: "jsval \<Rightarrow> engine_error + jsval" where
  "replyToSocImpact = reply_as ''SocImpact'' ''a SOC impact read''"

definition replyToSocReport :: "jsval \<Rightarrow> engine_error + jsval" where
  "replyToSocReport = reply_as ''SocReport'' ''a SOC report read''"

definition replyToSocWeekly :: "jsval \<Rightarrow> engine_error + jsval" where
  "replyToSocWeekly = reply_as ''SocWeekly'' ''a SOC weekly read''"

definition replyToSettingsCommitted :: "jsval \<Rightarrow> engine_error + jsval" where
  "replyToSettingsCommitted = reply_as ''SettingsCommitted'' ''a settings commit''"

definition replyToSettings :: "jsval \<Rightarrow> engine_error + jsval" where
  "replyToSettings = reply_as ''Settings'' ''a settings read''"

definition replyToSettingsProposed :: "jsval \<Rightarrow> engine_error + jsval" where
  "replyToSettingsProposed = reply_as ''SettingsProposed'' ''a settings proposal''"

definition replyToSettingsApprovals :: "jsval \<Rightarrow> engine_error + jsval" where
  "replyToSettingsApprovals = reply_as ''SettingsApprovals'' ''a settings approvals read''"

definition replyToSettingsHistory :: "jsval \<Rightarrow> engine_error + jsval" where
  "replyToSettingsHistory = reply_as ''SettingsHistory'' ''a settings history read''"

definition replyToSettingsReports :: "jsval \<Rightarrow> engine_error + jsval" where
  "replyToSettingsReports = reply_as ''SettingsReports'' ''a settings reports read''"

definition replyToModelAccess :: "jsval \<Rightarrow> engine_error + jsval" where
  "replyToModelAccess = reply_as ''ModelAccess'' ''a model access read''"

definition replyToAgentGrantReceipt :: "jsval \<Rightarrow> engine_error + jsval" where
  "replyToAgentGrantReceipt = reply_as ''AgentGrantReceipt'' ''an agent grant set''"

definition replyToSocSettings :: "jsval \<Rightarrow> engine_error + jsval" where
  "replyToSocSettings = reply_as ''SocSettings'' ''a SOC settings read''"

definition replyToSocSettingsCommitted :: "jsval \<Rightarrow> engine_error + jsval" where
  "replyToSocSettingsCommitted = reply_as ''SocSettingsCommitted'' ''a SOC settings commit''"

definition replyToSocRunState :: "jsval \<Rightarrow> engine_error + jsval" where
  "replyToSocRunState = reply_as ''SocRunState'' ''a SOC cognition run''"

definition replyToSocNarrative :: "jsval \<Rightarrow> engine_error + jsval" where
  "replyToSocNarrative = reply_as ''SocNarrative'' ''a SOC narrative read''"

definition replyToSocPlanEffect :: "jsval \<Rightarrow> engine_error + jsval" where
  "replyToSocPlanEffect = reply_as ''SocPlanMutated'' ''a SOC plan command''"

definition replyToPolicyList :: "jsval \<Rightarrow> engine_error + jsval" where
  "replyToPolicyList = reply_as ''PolicyList'' ''a policy-list read''"

definition replyToPolicyDetail :: "jsval \<Rightarrow> engine_error + jsval" where
  "replyToPolicyDetail = reply_as ''PolicyDetail'' ''a policy-detail read''"

definition replyToPolicyEffective :: "jsval \<Rightarrow> engine_error + jsval" where
  "replyToPolicyEffective = reply_as ''PolicyEffective'' ''a policy-effective read''"

definition replyToPolicyMutated :: "jsval \<Rightarrow> engine_error + jsval" where
  "replyToPolicyMutated = reply_as ''PolicyMutated'' ''a policy command''"

definition replyToDecisionList :: "jsval \<Rightarrow> engine_error + jsval" where
  "replyToDecisionList = reply_as ''DecisionList'' ''an entity-decisions read''"

definition replyToConnectionList :: "jsval \<Rightarrow> engine_error + jsval" where
  "replyToConnectionList = reply_as ''ConnectionList'' ''an entity-connections read''"

definition replyToConnectivityGraph :: "jsval \<Rightarrow> engine_error + jsval" where
  "replyToConnectivityGraph = reply_as ''ConnectivityGraph'' ''a connectivity-graph read''"

definition replyToMemberList :: "jsval \<Rightarrow> engine_error + jsval" where
  "replyToMemberList = reply_as ''MemberList'' ''a connectivity-members read''"

definition replyToContainEffect :: "jsval \<Rightarrow> engine_error + jsval" where
  "replyToContainEffect = reply_as ''Contained'' ''a contain command''"

definition replyToDecisionDetail :: "jsval \<Rightarrow> engine_error + jsval" where
  "replyToDecisionDetail = reply_as ''DecisionDetail'' ''a log-explain read''"

definition replyToLogExported :: "jsval \<Rightarrow> engine_error + jsval" where
  "replyToLogExported = reply_as ''LogExported'' ''a log-export command''"

definition replyToVtzTree :: "jsval \<Rightarrow> engine_error + jsval" where
  "replyToVtzTree = reply_as ''VtzTree'' ''a vtz-tree read''"

definition replyToVtzDetail :: "jsval \<Rightarrow> engine_error + jsval" where
  "replyToVtzDetail = reply_as ''VtzDetail'' ''a vtz-detail read''"

definition replyToBundleConvergence :: "jsval \<Rightarrow> engine_error + jsval" where
  "replyToBundleConvergence = reply_as ''BundleConvergence'' ''a bundle convergence read''"

definition replyToBundleCommitted :: "jsval \<Rightarrow> engine_error + jsval" where
  "replyToBundleCommitted = reply_as ''BundleCommitted'' ''a bundle commit''"

definition replyToVtzMutation :: "jsval \<Rightarrow> engine_error + jsval" where
  "replyToVtzMutation = reply_as ''VtzMutated'' ''a vtz mutation''"

section \<open>The connection\<close>

record 's network =
  nw_channel :: "nat \<Rightarrow> 's channel"
  nw_connect :: "('s, nat) async"
  nw_close :: "nat \<Rightarrow> 's \<Rightarrow> 's"

record 's engine_client =
  ec_transport :: "nat option"
  ec_heartbeat :: bool
  ec_net :: 's

type_synonym ('s, 'a) operation = "nat \<Rightarrow> 's \<Rightarrow> (engine_error + 'a) option \<times> 's"
type_synonym ('s, 'a) engine_call = "'s engine_client \<Rightarrow> (engine_error + 'a) option \<times> 's engine_client"

text \<open>
  The connector of production: dial the sidecar (\<open>dial\<close>, the socket of \<open>connectLoopback\<close>),
  then the handshake of the reactor.
\<close>

definition connectEngine :: "coercion \<Rightarrow> (nat \<Rightarrow> 's channel) \<Rightarrow> ('s, nat) async \<Rightarrow> ('s, nat) async" where
  "connectEngine other chan dial =
     async_bind dial (\<lambda>t.
     async_bind (wireHandshake other (chan t) DEFAULT_HELLO) (\<lambda>_.
     async_return t))"

text \<open>The outcome of an awaited promise of the wire library.\<close>

definition settle :: "('a \<Rightarrow> engine_error + 'b) \<Rightarrow> 'a outcome \<Rightarrow> (engine_error + 'b) option" where
  "settle reply out = (case out of
       Resolved x \<Rightarrow> Some (reply x)
     | Rejected e \<Rightarrow> Some (Inl (ClientFault e))
     | Pending \<Rightarrow> None)"

text \<open>\<open>async (transport) => reply(await dispatch(transport, request))\<close>\<close>

definition dispatch_op ::
    "coercion \<Rightarrow> 's network \<Rightarrow> WireRequest \<Rightarrow> (jsval \<Rightarrow> engine_error + 'a) \<Rightarrow> ('s, 'a) operation" where
  "dispatch_op other net request reply t s =
     (case dispatch other (nw_channel net t) request s of (out, s') \<Rightarrow> (settle reply out, s'))"

definition heartbeat_op :: "'s network \<Rightarrow> ('s, unit) operation" where
  "heartbeat_op net t s = (case heartbeat (nw_channel net t) s of (out, s') \<Rightarrow> (settle Inr out, s'))"

definition withTimeout :: "(engine_error + 'a) option \<Rightarrow> engine_error + 'a" where
  "withTimeout out = (case out of None \<Rightarrow> Inl EngineTimeout | Some r \<Rightarrow> r)"

definition ensureTransport :: "'s network \<Rightarrow> ('s, nat) engine_call" where
  "ensureTransport net c = (case ec_transport c of
       Some t \<Rightarrow> (Some (Inr t), c)
     | None \<Rightarrow> (case nw_connect net (ec_net c) of
           (Resolved t, s) \<Rightarrow> (Some (Inr t), \<lparr>ec_transport = Some t, ec_heartbeat = True, ec_net = s\<rparr>)
         | (Rejected e, s) \<Rightarrow> (Some (Inl (ClientFault e)), c\<lparr>ec_net := s\<rparr>)
         | (Pending, s) \<Rightarrow> (None, c\<lparr>ec_net := s\<rparr>)))"

definition invalidate :: "'s network \<Rightarrow> nat \<Rightarrow> 's engine_client \<Rightarrow> 's engine_client" where
  "invalidate net dead c =
     (if ec_transport c \<noteq> Some dead then c
      else \<lparr>ec_transport = None, ec_heartbeat = False, ec_net = nw_close net dead (ec_net c)\<rparr>)"

definition is_refusal :: "engine_error \<Rightarrow> bool" where
  "is_refusal e = (case e of EngineRefused _ \<Rightarrow> True | _ \<Rightarrow> False)"

text \<open>The loop of \<open>call\<close>: \<open>n\<close> attempts are left, \<open>lastError\<close> is the error of the one before.\<close>

primrec attempts :: "'s network \<Rightarrow> ('s, 'a) operation \<Rightarrow> nat \<Rightarrow> engine_error \<Rightarrow> ('s, 'a) engine_call" where
  "attempts net op 0 lastError c = (Some (Inl lastError), c)"
| "attempts net op (Suc n) lastError c = (case ensureTransport net c of
       (None, c1) \<Rightarrow> (None, c1)
     | (Some (Inl e), c1) \<Rightarrow> (Some (Inl e), c1)
     | (Some (Inr t), c1) \<Rightarrow> (case op t (ec_net c1) of
           (out, s) \<Rightarrow>
             let c2 = c1\<lparr>ec_net := s\<rparr>
             in (case withTimeout out of
                   Inr x \<Rightarrow> (Some (Inr x), c2)
                 | Inl e \<Rightarrow> if is_refusal e then (Some (Inl e), c2)
                           else attempts net op n e (invalidate net t c2))))"

definition call :: "'s network \<Rightarrow> ('s, 'a) operation \<Rightarrow> ('s, 'a) engine_call" where
  "call net op c = attempts net op 2 EngineTimeout c"

text \<open>One tick of the heartbeat timer.\<close>

definition beat :: "'s network \<Rightarrow> 's engine_client \<Rightarrow> 's engine_client" where
  "beat net c = (case ec_transport c of
       None \<Rightarrow> c
     | Some t \<Rightarrow> (case heartbeat_op net t (ec_net c) of
           (out, s) \<Rightarrow>
             let c' = c\<lparr>ec_net := s\<rparr>
             in (case withTimeout out of Inr _ \<Rightarrow> c' | Inl _ \<Rightarrow> invalidate net t c')))"

definition ping :: "'s network \<Rightarrow> ('s, unit) engine_call" where
  "ping net = call net (heartbeat_op net)"

definition close_client :: "'s network \<Rightarrow> 's engine_client \<Rightarrow> 's engine_client" where
  "close_client net c = \<lparr>ec_transport = None, ec_heartbeat = False,
     ec_net = (case ec_transport c of None \<Rightarrow> ec_net c | Some t \<Rightarrow> nw_close net t (ec_net c))\<rparr>"

section \<open>The operations\<close>

definition cursorFetch :: "coercion \<Rightarrow> 's network \<Rightarrow> jsnum list \<Rightarrow> ('s, jsval) engine_call" where
  "cursorFetch other net cursor =
     call net (dispatch_op other net (Core (ReqCursorFetch cursor)) replyToQueryRows)"

definition cursorClose :: "coercion \<Rightarrow> 's network \<Rightarrow> jsnum list \<Rightarrow> ('s, unit) engine_call" where
  "cursorClose other net cursor =
     call net (dispatch_op other net (Core (ReqCursorClose cursor)) (\<lambda>_. Inr ()))"

definition querySubmit ::
    "coercion \<Rightarrow> 's network \<Rightarrow> WireQuerySubmit \<Rightarrow> ('s, jsval) engine_call" where
  "querySubmit other net request =
     call net (dispatch_op other net (Core (ReqQuerySubmit request)) replyToQueryRows)"

definition listAgents ::
    "coercion \<Rightarrow> 's network \<Rightarrow> WireListAgents \<Rightarrow> ('s, jsval) engine_call" where
  "listAgents other net request =
     call net (dispatch_op other net (Directory (ReqListAgents request)) replyToAgentList)"

definition listPrincipals ::
    "coercion \<Rightarrow> 's network \<Rightarrow> WireListPrincipals \<Rightarrow> ('s, jsval) engine_call" where
  "listPrincipals other net request =
     call net (dispatch_op other net (Directory (ReqListPrincipals request)) replyToPrincipalList)"

definition listGroups ::
    "coercion \<Rightarrow> 's network \<Rightarrow> WireListGroups \<Rightarrow> ('s, jsval) engine_call" where
  "listGroups other net request =
     call net (dispatch_op other net (Directory (ReqListGroups request)) replyToGroupList)"

definition groupCreate ::
    "coercion \<Rightarrow> 's network \<Rightarrow> WireGroupWrite \<Rightarrow> ('s, jsval) engine_call" where
  "groupCreate other net request =
     call net (dispatch_op other net (Directory (ReqGroupCreate request)) replyToLugProvisioned)"

definition principalCreate ::
    "coercion \<Rightarrow> 's network \<Rightarrow> WirePrincipalCreate \<Rightarrow> ('s, jsval) engine_call" where
  "principalCreate other net request =
     call net (dispatch_op other net (Directory (ReqPrincipalCreate request)) replyToLugProvisioned)"

definition principalEdit ::
    "coercion \<Rightarrow> 's network \<Rightarrow> WirePrincipalEdit \<Rightarrow> ('s, jsval) engine_call" where
  "principalEdit other net request =
     call net (dispatch_op other net (Directory (ReqPrincipalEdit request)) replyToLugProvisioned)"

definition principalSetStatus ::
    "coercion \<Rightarrow> 's network \<Rightarrow> WirePrincipalSetStatus \<Rightarrow> ('s, jsval) engine_call" where
  "principalSetStatus other net request =
     call net (dispatch_op other net (Directory (ReqPrincipalSetStatus request)) replyToLugProvisioned)"

definition groupEdit ::
    "coercion \<Rightarrow> 's network \<Rightarrow> WireGroupWrite \<Rightarrow> ('s, jsval) engine_call" where
  "groupEdit other net request =
     call net (dispatch_op other net (Directory (ReqGroupEdit request)) replyToLugProvisioned)"

definition groupSetMembers ::
    "coercion \<Rightarrow> 's network \<Rightarrow> WireGroupSetMembers \<Rightarrow> ('s, jsval) engine_call" where
  "groupSetMembers other net request =
     call net (dispatch_op other net (Directory (ReqGroupSetMembers request)) replyToLugProvisioned)"

definition objectList ::
    "coercion \<Rightarrow> 's network \<Rightarrow> WireObjectList \<Rightarrow> ('s, jsval) engine_call" where
  "objectList other net request =
     call net (dispatch_op other net (Directory (ReqObjectList request)) replyToObjectCatalog)"

definition idamConnectors ::
    "coercion \<Rightarrow> 's network \<Rightarrow> WireIdamConnectors \<Rightarrow> ('s, jsval) engine_call" where
  "idamConnectors other net request =
     call net (dispatch_op other net (Directory (ReqIdamConnectors request)) replyToIdamConnectors)"

definition idamSync ::
    "coercion \<Rightarrow> 's network \<Rightarrow> WireIdamSync \<Rightarrow> ('s, jsval) engine_call" where
  "idamSync other net request =
     call net (dispatch_op other net (Directory (ReqIdamSync request)) replyToIdamSyncStarted)"

definition idamConnect ::
    "coercion \<Rightarrow> 's network \<Rightarrow> WireIdamConnect \<Rightarrow> ('s, jsval) engine_call" where
  "idamConnect other net request =
     call net (dispatch_op other net (Directory (ReqIdamConnect request)) replyToLugProvisioned)"

definition idamConfigure ::
    "coercion \<Rightarrow> 's network \<Rightarrow> WireIdamConfigure \<Rightarrow> ('s, jsval) engine_call" where
  "idamConfigure other net request =
     call net (dispatch_op other net (Directory (ReqIdamConfigure request)) replyToLugProvisioned)"

definition objectDetail ::
    "coercion \<Rightarrow> 's network \<Rightarrow> WireObjectDetailQuery \<Rightarrow> ('s, jsval) engine_call" where
  "objectDetail other net request =
     call net (dispatch_op other net (Directory (ReqObjectDetail request)) replyToObjectDetail)"

definition objectCreate ::
    "coercion \<Rightarrow> 's network \<Rightarrow> WireObjectCreate \<Rightarrow> ('s, jsval) engine_call" where
  "objectCreate other net request =
     call net (dispatch_op other net (Directory (ReqObjectCreate request)) replyToObjectMutated)"

definition objectEdit ::
    "coercion \<Rightarrow> 's network \<Rightarrow> WireObjectEdit \<Rightarrow> ('s, jsval) engine_call" where
  "objectEdit other net request =
     call net (dispatch_op other net (Directory (ReqObjectEdit request)) replyToObjectMutated)"

definition objectDelete ::
    "coercion \<Rightarrow> 's network \<Rightarrow> WireObjectDelete \<Rightarrow> ('s, jsval) engine_call" where
  "objectDelete other net request =
     call net (dispatch_op other net (Directory (ReqObjectDelete request)) replyToObjectMutated)"

definition detectSummary ::
    "coercion \<Rightarrow> 's network \<Rightarrow> WireDetectSummaryQuery \<Rightarrow> ('s, jsval) engine_call" where
  "detectSummary other net request =
     call net (dispatch_op other net (Soc (ReqDetectSummary request)) replyToDetectSummary)"

definition socIncidentList ::
    "coercion \<Rightarrow> 's network \<Rightarrow> WireSocIncidentListQuery \<Rightarrow> ('s, jsval) engine_call" where
  "socIncidentList other net request =
     call net (dispatch_op other net (Soc (ReqSocIncidentList request)) replyToSocIncidentList)"

definition socIncidentDetail ::
    "coercion \<Rightarrow> 's network \<Rightarrow> WireSocIncidentDetailQuery \<Rightarrow> ('s, jsval) engine_call" where
  "socIncidentDetail other net request =
     call net (dispatch_op other net (Soc (ReqSocIncidentDetail request)) replyToSocIncidentDetail)"

definition socNarrative ::
    "coercion \<Rightarrow> 's network \<Rightarrow> WireSocNarrativeQuery \<Rightarrow> ('s, jsval) engine_call" where
  "socNarrative other net request =
     call net (dispatch_op other net (Soc (ReqSocNarrative request)) replyToSocNarrative)"

definition socTelemetry ::
    "coercion \<Rightarrow> 's network \<Rightarrow> WireSocTelemetryQuery \<Rightarrow> ('s, jsval) engine_call" where
  "socTelemetry other net request =
     call net (dispatch_op other net (Soc (ReqSocTelemetry request)) replyToSocTelemetry)"

definition socAudit ::
    "coercion \<Rightarrow> 's network \<Rightarrow> WireSocAuditQuery \<Rightarrow> ('s, jsval) engine_call" where
  "socAudit other net request =
     call net (dispatch_op other net (Soc (ReqSocAudit request)) replyToSocAudit)"

definition socImpact ::
    "coercion \<Rightarrow> 's network \<Rightarrow> WireSocImpactQuery \<Rightarrow> ('s, jsval) engine_call" where
  "socImpact other net request =
     call net (dispatch_op other net (Soc (ReqSocImpact request)) replyToSocImpact)"

definition socReport ::
    "coercion \<Rightarrow> 's network \<Rightarrow> WireSocReportQuery \<Rightarrow> ('s, jsval) engine_call" where
  "socReport other net request =
     call net (dispatch_op other net (Soc (ReqSocReport request)) replyToSocReport)"

definition socWeekly ::
    "coercion \<Rightarrow> 's network \<Rightarrow> WireSocWeeklyQuery \<Rightarrow> ('s, jsval) engine_call" where
  "socWeekly other net request =
     call net (dispatch_op other net (Soc (ReqSocWeekly request)) replyToSocWeekly)"

definition settingsCommit ::
    "coercion \<Rightarrow> 's network \<Rightarrow> WireSettingsCommit \<Rightarrow> ('s, jsval) engine_call" where
  "settingsCommit other net request =
     call net (dispatch_op other net (Settings (ReqSettingsCommit request)) replyToSettingsCommitted)"

definition settingsPropose ::
    "coercion \<Rightarrow> 's network \<Rightarrow> WireSettingsCommit \<Rightarrow> ('s, jsval) engine_call" where
  "settingsPropose other net request =
     call net (dispatch_op other net (Settings (ReqSettingsPropose request)) replyToSettingsProposed)"

definition settingsApprovals ::
    "coercion \<Rightarrow> 's network \<Rightarrow> WireSettingsApprovalsQuery \<Rightarrow> ('s, jsval) engine_call" where
  "settingsApprovals other net request =
     call net (dispatch_op other net (Settings (ReqSettingsApprovals request)) replyToSettingsApprovals)"

definition settingsApprove ::
    "coercion \<Rightarrow> 's network \<Rightarrow> WireSettingsApprove \<Rightarrow> ('s, jsval) engine_call" where
  "settingsApprove other net request =
     call net (dispatch_op other net (Settings (ReqSettingsApprove request)) replyToSettingsCommitted)"

definition settingsHistory ::
    "coercion \<Rightarrow> 's network \<Rightarrow> WireSettingsHistoryQuery \<Rightarrow> ('s, jsval) engine_call" where
  "settingsHistory other net request =
     call net (dispatch_op other net (Settings (ReqSettingsHistory request)) replyToSettingsHistory)"

definition settingsRollback ::
    "coercion \<Rightarrow> 's network \<Rightarrow> WireSettingsRollback \<Rightarrow> ('s, jsval) engine_call" where
  "settingsRollback other net request =
     call net (dispatch_op other net (Settings (ReqSettingsRollback request)) replyToSettingsCommitted)"

definition settingsReports ::
    "coercion \<Rightarrow> 's network \<Rightarrow> WireSettingsReportsQuery \<Rightarrow> ('s, jsval) engine_call" where
  "settingsReports other net request =
     call net (dispatch_op other net (Settings (ReqSettingsReports request)) replyToSettingsReports)"

definition modelAccessRead ::
    "coercion \<Rightarrow> 's network \<Rightarrow> WireModelAccessQuery \<Rightarrow> ('s, jsval) engine_call" where
  "modelAccessRead other net request =
     call net (dispatch_op other net (Settings (ReqModelAccessRead request)) replyToModelAccess)"

definition agentGrantSet ::
    "coercion \<Rightarrow> 's network \<Rightarrow> WireAgentGrantSet \<Rightarrow> ('s, jsval) engine_call" where
  "agentGrantSet other net request =
     call net (dispatch_op other net (Settings (ReqAgentGrantSet request)) replyToAgentGrantReceipt)"

definition settingsRead ::
    "coercion \<Rightarrow> 's network \<Rightarrow> WireSettingsQuery \<Rightarrow> ('s, jsval) engine_call" where
  "settingsRead other net request =
     call net (dispatch_op other net (Settings (ReqSettingsRead request)) replyToSettings)"

definition socSettingsRead ::
    "coercion \<Rightarrow> 's network \<Rightarrow> WireSocSettingsQuery \<Rightarrow> ('s, jsval) engine_call" where
  "socSettingsRead other net request =
     call net (dispatch_op other net (Soc (ReqSocSettingsRead request)) replyToSocSettings)"

definition socSettingsCommit ::
    "coercion \<Rightarrow> 's network \<Rightarrow> WireSocSettingsCommit \<Rightarrow> ('s, jsval) engine_call" where
  "socSettingsCommit other net request =
     call net (dispatch_op other net (Soc (ReqSocSettingsCommit request)) replyToSocSettingsCommitted)"

definition socCognitionRun ::
    "coercion \<Rightarrow> 's network \<Rightarrow> WireSocCognitionRun \<Rightarrow> ('s, jsval) engine_call" where
  "socCognitionRun other net request =
     call net (dispatch_op other net (Soc (ReqSocCognitionRun request)) replyToSocRunState)"

definition socPlanApprove ::
    "coercion \<Rightarrow> 's network \<Rightarrow> WireSocPlanApprove \<Rightarrow> ('s, jsval) engine_call" where
  "socPlanApprove other net request =
     call net (dispatch_op other net (Soc (ReqSocPlanApprove request)) replyToSocPlanEffect)"

definition socPlanModify ::
    "coercion \<Rightarrow> 's network \<Rightarrow> WireSocPlanModify \<Rightarrow> ('s, jsval) engine_call" where
  "socPlanModify other net request =
     call net (dispatch_op other net (Soc (ReqSocPlanModify request)) replyToSocPlanEffect)"

definition socIncidentAct ::
    "coercion \<Rightarrow> 's network \<Rightarrow> WireSocIncidentAct \<Rightarrow> ('s, jsval) engine_call" where
  "socIncidentAct other net request =
     call net (dispatch_op other net (Soc (ReqSocIncidentAct request)) replyToSocActOutcome)"

definition socNotes ::
    "coercion \<Rightarrow> 's network \<Rightarrow> WireSocNotesQuery \<Rightarrow> ('s, jsval) engine_call" where
  "socNotes other net request =
     call net (dispatch_op other net (Soc (ReqSocNotes request)) replyToSocNotes)"

definition socDisposition ::
    "coercion \<Rightarrow> 's network \<Rightarrow> WireSocDisposition \<Rightarrow> ('s, jsval) engine_call" where
  "socDisposition other net request =
     call net (dispatch_op other net (Soc (ReqSocDisposition request)) replyToSocDispositionOutcome)"

definition policyListByZone ::
    "coercion \<Rightarrow> 's network \<Rightarrow> WirePolicyListQuery \<Rightarrow> ('s, jsval) engine_call" where
  "policyListByZone other net request =
     call net (dispatch_op other net (Zone (ReqPolicyListByZone request)) replyToPolicyList)"

definition policyDetail ::
    "coercion \<Rightarrow> 's network \<Rightarrow> WirePolicyDetailQuery \<Rightarrow> ('s, jsval) engine_call" where
  "policyDetail other net request =
     call net (dispatch_op other net (Zone (ReqPolicyDetail request)) replyToPolicyDetail)"

definition policyEffective ::
    "coercion \<Rightarrow> 's network \<Rightarrow> WirePolicyEffectiveQuery \<Rightarrow> ('s, jsval) engine_call" where
  "policyEffective other net request =
     call net (dispatch_op other net (Zone (ReqPolicyEffective request)) replyToPolicyEffective)"

definition policyCreate ::
    "coercion \<Rightarrow> 's network \<Rightarrow> WirePolicyCreate \<Rightarrow> ('s, jsval) engine_call" where
  "policyCreate other net request =
     call net (dispatch_op other net (Zone (ReqPolicyCreate request)) replyToPolicyMutated)"

definition policyEdit ::
    "coercion \<Rightarrow> 's network \<Rightarrow> WirePolicyEdit \<Rightarrow> ('s, jsval) engine_call" where
  "policyEdit other net request =
     call net (dispatch_op other net (Zone (ReqPolicyEdit request)) replyToPolicyMutated)"

definition policyPublish ::
    "coercion \<Rightarrow> 's network \<Rightarrow> WirePolicyPublish \<Rightarrow> ('s, jsval) engine_call" where
  "policyPublish other net request =
     call net (dispatch_op other net (Zone (ReqPolicyPublish request)) replyToPolicyMutated)"

definition policyDelete ::
    "coercion \<Rightarrow> 's network \<Rightarrow> WirePolicyDelete \<Rightarrow> ('s, jsval) engine_call" where
  "policyDelete other net request =
     call net (dispatch_op other net (Zone (ReqPolicyDelete request)) replyToPolicyMutated)"

definition entityDecisions ::
    "coercion \<Rightarrow> 's network \<Rightarrow> WireEntityDecisions \<Rightarrow> ('s, jsval) engine_call" where
  "entityDecisions other net request =
     call net (dispatch_op other net (Core (ReqEntityDecisions request)) replyToDecisionList)"

definition entityConnections ::
    "coercion \<Rightarrow> 's network \<Rightarrow> WireEntityConnections \<Rightarrow> ('s, jsval) engine_call" where
  "entityConnections other net request =
     call net (dispatch_op other net (Core (ReqEntityConnections request)) replyToConnectionList)"

definition connectivityGraph ::
    "coercion \<Rightarrow> 's network \<Rightarrow> WireConnectivityQuery \<Rightarrow> ('s, jsval) engine_call" where
  "connectivityGraph other net request =
     call net (dispatch_op other net (Core (ReqConnectivityGraph request)) replyToConnectivityGraph)"

definition connectivityMembers ::
    "coercion \<Rightarrow> 's network \<Rightarrow> WireConnectivityMembers \<Rightarrow> ('s, jsval) engine_call" where
  "connectivityMembers other net request =
     call net (dispatch_op other net (Core (ReqConnectivityMembers request)) replyToMemberList)"

definition contain ::
    "coercion \<Rightarrow> 's network \<Rightarrow> WireContain \<Rightarrow> ('s, jsval) engine_call" where
  "contain other net request =
     call net (dispatch_op other net (Core (ReqContain request)) replyToContainEffect)"

definition logQuery ::
    "coercion \<Rightarrow> 's network \<Rightarrow> WireLogQuery \<Rightarrow> ('s, jsval) engine_call" where
  "logQuery other net request =
     call net (dispatch_op other net (Core (ReqLogQuery request)) replyToDecisionList)"

definition logExplain ::
    "coercion \<Rightarrow> 's network \<Rightarrow> WireLogExplain \<Rightarrow> ('s, jsval) engine_call" where
  "logExplain other net request =
     call net (dispatch_op other net (Core (ReqLogExplain request)) replyToDecisionDetail)"

definition logExport ::
    "coercion \<Rightarrow> 's network \<Rightarrow> WireLogExport \<Rightarrow> ('s, jsval) engine_call" where
  "logExport other net request =
     call net (dispatch_op other net (Core (ReqLogExport request)) replyToLogExported)"

definition vtzTree ::
    "coercion \<Rightarrow> 's network \<Rightarrow> WireVtzTreeQuery \<Rightarrow> ('s, jsval) engine_call" where
  "vtzTree other net request =
     call net (dispatch_op other net (Zone (ReqVtzTree request)) replyToVtzTree)"

definition bundleConvergence ::
    "coercion \<Rightarrow> 's network \<Rightarrow> WireBundleConvergenceQuery \<Rightarrow> ('s, jsval) engine_call" where
  "bundleConvergence other net request =
     call net (dispatch_op other net (Zone (ReqBundleConvergence request)) replyToBundleConvergence)"

definition vtzDetail ::
    "coercion \<Rightarrow> 's network \<Rightarrow> WireVtzDetailQuery \<Rightarrow> ('s, jsval) engine_call" where
  "vtzDetail other net request =
     call net (dispatch_op other net (Zone (ReqVtzDetail request)) replyToVtzDetail)"

definition bundleCommit ::
    "coercion \<Rightarrow> 's network \<Rightarrow> WireBundleCommit \<Rightarrow> ('s, jsval) engine_call" where
  "bundleCommit other net request =
     call net (dispatch_op other net (Zone (ReqBundleCommit request)) replyToBundleCommitted)"

definition vtzCreate ::
    "coercion \<Rightarrow> 's network \<Rightarrow> WireVtzCreate \<Rightarrow> ('s, jsval) engine_call" where
  "vtzCreate other net request =
     call net (dispatch_op other net (Zone (ReqVtzCreate request)) replyToVtzMutation)"

definition vtzEdit ::
    "coercion \<Rightarrow> 's network \<Rightarrow> WireVtzEdit \<Rightarrow> ('s, jsval) engine_call" where
  "vtzEdit other net request =
     call net (dispatch_op other net (Zone (ReqVtzEdit request)) replyToVtzMutation)"

definition vtzRescope ::
    "coercion \<Rightarrow> 's network \<Rightarrow> WireVtzRescope \<Rightarrow> ('s, jsval) engine_call" where
  "vtzRescope other net request =
     call net (dispatch_op other net (Zone (ReqVtzRescope request)) replyToVtzMutation)"

definition vtzDelete ::
    "coercion \<Rightarrow> 's network \<Rightarrow> WireVtzDelete \<Rightarrow> ('s, jsval) engine_call" where
  "vtzDelete other net request =
     call net (dispatch_op other net (Zone (ReqVtzDelete request)) replyToVtzMutation)"

section \<open>What a call leaves behind\<close>

text \<open>
  The transport a call leaves: the one that answered, or none when the call failed
  otherwise than by the engine's own refusal.
\<close>

definition answered_by :: "('s, 'a) operation \<Rightarrow> engine_error + 'a \<Rightarrow> 's engine_client \<Rightarrow> bool" where
  "answered_by op r c \<longleftrightarrow> (\<exists>t s. ec_transport c = Some t \<and> op t s = (Some r, ec_net c))"

definition call_outcome_ok ::
    "'s network \<Rightarrow> ('s, 'a) operation \<Rightarrow> (engine_error + 'a) option \<times> 's engine_client \<Rightarrow> bool" where
  "call_outcome_ok net op res = (case res of
       (Some (Inr x), c) \<Rightarrow> answered_by op (Inr x) c
     | (Some (Inl e), c) \<Rightarrow> (if is_refusal e then answered_by op (Inl e) c else ec_transport c = None)
     | (None, c) \<Rightarrow> \<exists>s s'. nw_connect net s = (Pending, s'))"

lemma is_refusal_simps [simp]:
  "is_refusal (EngineRefused d)" "\<not> is_refusal EngineTimeout" "\<not> is_refusal (ClientFault e)"
  "\<not> is_refusal (UnexpectedReply what)"
  by (simp_all add: is_refusal_def)

lemma withTimeout_Inr: "withTimeout out = Inr x \<Longrightarrow> out = Some (Inr x)"
  by (simp add: withTimeout_def split: option.splits)

lemma withTimeout_refusal: "withTimeout out = Inl e \<Longrightarrow> is_refusal e \<Longrightarrow> out = Some (Inl e)"
  by (auto simp: withTimeout_def is_refusal_def split: option.splits)

lemma ensureTransport_cases:
  obtains (live) t c' where "ensureTransport net c = (Some (Inr t), c')" "ec_transport c' = Some t"
    | (failed) e c' where "ensureTransport net c = (Some (Inl (ClientFault e)), c')" "ec_transport c' = None"
    | (hung) c' s s' where "ensureTransport net c = (None, c')" "nw_connect net s = (Pending, s')"
proof (cases "ec_transport c")
  case (Some t)
  then show thesis using live by (simp add: ensureTransport_def)
next
  case None
  obtain out s where conn: "nw_connect net (ec_net c) = (out, s)" by fastforce
  show thesis
    using live failed hung None conn
    by (cases out) (auto simp: ensureTransport_def)
qed

lemma attempts_retry:
  assumes "ensureTransport net c = (Some (Inr t), cc)" "op t (ec_net cc) = (out, s)" "withTimeout out = Inl e"
    and "\<not> is_refusal e"
  shows "attempts net op (Suc n) err c = attempts net op n e (invalidate net t (cc\<lparr>ec_net := s\<rparr>))"
  using assms by simp

lemma attempts_done:
  assumes "ensureTransport net c = (Some (Inr t), cc)" "op t (ec_net cc) = (out, s)" "withTimeout out = Inr x"
  shows "attempts net op (Suc n) err c = (Some (Inr x), cc\<lparr>ec_net := s\<rparr>)"
  using assms by simp

lemma attempts_outcome_ok:
  assumes "n = 0 \<Longrightarrow> ec_transport c = None \<and> \<not> is_refusal err"
  shows "call_outcome_ok net op (attempts net op n err c)"
  using assms
proof (induction n arbitrary: err c)
  case 0
  then show ?case by (simp add: call_outcome_ok_def)
next
  case (Suc n)
  show ?case
  proof (cases rule: ensureTransport_cases [of net c])
    case (live t c')
    obtain out s where op: "op t (ec_net c') = (out, s)" by fastforce
    show ?thesis
    proof (cases "withTimeout out")
      case (Inr x)
      with live op withTimeout_Inr [of out x] show ?thesis
        by (auto simp: call_outcome_ok_def answered_by_def Let_def)
    next
      case (Inl e)
      show ?thesis
      proof (cases "is_refusal e")
        case True
        with live op Inl withTimeout_refusal [of out e] show ?thesis
          by (auto simp: call_outcome_ok_def answered_by_def Let_def)
      next
        case False
        then have "call_outcome_ok net op (attempts net op n e (invalidate net t (c'\<lparr>ec_net := s\<rparr>)))"
          by (intro Suc.IH) (simp add: invalidate_def live)
        with live op Inl False show ?thesis by (simp add: Let_def)
      qed
    qed
  next
    case (failed e c')
    then show ?thesis by (simp add: call_outcome_ok_def is_refusal_def)
  next
    case (hung c' s s')
    then show ?thesis by (auto simp: call_outcome_ok_def)
  qed
qed


section \<open>A network of connections\<close>

text \<open>
  A concrete network: the connections the dialler will get, one after the other, each a
  stream transport with the events still to come, and the transports that were ended.  A
  write to a stream that was ended fails.
\<close>

record wire_net =
  wn_conns :: "world list"
  wn_dialled :: nat
  wn_ended :: "nat list"

definition at_conn :: "nat \<Rightarrow> (world, 'a) async \<Rightarrow> (wire_net, 'a) async" where
  "at_conn n m s = (case m (wn_conns s ! n) of (out, w) \<Rightarrow> (out, s\<lparr>wn_conns := (wn_conns s)[n := w]\<rparr>))"

definition conn_channel :: "nat \<Rightarrow> wire_net channel" where
  "conn_channel n =
     \<lparr>ch_send = (\<lambda>f s. if n \<in> set (wn_ended s)
                    then (Rejected (TransportError (WriteError ''write after end'')), s)
                    else at_conn n (socket_send f) s),
      ch_recv = at_conn n socket_recv\<rparr>"

definition dial_next :: "(wire_net, nat) async" where
  "dial_next s =
     (let n = wn_dialled s
      in if n < length (wn_conns s) then (Resolved n, s\<lparr>wn_dialled := Suc n\<rparr>)
         else (Rejected (TransportError (StreamError ''ECONNREFUSED'')), s))"

definition wire_network :: "coercion \<Rightarrow> wire_net network" where
  "wire_network other =
     \<lparr>nw_channel = conn_channel, nw_connect = connectEngine other conn_channel dial_next,
      nw_close = (\<lambda>n s. s\<lparr>wn_ended := n # wn_ended s\<rparr>)\<rparr>"

text \<open>
  Code that uses one connection only runs as it would on that connection alone, and leaves
  everything else of the network as it was.
\<close>

definition local_to :: "nat \<Rightarrow> (wire_net, 'a) async \<Rightarrow> (world, 'a) async \<Rightarrow> bool" where
  "local_to n m m' \<longleftrightarrow>
     (\<forall>s. n < length (wn_conns s) \<longrightarrow> n \<notin> set (wn_ended s) \<longrightarrow> m s = at_conn n m' s)"

named_theorems local_intros \<open>code that stays on one connection\<close>

lemma local_send [local_intros]: "local_to n (ch_send (conn_channel n) f) (ch_send socket_channel f)"
  by (simp add: local_to_def conn_channel_def socket_channel_def)

lemma local_recv [local_intros]: "local_to n (ch_recv (conn_channel n)) (ch_recv socket_channel)"
  by (simp add: local_to_def conn_channel_def socket_channel_def)

lemma local_result [local_intros]: "local_to n (async_result wrap r) (async_result wrap r)"
  by (cases r) (simp_all add: local_to_def at_conn_def async_simps)

lemma local_throw [local_intros]: "local_to n (async_throw e) (async_throw e)"
  by (simp add: local_to_def at_conn_def async_simps)

lemma local_if [local_intros]:
  "local_to n a a' \<Longrightarrow> local_to n b b' \<Longrightarrow> local_to n (if P then a else b) (if P then a' else b')"
  by simp

lemma local_bind [local_intros]:
  assumes "local_to n m m'" and "\<And>x. local_to n (k x) (k' x)"
  shows "local_to n (async_bind m k) (async_bind m' k')"
  unfolding local_to_def
proof (intro allI impI)
  fix s :: wire_net
  assume s: "n < length (wn_conns s)" "n \<notin> set (wn_ended s)"
  obtain out w where m': "m' (wn_conns s ! n) = (out, w)" by fastforce
  let ?s = "s\<lparr>wn_conns := (wn_conns s)[n := w]\<rparr>"
  have m: "m s = (out, ?s)" using assms(1) s m' by (simp add: local_to_def at_conn_def)
  show "async_bind m k s = at_conn n (async_bind m' k') s"
  proof (cases out)
    case (Resolved x)
    have "k x ?s = at_conn n (k' x) ?s" using assms(2) s by (simp add: local_to_def)
    with Resolved m m' s show ?thesis by (simp add: async_bind_def at_conn_def)
  qed (use m m' in \<open>simp_all add: async_bind_def at_conn_def\<close>)
qed

lemma dispatch_local: "local_to n (dispatch other (conn_channel n) r) (dispatch other socket_channel r)"
  unfolding dispatch_def by (intro local_intros)

lemma handshake_local: "local_to n (wireHandshake other (conn_channel n) hello) (wireHandshake other socket_channel hello)"
  unfolding wireHandshake_def by (intro local_intros)

lemma local_run:
  assumes "local_to n m m'" "n < length (wn_conns s)" "n \<notin> set (wn_ended s)" "m' (wn_conns s ! n) = (out, w)"
  shows "m s = (out, s\<lparr>wn_conns := (wn_conns s)[n := w]\<rparr>)"
  using assms by (simp add: local_to_def at_conn_def)

context frame_transport
begin

lemma dispatch_unanswered:
  assumes "open_at s" "coming s = []" "dispatchable r"
  shows "\<exists>s'. dispatch other chan r s = (Pending, s') \<and> sent s' = sent s @ outbound_bytes (request_frame r)"
proof -
  obtain ft v where "frameTypeForRequest r = Inr ft" "encodeWireRequest r = Inr (wire_bytes v)"
      "request_frame r = stream0_frame ft (wire_bytes v)"
    using dispatchable_steps [OF assms(3)] by metis
  with exchange_unanswered [OF assms(1,2), of "request_frame r"] show ?thesis
    by (auto simp: dispatch_def async_simps)
qed

end

section \<open>Retries\<close>

text \<open>The state of a client whose connection is gone quiet, with another one to be had.\<close>

definition two_connections :: "world \<Rightarrow> world \<Rightarrow> wire_net engine_client" where
  "two_connections w0 w1 = \<lparr>ec_transport = Some 0, ec_heartbeat = True,
     ec_net = \<lparr>wn_conns = [w0, w1], wn_dialled = 1, wn_ended = []\<rparr>\<rparr>"

definition conn_sent :: "nat \<Rightarrow> wire_net engine_client \<Rightarrow> bytes" where
  "conn_sent n c = written (w_transport (wn_conns (ec_net c) ! n))"

text \<open>
  A request whose reply does not come in time is sent again: the connection is
  dropped, a fresh one is dialled and greeted, and the same request frame is written to it,
  whatever the request asks for.  The caller gets the second answer, and an engine that
  had carried out the first one has been told to do it twice.
\<close>
theorem call_resends:
  assumes "dispatchable r" and "world_open w0" "world_coming w0 = []"
    and "world_open w1" "world_coming w1 = f # g # fs"
    and "frameType (wf_header f) = opcode Ready" "ready_profile other DEFAULT_HELLO (wf_payload f) = Inr profile"
    and "decodeWireReply other (wf_payload g) = Inr v" "reply v = Inr x"
  shows "\<exists>c. call (wire_network other) (dispatch_op other (wire_network other) r reply) (two_connections w0 w1) =
      (Some (Inr x), c) \<and>
    ec_transport c = Some 1 \<and>
    conn_sent 0 c = written (w_transport w0) @ outbound_bytes (request_frame r) \<and>
    (\<exists>hello. conn_sent 1 c = written (w_transport w1) @ hello @ outbound_bytes (request_frame r))"
proof -
  let ?net = "wire_network other" and ?c = "two_connections w0 w1"
  let ?op = "dispatch_op other ?net r reply"
  from socket.dispatch_unanswered [OF assms(2,3,1), of other] obtain w0' where
    w0': "dispatch other socket_channel r w0 = (Pending, w0')"
      "written (w_transport w0') = written (w_transport w0) @ outbound_bytes (request_frame r)" by blast
  let ?s1 = "\<lparr>wn_conns = [w0', w1], wn_dialled = 1, wn_ended = []\<rparr>"
  have first: "?op 0 (ec_net ?c) = (None, ?s1)"
    using local_run [OF dispatch_local, of 0 "ec_net ?c" other r Pending w0'] w0'(1)
    by (simp add: dispatch_op_def wire_network_def two_connections_def settle_def)
  let ?s2 = "\<lparr>wn_conns = [w0', w1], wn_dialled = 2, wn_ended = [0]\<rparr>"
  obtain p where p: "encodeClientHello DEFAULT_HELLO = Inr p" using encodeClientHello_ok [OF default_hello_ok] by blast
  from socket.wireHandshake_answers [OF assms(4,5) p, of other] assms(6,7) obtain w1' where
    w1': "wireHandshake other socket_channel DEFAULT_HELLO w1 = (Resolved profile, w1')" "world_open w1'"
      "world_coming w1' = g # fs"
      "written (w_transport w1') = written (w_transport w1) @ outbound_bytes (hello_frame DEFAULT_HELLO p)"
    by auto
  let ?s3 = "\<lparr>wn_conns = [w0', w1'], wn_dialled = 2, wn_ended = [0]\<rparr>"
  have greet: "nw_connect ?net \<lparr>wn_conns = [w0', w1], wn_dialled = 1, wn_ended = [0]\<rparr> = (Resolved 1, ?s3)"
    using local_run [OF handshake_local, of 1 ?s2 other DEFAULT_HELLO "Resolved profile" w1'] w1'(1)
    by (simp add: wire_network_def connectEngine_def dial_next_def async_bind_def async_return_def numeral_2_eq_2)
  from socket.dispatch_answered [OF w1'(2,3) assms(1), of other] assms(8) obtain w1'' where
    w1'': "dispatch other socket_channel r w1' = (Resolved v, w1'')"
      "written (w_transport w1'') = written (w_transport w1') @ outbound_bytes (request_frame r)" by auto
  have second: "?op 1 ?s3 = (Some (Inr x), ?s3\<lparr>wn_conns := [w0', w1'']\<rparr>)"
    using local_run [OF dispatch_local, of 1 ?s3 other r "Resolved v" w1''] w1''(1) assms(9)
    by (simp add: dispatch_op_def wire_network_def settle_def)
  let ?c1 = "\<lparr>ec_transport = None, ec_heartbeat = False,
      ec_net = \<lparr>wn_conns = [w0', w1], wn_dialled = 1, wn_ended = [0]\<rparr>\<rparr>"
  have "attempts ?net ?op 2 EngineTimeout ?c = attempts ?net ?op 1 EngineTimeout ?c1"
    unfolding numeral_2_eq_2 One_nat_def
    by (subst attempts_retry [where op = ?op and t = 0 and cc = ?c and e = EngineTimeout, OF _ first])
      (simp_all add: ensureTransport_def withTimeout_def is_refusal_def invalidate_def two_connections_def wire_network_def)
  also have "\<dots> = (Some (Inr x), \<lparr>ec_transport = Some 1, ec_heartbeat = True, ec_net = ?s3\<lparr>wn_conns := [w0', w1'']\<rparr>\<rparr>)"
    unfolding One_nat_def
    by (subst attempts_done [where t = 1 and out = "Some (Inr x)" and x = x and cc = "\<lparr>ec_transport = Some 1, ec_heartbeat = True, ec_net = ?s3\<rparr>"])
      (use greet second in \<open>simp_all add: ensureTransport_def withTimeout_def\<close>)
  finally show ?thesis
    using w0'(2) w1''(2) w1'(4) by (simp add: call_def conn_sent_def)
qed

definition sample_delete :: WireRequest where
  "sample_delete = Zone (ReqVtzDelete \<lparr>request_id = NInt 0, operator = None, vr_vtz_id = ''Corp.Lab''\<rparr>)"

lemma sample_delete_value:
  "request_value sample_delete =
     Some (JObj [(''VtzDelete'', JObj [(''request_id'', JNum (NInt 0)), (''vtz_id'', JStr ''Corp.Lab'')])])"
  by (simp add: sample_delete_def tagged_def vtzDeleteToCbor_def applyOperator_def read_entries_def opt_def)

lemma sample_delete_dispatchable: "dispatchable sample_delete"
proof -
  have "scalars_ok (the (request_value sample_delete))"
    by (simp add: sample_delete_value str_ok_ascii ascii_def del: wire_ok.simps(1))
  moreover have "pred_option shaped (opaque_part sample_delete)" by (simp add: sample_delete_def)
  ultimately show ?thesis
    using shaped_wire_ok [OF request_shaped [OF sample_delete_value]]
    by (simp add: dispatchable_def sample_delete_value wire_bytes_def encodeText_def encodeInt_def head_def push_def
        isInteger_def toBigInt_def DEFAULT_MAX_PAYLOAD_def del: wire_ok.simps)
qed

definition sample_answer :: jsval where
  "sample_answer = JObj [(''VtzMutated'', JBool True)]"

lemma sample_answer_ok: "wire_ok sample_answer"
  unfolding sample_answer_def by (rule wire_ok_record) (auto simp: name_ok_def ascii_def is_digit_def)

lemma sample_answer_read: "decodeWireReply other (wire_bytes sample_answer) = Inr sample_answer"
  using decode_wire_bytes [OF sample_answer_ok, of other]
  by (simp add: decodeWireReply_def decode_value_def sample_answer_def)

text \<open>The connection of an engine that greets and then answers once.\<close>

definition answering :: world where
  "answering = connection [outbound_bytes (server_frame Ready []),
     outbound_bytes (server_frame QueryResult (wire_bytes sample_answer))]"

lemma answering_coming:
  "world_coming answering = [carried (server_frame Ready []), carried (server_frame QueryResult (wire_bytes sample_answer))]"
proof -
  let ?fs = "[server_frame Ready [], server_frame QueryResult (wire_bytes sample_answer)]"
  have "frames_of (concat (map outbound_bytes ?fs)) = (map carried ?fs, [], None)"
    by (rule frames_of_outbound)
      (auto simp: server_frame_ok sample_answer_def wire_bytes_def encodeText_def head_def push_def DEFAULT_MAX_PAYLOAD_def)
  then show ?thesis by (simp add: answering_def)
qed

theorem call_resends_witness:
  "\<exists>c. call (wire_network (\<lambda>_. None)) (dispatch_op (\<lambda>_. None) (wire_network (\<lambda>_. None)) sample_delete replyToVtzMutation)
      (two_connections (connection []) answering) = (Some (Inr (JBool True)), c) \<and>
    conn_sent 0 c = outbound_bytes (request_frame sample_delete)"
proof -
  let ?g = "carried (server_frame QueryResult (wire_bytes sample_answer))"
  have opened: "world_open answering" by (simp add: answering_def)
  have quiet: "world_coming (connection []) = []" by (simp add: frames_of.simps HEADER_LEN_def)
  have ready: "frameType (wf_header (carried (server_frame Ready []))) = opcode Ready" by simp
  obtain p where p: "ready_profile (\<lambda>_. None) DEFAULT_HELLO (wf_payload (carried (server_frame Ready []))) = Inr p"
    by (simp add: carried_def server_frame_def ready_profile_def)
  have answer: "decodeWireReply (\<lambda>_. None) (wf_payload ?g) = Inr sample_answer"
    using sample_answer_read by (simp add: carried_def server_frame_def)
  have reply: "replyToVtzMutation sample_answer = Inr (JBool True)"
    by (simp add: replyToVtzMutation_def reply_as_def sample_answer_def)
  from call_resends [where reply = replyToVtzMutation, OF sample_delete_dispatchable connection_open quiet opened answering_coming ready p answer reply]
  show ?thesis by auto
qed

section \<open>A silent peer\<close>

text \<open>
  The time limit of a call does not cover connecting: when the sidecar accepts the connection and the
  engine behind it stays silent, no call ever settles, whatever limit it was given.
\<close>
theorem connect_unbounded:
  assumes "world_open w" "world_coming w = []"
  shows "fst (call (wire_network other) op
    \<lparr>ec_transport = None, ec_heartbeat = False, ec_net = \<lparr>wn_conns = [w], wn_dialled = 0, wn_ended = []\<rparr>\<rparr>) = None"
proof -
  let ?s = "\<lparr>wn_conns = [w], wn_dialled = 1, wn_ended = []\<rparr>"
  have "encodeClientHello DEFAULT_HELLO = Inr (wire_bytes (hello_value DEFAULT_HELLO))"
    by (rule encodeClientHello_ok [OF default_hello_ok])
  from socket.handshakes_unanswered(2) [OF assms this, of other] obtain w' where
    "wireHandshake other socket_channel DEFAULT_HELLO w = (Pending, w')" by blast
  then have "wireHandshake other (conn_channel 0) DEFAULT_HELLO ?s = (Pending, ?s\<lparr>wn_conns := [w']\<rparr>)"
    using local_run [OF handshake_local, of 0 ?s other DEFAULT_HELLO Pending w'] by simp
  then show ?thesis
    by (simp add: call_def numeral_2_eq_2 ensureTransport_def wire_network_def connectEngine_def dial_next_def async_bind_def)
qed

theorem connect_unbounded_witness:
  "fst (ping (wire_network (\<lambda>_. None)) \<lparr>ec_transport = None, ec_heartbeat = False,
     ec_net = \<lparr>wn_conns = [connection []], wn_dialled = 0, wn_ended = []\<rparr>\<rparr>) = None"
  unfolding ping_def
  by (rule connect_unbounded) (simp_all add: frames_of.simps HEADER_LEN_def)

end
