(* ===== verification/OperatorEngine.thy ===== *)
theory OperatorEngine
  imports WireClient Auth
begin

text \<open>
  The facade every surface reaches the engine through:
  \<open>apps/bff/src/engine/operator-engine.ts\<close>.  Each operation names the operator it is for,
  leaves a trace of the delegation before it runs, and sets the operator on the request it
  hands to the client.  The sink is the list of delegations recorded, as the logger sink writes them.
\<close>

section \<open>Delegations\<close>

type_synonym EngineAction = string

record EngineDelegation =
  del_operator :: string
  del_tier :: ExplainTier
  del_action :: EngineAction
  del_requestId :: "jsnum option"
  del_tenant :: "string option"

definition delegationFor :: "OperatorPrincipal \<Rightarrow> EngineAction \<Rightarrow> jsnum option \<Rightarrow> EngineDelegation" where
  "delegationFor actor action requestId =
     \<lparr>del_operator = op_subject actor, del_tier = op_tier actor, del_action = action,
      del_requestId = requestId, del_tenant = Some (op_tenant actor)\<rparr>"

text \<open>\<open>{ principal: principal.principalId, tenant: principal.tenant }\<close>\<close>

definition plainDelegation :: "OperatorPrincipal \<Rightarrow> OperatorDelegation" where
  "plainDelegation actor =
     \<lparr>od_principal = op_principalId actor, od_tenant = op_tenant actor, od_settings_tier = None\<rparr>"

definition settingsDelegation :: "OperatorPrincipal \<Rightarrow> OperatorDelegation" where
  "settingsDelegation actor =
     \<lparr>od_principal = op_principalId actor, od_tenant = op_tenant actor,
      od_settings_tier = map_option tier_name (op_settingsTier actor)\<rparr>"

record 's facade_state =
  fc_client :: "'s engine_client"
  fc_log :: "EngineDelegation list"

type_synonym ('s, 'a) facade_call = "'s facade_state \<Rightarrow> (engine_error + 'a) option \<times> 's facade_state"

text \<open>\<open>delegation.record(...)\<close>, then the call.\<close>

definition recorded :: "EngineDelegation \<Rightarrow> ('s, 'a) engine_call \<Rightarrow> ('s, 'a) facade_call" where
  "recorded d engine_call st = (case engine_call (fc_client st) of
     (out, c) \<Rightarrow> (out, \<lparr>fc_client = c, fc_log = fc_log st @ [d]\<rparr>))"

section \<open>The operations\<close>

definition querySubmit ::
    "coercion \<Rightarrow> 's network \<Rightarrow> OperatorPrincipal \<Rightarrow> WireQuerySubmit \<Rightarrow> ('s, jsval) facade_call" where
  "querySubmit other net actor request =
     recorded (delegationFor actor ''querySubmit'' (Some (request_id request)))
       (WireClient.querySubmit other net (request\<lparr>operator := Some (plainDelegation actor)\<rparr>))"

definition listAgents ::
    "coercion \<Rightarrow> 's network \<Rightarrow> OperatorPrincipal \<Rightarrow> WireListAgents \<Rightarrow> ('s, jsval) facade_call" where
  "listAgents other net actor request =
     recorded (delegationFor actor ''listAgents'' (Some (request_id request)))
       (WireClient.listAgents other net (request\<lparr>operator := Some (plainDelegation actor)\<rparr>))"

definition listPrincipals ::
    "coercion \<Rightarrow> 's network \<Rightarrow> OperatorPrincipal \<Rightarrow> WireListPrincipals \<Rightarrow> ('s, jsval) facade_call" where
  "listPrincipals other net actor request =
     recorded (delegationFor actor ''listPrincipals'' (Some (request_id request)))
       (WireClient.listPrincipals other net (request\<lparr>operator := Some (plainDelegation actor)\<rparr>))"

definition listGroups ::
    "coercion \<Rightarrow> 's network \<Rightarrow> OperatorPrincipal \<Rightarrow> WireListGroups \<Rightarrow> ('s, jsval) facade_call" where
  "listGroups other net actor request =
     recorded (delegationFor actor ''listGroups'' (Some (request_id request)))
       (WireClient.listGroups other net (request\<lparr>operator := Some (plainDelegation actor)\<rparr>))"

definition groupCreate ::
    "coercion \<Rightarrow> 's network \<Rightarrow> OperatorPrincipal \<Rightarrow> WireGroupWrite \<Rightarrow> ('s, jsval) facade_call" where
  "groupCreate other net actor request =
     recorded (delegationFor actor ''groupCreate'' (Some (request_id request)))
       (WireClient.groupCreate other net (request\<lparr>operator := Some (plainDelegation actor)\<rparr>))"

definition objectList ::
    "coercion \<Rightarrow> 's network \<Rightarrow> OperatorPrincipal \<Rightarrow> WireObjectList \<Rightarrow> ('s, jsval) facade_call" where
  "objectList other net actor request =
     recorded (delegationFor actor ''objectList'' (Some (request_id request)))
       (WireClient.objectList other net (request\<lparr>operator := Some (plainDelegation actor)\<rparr>))"

definition idamConnectors ::
    "coercion \<Rightarrow> 's network \<Rightarrow> OperatorPrincipal \<Rightarrow> WireIdamConnectors \<Rightarrow> ('s, jsval) facade_call" where
  "idamConnectors other net actor request =
     recorded (delegationFor actor ''idamConnectors'' (Some (request_id request)))
       (WireClient.idamConnectors other net (request\<lparr>operator := Some (plainDelegation actor)\<rparr>))"

definition idamSync ::
    "coercion \<Rightarrow> 's network \<Rightarrow> OperatorPrincipal \<Rightarrow> WireIdamSync \<Rightarrow> ('s, jsval) facade_call" where
  "idamSync other net actor request =
     recorded (delegationFor actor ''idamSync'' (Some (request_id request)))
       (WireClient.idamSync other net (request\<lparr>operator := Some (plainDelegation actor)\<rparr>))"

definition idamConnect ::
    "coercion \<Rightarrow> 's network \<Rightarrow> OperatorPrincipal \<Rightarrow> WireIdamConnect \<Rightarrow> ('s, jsval) facade_call" where
  "idamConnect other net actor request =
     recorded (delegationFor actor ''idamConnect'' (Some (request_id request)))
       (WireClient.idamConnect other net (request\<lparr>operator := Some (plainDelegation actor)\<rparr>))"

definition idamConfigure ::
    "coercion \<Rightarrow> 's network \<Rightarrow> OperatorPrincipal \<Rightarrow> WireIdamConfigure \<Rightarrow> ('s, jsval) facade_call" where
  "idamConfigure other net actor request =
     recorded (delegationFor actor ''idamConfigure'' (Some (request_id request)))
       (WireClient.idamConfigure other net (request\<lparr>operator := Some (plainDelegation actor)\<rparr>))"

definition objectDetail ::
    "coercion \<Rightarrow> 's network \<Rightarrow> OperatorPrincipal \<Rightarrow> WireObjectDetailQuery \<Rightarrow> ('s, jsval) facade_call" where
  "objectDetail other net actor request =
     recorded (delegationFor actor ''objectDetail'' (Some (request_id request)))
       (WireClient.objectDetail other net (request\<lparr>operator := Some (plainDelegation actor)\<rparr>))"

definition detectSummary ::
    "coercion \<Rightarrow> 's network \<Rightarrow> OperatorPrincipal \<Rightarrow> WireDetectSummaryQuery \<Rightarrow> ('s, jsval) facade_call" where
  "detectSummary other net actor request =
     recorded (delegationFor actor ''detectSummary'' (Some (request_id request)))
       (WireClient.detectSummary other net (request\<lparr>operator := Some (plainDelegation actor)\<rparr>))"

definition socIncidentList ::
    "coercion \<Rightarrow> 's network \<Rightarrow> OperatorPrincipal \<Rightarrow> WireSocIncidentListQuery \<Rightarrow> ('s, jsval) facade_call" where
  "socIncidentList other net actor request =
     recorded (delegationFor actor ''socIncidentList'' (Some (request_id request)))
       (WireClient.socIncidentList other net (request\<lparr>operator := Some (plainDelegation actor)\<rparr>))"

definition socIncidentDetail ::
    "coercion \<Rightarrow> 's network \<Rightarrow> OperatorPrincipal \<Rightarrow> WireSocIncidentDetailQuery \<Rightarrow> ('s, jsval) facade_call" where
  "socIncidentDetail other net actor request =
     recorded (delegationFor actor ''socIncidentDetail'' (Some (request_id request)))
       (WireClient.socIncidentDetail other net (request\<lparr>operator := Some (plainDelegation actor)\<rparr>))"

definition socNarrative ::
    "coercion \<Rightarrow> 's network \<Rightarrow> OperatorPrincipal \<Rightarrow> WireSocNarrativeQuery \<Rightarrow> ('s, jsval) facade_call" where
  "socNarrative other net actor request =
     recorded (delegationFor actor ''socNarrative'' (Some (request_id request)))
       (WireClient.socNarrative other net (request\<lparr>operator := Some (plainDelegation actor)\<rparr>))"

definition socTelemetry ::
    "coercion \<Rightarrow> 's network \<Rightarrow> OperatorPrincipal \<Rightarrow> WireSocTelemetryQuery \<Rightarrow> ('s, jsval) facade_call" where
  "socTelemetry other net actor request =
     recorded (delegationFor actor ''socTelemetry'' (Some (request_id request)))
       (WireClient.socTelemetry other net (request\<lparr>operator := Some (plainDelegation actor)\<rparr>))"

definition socAudit ::
    "coercion \<Rightarrow> 's network \<Rightarrow> OperatorPrincipal \<Rightarrow> WireSocAuditQuery \<Rightarrow> ('s, jsval) facade_call" where
  "socAudit other net actor request =
     recorded (delegationFor actor ''socAudit'' (Some (request_id request)))
       (WireClient.socAudit other net (request\<lparr>operator := Some (plainDelegation actor)\<rparr>))"

definition socImpact ::
    "coercion \<Rightarrow> 's network \<Rightarrow> OperatorPrincipal \<Rightarrow> WireSocImpactQuery \<Rightarrow> ('s, jsval) facade_call" where
  "socImpact other net actor request =
     recorded (delegationFor actor ''socImpact'' (Some (request_id request)))
       (WireClient.socImpact other net (request\<lparr>operator := Some (plainDelegation actor)\<rparr>))"

definition socReport ::
    "coercion \<Rightarrow> 's network \<Rightarrow> OperatorPrincipal \<Rightarrow> WireSocReportQuery \<Rightarrow> ('s, jsval) facade_call" where
  "socReport other net actor request =
     recorded (delegationFor actor ''socReport'' (Some (request_id request)))
       (WireClient.socReport other net (request\<lparr>operator := Some (plainDelegation actor)\<rparr>))"

definition socWeekly ::
    "coercion \<Rightarrow> 's network \<Rightarrow> OperatorPrincipal \<Rightarrow> WireSocWeeklyQuery \<Rightarrow> ('s, jsval) facade_call" where
  "socWeekly other net actor request =
     recorded (delegationFor actor ''socWeekly'' (Some (request_id request)))
       (WireClient.socWeekly other net (request\<lparr>operator := Some (plainDelegation actor)\<rparr>))"

definition socSettingsRead ::
    "coercion \<Rightarrow> 's network \<Rightarrow> OperatorPrincipal \<Rightarrow> WireSocSettingsQuery \<Rightarrow> ('s, jsval) facade_call" where
  "socSettingsRead other net actor request =
     recorded (delegationFor actor ''socSettingsRead'' (Some (request_id request)))
       (WireClient.socSettingsRead other net (request\<lparr>operator := Some (settingsDelegation actor)\<rparr>))"

definition settingsRead ::
    "coercion \<Rightarrow> 's network \<Rightarrow> OperatorPrincipal \<Rightarrow> WireSettingsQuery \<Rightarrow> ('s, jsval) facade_call" where
  "settingsRead other net actor request =
     recorded (delegationFor actor ''settingsRead'' (Some (request_id request)))
       (WireClient.settingsRead other net (request\<lparr>operator := Some (settingsDelegation actor)\<rparr>))"

definition settingsPropose ::
    "coercion \<Rightarrow> 's network \<Rightarrow> OperatorPrincipal \<Rightarrow> WireSettingsCommit \<Rightarrow> ('s, jsval) facade_call" where
  "settingsPropose other net actor request =
     recorded (delegationFor actor ''settingsPropose'' (Some (request_id request)))
       (WireClient.settingsPropose other net (request\<lparr>operator := Some (settingsDelegation actor)\<rparr>))"

definition settingsApprovals ::
    "coercion \<Rightarrow> 's network \<Rightarrow> OperatorPrincipal \<Rightarrow> WireSettingsApprovalsQuery \<Rightarrow> ('s, jsval) facade_call" where
  "settingsApprovals other net actor request =
     recorded (delegationFor actor ''settingsApprovals'' (Some (request_id request)))
       (WireClient.settingsApprovals other net (request\<lparr>operator := Some (settingsDelegation actor)\<rparr>))"

definition settingsApprove ::
    "coercion \<Rightarrow> 's network \<Rightarrow> OperatorPrincipal \<Rightarrow> WireSettingsApprove \<Rightarrow> ('s, jsval) facade_call" where
  "settingsApprove other net actor request =
     recorded (delegationFor actor ''settingsApprove'' (Some (request_id request)))
       (WireClient.settingsApprove other net (request\<lparr>operator := Some (settingsDelegation actor)\<rparr>))"

definition settingsHistory ::
    "coercion \<Rightarrow> 's network \<Rightarrow> OperatorPrincipal \<Rightarrow> WireSettingsHistoryQuery \<Rightarrow> ('s, jsval) facade_call" where
  "settingsHistory other net actor request =
     recorded (delegationFor actor ''settingsHistory'' (Some (request_id request)))
       (WireClient.settingsHistory other net (request\<lparr>operator := Some (settingsDelegation actor)\<rparr>))"

definition settingsRollback ::
    "coercion \<Rightarrow> 's network \<Rightarrow> OperatorPrincipal \<Rightarrow> WireSettingsRollback \<Rightarrow> ('s, jsval) facade_call" where
  "settingsRollback other net actor request =
     recorded (delegationFor actor ''settingsRollback'' (Some (request_id request)))
       (WireClient.settingsRollback other net (request\<lparr>operator := Some (settingsDelegation actor)\<rparr>))"

definition settingsReports ::
    "coercion \<Rightarrow> 's network \<Rightarrow> OperatorPrincipal \<Rightarrow> WireSettingsReportsQuery \<Rightarrow> ('s, jsval) facade_call" where
  "settingsReports other net actor request =
     recorded (delegationFor actor ''settingsReports'' (Some (request_id request)))
       (WireClient.settingsReports other net (request\<lparr>operator := Some (settingsDelegation actor)\<rparr>))"

definition modelAccessRead ::
    "coercion \<Rightarrow> 's network \<Rightarrow> OperatorPrincipal \<Rightarrow> WireModelAccessQuery \<Rightarrow> ('s, jsval) facade_call" where
  "modelAccessRead other net actor request =
     recorded (delegationFor actor ''modelAccessRead'' (Some (request_id request)))
       (WireClient.modelAccessRead other net (request\<lparr>operator := Some (settingsDelegation actor)\<rparr>))"

definition agentGrantSet ::
    "coercion \<Rightarrow> 's network \<Rightarrow> OperatorPrincipal \<Rightarrow> WireAgentGrantSet \<Rightarrow> ('s, jsval) facade_call" where
  "agentGrantSet other net actor request =
     recorded (delegationFor actor ''agentGrantSet'' (Some (request_id request)))
       (WireClient.agentGrantSet other net (request\<lparr>operator := Some (settingsDelegation actor)\<rparr>))"

definition settingsCommit ::
    "coercion \<Rightarrow> 's network \<Rightarrow> OperatorPrincipal \<Rightarrow> WireSettingsCommit \<Rightarrow> ('s, jsval) facade_call" where
  "settingsCommit other net actor request =
     recorded (delegationFor actor ''settingsCommit'' (Some (request_id request)))
       (WireClient.settingsCommit other net (request\<lparr>operator := Some (settingsDelegation actor)\<rparr>))"

definition socSettingsCommit ::
    "coercion \<Rightarrow> 's network \<Rightarrow> OperatorPrincipal \<Rightarrow> WireSocSettingsCommit \<Rightarrow> ('s, jsval) facade_call" where
  "socSettingsCommit other net actor request =
     recorded (delegationFor actor ''socSettingsCommit'' (Some (request_id request)))
       (WireClient.socSettingsCommit other net (request\<lparr>operator := Some (settingsDelegation actor)\<rparr>))"

definition socCognitionRun ::
    "coercion \<Rightarrow> 's network \<Rightarrow> OperatorPrincipal \<Rightarrow> WireSocCognitionRun \<Rightarrow> ('s, jsval) facade_call" where
  "socCognitionRun other net actor request =
     recorded (delegationFor actor ''socCognitionRun'' (Some (request_id request)))
       (WireClient.socCognitionRun other net (request\<lparr>operator := Some (plainDelegation actor)\<rparr>))"

definition socPlanApprove ::
    "coercion \<Rightarrow> 's network \<Rightarrow> OperatorPrincipal \<Rightarrow> WireSocPlanApprove \<Rightarrow> ('s, jsval) facade_call" where
  "socPlanApprove other net actor request =
     recorded (delegationFor actor ''socPlanApprove'' (Some (request_id request)))
       (WireClient.socPlanApprove other net (request\<lparr>operator := Some (plainDelegation actor)\<rparr>))"

definition socPlanModify ::
    "coercion \<Rightarrow> 's network \<Rightarrow> OperatorPrincipal \<Rightarrow> WireSocPlanModify \<Rightarrow> ('s, jsval) facade_call" where
  "socPlanModify other net actor request =
     recorded (delegationFor actor ''socPlanModify'' (Some (request_id request)))
       (WireClient.socPlanModify other net (request\<lparr>operator := Some (plainDelegation actor)\<rparr>))"

definition socIncidentAct ::
    "coercion \<Rightarrow> 's network \<Rightarrow> OperatorPrincipal \<Rightarrow> WireSocIncidentAct \<Rightarrow> ('s, jsval) facade_call" where
  "socIncidentAct other net actor request =
     recorded (delegationFor actor ''socIncidentAct'' (Some (request_id request)))
       (WireClient.socIncidentAct other net (request\<lparr>operator := Some (plainDelegation actor)\<rparr>))"

definition socNotes ::
    "coercion \<Rightarrow> 's network \<Rightarrow> OperatorPrincipal \<Rightarrow> WireSocNotesQuery \<Rightarrow> ('s, jsval) facade_call" where
  "socNotes other net actor request =
     recorded (delegationFor actor ''socNotes'' (Some (request_id request)))
       (WireClient.socNotes other net (request\<lparr>operator := Some (plainDelegation actor)\<rparr>))"

definition socDisposition ::
    "coercion \<Rightarrow> 's network \<Rightarrow> OperatorPrincipal \<Rightarrow> WireSocDisposition \<Rightarrow> ('s, jsval) facade_call" where
  "socDisposition other net actor request =
     recorded (delegationFor actor ''socDisposition'' (Some (request_id request)))
       (WireClient.socDisposition other net (request\<lparr>operator := Some (plainDelegation actor)\<rparr>))"

definition policyListByZone ::
    "coercion \<Rightarrow> 's network \<Rightarrow> OperatorPrincipal \<Rightarrow> WirePolicyListQuery \<Rightarrow> ('s, jsval) facade_call" where
  "policyListByZone other net actor request =
     recorded (delegationFor actor ''policyListByZone'' (Some (request_id request)))
       (WireClient.policyListByZone other net (request\<lparr>operator := Some (plainDelegation actor)\<rparr>))"

definition policyDetail ::
    "coercion \<Rightarrow> 's network \<Rightarrow> OperatorPrincipal \<Rightarrow> WirePolicyDetailQuery \<Rightarrow> ('s, jsval) facade_call" where
  "policyDetail other net actor request =
     recorded (delegationFor actor ''policyDetail'' (Some (request_id request)))
       (WireClient.policyDetail other net (request\<lparr>operator := Some (plainDelegation actor)\<rparr>))"

definition policyEffective ::
    "coercion \<Rightarrow> 's network \<Rightarrow> OperatorPrincipal \<Rightarrow> WirePolicyEffectiveQuery \<Rightarrow> ('s, jsval) facade_call" where
  "policyEffective other net actor request =
     recorded (delegationFor actor ''policyEffective'' (Some (request_id request)))
       (WireClient.policyEffective other net (request\<lparr>operator := Some (plainDelegation actor)\<rparr>))"

definition policyCreate ::
    "coercion \<Rightarrow> 's network \<Rightarrow> OperatorPrincipal \<Rightarrow> WirePolicyCreate \<Rightarrow> ('s, jsval) facade_call" where
  "policyCreate other net actor request =
     recorded (delegationFor actor ''policyCreate'' (Some (request_id request)))
       (WireClient.policyCreate other net (request\<lparr>operator := Some (plainDelegation actor)\<rparr>))"

definition policyEdit ::
    "coercion \<Rightarrow> 's network \<Rightarrow> OperatorPrincipal \<Rightarrow> WirePolicyEdit \<Rightarrow> ('s, jsval) facade_call" where
  "policyEdit other net actor request =
     recorded (delegationFor actor ''policyEdit'' (Some (request_id request)))
       (WireClient.policyEdit other net (request\<lparr>operator := Some (plainDelegation actor)\<rparr>))"

definition policyPublish ::
    "coercion \<Rightarrow> 's network \<Rightarrow> OperatorPrincipal \<Rightarrow> WirePolicyPublish \<Rightarrow> ('s, jsval) facade_call" where
  "policyPublish other net actor request =
     recorded (delegationFor actor ''policyPublish'' (Some (request_id request)))
       (WireClient.policyPublish other net (request\<lparr>operator := Some (plainDelegation actor)\<rparr>))"

definition policyDelete ::
    "coercion \<Rightarrow> 's network \<Rightarrow> OperatorPrincipal \<Rightarrow> WirePolicyDelete \<Rightarrow> ('s, jsval) facade_call" where
  "policyDelete other net actor request =
     recorded (delegationFor actor ''policyDelete'' (Some (request_id request)))
       (WireClient.policyDelete other net (request\<lparr>operator := Some (plainDelegation actor)\<rparr>))"

definition objectCreate ::
    "coercion \<Rightarrow> 's network \<Rightarrow> OperatorPrincipal \<Rightarrow> WireObjectCreate \<Rightarrow> ('s, jsval) facade_call" where
  "objectCreate other net actor request =
     recorded (delegationFor actor ''objectCreate'' (Some (request_id request)))
       (WireClient.objectCreate other net (request\<lparr>operator := Some (plainDelegation actor)\<rparr>))"

definition objectEdit ::
    "coercion \<Rightarrow> 's network \<Rightarrow> OperatorPrincipal \<Rightarrow> WireObjectEdit \<Rightarrow> ('s, jsval) facade_call" where
  "objectEdit other net actor request =
     recorded (delegationFor actor ''objectEdit'' (Some (request_id request)))
       (WireClient.objectEdit other net (request\<lparr>operator := Some (plainDelegation actor)\<rparr>))"

definition objectDelete ::
    "coercion \<Rightarrow> 's network \<Rightarrow> OperatorPrincipal \<Rightarrow> WireObjectDelete \<Rightarrow> ('s, jsval) facade_call" where
  "objectDelete other net actor request =
     recorded (delegationFor actor ''objectDelete'' (Some (request_id request)))
       (WireClient.objectDelete other net (request\<lparr>operator := Some (plainDelegation actor)\<rparr>))"

definition groupEdit ::
    "coercion \<Rightarrow> 's network \<Rightarrow> OperatorPrincipal \<Rightarrow> WireGroupWrite \<Rightarrow> ('s, jsval) facade_call" where
  "groupEdit other net actor request =
     recorded (delegationFor actor ''groupEdit'' (Some (request_id request)))
       (WireClient.groupEdit other net (request\<lparr>operator := Some (plainDelegation actor)\<rparr>))"

definition groupSetMembers ::
    "coercion \<Rightarrow> 's network \<Rightarrow> OperatorPrincipal \<Rightarrow> WireGroupSetMembers \<Rightarrow> ('s, jsval) facade_call" where
  "groupSetMembers other net actor request =
     recorded (delegationFor actor ''groupSetMembers'' (Some (request_id request)))
       (WireClient.groupSetMembers other net (request\<lparr>operator := Some (plainDelegation actor)\<rparr>))"

definition principalCreate ::
    "coercion \<Rightarrow> 's network \<Rightarrow> OperatorPrincipal \<Rightarrow> WirePrincipalCreate \<Rightarrow> ('s, jsval) facade_call" where
  "principalCreate other net actor request =
     recorded (delegationFor actor ''principalCreate'' (Some (request_id request)))
       (WireClient.principalCreate other net (request\<lparr>operator := Some (plainDelegation actor)\<rparr>))"

definition principalEdit ::
    "coercion \<Rightarrow> 's network \<Rightarrow> OperatorPrincipal \<Rightarrow> WirePrincipalEdit \<Rightarrow> ('s, jsval) facade_call" where
  "principalEdit other net actor request =
     recorded (delegationFor actor ''principalEdit'' (Some (request_id request)))
       (WireClient.principalEdit other net (request\<lparr>operator := Some (plainDelegation actor)\<rparr>))"

definition principalSetStatus ::
    "coercion \<Rightarrow> 's network \<Rightarrow> OperatorPrincipal \<Rightarrow> WirePrincipalSetStatus \<Rightarrow> ('s, jsval) facade_call" where
  "principalSetStatus other net actor request =
     recorded (delegationFor actor ''principalSetStatus'' (Some (request_id request)))
       (WireClient.principalSetStatus other net (request\<lparr>operator := Some (plainDelegation actor)\<rparr>))"

definition entityDecisions ::
    "coercion \<Rightarrow> 's network \<Rightarrow> OperatorPrincipal \<Rightarrow> WireEntityDecisions \<Rightarrow> ('s, jsval) facade_call" where
  "entityDecisions other net actor request =
     recorded (delegationFor actor ''entityDecisions'' (Some (request_id request)))
       (WireClient.entityDecisions other net (request\<lparr>operator := Some (plainDelegation actor)\<rparr>))"

definition entityConnections ::
    "coercion \<Rightarrow> 's network \<Rightarrow> OperatorPrincipal \<Rightarrow> WireEntityConnections \<Rightarrow> ('s, jsval) facade_call" where
  "entityConnections other net actor request =
     recorded (delegationFor actor ''entityConnections'' (Some (request_id request)))
       (WireClient.entityConnections other net (request\<lparr>operator := Some (plainDelegation actor)\<rparr>))"

definition connectivityGraph ::
    "coercion \<Rightarrow> 's network \<Rightarrow> OperatorPrincipal \<Rightarrow> WireConnectivityQuery \<Rightarrow> ('s, jsval) facade_call" where
  "connectivityGraph other net actor request =
     recorded (delegationFor actor ''connectivityGraph'' (Some (request_id request)))
       (WireClient.connectivityGraph other net (request\<lparr>operator := Some (plainDelegation actor)\<rparr>))"

definition connectivityMembers ::
    "coercion \<Rightarrow> 's network \<Rightarrow> OperatorPrincipal \<Rightarrow> WireConnectivityMembers \<Rightarrow> ('s, jsval) facade_call" where
  "connectivityMembers other net actor request =
     recorded (delegationFor actor ''connectivityMembers'' (Some (request_id request)))
       (WireClient.connectivityMembers other net (request\<lparr>operator := Some (plainDelegation actor)\<rparr>))"

definition contain ::
    "coercion \<Rightarrow> 's network \<Rightarrow> OperatorPrincipal \<Rightarrow> WireContain \<Rightarrow> ('s, jsval) facade_call" where
  "contain other net actor request =
     recorded (delegationFor actor ''contain'' None)
       (WireClient.contain other net (request\<lparr>ct_operator := Some (plainDelegation actor)\<rparr>))"

definition logQuery ::
    "coercion \<Rightarrow> 's network \<Rightarrow> OperatorPrincipal \<Rightarrow> WireLogQuery \<Rightarrow> ('s, jsval) facade_call" where
  "logQuery other net actor request =
     recorded (delegationFor actor ''logQuery'' (Some (request_id request)))
       (WireClient.logQuery other net (request\<lparr>operator := Some (plainDelegation actor)\<rparr>))"

definition logExplain ::
    "coercion \<Rightarrow> 's network \<Rightarrow> OperatorPrincipal \<Rightarrow> WireLogExplain \<Rightarrow> ('s, jsval) facade_call" where
  "logExplain other net actor request =
     recorded (delegationFor actor ''logExplain'' (Some (request_id request)))
       (WireClient.logExplain other net (request\<lparr>operator := Some (plainDelegation actor)\<rparr>))"

definition logExport ::
    "coercion \<Rightarrow> 's network \<Rightarrow> OperatorPrincipal \<Rightarrow> WireLogExport \<Rightarrow> ('s, jsval) facade_call" where
  "logExport other net actor request =
     recorded (delegationFor actor ''logExport'' (Some (request_id (lx_query request))))
       (WireClient.logExport other net (request\<lparr>lx_operator := Some (plainDelegation actor)\<rparr>))"

definition vtzTree ::
    "coercion \<Rightarrow> 's network \<Rightarrow> OperatorPrincipal \<Rightarrow> WireVtzTreeQuery \<Rightarrow> ('s, jsval) facade_call" where
  "vtzTree other net actor request =
     recorded (delegationFor actor ''vtzTree'' (Some (request_id request)))
       (WireClient.vtzTree other net (request\<lparr>operator := Some (plainDelegation actor)\<rparr>))"

definition vtzDetail ::
    "coercion \<Rightarrow> 's network \<Rightarrow> OperatorPrincipal \<Rightarrow> WireVtzDetailQuery \<Rightarrow> ('s, jsval) facade_call" where
  "vtzDetail other net actor request =
     recorded (delegationFor actor ''vtzDetail'' (Some (request_id request)))
       (WireClient.vtzDetail other net (request\<lparr>operator := Some (plainDelegation actor)\<rparr>))"

definition bundleCommit ::
    "coercion \<Rightarrow> 's network \<Rightarrow> OperatorPrincipal \<Rightarrow> WireBundleCommit \<Rightarrow> ('s, jsval) facade_call" where
  "bundleCommit other net actor request =
     recorded (delegationFor actor ''bundleCommit'' (Some (request_id request)))
       (WireClient.bundleCommit other net (request\<lparr>operator := Some (plainDelegation actor)\<rparr>))"

definition bundleConvergence ::
    "coercion \<Rightarrow> 's network \<Rightarrow> OperatorPrincipal \<Rightarrow> WireBundleConvergenceQuery \<Rightarrow> ('s, jsval) facade_call" where
  "bundleConvergence other net actor request =
     recorded (delegationFor actor ''bundleConvergence'' (Some (bq_request_id request)))
       (WireClient.bundleConvergence other net request)"

definition vtzCreate ::
    "coercion \<Rightarrow> 's network \<Rightarrow> OperatorPrincipal \<Rightarrow> WireVtzCreate \<Rightarrow> ('s, jsval) facade_call" where
  "vtzCreate other net actor request =
     recorded (delegationFor actor ''vtzCreate'' (Some (request_id request)))
       (WireClient.vtzCreate other net (request\<lparr>operator := Some (plainDelegation actor)\<rparr>))"

definition vtzEdit ::
    "coercion \<Rightarrow> 's network \<Rightarrow> OperatorPrincipal \<Rightarrow> WireVtzEdit \<Rightarrow> ('s, jsval) facade_call" where
  "vtzEdit other net actor request =
     recorded (delegationFor actor ''vtzEdit'' (Some (request_id request)))
       (WireClient.vtzEdit other net (request\<lparr>operator := Some (plainDelegation actor)\<rparr>))"

definition vtzRescope ::
    "coercion \<Rightarrow> 's network \<Rightarrow> OperatorPrincipal \<Rightarrow> WireVtzRescope \<Rightarrow> ('s, jsval) facade_call" where
  "vtzRescope other net actor request =
     recorded (delegationFor actor ''vtzRescope'' (Some (request_id request)))
       (WireClient.vtzRescope other net (request\<lparr>operator := Some (plainDelegation actor)\<rparr>))"

definition vtzDelete ::
    "coercion \<Rightarrow> 's network \<Rightarrow> OperatorPrincipal \<Rightarrow> WireVtzDelete \<Rightarrow> ('s, jsval) facade_call" where
  "vtzDelete other net actor request =
     recorded (delegationFor actor ''vtzDelete'' (Some (request_id request)))
       (WireClient.vtzDelete other net (request\<lparr>operator := Some (plainDelegation actor)\<rparr>))"

definition cursorFetch ::
    "coercion \<Rightarrow> 's network \<Rightarrow> OperatorPrincipal \<Rightarrow> jsnum list \<Rightarrow> ('s, jsval) facade_call" where
  "cursorFetch other net actor cursor =
     recorded (delegationFor actor ''cursorFetch'' None)
       (WireClient.cursorFetch other net cursor)"

definition cursorClose ::
    "coercion \<Rightarrow> 's network \<Rightarrow> OperatorPrincipal \<Rightarrow> jsnum list \<Rightarrow> ('s, unit) facade_call" where
  "cursorClose other net actor cursor =
     recorded (delegationFor actor ''cursorClose'' None)
       (WireClient.cursorClose other net cursor)"

section \<open>Every operation\<close>

text \<open>The operation of the facade that carries a request, for every request it has one for.\<close>

fun core_facade ::
    "coercion \<Rightarrow> 's network \<Rightarrow> OperatorPrincipal \<Rightarrow> CoreRequest \<Rightarrow> ('s, jsval) facade_call option" where
  "core_facade other net actor (ReqQuerySubmit request) = Some (OperatorEngine.querySubmit other net actor request)"
| "core_facade other net actor (ReqEntityDecisions request) = Some (OperatorEngine.entityDecisions other net actor request)"
| "core_facade other net actor (ReqEntityConnections request) = Some (OperatorEngine.entityConnections other net actor request)"
| "core_facade other net actor (ReqConnectivityGraph request) = Some (OperatorEngine.connectivityGraph other net actor request)"
| "core_facade other net actor (ReqConnectivityMembers request) = Some (OperatorEngine.connectivityMembers other net actor request)"
| "core_facade other net actor (ReqContain request) = Some (OperatorEngine.contain other net actor request)"
| "core_facade other net actor (ReqLogQuery request) = Some (OperatorEngine.logQuery other net actor request)"
| "core_facade other net actor (ReqLogExplain request) = Some (OperatorEngine.logExplain other net actor request)"
| "core_facade other net actor (ReqLogExport request) = Some (OperatorEngine.logExport other net actor request)"
| "core_facade other net actor (ReqCursorFetch request) = Some (OperatorEngine.cursorFetch other net actor request)"
| "core_facade other net actor _ = None"

fun directory_facade ::
    "coercion \<Rightarrow> 's network \<Rightarrow> OperatorPrincipal \<Rightarrow> DirectoryRequest \<Rightarrow> ('s, jsval) facade_call option" where
  "directory_facade other net actor (ReqListAgents request) = Some (OperatorEngine.listAgents other net actor request)"
| "directory_facade other net actor (ReqListPrincipals request) = Some (OperatorEngine.listPrincipals other net actor request)"
| "directory_facade other net actor (ReqListGroups request) = Some (OperatorEngine.listGroups other net actor request)"
| "directory_facade other net actor (ReqGroupCreate request) = Some (OperatorEngine.groupCreate other net actor request)"
| "directory_facade other net actor (ReqObjectList request) = Some (OperatorEngine.objectList other net actor request)"
| "directory_facade other net actor (ReqIdamConnectors request) = Some (OperatorEngine.idamConnectors other net actor request)"
| "directory_facade other net actor (ReqIdamSync request) = Some (OperatorEngine.idamSync other net actor request)"
| "directory_facade other net actor (ReqIdamConnect request) = Some (OperatorEngine.idamConnect other net actor request)"
| "directory_facade other net actor (ReqIdamConfigure request) = Some (OperatorEngine.idamConfigure other net actor request)"
| "directory_facade other net actor (ReqObjectDetail request) = Some (OperatorEngine.objectDetail other net actor request)"
| "directory_facade other net actor (ReqObjectCreate request) = Some (OperatorEngine.objectCreate other net actor request)"
| "directory_facade other net actor (ReqObjectEdit request) = Some (OperatorEngine.objectEdit other net actor request)"
| "directory_facade other net actor (ReqObjectDelete request) = Some (OperatorEngine.objectDelete other net actor request)"
| "directory_facade other net actor (ReqGroupEdit request) = Some (OperatorEngine.groupEdit other net actor request)"
| "directory_facade other net actor (ReqGroupSetMembers request) = Some (OperatorEngine.groupSetMembers other net actor request)"
| "directory_facade other net actor (ReqPrincipalCreate request) = Some (OperatorEngine.principalCreate other net actor request)"
| "directory_facade other net actor (ReqPrincipalEdit request) = Some (OperatorEngine.principalEdit other net actor request)"
| "directory_facade other net actor (ReqPrincipalSetStatus request) = Some (OperatorEngine.principalSetStatus other net actor request)"
| "directory_facade other net actor _ = None"

fun zone_facade ::
    "coercion \<Rightarrow> 's network \<Rightarrow> OperatorPrincipal \<Rightarrow> ZoneRequest \<Rightarrow> ('s, jsval) facade_call option" where
  "zone_facade other net actor (ReqPolicyListByZone request) = Some (OperatorEngine.policyListByZone other net actor request)"
| "zone_facade other net actor (ReqPolicyDetail request) = Some (OperatorEngine.policyDetail other net actor request)"
| "zone_facade other net actor (ReqPolicyEffective request) = Some (OperatorEngine.policyEffective other net actor request)"
| "zone_facade other net actor (ReqPolicyCreate request) = Some (OperatorEngine.policyCreate other net actor request)"
| "zone_facade other net actor (ReqPolicyEdit request) = Some (OperatorEngine.policyEdit other net actor request)"
| "zone_facade other net actor (ReqPolicyPublish request) = Some (OperatorEngine.policyPublish other net actor request)"
| "zone_facade other net actor (ReqPolicyDelete request) = Some (OperatorEngine.policyDelete other net actor request)"
| "zone_facade other net actor (ReqVtzTree request) = Some (OperatorEngine.vtzTree other net actor request)"
| "zone_facade other net actor (ReqVtzDetail request) = Some (OperatorEngine.vtzDetail other net actor request)"
| "zone_facade other net actor (ReqBundleCommit request) = Some (OperatorEngine.bundleCommit other net actor request)"
| "zone_facade other net actor (ReqBundleConvergence request) = Some (OperatorEngine.bundleConvergence other net actor request)"
| "zone_facade other net actor (ReqVtzCreate request) = Some (OperatorEngine.vtzCreate other net actor request)"
| "zone_facade other net actor (ReqVtzEdit request) = Some (OperatorEngine.vtzEdit other net actor request)"
| "zone_facade other net actor (ReqVtzRescope request) = Some (OperatorEngine.vtzRescope other net actor request)"
| "zone_facade other net actor (ReqVtzDelete request) = Some (OperatorEngine.vtzDelete other net actor request)"
| "zone_facade other net actor _ = None"

fun soc_facade ::
    "coercion \<Rightarrow> 's network \<Rightarrow> OperatorPrincipal \<Rightarrow> SocRequest \<Rightarrow> ('s, jsval) facade_call option" where
  "soc_facade other net actor (ReqDetectSummary request) = Some (OperatorEngine.detectSummary other net actor request)"
| "soc_facade other net actor (ReqSocIncidentList request) = Some (OperatorEngine.socIncidentList other net actor request)"
| "soc_facade other net actor (ReqSocIncidentDetail request) = Some (OperatorEngine.socIncidentDetail other net actor request)"
| "soc_facade other net actor (ReqSocNarrative request) = Some (OperatorEngine.socNarrative other net actor request)"
| "soc_facade other net actor (ReqSocTelemetry request) = Some (OperatorEngine.socTelemetry other net actor request)"
| "soc_facade other net actor (ReqSocAudit request) = Some (OperatorEngine.socAudit other net actor request)"
| "soc_facade other net actor (ReqSocImpact request) = Some (OperatorEngine.socImpact other net actor request)"
| "soc_facade other net actor (ReqSocReport request) = Some (OperatorEngine.socReport other net actor request)"
| "soc_facade other net actor (ReqSocWeekly request) = Some (OperatorEngine.socWeekly other net actor request)"
| "soc_facade other net actor (ReqSocSettingsRead request) = Some (OperatorEngine.socSettingsRead other net actor request)"
| "soc_facade other net actor (ReqSocSettingsCommit request) = Some (OperatorEngine.socSettingsCommit other net actor request)"
| "soc_facade other net actor (ReqSocCognitionRun request) = Some (OperatorEngine.socCognitionRun other net actor request)"
| "soc_facade other net actor (ReqSocPlanApprove request) = Some (OperatorEngine.socPlanApprove other net actor request)"
| "soc_facade other net actor (ReqSocPlanModify request) = Some (OperatorEngine.socPlanModify other net actor request)"
| "soc_facade other net actor (ReqSocIncidentAct request) = Some (OperatorEngine.socIncidentAct other net actor request)"
| "soc_facade other net actor (ReqSocNotes request) = Some (OperatorEngine.socNotes other net actor request)"
| "soc_facade other net actor (ReqSocDisposition request) = Some (OperatorEngine.socDisposition other net actor request)"
| "soc_facade other net actor _ = None"

fun settings_facade ::
    "coercion \<Rightarrow> 's network \<Rightarrow> OperatorPrincipal \<Rightarrow> SettingsRequest \<Rightarrow> ('s, jsval) facade_call option" where
  "settings_facade other net actor (ReqSettingsRead request) = Some (OperatorEngine.settingsRead other net actor request)"
| "settings_facade other net actor (ReqSettingsPropose request) = Some (OperatorEngine.settingsPropose other net actor request)"
| "settings_facade other net actor (ReqSettingsApprovals request) = Some (OperatorEngine.settingsApprovals other net actor request)"
| "settings_facade other net actor (ReqSettingsApprove request) = Some (OperatorEngine.settingsApprove other net actor request)"
| "settings_facade other net actor (ReqSettingsHistory request) = Some (OperatorEngine.settingsHistory other net actor request)"
| "settings_facade other net actor (ReqSettingsRollback request) = Some (OperatorEngine.settingsRollback other net actor request)"
| "settings_facade other net actor (ReqSettingsReports request) = Some (OperatorEngine.settingsReports other net actor request)"
| "settings_facade other net actor (ReqModelAccessRead request) = Some (OperatorEngine.modelAccessRead other net actor request)"
| "settings_facade other net actor (ReqAgentGrantSet request) = Some (OperatorEngine.agentGrantSet other net actor request)"
| "settings_facade other net actor (ReqSettingsCommit request) = Some (OperatorEngine.settingsCommit other net actor request)"

fun facade ::
    "coercion \<Rightarrow> 's network \<Rightarrow> OperatorPrincipal \<Rightarrow> WireRequest \<Rightarrow> ('s, jsval) facade_call option" where
  "facade other net actor (Core r) = core_facade other net actor r"
| "facade other net actor (Directory r) = directory_facade other net actor r"
| "facade other net actor (Zone r) = zone_facade other net actor r"
| "facade other net actor (Soc r) = soc_facade other net actor r"
| "facade other net actor (Settings r) = settings_facade other net actor r"

lemmas facade_defs = OperatorEngine.querySubmit_def
  OperatorEngine.listAgents_def
  OperatorEngine.listPrincipals_def
  OperatorEngine.listGroups_def
  OperatorEngine.groupCreate_def
  OperatorEngine.objectList_def
  OperatorEngine.idamConnectors_def
  OperatorEngine.idamSync_def
  OperatorEngine.idamConnect_def
  OperatorEngine.idamConfigure_def
  OperatorEngine.objectDetail_def
  OperatorEngine.detectSummary_def
  OperatorEngine.socIncidentList_def
  OperatorEngine.socIncidentDetail_def
  OperatorEngine.socNarrative_def
  OperatorEngine.socTelemetry_def
  OperatorEngine.socAudit_def
  OperatorEngine.socImpact_def
  OperatorEngine.socReport_def
  OperatorEngine.socWeekly_def
  OperatorEngine.socSettingsRead_def
  OperatorEngine.settingsRead_def
  OperatorEngine.settingsPropose_def
  OperatorEngine.settingsApprovals_def
  OperatorEngine.settingsApprove_def
  OperatorEngine.settingsHistory_def
  OperatorEngine.settingsRollback_def
  OperatorEngine.settingsReports_def
  OperatorEngine.modelAccessRead_def
  OperatorEngine.agentGrantSet_def
  OperatorEngine.settingsCommit_def
  OperatorEngine.socSettingsCommit_def
  OperatorEngine.socCognitionRun_def
  OperatorEngine.socPlanApprove_def
  OperatorEngine.socPlanModify_def
  OperatorEngine.socIncidentAct_def
  OperatorEngine.socNotes_def
  OperatorEngine.socDisposition_def
  OperatorEngine.policyListByZone_def
  OperatorEngine.policyDetail_def
  OperatorEngine.policyEffective_def
  OperatorEngine.policyCreate_def
  OperatorEngine.policyEdit_def
  OperatorEngine.policyPublish_def
  OperatorEngine.policyDelete_def
  OperatorEngine.objectCreate_def
  OperatorEngine.objectEdit_def
  OperatorEngine.objectDelete_def
  OperatorEngine.groupEdit_def
  OperatorEngine.groupSetMembers_def
  OperatorEngine.principalCreate_def
  OperatorEngine.principalEdit_def
  OperatorEngine.principalSetStatus_def
  OperatorEngine.entityDecisions_def
  OperatorEngine.entityConnections_def
  OperatorEngine.connectivityGraph_def
  OperatorEngine.connectivityMembers_def
  OperatorEngine.contain_def
  OperatorEngine.logQuery_def
  OperatorEngine.logExplain_def
  OperatorEngine.logExport_def
  OperatorEngine.vtzTree_def
  OperatorEngine.vtzDetail_def
  OperatorEngine.bundleCommit_def
  OperatorEngine.bundleConvergence_def
  OperatorEngine.vtzCreate_def
  OperatorEngine.vtzEdit_def
  OperatorEngine.vtzRescope_def
  OperatorEngine.vtzDelete_def
  OperatorEngine.cursorFetch_def
  OperatorEngine.cursorClose_def

lemmas client_defs = WireClient.querySubmit_def
  WireClient.listAgents_def
  WireClient.listPrincipals_def
  WireClient.listGroups_def
  WireClient.groupCreate_def
  WireClient.objectList_def
  WireClient.idamConnectors_def
  WireClient.idamSync_def
  WireClient.idamConnect_def
  WireClient.idamConfigure_def
  WireClient.objectDetail_def
  WireClient.detectSummary_def
  WireClient.socIncidentList_def
  WireClient.socIncidentDetail_def
  WireClient.socNarrative_def
  WireClient.socTelemetry_def
  WireClient.socAudit_def
  WireClient.socImpact_def
  WireClient.socReport_def
  WireClient.socWeekly_def
  WireClient.socSettingsRead_def
  WireClient.settingsRead_def
  WireClient.settingsPropose_def
  WireClient.settingsApprovals_def
  WireClient.settingsApprove_def
  WireClient.settingsHistory_def
  WireClient.settingsRollback_def
  WireClient.settingsReports_def
  WireClient.modelAccessRead_def
  WireClient.agentGrantSet_def
  WireClient.settingsCommit_def
  WireClient.socSettingsCommit_def
  WireClient.socCognitionRun_def
  WireClient.socPlanApprove_def
  WireClient.socPlanModify_def
  WireClient.socIncidentAct_def
  WireClient.socNotes_def
  WireClient.socDisposition_def
  WireClient.policyListByZone_def
  WireClient.policyDetail_def
  WireClient.policyEffective_def
  WireClient.policyCreate_def
  WireClient.policyEdit_def
  WireClient.policyPublish_def
  WireClient.policyDelete_def
  WireClient.objectCreate_def
  WireClient.objectEdit_def
  WireClient.objectDelete_def
  WireClient.groupEdit_def
  WireClient.groupSetMembers_def
  WireClient.principalCreate_def
  WireClient.principalEdit_def
  WireClient.principalSetStatus_def
  WireClient.entityDecisions_def
  WireClient.entityConnections_def
  WireClient.connectivityGraph_def
  WireClient.connectivityMembers_def
  WireClient.contain_def
  WireClient.logQuery_def
  WireClient.logExplain_def
  WireClient.logExport_def
  WireClient.vtzTree_def
  WireClient.vtzDetail_def
  WireClient.bundleCommit_def
  WireClient.bundleConvergence_def
  WireClient.vtzCreate_def
  WireClient.vtzEdit_def
  WireClient.vtzRescope_def
  WireClient.vtzDelete_def
  WireClient.cursorFetch_def
  WireClient.cursorClose_def

text \<open>The requests the engine runs at the settings tier of the operator.\<close>

fun settings_request :: "WireRequest \<Rightarrow> bool" where
  "settings_request (Settings _) = True"
| "settings_request (Soc (ReqSocSettingsRead _)) = True"
| "settings_request (Soc (ReqSocSettingsCommit _)) = True"
| "settings_request _ = False"

definition delegation_of :: "OperatorPrincipal \<Rightarrow> WireRequest \<Rightarrow> OperatorDelegation" where
  "delegation_of actor request =
     \<lparr>od_principal = op_principalId actor, od_tenant = op_tenant actor,
      od_settings_tier = (if settings_request request then map_option tier_name (op_settingsTier actor) else None)\<rparr>"

text \<open>The request with its operator replaced, where its wire form has one.\<close>

fun core_with_operator :: "OperatorDelegation option \<Rightarrow> CoreRequest \<Rightarrow> CoreRequest" where
  "core_with_operator d (ReqQuerySubmit r) = ReqQuerySubmit (r\<lparr>operator := d\<rparr>)"
| "core_with_operator d (ReqSubmitMemoryWrite r) = ReqSubmitMemoryWrite (r\<lparr>operator := d\<rparr>)"
| "core_with_operator d (ReqEntityDecisions r) = ReqEntityDecisions (r\<lparr>operator := d\<rparr>)"
| "core_with_operator d (ReqEntityConnections r) = ReqEntityConnections (r\<lparr>operator := d\<rparr>)"
| "core_with_operator d (ReqContain r) = ReqContain (r\<lparr>ct_operator := d\<rparr>)"
| "core_with_operator d (ReqLogQuery r) = ReqLogQuery (r\<lparr>operator := d\<rparr>)"
| "core_with_operator d (ReqLogExplain r) = ReqLogExplain (r\<lparr>operator := d\<rparr>)"
| "core_with_operator d (ReqLogExport r) = ReqLogExport (r\<lparr>lx_operator := d\<rparr>)"
| "core_with_operator d (ReqConnectivityGraph r) = ReqConnectivityGraph (r\<lparr>operator := d\<rparr>)"
| "core_with_operator d (ReqConnectivityMembers r) = ReqConnectivityMembers (r\<lparr>operator := d\<rparr>)"
| "core_with_operator d r = r"

fun directory_with_operator :: "OperatorDelegation option \<Rightarrow> DirectoryRequest \<Rightarrow> DirectoryRequest" where
  "directory_with_operator d (ReqListAgents r) = ReqListAgents (r\<lparr>operator := d\<rparr>)"
| "directory_with_operator d (ReqListPrincipals r) = ReqListPrincipals (r\<lparr>operator := d\<rparr>)"
| "directory_with_operator d (ReqListGroups r) = ReqListGroups (r\<lparr>operator := d\<rparr>)"
| "directory_with_operator d (ReqObjectList r) = ReqObjectList (r\<lparr>operator := d\<rparr>)"
| "directory_with_operator d (ReqObjectDetail r) = ReqObjectDetail (r\<lparr>operator := d\<rparr>)"
| "directory_with_operator d (ReqObjectCreate r) = ReqObjectCreate (r\<lparr>operator := d\<rparr>)"
| "directory_with_operator d (ReqObjectEdit r) = ReqObjectEdit (r\<lparr>operator := d\<rparr>)"
| "directory_with_operator d (ReqObjectDelete r) = ReqObjectDelete (r\<lparr>operator := d\<rparr>)"
| "directory_with_operator d (ReqIdamConnectors r) = ReqIdamConnectors (r\<lparr>operator := d\<rparr>)"
| "directory_with_operator d (ReqIdamSync r) = ReqIdamSync (r\<lparr>operator := d\<rparr>)"
| "directory_with_operator d (ReqIdamConfigure r) = ReqIdamConfigure (r\<lparr>operator := d\<rparr>)"
| "directory_with_operator d (ReqIdamConnect r) = ReqIdamConnect (r\<lparr>operator := d\<rparr>)"
| "directory_with_operator d (ReqPrincipalCreate r) = ReqPrincipalCreate (r\<lparr>operator := d\<rparr>)"
| "directory_with_operator d (ReqPrincipalEdit r) = ReqPrincipalEdit (r\<lparr>operator := d\<rparr>)"
| "directory_with_operator d (ReqPrincipalSetStatus r) = ReqPrincipalSetStatus (r\<lparr>operator := d\<rparr>)"
| "directory_with_operator d (ReqGroupCreate r) = ReqGroupCreate (r\<lparr>operator := d\<rparr>)"
| "directory_with_operator d (ReqGroupEdit r) = ReqGroupEdit (r\<lparr>operator := d\<rparr>)"
| "directory_with_operator d (ReqGroupSetMembers r) = ReqGroupSetMembers (r\<lparr>operator := d\<rparr>)"
| "directory_with_operator d r = r"

fun zone_with_operator :: "OperatorDelegation option \<Rightarrow> ZoneRequest \<Rightarrow> ZoneRequest" where
  "zone_with_operator d (ReqVtzTree r) = ReqVtzTree (r\<lparr>operator := d\<rparr>)"
| "zone_with_operator d (ReqVtzDetail r) = ReqVtzDetail (r\<lparr>operator := d\<rparr>)"
| "zone_with_operator d (ReqVtzCreate r) = ReqVtzCreate (r\<lparr>operator := d\<rparr>)"
| "zone_with_operator d (ReqVtzEdit r) = ReqVtzEdit (r\<lparr>operator := d\<rparr>)"
| "zone_with_operator d (ReqVtzRescope r) = ReqVtzRescope (r\<lparr>operator := d\<rparr>)"
| "zone_with_operator d (ReqVtzDelete r) = ReqVtzDelete (r\<lparr>operator := d\<rparr>)"
| "zone_with_operator d (ReqPolicyListByZone r) = ReqPolicyListByZone (r\<lparr>operator := d\<rparr>)"
| "zone_with_operator d (ReqPolicyDetail r) = ReqPolicyDetail (r\<lparr>operator := d\<rparr>)"
| "zone_with_operator d (ReqPolicyEffective r) = ReqPolicyEffective (r\<lparr>operator := d\<rparr>)"
| "zone_with_operator d (ReqPolicyCreate r) = ReqPolicyCreate (r\<lparr>operator := d\<rparr>)"
| "zone_with_operator d (ReqPolicyEdit r) = ReqPolicyEdit (r\<lparr>operator := d\<rparr>)"
| "zone_with_operator d (ReqPolicyPublish r) = ReqPolicyPublish (r\<lparr>operator := d\<rparr>)"
| "zone_with_operator d (ReqPolicyDelete r) = ReqPolicyDelete (r\<lparr>operator := d\<rparr>)"
| "zone_with_operator d (ReqBundleCommit r) = ReqBundleCommit (r\<lparr>operator := d\<rparr>)"
| "zone_with_operator d r = r"

fun soc_with_operator :: "OperatorDelegation option \<Rightarrow> SocRequest \<Rightarrow> SocRequest" where
  "soc_with_operator d (ReqDetectSummary r) = ReqDetectSummary (r\<lparr>operator := d\<rparr>)"
| "soc_with_operator d (ReqSocNarrative r) = ReqSocNarrative (r\<lparr>operator := d\<rparr>)"
| "soc_with_operator d (ReqSocIncidentList r) = ReqSocIncidentList (r\<lparr>operator := d\<rparr>)"
| "soc_with_operator d (ReqSocIncidentDetail r) = ReqSocIncidentDetail (r\<lparr>operator := d\<rparr>)"
| "soc_with_operator d (ReqSocTelemetry r) = ReqSocTelemetry (r\<lparr>operator := d\<rparr>)"
| "soc_with_operator d (ReqSocAudit r) = ReqSocAudit (r\<lparr>operator := d\<rparr>)"
| "soc_with_operator d (ReqSocDisposition r) = ReqSocDisposition (r\<lparr>operator := d\<rparr>)"
| "soc_with_operator d (ReqSocIncidentAct r) = ReqSocIncidentAct (r\<lparr>operator := d\<rparr>)"
| "soc_with_operator d (ReqSocNotes r) = ReqSocNotes (r\<lparr>operator := d\<rparr>)"
| "soc_with_operator d (ReqSocImpact r) = ReqSocImpact (r\<lparr>operator := d\<rparr>)"
| "soc_with_operator d (ReqSocReport r) = ReqSocReport (r\<lparr>operator := d\<rparr>)"
| "soc_with_operator d (ReqSocUeba r) = ReqSocUeba (r\<lparr>operator := d\<rparr>)"
| "soc_with_operator d (ReqSocWeekly r) = ReqSocWeekly (r\<lparr>operator := d\<rparr>)"
| "soc_with_operator d (ReqSocSettingsRead r) = ReqSocSettingsRead (r\<lparr>operator := d\<rparr>)"
| "soc_with_operator d (ReqSocSettingsCommit r) = ReqSocSettingsCommit (r\<lparr>operator := d\<rparr>)"
| "soc_with_operator d (ReqSocCognitionRun r) = ReqSocCognitionRun (r\<lparr>operator := d\<rparr>)"
| "soc_with_operator d (ReqSocPlanApprove r) = ReqSocPlanApprove (r\<lparr>operator := d\<rparr>)"
| "soc_with_operator d (ReqSocPlanModify r) = ReqSocPlanModify (r\<lparr>operator := d\<rparr>)"

fun settings_with_operator :: "OperatorDelegation option \<Rightarrow> SettingsRequest \<Rightarrow> SettingsRequest" where
  "settings_with_operator d (ReqSettingsRead r) = ReqSettingsRead (r\<lparr>operator := d\<rparr>)"
| "settings_with_operator d (ReqSettingsReports r) = ReqSettingsReports (r\<lparr>operator := d\<rparr>)"
| "settings_with_operator d (ReqModelAccessRead r) = ReqModelAccessRead (r\<lparr>operator := d\<rparr>)"
| "settings_with_operator d (ReqAgentGrantSet r) = ReqAgentGrantSet (r\<lparr>operator := d\<rparr>)"
| "settings_with_operator d (ReqSettingsCommit r) = ReqSettingsCommit (r\<lparr>operator := d\<rparr>)"
| "settings_with_operator d (ReqSettingsPropose r) = ReqSettingsPropose (r\<lparr>operator := d\<rparr>)"
| "settings_with_operator d (ReqSettingsApprovals r) = ReqSettingsApprovals (r\<lparr>operator := d\<rparr>)"
| "settings_with_operator d (ReqSettingsApprove r) = ReqSettingsApprove (r\<lparr>operator := d\<rparr>)"
| "settings_with_operator d (ReqSettingsHistory r) = ReqSettingsHistory (r\<lparr>operator := d\<rparr>)"
| "settings_with_operator d (ReqSettingsRollback r) = ReqSettingsRollback (r\<lparr>operator := d\<rparr>)"

fun with_operator :: "OperatorDelegation option \<Rightarrow> WireRequest \<Rightarrow> WireRequest" where
  "with_operator d (Core r) = Core (core_with_operator d r)"
| "with_operator d (Directory r) = Directory (directory_with_operator d r)"
| "with_operator d (Zone r) = Zone (zone_with_operator d r)"
| "with_operator d (Soc r) = Soc (soc_with_operator d r)"
| "with_operator d (Settings r) = Settings (settings_with_operator d r)"

text \<open>
  What it is to broker a request: leave one trace naming the operator and the tenant, and
  call the client with the same request, carrying the delegation of that operator whatever
  the caller had put there.
\<close>

definition brokers ::
    "coercion \<Rightarrow> 's network \<Rightarrow> OperatorPrincipal \<Rightarrow> WireRequest \<Rightarrow> ('s, jsval) facade_call \<Rightarrow> bool" where
  "brokers other net actor request act \<longleftrightarrow>
     (\<exists>sent reply d. act = recorded d (call net (dispatch_op other net sent reply)) \<and>
        del_operator d = op_subject actor \<and> del_tier d = op_tier actor \<and> del_tenant d = Some (op_tenant actor) \<and>
        sent = with_operator (Some (delegation_of actor request)) request)"

lemma core_brokered: "core_facade other net actor r = Some act \<Longrightarrow> brokers other net actor (Core r) act"
  by (cases r) (auto simp: brokers_def facade_defs client_defs delegationFor_def delegation_of_def
      plainDelegation_def intro!: exI)

lemma directory_brokered: "directory_facade other net actor r = Some act \<Longrightarrow> brokers other net actor (Directory r) act"
  by (cases r) (auto simp: brokers_def facade_defs client_defs delegationFor_def delegation_of_def
      plainDelegation_def settingsDelegation_def intro!: exI)

lemma zone_brokered: "zone_facade other net actor r = Some act \<Longrightarrow> brokers other net actor (Zone r) act"
  by (cases r) (auto simp: brokers_def facade_defs client_defs delegationFor_def delegation_of_def
      plainDelegation_def settingsDelegation_def intro!: exI)

lemma soc_brokered: "soc_facade other net actor r = Some act \<Longrightarrow> brokers other net actor (Soc r) act"
  by (cases r) (auto simp: brokers_def facade_defs client_defs delegationFor_def delegation_of_def
      plainDelegation_def settingsDelegation_def intro!: exI)

lemma settings_brokered: "settings_facade other net actor r = Some act \<Longrightarrow> brokers other net actor (Settings r) act"
  by (cases r) (auto simp: brokers_def facade_defs client_defs delegationFor_def delegation_of_def
      plainDelegation_def settingsDelegation_def intro!: exI)

lemma facade_brokers: "facade other net actor request = Some act \<Longrightarrow> brokers other net actor request act"
  by (cases request)
    (simp_all add: core_brokered directory_brokered zone_brokered soc_brokered settings_brokered)

lemma recorded_log: "fc_log (snd (recorded d engine_call st)) = fc_log st @ [d]"
  by (simp add: recorded_def split: prod.splits)

lemma core_with_operator_laws:
  "core_tag (core_with_operator d r) = core_tag r"
  "core_operator r = None \<Longrightarrow> core_with_operator d r = r"
  "core_operator r \<noteq> None \<Longrightarrow> core_operator (core_with_operator d r) = Some d"
  by (cases r; simp)+

lemma directory_with_operator_laws:
  "directory_tag (directory_with_operator d r) = directory_tag r"
  "directory_operator r = None \<Longrightarrow> directory_with_operator d r = r"
  "directory_operator r \<noteq> None \<Longrightarrow> directory_operator (directory_with_operator d r) = Some d"
  by (cases r; simp)+

lemma zone_with_operator_laws:
  "zone_tag (zone_with_operator d r) = zone_tag r"
  "zone_operator r = None \<Longrightarrow> zone_with_operator d r = r"
  "zone_operator r \<noteq> None \<Longrightarrow> zone_operator (zone_with_operator d r) = Some d"
  by (cases r; simp)+

lemma soc_with_operator_laws:
  "soc_tag (soc_with_operator d r) = soc_tag r"
  "soc_operator r = None \<Longrightarrow> soc_with_operator d r = r"
  "soc_operator r \<noteq> None \<Longrightarrow> soc_operator (soc_with_operator d r) = Some d"
  by (cases r; simp)+

lemma settings_with_operator_laws:
  "settings_tag (settings_with_operator d r) = settings_tag r"
  "settings_operator r = None \<Longrightarrow> settings_with_operator d r = r"
  "settings_operator r \<noteq> None \<Longrightarrow> settings_operator (settings_with_operator d r) = Some d"
  by (cases r; simp)+

lemmas group_operator_laws = core_with_operator_laws directory_with_operator_laws zone_with_operator_laws
  soc_with_operator_laws settings_with_operator_laws

lemma with_operator_laws:
  "request_tag (with_operator d r) = request_tag r"
  "request_operator r = None \<Longrightarrow> with_operator d r = r"
  "request_operator r \<noteq> None \<Longrightarrow> request_operator (with_operator d r) = Some d"
  by (cases r; simp add: group_operator_laws)+


definition sample_actor :: OperatorPrincipal where
  "sample_actor = \<lparr>op_subject = ''alice'', op_tier = Admin, op_principalId = ''p1'', op_tenant = ''t1'',
     op_settingsTier = None\<rparr>"


end
