(* ===== verification/ClientQueue.thy ===== *)
theory ClientQueue
  imports WireClient "HOL-Library.Multiset"
begin

text \<open>
  Concurrent use of the engine client (\<open>apps/bff/src/engine/wire-client.ts\<close>): calls,
  heartbeats, connects and \<open>close\<close> interleave at every \<open>await\<close>.  \<open>serialize\<close> chains the
  operations, so that an operation starts when the one before it has settled;
  \<open>ensureTransport\<close> shares one connect among the calls that find it under way.  A step is
  what runs between two awaits.  The model has the names of transports, calls and
  connects, not what is sent; a transport has the name of the connect that made it.
\<close>

section \<open>State\<close>

text \<open>\<open>Job c n\<close>: an attempt of call \<open>c\<close> with \<open>n\<close> attempts left after it.\<close>

datatype job = Job nat nat | Beat

record machine =
  m_transport :: "nat option"
  m_connecting :: "nat option"
  m_heartbeat :: bool
  m_dials :: "(nat \<times> job list) list"
  m_chain :: "(job \<times> nat) list"
  m_running :: "(job \<times> nat) option"
  m_fresh :: nat
  m_calls :: nat
  m_opened :: "nat list"
  m_closed :: "nat list"
  m_started :: "nat list"
  m_settled :: "nat list"

definition init_machine :: machine where
  "init_machine = \<lparr>m_transport = None, m_connecting = None, m_heartbeat = False, m_dials = [], m_chain = [],
     m_running = None, m_fresh = 0, m_calls = 0, m_opened = [], m_closed = [], m_started = [], m_settled = []\<rparr>"

section \<open>Steps\<close>

text \<open>The start of an attempt: \<open>ensureTransport\<close>, then \<open>serialize\<close> once it has resolved.\<close>

definition attempt :: "job \<Rightarrow> machine \<Rightarrow> machine" where
  "attempt j m = (case m_transport m of
       Some t \<Rightarrow> m\<lparr>m_chain := m_chain m @ [(j, t)]\<rparr>
     | None \<Rightarrow> (case m_connecting m of
           Some d \<Rightarrow> m\<lparr>m_dials := map (\<lambda>(d', js). (d', if d' = d then js @ [j] else js)) (m_dials m)\<rparr>
         | None \<Rightarrow> m\<lparr>m_connecting := Some (m_fresh m), m_dials := m_dials m @ [(m_fresh m, [j])],
                      m_fresh := Suc (m_fresh m)\<rparr>))"

text \<open>The connect \<open>d\<close> resolves: the handler stores the transport, and its callers go on.\<close>

definition connected :: "nat \<Rightarrow> job list \<Rightarrow> machine \<Rightarrow> machine" where
  "connected d js m = m\<lparr>m_transport := Some d, m_connecting := None, m_heartbeat := True,
     m_dials := remove1 (d, js) (m_dials m), m_opened := m_opened m @ [d],
     m_chain := m_chain m @ map (\<lambda>j. (j, d)) js\<rparr>"

fun callers :: "job list \<Rightarrow> nat list" where
  "callers [] = []"
| "callers (Job c n # js) = c # callers js"
| "callers (Beat # js) = callers js"

definition connect_failed :: "nat \<Rightarrow> job list \<Rightarrow> machine \<Rightarrow> machine" where
  "connect_failed d js m = m\<lparr>m_connecting := None, m_dials := remove1 (d, js) (m_dials m),
     m_settled := m_settled m @ callers js\<rparr>"

definition drop_transport :: "nat \<Rightarrow> machine \<Rightarrow> machine" where
  "drop_transport t m = (if m_transport m \<noteq> Some t then m
     else m\<lparr>m_transport := None, m_heartbeat := False, m_closed := m_closed m @ [t]\<rparr>)"

text \<open>
  The running operation answers, or is refused: its caller has the outcome.  It fails
  otherwise: its transport is invalidated, and the caller tries again or gives up.
\<close>

definition answered :: "job \<Rightarrow> machine \<Rightarrow> machine" where
  "answered j m = m\<lparr>m_running := None, m_settled := m_settled m @ callers [j]\<rparr>"

fun again :: "job \<Rightarrow> machine \<Rightarrow> machine" where
  "again (Job c (Suc n)) m = attempt (Job c n) m"
| "again j m = m\<lparr>m_settled := m_settled m @ callers [j]\<rparr>"

definition failed :: "job \<Rightarrow> nat \<Rightarrow> machine \<Rightarrow> machine" where
  "failed j t m = again j (drop_transport t (m\<lparr>m_running := None\<rparr>))"

definition start :: "machine \<Rightarrow> machine" where
  "start m = (case (m_running m, m_chain m) of
       (None, (j, t) # rest) \<Rightarrow> m\<lparr>m_chain := rest, m_running := Some (j, t), m_started := m_started m @ callers [j]\<rparr>
     | _ \<Rightarrow> m)"

definition tick :: "machine \<Rightarrow> machine" where
  "tick m = (case m_transport m of None \<Rightarrow> m | Some t \<Rightarrow> m\<lparr>m_chain := m_chain m @ [(Beat, t)]\<rparr>)"

definition new_call :: "machine \<Rightarrow> machine" where
  "new_call m = attempt (Job (m_calls m) 1) (m\<lparr>m_calls := Suc (m_calls m)\<rparr>)"

definition close_machine :: "machine \<Rightarrow> machine" where
  "close_machine m = m\<lparr>m_heartbeat := False, m_transport := None, m_connecting := None,
     m_closed := m_closed m @ (case m_transport m of None \<Rightarrow> [] | Some t \<Rightarrow> [t])\<rparr>"

text \<open>
  What the outside starts (a call, a tick of the heartbeat timer), and what goes on by
  itself: a connect ends, the next operation of the chain starts, the running one ends.
\<close>

inductive arrive :: "machine \<Rightarrow> machine \<Rightarrow> bool" where
  arrive_call: "arrive m (new_call m)"
| arrive_tick: "m_heartbeat m \<Longrightarrow> arrive m (tick m)"

inductive progress :: "machine \<Rightarrow> machine \<Rightarrow> bool" where
  progress_connected: "(d, js) \<in> set (m_dials m) \<Longrightarrow> progress m (connected d js m)"
| progress_refused: "(d, js) \<in> set (m_dials m) \<Longrightarrow> progress m (connect_failed d js m)"
| progress_start: "m_running m = None \<Longrightarrow> m_chain m = (j, t) # rest \<Longrightarrow> progress m (start m)"
| progress_answered: "m_running m = Some (j, t) \<Longrightarrow> progress m (answered j m)"
| progress_failed: "m_running m = Some (j, t) \<Longrightarrow> progress m (failed j t m)"

inductive_cases arriveE: "arrive m m'"

inductive_cases progressE: "progress m m'"

definition step :: "machine \<Rightarrow> machine \<Rightarrow> bool" where
  "step m m' \<longleftrightarrow> arrive m m' \<or> progress m m'"

lemma stepE:
  assumes "step m m'"
  obtains (call) "m' = new_call m" | (tick) "m_heartbeat m" "m' = tick m"
    | (connected) d js where "(d, js) \<in> set (m_dials m)" "m' = connected d js m"
    | (refused) d js where "(d, js) \<in> set (m_dials m)" "m' = connect_failed d js m"
    | (start) j t rest where "m_running m = None" "m_chain m = (j, t) # rest" "m' = start m"
    | (answered) j t where "m_running m = Some (j, t)" "m' = answered j m"
    | (failed) j t where "m_running m = Some (j, t)" "m' = failed j t m"
  using assms unfolding step_def by (elim disjE arriveE progressE) metis+

text \<open>The runs in which the client is not closed, and those in which it may be.\<close>

inductive reachable :: "machine \<Rightarrow> bool" where
  reach_init: "reachable init_machine"
| reach_step: "reachable m \<Longrightarrow> step m m' \<Longrightarrow> reachable m'"

inductive reachable_closing :: "machine \<Rightarrow> bool" where
  closing_init: "reachable_closing init_machine"
| closing_step: "reachable_closing m \<Longrightarrow> step m m' \<Longrightarrow> reachable_closing m'"
| closing_close: "reachable_closing m \<Longrightarrow> reachable_closing (close_machine m)"

text \<open>An invariant of the steps holds in every reachable state.\<close>

lemma reachable_invariant:
  assumes "reachable m" "I init_machine" "\<And>m m'. I m \<Longrightarrow> step m m' \<Longrightarrow> I m'"
  shows "I m"
  using assms(1) by (induction rule: reachable.induct) (auto intro: assms)

lemmas step_defs = new_call_def tick_def connected_def connect_failed_def start_def answered_def failed_def
  attempt_def drop_transport_def

section \<open>One connection\<close>

text \<open>
  No transport while connecting, one connect at most; the heartbeat runs exactly while
  there is a transport; every transport opened is the current one or was closed; no name
  is used twice.
\<close>

definition linked :: "machine \<Rightarrow> bool" where
  "linked m \<longleftrightarrow> (case m_connecting m of
       None \<Rightarrow> m_dials m = []
     | Some d \<Rightarrow> m_transport m = None \<and> (\<exists>js. m_dials m = [(d, js)]) \<and> d \<notin> set (m_opened m)) \<and>
     m_heartbeat m = (m_transport m \<noteq> None)"

definition accounted :: "machine \<Rightarrow> bool" where
  "accounted m \<longleftrightarrow> distinct (m_opened m) \<and>
     mset (m_opened m) = mset (m_closed m) + (case m_transport m of None \<Rightarrow> {#} | Some t \<Rightarrow> {#t#})"

definition fresh_names :: "machine \<Rightarrow> bool" where
  "fresh_names m \<longleftrightarrow> (\<forall>t \<in> set (m_opened m). t < m_fresh m) \<and> (\<forall>d \<in> set (map fst (m_dials m)). d < m_fresh m)"

definition one_connection :: "machine \<Rightarrow> bool" where
  "one_connection m \<longleftrightarrow> linked m \<and> accounted m \<and> fresh_names m"

lemmas one_connection_defs = one_connection_def linked_def accounted_def fresh_names_def

lemma one_connection_update [simp]:
  "one_connection (m\<lparr>m_chain := x\<rparr>) = one_connection m"
  "one_connection (m\<lparr>m_running := r\<rparr>) = one_connection m"
  "one_connection (m\<lparr>m_calls := n\<rparr>) = one_connection m"
  "one_connection (m\<lparr>m_started := l\<rparr>) = one_connection m"
  "one_connection (m\<lparr>m_settled := l\<rparr>) = one_connection m"
  by (simp_all add: one_connection_defs split: option.split)

lemma one_connection_attempt: "one_connection m \<Longrightarrow> one_connection (attempt j m)"
  by (cases "m_transport m"; cases "m_connecting m")
    (auto simp: attempt_def one_connection_defs intro: less_SucI)

lemma one_connection_drop: "one_connection m \<Longrightarrow> one_connection (drop_transport t m)"
  by (cases "m_connecting m") (auto simp: drop_transport_def one_connection_defs)

lemma one_connection_again: "one_connection m \<Longrightarrow> one_connection (again j m)"
  by (cases "(j, m)" rule: again.cases) (simp_all add: one_connection_attempt)

lemma one_connection_dial:
  assumes "one_connection m" "(d, js) \<in> set (m_dials m)"
  shows "m_connecting m = Some d" "m_dials m = [(d, js)]" "m_transport m = None"
  using assms by (cases "m_connecting m"; auto simp: one_connection_defs)+

lemma one_connection_connected:
  assumes "one_connection m" "(d, js) \<in> set (m_dials m)"
  shows "one_connection (connected d js m)" "one_connection (connect_failed d js m)"
  using assms(1) one_connection_dial [OF assms]
  by (auto simp: one_connection_defs connected_def connect_failed_def)

lemma one_connection_step: "one_connection m \<Longrightarrow> step m m' \<Longrightarrow> one_connection m'"
  by (erule stepE)
    (auto simp: new_call_def tick_def start_def answered_def failed_def one_connection_attempt
        one_connection_again one_connection_drop one_connection_connected split: option.split list.split)

lemma one_connection_init: "one_connection init_machine"
  by (simp add: one_connection_defs init_machine_def)

section \<open>Every call in one place\<close>

text \<open>The jobs that wait, the job that runs, and the calls they belong to.\<close>

definition queued :: "machine \<Rightarrow> job list" where
  "queued m = map fst (m_chain m) @ concat (map snd (m_dials m))"

definition running :: "machine \<Rightarrow> job list" where
  "running m = (case m_running m of None \<Rightarrow> [] | Some (j, t) \<Rightarrow> [j])"

definition conserved :: "machine \<Rightarrow> bool" where
  "conserved m \<longleftrightarrow> mset (callers (queued m) @ callers (running m) @ m_settled m) = mset [0..<m_calls m]"

lemma callers_append [simp]: "callers (js @ ks) = callers js @ callers ks"
  by (induction js rule: callers.induct) simp_all

lemmas place_defs = conserved_def queued_def running_def

lemma queued_attempt:
  assumes "one_connection m"
  shows "mset (queued (attempt j m)) = add_mset j (mset (queued m))"
  using assms
  by (cases "m_transport m"; cases "m_connecting m") (auto simp: attempt_def queued_def one_connection_defs)

lemma mset_callers: "mset (callers js) = (\<Sum>j \<in># mset js. mset (callers [j]))"
  by (induction js rule: callers.induct) simp_all

lemma callers_attempt:
  assumes "one_connection m"
  shows "mset (callers (queued (attempt j m))) = mset (callers [j]) + mset (callers (queued m))"
  by (subst (1 3) mset_callers) (simp add: queued_attempt [OF assms])

lemma attempt_simps [simp]:
  "m_running (attempt j m) = m_running m" "m_settled (attempt j m) = m_settled m"
  "m_started (attempt j m) = m_started m" "m_calls (attempt j m) = m_calls m"
  by (simp_all add: attempt_def split: option.split)

lemma drop_simps [simp]:
  "m_running (drop_transport t m) = m_running m" "m_settled (drop_transport t m) = m_settled m"
  "m_started (drop_transport t m) = m_started m" "m_calls (drop_transport t m) = m_calls m"
  "queued (drop_transport t m) = queued m"
  by (simp_all add: drop_transport_def queued_def)

lemma queued_update [simp]:
  "queued (m\<lparr>m_running := r\<rparr>) = queued m" "queued (m\<lparr>m_calls := n\<rparr>) = queued m"
  "queued (m\<lparr>m_settled := l\<rparr>) = queued m"
  by (simp_all add: queued_def)

lemma queued_tick: "queued (tick m) = (case m_transport m of None \<Rightarrow> queued m
    | Some t \<Rightarrow> map fst (m_chain m) @ Beat # concat (map snd (m_dials m)))"
  by (simp add: tick_def queued_def split: option.split)

lemma queued_dial:
  assumes "one_connection m" "(d, js) \<in> set (m_dials m)"
  shows "queued (connected d js m) = queued m" "queued m = map fst (m_chain m) @ js"
    "queued (connect_failed d js m) = map fst (m_chain m)"
  using one_connection_dial [OF assms]
  by (simp_all add: connected_def connect_failed_def queued_def comp_def)

lemma conserved_again:
  assumes "one_connection m" "m_running m = None"
    "mset (callers (queued m) @ callers [j] @ m_settled m) = mset [0..<m_calls m]"
  shows "conserved (again j m)"
  using assms
  by (cases "(j, m)" rule: again.cases)
    (simp_all add: conserved_def running_def callers_attempt)

lemma conserved_step:
  assumes "one_connection m" "conserved m" "step m m'"
  shows "conserved m'"
  using assms(3)
proof (cases rule: stepE)
  case call
  then show ?thesis using assms(1,2)
    by (simp add: new_call_def conserved_def running_def callers_attempt)
next
  case tick
  then show ?thesis using assms(2)
    by (simp add: conserved_def queued_tick running_def tick_def queued_def split: option.split)
next
  case (connected d js)
  then show ?thesis using assms(2) queued_dial [OF assms(1) connected(1)]
    by (simp add: conserved_def) (simp add: running_def connected_def)
next
  case (refused d js)
  then show ?thesis using assms(2) queued_dial [OF assms(1) refused(1)]
    by (simp add: conserved_def) (simp add: running_def connect_failed_def ac_simps)
next
  case (start j t rest)
  then show ?thesis using assms(2)
    by (cases j) (simp_all add: place_defs start_def)
next
  case (answered j t)
  then show ?thesis using assms(2)
    by (simp add: conserved_def answered_def running_def ac_simps)
next
  case (failed j t)
  show ?thesis unfolding failed(2) failed_def
    by (rule conserved_again)
      (use failed(1) assms(1,2) in \<open>simp_all add: one_connection_drop conserved_def running_def\<close>)
qed

section \<open>At most two attempts\<close>

text \<open>The attempts call \<open>c\<close> has left, and with those started: never more than two.\<close>

fun tries_left :: "nat \<Rightarrow> job \<Rightarrow> nat" where
  "tries_left c (Job c' n) = (if c' = c then n else 0)"
| "tries_left c Beat = 0"

definition budget :: "nat \<Rightarrow> machine \<Rightarrow> nat" where
  "budget c m = count_list (m_started m) c + (\<Sum>j \<in># mset (queued m). count_list (callers [j]) c + tries_left c j)
     + (\<Sum>j \<in># mset (running m). tries_left c j)"

definition bounded_tries :: "machine \<Rightarrow> bool" where
  "bounded_tries m \<longleftrightarrow> (\<forall>c. budget c m \<le> (if c < m_calls m then 2 else 0))"

lemma bounded_tries_mono:
  assumes "bounded_tries m" "\<And>c. budget c m' \<le> budget c m" "m_calls m' = m_calls m"
  shows "bounded_tries m'"
  unfolding bounded_tries_def
proof
  show "budget c m' \<le> (if c < m_calls m' then 2 else 0)" for c
    using assms(1,3) order_trans [OF assms(2)] unfolding bounded_tries_def by metis
qed

lemma count_list_snoc [simp]: "count_list (xs @ [x]) y = count_list xs y + (if x = y then 1 else 0)"
  by simp

lemma budget_again:
  assumes "one_connection m" "m_running m = None"
  shows "budget c (again j m) \<le> budget c m + tries_left c j"
  using assms
  by (cases "(j, m)" rule: again.cases) (simp_all add: budget_def running_def queued_attempt)

lemma calls_again [simp]: "m_calls (again j m) = m_calls m"
  by (cases "(j, m)" rule: again.cases) simp_all

lemma bounded_tries_step:
  assumes "one_connection m" "bounded_tries m" "step m m'"
  shows "bounded_tries m'"
  using assms(3)
proof (cases rule: stepE)
  case call
  have "budget c m' = budget c m + (if c = m_calls m then 2 else 0)" for c
    using call assms(1) by (simp add: new_call_def budget_def running_def queued_attempt)
  then show ?thesis using assms(2) call
    by (fastforce simp: bounded_tries_def new_call_def less_Suc_eq split: if_splits)
next
  case tick
  then show ?thesis
    by (intro bounded_tries_mono [OF assms(2)]; cases "m_transport m")
      (simp_all add: budget_def queued_tick running_def tick_def queued_def)
next
  case (connected d js)
  show ?thesis
    using connected queued_dial [OF assms(1) connected(1)]
    by (intro bounded_tries_mono [OF assms(2)], simp_all add: budget_def)
      (simp_all add: running_def connected_def)
next
  case (refused d js)
  show ?thesis
    using refused queued_dial [OF assms(1) refused(1)]
    by (intro bounded_tries_mono [OF assms(2)], simp_all add: budget_def)
      (simp_all add: running_def connect_failed_def)
next
  case (start j t rest)
  then show ?thesis
    by (intro bounded_tries_mono [OF assms(2)]; cases j)
      (simp_all add: budget_def running_def start_def queued_def)
next
  case (answered j t)
  then show ?thesis
    by (intro bounded_tries_mono [OF assms(2)]) (simp_all add: budget_def answered_def running_def)
next
  case (failed j t)
  have "budget c m' \<le> budget c m" for c
    using failed budget_again [of "drop_transport t (m\<lparr>m_running := None\<rparr>)" c j] assms(1)
    by (simp add: failed_def one_connection_drop) (simp add: budget_def running_def)
  then show ?thesis
    using failed by (intro bounded_tries_mono [OF assms(2)]) (simp_all add: failed_def)
qed

section \<open>Progress ends\<close>

text \<open>
  The work a state still has: a running operation ends; a chained one starts and ends; one
  that waits for a connect is chained first; every attempt left may need a connect more.
\<close>

fun weight :: "nat \<Rightarrow> job \<Rightarrow> nat" where
  "weight k (Job c n) = 5 * n + k"
| "weight k Beat = k"

definition work :: "machine \<Rightarrow> nat" where
  "work m = (\<Sum>(j, t) \<leftarrow> m_chain m. weight 2 j) + (\<Sum>j \<leftarrow> running m. weight 1 j)
     + (\<Sum>(d, js) \<leftarrow> m_dials m. Suc (\<Sum>j \<leftarrow> js. weight 3 j))"

lemma weight_split: "weight k j = k + weight 0 j"
  by (cases j) simp_all

lemma weight_less: "(\<Sum>j \<leftarrow> js. weight 2 j) \<le> (\<Sum>j \<leftarrow> js. weight 3 j)"
  by (rule sum_list_mono) (simp add: weight_split [of 2] weight_split [of 3])

lemma work_again:
  assumes "one_connection m" "m_running m = None"
  shows "work (again j m) < work m + weight 1 j"
  using assms
  by (cases "(j, m)" rule: again.cases; cases "m_transport m"; cases "m_connecting m")
    (auto simp: work_def running_def attempt_def one_connection_defs)

lemma work_drop: "work (drop_transport t m) = work m"
  by (simp add: work_def drop_transport_def running_def)

lemma weight_pos: "0 < weight (Suc k) j"
  by (cases j) simp_all

lemma progress_work:
  assumes "one_connection m" "progress m m'"
  shows "work m' < work m"
  using assms(2)
proof (cases rule: progress.cases)
  case (progress_connected d js)
  then show ?thesis using one_connection_dial [OF assms(1) progress_connected(2)] weight_less [of js]
    by (simp add: work_def connected_def running_def comp_def)
next
  case (progress_refused d js)
  then show ?thesis using one_connection_dial [OF assms(1) progress_refused(2)]
    by (simp add: work_def connect_failed_def running_def)
next
  case (progress_start j t rest)
  then show ?thesis by (simp add: work_def start_def running_def weight_split [of 2] weight_split [of "Suc 0"])
next
  case (progress_answered j t)
  then show ?thesis by (simp add: work_def answered_def running_def weight_pos)
next
  case (progress_failed j t)
  have "work m' < work (m\<lparr>m_running := None\<rparr>) + weight 1 j"
    using work_again [of "drop_transport t (m\<lparr>m_running := None\<rparr>)" j] assms(1) progress_failed
    by (simp add: failed_def one_connection_drop work_drop)
  then show ?thesis using progress_failed by (simp add: work_def running_def)
qed

lemma progress_steps:
  assumes "(progress ^^ n) m m'" "one_connection m"
  shows "one_connection m' \<and> n + work m' \<le> work m"
  using assms
proof (induction n arbitrary: m')
  case (Suc n)
  then obtain m1 where m1: "(progress ^^ n) m m1" "progress m1 m'" by auto
  then have "one_connection m1 \<and> n + work m1 \<le> work m" using Suc by blast
  moreover have "one_connection m'" using calculation m1(2) one_connection_step step_def by blast
  ultimately show ?case using progress_work [of m1 m'] m1(2) by simp
qed simp

lemma stuck_idle:
  assumes "one_connection m" "\<nexists>m'. progress m m'"
  shows "queued m = []" "running m = []"
proof -
  have "m_running m = None" using assms(2) by (metis progress_answered surj_pair not_Some_eq)
  moreover have "m_chain m = []" using assms(2) calculation by (metis progress_start surj_pair list.exhaust)
  moreover have "m_dials m = []" using assms(2) progress_connected by (metis list.set_intros(1) list.exhaust surj_pair)
  ultimately show "queued m = []" "running m = []" by (simp_all add: queued_def running_def)
qed

section \<open>The link, abstractly\<close>

text \<open>
  What a client promises about its link: down, one connect with a name not used before, up
  with the transport of that connect, down again.
\<close>

datatype link = Down | Dialing nat | Up nat

inductive link_step :: "link \<times> nat \<Rightarrow> link \<times> nat \<Rightarrow> bool" where
  link_dial: "link_step (Down, n) (Dialing n, Suc n)"
| link_up: "link_step (Dialing d, n) (Up d, n)"
| link_refused: "link_step (Dialing d, n) (Down, n)"
| link_lost: "link_step (Up t, n) (Down, n)"

definition link_of :: "machine \<Rightarrow> link \<times> nat" where
  "link_of m = ((case m_transport m of Some t \<Rightarrow> Up t
      | None \<Rightarrow> (case m_connecting m of None \<Rightarrow> Down | Some d \<Rightarrow> Dialing d)), m_fresh m)"

lemma link_of_update [simp]:
  "link_of (m\<lparr>m_chain := x\<rparr>) = link_of m" "link_of (m\<lparr>m_running := r\<rparr>) = link_of m"
  "link_of (m\<lparr>m_calls := n\<rparr>) = link_of m" "link_of (m\<lparr>m_started := l\<rparr>) = link_of m"
  "link_of (m\<lparr>m_settled := l\<rparr>) = link_of m"
  by (simp_all add: link_of_def split: option.split)

lemma link_attempt: "link_step\<^sup>*\<^sup>* (link_of m) (link_of (attempt j m))"
  by (cases "m_transport m"; cases "m_connecting m")
    (auto simp: attempt_def link_of_def intro: link_step.intros)

lemma link_again: "link_step\<^sup>*\<^sup>* (link_of m) (link_of (again j m))"
  by (cases "(j, m)" rule: again.cases) (simp_all add: link_attempt)

lemma link_drop: "one_connection m \<Longrightarrow> link_step\<^sup>*\<^sup>* (link_of m) (link_of (drop_transport t m))"
  by (cases "m_connecting m") (auto simp: drop_transport_def link_of_def one_connection_defs intro: link_step.intros)

lemma link_refines:
  assumes "one_connection m" "step m m'"
  shows "link_step\<^sup>*\<^sup>* (link_of m) (link_of m')"
  using assms(2)
proof (cases rule: stepE)
  case call
  then show ?thesis using link_attempt [of "m\<lparr>m_calls := Suc (m_calls m)\<rparr>"] by (simp add: new_call_def)
next
  case (connected d js)
  then show ?thesis using one_connection_dial [OF assms(1) connected(1)]
    by (auto simp: connected_def link_of_def intro: link_step.intros)
next
  case (refused d js)
  then show ?thesis using one_connection_dial [OF assms(1) refused(1)]
    by (auto simp: connect_failed_def link_of_def intro: link_step.intros)
next
  case (failed j t)
  let ?m = "m\<lparr>m_running := None\<rparr>"
  have "link_step\<^sup>*\<^sup>* (link_of ?m) (link_of (drop_transport t ?m))" using assms(1) by (intro link_drop) simp
  then show ?thesis using link_again [of "drop_transport t ?m" j] failed
    by (simp add: failed_def)
qed (simp_all add: tick_def start_def answered_def split: option.split)

section \<open>Properties\<close>

lemma reachable_one_connection: "reachable m \<Longrightarrow> one_connection m"
  using reachable_invariant [of m one_connection] one_connection_init one_connection_step by blast

lemma settles_init: "conserved init_machine" "bounded_tries init_machine"
  by (simp_all add: place_defs bounded_tries_def budget_def init_machine_def)

lemma reachable_settles: "reachable m \<Longrightarrow> one_connection m \<and> conserved m \<and> bounded_tries m"
  by (erule reachable_invariant [where I = "\<lambda>m. one_connection m \<and> conserved m \<and> bounded_tries m"])
    (auto simp: one_connection_init settles_init intro: one_connection_step conserved_step bounded_tries_step)


definition busy_machine :: machine where
  "busy_machine = start (connected 0 [Job 0 1, Job 1 1] (new_call (new_call init_machine)))"

lemmas busy_eval = busy_machine_def start_def connected_def new_call_def attempt_def init_machine_def

lemma reachable_busy: "reachable busy_machine"
proof -
  let ?a = "new_call (new_call init_machine)"
  have "reachable ?a"
    by (intro reach_step [OF reach_step [OF reach_init]]) (auto simp: step_def intro: arrive.intros)
  moreover have "step ?a (connected 0 [Job 0 1, Job 1 1] ?a)"
    unfolding step_def by (intro disjI2 progress_connected) (simp add: busy_eval)
  moreover have "step (connected 0 [Job 0 1, Job 1 1] ?a) busy_machine"
    unfolding step_def busy_machine_def
    by (intro disjI2 progress_start [where j = "Job 0 1" and t = 0 and rest = "[(Job 1 1, 0)]"]) (simp_all add: busy_eval)
  ultimately show ?thesis by (blast intro: reach_step)
qed


text \<open>
  C7. No call is lost, and none is answered twice: in every reachable state each call that
  was made is waiting, running or settled, in exactly one of these places and once; no call
  is started more than twice.
\<close>

theorem client_conserves_calls:
  "reachable m \<Longrightarrow>
     mset (callers (queued m) @ callers (running m) @ m_settled m) = mset [0..<m_calls m] \<and>
     (\<forall>c. count_list (m_started m) c \<le> 2)"
proof -
  assume "reachable m"
  then have m: "conserved m" "bounded_tries m" using reachable_settles by simp_all
  have "count_list (m_started m) c \<le> 2" for c
    using m(2) by (auto simp: bounded_tries_def budget_def split: if_splits dest!: spec [of _ c])
  then show ?thesis using m(1) by (simp add: conserved_def)
qed

theorem client_conserves_calls_witness:
  "reachable busy_machine \<and> callers (queued busy_machine) = [1] \<and> callers (running busy_machine) = [0] \<and>
     mset [1, 0] = mset [0..<m_calls busy_machine] \<and> count_list (m_started busy_machine) 0 \<le> 2"
  using client_conserves_calls [OF reachable_busy] reachable_busy
  by (simp add: busy_eval queued_def running_def numeral_2_eq_2)





text \<open>
  Closing does not stop a connect under way: when \<open>close\<close> runs while the client connects,
  the connect's handler stores the transport and starts the heartbeat afterwards, so that a
  closed client keeps a transport that was never closed.
\<close>

theorem close_leaves_connect:
  "reachable m \<Longrightarrow> (d, js) \<in> set (m_dials m) \<Longrightarrow>
     reachable_closing (connected d js (close_machine m)) \<and>
     m_transport (connected d js (close_machine m)) = Some d \<and>
     m_heartbeat (connected d js (close_machine m)) \<and> d \<notin> set (m_closed (connected d js (close_machine m)))"
proof -
  assume r: "reachable m" and d: "(d, js) \<in> set (m_dials m)"
  have "reachable_closing m" using r by induction (auto intro: reachable_closing.intros)
  then have c: "reachable_closing (close_machine m)" by (rule closing_close)
  have "step (close_machine m) (connected d js (close_machine m))"
    unfolding step_def by (intro disjI2 progress_connected) (simp add: close_machine_def d)
  then have rc: "reachable_closing (connected d js (close_machine m))" by (rule closing_step [OF c])
  have one: "one_connection m" using r by (rule reachable_one_connection)
  note dial = one_connection_dial [OF one d]
  have "set (m_opened m) = set (m_closed m)" using one dial
    by (auto simp: one_connection_defs dest: mset_eq_setD)
  then have "d \<notin> set (m_closed m)" using one dial by (simp add: one_connection_defs)
  then show ?thesis using rc dial by (simp add: connected_def close_machine_def)
qed

theorem close_leaves_connect_witness:
  "reachable (new_call init_machine) \<and>
     m_transport (connected 0 [Job 0 1] (close_machine (new_call init_machine))) = Some 0"
proof -
  have r: "reachable (new_call init_machine)"
    by (rule reach_step [OF reach_init]) (auto simp: step_def intro: arrive.intros)
  then show ?thesis using close_leaves_connect [OF r, of 0 "[Job 0 1]"] by (simp add: busy_eval)
qed

end
