(* ===== verification/Json.thy ===== *)
theory Json
  imports JsValue
begin

text \<open>
  \<open>JSON.parse\<close> and \<open>JSON.stringify\<close>, as the sidecar seams, the configuration and the HTTP
  bodies use them.  Text is a string of the model, that is, its UTF-8 bytes.  An escape of a
  lone surrogate gives the three bytes of its generalised UTF-8 form; strings the program
  prints have none.
\<close>

section \<open>Numbers\<close>

text \<open>Rounding to the nearest double, halves to even: a natural number, and a ratio.\<close>

definition round_ratio :: "nat \<Rightarrow> nat \<Rightarrow> nat" where
  "round_ratio p q =
     (let d = p div q; r = 2 * (p mod q) in if r > q \<or> r = q \<and> odd d then Suc d else d)"

definition signed_number :: "bool \<Rightarrow> nat \<Rightarrow> jsnum" where
  "signed_number neg m =
     (if 2 ^ 1024 \<le> m then NFlt (inf_bits neg)
      else if m = 0 then (if neg then NFlt minus_zero else NInt 0)
      else NInt (if neg then - int m else int m))"

definition number_of_ratio :: "bool \<Rightarrow> nat \<Rightarrow> nat \<Rightarrow> jsnum" where
  "number_of_ratio neg p q =
     (let low = int (bitlen p) - int (bitlen q) - 53;
          scaled = (\<lambda>e. if e \<ge> 0 then (p, q * 2 ^ nat e) else (p * 2 ^ nat (- e), q));
          big = (case scaled low of (a, b) \<Rightarrow> 2 ^ 53 * b \<le> a);
          e = max (if big then low + 1 else low) (- 1074);
          m = (case scaled e of (a, b) \<Rightarrow> round_ratio a b)
      in if p mod q = 0 \<and> bitlen (p div q) \<le> 53 then signed_number neg (p div q)
         else if 0 \<le> e then signed_number neg (m * 2 ^ nat e)
         else dyadic neg m e
                (if m < 2 ^ 52 then (if neg then 2 ^ 63 else 0) + m else dyadic_bits neg m e))"

text \<open>The decimal \<open>digits * 10 ^ x\<close>.\<close>

definition number_of_decimal :: "bool \<Rightarrow> nat \<Rightarrow> int \<Rightarrow> jsnum" where
  "number_of_decimal neg digits x =
     (if 0 \<le> x then number_of_ratio neg (digits * 10 ^ nat x) 1
      else number_of_ratio neg digits (10 ^ nat (- x)))"

text \<open>
  \<open>Number.prototype.toString\<close> on a finite number other than zero and a safe integer: the
  fewest digits that read back as the number, the closest of them, in fixed or exponent
  notation by the position \<open>x\<close> of the decimal point.
\<close>

definition magnitude :: "jsnum \<Rightarrow> bool \<times> nat \<times> nat" where
  "magnitude n = (case n of
       NInt i \<Rightarrow> (i < 0, nat \<bar>i\<bar>, 1)
     | NFlt b \<Rightarrow> (let neg = (2 ^ 63 \<le> b); E = b div 2 ^ 52 mod 2 ^ 11; M = b mod 2 ^ 52
                 in if E = 0 then (neg, M, 2 ^ 1074)
                    else if 1075 \<le> E then (neg, (M + 2 ^ 52) * 2 ^ (E - 1075), 1)
                    else (neg, M + 2 ^ 52, 2 ^ (1075 - E))))"

definition point_position :: "nat \<Rightarrow> nat \<Rightarrow> int" where
  "point_position p q =
     (if q \<le> p then int (length (nat_digits (p div q)))
      else 1 - int (length (nat_digits ((q - 1) div p))))"

definition digits_at :: "jsnum \<Rightarrow> nat \<Rightarrow> nat option" where
  "digits_at n k = (case magnitude n of (neg, p, q) \<Rightarrow>
     let x = int k - point_position p q;
         (a, b) = (if 0 \<le> x then (p * 10 ^ nat x, q) else (p, q * 10 ^ nat (- x)));
         reads = (\<lambda>d. number_of_decimal neg d (- x) = n);
         d = a div b;
         near = round_ratio a b
     in if reads near then Some near else if reads d then Some d else if reads (Suc d) then Some (Suc d) else None)"

definition fixed_text :: "string \<Rightarrow> int \<Rightarrow> string" where
  "fixed_text ds x =
     (let k = int (length ds)
      in if k \<le> x \<and> x \<le> 21 then ds @ replicate (nat (x - k)) CHR ''0''
         else if 0 < x \<and> x \<le> 21 then take (nat x) ds @ CHR ''.'' # drop (nat x) ds
         else if - 6 < x \<and> x \<le> 0 then ''0.'' @ replicate (nat (- x)) CHR ''0'' @ ds
         else take 1 ds @ (if k = 1 then [] else CHR ''.'' # drop 1 ds) @ CHR ''e''
              # (if 0 < x then CHR ''+'' else CHR ''-'') # nat_digits (nat \<bar>x - 1\<bar>))"

definition float_text :: "jsnum \<Rightarrow> string" where
  "float_text n = (case magnitude n of (neg, p, q) \<Rightarrow>
     case find (\<lambda>k. digits_at n k \<noteq> None) [1..<18] of
       None \<Rightarrow> []
     | Some k \<Rightarrow> (if neg then ''-'' else []) @ fixed_text (nat_digits (the (digits_at n k))) (point_position p q))"

text \<open>\<open>JSON.stringify\<close> of a number: what is not finite is \<open>null\<close>, minus zero is \<open>0\<close>.\<close>

definition number_text :: "jsnum \<Rightarrow> string" where
  "number_text n = (case n of
       NInt i \<Rightarrow> if \<bar>i\<bar> \<le> 2 ^ 53 then int_digits i else float_text n
     | NFlt b \<Rightarrow> if b = minus_zero then ''0''
               else if b div 2 ^ 52 mod 2 ^ 11 = 2047 then ''null''
               else float_text n)"

section \<open>Printing\<close>

definition low_hex :: "nat \<Rightarrow> char" where
  "low_hex n = ''0123456789abcdef'' ! n"

definition escape_char :: "char \<Rightarrow> string" where
  "escape_char c =
     (let n = of_char c :: nat
      in if n = 34 then [CHR 34]
         else if n = 92 then [CHR 92]
         else if n = 8 then ''b''
         else if n = 9 then ''t''
         else if n = 10 then ''n''
         else if n = 12 then ''f''
         else if n = 13 then ''r''
         else ''u00'' @ [low_hex (n div 16), low_hex (n mod 16)])"

definition plain_char :: "char \<Rightarrow> bool" where
  "plain_char c \<longleftrightarrow> 32 \<le> (of_char c :: nat) \<and> of_char c \<noteq> (34 :: nat) \<and> of_char c \<noteq> (92 :: nat)"

definition quoted_char :: "char \<Rightarrow> string" where
  "quoted_char c = (if plain_char c then [c] else CHR 92 # escape_char c)"

definition quote :: "string \<Rightarrow> string" where
  "quote s = CHR 34 # concat (map quoted_char s) @ [CHR 34]"

fun commas :: "string list \<Rightarrow> string" where
  "commas [] = []"
| "commas [s] = s"
| "commas (s # t # ts) = s @ CHR '','' # commas (t # ts)"

text \<open>A property whose value is undefined, a function or a symbol is left out; in an array it is null.\<close>

definition unprinted :: "jsval \<Rightarrow> bool" where
  "unprinted v = (case v of JUndef \<Rightarrow> True | JOther _ \<Rightarrow> True | _ \<Rightarrow> False)"

text \<open>
  \<open>JSON.stringify\<close> of a value that is printed; \<open>None\<close> is the exception for a \<open>BigInt\<close>.  A
  \<open>Uint8Array\<close> is printed as the object of its indexes, a \<open>CborFloat\<close> as that of its field.
\<close>

fun stringify :: "jsval \<Rightarrow> string option" where
  "stringify JNull = Some ''null''"
| "stringify JUndef = Some ''null''"
| "stringify (JOther _) = Some ''null''"
| "stringify (JBool b) = Some (if b then ''true'' else ''false'')"
| "stringify (JNum n) = Some (number_text n)"
| "stringify (JBig _) = None"
| "stringify (JFloat n) = Some (CHR ''{'' # quote ''value'' @ CHR '':'' # number_text n @ ''}'')"
| "stringify (JStr s) = Some (quote s)"
| "stringify (JBytes bs) = Some (CHR ''{'' # commas (map (\<lambda>(i, b). quote (nat_digits i) @ CHR '':'' # nat_digits (unat b))
       (enumerate 0 bs)) @ ''}'')"
| "stringify (JArr vs) = map_option (\<lambda>ts. CHR ''['' # commas ts @ '']'') (traverse stringify vs)"
| "stringify (JObj ob) = map_option (\<lambda>ts. CHR ''{'' # commas (concat ts) @ ''}'')
     (traverse (\<lambda>(k, v). if unprinted v then Some []
        else map_option (\<lambda>t. [quote k @ CHR '':'' # t]) (stringify v)) ob)"

section \<open>Parsing\<close>

definition is_ws :: "char \<Rightarrow> bool" where
  "is_ws c \<longleftrightarrow> of_char c \<in> {9, 10, 13, 32 :: nat}"

definition skip_ws :: "string \<Rightarrow> string" where
  "skip_ws = dropWhile is_ws"

definition hex_value :: "char \<Rightarrow> nat option" where
  "hex_value c =
     (let n = of_char c :: nat
      in if 48 \<le> n \<and> n \<le> 57 then Some (n - 48)
         else if 97 \<le> n \<and> n \<le> 102 then Some (n - 87)
         else if 65 \<le> n \<and> n \<le> 70 then Some (n - 55)
         else None)"

fun hex4 :: "string \<Rightarrow> (nat \<times> string) option" where
  "hex4 (a # b # c # d # r) = (case (hex_value a, hex_value b, hex_value c, hex_value d) of
       (Some i, Some j, Some k, Some l) \<Rightarrow> Some (4096 * i + 256 * j + 16 * k + l, r)
     | _ \<Rightarrow> None)"
| "hex4 _ = None"

definition code_point :: "nat \<Rightarrow> string" where
  "code_point n = map char_of
     (if n < 0x80 then [n]
      else if n < 0x800 then [192 + n div 64, 128 + n mod 64]
      else if n < 0x10000 then [224 + n div 4096, 128 + n div 64 mod 64, 128 + n mod 64]
      else [240 + n div 262144, 128 + n div 4096 mod 64, 128 + n div 64 mod 64, 128 + n mod 64])"

text \<open>
  The escape of a code unit: a high surrogate joins with a low one that is escaped right
  after it.
\<close>

definition unicode_escape :: "string \<Rightarrow> (string \<times> string) option" where
  "unicode_escape s = (case hex4 s of
       None \<Rightarrow> None
     | Some (u, r) \<Rightarrow>
         if 0xd800 \<le> u \<and> u < 0xdc00 \<and> take 2 r = [CHR 92, CHR ''u''] then
           (case hex4 (drop 2 r) of
              None \<Rightarrow> Some (code_point u, r)
            | Some (l, r') \<Rightarrow>
                if 0xdc00 \<le> l \<and> l < 0xe000
                then Some (code_point (0x10000 + (u - 0xd800) * 1024 + (l - 0xdc00)), r')
                else Some (code_point u, r))
         else Some (code_point u, r))"

text \<open>After the backslash.\<close>

definition escape_sequence :: "string \<Rightarrow> (string \<times> string) option" where
  "escape_sequence s = (case s of
       [] \<Rightarrow> None
     | c # r \<Rightarrow>
         if c \<in> {CHR 34, CHR 92, CHR ''/''} then Some ([c], r)
         else if c = CHR ''b'' then Some ([char_of (8 :: nat)], r)
         else if c = CHR ''f'' then Some ([char_of (12 :: nat)], r)
         else if c = CHR ''n'' then Some ([char_of (10 :: nat)], r)
         else if c = CHR ''r'' then Some ([char_of (13 :: nat)], r)
         else if c = CHR ''t'' then Some ([char_of (9 :: nat)], r)
         else if c = CHR ''u'' then unicode_escape r
         else None)"

lemma hex4_shorter: "hex4 s = Some (u, r) \<Longrightarrow> length r < length s"
  by (cases s rule: hex4.cases) (auto split: option.splits)

lemma unicode_escape_shorter: "unicode_escape s = Some (t, r) \<Longrightarrow> length r < length s"
  by (auto simp: unicode_escape_def split: option.splits if_splits prod.splits dest!: hex4_shorter)

lemma escape_sequence_shorter [termination_simp]: "escape_sequence s = Some (t, r) \<Longrightarrow> length r < length s"
  by (auto simp: escape_sequence_def split: list.splits if_splits dest: unicode_escape_shorter)

text \<open>After the opening quote.\<close>

fun string_body :: "string \<Rightarrow> (string \<times> string) option" where
  "string_body [] = None"
| "string_body (c # cs) =
     (if c = CHR 34 then Some ([], cs)
      else if c = CHR 92 then
        (case escape_sequence cs of
           None \<Rightarrow> None
         | Some (t, r) \<Rightarrow> map_option (\<lambda>(s, r'). (t @ s, r')) (string_body r))
      else if (of_char c :: nat) < 32 then None
      else map_option (\<lambda>(s, r). (c # s, r)) (string_body cs))"

text \<open>The number grammar: an optional sign, an integer without leading zero, a fraction, an exponent.\<close>

definition digits_prefix :: "string \<Rightarrow> (string \<times> string) option" where
  "digits_prefix s = (let ds = takeWhile is_digit s
     in if ds = [] then None else Some (ds, dropWhile is_digit s))"

definition integer_part :: "string \<Rightarrow> (string \<times> string) option" where
  "integer_part s = (case digits_prefix s of
       None \<Rightarrow> None
     | Some (ds, r) \<Rightarrow> if hd ds = CHR ''0'' then Some (''0'', tl ds @ r) else Some (ds, r))"

definition fraction_part :: "string \<Rightarrow> (string \<times> string) option" where
  "fraction_part s = (case s of
       c # r \<Rightarrow> if c = CHR ''.'' then digits_prefix r else Some ([], s)
     | [] \<Rightarrow> Some ([], s))"

definition exponent_part :: "string \<Rightarrow> (int \<times> string) option" where
  "exponent_part s = (case s of
       c # r \<Rightarrow>
         if c = CHR ''e'' \<or> c = CHR ''E'' then
           (let (neg, r') = (case r of
                 d # r'' \<Rightarrow> if d = CHR ''-'' then (True, r'') else if d = CHR ''+'' then (False, r'') else (False, r)
               | [] \<Rightarrow> (False, r))
            in map_option (\<lambda>(ds, t). (if neg then - int (digits_value ds) else int (digits_value ds), t))
                 (digits_prefix r'))
         else Some (0, s)
     | [] \<Rightarrow> Some (0, s))"

definition number_token :: "string \<Rightarrow> (jsval \<times> string) option" where
  "number_token s =
     (let (neg, s') = (case s of c # r \<Rightarrow> if c = CHR ''-'' then (True, r) else (False, s) | [] \<Rightarrow> (False, s))
      in case integer_part s' of None \<Rightarrow> None | Some (ds, r) \<Rightarrow>
         (case fraction_part r of None \<Rightarrow> None | Some (fs, r') \<Rightarrow>
         (case exponent_part r' of None \<Rightarrow> None | Some (x, t) \<Rightarrow>
            Some (JNum (number_of_decimal neg (digits_value (ds @ fs)) (x - int (length fs))), t))))"

definition keyword :: "string \<Rightarrow> jsval \<Rightarrow> string \<Rightarrow> (jsval \<times> string) option" where
  "keyword w v s = (if take (length w) s = w then Some (v, drop (length w) s) else None)"

text \<open>
  A value, the elements of an array after its bracket, the members of an object after its
  brace.  Every call is on a shorter text or comes right after one that was, so that twice
  the length of the text and two more is fuel enough.
\<close>

fun value_at :: "nat \<Rightarrow> string \<Rightarrow> (jsval \<times> string) option"
  and elements_at :: "nat \<Rightarrow> string \<Rightarrow> (jsval list \<times> string) option"
  and members_at :: "nat \<Rightarrow> (string \<times> jsval) list \<Rightarrow> string \<Rightarrow> ((string \<times> jsval) list \<times> string) option" where
  "value_at 0 s = None"
| "value_at (Suc n) s = (case skip_ws s of
       [] \<Rightarrow> None
     | c # cs \<Rightarrow>
         if c = CHR 34 then map_option (\<lambda>(t, r). (JStr t, r)) (string_body cs)
         else if c = CHR ''['' then
           (if take 1 (skip_ws cs) = '']'' then Some (JArr [], drop 1 (skip_ws cs))
            else map_option (\<lambda>(vs, r). (JArr vs, r)) (elements_at n cs))
         else if c = CHR ''{'' then
           (if take 1 (skip_ws cs) = ''}'' then Some (JObj [], drop 1 (skip_ws cs))
            else map_option (\<lambda>(ob, r). (JObj ob, r)) (members_at n [] cs))
         else if c = CHR ''t'' then keyword ''true'' (JBool True) (c # cs)
         else if c = CHR ''f'' then keyword ''false'' (JBool False) (c # cs)
         else if c = CHR ''n'' then keyword ''null'' JNull (c # cs)
         else number_token (c # cs))"
| "elements_at 0 s = None"
| "elements_at (Suc n) s = (case value_at n s of
       None \<Rightarrow> None
     | Some (v, r) \<Rightarrow> (case skip_ws r of
           [] \<Rightarrow> None
         | c # cs \<Rightarrow>
             if c = CHR '']'' then Some ([v], cs)
             else if c = CHR '','' then map_option (\<lambda>(vs, r'). (v # vs, r')) (elements_at n cs)
             else None))"
| "members_at 0 ob s = None"
| "members_at (Suc n) ob s = (case skip_ws s of
       [] \<Rightarrow> None
     | q # qs \<Rightarrow>
         if q \<noteq> CHR 34 then None
         else (case string_body qs of
             None \<Rightarrow> None
           | Some (k, r) \<Rightarrow>
               if take 1 (skip_ws r) \<noteq> '':'' then None
               else (case value_at n (drop 1 (skip_ws r)) of
                   None \<Rightarrow> None
                 | Some (v, r') \<Rightarrow> (case skip_ws r' of
                       [] \<Rightarrow> None
                     | c # cs \<Rightarrow>
                         if c = CHR ''}'' then Some (obj_set ob k v, cs)
                         else if c = CHR '','' then members_at n (obj_set ob k v) cs
                         else None))))"

definition json_parse :: "string \<Rightarrow> jsval option" where
  "json_parse s = (case value_at (2 * length s + 2) s of
       None \<Rightarrow> None
     | Some (v, r) \<Rightarrow> if skip_ws r = [] then Some v else None)"

section \<open>The fuel is enough\<close>

lemma skip_ws_length: "length (skip_ws s) \<le> length s"
  by (simp add: skip_ws_def length_dropWhile_le)

lemma string_body_shorter: "string_body s = Some (t, r) \<Longrightarrow> length r < length s"
  by (induction s arbitrary: t r rule: string_body.induct)
    (fastforce split: if_splits option.splits dest: escape_sequence_shorter)+

lemma digits_prefix_shorter: "digits_prefix s = Some (ds, r) \<Longrightarrow> length r < length s"
  by (cases s) (auto simp: digits_prefix_def Let_def length_dropWhile_le le_imp_less_Suc split: if_splits)

lemma integer_part_shorter: "integer_part s = Some (ds, r) \<Longrightarrow> length r < length s"
proof -
  assume s: "integer_part s = Some (ds, r)"
  then obtain es t where e: "digits_prefix s = Some (es, t)" by (auto simp: integer_part_def split: option.splits)
  then have "es \<noteq> []" "length es + length t = length s"
    by (auto simp: digits_prefix_def Let_def takeWhile_dropWhile_id simp flip: length_append split: if_splits)
  then show ?thesis using s e by (cases es) (auto simp: integer_part_def split: if_splits)
qed

lemma fraction_part_length: "fraction_part s = Some (ds, r) \<Longrightarrow> length r \<le> length s"
  by (auto simp: fraction_part_def split: list.splits if_splits dest: digits_prefix_shorter)

lemma exponent_part_length: "exponent_part s = Some (x, r) \<Longrightarrow> length r \<le> length s"
  by (auto simp: exponent_part_def Let_def split: list.splits if_splits prod.splits dest!: digits_prefix_shorter)

lemma number_token_shorter: "number_token s = Some (v, r) \<Longrightarrow> length r < length s"
  by (fastforce simp: number_token_def Let_def split: list.splits if_splits option.splits prod.splits
      dest!: integer_part_shorter fraction_part_length exponent_part_length)

lemma keyword_shorter: "keyword w v s = Some (v', r) \<Longrightarrow> w \<noteq> [] \<Longrightarrow> s \<noteq> [] \<Longrightarrow> length r < length s"
  by (auto simp: keyword_def split: if_splits)

lemma skip_ws_cons: "skip_ws s = c # cs \<Longrightarrow> length cs < length s"
  using skip_ws_length [of s] by simp

lemma skip_ws_drop: "length (drop 1 (skip_ws s)) \<le> length s"
  using skip_ws_length [of s] by simp

lemma parts_shorter:
  "value_at n s = Some (v, r) \<Longrightarrow> length r < length s"
  "elements_at n s = Some (vs, r) \<Longrightarrow> length r < length s"
  "members_at n ob s = Some (ob', r) \<Longrightarrow> length r < length s"
proof (induction n s and n s and n ob s arbitrary: v r and vs r and ob' r rule: value_at_elements_at_members_at.induct)
  case (2 n s)
  obtain c cs where c: "skip_ws s = c # cs" using 2(3) by (auto split: list.splits)
  have "length cs < length s" using c by (rule skip_ws_cons)
  moreover have "length (skip_ws s) \<le> length s" by (rule skip_ws_length)
  moreover have "length r < length (c # cs)" using 2 c skip_ws_drop [of cs]
    by (auto split: if_splits dest: string_body_shorter keyword_shorter number_token_shorter intro: less_SucI le_imp_less_Suc)
  ultimately show ?case using c by simp
next
  case (4 n s)
  then show ?case by (fastforce split: option.splits list.splits if_splits dest!: skip_ws_cons)
next
  case (6 n ob s)
  obtain q qs where q: "skip_ws s = q # qs" "q = CHR 34" using 6(3) by (auto split: list.splits if_splits)
  obtain k r1 where k: "string_body qs = Some (k, r1)" "take 1 (skip_ws r1) = '':''"
    using 6(3) q by (auto split: option.splits if_splits)
  obtain v r2 where v: "value_at n (drop 1 (skip_ws r1)) = Some (v, r2)"
    using 6(3) q k by (auto split: option.splits)
  obtain c cs where c: "skip_ws r2 = c # cs" using 6(3) q k v by (auto split: list.splits)
  have "length cs < length s"
    using skip_ws_cons [OF q(1)] string_body_shorter [OF k(1)] skip_ws_drop [of r1] skip_ws_cons [OF c]
      6(1) [OF q(1) _ k(1) _ _ v] q(2) k(2) by simp
  moreover have "r = cs \<or> (c \<noteq> CHR ''}'' \<and> c = CHR '','' \<and> members_at n (obj_set ob k v) cs = Some (ob', r))"
    using 6(3) q k v c by (simp split: if_splits)
  ultimately show ?case
    using 6(2) [OF q(1) _ k(1) refl _ v refl c] q(2) k(2) by (elim disjE) auto
qed simp_all

lemma fuel_enough:
  "2 * length s + 2 \<le> n \<Longrightarrow> 2 * length s + 2 \<le> m \<Longrightarrow> value_at m s = value_at n s"
  "2 * length s + 3 \<le> n \<Longrightarrow> 2 * length s + 3 \<le> m \<Longrightarrow> elements_at m s = elements_at n s"
  "2 * length s + 3 \<le> n \<Longrightarrow> 2 * length s + 3 \<le> m \<Longrightarrow> members_at m ob s = members_at n ob s"
proof (induction n s and n s and n ob s arbitrary: m and m and m rule: value_at_elements_at_members_at.induct)
  case (2 n s)
  obtain m' where m: "m = Suc m'" using 2(4) by (cases m) simp_all
  show ?case
  proof (cases "skip_ws s")
    case (Cons c cs)
    have "2 * length cs + 3 \<le> n" "2 * length cs + 3 \<le> m'"
      using skip_ws_cons [OF Cons] 2(3,4) m by linarith+
    then have "c \<noteq> CHR 34 \<Longrightarrow> c = CHR ''['' \<Longrightarrow> take 1 (skip_ws cs) \<noteq> '']'' \<Longrightarrow> elements_at m' cs = elements_at n cs"
      and "c \<noteq> CHR 34 \<Longrightarrow> c \<noteq> CHR ''['' \<Longrightarrow> c = CHR ''{'' \<Longrightarrow> take 1 (skip_ws cs) \<noteq> ''}'' \<Longrightarrow>
          members_at m' [] cs = members_at n [] cs"
      using 2(1) [OF Cons, of m'] 2(2) [OF Cons, of m'] by blast+
    then show ?thesis by (simp add: Cons m)
  qed (simp add: m)
next
  case (4 n s)
  obtain m' where m: "m = Suc m'" using 4(4) by (cases m) simp_all
  have v: "value_at m' s = value_at n s" using 4(1) [of m'] 4(3,4) m by linarith
  show ?case
  proof (cases "value_at n s")
    case (Some p)
    obtain v r where p: "p = (v, r)" by (cases p)
    show ?thesis
    proof (cases "skip_ws r")
      case (Cons c cs)
      have "length cs < length s" using skip_ws_cons [OF Cons] parts_shorter(1) Some p by fastforce
      then have "2 * length cs + 3 \<le> n" "2 * length cs + 3 \<le> m'" using 4(3,4) m by linarith+
      then have "c \<noteq> CHR '']'' \<Longrightarrow> c = CHR '','' \<Longrightarrow> elements_at m' cs = elements_at n cs"
        using 4(2) [OF Some [unfolded p] refl Cons, of m'] by blast
      then show ?thesis by (simp add: m v Some p Cons)
    qed (simp add: m v Some p)
  qed (simp add: m v)
next
  case (6 n ob s)
  obtain m' where m: "m = Suc m'" using 6(4) by (cases m) simp_all
  show ?case
  proof (cases "\<exists>q qs k r. skip_ws s = q # qs \<and> q = CHR 34 \<and> string_body qs = Some (k, r) \<and> take 1 (skip_ws r) = '':''")
    case True
    then obtain q qs k r where q: "skip_ws s = q # qs" "q = CHR 34" "string_body qs = Some (k, r)" "take 1 (skip_ws r) = '':''"
      by blast
    let ?s = "drop 1 (skip_ws r)"
    have l: "length ?s < length s"
      using skip_ws_cons [OF q(1)] string_body_shorter [OF q(3)] skip_ws_drop [of r] by simp
    have v: "value_at m' ?s = value_at n ?s"
      by (rule 6(1) [OF q(1) _ q(3) refl]) (use l q(2,4) 6(3,4) m in simp_all)
    show ?thesis
    proof (cases "value_at n ?s")
      case None
      then show ?thesis using q m v by simp
    next
      case (Some p)
      obtain v' r2 where p: "p = (v', r2)" by (cases p)
      show ?thesis
      proof (cases "skip_ws r2")
        case Nil
        then show ?thesis using q m v Some p by simp
      next
        case (Cons c cs)
        have "length cs < length s" using skip_ws_cons [OF Cons] parts_shorter(1) [OF Some [unfolded p]] l by simp
        then have "2 * length cs + 3 \<le> n" "2 * length cs + 3 \<le> m'" using 6(3,4) m by linarith+
        then have "c \<noteq> CHR ''}'' \<Longrightarrow> c = CHR '','' \<Longrightarrow> members_at m' (obj_set ob k v') cs = members_at n (obj_set ob k v') cs"
          using 6(2) [OF q(1) _ q(3) refl _ Some [unfolded p] refl Cons, of m'] q(2,4) by blast
        then show ?thesis using q(4) v Some p by (simp add: q(1-3) m Cons)
      qed
    qed
  next
    case False
    then show ?thesis using m by (auto split: list.splits option.splits)
  qed
qed simp_all

lemma parse_fuel: "2 * length s + 2 \<le> n \<Longrightarrow>
    json_parse s = (case value_at n s of None \<Rightarrow> None | Some (v, r) \<Rightarrow> if skip_ws r = [] then Some v else None)"
  unfolding json_parse_def using fuel_enough(1) [of s n "2 * length s + 2"] by simp

section \<open>Round trip\<close>

subsection \<open>Strings\<close>

lemma hex_value_low_hex: "n < 16 \<Longrightarrow> hex_value (low_hex n) = Some n"
proof -
  have "\<forall>n \<in> set [0..<16]. hex_value (low_hex n) = Some n" by code_simp
  then show "n < 16 \<Longrightarrow> hex_value (low_hex n) = Some n" by simp
qed

lemma escape_char_read:
  assumes "\<not> plain_char c"
  shows "escape_sequence (escape_char c @ r) = Some ([c], r)"
proof -
  let ?n = "of_char c :: nat"
  have c: "c = char_of ?n" by simp
  have n: "?n < 32 \<or> ?n = 34 \<or> ?n = 92" using assms by (auto simp: plain_char_def)
  show ?thesis
  proof (cases "?n \<in> {34, 92, 8, 9, 10, 12, 13}")
    case True
    have quote_char: "char_of (34 :: nat) = CHR 34" "char_of (92 :: nat) = CHR 92" by code_simp+
    have "escape_sequence (escape_char (char_of k) @ r) = Some ([char_of k], r)" if "k \<in> {34, 92, 8, 9, 10, 12, 13}" for k :: nat
      using that quote_char by (auto simp: escape_char_def escape_sequence_def)
    from this [OF True] show ?thesis by simp
  next
    case False
    then have less: "?n < 32" and esc: "escape_char c = ''u00'' @ [low_hex (?n div 16), low_hex (?n mod 16)]"
      using n by (auto simp: escape_char_def Let_def)
    have "hex4 (CHR ''0'' # CHR ''0'' # low_hex (?n div 16) # low_hex (?n mod 16) # r) = Some (?n, r)"
      using less by (simp add: hex_value_low_hex) (simp add: hex_value_def)
    then show ?thesis using less by (simp add: esc escape_sequence_def unicode_escape_def code_point_def)
  qed
qed

lemma string_body_quoted: "string_body (concat (map quoted_char s) @ CHR 34 # r) = Some (s, r)"
proof (induction s)
  case (Cons c s)
  show ?case
  proof (cases "plain_char c")
    case True
    moreover have "c \<noteq> CHR 34" "c \<noteq> CHR 92" "\<not> (of_char c :: nat) < 32" using True by (auto simp: plain_char_def)
    ultimately show ?thesis using Cons by (simp add: quoted_char_def)
  next
    case False
    then show ?thesis using Cons escape_char_read [OF False] by (simp add: quoted_char_def)
  qed
qed simp

subsection \<open>Numbers\<close>

text \<open>What may follow a value: the end, a comma, or a closing bracket or brace.\<close>

definition delimited :: "string \<Rightarrow> bool" where
  "delimited r \<longleftrightarrow> r = [] \<or> hd r \<in> {CHR '','', CHR '']'', CHR ''}''}"

lemma digits_prefix_digits:
  assumes "list_all is_digit ds" "ds \<noteq> []" "r = [] \<or> \<not> is_digit (hd r)"
  shows "digits_prefix (ds @ r) = Some (ds, r)"
proof -
  have "takeWhile is_digit (ds @ r) = ds" "dropWhile is_digit (ds @ r) = r"
    using assms by (cases r; auto simp: list_all_iff takeWhile_append2 dropWhile_append2)+
  then show ?thesis using assms by (simp add: digits_prefix_def)
qed

lemma hd_nat_digits: "0 < n \<Longrightarrow> hd (nat_digits n) \<noteq> CHR ''0''"
proof (induction n rule: nat_digits.induct)
  case (1 n)
  show ?case
  proof (cases "n < 10")
    case True
    then have "of_char (hd (nat_digits n)) = 48 + n" by (simp add: nat_digits.simps [of n])
    moreover have "of_char CHR ''0'' = (48 :: nat)" by simp
    ultimately show ?thesis using 1(2) by (metis add_cancel_right_right less_irrefl)
  next
    case False
    then show ?thesis using 1 by (simp add: nat_digits.simps [of n] hd_append)
  qed
qed

lemma delimited_stop:
  assumes "delimited r"
  shows "r = [] \<or> \<not> is_digit (hd r)" "fraction_part r = Some ([], r)" "exponent_part r = Some (0, r)"
  using assms by (cases r; auto simp: delimited_def is_digit_def fraction_part_def exponent_part_def)+

lemma integer_part_digits:
  assumes "delimited r"
  shows "integer_part (nat_digits n @ r) = Some (nat_digits n, r)"
proof -
  have "digits_prefix (nat_digits n @ r) = Some (nat_digits n, r)"
    by (rule digits_prefix_digits) (use delimited_stop(1) [OF assms] nat_digits_digits in auto)
  then show ?thesis using hd_nat_digits [of n]
    by (cases "n = 0") (simp_all add: integer_part_def, simp add: nat_digits.simps [of 0])
qed

lemma number_of_safe:
  assumes "m < 2 ^ 53" "neg \<Longrightarrow> 0 < m"
  shows "number_of_decimal neg m 0 = NInt (if neg then - int m else int m)"
proof -
  have "(2 :: nat) ^ 53 < 2 ^ 1024" by (rule power_strict_increasing) simp_all
  then have "m < 2 ^ 1024" using assms(1) by linarith
  then show ?thesis using assms
    by (simp add: number_of_decimal_def number_of_ratio_def bitlen_le signed_number_def Let_def)
qed

lemma number_token_safe:
  assumes "\<bar>i\<bar> < 2 ^ 53" "delimited r"
  shows "number_token (int_digits i @ r) = Some (JNum (NInt i), r)"
proof -
  have less: "nat \<bar>i\<bar> < 2 ^ 53" using assms(1) by (simp add: nat_less_iff)
  have hd: "hd (nat_digits n) \<noteq> CHR ''-''" for n
    using nat_digits_digits [of n] by (cases "nat_digits n") (auto simp: is_digit_def)
  show ?thesis
  proof (cases "i < 0")
    case True
    then show ?thesis using assms less delimited_stop [OF assms(2)] number_of_safe [of "nat (- i)" True]
      by (simp add: number_token_def int_digits_def integer_part_digits nat_digits_value)
  next
    case False
    obtain c cs where c: "nat_digits (nat i) = c # cs" "c \<noteq> CHR ''-''"
      using hd [of "nat i"] by (cases "nat_digits (nat i)") auto
    then show ?thesis using False assms less delimited_stop [OF assms(2)] number_of_safe [of "nat i" False]
        integer_part_digits [OF assms(2), of "nat i"] nat_digits_value [of "nat i"]
      by (simp add: number_token_def int_digits_def)
  qed
qed

subsection \<open>Values\<close>

text \<open>Data that is printed whole: safe integers, and objects in the order of their properties.\<close>

fun json_ok :: "jsval \<Rightarrow> bool" where
  "json_ok JNull = True"
| "json_ok (JBool b) = True"
| "json_ok (JNum (NInt i)) = (\<bar>i\<bar> < 2 ^ 53)"
| "json_ok (JStr s) = True"
| "json_ok (JArr vs) = list_all json_ok vs"
| "json_ok (JObj ob) = (obj_ok ob \<and> list_all (\<lambda>(k, v). json_ok v) ob)"
| "json_ok _ = False"

definition printed :: "jsval \<Rightarrow> string" where
  "printed v = the (stringify v)"

definition member_text :: "string \<times> jsval \<Rightarrow> string" where
  "member_text kv = quote (fst kv) @ CHR '':'' # printed (snd kv)"

text \<open>Only a \<open>BigInt\<close> cannot be printed.\<close>

fun printable :: "jsval \<Rightarrow> bool" where
  "printable (JBig _) = False"
| "printable (JArr vs) = list_all printable vs"
| "printable (JObj ob) = list_all (\<lambda>(k, v). printable v) ob"
| "printable _ = True"

lemma stringify_printable: "printable v \<Longrightarrow> stringify v = Some (printed v)"
proof -
  have "printable v \<Longrightarrow> stringify v \<noteq> None"
    by (induction v rule: printable.induct) (auto simp: list_all_iff traverse_None split: if_splits)
  then show "printable v \<Longrightarrow> stringify v = Some (printed v)" by (auto simp: printed_def)
qed

lemma json_ok_printed: "json_ok v \<Longrightarrow> \<not> unprinted v"
  by (cases v) (simp_all add: unprinted_def)

lemma traverse_total: "(\<And>x. x \<in> set xs \<Longrightarrow> f x = Some (g x)) \<Longrightarrow> traverse f xs = Some (map g xs)"
  by (simp add: traverse_Some)

lemma stringify_printed: "json_ok v \<Longrightarrow> stringify v = Some (printed v)"
proof (induction v rule: json_ok.induct)
  case (5 vs)
  then have "traverse stringify vs = Some (map printed vs)"
    by (intro traverse_total) (simp add: list_all_iff)
  then show ?case by (simp add: printed_def)
next
  case (6 ob)
  then have "traverse (\<lambda>(k, v). if unprinted v then Some [] else map_option (\<lambda>t. [quote k @ CHR '':'' # t]) (stringify v)) ob
      = Some (map (\<lambda>kv. [member_text kv]) ob)"
    by (intro traverse_total) (auto simp: list_all_iff json_ok_printed member_text_def)
  then show ?case by (simp add: printed_def)
qed (simp_all add: printed_def)

lemma concat_singletons: "concat (map (\<lambda>x. [f x]) xs) = map f xs"
  by (induction xs) simp_all

lemma printed_simps:
  "printed JNull = ''null''" "printed (JBool b) = (if b then ''true'' else ''false'')"
  "\<bar>i\<bar> < 2 ^ 53 \<Longrightarrow> printed (JNum (NInt i)) = int_digits i" "printed (JStr s) = quote s"
  "json_ok (JArr vs) \<Longrightarrow> printed (JArr vs) = CHR ''['' # commas (map printed vs) @ '']''"
  "json_ok (JObj ob) \<Longrightarrow> printed (JObj ob) = CHR ''{'' # commas (map member_text ob) @ ''}''"
proof -
  show "printed (JArr vs) = CHR ''['' # commas (map printed vs) @ '']''" if "json_ok (JArr vs)"
  proof -
    have "traverse stringify vs = Some (map printed vs)"
      using that by (intro traverse_total) (simp add: list_all_iff stringify_printed)
    then show ?thesis by (simp add: printed_def)
  qed
  show "printed (JObj ob) = CHR ''{'' # commas (map member_text ob) @ ''}''" if "json_ok (JObj ob)"
  proof -
    have "traverse (\<lambda>(k, v). if unprinted v then Some [] else map_option (\<lambda>t. [quote k @ CHR '':'' # t]) (stringify v)) ob
        = Some (map (\<lambda>kv. [member_text kv]) ob)"
      using that by (intro traverse_total) (auto simp: list_all_iff json_ok_printed member_text_def stringify_printed)
    then show ?thesis by (simp add: printed_def concat_singletons)
  qed
qed (simp_all add: printed_def number_text_def)

text \<open>A printed value starts with a character that is not white space and does not close or separate.\<close>

definition opens_value :: "char \<Rightarrow> bool" where
  "opens_value c \<longleftrightarrow> \<not> is_ws c \<and> c \<noteq> CHR '']'' \<and> c \<noteq> CHR ''}''"

lemma digit_opens: "is_digit c \<Longrightarrow> opens_value c"
  by (auto simp: opens_value_def is_digit_def is_ws_def)

lemma printed_opening: "json_ok v \<Longrightarrow> \<exists>c cs. printed v = c # cs \<and> opens_value c"
proof (cases v)
  case (JNum n)
  assume "json_ok v"
  then obtain i where i: "n = NInt i" "\<bar>i\<bar> < 2 ^ 53" using JNum by (cases n) simp_all
  obtain c cs where "nat_digits (nat i) = c # cs" "is_digit c"
    using nat_digits_digits [of "nat i"] by (cases "nat_digits (nat i)") auto
  then show ?thesis using i JNum digit_opens
    by (auto simp: printed_simps int_digits_def) (simp add: opens_value_def is_ws_def)
qed (auto simp: printed_simps quote_def opens_value_def is_ws_def)

lemma skip_opening: "opens_value c \<Longrightarrow> skip_ws (c # cs) = c # cs"
  by (simp add: skip_ws_def opens_value_def)

lemma skip_delimited: "delimited r \<Longrightarrow> skip_ws r = r"
  by (cases r) (auto simp: skip_ws_def delimited_def is_ws_def)

lemma value_at_number:
  assumes "\<bar>i\<bar> < 2 ^ 53" "delimited r"
  shows "value_at (Suc n) (int_digits i @ r) = Some (JNum (NInt i), r)"
proof -
  obtain c cs where c: "int_digits i = c # cs" "c = CHR ''-'' \<or> is_digit c"
    using nat_digits_digits [of "nat i"] by (cases "i < 0"; cases "nat_digits (nat i)") (auto simp: int_digits_def)
  then have "opens_value c" using digit_opens by (auto simp: opens_value_def is_ws_def)
  moreover have "c \<notin> {CHR 34, CHR ''['', CHR ''{'', CHR ''t'', CHR ''f'', CHR ''n''}"
    using c(2) by (auto simp: is_digit_def)
  ultimately show ?thesis using number_token_safe [OF assms] c(1) by (simp add: skip_opening)
qed

lemma commas_Cons: "ts \<noteq> [] \<Longrightarrow> commas (t # ts) = t @ CHR '','' # commas ts"
  by (cases ts) simp_all

lemma commas_length: "length t \<le> length (commas (t # ts))"
  by (cases ts) simp_all

lemma elements_printed:
  assumes "vs \<noteq> []" "2 * length (commas (map printed vs)) + 2 \<le> n"
    "\<And>v n r. v \<in> set vs \<Longrightarrow> 2 * length (printed v) \<le> n \<Longrightarrow> delimited r \<Longrightarrow> value_at n (printed v @ r) = Some (v, r)"
  shows "elements_at n (commas (map printed vs) @ CHR '']'' # r) = Some (vs, r)"
  using assms
proof (induction vs arbitrary: n)
  case (Cons v vs)
  obtain n' where n: "n = Suc n'" using Cons(3) by (cases n) simp_all
  show ?case
  proof (cases "vs = []")
    case True
    then have "value_at n' (printed v @ CHR '']'' # r) = Some (v, CHR '']'' # r)"
      using Cons(3) n by (intro Cons(4)) (simp_all add: delimited_def)
    then show ?thesis using True n by (simp add: skip_delimited delimited_def)
  next
    case False
    then have c: "commas (map printed (v # vs)) = printed v @ CHR '','' # commas (map printed vs)"
      by (simp add: commas_Cons)
    have "value_at n' (printed v @ CHR '','' # commas (map printed vs) @ CHR '']'' # r)
        = Some (v, CHR '','' # commas (map printed vs) @ CHR '']'' # r)"
      using Cons(3) n c by (intro Cons(4)) (simp_all add: delimited_def)
    moreover have "elements_at n' (commas (map printed vs) @ CHR '']'' # r) = Some (vs, r)"
      using Cons(3,4) n c False by (intro Cons(1)) simp_all
    ultimately show ?thesis using n c by (simp add: skip_delimited delimited_def)
  qed
qed simp

lemma members_printed:
  assumes "kvs \<noteq> []" "2 * length (commas (map member_text kvs)) + 2 \<le> n" "obj_ok (ob @ kvs)"
    "\<And>k v n r. (k, v) \<in> set kvs \<Longrightarrow> 2 * length (printed v) \<le> n \<Longrightarrow> delimited r \<Longrightarrow> value_at n (printed v @ r) = Some (v, r)"
  shows "members_at n ob (commas (map member_text kvs) @ CHR ''}'' # r) = Some (ob @ kvs, r)"
  using assms
proof (induction kvs arbitrary: n ob)
  case (Cons kv kvs)
  obtain k v where kv: "kv = (k, v)" by (cases kv)
  obtain n' where n: "n = Suc n'" using Cons(3) by (cases n) simp_all
  have set: "obj_set ob k v = ob @ [(k, v)]"
    using Cons(4) kv obj_ok_append1 [of "ob @ [(k, v)]" kvs] by (intro obj_set_append) simp
  have entry: "members_at (Suc n') ob (member_text (k, v) @ c # cs) =
      (if c = CHR ''}'' then Some (ob @ [(k, v)], cs) else members_at n' (ob @ [(k, v)]) cs)"
    if "2 * length (printed v) \<le> n'" "c = CHR ''}'' \<or> c = CHR '',''" for c cs
  proof -
    have "value_at n' (printed v @ c # cs) = Some (v, c # cs)"
      using that kv by (intro Cons(5)) (auto simp: delimited_def)
    moreover have "skip_ws (c # cs) = c # cs" using that(2) by (intro skip_delimited) (auto simp: delimited_def)
    moreover have "skip_ws (CHR '':'' # s) = CHR '':'' # s" "skip_ws (CHR 34 # s) = CHR 34 # s" for s
      by (simp_all add: skip_ws_def is_ws_def)
    ultimately show ?thesis
      using string_body_quoted [of k "CHR '':'' # printed v @ c # cs"] set that(2)
      by (auto simp: member_text_def quote_def)
  qed
  show ?case
  proof (cases "kvs = []")
    case True
    moreover have "2 * length (printed v) \<le> n'" using Cons(3) n kv True by (simp add: member_text_def)
    ultimately show ?thesis using entry [of "CHR ''}''" r] n kv by (simp del: members_at.simps)
  next
    case False
    then have c: "commas (map member_text (kv # kvs)) = member_text kv @ CHR '','' # commas (map member_text kvs)"
      by (simp add: commas_Cons)
    have "members_at n' (ob @ [(k, v)]) (commas (map member_text kvs) @ CHR ''}'' # r) = Some ((ob @ [(k, v)]) @ kvs, r)"
      using Cons(3-5) n c kv False by (intro Cons(1)) auto
    moreover have "length (printed v) \<le> length (member_text kv)" using kv by (simp add: member_text_def)
    then have "2 * length (printed v) \<le> n'" using Cons(3) unfolding n c by simp
    ultimately show ?thesis using entry [of "CHR '',''"] n c kv by (simp del: members_at.simps)
  qed
qed simp

lemma value_at_printed:
  "json_ok v \<Longrightarrow> 2 * length (printed v) \<le> n \<Longrightarrow> delimited r \<Longrightarrow> value_at n (printed v @ r) = Some (v, r)"
proof (induction v arbitrary: n r rule: json_ok.induct)
  case 1
  then show ?case by (cases n) (simp_all add: printed_simps skip_ws_def is_ws_def keyword_def)
next
  case (2 b)
  then show ?case by (cases n; cases b) (simp_all add: printed_simps skip_ws_def is_ws_def keyword_def)
next
  case (3 i)
  have "0 < length (int_digits i)" by (simp add: int_digits_def)
  moreover have "2 * length (int_digits i) \<le> n" using 3 by (simp add: printed_simps)
  ultimately have "0 < n" by linarith
  moreover have "value_at (Suc (n - 1)) (int_digits i @ r) = Some (JNum (NInt i), r)"
    using 3 by (intro value_at_number) simp_all
  ultimately show ?case using 3 by (simp add: printed_simps del: value_at.simps)
next
  case (5 vs)
  obtain n' where n: "n = Suc n'" using 5(3) printed_simps(5) [OF 5(2)] by (cases n) simp_all
  show ?case
  proof (cases "vs = []")
    case True
    then show ?thesis using n by (simp add: printed_def skip_ws_def is_ws_def)
  next
    case False
    then obtain w ws where ws: "vs = w # ws" by (cases vs) simp_all
    moreover have "json_ok w" using 5(2) ws by simp
    ultimately obtain c cs where w: "vs = w # ws" "printed w = c # cs" "opens_value c"
      using printed_opening [of w] by blast
    then have "skip_ws (commas (map printed vs) @ s) = commas (map printed vs) @ s \<and> hd (commas (map printed vs) @ s) = c" for s
      by (cases ws) (simp_all add: skip_opening)
    moreover have "elements_at n' (commas (map printed vs) @ CHR '']'' # r) = Some (vs, r)"
      using 5 False n printed_simps(5) [OF 5(2)] by (intro elements_printed) (auto simp: list_all_iff)
    ultimately show ?thesis using n w printed_simps(5) [OF 5(2)]
      by (cases ws) (auto simp: opens_value_def skip_ws_def is_ws_def)
  qed
next
  case (6 ob)
  obtain n' where n: "n = Suc n'" using 6(3) printed_simps(6) [OF 6(2)] by (cases n) simp_all
  show ?case
  proof (cases "ob = []")
    case True
    then show ?thesis using n by (simp add: printed_def skip_ws_def is_ws_def)
  next
    case False
    then obtain s where s: "commas (map member_text ob) = CHR 34 # s"
      by (cases ob; cases "tl ob") (simp_all add: member_text_def quote_def)
    have "members_at n' [] (commas (map member_text ob) @ CHR ''}'' # r) = Some ([] @ ob, r)"
      using 6 False n printed_simps(6) [OF 6(2)] by (intro members_printed) (auto simp: list_all_iff)
    then show ?thesis using n s printed_simps(6) [OF 6(2)]
      by (simp add: skip_ws_def is_ws_def)
  qed
qed (auto simp: printed_simps quote_def skip_ws_def is_ws_def string_body_quoted dest!: Suc_le_D)

text \<open>Printed text is one line.\<close>

lemma low_hex_line: "n < 16 \<Longrightarrow> low_hex n \<noteq> CHR ''\<newline>''"
proof -
  have "\<forall>n \<in> set [0..<16]. low_hex n \<noteq> CHR ''\<newline>''" by code_simp
  then show "n < 16 \<Longrightarrow> low_hex n \<noteq> CHR ''\<newline>''" by simp
qed

lemma quoted_char_line: "CHR ''\<newline>'' \<notin> set (quoted_char c)"
proof (cases "plain_char c")
  case True
  moreover have "\<not> plain_char CHR ''\<newline>''" by (simp add: plain_char_def)
  ultimately show ?thesis by (auto simp: quoted_char_def)
next
  case False
  then have "(of_char c :: nat) < 32 \<or> of_char c = (34 :: nat) \<or> of_char c = (92 :: nat)"
    by (auto simp: plain_char_def)
  moreover from this have "of_char c div 16 < (16 :: nat)" by auto
  ultimately show ?thesis using False low_hex_line [of "of_char c div 16"] low_hex_line [of "of_char c mod 16"]
    by (auto simp: quoted_char_def escape_char_def Let_def)
qed

lemma quote_line: "CHR ''\<newline>'' \<notin> set (quote s)"
  using quoted_char_line by (auto simp: quote_def)

lemma commas_set: "set (commas ts) \<subseteq> insert (CHR '','') (\<Union>t \<in> set ts. set t)"
  by (induction ts rule: commas.induct) auto

lemma commas_line: "(\<And>t. t \<in> set ts \<Longrightarrow> CHR ''\<newline>'' \<notin> set t) \<Longrightarrow> CHR ''\<newline>'' \<notin> set (commas ts)"
  using commas_set [of ts] by auto

lemma nat_digits_line: "CHR ''\<newline>'' \<notin> set (nat_digits n)"
  using nat_digits_digits [of n] by (auto simp: list_all_iff is_digit_def)

lemma fixed_text_line: "CHR ''\<newline>'' \<notin> set ds \<Longrightarrow> CHR ''\<newline>'' \<notin> set (fixed_text ds x)"
  using nat_digits_line by (auto simp: fixed_text_def Let_def dest: in_set_takeD in_set_dropD)

lemma number_text_line: "CHR ''\<newline>'' \<notin> set (number_text n)"
  using nat_digits_line fixed_text_line [OF nat_digits_line]
  by (auto simp: number_text_def float_text_def int_digits_def split: jsnum.splits prod.splits option.splits if_splits)

lemma traverse_line:
  assumes "traverse f xs = Some ts" "\<And>x t. x \<in> set xs \<Longrightarrow> f x = Some t \<Longrightarrow> P t" "t \<in> set ts"
  shows "P t"
proof -
  obtain i where "i < length ts" "t = ts ! i" using assms(3) by (auto simp: in_set_conv_nth)
  then show ?thesis using assms(1,2) traverse_nth [OF assms(1), of i] traverse_length [OF assms(1)]
    by (metis nth_mem)
qed

lemma stringify_line: "stringify v = Some t \<Longrightarrow> CHR ''\<newline>'' \<notin> set t"
proof (induction v arbitrary: t rule: stringify.induct)
  case (9 bs)
  have "CHR ''\<newline>'' \<notin> set (commas (map (\<lambda>(i, b). quote (nat_digits i) @ CHR '':'' # nat_digits (unat b)) (enumerate 0 bs)))"
    using quote_line nat_digits_line by (intro commas_line) auto
  then show ?case using 9 by auto
next
  case (10 vs)
  then obtain ts where ts: "traverse stringify vs = Some ts" "t = CHR ''['' # commas ts @ '']''" by auto
  have "CHR ''\<newline>'' \<notin> set (commas ts)"
    by (rule commas_line) (rule traverse_line [OF ts(1)], use 10(1) in auto)
  then show ?case using ts(2) by simp
next
  case (11 ob)
  let ?f = "\<lambda>(k, v). if unprinted v then Some [] else map_option (\<lambda>t. [quote k @ CHR '':'' # t]) (stringify v)"
  obtain ts where ts: "traverse ?f ob = Some ts" "t = CHR ''{'' # commas (concat ts) @ ''}''" using 11(2) by auto
  have "\<forall>u \<in> set us. CHR ''\<newline>'' \<notin> set u" if "us \<in> set ts" for us
    by (rule traverse_line [OF ts(1) _ that]) (use 11(1) quote_line in \<open>auto split: if_splits\<close>)
  then have "CHR ''\<newline>'' \<notin> set (commas (concat ts))" by (intro commas_line) auto
  then show ?case using ts(2) by simp
qed (use quote_line number_text_line in \<open>auto split: if_splits\<close>)

lemma parse_printed: "json_ok v \<Longrightarrow> json_parse (printed v) = Some v"
  using value_at_printed [of v "2 * length (printed v) + 2" "[]"]
  by (simp add: json_parse_def delimited_def skip_ws_def del: value_at.simps)

text \<open>
  Data of safe integers, text, arrays and objects is printed on one line, whatever the
  text holds, and the line is read back as the same data.
\<close>

theorem json_roundtrip:
  "json_ok v \<Longrightarrow> \<exists>t. stringify v = Some t \<and> json_parse t = Some v \<and> CHR ''\<newline>'' \<notin> set t"
  using stringify_printed parse_printed stringify_line by blast

theorem json_roundtrip_witness:
  "json_ok (JObj [(''secret'', JStr [CHR ''a'', CHR ''\<newline>'', CHR 34]), (''port'', JNum (NInt (- 12)))]) \<and>
     (\<exists>t. json_parse t = Some (JObj [(''secret'', JStr [CHR ''a'', CHR ''\<newline>'', CHR 34]), (''port'', JNum (NInt (- 12)))]))"
proof -
  have ok: "json_ok (JObj [(''secret'', JStr [CHR ''a'', CHR ''\<newline>'', CHR 34]), (''port'', JNum (NInt (- 12)))])"
    by (auto simp: is_digit_def intro!: obj_ok_plain_keys key_index_letter)
  then show ?thesis using json_roundtrip [OF ok] by blast
qed

end
