(* ===== verification/Sidecar.thy ===== *)
theory Sidecar
  imports Json
begin

text \<open>
  The loopback seams to the crypto sidecar: \<open>apps/bff/src/engine/sign-client.ts\<close>,
  \<open>session-client.ts\<close> and \<open>secret-client.ts\<close>.  Each connects, writes one JSON line, reads
  one line and settles once; they differ in the request and in how they narrow the answer.
  A run is the sequence of socket and timer events; after the last of them the timer fires,
  as it does unless the exchange has settled.
\<close>

section \<open>Decoding a chunk\<close>

text \<open>
  \<open>Buffer.toString('utf8')\<close>: every maximal part of an ill-formed sequence becomes the
  replacement character.
\<close>

definition replacement :: "nat list" where
  "replacement = [239, 191, 189]"

fun lossy_utf8 :: "nat list \<Rightarrow> nat list" where
  "lossy_utf8 [] = []"
| "lossy_utf8 (a # as) =
     (if a < 128 then a # lossy_utf8 as
      else if 194 \<le> a \<and> a \<le> 223 then
        (case as of
           b # bs \<Rightarrow> if cont_byte b then a # b # lossy_utf8 bs else replacement @ lossy_utf8 as
         | [] \<Rightarrow> replacement)
      else if 224 \<le> a \<and> a \<le> 239 then
        (case as of
           b # bs \<Rightarrow> if utf8_second a b then
               (case bs of
                  c # cs \<Rightarrow> if cont_byte c then a # b # c # lossy_utf8 cs else replacement @ lossy_utf8 bs
                | [] \<Rightarrow> replacement)
             else replacement @ lossy_utf8 as
         | [] \<Rightarrow> replacement)
      else if 240 \<le> a \<and> a \<le> 244 then
        (case as of
           b # bs \<Rightarrow> if utf8_second a b then
               (case bs of
                  c # cs \<Rightarrow> if cont_byte c then
                      (case cs of
                         d # ds \<Rightarrow> if cont_byte d then a # b # c # d # lossy_utf8 ds else replacement @ lossy_utf8 cs
                       | [] \<Rightarrow> replacement)
                    else replacement @ lossy_utf8 bs
                | [] \<Rightarrow> replacement)
             else replacement @ lossy_utf8 as
         | [] \<Rightarrow> replacement)
      else replacement @ lossy_utf8 as)"

definition buffer_toString :: "bytes \<Rightarrow> string" where
  "buffer_toString bs = map char_of (lossy_utf8 (map unat bs))"

section \<open>The exchange\<close>

datatype seam_error = SeamRefused string | SeamUnavailable string | SeamTypeError

datatype seam_event = SeamConnect | SeamData bytes | SeamFailed string | SeamClosed | SeamTimeout

record 'a seam =
  sm_buffer :: string
  sm_result :: "(seam_error + 'a) option"
  sm_written :: "string list"

definition seam_start :: "'a seam" where
  "seam_start = \<lparr>sm_buffer = [], sm_result = None, sm_written = []\<rparr>"

definition seam_settle :: "(seam_error + 'a) \<Rightarrow> 'a seam \<Rightarrow> 'a seam" where
  "seam_settle out st = (if sm_result st = None then st\<lparr>sm_result := Some out\<rparr> else st)"

definition seam_data :: "(string \<Rightarrow> seam_error + 'a) \<Rightarrow> bytes \<Rightarrow> 'a seam \<Rightarrow> 'a seam" where
  "seam_data respond chunk st =
     (let buffer = sm_buffer st @ buffer_toString chunk;
          st' = st\<lparr>sm_buffer := buffer\<rparr>
      in if CHR ''\<newline>'' \<in> set buffer
         then seam_settle (respond (takeWhile (\<lambda>c. c \<noteq> CHR ''\<newline>'') buffer)) st' else st')"

fun seam_handle :: "string \<Rightarrow> nat \<Rightarrow> (string \<Rightarrow> seam_error + 'a) \<Rightarrow> seam_event \<Rightarrow> 'a seam \<Rightarrow> 'a seam" where
  "seam_handle line timeoutMs respond SeamConnect st =
     (if sm_result st = None then st\<lparr>sm_written := sm_written st @ [line @ ''\<newline>'']\<rparr> else st)"
| "seam_handle line timeoutMs respond (SeamData chunk) st = seam_data respond chunk st"
| "seam_handle line timeoutMs respond (SeamFailed message) st = seam_settle (Inl (SeamUnavailable message)) st"
| "seam_handle line timeoutMs respond SeamClosed st =
     seam_settle (Inl (SeamUnavailable ''connection closed before a response'')) st"
| "seam_handle line timeoutMs respond SeamTimeout st =
     seam_settle (Inl (SeamUnavailable (''timeout after '' @ nat_digits timeoutMs @ ''ms''))) st"

definition seam_run ::
    "string \<Rightarrow> nat \<Rightarrow> (string \<Rightarrow> seam_error + 'a) \<Rightarrow> seam_event list \<Rightarrow> 'a seam" where
  "seam_run line timeoutMs respond events =
     fold (seam_handle line timeoutMs respond) (events @ [SeamTimeout]) seam_start"

text \<open>The text that arrives in a run.\<close>

fun received :: "seam_event list \<Rightarrow> string" where
  "received (SeamData chunk # events) = buffer_toString chunk @ received events"
| "received (_ # events) = received events"
| "received [] = []"

section \<open>The three clients\<close>

definition has_prop :: "string \<Rightarrow> jsval \<Rightarrow> bool" where
  "has_prop k v = (case v of JObj ob \<Rightarrow> k \<in> set (map fst ob) | _ \<Rightarrow> False)"

record SignedBundleResult =
  sb_bundle :: jsval
  sb_cbor :: "jsnum list"

definition as_numbers :: "jsval \<Rightarrow> jsnum list option" where
  "as_numbers v = (case v of
       JArr vs \<Rightarrow> traverse (\<lambda>b. case b of JNum n \<Rightarrow> Some n | _ \<Rightarrow> None) vs
     | _ \<Rightarrow> None)"

text \<open>Reading a field of null or undefined throws a \<open>TypeError\<close>, which rejects the promise.\<close>

definition signed_answer :: "jsval \<Rightarrow> seam_error + SignedBundleResult" where
  "signed_answer reply =
     (if nullish reply then Inl SeamTypeError
      else if \<not> is_object (get_prop reply ''bundle'') then
        Inl (SeamUnavailable ''signed response missing bundle or canonical cbor bytes'')
      else (case as_numbers (get_prop reply ''cbor'') of
          None \<Rightarrow> Inl (SeamUnavailable ''signed response missing bundle or canonical cbor bytes'')
        | Some cbor \<Rightarrow> Inr \<lparr>sb_bundle = get_prop reply ''bundle'', sb_cbor = cbor\<rparr>))"

definition refused_answer :: "jsval \<Rightarrow> seam_error" where
  "refused_answer refused =
     (if nullish refused then SeamTypeError
      else SeamRefused (case as_string (get_prop refused ''reason'') of Some r \<Rightarrow> r | None \<Rightarrow> ''unknown''))"

definition parseSigned :: "string \<Rightarrow> seam_error + SignedBundleResult" where
  "parseSigned line = (case json_parse line of
       None \<Rightarrow> Inl (SeamUnavailable ''unparseable response line'')
     | Some parsed \<Rightarrow>
         if is_object parsed \<and> has_prop ''signed'' parsed then signed_answer (get_prop parsed ''signed'')
         else if is_object parsed \<and> has_prop ''refused'' parsed then Inl (refused_answer (get_prop parsed ''refused''))
         else Inl (SeamUnavailable ''response is neither signed nor refused''))"

definition parseGroup :: "string \<Rightarrow> seam_error + string option" where
  "parseGroup line = (case json_parse line of
       None \<Rightarrow> Inl (SeamUnavailable ''unparseable response line'')
     | Some parsed \<Rightarrow>
         (case (if is_object parsed \<and> has_prop ''group'' parsed then get_prop parsed ''group'' else JUndef) of
            JNull \<Rightarrow> Inr None
          | JStr g \<Rightarrow> Inr (Some g)
          | _ \<Rightarrow> if is_object parsed \<and> has_prop ''error'' parsed
                then Inl (SeamUnavailable ''the sidecar refused the lookup'')
                else Inl (SeamUnavailable ''response carries no group'')))"

definition parseSecretSet :: "string \<Rightarrow> seam_error + unit" where
  "parseSecretSet line = (case json_parse line of
       None \<Rightarrow> Inl (SeamUnavailable ''unparseable response line'')
     | Some parsed \<Rightarrow>
         if parsed = JStr ''ok'' then Inr ()
         else if is_object parsed \<and> has_prop ''refused'' parsed then Inl (refused_answer (get_prop parsed ''refused''))
         else Inl (SeamUnavailable ''response is neither ok nor refused''))"

definition signBundle :: "jsval \<Rightarrow> nat \<Rightarrow> seam_event list \<Rightarrow> SignedBundleResult seam" where
  "signBundle draft timeoutMs = seam_run (printed draft) timeoutMs parseSigned"

definition session_request :: "nat \<Rightarrow> jsval" where
  "session_request remotePort = JObj [(''port'', JNum (NInt (int remotePort)))]"

definition lookupSessionGroup :: "nat \<Rightarrow> nat \<Rightarrow> seam_event list \<Rightarrow> string option seam" where
  "lookupSessionGroup remotePort timeoutMs = seam_run (printed (session_request remotePort)) timeoutMs parseGroup"

definition secret_request :: "string \<Rightarrow> string \<Rightarrow> jsval" where
  "secret_request provider secret = JObj [(''provider'', JStr provider), (''secret'', JStr secret)]"

definition setConnectorSecret :: "string \<Rightarrow> string \<Rightarrow> nat \<Rightarrow> seam_event list \<Rightarrow> unit seam" where
  "setConnectorSecret provider secret timeoutMs =
     seam_run (printed (secret_request provider secret)) timeoutMs parseSecretSet"

section \<open>Settling\<close>

lemma lossy_utf8_ok: "utf8_seq ns \<Longrightarrow> lossy_utf8 ns = ns"
proof (induction ns rule: length_induct)
  case (1 ns)
  then have rest: "length ms < length ns \<Longrightarrow> utf8_seq ms \<Longrightarrow> lossy_utf8 ms = ms" for ms by blast
  show ?case
  proof (cases ns)
    case (Cons a as)
    have seq: "utf8_seq (a # as)" using 1(2) Cons by simp
    have "a < 128 \<or> 194 \<le> a \<and> a \<le> 223 \<or> 224 \<le> a \<and> a \<le> 239 \<or> 240 \<le> a \<and> a \<le> 244"
      by (rule ccontr) (use seq in \<open>simp split: if_splits\<close>)
    then consider (one) "a < 128" | (two) "194 \<le> a" "a \<le> 223" | (three) "224 \<le> a" "a \<le> 239" | (four) "240 \<le> a" "a \<le> 244"
      by blast
    then show ?thesis
    proof cases
      case one
      then show ?thesis using seq rest [of as] Cons by simp
    next
      case two
      then obtain b bs where "as = b # bs" using seq by (cases as) simp_all
      then show ?thesis using two seq rest [of bs] Cons by simp
    next
      case three
      then obtain b c cs where "as = b # c # cs" using seq by (cases as; cases "tl as") simp_all
      then show ?thesis using three seq rest [of cs] Cons by simp
    next
      case four
      then obtain b c d ds where "as = b # c # d # ds" using seq by (cases as; cases "tl as"; cases "tl (tl as)") simp_all
      then show ?thesis using four seq rest [of ds] Cons by simp
    qed
  qed simp
qed

lemma buffer_toString_ok: "utf8_ok bs \<Longrightarrow> buffer_toString bs = map char_of_byte bs"
  by (simp add: buffer_toString_def utf8_ok_def lossy_utf8_ok char_of_byte_def comp_def)

lemma takeWhile_line: "CHR ''\<newline>'' \<notin> set t \<Longrightarrow> takeWhile (\<lambda>c. c \<noteq> CHR ''\<newline>'') (t @ CHR ''\<newline>'' # r) = t"
  by (subst takeWhile_append2) auto

text \<open>
  What every client promises, whatever the answer is narrowed to: it settles, with the first
  outcome, and the outcome is an answer only when a whole line was read.
\<close>

locale line_exchange =
  fixes line :: string and timeoutMs :: nat and respond :: "string \<Rightarrow> seam_error + 'a"
  assumes one_line: "CHR ''\<newline>'' \<notin> set line"
begin

abbreviation after :: "seam_event list \<Rightarrow> 'a seam \<Rightarrow> 'a seam" where
  "after \<equiv> fold (seam_handle line timeoutMs respond)"

lemma settled_stays: "sm_result st = Some out \<Longrightarrow> sm_result (after events st) = Some out"
proof (induction events arbitrary: st)
  case (Cons e events)
  have "sm_result (seam_handle line timeoutMs respond e st) = Some out"
    using Cons(2) by (cases e) (simp_all add: seam_settle_def seam_data_def Let_def)
  then show ?case using Cons(1) by simp
qed simp

lemma settles: "\<exists>out. sm_result (seam_run line timeoutMs respond events) = Some out"
  by (cases "sm_result (after events seam_start)") (auto simp: seam_run_def seam_settle_def)

lemma answer_read:
  assumes "sm_result (after events st) = Some (Inr x)" "sm_result st = None"
  shows "\<exists>text rest. respond text = Inr x \<and> sm_buffer st @ received events = text @ CHR ''\<newline>'' # rest \<and>
    CHR ''\<newline>'' \<notin> set text"
  using assms
proof (induction events arbitrary: st)
  case (Cons e events)
  let ?st = "seam_handle line timeoutMs respond e st"
  show ?case
  proof (cases "sm_result ?st")
    case None
    then have "sm_buffer ?st @ received events = sm_buffer st @ received (e # events)"
      using Cons(3) by (cases e) (auto simp: seam_settle_def seam_data_def Let_def)
    then show ?thesis using Cons(1) [of ?st] Cons(2) None by simp
  next
    case (Some out)
    then have out: "out = Inr x" using settled_stays [OF Some, of events] Cons(2) by simp
    then obtain c where e: "e = SeamData c" using Some Cons(3) by (cases e) (auto simp: seam_settle_def)
    let ?b = "sm_buffer st @ buffer_toString c"
    have n: "CHR ''\<newline>'' \<in> set ?b" "respond (takeWhile (\<lambda>c. c \<noteq> CHR ''\<newline>'') ?b) = Inr x"
      using Some out e Cons(3) by (auto simp: seam_data_def seam_settle_def Let_def split: if_splits)
    obtain t r where t: "?b = t @ CHR ''\<newline>'' # r" "CHR ''\<newline>'' \<notin> set t" using split_list_first [OF n(1)] by blast
    then have "takeWhile (\<lambda>c. c \<noteq> CHR ''\<newline>'') ?b = t"
      unfolding t(1) by (simp add: takeWhile_line)
    moreover have "sm_buffer st @ received (e # events) = t @ CHR ''\<newline>'' # r @ received events"
      using t(1) e by simp
    ultimately show ?thesis using n(2) t(2) by metis
  qed
qed simp

lemma run_answer:
  assumes "sm_result (seam_run line timeoutMs respond events) = Some (Inr x)"
  shows "\<exists>text rest. respond text = Inr x \<and> received events = text @ CHR ''\<newline>'' # rest \<and> CHR ''\<newline>'' \<notin> set text"
proof -
  have "received (events @ [SeamTimeout]) = received events" by (induction events rule: received.induct) simp_all
  then show ?thesis using answer_read [of "events @ [SeamTimeout]" seam_start] assms
    by (simp add: seam_run_def seam_start_def)
qed

lemma written_line: "w \<in> set (sm_written (after events st)) \<Longrightarrow> w \<in> set (sm_written st) \<or> w = line @ ''\<newline>''"
proof (induction events arbitrary: st)
  case (Cons e events)
  moreover have "set (sm_written (seam_handle line timeoutMs respond e st)) \<subseteq> insert (line @ ''\<newline>'') (set (sm_written st))"
    by (cases e) (auto simp: seam_settle_def seam_data_def Let_def)
  ultimately show ?case by fastforce
qed simp

end

lemma printed_one_line: "stringify v \<noteq> None \<Longrightarrow> CHR ''\<newline>'' \<notin> set (printed v)"
  using stringify_line by (auto simp: printed_def)

interpretation session_lookup: line_exchange "printed (session_request remotePort)" timeoutMs parseGroup
  for remotePort timeoutMs
  by unfold_locales (rule printed_one_line, simp add: session_request_def unprinted_def)

interpretation secret_set: line_exchange "printed (secret_request provider secret)" timeoutMs parseSecretSet
  for provider secret timeoutMs
  by unfold_locales (rule printed_one_line, simp add: secret_request_def unprinted_def)

lemma parseSecretSet_Inr: "parseSecretSet text = Inr () \<longleftrightarrow> json_parse text = Some (JStr ''ok'')"
  by (simp add: parseSecretSet_def split: option.split)

text \<open>
  A connector secret, whatever characters it has, reaches the sidecar as one line that is
  read back as the provider and the secret given, and the call resolves only when the sidecar's
  whole first line is the JSON string that means it was written; it always settles.
\<close>

theorem secret_set_confirmed:
  "(\<exists>out. sm_result (setConnectorSecret provider secret timeoutMs events) = Some out \<and>
      (out = Inr () \<longrightarrow> (\<exists>text rest. received events = text @ CHR ''\<newline>'' # rest \<and>
         CHR ''\<newline>'' \<notin> set text \<and> json_parse text = Some (JStr ''ok'')))) \<and>
   (\<forall>w \<in> set (sm_written (setConnectorSecret provider secret timeoutMs events)).
      \<exists>line. w = line @ ''\<newline>'' \<and> CHR ''\<newline>'' \<notin> set line \<and>
        json_parse line = Some (JObj [(''provider'', JStr provider), (''secret'', JStr secret)]))"
proof -
  let ?run = "setConnectorSecret provider secret timeoutMs events"
  have ok: "json_ok (secret_request provider secret)"
    by (auto simp: secret_request_def is_digit_def intro!: obj_ok_plain_keys key_index_letter)
  obtain out where out: "sm_result ?run = Some out"
    using secret_set.settles unfolding setConnectorSecret_def by blast
  have "w = printed (secret_request provider secret) @ ''\<newline>''" if "w \<in> set (sm_written ?run)" for w
    using secret_set.written_line that unfolding setConnectorSecret_def seam_run_def by (fastforce simp: seam_start_def)
  moreover have "json_parse (printed (secret_request provider secret)) =
      Some (JObj [(''provider'', JStr provider), (''secret'', JStr secret)])"
    using parse_printed [OF ok] by (simp add: secret_request_def)
  moreover have "\<exists>text rest. received events = text @ CHR ''\<newline>'' # rest \<and>
      CHR ''\<newline>'' \<notin> set text \<and> json_parse text = Some (JStr ''ok'')" if "out = Inr ()"
    using secret_set.run_answer out that parseSecretSet_Inr unfolding setConnectorSecret_def by metis
  ultimately show ?thesis using out secret_set.one_line by blast
qed

definition sample_secret_events :: "seam_event list" where
  "sample_secret_events = [SeamConnect, SeamData [34, 111, 107], SeamData [34, 10]]"

theorem secret_set_confirmed_witness:
  "sm_result (setConnectorSecret ''auth0'' ''s3'' 500 sample_secret_events) = Some (Inr ()) \<and>
     (\<exists>text rest. received sample_secret_events = text @ CHR ''\<newline>'' # rest \<and> json_parse text = Some (JStr ''ok'')) \<and>
     (\<exists>line. json_parse line = Some (JObj [(''provider'', JStr ''auth0''), (''secret'', JStr ''s3'')]))"
proof -
  have result: "sm_result (setConnectorSecret ''auth0'' ''s3'' 500 sample_secret_events) = Some (Inr ())" by code_simp
  have "sm_written (setConnectorSecret ''auth0'' ''s3'' 500 sample_secret_events) \<noteq> []" by code_simp
  then obtain w where "w \<in> set (sm_written (setConnectorSecret ''auth0'' ''s3'' 500 sample_secret_events))"
    by (meson list.set_sel(1))
  then show ?thesis
    using secret_set_confirmed [of "''auth0''" "''s3''" 500 sample_secret_events] result by fastforce
qed

text \<open>
  An answer in whole characters, split into chunks anywhere between them, is read as the
  line it is.
\<close>

lemma seam_chunks:
  assumes "\<forall>c \<in> set chunks. utf8_ok c" "CHR ''\<newline>'' \<notin> set text" "sm_result st = None"
    "sm_buffer st @ map char_of_byte (concat chunks) = text @ CHR ''\<newline>'' # rest" "CHR ''\<newline>'' \<notin> set (sm_buffer st)"
  shows "sm_result (fold (seam_handle line timeoutMs respond) (map SeamData chunks) st) = Some (respond text)"
  using assms
proof (induction chunks arbitrary: st)
  case Nil
  then show ?case by (metis append_Nil2 concat.simps(1) in_set_conv_decomp list.simps(8))
next
  case (Cons c chunks)
  let ?b = "sm_buffer st @ map char_of_byte c"
  let ?st = "seam_handle line timeoutMs respond (SeamData c) st"
  have b: "buffer_toString c = map char_of_byte c" using Cons(2) by (simp add: buffer_toString_ok)
  show ?case
  proof (cases "CHR ''\<newline>'' \<in> set ?b")
    case True
    then obtain t r where t: "?b = t @ CHR ''\<newline>'' # r" "CHR ''\<newline>'' \<notin> set t" using split_list_first by fast
    then have "t @ CHR ''\<newline>'' # r @ map char_of_byte (concat chunks) = text @ CHR ''\<newline>'' # rest"
      using Cons(5) by (metis append.assoc append_Cons concat.simps(2) map_append)
    then have "t = text" using t(2) Cons(3) by (metis takeWhile_line)
    moreover have "takeWhile (\<lambda>c. c \<noteq> CHR ''\<newline>'') ?b = t" unfolding t(1) using t(2) by (simp add: takeWhile_line)
    ultimately have "sm_result ?st = Some (respond text)"
      using True Cons(4) b by (simp add: seam_data_def seam_settle_def)
    moreover have "sm_result (fold (seam_handle line timeoutMs respond) es s) = sm_result s" if "sm_result s \<noteq> None" for es s
      using that
    proof (induction es arbitrary: s)
      case (Cons e es)
      have "sm_result (seam_handle line timeoutMs respond e s) = sm_result s"
        using Cons(2) by (cases e) (auto simp: seam_settle_def seam_data_def Let_def)
      then show ?case using Cons by simp
    qed simp
    ultimately show ?thesis by simp
  next
    case False
    then have "sm_result ?st = None" "sm_buffer ?st = ?b" using Cons(4) b by (simp_all add: seam_data_def Let_def)
    then show ?thesis using Cons(1) [of ?st] Cons(2,3,5) False by simp
  qed
qed

text \<open>A chunk that ends inside a character loses it: the two halves are decoded apart.\<close>

lemma split_character_lost:
  "buffer_toString [195] @ buffer_toString [169] \<noteq> buffer_toString [195, 169]"
  by code_simp

end
