(* ===== verification/Distribute.thy ===== *)
theory Distribute
  imports Sidecar Forge WireClient
begin

text \<open>
  Producing a policy bundle: \<open>apps/bff/src/engine/distribute.ts\<close>.  The zone and its
  effective policies are read, composed into a draft, signed by the sidecar and committed.
  The engine the function is given, the sidecar and the clock are the environment of a run;
  the model records the calls in the order they are made.  A reply has the type the engine
  contract declares for it.
\<close>

section \<open>The draft\<close>

definition LEASE_WINDOW_MS :: int where
  "LEASE_WINDOW_MS = 24 * 60 * 60 * 1000"

record DistributeRequest =
  dr_zoneId :: string
  dr_members :: "string list"

record BundleDraft =
  dft_version :: jsnum
  dft_policy :: EndpointPolicy
  dft_rules :: "BundleRule list"
  dft_contributors :: "PolicyVersionRef list"
  dft_vtz :: string
  dft_members :: "string list"
  dft_issued_at :: int
  dft_not_after :: int

definition draftForZone ::
    "VtzZone \<Rightarrow> jsnum \<Rightarrow> string list \<Rightarrow> ComposedBundleRules \<Rightarrow> int \<Rightarrow> BundleDraft \<times> ComposedEndpointPolicy" where
  "draftForZone zone commitVersion endpoints composed nowMs =
     (let record = composeEndpointPolicy zone
      in (\<lparr>dft_version = commitVersion, dft_policy = ce_policy record, dft_rules = cb_rules composed,
           dft_contributors = cb_contributors composed, dft_vtz = z_id zone, dft_members = endpoints,
           dft_issued_at = nowMs, dft_not_after = nowMs + LEASE_WINDOW_MS\<rparr>, record))"

text \<open>The JSON of a draft, in the order of its object literals.\<close>

definition text_values :: "string list \<Rightarrow> jsval" where
  "text_values ss = JArr (map JStr ss)"

fun classification_name :: "Classification \<Rightarrow> string" where
  "classification_name CUnclassified = ''Unclassified''"
| "classification_name CInternal = ''Internal''"
| "classification_name CConfidential = ''Confidential''"
| "classification_name CRestricted = ''Restricted''"
| "classification_name CSecret = ''Secret''"

fun exec_name :: "ExecDisposition \<Rightarrow> string" where
  "exec_name DenyUnwrappedExec = ''DenyUnwrappedExec''"

definition bound_value :: "ResourceBound \<Rightarrow> jsval" where
  "bound_value b = JObj
     [(''cpu_millicores'', JNum (rb_cpu_millicores b)), (''memory_bytes'', JNum (rb_memory_bytes b)),
      (''pids'', JNum (rb_pids b)), (''io_bytes_per_sec'', JNum (rb_io_bytes_per_sec b)),
      (''cost_micros'', JNum (rb_cost_micros b)), (''storage_bytes'', JNum (rb_storage_bytes b)),
      (''rate_per_sec'', JNum (rb_rate_per_sec b))]"

definition policy_value :: "EndpointPolicy \<Rightarrow> jsval" where
  "policy_value p = JObj
     [(''max_classification'', JStr (classification_name (ep_max_classification p))),
      (''brokered'', JObj [(''destinations'', text_values (destinations (ep_brokered p)))]),
      (''restricted'', text_values (ep_restricted p)),
      (''allow_ordinary_internet'', JBool (ep_allow_ordinary_internet p)),
      (''exec'', JStr (exec_name (ep_exec p))), (''resource_bound'', bound_value (ep_resource_bound p))]"

definition rule_value :: "BundleRule \<Rightarrow> jsval" where
  "rule_value r = JObj
     [(''policy_id'', JStr (br_policy_id r)), (''policy_version'', JStr (br_policy_version r)),
      (''source_kind'', JStr (br_source_kind r)), (''source_selector_kind'', JStr (br_source_selector_kind r)),
      (''source_selector_value'', JStr (br_source_selector_value r)),
      (''destination_kind'', JStr (br_destination_kind r)),
      (''destination_selector_kind'', JStr (br_destination_selector_kind r)),
      (''destination_selector_value'', JStr (br_destination_selector_value r)),
      (''action'', JStr (br_action r)), (''protocols'', text_values (br_protocols r)),
      (''ports'', JStr (br_ports r)), (''logging'', JStr (br_logging r))]"

definition contributor_value :: "PolicyVersionRef \<Rightarrow> jsval" where
  "contributor_value c = JObj
     [(''policy'', JStr (pvref_policy c)),
      (''version'', JObj [(''major'', JNum (major (pvref_version c))), (''minor'', JNum (minor (pvref_version c))),
                        (''patch'', JNum (patch (pvref_version c)))])]"

definition member_value :: "string \<Rightarrow> jsval" where
  "member_value cn = JObj
     [(''endpoint'', JObj [(''cn'', JStr cn), (''sans'', text_values [cn])]), (''agent'', JNull)]"

definition draft_value :: "BundleDraft \<Rightarrow> jsval" where
  "draft_value d = JObj
     [(''version'', JNum (dft_version d)), (''policy'', policy_value (dft_policy d)),
      (''rules'', JArr (map rule_value (dft_rules d))),
      (''contributors'', JArr (map contributor_value (dft_contributors d))),
      (''scope'', JObj [(''vtz'', JStr (dft_vtz d)), (''members'', JArr (map member_value (dft_members d)))]),
      (''lease'', JObj [(''issued_at'', JNum (NInt (dft_issued_at d))), (''not_after'', JNum (NInt (dft_not_after d)))])]"

section \<open>The producer path\<close>

record WirePolicyEffective =
  wpe_policies :: "WirePolicyRecord list"

record WireBundleCommitted =
  wbk_commit_version :: jsnum
  wbk_version :: jsnum

record DistributeResult =
  ds_version :: jsnum
  ds_commitVersion :: jsnum
  ds_carriedRules :: nat
  ds_carriedPolicies :: nat
  ds_unexpressedDomains :: "UnexpressedDomain list"
  ds_unexpressedFields :: "string list"

datatype distribute_error =
    DistributeZoneUnknown string
  | DistributeComposition string
  | DistributeEngine engine_error
  | DistributeSigning seam_error

text \<open>The calls, and what answers them: a call of the engine that never settles has no answer.\<close>

datatype distribute_call =
    AskDetail WireVtzDetailQuery
  | AskEffective WirePolicyEffectiveQuery
  | AskSign BundleDraft
  | AskCommit WireBundleCommit

record distribute_env =
  env_detail :: "WireVtzDetailQuery \<Rightarrow> (engine_error + WireVtzDetail) option"
  env_effective :: "WirePolicyEffectiveQuery \<Rightarrow> (engine_error + WirePolicyEffective) option"
  env_signer :: "BundleDraft \<Rightarrow> seam_event list"
  env_commit :: "WireBundleCommit \<Rightarrow> (engine_error + WireBundleCommitted) option"
  env_now :: int
  env_timeoutMs :: nat

type_synonym 'a distribute_run = "(distribute_error + 'a) option \<times> distribute_call list"

definition await_engine ::
    "(engine_error + 'a) option \<Rightarrow> distribute_call list \<Rightarrow> ('a \<Rightarrow> 'b distribute_run) \<Rightarrow> 'b distribute_run" where
  "await_engine answer calls continue = (case answer of
       None \<Rightarrow> (None, calls)
     | Some (Inl e) \<Rightarrow> (Some (Inl (DistributeEngine e)), calls)
     | Some (Inr x) \<Rightarrow> (case continue x of (out, more_calls) \<Rightarrow> (out, calls @ more_calls)))"

definition detail_query :: "DistributeRequest \<Rightarrow> WireVtzDetailQuery" where
  "detail_query request = \<lparr>request_id = NInt 0, operator = None, vr_vtz_id = dr_zoneId request\<rparr>"

definition effective_query :: "DistributeRequest \<Rightarrow> WirePolicyEffectiveQuery" where
  "effective_query request = \<lparr>request_id = NInt 0, operator = None, pq_vtz = dr_zoneId request\<rparr>"

definition commit_request :: "jsnum list \<Rightarrow> WireBundleCommit" where
  "commit_request cbor = \<lparr>request_id = NInt 0, operator = None, bc_bundle = cbor\<rparr>"

text \<open>Signing and committing a draft, with what it was composed from.\<close>

definition sign_and_commit ::
    "distribute_env \<Rightarrow> ComposedBundleRules \<Rightarrow> BundleDraft \<times> ComposedEndpointPolicy \<Rightarrow> DistributeResult distribute_run" where
  "sign_and_commit env composed drafted =
     (case drafted of (draft, record) \<Rightarrow>
      case sm_result (signBundle (draft_value draft) (env_timeoutMs env) (env_signer env draft)) of
        None \<Rightarrow> (None, [AskSign draft])
      | Some (Inl e) \<Rightarrow> (Some (Inl (DistributeSigning e)), [AskSign draft])
      | Some (Inr result) \<Rightarrow>
          await_engine (env_commit env (commit_request (sb_cbor result)))
            [AskSign draft, AskCommit (commit_request (sb_cbor result))] (\<lambda>ack.
            (Some (Inr \<lparr>ds_version = wbk_version ack, ds_commitVersion = wbk_commit_version ack,
                      ds_carriedRules = length (cb_rules composed),
                      ds_carriedPolicies = length (cb_contributors composed),
                      ds_unexpressedDomains = ce_unexpressedDomains record,
                      ds_unexpressedFields = ce_unexpressedFields record\<rparr>), [])))"

definition compose_effective :: "WirePolicyRecord list \<Rightarrow> distribute_error + ComposedBundleRules" where
  "compose_effective records = (case traverse toPolicyRow records of
       None \<Rightarrow> Inl (DistributeComposition ''an effective policy carries an unknown engine tag'')
     | Some policies \<Rightarrow> (case composeBundleRules policies of
           None \<Rightarrow> Inl (DistributeComposition ''an effective policy version is unparseable'')
         | Some composed \<Rightarrow> Inr composed))"

definition resolveDistribute :: "distribute_env \<Rightarrow> DistributeRequest \<Rightarrow> DistributeResult distribute_run" where
  "resolveDistribute env request =
     await_engine (env_detail env (detail_query request)) [AskDetail (detail_query request)] (\<lambda>wire.
       case toVtzDetail wire of
         None \<Rightarrow> (Some (Inl (DistributeZoneUnknown (dr_zoneId request))), [])
       | Some detail \<Rightarrow> (case vd_zone detail of
             None \<Rightarrow> (Some (Inl (DistributeZoneUnknown (dr_zoneId request))), [])
           | Some zone \<Rightarrow>
               await_engine (env_effective env (effective_query request)) [AskEffective (effective_query request)] (\<lambda>effective.
                 case compose_effective (wpe_policies effective) of
                   Inl e \<Rightarrow> (Some (Inl e), [])
                 | Inr composed \<Rightarrow>
                     sign_and_commit env composed
                       (draftForZone zone (vd_commitVersion detail) (dr_members request) composed (env_now env)))))"

section \<open>What reaches the carrier\<close>

fun commits :: "distribute_call list \<Rightarrow> WireBundleCommit list" where
  "commits (AskCommit c # calls) = c # commits calls"
| "commits (_ # calls) = commits calls"
| "commits [] = []"

lemma commits_append [simp]: "commits (cs @ ds) = commits cs @ commits ds"
  by (induction cs rule: commits.induct) simp_all

text \<open>
  A draft that is the zone's own: composed from its effective postures and from every rule of
  every effective policy, addressed to the endpoints asked for, leased for the window.
\<close>

definition draft_of :: "distribute_env \<Rightarrow> DistributeRequest \<Rightarrow> BundleDraft \<Rightarrow> bool" where
  "draft_of env request draft \<longleftrightarrow> (\<exists>wire detail zone effective policies composed.
     env_detail env (detail_query request) = Some (Inr wire) \<and> toVtzDetail wire = Some detail \<and>
     vd_zone detail = Some zone \<and>
     env_effective env (effective_query request) = Some (Inr effective) \<and>
     traverse toPolicyRow (wpe_policies effective) = Some policies \<and> composeBundleRules policies = Some composed \<and>
     draft = fst (draftForZone zone (vd_commitVersion detail) (dr_members request) composed (env_now env)))"

lemma await_engine_snd: "snd (await_engine answer calls continue) = calls @ (case answer of
    Some (Inr x) \<Rightarrow> snd (continue x) | _ \<Rightarrow> [])"
  by (simp add: await_engine_def split: option.split sum.split prod.split)

lemma await_engine_ok: "fst (await_engine answer calls continue) = Some (Inr y) \<Longrightarrow>
    \<exists>x. answer = Some (Inr x) \<and> fst (continue x) = Some (Inr y)"
  by (auto simp: await_engine_def split: option.splits sum.splits prod.splits)

lemma compose_effective_Inr: "compose_effective records = Inr composed \<longleftrightarrow>
    (\<exists>policies. traverse toPolicyRow records = Some policies \<and> composeBundleRules policies = Some composed)"
  by (auto simp: compose_effective_def split: option.splits)

lemma sign_commits:
  assumes "c \<in> set (commits (snd (sign_and_commit env composed (draft, record))))"
  shows "\<exists>result. sm_result (signBundle (draft_value draft) (env_timeoutMs env) (env_signer env draft)) = Some (Inr result) \<and>
    c = commit_request (sb_cbor result)"
  using assms
  by (auto simp: sign_and_commit_def await_engine_snd split: option.splits sum.splits)

lemma distribute_commits:
  assumes "c \<in> set (commits (snd (resolveDistribute env request)))"
  shows "\<exists>draft result. draft_of env request draft \<and>
    sm_result (signBundle (draft_value draft) (env_timeoutMs env) (env_signer env draft)) = Some (Inr result) \<and>
    c = commit_request (sb_cbor result)"
proof -
  obtain wire detail zone effective composed where d:
    "env_detail env (detail_query request) = Some (Inr wire)" "toVtzDetail wire = Some detail" "vd_zone detail = Some zone"
    "env_effective env (effective_query request) = Some (Inr effective)"
    "compose_effective (wpe_policies effective) = Inr composed"
    "c \<in> set (commits (snd (sign_and_commit env composed
       (draftForZone zone (vd_commitVersion detail) (dr_members request) composed (env_now env)))))"
    using assms by (auto simp: resolveDistribute_def await_engine_snd split: option.splits sum.splits)
  let ?draft = "fst (draftForZone zone (vd_commitVersion detail) (dr_members request) composed (env_now env))"
  have "draft_of env request ?draft" using d(1-5) unfolding draft_of_def compose_effective_Inr by blast
  then show ?thesis using sign_commits d(6) by (metis prod.collapse)
qed

text \<open>Only a whole line of the sidecar with the canonical bytes is a signature.\<close>

lemma draft_printed: "stringify (draft_value d) = Some (printed (draft_value d))"
  by (rule stringify_printable)
    (simp add: draft_value_def policy_value_def rule_value_def contributor_value_def member_value_def bound_value_def
      text_values_def list_all_iff)

interpretation signing: line_exchange "printed (draft_value draft)" timeoutMs parseSigned
  for draft timeoutMs
  by unfold_locales (rule printed_one_line, simp add: draft_printed)

lemma as_numbers_Some: "as_numbers v = Some ns \<longleftrightarrow> v = JArr (map JNum ns)"
proof -
  have num: "(case b of JNum n \<Rightarrow> Some n | _ \<Rightarrow> None) = Some n \<longleftrightarrow> b = JNum n" for b n by (cases b) auto
  have "map (\<lambda>b. case b of JNum n \<Rightarrow> Some n | _ \<Rightarrow> None) vs = map Some ns \<longleftrightarrow> vs = map JNum ns" for vs
    by (induction vs arbitrary: ns) (case_tac ns, auto simp: num)+
  then show ?thesis by (cases v) (auto simp: as_numbers_def traverse_Some)
qed

lemma parseSigned_Inr:
  assumes "parseSigned text = Inr result"
  shows "\<exists>parsed. json_parse text = Some parsed \<and> is_object (get_prop (get_prop parsed ''signed'') ''bundle'') \<and>
    get_prop (get_prop parsed ''signed'') ''cbor'' = JArr (map JNum (sb_cbor result))"
  using assms
  by (auto simp: parseSigned_def signed_answer_def as_numbers_Some split: option.splits if_splits)

lemma sign_and_commit_ok:
  assumes "fst (sign_and_commit env composed (draft, record)) = Some (Inr res)"
  shows "commits (snd (sign_and_commit env composed (draft, record))) \<noteq> [] \<and> ds_carriedRules res = length (cb_rules composed) \<and>
    ds_carriedPolicies res = length (cb_contributors composed) \<and> ds_unexpressedDomains res = ce_unexpressedDomains record"
  using assms
  by (auto simp: sign_and_commit_def await_engine_snd split: option.splits sum.splits dest!: await_engine_ok)

lemma sign_and_commit_once: "length (commits (snd (sign_and_commit env composed drafted))) \<le> 1"
  by (auto simp: sign_and_commit_def await_engine_snd split: option.split sum.split prod.split)

lemma distribute_once: "length (commits (snd (resolveDistribute env request))) \<le> 1"
  using sign_and_commit_once by (auto simp: resolveDistribute_def await_engine_snd split: option.split sum.split)

lemma distribute_ok:
  assumes "fst (resolveDistribute env request) = Some (Inr res)"
  shows "commits (snd (resolveDistribute env request)) \<noteq> [] \<and>
    (\<exists>draft. draft_of env request draft \<and> ds_carriedRules res = length (dft_rules draft) \<and>
       ds_carriedPolicies res = length (dft_contributors draft))"
proof -
  obtain wire where wire: "env_detail env (detail_query request) = Some (Inr wire)" using assms
    by (auto simp: resolveDistribute_def dest!: await_engine_ok)
  obtain detail zone where z: "toVtzDetail wire = Some detail" "vd_zone detail = Some zone" using assms wire
    by (auto simp: resolveDistribute_def split: option.splits dest!: await_engine_ok)
  obtain effective where e: "env_effective env (effective_query request) = Some (Inr effective)" using assms wire z
    by (auto simp: resolveDistribute_def dest!: await_engine_ok)
  obtain composed where c: "compose_effective (wpe_policies effective) = Inr composed" using assms wire z e
    by (auto simp: resolveDistribute_def split: sum.splits dest!: await_engine_ok)
  let ?drafted = "draftForZone zone (vd_commitVersion detail) (dr_members request) composed (env_now env)"
  have run: "fst (resolveDistribute env request) = fst (sign_and_commit env composed ?drafted)"
    "commits (snd (resolveDistribute env request)) = commits (snd (sign_and_commit env composed ?drafted))"
    by (simp_all add: resolveDistribute_def await_engine_def wire z e c split: prod.split)
  have "draft_of env request (fst ?drafted)" using wire z e c unfolding draft_of_def compose_effective_Inr by blast
  moreover have "dft_rules (fst ?drafted) = cb_rules composed" "dft_contributors (fst ?drafted) = cb_contributors composed"
    by (simp_all add: draftForZone_def Let_def)
  moreover have "commits (snd (sign_and_commit env composed ?drafted)) \<noteq> [] \<and> ds_carriedRules res = length (cb_rules composed) \<and>
      ds_carriedPolicies res = length (cb_contributors composed)"
    using sign_and_commit_ok [of env composed "fst ?drafted" "snd ?drafted" res] assms run by simp
  ultimately show ?thesis using run(2) by metis
qed

text \<open>
  C6. Distribution fails closed.  At most one bundle is committed; what is committed is the
  canonical bytes that the sidecar returned, in one whole line, for a draft composed from the
  zone and every effective policy as the engine gave them, all of them known to the contract
  and with a version that can be parsed; an unknown zone, an unknown tag, an unparsable
  version, a refusal or a failure of the sidecar commits nothing.  A distribution that
  succeeds has committed, and reports the rules and policies its draft carries.
\<close>

theorem distribute_fail_closed:
  "length (commits (snd (resolveDistribute env request))) \<le> 1 \<and>
   (\<forall>c \<in> set (commits (snd (resolveDistribute env request))). \<exists>draft text rest parsed cbor.
      draft_of env request draft \<and>
      received (env_signer env draft) = text @ CHR ''\<newline>'' # rest \<and> CHR ''\<newline>'' \<notin> set text \<and>
      json_parse text = Some parsed \<and> is_object (get_prop (get_prop parsed ''signed'') ''bundle'') \<and>
      get_prop (get_prop parsed ''signed'') ''cbor'' = JArr (map JNum cbor) \<and> bc_bundle c = cbor) \<and>
   (\<forall>res. fst (resolveDistribute env request) = Some (Inr res) \<longrightarrow>
      commits (snd (resolveDistribute env request)) \<noteq> [] \<and>
      (\<exists>draft. draft_of env request draft \<and> ds_carriedRules res = length (dft_rules draft) \<and>
         ds_carriedPolicies res = length (dft_contributors draft)))"
proof -
  have "\<exists>draft text rest parsed cbor. draft_of env request draft \<and>
      received (env_signer env draft) = text @ CHR ''\<newline>'' # rest \<and> CHR ''\<newline>'' \<notin> set text \<and>
      json_parse text = Some parsed \<and> is_object (get_prop (get_prop parsed ''signed'') ''bundle'') \<and>
      get_prop (get_prop parsed ''signed'') ''cbor'' = JArr (map JNum cbor) \<and> bc_bundle c = cbor"
    if c: "c \<in> set (commits (snd (resolveDistribute env request)))" for c
  proof -
    obtain draft result where d: "draft_of env request draft"
      "sm_result (signBundle (draft_value draft) (env_timeoutMs env) (env_signer env draft)) = Some (Inr result)"
      "c = commit_request (sb_cbor result)"
      using distribute_commits [OF c] by blast
    obtain answer rest where t: "parseSigned answer = Inr result" "received (env_signer env draft) = answer @ CHR ''\<newline>'' # rest"
      "CHR ''\<newline>'' \<notin> set answer"
      using signing.run_answer d(2) unfolding signBundle_def by blast
    show ?thesis using d(1,3) t parseSigned_Inr [OF t(1)] by (auto simp: commit_request_def)
  qed
  then show ?thesis using distribute_once distribute_ok by blast
qed

section \<open>A distribution\<close>

definition sample_zone :: WireVtzTreeNode where
  "sample_zone = \<lparr>tn_id = ''z1'', tn_name = ''Corp'', tn_parent = None, tn_zone_type = ''standard'', tn_lifecycle = ''published'',
     tn_micro_segmentation = False, tn_telemetry = ''full'', tn_reauth_interval_hours = NInt 8,
     tn_own_postures = [], tn_effective_postures = [], tn_sub_zone_count = NInt 0\<rparr>"

definition signed_line :: string where
  "signed_line = printed (JObj [(''signed'', JObj [(''bundle'', JObj []), (''cbor'', JArr [JNum (NInt 161), JNum (NInt 2)])])])"

definition sample_env :: distribute_env where
  "sample_env = \<lparr>env_detail = (\<lambda>_. Some (Inr \<lparr>wd_ancestors = [], wd_commit_version = NInt 7, wd_zone = Some sample_zone\<rparr>)),
     env_effective = (\<lambda>_. Some (Inr \<lparr>wpe_policies = []\<rparr>)),
     env_signer = (\<lambda>_. [SeamConnect, SeamData (text_encode signed_line), SeamData [10]]),
     env_commit = (\<lambda>_. Some (Inr \<lparr>wbk_commit_version = NInt 8, wbk_version = NInt 7\<rparr>)),
     env_now = 1000, env_timeoutMs = 500\<rparr>"

lemma signed_line_read:
  "json_parse signed_line = Some (JObj [(''signed'', JObj [(''bundle'', JObj []), (''cbor'', JArr [JNum (NInt 161), JNum (NInt 2)])])])"
  unfolding signed_line_def
  by (rule parse_printed) (auto simp: is_digit_def intro!: obj_ok_plain_keys key_index_letter)

lemma sample_signed:
  "sm_result (signBundle (draft_value draft) 500 [SeamConnect, SeamData (text_encode signed_line), SeamData [10]])
     = Some (Inr \<lparr>sb_bundle = JObj [], sb_cbor = [NInt 161, NInt 2]\<rparr>)"
proof -
  have "parseSigned signed_line = Inr \<lparr>sb_bundle = JObj [], sb_cbor = [NInt 161, NInt 2]\<rparr>"
    by (simp add: parseSigned_def signed_line_read is_object_def has_prop_def get_prop_def signed_answer_def nullish_def
        as_numbers_def)
  moreover have line: "CHR ''\<newline>'' \<notin> set signed_line" "utf8_ok (text_encode signed_line)"
    by code_simp+
  moreover have "buffer_toString [10] = ''\<newline>''" by code_simp
  moreover have "takeWhile (\<lambda>c. c \<noteq> CHR ''\<newline>'') (signed_line @ ''\<newline>'') = signed_line"
    using takeWhile_line [OF line(1)] by simp
  ultimately show ?thesis
    by (simp add: signBundle_def seam_run_def seam_start_def seam_data_def buffer_toString_ok text_encode_def
        seam_settle_def Let_def)
qed

theorem distribute_fail_closed_witness:
  "\<exists>res c. fst (resolveDistribute sample_env \<lparr>dr_zoneId = ''z1'', dr_members = [''host.example'']\<rparr>) = Some (Inr res) \<and>
     commits (snd (resolveDistribute sample_env \<lparr>dr_zoneId = ''z1'', dr_members = [''host.example'']\<rparr>)) = [c] \<and>
     bc_bundle c = [NInt 161, NInt 2]"
proof -
  let ?run = "resolveDistribute sample_env \<lparr>dr_zoneId = ''z1'', dr_members = [''host.example'']\<rparr>"
  have "toVtzZone sample_zone \<noteq> None" by code_simp
  then obtain zone where "toVtzZone sample_zone = Some zone" by blast
  then have "\<exists>res. fst ?run = Some (Inr res)" "\<exists>c. commits (snd ?run) = [c] \<and> bc_bundle c = [NInt 161, NInt 2]"
    by (simp_all add: resolveDistribute_def await_engine_def sample_env_def toVtzDetail_def compose_effective_def
        composeBundleRules_def sign_and_commit_def draftForZone_def Let_def sample_signed commit_request_def)
  then show ?thesis using distribute_fail_closed [of sample_env "\<lparr>dr_zoneId = ''z1'', dr_members = [''host.example'']\<rparr>"] by blast
qed

end
