(* ===== verification/Http.thy ===== *)
theory Http
  imports Sidecar
begin

text \<open>
  What the HTTP surface uses of the platform: reading numbers from text, comparing them,
  the parameters of a query string, the decoding of a path segment, and reading a JSON
  body under a size limit (\<open>readJsonBody\<close> of \<open>apps/bff/src/server.ts\<close>).
\<close>

section \<open>Numbers\<close>

definition NaN :: jsnum where
  "NaN = NFlt nan_bits"

definition is_finite :: "jsnum \<Rightarrow> bool" where
  "is_finite n = (case n of NInt _ \<Rightarrow> True | NFlt b \<Rightarrow> b div 2 ^ 52 mod 2 ^ 11 \<noteq> 2047)"

text \<open>A finite number as a ratio, and \<open>a < b\<close> with the infinities; a comparison with NaN is false.\<close>

definition ratio :: "jsnum \<Rightarrow> int \<times> int" where
  "ratio n = (case magnitude n of (neg, p, q) \<Rightarrow> (if neg then - int p else int p, int q))"

definition num_less :: "jsnum \<Rightarrow> jsnum \<Rightarrow> bool" where
  "num_less a b \<longleftrightarrow> a \<noteq> NaN \<and> b \<noteq> NaN \<and> a \<noteq> b \<and>
     (a = NFlt (inf_bits True) \<or> b = NFlt (inf_bits False) \<or>
      (is_finite a \<and> is_finite b \<and> (case (ratio a, ratio b) of ((p, q), (r, s)) \<Rightarrow> p * s < r * q)))"

definition math_min :: "jsnum \<Rightarrow> jsnum \<Rightarrow> jsnum" where
  "math_min a b = (if a = NaN \<or> b = NaN then NaN else if num_less b a then b else a)"

text \<open>\<open>Math.floor\<close> of a positive finite number.\<close>

definition floor_positive :: "jsnum \<Rightarrow> jsnum" where
  "floor_positive n = (case ratio n of (p, q) \<Rightarrow> NInt (p div q))"

text \<open>
  \<open>Number(text)\<close>: white space around it is dropped; nothing is zero; a decimal with
  optional sign, fraction and exponent; a hexadecimal, octal or binary integer; an
  infinity; anything else is NaN.
\<close>

definition digit_in :: "nat \<Rightarrow> char \<Rightarrow> nat option" where
  "digit_in base c = (case hex_value c of None \<Rightarrow> None | Some d \<Rightarrow> if d < base then Some d else None)"

definition radix_number :: "nat \<Rightarrow> string \<Rightarrow> jsnum" where
  "radix_number base s = (case traverse (digit_in base) s of
       None \<Rightarrow> NaN
     | Some ds \<Rightarrow> if ds = [] then NaN else number_of_ratio False (foldl (\<lambda>n d. base * n + d) 0 ds) 1)"

definition decimal_number :: "bool \<Rightarrow> string \<Rightarrow> jsnum" where
  "decimal_number neg s =
     (let whole = takeWhile is_digit s; rest = dropWhile is_digit s;
          (frac, rest') = (case rest of c # r \<Rightarrow> if c = CHR ''.'' then (takeWhile is_digit r, dropWhile is_digit r)
                                           else ([], rest) | [] \<Rightarrow> ([], []))
      in if whole = [] \<and> frac = [] then NaN
         else (case exponent_part rest' of
             Some (x, []) \<Rightarrow> number_of_decimal neg (digits_value (whole @ frac)) (x - int (length frac))
           | _ \<Rightarrow> NaN))"

definition signed_decimal :: "string \<Rightarrow> jsnum" where
  "signed_decimal s =
     (let (neg, t) = (case s of c # r \<Rightarrow> if c = CHR ''-'' then (True, r) else if c = CHR ''+'' then (False, r)
                                      else (False, s) | [] \<Rightarrow> (False, s))
      in if t = ''Infinity'' then NFlt (inf_bits neg) else decimal_number neg t)"

definition string_to_number :: "string \<Rightarrow> jsnum" where
  "string_to_number text =
     (let s = trim text
      in if s = [] then NInt 0
         else if take 2 s = ''0x'' \<or> take 2 s = ''0X'' then radix_number 16 (drop 2 s)
         else if take 2 s = ''0o'' \<or> take 2 s = ''0O'' then radix_number 8 (drop 2 s)
         else if take 2 s = ''0b'' \<or> take 2 s = ''0B'' then radix_number 2 (drop 2 s)
         else signed_decimal s)"

text \<open>\<open>Number.parseInt(text, 10)\<close>: the digits the text starts with.\<close>

definition parse_int10 :: "string \<Rightarrow> jsnum" where
  "parse_int10 text =
     (let s = trim text;
          (neg, t) = (case s of c # r \<Rightarrow> if c = CHR ''-'' then (True, r) else if c = CHR ''+'' then (False, r)
                                      else (False, s) | [] \<Rightarrow> (False, s));
          ds = takeWhile is_digit t
      in if ds = [] then NaN else number_of_decimal neg (digits_value ds) 0)"

section \<open>Query strings and paths\<close>

fun percent_bytes :: "string \<Rightarrow> nat list" where
  "percent_bytes [] = []"
| "percent_bytes (c # cs) =
     (case (c, cs) of
        (_, a # b # r) \<Rightarrow>
          if c = CHR ''%'' then
            (case (hex_value a, hex_value b) of
               (Some i, Some j) \<Rightarrow> (16 * i + j) # percent_bytes r
             | _ \<Rightarrow> of_char c # percent_bytes cs)
          else of_char c # percent_bytes cs
      | _ \<Rightarrow> of_char c # percent_bytes cs)"

definition form_decode :: "string \<Rightarrow> string" where
  "form_decode s =
     map char_of (lossy_utf8 (percent_bytes (map (\<lambda>c. if c = CHR ''+'' then CHR '' '' else c) s)))"

definition form_pair :: "string \<Rightarrow> string \<times> string" where
  "form_pair s = (form_decode (takeWhile (\<lambda>c. c \<noteq> CHR ''='') s), form_decode (drop 1 (dropWhile (\<lambda>c. c \<noteq> CHR ''='') s)))"

text \<open>\<open>new URL(url, base).searchParams\<close>, for a url that starts with one slash, and \<open>get\<close>.\<close>

definition query_of :: "string \<Rightarrow> string" where
  "query_of url = drop 1 (dropWhile (\<lambda>c. c \<noteq> CHR ''?'') (takeWhile (\<lambda>c. c \<noteq> CHR ''#'') url))"

definition search_params :: "string \<Rightarrow> (string \<times> string) list" where
  "search_params url = map form_pair (filter (\<lambda>s. s \<noteq> []) (split_on CHR ''&'' (query_of url)))"

definition param :: "string \<Rightarrow> string \<Rightarrow> string option" where
  "param url key = map_of (search_params url) key"

text \<open>
  \<open>decodeURIComponent\<close>: a percent sign must start an escape, and the bytes of a run of
  escapes must be well-formed; \<open>None\<close> is the \<open>URIError\<close>.
\<close>

fun uri_bytes :: "string \<Rightarrow> (bool \<times> nat) list option" where
  "uri_bytes [] = Some []"
| "uri_bytes (c # cs) =
     (if c \<noteq> CHR ''%'' then map_option (Cons (False, of_char c)) (uri_bytes cs)
      else (case cs of
          a # b # r \<Rightarrow> (case (hex_value a, hex_value b) of
              (Some i, Some j) \<Rightarrow> map_option (Cons (True, 16 * i + j)) (uri_bytes r)
            | _ \<Rightarrow> None)
        | _ \<Rightarrow> None))"

function escapes_ok :: "(bool \<times> nat) list \<Rightarrow> bool" where
  "escapes_ok [] = True"
| "escapes_ok ((False, n) # rest) = escapes_ok rest"
| "escapes_ok ((True, n) # rest) =
     (utf8_seq (map snd (takeWhile fst ((True, n) # rest))) \<and> escapes_ok (dropWhile fst rest))"
  by pat_completeness auto
termination by (relation "measure length") (auto simp: less_Suc_eq_le length_dropWhile_le)

definition decodeURIComponent :: "string \<Rightarrow> string option" where
  "decodeURIComponent s = (case uri_bytes s of
       None \<Rightarrow> None
     | Some bs \<Rightarrow> if escapes_ok bs then Some (map (\<lambda>(e, n). char_of n) bs) else None)"

section \<open>Bodies\<close>

definition MAX_COMMAND_BODY_BYTES :: nat where
  "MAX_COMMAND_BODY_BYTES = 8192"

text \<open>\<open>None\<close> is the exception: the body is too large, or is not JSON.  An empty one is an empty object.\<close>

definition readJsonBody :: "nat \<Rightarrow> bytes list \<Rightarrow> jsval option" where
  "readJsonBody limit chunks =
     (if limit < length (concat chunks) then None
      else let text = trim (buffer_toString (concat chunks))
           in if text = [] then Some (JObj []) else json_parse text)"

end
