(* ===== verification/Numbers.thy ===== *)
theory Numbers
  imports Http
begin

text \<open>
  Arithmetic and printing of numbers and dates in the language: sums, products and quotients of
  doubles, \<open>Math.trunc\<close> and \<open>Math.max\<close>, \<open>Number.prototype.toFixed\<close>, and
  \<open>Date.prototype.toISOString\<close> after the time algorithms of the language.
\<close>

section \<open>Arithmetic\<close>

text \<open>Rounded to a double; a zero result is negative only where the language makes it so.\<close>

definition negative :: "jsnum \<Rightarrow> bool" where
  "negative n = (case magnitude n of (neg, _, _) \<Rightarrow> neg)"

definition num_add :: "jsnum \<Rightarrow> jsnum \<Rightarrow> jsnum" where
  "num_add a b =
     (if a = NaN \<or> b = NaN then NaN
      else if \<not> is_finite a then (if \<not> is_finite b \<and> a \<noteq> b then NaN else a)
      else if \<not> is_finite b then b
      else case (ratio a, ratio b) of ((p, q), (p', q')) \<Rightarrow>
        let n = p * q' + p' * q
        in number_of_ratio (n < 0 \<or> n = 0 \<and> negative a \<and> negative b) (nat \<bar>n\<bar>) (nat (q * q')))"

text \<open>Products and quotients by a positive integer.\<close>

definition num_times :: "jsnum \<Rightarrow> int \<Rightarrow> jsnum" where
  "num_times a k =
     (if is_finite a then (case ratio a of (p, q) \<Rightarrow> number_of_ratio (negative a) (nat (\<bar>p\<bar> * k)) (nat q)) else a)"

definition num_over :: "jsnum \<Rightarrow> int \<Rightarrow> jsnum" where
  "num_over a k =
     (if is_finite a then (case ratio a of (p, q) \<Rightarrow> number_of_ratio (negative a) (nat \<bar>p\<bar>) (nat (q * k))) else a)"

text \<open>Negation, differences, and products and quotients of any two numbers.\<close>

definition is_zero :: "jsnum \<Rightarrow> bool" where
  "is_zero n \<longleftrightarrow> n = NInt 0 \<or> n = NFlt minus_zero"

definition num_neg :: "jsnum \<Rightarrow> jsnum" where
  "num_neg a = (if a = NaN then NaN else if \<not> is_finite a then NFlt (inf_bits (a = NFlt (inf_bits False)))
     else case ratio a of (p, q) \<Rightarrow> number_of_ratio (\<not> negative a) (nat \<bar>p\<bar>) (nat q))"

definition num_sub :: "jsnum \<Rightarrow> jsnum \<Rightarrow> jsnum" where
  "num_sub a b = num_add a (num_neg b)"

definition num_mul :: "jsnum \<Rightarrow> jsnum \<Rightarrow> jsnum" where
  "num_mul a b =
     (let neg = (negative a \<noteq> negative b) in
      if a = NaN \<or> b = NaN then NaN
      else if \<not> is_finite a \<or> \<not> is_finite b then (if is_zero a \<or> is_zero b then NaN else NFlt (inf_bits neg))
      else case (ratio a, ratio b) of ((p, q), (p', q')) \<Rightarrow> number_of_ratio neg (nat \<bar>p * p'\<bar>) (nat (q * q')))"

definition num_div :: "jsnum \<Rightarrow> jsnum \<Rightarrow> jsnum" where
  "num_div a b =
     (let neg = (negative a \<noteq> negative b) in
      if a = NaN \<or> b = NaN \<or> \<not> is_finite a \<and> \<not> is_finite b \<or> is_zero a \<and> is_zero b then NaN
      else if \<not> is_finite a \<or> is_zero b then NFlt (inf_bits neg)
      else if \<not> is_finite b then number_of_ratio neg 0 1
      else case (ratio a, ratio b) of ((p, q), (p', q')) \<Rightarrow> number_of_ratio neg (nat (\<bar>p\<bar> * q')) (nat (q * \<bar>p'\<bar>)))"

text \<open>\<open>a <= b\<close>, false for NaN.\<close>

definition num_le :: "jsnum \<Rightarrow> jsnum \<Rightarrow> bool" where
  "num_le a b \<longleftrightarrow> a \<noteq> NaN \<and> b \<noteq> NaN \<and> \<not> num_less b a"

text \<open>\<open>Math.trunc\<close> and \<open>Math.max\<close>.\<close>

definition math_trunc :: "jsnum \<Rightarrow> jsnum" where
  "math_trunc n = (if is_finite n then (case ratio n of (p, q) \<Rightarrow> number_of_ratio (p < 0) (nat (\<bar>p\<bar> div q)) 1) else n)"

definition math_max :: "jsnum \<Rightarrow> jsnum \<Rightarrow> jsnum" where
  "math_max a b = (if a = NaN \<or> b = NaN then NaN else if num_less a b then b else a)"

section \<open>Days and years\<close>

definition day_from_year :: "int \<Rightarrow> int" where
  "day_from_year y = 365 * (y - 1970) + (y - 1969) div 4 - (y - 1901) div 100 + (y - 1601) div 400"

definition leap :: "int \<Rightarrow> bool" where
  "leap y \<longleftrightarrow> y mod 4 = 0 \<and> (y mod 100 \<noteq> 0 \<or> y mod 400 = 0)"

definition year_days :: "int \<Rightarrow> int" where
  "year_days y = (if leap y then 366 else 365)"

lemma div_step:
  fixes n :: int
  assumes "0 < n"
  shows "(a + 1) div n = a div n + (if (a + 1) mod n = 0 then 1 else 0)"
proof -
  define q t where qt: "q = a div n" "t = a mod n"
  then have a: "a = n * q + t" "0 \<le> t" "t < n" using assms by simp_all
  show ?thesis
  proof (cases "t + 1 = n")
    case True
    then have "a + 1 = n * (q + 1)" using a by (simp add: algebra_simps)
    then show ?thesis using assms by (simp add: qt(1) [symmetric])
  next
    case False
    then have "a + 1 = n * q + (t + 1)" "0 \<le> t + 1" "t + 1 < n" using a by simp_all
    then have "(a + 1) div n = q" "(a + 1) mod n = t + 1"
      by (rule int_div_pos_eq, rule int_mod_pos_eq)
    then show ?thesis using a(2) by (simp add: qt(1) [symmetric])
  qed
qed

lemma century_step:
  fixes n :: int
  assumes "0 < n" and "u = y - c * n" and "v = u - 1"
  shows "u div n = v div n + (if y mod n = 0 then 1 else 0)"
proof -
  have "u mod n = y mod n" unfolding assms(2) by (metis diff_add_cancel mod_mult_self1)
  then show ?thesis using div_step [OF assms(1), of v] by (simp add: assms(3))
qed

lemma year_length: "day_from_year (y + 1) = day_from_year y + year_days y"
proof -
  have steps:
    "(y - 1968) div 4 = (y - 1969) div 4 + (if y mod 4 = 0 then 1 else 0)"
    "(y - 1900) div 100 = (y - 1901) div 100 + (if y mod 100 = 0 then 1 else 0)"
    "(y - 1600) div 400 = (y - 1601) div 400 + (if y mod 400 = 0 then 1 else 0)"
    subgoal by (rule century_step [where c = 492]) simp_all
    subgoal by (rule century_step [where c = 19]) simp_all
    subgoal by (rule century_step [where c = 4]) simp_all
    done
  define a b c where abc: "a \<longleftrightarrow> y mod 4 = 0" "b \<longleftrightarrow> y mod 100 = 0" "c \<longleftrightarrow> y mod 400 = 0"
  have "y mod 400 mod 100 = y mod 100" "y mod 100 mod 4 = y mod 4" by (rule mod_mod_cancel, simp)+
  then have chain: "c \<Longrightarrow> b" "b \<Longrightarrow> a" unfolding abc by (metis mod_0)+
  have "day_from_year (y + 1) = 365 * (y - 1970) + 365 + (y - 1968) div 4 - (y - 1900) div 100 + (y - 1600) div 400"
    by (simp add: day_from_year_def)
  also have "\<dots> = day_from_year y + (if a \<and> (\<not> b \<or> c) then 366 else 365)"
    unfolding steps abc(1) [symmetric] abc(2) [symmetric] abc(3) [symmetric] day_from_year_def
    using chain by (cases a; cases b; cases c) simp_all
  finally show ?thesis by (simp only: year_days_def leap_def abc)
qed

lemma day_from_year_mono: "y \<le> z \<Longrightarrow> day_from_year y + 365 * (z - y) \<le> day_from_year z"
proof (induction z rule: int_ge_induct)
  case (step z)
  then show ?case using year_length [of z] by (simp add: year_days_def split: if_splits)
qed simp

text \<open>\<open>YearFromTime\<close>: the largest year that starts at or before the day, searched from a year that does.\<close>

function year_up :: "int \<Rightarrow> int \<Rightarrow> int" where
  "year_up day y = (if day_from_year (y + 1) \<le> day then year_up day (y + 1) else y)"
  by pat_completeness auto
termination
proof (relation "measure (\<lambda>(day, y). nat (day - day_from_year y))")
  fix day y
  assume "day_from_year (y + 1) \<le> day"
  then show "((day, y + 1), day, y) \<in> measure (\<lambda>(day, y). nat (day - day_from_year y))"
    using year_length [of y] by (simp add: year_days_def split: if_splits)
qed simp

declare year_up.simps [simp del]

definition year_from_day :: "int \<Rightarrow> int" where
  "year_from_day day = year_up day (1970 + day div (if day < 0 then 365 else 366))"

lemma year_up_bounds: "day_from_year y \<le> day \<Longrightarrow> day_from_year (year_up day y) \<le> day \<and> day < day_from_year (year_up day y + 1)"
proof (induction day y rule: year_up.induct)
  case (1 day y)
  show ?case
  proof (cases "day_from_year (y + 1) \<le> day")
    case True
    then have "year_up day y = year_up day (y + 1)" by (subst year_up.simps) simp
    with 1 True show ?thesis by simp
  next
    case False
    then have "year_up day y = y" by (subst year_up.simps) simp
    with 1 False show ?thesis by simp
  qed
qed

lemma leap_days:
  "(k + 1) div 4 - (k + 69) div 100 + (k + 369) div 400 \<le> (if k < 0 then 0 else (k :: int))"
proof -
  define a c d where acd: "a = (k + 1) div 4" "c = (k + 69) div 100" "d = (k + 369) div 400"
  have "4 * a \<le> k + 1" "k + 69 < 100 * c + 100" "400 * d \<le> k + 369"
    unfolding acd by linarith+
  then have "400 * a \<le> 100 * k + 100" "4 * k - 124 < 400 * c" "400 * d \<le> k + 369" by linarith+
  then have "400 * a - 400 * c + 400 * d \<le> 97 * k + 592" by arith
  then have "400 * (a - c + d) \<le> 97 * k + 592" by (simp add: algebra_simps)
  moreover have "k = -1 \<or> k = 0 \<Longrightarrow> a - c + d \<le> 0" by (auto simp: acd)
  ultimately have "a - c + d \<le> (if k < 0 then 0 else k)" by (cases "k = -1 \<or> k = 0"; cases "k < 0") auto
  then show ?thesis by (simp add: acd)
qed

lemma start_year: "day_from_year (1970 + day div (if day < 0 then 365 else 366)) \<le> day"
proof (cases "day < 0")
  case True
  define k where "k = day div 365"
  have "365 * k \<le> day" "k < 0" using True by (simp_all add: k_def)
  moreover have "day_from_year (1970 + k) \<le> 365 * k"
    using leap_days [of k] \<open>k < 0\<close> by (simp add: day_from_year_def algebra_simps)
  ultimately show ?thesis using True by (simp add: k_def)
next
  case False
  define k where "k = day div 366"
  have k: "366 * k \<le> day" "0 \<le> k" using False by (simp_all add: k_def pos_imp_zdiv_nonneg_iff)
  have "day_from_year (1970 + k) \<le> 366 * k"
    using leap_days [of k] k(2) by (simp add: day_from_year_def algebra_simps)
  then show ?thesis using False k by (simp add: k_def)
qed

lemma year_from_day: "day_from_year (year_from_day day) \<le> day" "day < day_from_year (year_from_day day + 1)"
  using year_up_bounds [OF start_year] by (simp_all add: year_from_day_def)

lemma year_from_day_unique: "day_from_year y \<le> day \<Longrightarrow> day < day_from_year (y + 1) \<Longrightarrow> year_from_day day = y"
  using year_from_day [of day] day_from_year_mono [of "y + 1" "year_from_day day"] day_from_year_mono [of "year_from_day day + 1" y]
  by (cases "year_from_day day < y"; cases "y < year_from_day day") auto

section \<open>Dates\<close>

definition month_starts :: "bool \<Rightarrow> int list" where
  "month_starts leap_year =
     (if leap_year then [0, 31, 60, 91, 121, 152, 182, 213, 244, 274, 305, 335]
      else [0, 31, 59, 90, 120, 151, 181, 212, 243, 273, 304, 334])"

text \<open>Year, month from 1, day of the month from 1.\<close>

definition civil :: "int \<Rightarrow> int \<times> nat \<times> int" where
  "civil day =
     (let y = year_from_day day; starts = month_starts (leap y); n = day - day_from_year y;
          m = length (takeWhile (\<lambda>s. s \<le> n) starts)
      in (y, m, n - starts ! (m - 1) + 1))"

definition day_of_civil :: "int \<times> nat \<times> int \<Rightarrow> int" where
  "day_of_civil c = (case c of (y, m, d) \<Rightarrow> day_from_year y + month_starts (leap y) ! (m - 1) + d - 1)"

lemma civil_day: "day_of_civil (civil day) = day"
  by (simp add: civil_def day_of_civil_def Let_def)

lemma civil_range: "civil day = (y, m, d) \<Longrightarrow> 1 \<le> m \<and> m \<le> 12 \<and> 1 \<le> d \<and> d \<le> 31"
proof -
  assume c: "civil day = (y, m, d)"
  define n where "n = day - day_from_year y"
  have y: "y = year_from_day day" using c by (simp add: civil_def Let_def)
  have "0 \<le> n" "n < 366" "\<not> leap y \<Longrightarrow> n < 365"
    using year_from_day [of day] year_length [of y] by (auto simp: n_def y year_days_def split: if_splits)
  moreover have "m = length (takeWhile (\<lambda>s. s \<le> n) (month_starts (leap y)))" "d = n - month_starts (leap y) ! (m - 1) + 1"
    using c by (auto simp: civil_def Let_def n_def)
  ultimately show ?thesis by (cases "leap y") (auto simp: month_starts_def)
qed

definition padded :: "nat \<Rightarrow> nat \<Rightarrow> string" where
  "padded k n = (let ds = nat_digits n in replicate (k - length ds) (CHR ''0'') @ ds)"

definition year_text :: "int \<Rightarrow> string" where
  "year_text y = (if 0 \<le> y \<and> y \<le> 9999 then padded 4 (nat y)
     else (if y < 0 then ''-'' else ''+'') @ padded 6 (nat \<bar>y\<bar>))"

text \<open>Milliseconds of the largest date either side of the epoch.\<close>

definition MAX_TIME :: int where
  "MAX_TIME = 8640000000000000"

definition iso_text :: "int \<Rightarrow> string" where
  "iso_text t =
     (case civil (t div 86400000) of (y, m, d) \<Rightarrow>
        let ms = t mod 86400000
        in year_text y @ ''-'' @ padded 2 m @ ''-'' @ padded 2 (nat d) @ ''T'' @
           padded 2 (nat (ms div 3600000)) @ '':'' @ padded 2 (nat (ms div 60000 mod 60)) @ '':'' @
           padded 2 (nat (ms div 1000 mod 60)) @ ''.'' @ padded 3 (nat (ms mod 1000)) @ ''Z'')"

text \<open>\<open>new Date(ms).toISOString()\<close>: \<open>None\<close> where it throws, on a time that is not one.\<close>

definition toISOString :: "jsnum \<Rightarrow> string option" where
  "toISOString ms =
     (if \<not> is_finite ms then None
      else case ratio ms of (p, q) \<Rightarrow>
        let t = sgn p * (\<bar>p\<bar> div q) in if \<bar>p\<bar> \<le> MAX_TIME * q then Some (iso_text t) else None)"

section \<open>Fixed notation\<close>

text \<open>\<open>String(n)\<close>\<close>

definition number_string :: "jsnum \<Rightarrow> string" where
  "number_string n =
     (if n = NaN then ''NaN'' else if n = NFlt (inf_bits False) then ''Infinity''
      else if n = NFlt (inf_bits True) then ''-Infinity'' else number_text n)"

definition point_text :: "nat \<Rightarrow> nat \<Rightarrow> string" where
  "point_text digits n = (if digits = 0 then nat_digits n else let ds = padded (Suc digits) n; k = length ds - digits in take k ds @ ''.'' @ drop k ds)"

definition toFixed :: "jsnum \<Rightarrow> nat \<Rightarrow> string" where
  "toFixed x digits =
     (if \<not> is_finite x then number_string x
      else case ratio x of (p, q) \<Rightarrow>
        if 10 ^ 21 * q \<le> \<bar>p\<bar> then number_string x
        else (if p < 0 then ''-'' else []) @
          point_text digits (nat ((2 * \<bar>p\<bar> * 10 ^ digits + q) div (2 * q))))"

section \<open>Printing determines the day\<close>

lemma padded_digits: "list_all is_digit (padded k n)"
  by (simp add: padded_def Let_def nat_digits_digits list_all_append list_all_iff is_digit_def) (use nat_digits_digits in \<open>auto simp: list_all_iff is_digit_def\<close>)

lemma digits_value_zeros: "digits_value (replicate k (CHR ''0'') @ s) = digits_value s"
  by (induction k) (simp_all add: digits_value_def)

lemma padded_value: "digits_value (padded k n) = n"
  by (simp add: padded_def Let_def digits_value_zeros nat_digits_value)

lemma nat_digits_length: "n < 10 ^ k \<Longrightarrow> 0 < k \<Longrightarrow> length (nat_digits n) \<le> k"
proof (induction n arbitrary: k rule: nat_digits.induct)
  case (1 n)
  show ?case
  proof (cases "n < 10")
    case True
    then show ?thesis using 1 by (simp add: nat_digits.simps [of n])
  next
    case False
    then obtain j where k: "k = Suc j" "0 < j" using 1 by (cases k; cases "k - 1") auto
    then have "n div 10 < 10 ^ j" using 1 by (simp add: div_less_iff_less_mult mult.commute)
    then show ?thesis using 1 False k by (simp add: nat_digits.simps [of n])
  qed
qed

lemma padded_length: "n < 10 ^ k \<Longrightarrow> 0 < k \<Longrightarrow> length (padded k n) = k"
  using nat_digits_length [of n k] by (simp add: padded_def Let_def)

lemma padded_inject: "padded k m = padded k n \<Longrightarrow> m = n"
  by (metis padded_value)

end
