(* ===== verification/Routes.thy ===== *)
theory Routes
  imports JsValue "HOL-Library.Sublist"
begin

text \<open>
  The route table of the HTTP surface (\<open>apps/bff/src/routes.ts\<close>): the declared routes with
  the bindings they realize, the compilation of a path template to an anchored pattern, and
  the verdict on a request.  The patterns of the program are sequences of literal text and
  captured groups; a group is given by the texts it may take, and matching tries longer
  texts first.
\<close>

section \<open>Patterns\<close>

datatype piece = Lit string | Group "string \<Rightarrow> bool"

fun first_some :: "('a \<Rightarrow> 'b option) \<Rightarrow> 'a list \<Rightarrow> 'b option" where
  "first_some f [] = None"
| "first_some f (x # xs) = (case f x of Some y \<Rightarrow> Some y | None \<Rightarrow> first_some f xs)"

lemma first_some_cong [fundef_cong]:
  "xs = ys \<Longrightarrow> (\<And>x. x \<in> set ys \<Longrightarrow> f x = g x) \<Longrightarrow> first_some f xs = first_some g ys"
  by (induction xs arbitrary: ys) (auto split: option.split)

text \<open>\<open>RegExp.exec\<close>: the captured texts, or \<open>None\<close>.\<close>

fun exec :: "piece list \<Rightarrow> string \<Rightarrow> string list option" where
  "exec [] s = (if s = [] then Some [] else None)"
| "exec (Lit l # ps) s = (if take (length l) s = l then exec ps (drop (length l) s) else None)"
| "exec (Group P # ps) s =
     first_some (\<lambda>n. if P (take n s) then map_option (Cons (take n s)) (exec ps (drop n s)) else None)
       (rev [0..<Suc (length s)])"

text \<open>\<open>[^/]+\<close>, \<open>.+\<close> (which stops at a line terminator) and \<open>(a|b)\<close>.\<close>

definition segment :: piece where
  "segment = Group (\<lambda>s. s \<noteq> [] \<and> CHR ''/'' \<notin> set s)"

definition line_terminators :: "string list" where
  "line_terminators = [[char_of (10 :: nat)], [char_of (13 :: nat)],
     map char_of [226 :: nat, 128, 168], map char_of [226 :: nat, 128, 169]]"

definition anything :: piece where
  "anything = Group (\<lambda>s. s \<noteq> [] \<and> list_all (\<lambda>t. \<not> sublist t s) line_terminators)"

definition one_of :: "string list \<Rightarrow> piece" where
  "one_of ss = Group (\<lambda>s. s \<in> set ss)"

section \<open>The table\<close>

datatype ApiMethod = GET | POST | PUT | DELETE

fun method_name :: "ApiMethod \<Rightarrow> string" where
  "method_name GET = ''GET''"
| "method_name POST = ''POST''"
| "method_name PUT = ''PUT''"
| "method_name DELETE = ''DELETE''"

record ApiRoute =
  route_method :: ApiMethod
  route_path :: string
  route_bindings :: "string list"

definition r :: "ApiMethod \<Rightarrow> string \<Rightarrow> string list \<Rightarrow> ApiRoute" where
  "r meth path ids = \<lparr>route_method = meth, route_path = path, route_bindings = ids\<rparr>"

definition API_ROUTES :: "ApiRoute list" where
  "API_ROUTES = [
     r GET ''/api/entity/:kind/:id+'' [''entity.header'', ''entity.info'', ''entity.recentDecisions'',
       ''entity.capabilities'', ''objects.detail''],
     r POST ''/api/entity/:kind/:id+/isolate'' [''entity.isolate''],
     r GET ''/api/logs'' [''logs.query''],
     r GET ''/api/logs/explain/:id+'' [''logs.explain''],
     r POST ''/api/logs/export'' [''logs.export''],
     r GET ''/api/overview/sankey'' [''overview.graph'', ''vtz.riskBand''],
     r GET ''/api/overview/entity-connections'' [''overview.entityConnections''],
     r GET ''/api/overview/members'' [''overview.members''],
     r GET ''/api/vtz/tree'' [''vtz.tree''],
     r GET ''/api/vtz/detail'' [''vtz.detail''],
     r GET ''/api/vtz/convergence'' [''policies.convergence''],
     r POST ''/api/vtz'' [''vtz.create''],
     r PUT ''/api/vtz/:id'' [''vtz.edit''],
     r DELETE ''/api/vtz/:id'' [''vtz.delete''],
     r POST ''/api/vtz/:id/rescope'' [''vtz.rescope''],
     r POST ''/api/vtz/:id/distribute'' [''policies.distribute''],
     r GET ''/api/users'' [''users.list'', ''users.detail''],
     r GET ''/api/users/groups'' [''groups.list'', ''groups.detail''],
     r POST ''/api/users'' [''users.create''],
     r POST ''/api/users/edit'' [''users.edit''],
     r POST ''/api/users/status'' [''users.setStatus''],
     r POST ''/api/users/groups'' [''groups.create''],
     r POST ''/api/users/groups/edit'' [''groups.edit''],
     r POST ''/api/users/groups/members'' [''groups.setMembers''],
     r GET ''/api/idam/connectors'' [''idam.connectors''],
     r POST ''/api/idam/sync'' [''idam.sync''],
     r POST ''/api/idam/connect'' [''idam.connect''],
     r POST ''/api/idam/secret'' [''idam.secret''],
     r POST ''/api/idam/configure'' [''idam.configure''],
     r GET ''/api/objects'' [''objects.list''],
     r GET ''/api/objects/detail'' [''objects.detail''],
     r POST ''/api/objects'' [''objects.create''],
     r POST ''/api/objects/edit'' [''objects.edit''],
     r POST ''/api/objects/delete'' [''objects.delete''],
     r GET ''/api/policies'' [''policies.byZone''],
     r GET ''/api/policies/detail'' [''policies.detail''],
     r POST ''/api/policies'' [''policies.create''],
     r POST ''/api/policies/edit'' [''policies.edit''],
     r POST ''/api/policies/publish'' [''policies.publish''],
     r POST ''/api/policies/delete'' [''policies.delete''],
     r GET ''/api/soc/kpis'' [''soc.kpis''],
     r GET ''/api/soc/incidents'' [''soc.incidents''],
     r GET ''/api/soc/incident'' [''soc.incident.detail'', ''soc.plan.propose''],
     r GET ''/api/soc/narrative'' [''soc.narrative''],
     r GET ''/api/soc/telemetry'' [''soc.telemetry.raw''],
     r GET ''/api/soc/audit'' [''soc.audit.trail''],
     r GET ''/api/soc/notes'' [''soc.notes''],
     r GET ''/api/soc/impact'' [''soc.impact''],
     r GET ''/api/soc/report'' [''soc.report''],
     r GET ''/api/soc/weekly'' [''soc.weekly''],
     r POST ''/api/soc/plan/approve'' [''soc.plan.approve''],
     r POST ''/api/soc/plan/modify'' [''soc.plan.modify''],
     r POST ''/api/soc/generate'' [''soc.cognition.run''],
     r POST ''/api/soc/act'' [''soc.case.assign'', ''soc.case.ack'', ''soc.case.note'', ''soc.case.close''],
     r POST ''/api/soc/disposition'' [''soc.disposition''],
     r GET ''/api/settings'' [''settings.read''],
     r POST ''/api/settings'' [''settings.commit''],
     r GET ''/api/settings/console-rbac'' [''settings.consoleRbac''],
     r GET ''/api/settings/reports'' [''settings.reports''],
     r GET ''/api/model-access'' [''settings.modelAccess''],
     r PUT ''/api/model-access/grant'' [''settings.modelAccessGrant''],
     r GET ''/api/settings/security-session'' [''settings.securitySession''],
     r POST ''/api/settings/propose'' [''settings.propose''],
     r GET ''/api/settings/approvals'' [''settings.approvals''],
     r POST ''/api/settings/approvals/:proposal/approve'' [''settings.approve''],
     r GET ''/api/settings/history'' [''settings.history''],
     r POST ''/api/settings/rollback'' [''settings.rollback''],
     r GET ''/api/settings/soc'' [''soc.settings.read''],
     r POST ''/api/settings/soc'' [''soc.settings.commit'']
]"

text \<open>One segment of a template; the escapes of the source make the others literal.\<close>

definition segment_piece :: "string \<Rightarrow> piece" where
  "segment_piece s =
     (if prefix '':'' s \<and> suffix ''+'' s then anything
      else if prefix '':'' s then segment
      else Lit s)"

fun joined :: "piece list \<Rightarrow> piece list" where
  "joined [] = []"
| "joined [p] = [p]"
| "joined (p # ps) = p # Lit ''/'' # joined ps"

definition templatePattern :: "string \<Rightarrow> piece list" where
  "templatePattern template = joined (map segment_piece (split_on CHR ''/'' template))"

definition COMPILED :: "(ApiRoute \<times> piece list) list" where
  "COMPILED = map (\<lambda>route. (route, templatePattern (route_path route))) API_ROUTES"

datatype RouteVerdict = Declared | MethodOnly | Undeclared

fun verdict_loop :: "string \<Rightarrow> string \<Rightarrow> (ApiRoute \<times> piece list) list \<Rightarrow> bool \<Rightarrow> RouteVerdict" where
  "verdict_loop meth path [] pathMatched = (if pathMatched then MethodOnly else Undeclared)"
| "verdict_loop meth path ((route, pattern) # rest) pathMatched =
     (if exec pattern path = None then verdict_loop meth path rest pathMatched
      else if method_name (route_method route) = meth then Declared
      else verdict_loop meth path rest True)"

definition apiRouteVerdict :: "string \<Rightarrow> string \<Rightarrow> RouteVerdict" where
  "apiRouteVerdict meth path = verdict_loop meth path COMPILED False"

section \<open>What a match is\<close>

text \<open>
  The texts of the groups of a pattern laid out between its literals: the reference for
  matching.
\<close>

fun laid_out :: "piece list \<Rightarrow> string list \<Rightarrow> string option" where
  "laid_out [] [] = Some []"
| "laid_out (Lit l # ps) gs = map_option (\<lambda>s. l @ s) (laid_out ps gs)"
| "laid_out (Group P # ps) (g # gs) = (if P g then map_option (\<lambda>s. g @ s) (laid_out ps gs) else None)"
| "laid_out _ _ = None"

lemma first_some_Some: "first_some f xs = Some y \<Longrightarrow> \<exists>x\<in>set xs. f x = Some y"
  by (induction xs) (auto split: option.splits)

lemma first_some_None: "first_some f xs = None \<longleftrightarrow> (\<forall>x\<in>set xs. f x = None)"
  by (induction xs) (auto split: option.splits)

lemma exec_laid_out: "exec ps s = Some gs \<Longrightarrow> laid_out ps gs = Some s"
proof (induction ps arbitrary: s gs)
  case Nil
  then show ?case by (simp split: if_splits)
next
  case (Cons p ps)
  show ?case
  proof (cases p)
    case (Lit l)
    with Cons.prems have l: "take (length l) s = l" and e: "exec ps (drop (length l) s) = Some gs"
      by (auto split: if_splits)
    have "l @ drop (length l) s = s" using append_take_drop_id [of "length l" s] l by simp
    with Cons.IH [OF e] Lit show ?thesis by simp
  next
    case (Group P)
    with Cons.prems obtain n hs where P: "P (take n s)" and e: "exec ps (drop n s) = Some hs"
      and gs: "gs = take n s # hs"
      by (auto dest!: first_some_Some simp del: upt_Suc split: if_splits)
    from Cons.IH [OF e] Group P gs show ?thesis by simp
  qed
qed

lemma laid_out_exec: "laid_out ps gs = Some s \<Longrightarrow> exec ps s \<noteq> None"
proof (induction ps gs arbitrary: s rule: laid_out.induct)
  case (2 l ps gs)
  then show ?case by auto
next
  case (3 P ps g gs)
  then obtain t where P: "P g" and t: "laid_out ps gs = Some t" and s: "s = g @ t"
    by (auto split: if_splits)
  from 3 P t have "exec ps t \<noteq> None" by simp
  with P s show ?case
    by (auto simp: first_some_None simp del: upt_Suc intro!: bexI [of _ "length g"])
qed auto

lemma exec_None: "exec ps s = None \<longleftrightarrow> (\<forall>gs. laid_out ps gs \<noteq> Some s)"
  using exec_laid_out laid_out_exec by (metis not_Some_eq)

end
