(* ===== verification/SocCommands.thy ===== *)
theory SocCommands
  imports Tags Rbac WireDto
begin

text \<open>
  The request bodies of the SOC surface, narrowed before anything reaches the engine
  (\<open>packages/contracts/src/soc.ts\<close>): response steps, case acts, dispositions and SOC settings, with
  the wire requests they become.
\<close>

section \<open>The contract of a narrower\<close>

text \<open>A field that may be absent: absent, or present and well-formed, or malformed.\<close>

definition optional :: "(jsval \<Rightarrow> 'a option) \<Rightarrow> jsval \<Rightarrow> 'a option option" where
  "optional narrow v = (if v = JUndef then Some None else map_option Some (narrow v))"

text \<open>
  A narrower reads a command off a request body.  Its contract: it accepts nothing but
  well-formed commands, and every well-formed command, written out as a body, is accepted
  as that command.
\<close>

locale authoring =
  fixes narrow :: "jsval \<Rightarrow> 'a option"
    and render :: "'a \<Rightarrow> jsval"
    and ok :: "'a \<Rightarrow> bool"
  assumes narrow_ok: "narrow v = Some a \<Longrightarrow> ok a"
    and narrow_render: "ok a \<Longrightarrow> narrow (render a) = Some a"
    and render_present: "render a \<noteq> JUndef"
begin

lemma authored: "(\<exists>v. narrow v = Some a) \<longleftrightarrow> ok a"
  using narrow_ok narrow_render by blast

lemma optional_ok: "optional narrow v = Some x \<Longrightarrow> pred_option ok x"
  by (auto simp: optional_def narrow_ok split: if_splits)

lemma optional_render:
  "pred_option ok x \<Longrightarrow> optional narrow (case x of None \<Rightarrow> JUndef | Some a \<Rightarrow> render a) = Some x"
  by (cases x) (simp_all add: optional_def narrow_render render_present)

lemma traverse_ok: "traverse narrow vs = Some as \<Longrightarrow> list_all ok as"
  by (induction vs arbitrary: as) (auto simp: narrow_ok split: option.splits)

lemma traverse_render: "list_all ok as \<Longrightarrow> traverse narrow (map render as) = Some as"
  by (induction as) (simp_all add: narrow_render)

end

text \<open>An object with the properties that are present.\<close>

definition present :: "(string \<times> jsval) list \<Rightarrow> jsval" where
  "present fs = JObj (filter (\<lambda>(k, v). v \<noteq> JUndef) fs)"

lemma map_of_present:
  "distinct (map fst fs) \<Longrightarrow>
     map_of (filter (\<lambda>(k, v). v \<noteq> JUndef) fs) k = (case map_of fs k of Some v \<Rightarrow> if v = JUndef then None else Some v | None \<Rightarrow> None)"
proof (induction fs)
  case (Cons f fs)
  obtain j v where f: "f = (j, v)" by (cases f)
  from Cons.prems have "j \<notin> fst ` set fs" unfolding f by simp
  then have "map_of fs j = None" by (simp add: map_of_eq_None_iff)
  with Cons f show ?case by auto
qed simp

lemma get_present: "distinct (map fst fs) \<Longrightarrow> get_prop (present fs) k = (case map_of fs k of Some v \<Rightarrow> v | None \<Rightarrow> JUndef)"
  by (simp add: present_def get_prop_def map_of_present split: option.split)

lemma present_object [simp]: "is_object (present fs)" "present fs \<noteq> JUndef"
  by (simp_all add: present_def is_object_def)

section \<open>Response steps\<close>

datatype ResponseAction = QuarantineStep | DenyStep

fun response_action_tag :: "ResponseAction \<Rightarrow> string" where
  "response_action_tag QuarantineStep = ''quarantine''"
| "response_action_tag DenyStep = ''deny''"

definition RESPONSE_ACTIONS :: "ResponseAction list" where
  "RESPONSE_ACTIONS = [QuarantineStep, DenyStep]"

record ResponseStepDraft =
  rd_title :: string
  rd_action :: "ResponseAction option"

definition step_draft :: "jsval \<Rightarrow> ResponseStepDraft option" where
  "step_draft entry =
     (if \<not> is_object entry then None
      else let title = (case get_prop entry ''title'' of JStr s \<Rightarrow> trim s | _ \<Rightarrow> []);
               rawAction = get_prop entry ''action''
           in if title = [] then None
              else if nullish rawAction \<or> rawAction = JStr [] then Some \<lparr>rd_title = title, rd_action = None\<rparr>
              else do {
                s \<leftarrow> as_string rawAction;
                action \<leftarrow> narrow_in RESPONSE_ACTIONS response_action_tag (toLowerCase s);
                Some \<lparr>rd_title = title, rd_action = Some action\<rparr>
              })"

definition toResponseStepDrafts :: "jsval \<Rightarrow> ResponseStepDraft list option" where
  "toResponseStepDrafts raw = Option.bind (as_array raw) (traverse step_draft)"

section \<open>Case acts\<close>

datatype CaseAct = Assigned | Acked | Noted | Closed

fun case_act_tag :: "CaseAct \<Rightarrow> string" where
  "case_act_tag Assigned = ''assigned''"
| "case_act_tag Acked = ''acked''"
| "case_act_tag Noted = ''noted''"
| "case_act_tag Closed = ''closed''"

definition CASE_ACTS :: "CaseAct list" where
  "CASE_ACTS = [Assigned, Acked, Noted, Closed]"

datatype CaseActDraft = AssignTo string | Acknowledge | AddNote string | CloseCase

text \<open>\<open>/^[0-9a-f]{8}-[0-9a-f]{4}-[0-9a-f]{4}-[0-9a-f]{4}-[0-9a-f]{12}$/i\<close>\<close>

definition hex_char :: "char \<Rightarrow> bool" where
  "hex_char c \<longleftrightarrow> c \<in> set ''0123456789abcdefABCDEF''"

definition uuid_shape :: "string \<Rightarrow> bool" where
  "uuid_shape s \<longleftrightarrow>
     map length (split_on CHR ''-'' s) = [8, 4, 4, 4, 12] \<and> list_all (list_all hex_char) (split_on CHR ''-'' s)"

definition isPrincipalId :: "string \<Rightarrow> bool" where
  "isPrincipalId s = uuid_shape (trim s)"

definition case_act_draft :: "CaseAct \<Rightarrow> jsval \<Rightarrow> jsval \<Rightarrow> CaseActDraft option" where
  "case_act_draft act assignee note = (case act of
       Assigned \<Rightarrow> (case assignee of
           JStr a \<Rightarrow> if isPrincipalId a \<and> note = JUndef then Some (AssignTo (toLowerCase (trim a))) else None
         | _ \<Rightarrow> None)
     | Noted \<Rightarrow> (case note of
           JStr n \<Rightarrow> if trim n \<noteq> [] \<and> assignee = JUndef then Some (AddNote n) else None
         | _ \<Rightarrow> None)
     | Acked \<Rightarrow> if assignee = JUndef \<and> note = JUndef then Some Acknowledge else None
     | Closed \<Rightarrow> if assignee = JUndef \<and> note = JUndef then Some CloseCase else None)"

definition toCaseActDraft :: "jsval \<Rightarrow> CaseActDraft option" where
  "toCaseActDraft raw =
     (if \<not> is_object raw then None
      else do {
        act \<leftarrow> narrow_string (narrow_in CASE_ACTS case_act_tag) (get_prop raw ''act'');
        case_act_draft act (get_prop raw ''assignee'') (get_prop raw ''note'')
      })"

fun draft_act :: "CaseActDraft \<Rightarrow> CaseAct" where
  "draft_act (AssignTo _) = Assigned"
| "draft_act Acknowledge = Acked"
| "draft_act (AddNote _) = Noted"
| "draft_act CloseCase = Closed"

definition toWireCaseAct :: "CaseActDraft \<Rightarrow> string \<Rightarrow> jsnum \<Rightarrow> WireSocIncidentAct" where
  "toWireCaseAct draft subject requestId =
     \<lparr>request_id = requestId, operator = None, incident = subject, ia_act = case_act_tag (draft_act draft),
      ia_assignee = (case draft of AssignTo a \<Rightarrow> Some a | _ \<Rightarrow> None),
      ia_note = (case draft of AddNote n \<Rightarrow> Some n | _ \<Rightarrow> None)\<rparr>"

section \<open>Dispositions\<close>

datatype RemediationAction = Reimage | CredentialRotation | Patch | IsolateHost | Remove

fun remediation_tag :: "RemediationAction \<Rightarrow> string" where
  "remediation_tag Reimage = ''reimage''"
| "remediation_tag CredentialRotation = ''credential_rotation''"
| "remediation_tag Patch = ''patch''"
| "remediation_tag IsolateHost = ''isolate''"
| "remediation_tag Remove = ''remove''"

definition REMEDIATION_ACTIONS :: "RemediationAction list" where
  "REMEDIATION_ACTIONS = [Reimage, CredentialRotation, Patch, IsolateHost, Remove]"

datatype Disposition =
    FalsePositive | BenignAuthorized | TruePositiveRemediated | TruePositiveBlocked
  | TruePositiveRiskAccepted | Duplicate | Undetermined

fun disposition_tag :: "Disposition \<Rightarrow> string" where
  "disposition_tag FalsePositive = ''false_positive''"
| "disposition_tag BenignAuthorized = ''benign_authorized''"
| "disposition_tag TruePositiveRemediated = ''true_positive_remediated''"
| "disposition_tag TruePositiveBlocked = ''true_positive_blocked''"
| "disposition_tag TruePositiveRiskAccepted = ''true_positive_risk_accepted''"
| "disposition_tag Duplicate = ''duplicate''"
| "disposition_tag Undetermined = ''undetermined''"

definition DISPOSITIONS :: "Disposition list" where
  "DISPOSITIONS = [FalsePositive, BenignAuthorized, TruePositiveRemediated, TruePositiveBlocked,
     TruePositiveRiskAccepted, Duplicate, Undetermined]"

datatype DispositionDraft =
    DraftFalsePositive string
  | DraftBenignAuthorized string
  | DraftRemediated RemediationAction
  | DraftBlocked string
  | DraftRiskAccepted string jsnum
  | DraftDuplicate string
  | DraftUndetermined

definition requiredText :: "jsval \<Rightarrow> string \<Rightarrow> string option" where
  "requiredText body key = (case get_prop body key of
       JStr s \<Rightarrow> if trim s \<noteq> [] then Some (trim s) else None | _ \<Rightarrow> None)"

text \<open>\<open>typeof v === 'number' && Number.isInteger(v)\<close>\<close>

definition as_integer :: "jsval \<Rightarrow> jsnum option" where
  "as_integer v = (case v of JNum n \<Rightarrow> if isInteger n then Some n else None | _ \<Rightarrow> None)"

definition disposition_draft :: "Disposition \<Rightarrow> jsval \<Rightarrow> DispositionDraft option" where
  "disposition_draft d body = (case d of
       FalsePositive \<Rightarrow> map_option DraftFalsePositive (requiredText body ''justification'')
     | BenignAuthorized \<Rightarrow> map_option DraftBenignAuthorized (requiredText body ''authorizedBy'')
     | TruePositiveRemediated \<Rightarrow> do {
         raw \<leftarrow> requiredText body ''actionTaken'';
         action \<leftarrow> narrow_in REMEDIATION_ACTIONS remediation_tag (toLowerCase raw);
         Some (DraftRemediated action)
       }
     | TruePositiveBlocked \<Rightarrow> map_option DraftBlocked (requiredText body ''blockingControl'')
     | TruePositiveRiskAccepted \<Rightarrow> do {
         party \<leftarrow> requiredText body ''acceptingParty'';
         seconds \<leftarrow> as_integer (get_prop body ''expirySeconds'');
         if toBigInt seconds \<le> 0 then None else Some (DraftRiskAccepted party seconds)
       }
     | Duplicate \<Rightarrow> map_option DraftDuplicate (requiredText body ''predecessor'')
     | Undetermined \<Rightarrow> Some DraftUndetermined)"

definition toDispositionDraft :: "jsval \<Rightarrow> DispositionDraft option" where
  "toDispositionDraft raw =
     (if \<not> is_object raw then None
      else do {
        d \<leftarrow> narrow_string (narrow_in DISPOSITIONS disposition_tag) (get_prop raw ''disposition'');
        disposition_draft d raw
      })"

fun draft_disposition :: "DispositionDraft \<Rightarrow> Disposition" where
  "draft_disposition (DraftFalsePositive _) = FalsePositive"
| "draft_disposition (DraftBenignAuthorized _) = BenignAuthorized"
| "draft_disposition (DraftRemediated _) = TruePositiveRemediated"
| "draft_disposition (DraftBlocked _) = TruePositiveBlocked"
| "draft_disposition (DraftRiskAccepted _ _) = TruePositiveRiskAccepted"
| "draft_disposition (DraftDuplicate _) = Duplicate"
| "draft_disposition DraftUndetermined = Undetermined"

definition toWireDisposition :: "DispositionDraft \<Rightarrow> string \<Rightarrow> jsnum \<Rightarrow> WireSocDisposition" where
  "toWireDisposition draft subject requestId =
     \<lparr>request_id = requestId, operator = None, incident = subject,
      sd_disposition = disposition_tag (draft_disposition draft),
      sd_justification = (case draft of DraftFalsePositive s \<Rightarrow> Some s | _ \<Rightarrow> None),
      sd_authorized_by = (case draft of DraftBenignAuthorized s \<Rightarrow> Some s | _ \<Rightarrow> None),
      sd_action_taken = (case draft of DraftRemediated a \<Rightarrow> Some (remediation_tag a) | _ \<Rightarrow> None),
      sd_blocking_control = (case draft of DraftBlocked s \<Rightarrow> Some s | _ \<Rightarrow> None),
      sd_accepting_party = (case draft of DraftRiskAccepted p _ \<Rightarrow> Some p | _ \<Rightarrow> None),
      sd_expiry_seconds = (case draft of DraftRiskAccepted _ n \<Rightarrow> Some n | _ \<Rightarrow> None),
      sd_predecessor = (case draft of DraftDuplicate s \<Rightarrow> Some s | _ \<Rightarrow> None)\<rparr>"

section \<open>SOC settings\<close>

datatype SiemVendor = Splunk | Sentinel | Qradar | Elastic | Chronicle

fun siem_vendor_tag :: "SiemVendor \<Rightarrow> string" where
  "siem_vendor_tag Splunk = ''splunk''"
| "siem_vendor_tag Sentinel = ''sentinel''"
| "siem_vendor_tag Qradar = ''qradar''"
| "siem_vendor_tag Elastic = ''elastic''"
| "siem_vendor_tag Chronicle = ''chronicle''"

definition SIEM_VENDORS :: "SiemVendor list" where
  "SIEM_VENDORS = [Splunk, Sentinel, Qradar, Elastic, Chronicle]"

datatype ClassificationTag =
  TagUnclassified | TagInternal | TagConfidential | TagRestricted | TagSecret

fun classification_tag :: "ClassificationTag \<Rightarrow> string" where
  "classification_tag TagUnclassified = ''unclassified''"
| "classification_tag TagInternal = ''internal''"
| "classification_tag TagConfidential = ''confidential''"
| "classification_tag TagRestricted = ''restricted''"
| "classification_tag TagSecret = ''secret''"

definition CLASSIFICATION_TAGS :: "ClassificationTag list" where
  "CLASSIFICATION_TAGS = [TagUnclassified, TagInternal, TagConfidential, TagRestricted, TagSecret]"

record SocTierSettings =
  t_pLowMilli :: jsnum
  t_pHighMilli :: jsnum

record SiemWritebackSettings =
  w_enabled :: bool
  w_vendor :: SiemVendor
  w_host :: string
  w_stream :: string
  w_caseUrlBase :: string
  w_ceiling :: ClassificationTag

record SocSettingsPatch =
  p_tiers :: "SocTierSettings option"
  p_siemWriteback :: "SiemWritebackSettings option"

definition milli :: "jsval \<Rightarrow> jsnum option" where
  "milli v = do { n \<leftarrow> as_integer v; if 0 \<le> toBigInt n \<and> toBigInt n \<le> 65535 then Some n else None }"

definition tier_patch :: "jsval \<Rightarrow> SocTierSettings option" where
  "tier_patch t =
     (if \<not> is_object t then None
      else do {
        low \<leftarrow> milli (get_prop t ''pLowMilli'');
        high \<leftarrow> milli (get_prop t ''pHighMilli'');
        Some \<lparr>t_pLowMilli = low, t_pHighMilli = high\<rparr>
      })"

definition siem_patch :: "jsval \<Rightarrow> SiemWritebackSettings option" where
  "siem_patch w =
     (if \<not> is_object w then None
      else do {
        vendor \<leftarrow> narrow_string (narrow_in SIEM_VENDORS siem_vendor_tag) (get_prop w ''vendor'');
        ceiling \<leftarrow> narrow_string (narrow_in CLASSIFICATION_TAGS classification_tag) (get_prop w ''ceiling'');
        enabled \<leftarrow> as_bool (get_prop w ''enabled'');
        host \<leftarrow> as_string (get_prop w ''host'');
        stream \<leftarrow> as_string (get_prop w ''stream'');
        caseUrlBase \<leftarrow> as_string (get_prop w ''caseUrlBase'');
        Some \<lparr>w_enabled = enabled, w_vendor = vendor, w_host = host, w_stream = stream,
              w_caseUrlBase = caseUrlBase, w_ceiling = ceiling\<rparr>
      })"

definition toSocSettingsPatch :: "jsval \<Rightarrow> SocSettingsPatch option" where
  "toSocSettingsPatch raw =
     (if \<not> is_object raw then None
      else do {
        tiers \<leftarrow> optional tier_patch (get_prop raw ''tiers'');
        siem \<leftarrow> optional siem_patch (get_prop raw ''siemWriteback'');
        Some \<lparr>p_tiers = tiers, p_siemWriteback = siem\<rparr>
      })"

definition toWireSocSettingsCommitFields ::
    "SocSettingsPatch \<Rightarrow> WireSocTierSettings option \<times> WireSiemWritebackSettings option" where
  "toWireSocSettingsCommitFields patch =
     (map_option (\<lambda>t. \<lparr>ti_p_low_milli = t_pLowMilli t, ti_p_high_milli = t_pHighMilli t\<rparr>) (p_tiers patch),
      map_option (\<lambda>w. \<lparr>sm_enabled = w_enabled w, sm_vendor = siem_vendor_tag (w_vendor w), sm_host = w_host w,
         sm_stream = w_stream w, sm_case_url_base = w_caseUrlBase w,
         sm_ceiling = classification_tag (w_ceiling w)\<rparr>) (p_siemWriteback patch))"

section \<open>The vocabularies\<close>

interpretation response_action: tag_list RESPONSE_ACTIONS response_action_tag
proof
  show "a \<in> set RESPONSE_ACTIONS" for a by (cases a) (simp_all add: RESPONSE_ACTIONS_def)
qed (simp add: RESPONSE_ACTIONS_def)

interpretation case_act: tag_list CASE_ACTS case_act_tag
proof
  show "a \<in> set CASE_ACTS" for a by (cases a) (simp_all add: CASE_ACTS_def)
qed (simp add: CASE_ACTS_def)

interpretation remediation: tag_list REMEDIATION_ACTIONS remediation_tag
proof
  show "a \<in> set REMEDIATION_ACTIONS" for a by (cases a) (simp_all add: REMEDIATION_ACTIONS_def)
qed (simp add: REMEDIATION_ACTIONS_def)

interpretation disposition: tag_list DISPOSITIONS disposition_tag
proof
  show "a \<in> set DISPOSITIONS" for a by (cases a) (simp_all add: DISPOSITIONS_def)
qed (simp add: DISPOSITIONS_def)

interpretation siem_vendor: tag_list SIEM_VENDORS siem_vendor_tag
proof
  show "a \<in> set SIEM_VENDORS" for a by (cases a) (simp_all add: SIEM_VENDORS_def)
qed (simp add: SIEM_VENDORS_def)

interpretation classification: tag_list CLASSIFICATION_TAGS classification_tag
proof
  show "a \<in> set CLASSIFICATION_TAGS" for a by (cases a) (simp_all add: CLASSIFICATION_TAGS_def)
qed (simp add: CLASSIFICATION_TAGS_def)

section \<open>Principal identifiers\<close>

lemma toLowerCase_ascii: "list_all (\<lambda>c. of_char c < (128 :: nat)) s \<Longrightarrow> toLowerCase s = map lower_char s"
  by (induction s rule: toLowerCase.induct) (auto simp: kelvin_def)

lemma hex_lower: "list_all (\<lambda>c. hex_char (lower_char c) \<and> lower_char c \<noteq> CHR ''-'' \<and> lower_char (lower_char c) = lower_char c \<and>
    of_char c < (128 :: nat) \<and> visible [c]) ''0123456789abcdefABCDEF''"
  by code_simp

lemma lower_dash: "lower_char CHR ''-'' = CHR ''-''" "of_char CHR ''-'' < (128 :: nat)"
  by code_simp+

lemma hex_char_lower:
  assumes "hex_char c"
  shows "hex_char (lower_char c)" "lower_char c \<noteq> CHR ''-''" "lower_char (lower_char c) = lower_char c"
    "of_char c < (128 :: nat)" "visible (c # s)"
proof -
  have "c \<in> set ''0123456789abcdefABCDEF''" using assms unfolding hex_char_def .
  then have "hex_char (lower_char c) \<and> lower_char c \<noteq> CHR ''-'' \<and> lower_char (lower_char c) = lower_char c \<and>
      of_char c < (128 :: nat) \<and> visible [c]"
    using hex_lower unfolding list_all_iff by blast
  then show "hex_char (lower_char c)" "lower_char c \<noteq> CHR ''-''" "lower_char (lower_char c) = lower_char c"
    "of_char c < (128 :: nat)" "visible (c # s)"
    by (simp_all add: visible_def)
qed

lemma split_on_map:
  "(\<And>c. c \<in> set s \<Longrightarrow> f c = d \<longleftrightarrow> c = d) \<Longrightarrow> split_on d (map f s) = map (map f) (split_on d s)"
  by (induction s) (auto split: list.splits)

lemma in_split_on: "c \<in> set s \<Longrightarrow> c = d \<or> (\<exists>p \<in> set (split_on d s). c \<in> set p)"
  by (induction s) (auto split: list.splits if_splits)

lemma uuid_chars: "uuid_shape s \<Longrightarrow> c \<in> set s \<Longrightarrow> hex_char c \<or> c = CHR ''-''"
  using in_split_on [of c s "CHR ''-''"] by (auto simp: uuid_shape_def list_all_iff)

lemma uuid_lower:
  assumes "uuid_shape s"
  shows "toLowerCase s = map lower_char s" "uuid_shape (toLowerCase s)" "toLowerCase (toLowerCase s) = toLowerCase s"
proof -
  have low: "list_all (\<lambda>c. of_char c < (128 :: nat)) s"
    unfolding list_all_iff using uuid_chars [OF assms] hex_char_lower(4) lower_dash(2) by metis
  then show 1: "toLowerCase s = map lower_char s" by (rule toLowerCase_ascii)
  have "split_on CHR ''-'' (map lower_char s) = map (map lower_char) (split_on CHR ''-'' s)"
    using uuid_chars [OF assms] hex_char_lower(2) lower_dash(1) by (intro split_on_map) auto
  with assms show 2: "uuid_shape (toLowerCase s)"
    unfolding 1 by (auto simp: uuid_shape_def list_all_iff comp_def hex_char_lower(1))
  have "list_all (\<lambda>c. of_char c < (128 :: nat)) (map lower_char s)"
    unfolding list_all_iff using uuid_chars [OF 2] hex_char_lower(4) lower_dash(2) unfolding 1 by metis
  then have "toLowerCase (map lower_char s) = map lower_char (map lower_char s)" by (rule toLowerCase_ascii)
  also have "\<dots> = map lower_char s"
    unfolding map_map comp_def map_eq_conv using uuid_chars [OF assms] hex_char_lower(3) lower_dash(1) by metis
  finally show "toLowerCase (toLowerCase s) = toLowerCase s" unfolding 1 .
qed

lemma split_on_join:
  "split_on d s = [p] \<Longrightarrow> s = p"
  "split_on d s = p # q # ps \<Longrightarrow> \<exists>u. s = p @ d # u \<and> split_on d u = q # ps"
proof -
  show "split_on d s = [p] \<Longrightarrow> s = p"
    by (induction s arbitrary: p) (auto split: list.splits if_splits)
  show "split_on d s = p # q # ps \<Longrightarrow> \<exists>u. s = p @ d # u \<and> split_on d u = q # ps"
    by (induction s arbitrary: p) (auto split: list.splits if_splits)
qed

lemma uuid_trim:
  assumes "uuid_shape s"
  shows "trim s = s"
proof -
  from assms obtain a b c d e where ps: "split_on CHR ''-'' s = [a, b, c, d, e]"
    and len: "length a = 8" "length e = 12" and hex: "list_all hex_char a" "list_all hex_char e"
    by (auto simp: uuid_shape_def length_Suc_conv map_eq_Cons_conv)
  from ps obtain u where u: "s = a @ CHR ''-'' # u" "split_on CHR ''-'' u = [b, c, d, e]"
    using split_on_join(2) by blast
  then obtain v where v: "u = b @ CHR ''-'' # v" "split_on CHR ''-'' v = [c, d, e]"
    using split_on_join(2) by blast
  then obtain w where w: "v = c @ CHR ''-'' # w" "split_on CHR ''-'' w = [d, e]"
    using split_on_join(2) by blast
  then obtain x where x: "w = d @ CHR ''-'' # x" "split_on CHR ''-'' x = [e]"
    using split_on_join(2) by blast
  from x(2) have "x = e" by (rule split_on_join(1))
  obtain h a' where a: "a = h # a'" using len by (cases a) auto
  obtain e' l where e: "e = e' @ [l]" using len by (cases e rule: rev_cases) auto
  have "visible s" using u(1) a hex hex_char_lower(5) by simp
  moreover have "visible (rev s)" using u(1) v(1) w(1) x(1) \<open>x = e\<close> e hex hex_char_lower(5) by simp
  ultimately show ?thesis by (rule visible_trim)
qed

section \<open>Which commands can be authored\<close>

fun case_draft_ok :: "CaseActDraft \<Rightarrow> bool" where
  "case_draft_ok (AssignTo a) = (uuid_shape a \<and> toLowerCase a = a)"
| "case_draft_ok (AddNote n) = (trim n \<noteq> [])"
| "case_draft_ok _ = True"

definition case_json :: "CaseActDraft \<Rightarrow> jsval" where
  "case_json d = JObj ((''act'', JStr (case_act_tag (draft_act d))) #
     (case d of AssignTo a \<Rightarrow> [(''assignee'', JStr a)] | AddNote n \<Rightarrow> [(''note'', JStr n)] | _ \<Rightarrow> []))"

definition clean :: "string \<Rightarrow> bool" where
  "clean s \<longleftrightarrow> s \<noteq> [] \<and> trim s = s"

fun disposition_draft_ok :: "DispositionDraft \<Rightarrow> bool" where
  "disposition_draft_ok (DraftFalsePositive s) = clean s"
| "disposition_draft_ok (DraftBenignAuthorized s) = clean s"
| "disposition_draft_ok (DraftRemediated a) = True"
| "disposition_draft_ok (DraftBlocked s) = clean s"
| "disposition_draft_ok (DraftRiskAccepted p n) = (clean p \<and> isInteger n \<and> 0 < toBigInt n)"
| "disposition_draft_ok (DraftDuplicate s) = clean s"
| "disposition_draft_ok DraftUndetermined = True"

definition disposition_json :: "DispositionDraft \<Rightarrow> jsval" where
  "disposition_json d = JObj ((''disposition'', JStr (disposition_tag (draft_disposition d))) # (case d of
       DraftFalsePositive s \<Rightarrow> [(''justification'', JStr s)]
     | DraftBenignAuthorized s \<Rightarrow> [(''authorizedBy'', JStr s)]
     | DraftRemediated a \<Rightarrow> [(''actionTaken'', JStr (remediation_tag a))]
     | DraftBlocked s \<Rightarrow> [(''blockingControl'', JStr s)]
     | DraftRiskAccepted p n \<Rightarrow> [(''acceptingParty'', JStr p), (''expirySeconds'', JNum n)]
     | DraftDuplicate s \<Rightarrow> [(''predecessor'', JStr s)]
     | DraftUndetermined \<Rightarrow> []))"

lemma case_act_draft_ok: "case_act_draft act assignee note = Some d \<Longrightarrow> case_draft_ok d"
  by (cases act) (auto simp: case_act_draft_def isPrincipalId_def uuid_lower(2,3) split: if_splits jsval.splits)

lemma toCaseActDraft_ok: "toCaseActDraft body = Some d \<Longrightarrow> case_draft_ok d"
  by (auto simp: toCaseActDraft_def Option.bind_eq_Some_conv case_act_draft_ok split: if_splits)

lemma toCaseActDraft_json:
  assumes "case_draft_ok d"
  shows "toCaseActDraft (case_json d) = Some d"
proof -
  have "is_object (case_json d)" "get_prop (case_json d) ''act'' = JStr (case_act_tag (draft_act d))"
    by (simp_all add: case_json_def is_object_def get_prop_def)
  moreover have "case_act_draft (draft_act d) (get_prop (case_json d) ''assignee'') (get_prop (case_json d) ''note'') = Some d"
    using assms by (cases d) (simp_all add: case_json_def case_act_draft_def get_prop_def isPrincipalId_def uuid_trim)
  ultimately show ?thesis by (simp add: toCaseActDraft_def)
qed

lemma requiredText_Some: "requiredText body key = Some t \<longleftrightarrow> (\<exists>s. get_prop body key = JStr s \<and> trim s = t \<and> t \<noteq> [])"
  by (auto simp: requiredText_def split: jsval.splits if_splits)

lemma requiredText_clean: "requiredText body key = Some t \<Longrightarrow> clean t"
  by (auto simp: requiredText_Some clean_def)

lemma requiredText_JStr: "get_prop body key = JStr s \<Longrightarrow> clean s \<Longrightarrow> requiredText body key = Some s"
  by (simp add: requiredText_def clean_def)

lemma remediation_visible:
  "list_all (\<lambda>a. visible (remediation_tag a) \<and> visible (rev (remediation_tag a)) \<and> remediation_tag a \<noteq> [] \<and>
     list_all (\<lambda>c. of_char c < (128 :: nat) \<and> \<not> of_char c < (91 :: nat)) (remediation_tag a)) REMEDIATION_ACTIONS"
  by code_simp

lemma remediation_clean: "clean (remediation_tag a)" "toLowerCase (remediation_tag a) = remediation_tag a"
proof -
  have a: "visible (remediation_tag a)" "visible (rev (remediation_tag a))" "remediation_tag a \<noteq> []"
    "list_all (\<lambda>c. of_char c < (128 :: nat) \<and> \<not> of_char c < (91 :: nat)) (remediation_tag a)"
    using remediation_visible remediation.listed [of a] unfolding list_all_iff by blast+
  then show "clean (remediation_tag a)" by (simp add: clean_def visible_trim)
  from a(4) have "toLowerCase (remediation_tag a) = map lower_char (remediation_tag a)"
    by (intro toLowerCase_ascii) (auto simp: list_all_iff)
  also have "\<dots> = remediation_tag a" using a(4) by (auto simp: list_all_iff lower_char_def intro!: map_idI)
  finally show "toLowerCase (remediation_tag a) = remediation_tag a" .
qed

lemma as_integer_Some: "as_integer v = Some n \<longleftrightarrow> v = JNum n \<and> isInteger n"
  by (cases v) (auto simp: as_integer_def)

lemma disposition_draft_ok_draft: "disposition_draft d body = Some draft \<Longrightarrow> disposition_draft_ok draft"
  by (cases d) (auto simp: disposition_draft_def as_integer_Some Option.bind_eq_Some_conv requiredText_clean
      split: if_splits)

lemma toDispositionDraft_ok: "toDispositionDraft body = Some d \<Longrightarrow> disposition_draft_ok d"
  by (auto simp: toDispositionDraft_def Option.bind_eq_Some_conv disposition_draft_ok_draft split: if_splits)

lemma toDispositionDraft_json:
  assumes "disposition_draft_ok d"
  shows "toDispositionDraft (disposition_json d) = Some d"
proof -
  let ?b = "disposition_json d"
  have "is_object ?b" by (simp add: disposition_json_def is_object_def)
  moreover have "get_prop ?b ''disposition'' = JStr (disposition_tag (draft_disposition d))"
    by (simp add: disposition_json_def get_prop_def)
  moreover have "disposition_draft (draft_disposition d) ?b = Some d"
    using assms by (cases d) (simp_all add: disposition_draft_def disposition_json_def requiredText_JStr get_prop_def
        as_integer_def remediation_clean)
  ultimately show ?thesis by (simp add: toDispositionDraft_def)
qed

interpretation case_command: authoring toCaseActDraft case_json case_draft_ok
  by unfold_locales (auto simp: toCaseActDraft_ok toCaseActDraft_json, simp add: case_json_def)

interpretation disposition_command: authoring toDispositionDraft disposition_json disposition_draft_ok
  by unfold_locales (auto simp: toDispositionDraft_ok toDispositionDraft_json, simp add: disposition_json_def)

lemma wire_case_inject: "toWireCaseAct d s i = toWireCaseAct d' s' i' \<longleftrightarrow> d = d' \<and> s = s' \<and> i = i'"
  by (cases d; cases d') (auto simp: toWireCaseAct_def)

lemma wire_disposition_inject:
  "toWireDisposition d s i = toWireDisposition d' s' i' \<longleftrightarrow> d = d' \<and> s = s' \<and> i = i'"
  by (cases d; cases d') (auto simp: toWireDisposition_def remediation.render_inject)

text \<open>
  The operator can submit exactly the well-formed case acts and dispositions: an
  assignment names a principal identifier in lower case and a note is not blank, a verdict
  carries exactly the field it takes, trimmed and not blank, and an accepted risk lapses
  after a positive whole number of seconds; every such act and verdict can be submitted;
  and the request that goes to the engine determines what was submitted and for which
  incident.
\<close>
theorem soc_commands_exact:
  "((\<exists>body. toCaseActDraft body = Some act) \<longleftrightarrow> case_draft_ok act) \<and>
   ((\<exists>body. toDispositionDraft body = Some verdict) \<longleftrightarrow> disposition_draft_ok verdict) \<and>
   (toWireCaseAct act s i = toWireCaseAct act' s' i' \<longleftrightarrow> act = act' \<and> s = s' \<and> i = i') \<and>
   (toWireDisposition verdict s i = toWireDisposition verdict' s' i' \<longleftrightarrow> verdict = verdict' \<and> s = s' \<and> i = i')"
  by (intro conjI case_command.authored disposition_command.authored wire_case_inject wire_disposition_inject)

end
