(* ===== verification/SettingsCommands.thy ===== *)
theory SettingsCommands
  imports SocCommands
begin

text \<open>
  The requests of the settings surface, narrowed before anything reaches the engine
  (\<open>packages/contracts/src/settings.ts\<close> and \<open>packages/contracts/src/model-access.ts\<close>): a batch of
  setting edits with a section patch, the fields of the commit it becomes, identifiers
  and limits, report names, and the change of an agent's grant.
\<close>

section \<open>Edits\<close>

definition MAX_SETTING_EDITS :: nat where
  "MAX_SETTING_EDITS = 64"

definition MAX_SETTING_VALUE_CHARS :: nat where
  "MAX_SETTING_VALUE_CHARS = 256"

definition MAX_SECTION_TEXT_CHARS :: nat where
  "MAX_SECTION_TEXT_CHARS = 256"

definition MAX_EGRESS_ID_CHARS :: nat where
  "MAX_EGRESS_ID_CHARS = 128"

definition MAX_SECTION_ENTRIES :: nat where
  "MAX_SECTION_ENTRIES = 256"

record SettingEdit =
  ed_key :: string
  ed_value :: string

text \<open>\<open>/^[a-z_][a-z0-9_.]{0,127}$/\<close>\<close>

definition key_shape :: "string \<Rightarrow> bool" where
  "key_shape s = (case s of
       [] \<Rightarrow> False
     | c # cs \<Rightarrow> c \<in> set ''abcdefghijklmnopqrstuvwxyz_'' \<and> length cs \<le> 127 \<and>
         list_all (\<lambda>c. c \<in> set ''abcdefghijklmnopqrstuvwxyz0123456789_.'') cs)"

definition setting_edit :: "jsval \<Rightarrow> SettingEdit option" where
  "setting_edit edit =
     (if \<not> is_object edit then None
      else do {
        key \<leftarrow> as_string (get_prop edit ''key'');
        value \<leftarrow> as_string (get_prop edit ''value'');
        if key_shape key \<and> utf16_length value \<le> MAX_SETTING_VALUE_CHARS
        then Some \<lparr>ed_key = key, ed_value = value\<rparr> else None
      })"

definition bounded_array :: "nat \<Rightarrow> jsval \<Rightarrow> jsval list option" where
  "bounded_array bound raw = do { vs \<leftarrow> as_array raw; if length vs \<le> bound then Some vs else None }"

section \<open>Section patches\<close>

record LugExposure =
  x_enabled :: bool
  x_resolutionEnabled :: bool
  x_maxAccountsPerNamespace :: jsnum
  x_maxGroupsPerNamespace :: jsnum
  x_maxSessionsPerDevice :: jsnum
  x_lastSeenBucketHours :: jsnum
  x_bindingConfirmThresholdPermille :: jsnum
  x_snapshotCadenceHours :: jsnum

record EgressDestination =
  ge_id :: string
  ge_ceiling :: string

record SourceFormat =
  fm_source :: string
  fm_format :: string

record SectionPatch =
  dualControl :: "string list option"
  egressDestinations :: "EgressDestination list option"
  lugExposure :: "LugExposure option"
  disabledDecoderFamilies :: "string list option"
  sourceFormatMap :: "SourceFormat list option"
  socNarrativeModelRef :: "string option"

definition bounded_text :: "jsval \<Rightarrow> string option" where
  "bounded_text v = do { s \<leftarrow> as_string v; if utf16_length s \<le> MAX_SECTION_TEXT_CHARS then Some s else None }"

definition stringList :: "jsval \<Rightarrow> string list option" where
  "stringList raw = Option.bind (bounded_array MAX_SECTION_ENTRIES raw) (traverse bounded_text)"

definition nonNegativeInt :: "jsval \<Rightarrow> int \<Rightarrow> jsnum option" where
  "nonNegativeInt v bound = do { n \<leftarrow> as_integer v; if 0 \<le> toBigInt n \<and> toBigInt n \<le> bound then Some n else None }"

definition egress_destination :: "jsval \<Rightarrow> EgressDestination option" where
  "egress_destination e =
     (if \<not> is_object e then None
      else do {
        i \<leftarrow> as_string (get_prop e ''id'');
        if trim i = [] \<or> utf16_length i > MAX_EGRESS_ID_CHARS then None else do {
        ceiling \<leftarrow> as_string (get_prop e ''ceiling'');
        if ceiling \<in> set (map classification_tag CLASSIFICATION_TAGS)
        then Some \<lparr>ge_id = i, ge_ceiling = ceiling\<rparr> else None
      }})"

definition lug_exposure :: "jsval \<Rightarrow> LugExposure option" where
  "lug_exposure x =
     (if \<not> is_object x then None
      else let u32 = 4294967295
      in do {
        a \<leftarrow> nonNegativeInt (get_prop x ''maxAccountsPerNamespace'') u32;
        g \<leftarrow> nonNegativeInt (get_prop x ''maxGroupsPerNamespace'') u32;
        se \<leftarrow> nonNegativeInt (get_prop x ''maxSessionsPerDevice'') u32;
        lb \<leftarrow> nonNegativeInt (get_prop x ''lastSeenBucketHours'') u32;
        bt \<leftarrow> nonNegativeInt (get_prop x ''bindingConfirmThresholdPermille'') 65535;
        sc \<leftarrow> nonNegativeInt (get_prop x ''snapshotCadenceHours'') u32;
        enabled \<leftarrow> as_bool (get_prop x ''enabled'');
        resolutionEnabled \<leftarrow> as_bool (get_prop x ''resolutionEnabled'');
        Some \<lparr>x_enabled = enabled, x_resolutionEnabled = resolutionEnabled, x_maxAccountsPerNamespace = a,
              x_maxGroupsPerNamespace = g, x_maxSessionsPerDevice = se, x_lastSeenBucketHours = lb,
              x_bindingConfirmThresholdPermille = bt, x_snapshotCadenceHours = sc\<rparr>
      })"

definition source_format :: "jsval \<Rightarrow> SourceFormat option" where
  "source_format m =
     (if \<not> is_object m then None
      else do {
        source \<leftarrow> as_string (get_prop m ''source'');
        form \<leftarrow> as_string (get_prop m ''format'');
        if trim source = [] \<or> trim form = [] then None else Some \<lparr>fm_source = source, fm_format = form\<rparr>
      })"

definition entries :: "(jsval \<Rightarrow> 'a option) \<Rightarrow> jsval \<Rightarrow> 'a list option" where
  "entries narrow raw = Option.bind (bounded_array MAX_SECTION_ENTRIES raw) (traverse narrow)"

definition no_sections :: SectionPatch where
  "no_sections = \<lparr>dualControl = None, egressDestinations = None, lugExposure = None,
     disabledDecoderFamilies = None, sourceFormatMap = None, socNarrativeModelRef = None\<rparr>"

definition toSectionPatch :: "jsval \<Rightarrow> SectionPatch option" where
  "toSectionPatch raw =
     (if \<not> is_object raw then None
      else do {
        dual \<leftarrow> optional stringList (get_prop raw ''dualControl'');
        egress \<leftarrow> optional (entries egress_destination) (get_prop raw ''egressDestinations'');
        lug \<leftarrow> optional lug_exposure (get_prop raw ''lugExposure'');
        disabled \<leftarrow> optional stringList (get_prop raw ''disabledDecoderFamilies'');
        sources \<leftarrow> optional (entries source_format) (get_prop raw ''sourceFormatMap'');
        model \<leftarrow> optional bounded_text (get_prop raw ''socNarrativeModelRef'');
        let out = \<lparr>dualControl = dual, egressDestinations = egress, lugExposure = lug,
                   disabledDecoderFamilies = disabled, sourceFormatMap = sources, socNarrativeModelRef = model\<rparr>
        in if out = no_sections then None else Some out
      })"

section \<open>The commit\<close>

record SettingsCommitRequest =
  sr_edits :: "SettingEdit list"
  sr_sections :: "SectionPatch option"

definition toSettingsCommitRequest :: "jsval \<Rightarrow> SettingsCommitRequest option" where
  "toSettingsCommitRequest raw =
     (if \<not> is_object raw then None
      else do {
        rawEdits \<leftarrow> bounded_array MAX_SETTING_EDITS (coalesce (get_prop raw ''edits'') (JArr []));
        edits \<leftarrow> traverse setting_edit rawEdits;
        sections \<leftarrow> optional toSectionPatch (get_prop raw ''sections'');
        if edits = [] \<and> sections = None then None
        else Some \<lparr>sr_edits = edits, sr_sections = sections\<rparr>
      })"

definition wire_egress :: "EgressDestination \<Rightarrow> WireEgressSetting" where
  "wire_egress e = \<lparr>eg_id = ge_id e, eg_ceiling = ge_ceiling e\<rparr>"

definition wire_lug :: "LugExposure \<Rightarrow> WireLugExposureSettings" where
  "wire_lug l = \<lparr>lu_enabled = x_enabled l, lu_resolution_enabled = x_resolutionEnabled l,
     lu_max_accounts_per_namespace = x_maxAccountsPerNamespace l,
     lu_max_groups_per_namespace = x_maxGroupsPerNamespace l,
     lu_max_sessions_per_device = x_maxSessionsPerDevice l,
     lu_last_seen_bucket_hours = x_lastSeenBucketHours l,
     lu_binding_confirm_threshold_permille = x_bindingConfirmThresholdPermille l,
     lu_snapshot_cadence_hours = x_snapshotCadenceHours l\<rparr>"

definition wire_source_format :: "SourceFormat \<Rightarrow> WireSourceFormatMapping" where
  "wire_source_format m = \<lparr>sf_source = fm_source m, sf_format = fm_format m\<rparr>"

definition toWireSectionPatch :: "SectionPatch \<Rightarrow> WireSectionPatch" where
  "toWireSectionPatch p =
     \<lparr>sc_dual_control = dualControl p,
      sc_egress_destinations = map_option (map wire_egress) (egressDestinations p),
      sc_lug_exposure = map_option wire_lug (lugExposure p),
      sc_disabled_decoder_families = disabledDecoderFamilies p,
      sc_source_format_map = map_option (map wire_source_format) (sourceFormatMap p),
      sc_soc_narrative_model_ref = socNarrativeModelRef p\<rparr>"

definition toWireSettingsCommitFields ::
    "SettingsCommitRequest \<Rightarrow> WireSettingEdit list \<times> WireSectionPatch option" where
  "toWireSettingsCommitFields request =
     (map (\<lambda>e. \<lparr>se_key = ed_key e, se_value = ed_value e\<rparr>) (sr_edits request),
      map_option toWireSectionPatch (sr_sections request))"

section \<open>Identifiers, limits and report names\<close>

definition SETTINGS_HISTORY_MAX :: int where
  "SETTINGS_HISTORY_MAX = 100"

definition digits_1_15 :: "string \<Rightarrow> bool" where
  "digits_1_15 s \<longleftrightarrow> list_all is_digit s \<and> 1 \<le> length s \<and> length s \<le> 15"

definition isSafeInteger :: "jsnum \<Rightarrow> bool" where
  "isSafeInteger n \<longleftrightarrow> isInteger n \<and> \<bar>toBigInt n\<bar> < 2 ^ 53"

definition toPositiveId :: "jsval \<Rightarrow> jsnum option" where
  "toPositiveId raw =
     (let n = (case raw of JStr s \<Rightarrow> if digits_1_15 s then JNum (NInt (int (digits_value s))) else raw | _ \<Rightarrow> raw)
      in case n of JNum k \<Rightarrow> if isSafeInteger k \<and> 0 < toBigInt k then Some k else None | _ \<Rightarrow> None)"

definition toHistoryLimit :: "string option \<Rightarrow> jsnum option" where
  "toHistoryLimit raw = (case raw of
       None \<Rightarrow> Some (NInt 0)
     | Some s \<Rightarrow> if s = [] then Some (NInt 0)
         else do { n \<leftarrow> toPositiveId (JStr s); if toBigInt n \<le> SETTINGS_HISTORY_MAX then Some n else None })"

definition SETTINGS_REPORT_NAMES :: "string list" where
  "SETTINGS_REPORT_NAMES = [''server'', ''connectivity'', ''security'', ''telemetry'', ''key_issuing'', ''egress'']"

fun report_names :: "string list \<Rightarrow> string list \<Rightarrow> string list option" where
  "report_names [] out = Some out"
| "report_names (part # parts) out =
     (if trim part \<notin> set SETTINGS_REPORT_NAMES then None
      else report_names parts (if trim part \<in> set out then out else out @ [trim part]))"

definition toSettingsReportNames :: "string option \<Rightarrow> string list option" where
  "toSettingsReportNames raw = (case raw of
       None \<Rightarrow> None
     | Some s \<Rightarrow> if trim s = [] then None else report_names (split_on CHR '','' s) [])"

section \<open>Agent grants\<close>

definition MAX_GRANT_ENTRIES :: nat where
  "MAX_GRANT_ENTRIES = 256"

definition MAX_NAME_LENGTH :: nat where
  "MAX_NAME_LENGTH = 256"

record AgentGrantChange =
  gc_agent :: string
  gc_models :: "string list"
  gc_tools :: "string list"
  gc_expectedModels :: "string list"
  gc_expectedTools :: "string list"

definition grant_name :: "jsval \<Rightarrow> string option" where
  "grant_name v = do {
     s \<leftarrow> as_string v;
     if trim s = [] \<or> utf16_length s > MAX_NAME_LENGTH then None else Some s
   }"

definition names :: "jsval \<Rightarrow> string list option" where
  "names v = Option.bind (bounded_array MAX_GRANT_ENTRIES v) (traverse grant_name)"

definition toAgentGrantChange :: "jsval \<Rightarrow> AgentGrantChange option" where
  "toAgentGrantChange body =
     (if \<not> is_object body then None
      else do {
        agent \<leftarrow> grant_name (get_prop body ''agent'');
        models \<leftarrow> names (get_prop body ''models'');
        tools \<leftarrow> names (get_prop body ''tools'');
        expectedModels \<leftarrow> names (get_prop body ''expectedModels'');
        expectedTools \<leftarrow> names (get_prop body ''expectedTools'');
        Some \<lparr>gc_agent = agent, gc_models = models, gc_tools = tools, gc_expectedModels = expectedModels,
              gc_expectedTools = expectedTools\<rparr>
      })"

section \<open>Which settings can be committed\<close>

definition edit_ok :: "SettingEdit \<Rightarrow> bool" where
  "edit_ok e \<longleftrightarrow> key_shape (ed_key e) \<and> utf16_length (ed_value e) \<le> MAX_SETTING_VALUE_CHARS"

definition edit_json :: "SettingEdit \<Rightarrow> jsval" where
  "edit_json e = JObj [(''key'', JStr (ed_key e)), (''value'', JStr (ed_value e))]"

definition text_fits :: "string \<Rightarrow> bool" where
  "text_fits s \<longleftrightarrow> utf16_length s \<le> MAX_SECTION_TEXT_CHARS"

definition egress_ok :: "EgressDestination \<Rightarrow> bool" where
  "egress_ok e \<longleftrightarrow> trim (ge_id e) \<noteq> [] \<and> utf16_length (ge_id e) \<le> MAX_EGRESS_ID_CHARS \<and>
     ge_ceiling e \<in> set (map classification_tag CLASSIFICATION_TAGS)"

definition egress_json :: "EgressDestination \<Rightarrow> jsval" where
  "egress_json e = JObj [(''id'', JStr (ge_id e)), (''ceiling'', JStr (ge_ceiling e))]"

definition cap_ok :: "int \<Rightarrow> jsnum \<Rightarrow> bool" where
  "cap_ok bound n \<longleftrightarrow> isInteger n \<and> 0 \<le> toBigInt n \<and> toBigInt n \<le> bound"

definition lug_ok :: "LugExposure \<Rightarrow> bool" where
  "lug_ok l \<longleftrightarrow>
     list_all (cap_ok 4294967295) [x_maxAccountsPerNamespace l, x_maxGroupsPerNamespace l,
       x_maxSessionsPerDevice l, x_lastSeenBucketHours l, x_snapshotCadenceHours l] \<and>
     cap_ok 65535 (x_bindingConfirmThresholdPermille l)"

definition lug_json :: "LugExposure \<Rightarrow> jsval" where
  "lug_json l = JObj [
     (''enabled'', JBool (x_enabled l)),
     (''resolutionEnabled'', JBool (x_resolutionEnabled l)),
     (''maxAccountsPerNamespace'', JNum (x_maxAccountsPerNamespace l)),
     (''maxGroupsPerNamespace'', JNum (x_maxGroupsPerNamespace l)),
     (''maxSessionsPerDevice'', JNum (x_maxSessionsPerDevice l)),
     (''lastSeenBucketHours'', JNum (x_lastSeenBucketHours l)),
     (''bindingConfirmThresholdPermille'', JNum (x_bindingConfirmThresholdPermille l)),
     (''snapshotCadenceHours'', JNum (x_snapshotCadenceHours l))]"

definition source_format_ok :: "SourceFormat \<Rightarrow> bool" where
  "source_format_ok m \<longleftrightarrow> trim (fm_source m) \<noteq> [] \<and> trim (fm_format m) \<noteq> []"

definition source_format_json :: "SourceFormat \<Rightarrow> jsval" where
  "source_format_json m = JObj [(''source'', JStr (fm_source m)), (''format'', JStr (fm_format m))]"

definition array_of :: "('a \<Rightarrow> jsval) \<Rightarrow> 'a list \<Rightarrow> jsval" where
  "array_of render as = JArr (map render as)"

definition array_ok :: "nat \<Rightarrow> ('a \<Rightarrow> bool) \<Rightarrow> 'a list \<Rightarrow> bool" where
  "array_ok bound ok as \<longleftrightarrow> length as \<le> bound \<and> list_all ok as"

text \<open>A bounded list of what a narrower reads is read by a narrower.\<close>

context authoring
begin

lemma bounded_list:
  "authoring (\<lambda>v. Option.bind (bounded_array bound v) (traverse narrow)) (array_of render) (array_ok bound ok)"
  by unfold_locales
    (auto simp: bounded_array_def array_of_def array_ok_def Option.bind_eq_Some_conv traverse_ok traverse_render
      dest: traverse_length split: if_splits)

end

interpretation edit: authoring setting_edit edit_json edit_ok
  by unfold_locales (auto simp: setting_edit_def edit_json_def edit_ok_def get_prop_def is_object_def
      Option.bind_eq_Some_conv split: if_splits)

interpretation edits: authoring "\<lambda>v. Option.bind (bounded_array bound v) (traverse setting_edit)"
    "array_of edit_json" "array_ok bound edit_ok" for bound
  by (rule edit.bounded_list)

interpretation section_text: authoring bounded_text JStr text_fits
  by unfold_locales (auto simp: bounded_text_def text_fits_def as_string_def Option.bind_eq_Some_conv split: if_splits)

interpretation text_list: authoring stringList "array_of JStr" "array_ok MAX_SECTION_ENTRIES text_fits"
  unfolding stringList_def [abs_def] by (rule section_text.bounded_list)

interpretation egress: authoring egress_destination egress_json egress_ok
  by unfold_locales (auto simp: egress_destination_def egress_json_def egress_ok_def get_prop_def is_object_def
      as_string_def Option.bind_eq_Some_conv split: if_splits)

interpretation egress_list: authoring "entries egress_destination" "array_of egress_json" "array_ok MAX_SECTION_ENTRIES egress_ok"
  unfolding entries_def [abs_def] by (rule egress.bounded_list)

interpretation source_formats: authoring source_format source_format_json source_format_ok
  by unfold_locales (auto simp: source_format_def source_format_json_def source_format_ok_def get_prop_def
      is_object_def as_string_def Option.bind_eq_Some_conv split: if_splits)

interpretation source_format_list: authoring "entries source_format" "array_of source_format_json"
    "array_ok MAX_SECTION_ENTRIES source_format_ok"
  unfolding entries_def [abs_def] by (rule source_formats.bounded_list)

lemma nonNegativeInt_Some: "nonNegativeInt v bound = Some n \<longleftrightarrow> v = JNum n \<and> cap_ok bound n"
  by (auto simp: nonNegativeInt_def cap_ok_def as_integer_Some Option.bind_eq_Some_conv split: if_splits)

interpretation lug: authoring lug_exposure lug_json lug_ok
proof
  show "lug_ok l" if "lug_exposure v = Some l" for v l
    using that by (auto simp: lug_exposure_def lug_ok_def nonNegativeInt_Some Let_def Option.bind_eq_Some_conv
        split: if_splits)
  show "lug_exposure (lug_json l) = Some l" if "lug_ok l" for l
  proof -
    have "nonNegativeInt (JNum n) bound = Some n" if "cap_ok bound n" for n bound
      using that by (simp add: nonNegativeInt_Some)
    with that show ?thesis
      by (simp add: lug_exposure_def lug_json_def lug_ok_def get_prop_def is_object_def as_bool_def)
  qed
  show "lug_json l \<noteq> JUndef" for l by (simp add: lug_json_def)
qed

definition patch_ok :: "SectionPatch \<Rightarrow> bool" where
  "patch_ok p \<longleftrightarrow> p \<noteq> no_sections \<and>
     pred_option (array_ok MAX_SECTION_ENTRIES text_fits) (dualControl p) \<and>
     pred_option (array_ok MAX_SECTION_ENTRIES egress_ok) (egressDestinations p) \<and>
     pred_option lug_ok (lugExposure p) \<and>
     pred_option (array_ok MAX_SECTION_ENTRIES text_fits) (disabledDecoderFamilies p) \<and>
     pred_option (array_ok MAX_SECTION_ENTRIES source_format_ok) (sourceFormatMap p) \<and>
     pred_option text_fits (socNarrativeModelRef p)"

definition opt_json :: "('a \<Rightarrow> jsval) \<Rightarrow> 'a option \<Rightarrow> jsval" where
  "opt_json render x = (case x of None \<Rightarrow> JUndef | Some a \<Rightarrow> render a)"

definition patch_json :: "SectionPatch \<Rightarrow> jsval" where
  "patch_json p = present [
     (''dualControl'', opt_json (array_of JStr) (dualControl p)),
     (''egressDestinations'', opt_json (array_of egress_json) (egressDestinations p)),
     (''lugExposure'', opt_json lug_json (lugExposure p)),
     (''disabledDecoderFamilies'', opt_json (array_of JStr) (disabledDecoderFamilies p)),
     (''sourceFormatMap'', opt_json (array_of source_format_json) (sourceFormatMap p)),
     (''socNarrativeModelRef'', opt_json JStr (socNarrativeModelRef p))]"

lemmas section_optional_render =
  text_list.optional_render [folded opt_json_def] egress_list.optional_render [folded opt_json_def]
  lug.optional_render [folded opt_json_def] source_format_list.optional_render [folded opt_json_def]
  section_text.optional_render [folded opt_json_def]

interpretation section_patch: authoring toSectionPatch patch_json patch_ok
proof
  show "patch_ok p" if "toSectionPatch v = Some p" for v p
    using that
    by (auto simp: toSectionPatch_def patch_ok_def Let_def Option.bind_eq_Some_conv text_list.optional_ok
        egress_list.optional_ok lug.optional_ok source_format_list.optional_ok section_text.optional_ok
        split: if_splits)
  show "toSectionPatch (patch_json p) = Some p" if "patch_ok p" for p
    using that
    by (cases p) (simp add: toSectionPatch_def patch_json_def get_present patch_ok_def section_optional_render Let_def)
  show "patch_json p \<noteq> JUndef" for p by (simp add: patch_json_def)
qed

definition commit_ok :: "SettingsCommitRequest \<Rightarrow> bool" where
  "commit_ok q \<longleftrightarrow> array_ok MAX_SETTING_EDITS edit_ok (sr_edits q) \<and> pred_option patch_ok (sr_sections q) \<and>
     \<not> (sr_edits q = [] \<and> sr_sections q = None)"

definition commit_json :: "SettingsCommitRequest \<Rightarrow> jsval" where
  "commit_json q = present [
     (''edits'', array_of edit_json (sr_edits q)), (''sections'', opt_json patch_json (sr_sections q))]"

interpretation commit: authoring toSettingsCommitRequest commit_json commit_ok
proof
  show "commit_ok q" if "toSettingsCommitRequest v = Some q" for v q
  proof -
    from that obtain raws edits where raws: "bounded_array MAX_SETTING_EDITS (coalesce (get_prop v ''edits'') (JArr [])) = Some raws"
      and edits: "traverse setting_edit raws = Some edits" and q: "sr_edits q = edits"
      and sections: "optional toSectionPatch (get_prop v ''sections'') = Some (sr_sections q)"
      and ne: "\<not> (edits = [] \<and> sr_sections q = None)"
      by (auto simp: toSettingsCommitRequest_def Option.bind_eq_Some_conv split: if_splits)
    have "array_ok MAX_SETTING_EDITS edit_ok edits"
      by (rule edits.narrow_ok [of _ "coalesce (get_prop v ''edits'') (JArr [])"]) (simp add: raws edits)
    with q ne section_patch.optional_ok [OF sections] show ?thesis by (simp add: commit_ok_def)
  qed
  show "toSettingsCommitRequest (commit_json q) = Some q" if "commit_ok q" for q
  proof -
    from that have "Option.bind (bounded_array MAX_SETTING_EDITS (array_of edit_json (sr_edits q))) (traverse setting_edit) = Some (sr_edits q)"
      by (intro edits.narrow_render) (simp add: commit_ok_def)
    moreover have "coalesce (array_of edit_json (sr_edits q)) (JArr []) = array_of edit_json (sr_edits q)"
      by (simp add: coalesce_def nullish_def array_of_def)
    moreover have "optional toSectionPatch (opt_json patch_json (sr_sections q)) = Some (sr_sections q)"
      using that section_patch.optional_render by (simp add: commit_ok_def opt_json_def)
    ultimately show ?thesis using that
      by (cases q) (auto simp: toSettingsCommitRequest_def commit_json_def get_present commit_ok_def Option.bind_eq_Some_conv)
  qed
  show "commit_json q \<noteq> JUndef" for q by (simp add: commit_json_def)
qed

lemma wire_parts_inj: "inj wire_egress" "inj wire_lug" "inj wire_source_format"
  by (auto intro!: injI simp: wire_egress_def wire_lug_def wire_source_format_def)

lemma wire_patch_inject: "toWireSectionPatch p = toWireSectionPatch p' \<longleftrightarrow> p = p'"
  using wire_parts_inj
  by (cases p; cases p')
    (simp add: toWireSectionPatch_def inj_eq [OF option.inj_map] inj_eq [OF option.inj_map [OF list.inj_map]])

lemma wire_commit_inject:
  "toWireSettingsCommitFields q = toWireSettingsCommitFields q' \<longleftrightarrow> q = q'"
proof -
  have "inj (\<lambda>e :: SettingEdit. \<lparr>se_key = ed_key e, se_value = ed_value e\<rparr>)" by (auto intro!: injI)
  moreover have "inj toWireSectionPatch" by (auto intro!: injI simp: wire_patch_inject)
  ultimately show ?thesis
    by (cases q; cases q') (auto simp: toWireSettingsCommitFields_def inj_map_eq_map dest: injD [OF option.inj_map])
qed


end
