(* ===== verification/Requests.thy ===== *)
theory Requests
  imports Http Numbers Routes SettingsCommands Objects Policies Vtz Auth
begin

text \<open>
  What a request of \<open>apps/bff/src/server.ts\<close> asks for: the parsers of query strings and
  bodies, and the calls a handler makes.  A call of a resolver of \<open>apps/bff/src/engine\<close> is a
  value with the arguments the handler passes, apart from the engine, the caller and the
  timeout, which are the same for all.
\<close>

section \<open>The request\<close>

record server_request =
  rq_http :: http_request
  rq_activeTenant :: "string option"
  rq_remotePort :: "nat option"

definition url_of :: "server_request \<Rightarrow> string" where
  "url_of req = (case rq_url (rq_http req) of None \<Rightarrow> ''/'' | Some u \<Rightarrow> u)"

definition method_of :: "server_request \<Rightarrow> string" where
  "method_of req = (case rq_method (rq_http req) of None \<Rightarrow> ''GET'' | Some m \<Rightarrow> m)"

definition path_in :: "server_request \<Rightarrow> string" where
  "path_in req = path_of (rq_http req)"

definition activeTenantOverride :: "server_request \<Rightarrow> string option" where
  "activeTenantOverride req = (case rq_activeTenant req of
       None \<Rightarrow> None
     | Some v \<Rightarrow> if trim v \<noteq> [] then Some (trim v) else None)"

definition caller :: "OperatorSession \<Rightarrow> server_request \<Rightarrow> OperatorPrincipal" where
  "caller session req = principalFromSession session (activeTenantOverride req)"

text \<open>\<open>params.get(key)?.trim()\<close>, where an absent and a blank parameter are both falsy.\<close>

definition trimmed_param :: "server_request \<Rightarrow> string \<Rightarrow> string" where
  "trimmed_param req key = (case param (url_of req) key of None \<Rightarrow> [] | Some v \<Rightarrow> trim v)"

definition body_of :: "nat \<Rightarrow> server_request \<Rightarrow> jsval option" where
  "body_of limit req = Http.readJsonBody limit (rq_chunks (rq_http req))"

text \<open>\<open>typeof body[key] === 'string' ? body[key].trim() : ''\<close>\<close>

definition field_text :: "jsval \<Rightarrow> string \<Rightarrow> string" where
  "field_text body key = (case get_prop body key of JStr s \<Rightarrow> trim s | _ \<Rightarrow> [])"

section \<open>Entities\<close>

record EntityRef =
  er_kind :: string
  er_id :: string

definition ENTITY_DETAIL_RE :: "piece list" where
  "ENTITY_DETAIL_RE = [Lit ''/api/entity/'', one_of [''principal'', ''vtz'', ''object''], Lit ''/'', anything]"

definition ENTITY_ISOLATE_RE :: "piece list" where
  "ENTITY_ISOLATE_RE = [Lit ''/api/entity/'', one_of [''principal'', ''vtz'', ''object''], Lit ''/'', anything, Lit ''/isolate'']"

definition entityRefOf :: "string \<Rightarrow> string \<Rightarrow> EntityRef" where
  "entityRefOf kind i =
     (if kind = ''principal'' then \<lparr>er_kind = kind, er_id = i\<rparr>
      else if kind = ''vtz'' then \<lparr>er_kind = kind, er_id = i\<rparr>
      else \<lparr>er_kind = ''object'', er_id = i\<rparr>)"

text \<open>The reference a matched path names; \<open>None\<close> when the identifier is not decodable.\<close>

definition ref_of_match :: "string list \<Rightarrow> EntityRef option" where
  "ref_of_match gs = map_option (entityRefOf (gs ! 0)) (decodeURIComponent (gs ! 1))"

record IsolateRequest =
  iq_ref :: EntityRef
  iq_commandId :: string
  iq_posture :: string

definition parseIsolateRequest :: "EntityRef \<Rightarrow> jsval \<Rightarrow> IsolateRequest option" where
  "parseIsolateRequest ref body =
     (if \<not> is_object body then None
      else do {
        commandId \<leftarrow> as_string (get_prop body ''commandId'');
        if trim commandId = [] then None else do {
        posture \<leftarrow> as_string (get_prop body ''posture'');
        if posture = ''quarantine'' \<or> posture = ''deny''
        then Some \<lparr>iq_ref = ref, iq_commandId = commandId, iq_posture = posture\<rparr> else None
      }})"

section \<open>Logs\<close>

definition DEFAULT_LOG_LIMIT :: jsnum where
  "DEFAULT_LOG_LIMIT = NInt 100"

definition MAX_LOG_LIMIT :: jsnum where
  "MAX_LOG_LIMIT = NInt 500"

record LogQueryFilter =
  lf_since :: "jsnum option"
  lf_until :: "jsnum option"
  lf_technique :: "string option"
  lf_tactic :: "string option"
  lf_ruleId :: "string option"
  lf_confidence :: "string option"
  lf_action :: "string option"
  lf_search :: "string option"
  lf_limit :: jsnum
  lf_offset :: "jsnum option"

record LogExportRequest =
  le_commandId :: string
  le_filter :: LogQueryFilter

text \<open>\<open>Number(v)\<close> of a parsed JSON value; \<open>None\<close> is the \<open>TypeError\<close> of an object whose \<open>toString\<close> is not a function.\<close>

fun element_text :: "jsval \<Rightarrow> string option" where
  "element_text (JStr s) = Some s"
| "element_text (JNum n) = Some (number_string n)"
| "element_text (JBool b) = Some (if b then ''true'' else ''false'')"
| "element_text (JArr vs) = map_option (join '','') (those (map element_text vs))"
| "element_text (JObj ob) = (if map_of ob ''toString'' = None then Some ''[object Object]'' else None)"
| "element_text _ = Some []"

definition to_number :: "jsval \<Rightarrow> jsnum option" where
  "to_number v = (case v of
       JNum n \<Rightarrow> Some n
     | JStr s \<Rightarrow> Some (string_to_number s)
     | JBool b \<Rightarrow> Some (NInt (if b then 1 else 0))
     | JNull \<Rightarrow> Some (NInt 0)
     | JUndef \<Rightarrow> Some NaN
     | _ \<Rightarrow> map_option string_to_number (element_text v))"

definition clamp_limit :: "jsnum option \<Rightarrow> jsnum \<Rightarrow> jsnum \<Rightarrow> jsnum" where
  "clamp_limit requested most dflt = (case requested of
       Some n \<Rightarrow> if num_less (NInt 0) n then math_min n most else dflt
     | None \<Rightarrow> dflt)"

definition positive_floor :: "jsnum \<Rightarrow> jsnum option" where
  "positive_floor n = (if is_finite n \<and> num_less (NInt 0) n then Some (floor_positive n) else None)"

definition filter_text :: "jsval \<Rightarrow> string \<Rightarrow> string option" where
  "filter_text f key = (case get_prop f key of JStr s \<Rightarrow> if s \<noteq> [] then Some s else None | _ \<Rightarrow> None)"

definition filter_number :: "jsval \<Rightarrow> string \<Rightarrow> jsnum option" where
  "filter_number f key = (case get_prop f key of JNum n \<Rightarrow> if is_finite n then Some n else None | _ \<Rightarrow> None)"

definition parseLogExportRequest :: "jsval \<Rightarrow> LogExportRequest option" where
  "parseLogExportRequest body =
     (if \<not> is_object body then None
      else do {
        commandId \<leftarrow> as_string (get_prop body ''commandId'');
        let f = get_prop body ''filter'' in
        if trim commandId = [] \<or> \<not> is_object f then None else do {
        offsetRaw \<leftarrow> to_number (coalesce (get_prop f ''offset'') (JNum (NInt 0)));
        Some \<lparr>le_commandId = commandId,
          le_filter = \<lparr>lf_since = filter_number f ''since'', lf_until = filter_number f ''until'',
            lf_technique = filter_text f ''technique'', lf_tactic = filter_text f ''tactic'',
            lf_ruleId = filter_text f ''ruleId'', lf_confidence = filter_text f ''confidence'',
            lf_action = filter_text f ''action'', lf_search = filter_text f ''search'',
            lf_limit = clamp_limit (filter_number f ''limit'') MAX_LOG_LIMIT DEFAULT_LOG_LIMIT,
            lf_offset = positive_floor offsetRaw\<rparr>\<rparr>
      }})"

definition LOG_EXPLAIN_RE :: "piece list" where
  "LOG_EXPLAIN_RE = [Lit ''/api/logs/explain/'', anything]"

definition query_text :: "server_request \<Rightarrow> string \<Rightarrow> string option" where
  "query_text req key = (case param (url_of req) key of Some v \<Rightarrow> if v = [] then None else Some v | None \<Rightarrow> None)"

definition query_number :: "server_request \<Rightarrow> string \<Rightarrow> jsnum option" where
  "query_number req key = (case query_text req key of
       None \<Rightarrow> None
     | Some v \<Rightarrow> let n = string_to_number v in if is_finite n then Some n else None)"

definition parseLogFilter :: "server_request \<Rightarrow> LogQueryFilter" where
  "parseLogFilter req =
     \<lparr>lf_since = query_number req ''since'', lf_until = query_number req ''until'',
      lf_technique = query_text req ''technique'', lf_tactic = query_text req ''tactic'',
      lf_ruleId = query_text req ''ruleId'', lf_confidence = query_text req ''confidence'',
      lf_action = query_text req ''action'', lf_search = query_text req ''search'',
      lf_limit = clamp_limit (query_number req ''limit'') MAX_LOG_LIMIT DEFAULT_LOG_LIMIT,
      lf_offset = Option.bind (query_number req ''offset'') positive_floor\<rparr>"

section \<open>Overview and zones\<close>

definition DEFAULT_OVERVIEW_LIMIT :: jsnum where
  "DEFAULT_OVERVIEW_LIMIT = NInt 10000"

definition MAX_OVERVIEW_LIMIT :: jsnum where
  "MAX_OVERVIEW_LIMIT = NInt 10000"

record OverviewQuery =
  oq_since :: "jsnum option"
  oq_until :: "jsnum option"
  oq_limit :: jsnum

definition parseOverviewQuery :: "server_request \<Rightarrow> OverviewQuery" where
  "parseOverviewQuery req =
     \<lparr>oq_since = query_number req ''since'', oq_until = query_number req ''until'',
      oq_limit = clamp_limit (query_number req ''limit'') MAX_OVERVIEW_LIMIT DEFAULT_OVERVIEW_LIMIT\<rparr>"

definition DEFAULT_VTZ_TREE_LIMIT :: jsnum where
  "DEFAULT_VTZ_TREE_LIMIT = NInt 200"

definition MAX_VTZ_TREE_LIMIT :: jsnum where
  "MAX_VTZ_TREE_LIMIT = NInt 500"

definition parseVtzLimit :: "server_request \<Rightarrow> jsnum" where
  "parseVtzLimit req = clamp_limit (query_number req ''limit'') MAX_VTZ_TREE_LIMIT DEFAULT_VTZ_TREE_LIMIT"

definition VTZ_ZONE_RE :: "piece list" where
  "VTZ_ZONE_RE = [Lit ''/api/vtz/'', Group (\<lambda>s. s \<noteq> [] \<and> CHR ''/'' \<notin> set s \<and> s \<noteq> ''tree'' \<and> s \<noteq> ''detail'')]"

definition VTZ_RESCOPE_RE :: "piece list" where
  "VTZ_RESCOPE_RE = [Lit ''/api/vtz/'', segment, Lit ''/rescope'']"

definition VTZ_DISTRIBUTE_RE :: "piece list" where
  "VTZ_DISTRIBUTE_RE = [Lit ''/api/vtz/'', segment, Lit ''/distribute'']"

datatype VtzCommand =
    CreateZone VtzSpecInput | EditZone VtzSpecInput | RescopeZone string string | DeleteZone string

definition parseRescopeName :: "jsval \<Rightarrow> string option" where
  "parseRescopeName body =
     (if \<not> is_object body then None
      else case get_prop body ''newName'' of JStr s \<Rightarrow> if trim s = [] then None else Some (trim s) | _ \<Rightarrow> None)"

text \<open>
  \<open>None\<close> is \<open>null\<close>: no mutation at this path and method; \<open>Some None\<close> is \<open>'bad'\<close>, which is also
  what the caller makes of an exception.
\<close>

definition parseVtzCommand :: "server_request \<Rightarrow> VtzCommand option option" where
  "parseVtzCommand req =
     (let meth = method_of req; path = path_in req; body = body_of MAX_COMMAND_BODY_BYTES req
      in case exec VTZ_RESCOPE_RE path of
           Some gs \<Rightarrow> if meth = ''POST''
             then Some (do { b \<leftarrow> body; newName \<leftarrow> parseRescopeName b; i \<leftarrow> decodeURIComponent (gs ! 0); Some (RescopeZone i newName) })
             else None
         | None \<Rightarrow>
             if path = ''/api/vtz'' \<and> meth = ''POST''
             then Some (do { b \<leftarrow> body; spec \<leftarrow> toVtzSpecInput b; Some (CreateZone spec) })
             else (case exec VTZ_ZONE_RE path of
                 Some gs \<Rightarrow>
                   if meth = ''PUT'' then Some (do { b \<leftarrow> body; spec \<leftarrow> toVtzSpecInput b; Some (EditZone spec) })
                   else if meth = ''DELETE'' then Some (map_option DeleteZone (decodeURIComponent (gs ! 0)))
                   else None
               | None \<Rightarrow> None))"

definition parseMembers :: "jsval \<Rightarrow> string list option" where
  "parseMembers body = do {
     raw \<leftarrow> as_array (get_prop body ''members'');
     if raw = [] then None else traverse (\<lambda>m. case m of JStr s \<Rightarrow> if s \<noteq> [] then Some s else None | _ \<Rightarrow> None) raw
   }"

section \<open>Users, objects and connectors\<close>

record PrincipalDraft =
  pd_username :: string
  pd_kind :: string
  pd_email :: "string option"
  pd_org :: "string option"

definition text_or_null :: "string \<Rightarrow> string option" where
  "text_or_null s = (if s = [] then None else Some s)"

definition parsePrincipalDraft :: "jsval \<Rightarrow> PrincipalDraft option" where
  "parsePrincipalDraft body =
     (let username = field_text body ''username''
      in case get_prop body ''kind'' of
           JStr kind \<Rightarrow>
             if username = [] \<or> (kind \<noteq> ''human'' \<and> kind \<noteq> ''service'') then None
             else Some \<lparr>pd_username = username, pd_kind = kind, pd_email = text_or_null (field_text body ''email''),
                        pd_org = text_or_null (field_text body ''org'')\<rparr>
         | _ \<Rightarrow> None)"

definition parseObjectDraft :: "jsval \<Rightarrow> ObjectDraft option" where
  "parseObjectDraft body = do {
     kind \<leftarrow> narrow_string toKind (get_prop body ''kind'');
     selectorKind \<leftarrow> narrow_string toSelectorKind (get_prop body ''selectorKind'');
     lifecycle \<leftarrow> narrow_string toLifecycle (get_prop body ''lifecycle'');
     if field_text body ''name'' = [] \<or> field_text body ''selectorValue'' = [] then None
     else Some \<lparr>o_name = field_text body ''name'', o_kind = kind, o_selectorKind = selectorKind,
       o_selectorValue = field_text body ''selectorValue'', o_description = field_text body ''description'',
       o_tags = string_items (get_prop body ''tags''), o_lifecycle = lifecycle\<rparr>
   }"

record IdamConfigureDraft =
  ic_provider :: string
  ic_enabled :: bool
  ic_pollIntervalSecs :: jsnum
  ic_fullSyncCadenceHours :: jsnum

definition parseIdamConfigure :: "jsval \<Rightarrow> IdamConfigureDraft option" where
  "parseIdamConfigure body = do {
     enabled \<leftarrow> as_bool (get_prop body ''enabled'');
     poll \<leftarrow> as_integer (get_prop body ''pollIntervalSecs'');
     full \<leftarrow> as_integer (get_prop body ''fullSyncCadenceHours'');
     if field_text body ''provider'' = [] then None
     else Some \<lparr>ic_provider = field_text body ''provider'', ic_enabled = enabled, ic_pollIntervalSecs = poll,
       ic_fullSyncCadenceHours = full\<rparr>
   }"

record IdamConnectDraft =
  in_provider :: string
  in_domain :: string
  in_clientId :: string
  in_audience :: string

definition IDAM_SECRET_REF :: string where
  "IDAM_SECRET_REF = ''/etc/cdb/secrets/auth0-management.secret''"

definition parseIdamConnect :: "jsval \<Rightarrow> IdamConnectDraft option" where
  "parseIdamConnect body =
     (let draft = \<lparr>in_provider = field_text body ''provider'', in_domain = field_text body ''domain'',
                   in_clientId = field_text body ''clientId'', in_audience = field_text body ''audience''\<rparr>
      in if in_provider draft = [] \<or> in_domain draft = [] \<or> in_clientId draft = [] then None else Some draft)"

definition SETTINGS_APPROVE_RE :: "piece list" where
  "SETTINGS_APPROVE_RE = [Lit ''/api/settings/approvals/'', Group digits_1_15, Lit ''/approve'']"

section \<open>Calls\<close>

datatype entity_call =
    ResolveEntityDetail EntityRef
  | ResolveIsolate EntityRef IsolateRequest int
  | ResolveLogExport LogExportRequest int
  | ResolveLogQuery LogQueryFilter
  | ResolveLogExplain string
  | ResolveOverviewSankey OverviewQuery
  | ResolveEntityConnections string string
  | ResolveClassMembers string

datatype zone_call =
    ResolveVtzTree jsnum
  | ResolveVtzDetail string
  | ResolveBundleConvergence string
  | ResolveVtz VtzCommand
  | ResolveDistribute int string "string list"

datatype directory_call =
    ResolveCreatePrincipal PrincipalDraft
  | ResolveEditPrincipal PrincipalDraft
  | ResolveSetPrincipalStatus string string
  | ResolveSetGroupMembers string "string list"
  | ResolveCreateGroup string string
  | ResolveEditGroup string string
  | ResolveUsersList
  | ResolveGroupsList
  | ResolveIdamConfigure IdamConfigureDraft
  | ResolveIdamConnect IdamConnectDraft string
  | ResolveIdamSync string
  | ResolveIdamConnectors

datatype catalog_call =
    ResolveObjectCatalog
  | ResolveObjectDetail string
  | ResolveCreateObject ObjectDraft
  | ResolveEditObject ObjectDraft
  | ResolveDeleteObject string
  | ResolvePolicyZones
  | ResolvePolicyDetail string string
  | ResolveCreatePolicy PolicyDraft
  | ResolveEditPolicy string PolicyDraft
  | ResolvePublishPolicy string string string
  | ResolveDeletePolicy string string

datatype soc_call =
    ResolveSocKpis
  | ResolveWeekly jsnum
  | ResolveIncidentQueue
  | ResolveIncidentDetail string
  | ResolveIncidentNotes string
  | ResolveIncidentTelemetry string
  | ResolveAuditTrail string
  | ResolveBusinessImpact string
  | ResolveIncidentReport string
  | ResolveNarrative string
  | ResolveCognitionRun string
  | ResolveCaseAct string CaseActDraft
  | ResolveDisposition string DispositionDraft
  | ResolveApprovePlan string jsnum
  | ResolveModifyPlan string "ResponseStepDraft list"

datatype settings_call =
    ResolveSettings "string option"
  | ResolveSettingsCommit SettingsCommitRequest
  | ResolveSettingsReports "string list"
  | ResolveSettingsPropose SettingsCommitRequest
  | ResolveSettingsApprovals
  | ResolveSettingsApprove jsnum
  | ResolveSettingsHistory jsnum
  | ResolveSettingsRollback jsnum
  | ResolveSocSettings
  | ResolveSocSettingsCommit SocSettingsPatch
  | ResolveModelAccess jsnum int
  | ApplyAgentGrant AgentGrantChange

datatype engine_call =
    EntityCall entity_call | ZoneCall zone_call | DirectoryCall directory_call
  | CatalogCall catalog_call | SocCall soc_call | SettingsCall settings_call

text \<open>The calls that leave the server: the engine for an operator, the sidecar, the probe and the disk.\<close>

datatype server_call =
    EngineCall OperatorPrincipal engine_call
  | LookupSessionGroup string int nat
  | SetConnectorSecret string int string string
  | PingEngine
  | ReadFile string

text \<open>The errors the handlers tell apart.\<close>

datatype thrown =
    EngineRefused string | OverviewUnavailable | UnknownContainer
  | VtzUnavailable | VtzMutationRefused string
  | UsersUnavailable | ObjectsUnavailable | ObjectCommandRefused string
  | SocUnavailable | PoliciesUnavailable | SettingsUnavailable
  | DistributeZoneUnknown | DistributeComposition | SigningRefused | SigningUnavailable
  | SecretRefused | OtherError

end
