(* ===== verification/Static.thy ===== *)
theory Static
  imports Auth
begin

text \<open>
  The static files of the console application (\<open>apps/bff/src/static.ts\<close>), with what it uses
  of \<open>node:path\<close>.  The file system is a parameter: what a read of a path gives.  The result
  is the response, with the list of the paths that were read.
\<close>

section \<open>Paths\<close>

text \<open>\<open>resolve\<close> on the segments of an absolute path: empty and single-dot segments go, a double dot drops one.\<close>

fun normal :: "string list \<Rightarrow> string list \<Rightarrow> string list" where
  "normal done [] = rev done"
| "normal done (s # ss) =
     (if s = [] \<or> s = ''.'' then normal done ss
      else if s = ''..'' then normal (tl done) ss
      else normal (s # done) ss)"

definition path_text :: "string list \<Rightarrow> string" where
  "path_text segs = CHR ''/'' # join ''/'' segs"

definition path_segments :: "string \<Rightarrow> string list" where
  "path_segments p = normal [] (split_on CHR ''/'' p)"

definition resolve :: "string \<Rightarrow> string \<Rightarrow> string" where
  "resolve base p = path_text (path_segments (if prefix ''/'' p then p else base @ ''/'' @ p))"

text \<open>\<open>extname\<close>: the last segment from its last dot on, unless the dot starts it.\<close>

fun last_dot :: "string \<Rightarrow> string option" where
  "last_dot [] = None"
| "last_dot (c # s) = (case last_dot s of Some t \<Rightarrow> Some t | None \<Rightarrow> if c = CHR ''.'' then Some (c # s) else None)"

definition basename :: "string \<Rightarrow> string" where
  "basename p = (case rev (filter (\<lambda>s. s \<noteq> []) (split_on CHR ''/'' p)) of [] \<Rightarrow> [] | s # _ \<Rightarrow> s)"

definition extname :: "string \<Rightarrow> string" where
  "extname p =
     (let base = basename p
      in if base = ''..'' then []
         else case last_dot base of None \<Rightarrow> [] | Some t \<Rightarrow> if t = base then [] else t)"

section \<open>Serving a file\<close>

definition CONTENT_TYPES :: "(string \<times> string) list" where
  "CONTENT_TYPES = [
     (''.html'', ''text/html; charset=utf-8''),
     (''.js'', ''text/javascript; charset=utf-8''),
     (''.mjs'', ''text/javascript; charset=utf-8''),
     (''.css'', ''text/css; charset=utf-8''),
     (''.json'', ''application/json; charset=utf-8''),
     (''.map'', ''application/json; charset=utf-8''),
     (''.svg'', ''image/svg+xml''),
     (''.png'', ''image/png''),
     (''.jpg'', ''image/jpeg''),
     (''.gif'', ''image/gif''),
     (''.ico'', ''image/x-icon''),
     (''.webp'', ''image/webp''),
     (''.woff2'', ''font/woff2''),
     (''.woff'', ''font/woff''),
     (''.ttf'', ''font/ttf'')]"

definition contentType :: "string \<Rightarrow> string" where
  "contentType p = (case map_of CONTENT_TYPES (toLowerCase (extname p)) of
       Some t \<Rightarrow> t | None \<Rightarrow> ''application/octet-stream'')"

text \<open>A read: the bytes, an error with a code, or an error without one.\<close>

datatype read_result = FileBytes bytes | ReadError "string option"

definition isMissing :: "string option \<Rightarrow> bool" where
  "isMissing code \<longleftrightarrow> code \<in> {Some ''ENOENT'', Some ''EISDIR'', Some ''ENOTDIR''}"

definition safePath :: "string \<Rightarrow> string \<Rightarrow> string option" where
  "safePath root urlPath =
     (let candidate = resolve root (''.'' @ urlPath)
      in if candidate \<noteq> root \<and> \<not> prefix (root @ ''/'') candidate then None else Some candidate)"

datatype spa_result = SpaFile (spa_type: string) (spa_bytes: bytes) | SpaForbidden | SpaNotFound | SpaThrew

type_synonym file_system = "string \<Rightarrow> read_result"

definition tryServeFile :: "file_system \<Rightarrow> string \<Rightarrow> spa_result" where
  "tryServeFile files p = (case files p of
       FileBytes bs \<Rightarrow> SpaFile (contentType p) bs
     | ReadError code \<Rightarrow> if isMissing code then SpaNotFound else SpaThrew)"

text \<open>\<open>SpaNotFound\<close> is the return of \<open>false\<close>: the caller answers 404.\<close>

definition serveSpa :: "string \<Rightarrow> file_system \<Rightarrow> string \<Rightarrow> string \<Rightarrow> spa_result \<times> string list" where
  "serveSpa cwd files dir urlPath =
     (let root = resolve cwd dir
      in case safePath root urlPath of
           None \<Rightarrow> (SpaForbidden, [])
         | Some target \<Rightarrow>
             (let served = tryServeFile files target
              in if served \<noteq> SpaNotFound then (served, [target])
                 else if extname urlPath = []
                 then (let entry = resolve root ''index.html'' in (tryServeFile files entry, [target, entry]))
                 else (SpaNotFound, [target])))"

section \<open>Canonical paths\<close>

definition plain :: "string \<Rightarrow> bool" where
  "plain s \<longleftrightarrow> s \<noteq> [] \<and> s \<noteq> ''.'' \<and> s \<noteq> ''..'' \<and> CHR ''/'' \<notin> set s"

lemma normal_plain: "list_all plain done \<Longrightarrow> list_all (\<lambda>s. CHR ''/'' \<notin> set s) ss \<Longrightarrow> list_all plain (normal done ss)"
proof (induction "done" ss rule: normal.induct)
  case (1 "done")
  then show ?case by simp
next
  case (2 "done" s ss)
  have "list_all plain (tl done)" using "2.prems"(1) by (cases "done") auto
  moreover have "plain s" if "s \<noteq> []" "s \<noteq> ''.''" "s \<noteq> ''..''" using that "2.prems"(2) by (simp add: plain_def)
  ultimately show ?case using 2 by simp
qed

lemma normal_id: "list_all plain ss \<Longrightarrow> normal done ss = rev done @ ss"
  by (induction ss arbitrary: "done") (auto simp: plain_def)

lemma path_segments_plain: "list_all plain (path_segments p)"
  unfolding path_segments_def by (rule normal_plain) (auto simp: list_all_iff split_on_parts)

lemma split_segments: "list_all (\<lambda>s. d \<notin> set s) ss \<Longrightarrow> ss \<noteq> [] \<Longrightarrow> split_on d (join [d] ss) = ss"
proof (induction "[d]" ss rule: join.induct)
  case (2 s)
  then show ?case by (simp add: split_on_none)
next
  case (3 s t ss)
  then show ?case using split_on_sep [of d s] by simp
qed simp

lemma path_segments_text: "list_all plain ss \<Longrightarrow> path_segments (path_text ss) = ss"
proof (cases "ss = []")
  case False
  assume plain: "list_all plain ss"
  then have "split_on CHR ''/'' (join ''/'' ss) = ss"
    using False by (intro split_segments) (auto simp: plain_def list_all_iff)
  then have "split_on CHR ''/'' (path_text ss) = [] # ss"
    by (simp add: path_text_def)
  with plain show ?thesis by (simp add: path_segments_def normal_id)
qed (simp add: path_segments_def path_text_def)

lemma split_on_append: "split_on d (u @ d # t) = split_on d u @ split_on d t"
  by (induction u) (auto split: list.split)

lemma split_path_text: "list_all plain ss \<Longrightarrow> ss \<noteq> [] \<Longrightarrow> split_on CHR ''/'' (path_text ss) = [] # ss"
  using split_segments [of "CHR ''/''" ss] by (simp add: path_text_def plain_def list_all_iff)

lemma join_append: "rs \<noteq> [] \<Longrightarrow> ss \<noteq> [] \<Longrightarrow> join sep (rs @ ss) = join sep rs @ sep @ join sep ss"
  by (induction sep rs rule: join.induct) (auto simp: neq_Nil_conv)

lemma prefix_path_text:
  assumes "list_all plain rs" and "list_all plain ss" and "prefix (path_text rs @ ''/'') (path_text ss)"
  shows "prefix rs ss"
proof (cases "rs = []")
  case False
  from assms(3) obtain t where t: "path_text ss = path_text rs @ CHR ''/'' # t" by (auto simp: prefix_def)
  then have "ss \<noteq> []" by (cases rs; cases ss) (auto simp: path_text_def)
  then have "[] # ss = split_on CHR ''/'' (path_text rs @ CHR ''/'' # t)"
    using assms(2) by (simp add: split_path_text flip: t)
  also have "\<dots> = ([] # rs) @ split_on CHR ''/'' t"
    using assms(1) False by (simp add: split_on_append split_path_text)
  finally have "[] # ss = ([] # rs) @ split_on CHR ''/'' t" .
  then show ?thesis by simp
qed simp

lemma resolve_canonical: "\<exists>ss. resolve base p = path_text ss \<and> list_all plain ss"
  using path_segments_plain by (auto simp: resolve_def)

lemma segments_resolve: "path_text (path_segments (resolve base p)) = resolve base p"
  using resolve_canonical [of base p] path_segments_text by auto

lemma normal_append: "list_all plain rs \<Longrightarrow> normal done (rs @ ss) = normal (rev rs @ done) ss"
  by (induction rs arbitrary: "done") (auto simp: plain_def)

lemma resolve_below:
  assumes "list_all plain rs" and "list_all plain ss" and "ss \<noteq> []" and "\<not> prefix ''/'' p"
    and "normal [] (split_on CHR ''/'' p) = ss" and "split_on CHR ''/'' p = ds @ ss" and "ds = [] \<or> ds = [''.'']"
  shows "resolve (path_text rs) p = path_text (rs @ ss)"
proof -
  have "split_on CHR ''/'' (path_text rs @ ''/'' @ p) = split_on CHR ''/'' (path_text rs) @ ds @ ss"
    using split_on_append [of "CHR ''/''" "path_text rs" p] assms(6) by simp
  moreover have "normal [] (split_on CHR ''/'' (path_text rs) @ ds @ ss) = rs @ ss"
  proof (cases "rs = []")
    case True
    then have "split_on CHR ''/'' (path_text rs) = [[], []]" by (simp add: path_text_def)
    with True assms(2,7) show ?thesis by (auto simp: normal_id)
  next
    case False
    with assms(1,2,7) show ?thesis by (auto simp: split_path_text normal_append normal_id)
  qed
  ultimately show ?thesis using assms(4) by (simp add: resolve_def path_segments_def)
qed

section \<open>Confinement\<close>

text \<open>A path at or below another one, segment by segment.\<close>

definition below :: "string \<Rightarrow> string \<Rightarrow> bool" where
  "below root p \<longleftrightarrow> prefix (path_segments root) (path_segments p) \<and> path_text (path_segments p) = p"

lemma safePath_below:
  assumes "safePath (resolve cwd dir) urlPath = Some target"
  shows "below (resolve cwd dir) target"
proof -
  obtain rs where rs: "resolve cwd dir = path_text rs" "list_all plain rs" using resolve_canonical by blast
  from assms have t: "target = resolve (path_text rs) (''.'' @ urlPath)"
    and inside: "target = path_text rs \<or> prefix (path_text rs @ ''/'') target"
    by (auto simp: safePath_def Let_def rs split: if_splits)
  obtain ss where ss: "target = path_text ss" "list_all plain ss" using t resolve_canonical by blast
  have "prefix rs ss"
  proof (cases "target = path_text rs")
    case True
    with rs ss have "rs = ss" by (metis path_segments_text)
    then show ?thesis by simp
  next
    case False
    with inside rs ss show ?thesis by (auto intro: prefix_path_text)
  qed
  with rs ss show ?thesis by (simp add: below_def path_segments_text)
qed

lemma index_below: "below (resolve cwd dir) (resolve (resolve cwd dir) ''index.html'')"
proof -
  obtain rs where rs: "resolve cwd dir = path_text rs" "list_all plain rs" using resolve_canonical by blast
  have "resolve (path_text rs) ''index.html'' = path_text (rs @ [''index.html''])"
    by (rule resolve_below [OF rs(2), where ds = "[]"]) (simp_all add: plain_def)
  moreover have "list_all plain (rs @ [''index.html''])" using rs(2) by (simp add: plain_def)
  ultimately show ?thesis using rs by (simp add: below_def path_segments_text)
qed


definition sample_files :: file_system where
  "sample_files p = (if p = ''/srv/spa/app.js'' then FileBytes [1, 2] else ReadError (Some ''ENOENT''))"


end
