(* ===== verification/Config.thy ===== *)
theory Config
  imports Http Auth "HOL-Library.List_Lexorder" "HOL-Library.Multiset"
begin

text \<open>
  The configuration of the backend (\<open>apps/bff/src/config.ts\<close>), from the environment to the
  validated record, and the view of the role map (\<open>auth/rbac.ts\<close>).  The schema library is
  modelled by what it documents of the validators used: a coerced positive integer, a text
  of at least one character, a closed list of values, an object whose unknown properties are
  dropped; its check of a URL is the parameter \<open>is_url\<close>.  A validation reports the paths of
  all its issues.
\<close>

section \<open>The validated configuration\<close>

record SessionSettings =
  ss_ttlMs :: int
  ss_cookieName :: string
  ss_cookieSecure :: bool
  ss_maxSessions :: int
  ss_maxPendingLogins :: int

record OidcConfig =
  oc_issuer :: string
  oc_clientId :: string
  oc_roleClaim :: string
  oc_scope :: string
  oc_jwksUri :: string
  oc_deviceCodeEndpoint :: string
  oc_tokenEndpoint :: string

record BffConfig =
  cf_engineHost :: string
  cf_enginePort :: int
  cf_httpHost :: string
  cf_httpPort :: int
  cf_logLevel :: string
  cf_cacheTtlMs :: int
  cf_cacheMaxEntries :: int
  cf_requestTimeoutMs :: int
  cf_signerPort :: "int option"
  cf_secretPort :: "int option"
  cf_sessionPort :: "int option"
  cf_heartbeatIntervalMs :: int
  cf_spaDir :: "string option"
  cf_session :: SessionSettings
  cf_oidc :: "OidcConfig option"
  cf_rbac :: RbacConfig

type_synonym environment = "string \<Rightarrow> string option"

section \<open>Validators\<close>

text \<open>\<open>z.coerce.number().int().positive()\<close>: a NaN is one issue, otherwise each check reports its own.\<close>

definition positive_int_issues :: "string \<Rightarrow> string option \<Rightarrow> string list" where
  "positive_int_issues field v = (case v of
       None \<Rightarrow> []
     | Some t \<Rightarrow> (let n = string_to_number t
         in if n = NaN then [field]
            else (if isInteger n then [] else [field]) @ (if num_less (NInt 0) n then [] else [field])))"

definition number_field :: "string option \<Rightarrow> int option" where
  "number_field v = map_option (\<lambda>t. toBigInt (string_to_number t)) v"

definition text_issues :: "string \<Rightarrow> string option \<Rightarrow> string list" where
  "text_issues field v = (if v = Some [] then [field] else [])"

definition enum_issues :: "string \<Rightarrow> string list \<Rightarrow> string option \<Rightarrow> string list" where
  "enum_issues field known v = (case v of None \<Rightarrow> [] | Some t \<Rightarrow> if t \<in> set known then [] else [field])"

definition url_issues :: "(string \<Rightarrow> bool) \<Rightarrow> string \<Rightarrow> string option \<Rightarrow> string list" where
  "url_issues is_url field v = (case v of None \<Rightarrow> [] | Some t \<Rightarrow> if is_url t then [] else [field])"

definition LOG_LEVELS :: "string list" where
  "LOG_LEVELS = [''fatal'', ''error'', ''warn'', ''info'', ''debug'', ''trace'']"

definition the_text :: "string \<Rightarrow> string option \<Rightarrow> string" where
  "the_text dflt v = (case v of None \<Rightarrow> dflt | Some t \<Rightarrow> t)"

definition the_number :: "int \<Rightarrow> string option \<Rightarrow> int" where
  "the_number dflt v = (case number_field v of None \<Rightarrow> dflt | Some n \<Rightarrow> n)"

definition config_issues :: "(string \<Rightarrow> bool) \<Rightarrow> environment \<Rightarrow> string list" where
  "config_issues is_url env = concat [
     text_issues ''engineHost'' (env ''FC_ENGINE_HOST''),
     positive_int_issues ''enginePort'' (env ''FC_ENGINE_PORT''),
     text_issues ''httpHost'' (env ''FC_HTTP_HOST''),
     positive_int_issues ''httpPort'' (env ''FC_HTTP_PORT''),
     enum_issues ''logLevel'' LOG_LEVELS (env ''FC_LOG_LEVEL''),
     positive_int_issues ''cacheTtlMs'' (env ''FC_CACHE_TTL_MS''),
     positive_int_issues ''cacheMaxEntries'' (env ''FC_CACHE_MAX_ENTRIES''),
     positive_int_issues ''requestTimeoutMs'' (env ''FC_REQUEST_TIMEOUT_MS''),
     positive_int_issues ''signerPort'' (env ''FC_SIGNER_PORT''),
     positive_int_issues ''secretPort'' (env ''FC_IDAM_SECRET_PORT''),
     positive_int_issues ''sessionPort'' (env ''FC_SIDECAR_SESSION_PORT''),
     positive_int_issues ''engineHeartbeatMs'' (env ''FC_ENGINE_HEARTBEAT_MS''),
     text_issues ''spaDir'' (env ''FC_SPA_DIST''),
     positive_int_issues ''sessionTtlMs'' (env ''FC_SESSION_TTL_MS''),
     text_issues ''sessionCookieName'' (env ''FC_SESSION_COOKIE''),
     enum_issues ''sessionCookieSecure'' [''true'', ''false''] (env ''FC_SESSION_COOKIE_SECURE''),
     positive_int_issues ''sessionMax'' (env ''FC_SESSION_MAX''),
     positive_int_issues ''loginMax'' (env ''FC_LOGIN_MAX''),
     url_issues is_url ''oidcIssuer'' (env ''FC_OIDC_ISSUER''),
     text_issues ''oidcClientId'' (env ''FC_OIDC_CLIENT_ID''),
     text_issues ''oidcRoleClaim'' (env ''FC_OIDC_ROLE_CLAIM''),
     text_issues ''oidcScope'' (env ''FC_OIDC_SCOPE''),
     url_issues is_url ''oidcJwksUri'' (env ''FC_OIDC_JWKS_URI''),
     url_issues is_url ''oidcDeviceCodeEndpoint'' (env ''FC_OIDC_DEVICE_ENDPOINT''),
     url_issues is_url ''oidcTokenEndpoint'' (env ''FC_OIDC_TOKEN_ENDPOINT'')]"

section \<open>Loopback hosts\<close>

definition isLoopbackHost :: "string \<Rightarrow> bool" where
  "isLoopbackHost host \<longleftrightarrow> host = ''localhost'' \<or> host = ''::1'' \<or> host = ''127.0.0.1'' \<or> prefix ''127.'' host"

section \<open>The login provider\<close>

definition trimTrailingSlash :: "string \<Rightarrow> string" where
  "trimTrailingSlash url = (if suffix ''/'' url then butlast url else url)"

definition resolveOidc :: "environment \<Rightarrow> string + OidcConfig option" where
  "resolveOidc env = (case env ''FC_OIDC_ISSUER'' of
       None \<Rightarrow> Inr None
     | Some issuer \<Rightarrow>
         (let missing = (if env ''FC_OIDC_CLIENT_ID'' = None then [''FC_OIDC_CLIENT_ID''] else [])
                      @ (if env ''FC_OIDC_ROLE_CLAIM'' = None then [''FC_OIDC_ROLE_CLAIM''] else []);
              base = trimTrailingSlash issuer
          in if missing \<noteq> [] then Inl (''FC_OIDC_ISSUER is set but auth is incomplete: set '' @ join '', '' missing)
             else Inr (Some \<lparr>oc_issuer = issuer,
               oc_clientId = the_text [] (env ''FC_OIDC_CLIENT_ID''),
               oc_roleClaim = the_text [] (env ''FC_OIDC_ROLE_CLAIM''),
               oc_scope = the_text ''openid profile email'' (env ''FC_OIDC_SCOPE''),
               oc_jwksUri = the_text (base @ ''/.well-known/jwks.json'') (env ''FC_OIDC_JWKS_URI''),
               oc_deviceCodeEndpoint = the_text (base @ ''/oauth/device/code'') (env ''FC_OIDC_DEVICE_ENDPOINT''),
               oc_tokenEndpoint = the_text (base @ ''/oauth/token'') (env ''FC_OIDC_TOKEN_ENDPOINT'')\<rparr>)))"

section \<open>The role map\<close>

definition role_named :: "string \<Rightarrow> OperatorRole option" where
  "role_named t = map_of [(''global-admin'', GlobalAdmin), (''tenant-admin'', TenantAdmin), (''tenant-user'', TenantUser)] t"

text \<open>An optional text of at least one character.\<close>

definition optional_text :: "string \<Rightarrow> jsval \<Rightarrow> string list + string option" where
  "optional_text path v = (case v of
       JUndef \<Rightarrow> Inr None
     | JStr t \<Rightarrow> if t = [] then Inl [path] else Inr (Some t)
     | _ \<Rightarrow> Inl [path])"

definition issues_of :: "string list + 'a \<Rightarrow> string list" where
  "issues_of v = (case v of Inl is \<Rightarrow> is | Inr _ \<Rightarrow> [])"

definition plain_object :: "jsval \<Rightarrow> (string \<times> jsval) list option" where
  "plain_object v = (case v of JObj ob \<Rightarrow> Some ob | _ \<Rightarrow> None)"

definition role_grant :: "string \<Rightarrow> jsval \<Rightarrow> string list + RoleGrant" where
  "role_grant path v = (case plain_object v of
       None \<Rightarrow> Inl [path]
     | Some _ \<Rightarrow>
         (let role = Option.bind (as_string (get_prop v ''role'')) role_named;
              tenant = optional_text (path @ ''.tenant'') (get_prop v ''tenant'')
          in case (role, tenant) of
               (Some role, Inr t) \<Rightarrow> Inr \<lparr>grant_role = role, grant_tenant = t\<rparr>
             | _ \<Rightarrow> Inl ((if role = None then [path @ ''.role''] else []) @ issues_of tenant)))"

text \<open>\<open>z.record\<close>: every own property but \<open>__proto__\<close> is kept when all of them validate.\<close>

definition grant_record :: "string \<Rightarrow> jsval \<Rightarrow> string list + (string \<times> RoleGrant) list" where
  "grant_record path v = (case v of
       JUndef \<Rightarrow> Inr []
     | JObj ob \<Rightarrow>
         (let checked = map (\<lambda>(k, x). (k, role_grant (path @ ''.'' @ k) x)) ob;
              issues = concat (map (issues_of \<circ> snd) checked)
          in if issues \<noteq> [] then Inl issues
             else Inr (List.map_filter (\<lambda>(k, g). case g of Inr grant \<Rightarrow> if k = ''__proto__'' then None else Some (k, grant)
                                          | Inl _ \<Rightarrow> None) checked))
     | _ \<Rightarrow> Inl [path])"

definition rbac_config :: "jsval \<Rightarrow> string list + RbacConfig" where
  "rbac_config v = (case plain_object v of
       None \<Rightarrow> Inl [''(root)'']
     | Some _ \<Rightarrow>
         (let groups = grant_record ''groupRoles'' (get_prop v ''groupRoles'');
              locals = grant_record ''localRbac'' (get_prop v ''localRbac'');
              tenant = optional_text ''defaultTenant'' (get_prop v ''defaultTenant'')
          in case (groups, locals, tenant) of
               (Inr g, Inr l, Inr t) \<Rightarrow> Inr \<lparr>groupRoles = g, localRbac = l, defaultTenant = t\<rparr>
             | _ \<Rightarrow> Inl (issues_of groups @ issues_of locals @ issues_of tenant)))"

definition resolveRbac :: "environment \<Rightarrow> string + RbacConfig" where
  "resolveRbac env = (case env ''FC_RBAC_CONFIG'' of
       None \<Rightarrow> Inr \<lparr>groupRoles = [], localRbac = [], defaultTenant = None\<rparr>
     | Some raw \<Rightarrow>
         if trim raw = [] then Inr \<lparr>groupRoles = [], localRbac = [], defaultTenant = None\<rparr>
         else (case json_parse raw of
             None \<Rightarrow> Inl ''FC_RBAC_CONFIG is not valid JSON''
           | Some v \<Rightarrow> (case rbac_config v of
               Inl paths \<Rightarrow> Inl (''invalid FC_RBAC_CONFIG: check '' @ join '', '' paths)
             | Inr rbac \<Rightarrow> Inr rbac)))"

section \<open>Loading\<close>

definition session_settings :: "environment \<Rightarrow> SessionSettings" where
  "session_settings env =
     \<lparr>ss_ttlMs = the_number 3600000 (env ''FC_SESSION_TTL_MS''),
      ss_cookieName = the_text ''fc_session'' (env ''FC_SESSION_COOKIE''),
      ss_cookieSecure = (the_text ''true'' (env ''FC_SESSION_COOKIE_SECURE'') = ''true''),
      ss_maxSessions = the_number 4096 (env ''FC_SESSION_MAX''),
      ss_maxPendingLogins = the_number 256 (env ''FC_LOGIN_MAX'')\<rparr>"

text \<open>\<open>Inl\<close> is the message of the \<open>ConfigError\<close>.\<close>

definition loadConfig :: "(string \<Rightarrow> bool) \<Rightarrow> environment \<Rightarrow> string + BffConfig" where
  "loadConfig is_url env =
     (let issues = config_issues is_url env;
          engineHost = the_text ''127.0.0.1'' (env ''FC_ENGINE_HOST'');
          httpHost = the_text ''127.0.0.1'' (env ''FC_HTTP_HOST'')
      in if issues \<noteq> [] then Inl (''invalid BFF configuration: check '' @ join '', '' issues)
         else if \<not> isLoopbackHost engineHost
         then Inl (''FC_ENGINE_HOST must be loopback (the crypto sidecar egress), not a routable host: '' @ engineHost)
         else if \<not> isLoopbackHost httpHost
         then Inl (''FC_HTTP_HOST must be loopback (the sidecar admin plane fronts the BFF), not a routable host: '' @ httpHost)
         else bind_result (resolveOidc env) (\<lambda>oidc. bind_result (resolveRbac env) (\<lambda>rbac.
           Inr \<lparr>cf_engineHost = engineHost,
                cf_enginePort = the_number 8789 (env ''FC_ENGINE_PORT''),
                cf_httpHost = httpHost,
                cf_httpPort = the_number 8787 (env ''FC_HTTP_PORT''),
                cf_logLevel = the_text ''info'' (env ''FC_LOG_LEVEL''),
                cf_cacheTtlMs = the_number 2000 (env ''FC_CACHE_TTL_MS''),
                cf_cacheMaxEntries = the_number 1000 (env ''FC_CACHE_MAX_ENTRIES''),
                cf_requestTimeoutMs = the_number 5000 (env ''FC_REQUEST_TIMEOUT_MS''),
                cf_signerPort = number_field (env ''FC_SIGNER_PORT''),
                cf_secretPort = number_field (env ''FC_IDAM_SECRET_PORT''),
                cf_sessionPort = number_field (env ''FC_SIDECAR_SESSION_PORT''),
                cf_heartbeatIntervalMs = the_number 20000 (env ''FC_ENGINE_HEARTBEAT_MS''),
                cf_spaDir = env ''FC_SPA_DIST'',
                cf_session = session_settings env,
                cf_oidc = oidc,
                cf_rbac = rbac\<rparr>)))"

section \<open>The view of the role map\<close>

record RbacGrantRow =
  gr_key :: string
  gr_role :: OperatorRole
  gr_tenant :: "string option"

record RbacConfigView =
  rv_groupRoles :: "RbacGrantRow list"
  rv_localRbac :: "RbacGrantRow list"
  rv_defaultTenant :: "string option"

definition grantRows :: "(string \<times> RoleGrant) list \<Rightarrow> RbacGrantRow list" where
  "grantRows m = map (\<lambda>(key, grant). \<lparr>gr_key = key, gr_role = grant_role grant,
       gr_tenant = (if grant_role grant = GlobalAdmin then None else grant_tenant grant)\<rparr>)
     (sort_key (\<lambda>(key, grant). utf16_units key) m)"

definition rbacConfigView :: "RbacConfig \<Rightarrow> RbacConfigView" where
  "rbacConfigView config =
     \<lparr>rv_groupRoles = grantRows (groupRoles config), rv_localRbac = grantRows (localRbac config),
      rv_defaultTenant = defaultTenant config\<rparr>"

section \<open>What a loaded configuration guarantees\<close>

lemma num_less_zero: "isInteger n \<Longrightarrow> num_less (NInt 0) n \<Longrightarrow> 0 < toBigInt n"
  by (cases n) (auto simp: num_less_def isInteger_def toBigInt_def ratio_def magnitude_def is_finite_def minus_zero_def inf_bits_def
      split: if_splits)

lemma positive_number: "positive_int_issues field v = [] \<Longrightarrow> number_field v = Some n \<Longrightarrow> 0 < n"
  by (auto simp: positive_int_issues_def number_field_def Let_def num_less_zero split: if_splits)

lemma the_number_positive: "positive_int_issues field v = [] \<Longrightarrow> 0 < dflt \<Longrightarrow> 0 < the_number dflt v"
  by (auto simp: the_number_def positive_number split: option.split)

lemma the_text_nonempty: "text_issues field v = [] \<Longrightarrow> dflt \<noteq> [] \<Longrightarrow> the_text dflt v \<noteq> []"
  by (auto simp: text_issues_def the_text_def split: if_splits option.split)

definition limits_positive :: "BffConfig \<Rightarrow> bool" where
  "limits_positive cfg \<longleftrightarrow>
     list_all (\<lambda>n. 0 < n) [cf_enginePort cfg, cf_httpPort cfg, cf_cacheTtlMs cfg, cf_cacheMaxEntries cfg,
       cf_requestTimeoutMs cfg, cf_heartbeatIntervalMs cfg, ss_ttlMs (cf_session cfg),
       ss_maxSessions (cf_session cfg), ss_maxPendingLogins (cf_session cfg)] \<and>
     list_all (pred_option (\<lambda>n. 0 < n)) [cf_signerPort cfg, cf_secretPort cfg, cf_sessionPort cfg]"

definition oidc_complete :: "(string \<Rightarrow> bool) \<Rightarrow> OidcConfig \<Rightarrow> bool" where
  "oidc_complete is_url oidc \<longleftrightarrow> is_url (oc_issuer oidc) \<and> oc_clientId oidc \<noteq> [] \<and> oc_roleClaim oidc \<noteq> [] \<and> oc_scope oidc \<noteq> []"

lemma loadConfig_cases:
  assumes "loadConfig is_url env = Inr cfg"
  shows "config_issues is_url env = []" and "isLoopbackHost (cf_engineHost cfg)" and "isLoopbackHost (cf_httpHost cfg)"
    and "resolveOidc env = Inr (cf_oidc cfg)" and "resolveRbac env = Inr (cf_rbac cfg)"
    and "cf_session cfg = session_settings env"
  using assms by (auto simp: loadConfig_def Let_def bind_result_eq_Inr split: if_splits)

lemma config_issue_free:
  assumes "config_issues is_url env = []"
  shows "positive_int_issues ''enginePort'' (env ''FC_ENGINE_PORT'') = []"
    "positive_int_issues ''httpPort'' (env ''FC_HTTP_PORT'') = []"
    "positive_int_issues ''cacheTtlMs'' (env ''FC_CACHE_TTL_MS'') = []"
    "positive_int_issues ''cacheMaxEntries'' (env ''FC_CACHE_MAX_ENTRIES'') = []"
    "positive_int_issues ''requestTimeoutMs'' (env ''FC_REQUEST_TIMEOUT_MS'') = []"
    "positive_int_issues ''signerPort'' (env ''FC_SIGNER_PORT'') = []"
    "positive_int_issues ''secretPort'' (env ''FC_IDAM_SECRET_PORT'') = []"
    "positive_int_issues ''sessionPort'' (env ''FC_SIDECAR_SESSION_PORT'') = []"
    "positive_int_issues ''engineHeartbeatMs'' (env ''FC_ENGINE_HEARTBEAT_MS'') = []"
    "positive_int_issues ''sessionTtlMs'' (env ''FC_SESSION_TTL_MS'') = []"
    "positive_int_issues ''sessionMax'' (env ''FC_SESSION_MAX'') = []"
    "positive_int_issues ''loginMax'' (env ''FC_LOGIN_MAX'') = []"
    "text_issues ''sessionCookieName'' (env ''FC_SESSION_COOKIE'') = []"
    "url_issues is_url ''oidcIssuer'' (env ''FC_OIDC_ISSUER'') = []"
    "text_issues ''oidcClientId'' (env ''FC_OIDC_CLIENT_ID'') = []"
    "text_issues ''oidcRoleClaim'' (env ''FC_OIDC_ROLE_CLAIM'') = []"
    "text_issues ''oidcScope'' (env ''FC_OIDC_SCOPE'') = []"
  using assms by (simp_all add: config_issues_def)

lemma loadConfig_limits:
  assumes "loadConfig is_url env = Inr cfg"
  shows "limits_positive cfg"
proof -
  note free = config_issue_free [OF loadConfig_cases(1) [OF assms]]
  have opt: "pred_option (\<lambda>n. 0 < n) (number_field v)" if "positive_int_issues field v = []" for field v
    using positive_number [OF that] by (cases "number_field v") auto
  from assms have fields: "cf_enginePort cfg = the_number 8789 (env ''FC_ENGINE_PORT'')"
    "cf_httpPort cfg = the_number 8787 (env ''FC_HTTP_PORT'')"
    "cf_cacheTtlMs cfg = the_number 2000 (env ''FC_CACHE_TTL_MS'')"
    "cf_cacheMaxEntries cfg = the_number 1000 (env ''FC_CACHE_MAX_ENTRIES'')"
    "cf_requestTimeoutMs cfg = the_number 5000 (env ''FC_REQUEST_TIMEOUT_MS'')"
    "cf_signerPort cfg = number_field (env ''FC_SIGNER_PORT'')"
    "cf_secretPort cfg = number_field (env ''FC_IDAM_SECRET_PORT'')"
    "cf_sessionPort cfg = number_field (env ''FC_SIDECAR_SESSION_PORT'')"
    "cf_heartbeatIntervalMs cfg = the_number 20000 (env ''FC_ENGINE_HEARTBEAT_MS'')"
    "cf_session cfg = session_settings env"
    by (auto simp: loadConfig_def Let_def bind_result_eq_Inr split: if_splits)
  show ?thesis unfolding limits_positive_def fields session_settings_def
    using free(1-12) by (simp add: the_number_positive opt)
qed

lemma loadConfig_oidc:
  assumes "loadConfig is_url env = Inr cfg"
  shows "pred_option (oidc_complete is_url) (cf_oidc cfg)" and "cf_oidc cfg = None \<longleftrightarrow> env ''FC_OIDC_ISSUER'' = None"
proof -
  note free = config_issue_free(14-17) [OF loadConfig_cases(1) [OF assms]]
  note oidc = loadConfig_cases(4) [OF assms]
  show "cf_oidc cfg = None \<longleftrightarrow> env ''FC_OIDC_ISSUER'' = None"
    using oidc [symmetric] by (auto simp: resolveOidc_def Let_def split: option.splits if_splits)
  show "pred_option (oidc_complete is_url) (cf_oidc cfg)"
  proof (cases "env ''FC_OIDC_ISSUER''")
    case None
    with oidc show ?thesis by (auto simp: resolveOidc_def)
  next
    case (Some issuer)
    with oidc obtain client role where c: "env ''FC_OIDC_CLIENT_ID'' = Some client" "env ''FC_OIDC_ROLE_CLAIM'' = Some role"
      by (auto simp: resolveOidc_def Let_def split: if_splits)
    have "the_text ''openid profile email'' (env ''FC_OIDC_SCOPE'') \<noteq> []"
      using free(4) by (rule the_text_nonempty) simp
    with Some c oidc [symmetric] free(1-3) show ?thesis
      by (auto simp: resolveOidc_def Let_def oidc_complete_def url_issues_def text_issues_def the_text_def split: if_splits)
  qed
qed

lemma empty_map_no_authority:
  assumes "groupRoles rbac = []" and "localRbac rbac = []"
  shows "resolveAuthority subject groups rbac = None"
proof -
  have "candidates subject groups rbac = []" using assms by (simp add: candidates_def matched_def map_filter_def)
  moreover define chosen where "chosen = (if groups \<noteq> [] then highestGroupGrant groups (groupRoles rbac)
    else record_get (localRbac rbac) subject)"
  ultimately have "chosen \<noteq> Own grant" for grant
    using candidates_chosen [where groups = groups and config = rbac and subject = subject]
    by (auto simp flip: chosen_def)
  then have "chosen = Missing \<or> chosen = Inherited" by (cases chosen) auto
  then show ?thesis by (auto simp: resolveAuthority_def simp flip: chosen_def)
qed

text \<open>
  C24.  The backend starts only with a configuration that is safe to serve: it dials the
  engine and listens on hosts the loopback check accepts, every port, limit and time is
  positive, the login provider is either absent or complete, and without a role map
  nobody has any authority.
\<close>
theorem config_fail_closed:
  assumes "loadConfig is_url env = Inr cfg"
  shows "isLoopbackHost (cf_engineHost cfg) \<and> isLoopbackHost (cf_httpHost cfg) \<and> limits_positive cfg \<and>
    (cf_oidc cfg = None \<longleftrightarrow> env ''FC_OIDC_ISSUER'' = None) \<and> pred_option (oidc_complete is_url) (cf_oidc cfg) \<and>
    (env ''FC_RBAC_CONFIG'' = None \<longrightarrow> resolveAuthority subject groups (cf_rbac cfg) = None)"
proof (intro conjI impI)
  show "isLoopbackHost (cf_engineHost cfg)" "isLoopbackHost (cf_httpHost cfg)"
    using loadConfig_cases(2,3) [OF assms] .
  show "limits_positive cfg" using assms by (rule loadConfig_limits)
  show "cf_oidc cfg = None \<longleftrightarrow> env ''FC_OIDC_ISSUER'' = None" "pred_option (oidc_complete is_url) (cf_oidc cfg)"
    using loadConfig_oidc [OF assms] by blast+
  assume "env ''FC_RBAC_CONFIG'' = None"
  then show "resolveAuthority subject groups (cf_rbac cfg) = None"
    using loadConfig_cases(5) [OF assms, symmetric] by (intro empty_map_no_authority) (auto simp: resolveRbac_def)
qed

theorem config_fail_closed_witness:
  "case loadConfig (\<lambda>_. True) (map_of [(''FC_ENGINE_HOST'', ''localhost'')]) of
     Inl _ \<Rightarrow> False
   | Inr cfg \<Rightarrow> cf_httpPort cfg = 8787 \<and> isLoopbackHost (cf_engineHost cfg) \<and>
       resolveAuthority ''alice'' [''admins''] (cf_rbac cfg) = None"
proof -
  let ?env = "map_of [(''FC_ENGINE_HOST'', ''localhost'')]"
  have "case loadConfig (\<lambda>_. True) ?env of Inl _ \<Rightarrow> False | Inr cfg \<Rightarrow> cf_httpPort cfg = 8787"
    by (simp add: loadConfig_def config_issues_def positive_int_issues_def text_issues_def enum_issues_def
        url_issues_def isLoopbackHost_def the_text_def the_number_def number_field_def resolveOidc_def resolveRbac_def Let_def)
  then obtain cfg where "loadConfig (\<lambda>_. True) ?env = Inr cfg" and "cf_httpPort cfg = 8787"
    by (auto split: sum.splits)
  moreover have "?env ''FC_RBAC_CONFIG'' = None" by simp
  ultimately show ?thesis
    using config_fail_closed [of "\<lambda>_. True" ?env cfg "''alice''" "[''admins'']"] by simp
qed

text \<open>The check of the host is a check of a prefix: a routable name can pass it.\<close>

theorem loopback_check_by_prefix: "isLoopbackHost ''127.engine.example''"
  by code_simp

section \<open>The role map as it is shown\<close>

text \<open>
  The settings tab shows every grant of the role map under its key, in the order of
  the keys, with the tenant that decides and no tenant for a global admin.
\<close>
theorem rbac_view_complete:
  "mset (map gr_key (grantRows m)) = mset (map fst m) \<and>
   sorted (map (utf16_units \<circ> gr_key) (grantRows m)) \<and>
   (\<forall>row \<in> set (grantRows m). \<exists>grant. (gr_key row, grant) \<in> set m \<and> gr_role row = grant_role grant \<and>
      gr_tenant row = (if gr_role row = GlobalAdmin then None else grant_tenant grant))"
proof -
  have fst_units: "(\<lambda>(key :: string, grant :: RoleGrant). utf16_units key) = utf16_units \<circ> fst"
    by (auto simp: fun_eq_iff)
  have keys: "map gr_key (grantRows m) = map fst (sort_key (utf16_units \<circ> fst) m)"
    unfolding grantRows_def fst_units by (simp add: case_prod_unfold)
  then have "mset (map gr_key (grantRows m)) = mset (map fst m)" by simp
  moreover have "sorted (map (utf16_units \<circ> gr_key) (grantRows m))"
    using sorted_sort_key [of "utf16_units \<circ> fst" m] keys by (metis map_map comp_assoc)
  ultimately show ?thesis by (auto simp: grantRows_def)
qed

end
