(* ===== verification/Server.thy ===== *)
theory Server
  imports Requests Static Config Stores
begin

text \<open>
  The HTTP surface of the backend (\<open>apps/bff/src/server.ts\<close>).  A handler takes the
  dependencies, the environment, the request and the state, and gives \<open>None\<close> when it does
  not claim the request, or else what the browser gets, the calls that were made, and the
  new state.  The environment holds what the request meets: the clock, the answers to
  calls (\<open>None\<close> when a call never settles), and what other requests did to the state while a
  call was awaited.  A handler makes at most one call.
\<close>

section \<open>State, dependencies, environment\<close>

record server_state =
  sv_auth :: auth_state
  sv_cache :: "jsval cache"

record ServerDeps =
  sd_config :: BffConfig
  sd_authRouter :: "AuthRouterDeps option"
  sd_operatorEngine :: bool
  sd_openApi :: jsval

record server_env =
  ev_ambient :: ambient
  ev_oidc :: OidcProvider
  ev_later :: int
  ev_answer :: "server_call \<Rightarrow> (thrown + jsval) option"
  ev_meanwhile :: "server_state \<Rightarrow> server_state"
  ev_files :: file_system
  ev_cwd :: string

abbreviation ev_now :: "server_env \<Rightarrow> int" where
  "ev_now env \<equiv> am_now (ev_ambient env)"

text \<open>What the browser gets: a JSON answer, a file, an error on the way (answered 500), or nothing yet.\<close>

datatype reply = Reply http_response | ReplyFile string bytes | Threw | Unsettled

type_synonym run = "reply \<times> server_call list \<times> server_state"
type_synonym handler = "ServerDeps \<Rightarrow> server_env \<Rightarrow> server_request \<Rightarrow> server_state \<Rightarrow> run option"

definition answer :: "nat \<Rightarrow> jsval \<Rightarrow> reply" where
  "answer status body = Reply (sendJson status body None)"

definition fail_with :: "nat \<Rightarrow> string \<Rightarrow> reply" where
  "fail_with status e = answer status (error_body e)"

definition refused :: "nat \<Rightarrow> string \<Rightarrow> reply" where
  "refused status cls = answer status (JObj [(''error'', JStr ''refused''), (''class'', JStr cls)])"

definition finish :: "reply \<Rightarrow> server_state \<Rightarrow> run" where
  "finish reply st = (reply, [], st)"

definition with_session ::
    "ServerDeps \<Rightarrow> server_env \<Rightarrow> server_request \<Rightarrow> server_state \<Rightarrow> (OperatorSession \<Rightarrow> server_state \<Rightarrow> run) \<Rightarrow> run" where
  "with_session deps env req st k = (case sd_authRouter deps of
       None \<Rightarrow> finish (fail_with 401 ''unauthorized'') st
     | Some auth \<Rightarrow> (case resolveSession auth (ev_now env) (rq_http req) (sv_auth st) of
         (None, a) \<Rightarrow> finish (fail_with 401 ''unauthorized'') (st\<lparr>sv_auth := a\<rparr>)
       | (Some session, a) \<Rightarrow> k session (st\<lparr>sv_auth := a\<rparr>)))"

definition with_engine :: "ServerDeps \<Rightarrow> server_state \<Rightarrow> run \<Rightarrow> run" where
  "with_engine deps st k = (if sd_operatorEngine deps then k else finish (fail_with 503 ''engine_unavailable'') st)"

text \<open>One awaited call.\<close>

definition await ::
    "server_env \<Rightarrow> server_call \<Rightarrow> server_state \<Rightarrow> (thrown \<Rightarrow> reply) \<Rightarrow> (jsval \<Rightarrow> server_state \<Rightarrow> reply \<times> server_state) \<Rightarrow> run" where
  "await env c st on_error on_value = (case ev_answer env c of
       None \<Rightarrow> (Unsettled, [c], st)
     | Some (Inl e) \<Rightarrow> (on_error e, [c], ev_meanwhile env st)
     | Some (Inr v) \<Rightarrow> (case on_value v (ev_meanwhile env st) of (reply, st') \<Rightarrow> (reply, [c], st')))"

definition show_value :: "jsval \<Rightarrow> server_state \<Rightarrow> reply \<times> server_state" where
  "show_value v st = (answer 200 v, st)"

text \<open>A reply of \<open>null\<close> is the engine's refusal: a fixed answer.\<close>

definition unless_null :: "reply \<Rightarrow> (jsval \<Rightarrow> server_state \<Rightarrow> reply \<times> server_state) \<Rightarrow> jsval \<Rightarrow> server_state \<Rightarrow> reply \<times> server_state" where
  "unless_null refusal k v st = (if v = JNull then (refusal, st) else k v st)"

section \<open>The read cache\<close>

definition cache_lookup :: "server_env \<Rightarrow> string \<Rightarrow> string \<Rightarrow> server_state \<Rightarrow> jsval option \<times> server_state" where
  "cache_lookup env key version st = (case cache_get key version (ev_now env) (sv_cache st) of
       (found, c) \<Rightarrow> (if found = Some JUndef then None else found, st\<lparr>sv_cache := c\<rparr>))"

definition cache_store :: "ServerDeps \<Rightarrow> server_env \<Rightarrow> string \<Rightarrow> string \<Rightarrow> jsval \<Rightarrow> server_state \<Rightarrow> reply \<times> server_state" where
  "cache_store deps env key version v st =
     (answer 200 v,
      st\<lparr>sv_cache := cache_set (nat (cf_cacheMaxEntries (sd_config deps))) (cf_cacheTtlMs (sd_config deps)) key v version
           (ev_later env) (sv_cache st)\<rparr>)"

definition drop_prefix :: "string \<Rightarrow> (jsval \<Rightarrow> reply) \<Rightarrow> jsval \<Rightarrow> server_state \<Rightarrow> reply \<times> server_state" where
  "drop_prefix pre shown v st = (shown v, st\<lparr>sv_cache := cache_deletePrefix pre (sv_cache st)\<rparr>)"

text \<open>A cached read: the warm value, or the call whose value is stored.\<close>

definition cached_read ::
    "server_env \<Rightarrow> string \<Rightarrow> string \<Rightarrow> server_call \<Rightarrow> server_state \<Rightarrow> (thrown \<Rightarrow> reply) \<Rightarrow>
      (jsval \<Rightarrow> server_state \<Rightarrow> reply \<times> server_state) \<Rightarrow> run" where
  "cached_read env key version c st on_error on_value = (case cache_lookup env key version st of
       (Some v, st') \<Rightarrow> finish (answer 200 v) st'
     | (None, st') \<Rightarrow> await env c st' on_error on_value)"

section \<open>Statuses of errors\<close>

definition read_error :: "(thrown \<Rightarrow> bool) \<Rightarrow> thrown \<Rightarrow> reply" where
  "read_error unavailable e =
     (if unavailable e then fail_with 503 ''unavailable''
      else case e of EngineRefused cls \<Rightarrow> refused 403 cls | _ \<Rightarrow> fail_with 502 ''engine_error'')"

definition class_status :: "string \<Rightarrow> nat" where
  "class_status cls = (if cls = ''Conflict'' then 409 else if cls = ''Framing'' then 400 else 403)"

definition command_error :: "(thrown \<Rightarrow> bool) \<Rightarrow> thrown \<Rightarrow> reply" where
  "command_error unavailable e =
     (if unavailable e then fail_with 503 ''unavailable''
      else case e of EngineRefused cls \<Rightarrow> refused (class_status cls) cls | _ \<Rightarrow> fail_with 502 ''engine_error'')"

abbreviation none :: "thrown \<Rightarrow> bool" where
  "none \<equiv> \<lambda>_. False"

section \<open>Entities\<close>

text \<open>
  \<open>resolveEntityDetail\<close> is called outside a \<open>try\<close>: an error goes to the last-resort guard, as
  does an identifier that does not decode.
\<close>

definition handleEntityDetail :: handler where
  "handleEntityDetail deps env req st = (case exec ENTITY_DETAIL_RE (path_in req) of
       None \<Rightarrow> None
     | Some gs \<Rightarrow> Some (with_session deps env req st (\<lambda>session st. with_engine deps st
         (case ref_of_match gs of
            None \<Rightarrow> finish Threw st
          | Some ref \<Rightarrow> await env (EngineCall (caller session req) (EntityCall (ResolveEntityDetail ref))) st
              (\<lambda>_. Threw) show_value))))"

definition handleEntityIsolate :: handler where
  "handleEntityIsolate deps env req st = (case exec ENTITY_ISOLATE_RE (path_in req) of
       None \<Rightarrow> None
     | Some gs \<Rightarrow> Some (
         if method_of req \<noteq> ''POST'' then finish (fail_with 405 ''method_not_allowed'') st
         else with_session deps env req st (\<lambda>session st. with_engine deps st
           (case ref_of_match gs of
              None \<Rightarrow> finish Threw st
            | Some ref \<Rightarrow> (case Option.bind (body_of MAX_COMMAND_BODY_BYTES req) (parseIsolateRequest ref) of
                None \<Rightarrow> finish (fail_with 400 ''malformed_request'') st
              | Some request \<Rightarrow>
                  await env (EngineCall (caller session req) (EntityCall (ResolveIsolate ref request (ev_now env)))) st
                    (read_error none) show_value)))))"

section \<open>Logs\<close>

definition handleLogExport :: handler where
  "handleLogExport deps env req st =
     (if path_in req \<noteq> ''/api/logs/export'' then None
      else Some (
        if method_of req \<noteq> ''POST'' then finish (fail_with 405 ''method_not_allowed'') st
        else with_session deps env req st (\<lambda>session st. with_engine deps st
          (case Option.bind (body_of MAX_COMMAND_BODY_BYTES req) parseLogExportRequest of
             None \<Rightarrow> finish (fail_with 400 ''malformed_request'') st
           | Some request \<Rightarrow>
               await env (EngineCall (caller session req) (EntityCall (ResolveLogExport request (ev_now env)))) st
                 (read_error none) show_value))))"

definition explain_error :: "thrown \<Rightarrow> reply" where
  "explain_error e = (case e of EngineRefused _ \<Rightarrow> fail_with 404 ''not_found'' | _ \<Rightarrow> fail_with 502 ''engine_error'')"

definition handleLogs :: handler where
  "handleLogs deps env req st =
     (let explainMatch = exec LOG_EXPLAIN_RE (path_in req)
      in if path_in req \<noteq> ''/api/logs'' \<and> explainMatch = None then None
         else Some (with_session deps env req st (\<lambda>session st. with_engine deps st
           (case explainMatch of
              Some gs \<Rightarrow> (case decodeURIComponent (gs ! 0) of
                  None \<Rightarrow> finish (fail_with 502 ''engine_error'') st
                | Some i \<Rightarrow> await env (EngineCall (caller session req) (EntityCall (ResolveLogExplain i))) st
                    explain_error show_value)
            | None \<Rightarrow> await env (EngineCall (caller session req) (EntityCall (ResolveLogQuery (parseLogFilter req)))) st
                (read_error none) show_value))))"

section \<open>Overview\<close>

definition OVERVIEW_CACHE_VERSION :: string where
  "OVERVIEW_CACHE_VERSION = ''overview-v2''"

definition number_or_empty :: "jsnum option \<Rightarrow> string" where
  "number_or_empty n = (case n of None \<Rightarrow> [] | Some n \<Rightarrow> number_string n)"

definition overview_key :: "string \<Rightarrow> string \<Rightarrow> OverviewQuery \<Rightarrow> string" where
  "overview_key kind tenant query =
     ''overview:'' @ kind @ '':'' @ tenant @ '':'' @ number_or_empty (oq_since query) @ '':''
       @ number_or_empty (oq_until query) @ '':'' @ number_string (oq_limit query)"

definition serveOverviewRead :: "string \<Rightarrow> (OverviewQuery \<Rightarrow> entity_call) \<Rightarrow> ServerDeps \<Rightarrow> server_env \<Rightarrow> server_request \<Rightarrow> server_state \<Rightarrow> run" where
  "serveOverviewRead kind resolver deps env req st =
     with_session deps env req st (\<lambda>session st. with_engine deps st
       (let who = caller session req; query = parseOverviewQuery req; key = overview_key kind (op_tenant who) query
        in cached_read env key OVERVIEW_CACHE_VERSION (EngineCall who (EntityCall (resolver query))) st
             (read_error (\<lambda>e. e = OverviewUnavailable)) (cache_store deps env key OVERVIEW_CACHE_VERSION)))"

definition serveEntityConnections :: "ServerDeps \<Rightarrow> server_env \<Rightarrow> server_request \<Rightarrow> server_state \<Rightarrow> run" where
  "serveEntityConnections deps env req st =
     with_session deps env req st (\<lambda>session st. with_engine deps st
       (let i = trimmed_param req ''id''; kind = trimmed_param req ''kind''; who = caller session req;
            key = ''overview:connections:'' @ op_tenant who @ '':'' @ kind @ '':'' @ i
        in if i = [] \<or> kind = [] then finish (fail_with 400 ''bad_request'') st
           else cached_read env key OVERVIEW_CACHE_VERSION (EngineCall who (EntityCall (ResolveEntityConnections i kind))) st
             (read_error none) (cache_store deps env key OVERVIEW_CACHE_VERSION)))"

definition members_error :: "thrown \<Rightarrow> reply" where
  "members_error e = (if e = UnknownContainer then fail_with 400 ''bad_request'' else read_error none e)"

definition serveClassMembers :: "ServerDeps \<Rightarrow> server_env \<Rightarrow> server_request \<Rightarrow> server_state \<Rightarrow> run" where
  "serveClassMembers deps env req st =
     with_session deps env req st (\<lambda>session st. with_engine deps st
       (let container = trimmed_param req ''container''; who = caller session req;
            key = ''overview:members:'' @ op_tenant who @ '':'' @ container
        in if container = [] then finish (fail_with 400 ''bad_request'') st
           else cached_read env key OVERVIEW_CACHE_VERSION (EngineCall who (EntityCall (ResolveClassMembers container))) st
             members_error (cache_store deps env key OVERVIEW_CACHE_VERSION)))"

definition handleOverview :: handler where
  "handleOverview deps env req st =
     (if path_in req = ''/api/overview/sankey'' then Some (serveOverviewRead ''sankey'' ResolveOverviewSankey deps env req st)
      else if path_in req = ''/api/overview/entity-connections'' then Some (serveEntityConnections deps env req st)
      else if path_in req = ''/api/overview/members'' then Some (serveClassMembers deps env req st)
      else None)"

section \<open>Zones\<close>

definition VTZ_CACHE_VERSION :: string where
  "VTZ_CACHE_VERSION = ''vtz-v1''"

definition vtzCachePrefix :: "string \<Rightarrow> string" where
  "vtzCachePrefix tenant = ''vtz:'' @ tenant @ '':''"

definition handleVtz :: handler where
  "handleVtz deps env req st =
     (let path = path_in req
      in if path \<notin> {''/api/vtz/tree'', ''/api/vtz/detail'', ''/api/vtz/convergence''} then None
         else Some (with_session deps env req st (\<lambda>session st. with_engine deps st
           (let who = caller session req; zoneId = trimmed_param req ''id''; limit = parseVtzLimit req;
                unavailable = read_error (\<lambda>e. e = VtzUnavailable)
            in if path \<noteq> ''/api/vtz/tree'' \<and> zoneId = [] then finish (fail_with 400 ''bad_request'') st
               else if path = ''/api/vtz/convergence''
               then await env (EngineCall who (ZoneCall (ResolveBundleConvergence zoneId))) st unavailable show_value
               else (let key = (if path = ''/api/vtz/tree''
                                then vtzCachePrefix (op_tenant who) @ ''tree:'' @ number_string limit
                                else vtzCachePrefix (op_tenant who) @ ''detail:'' @ zoneId);
                         c = (if path = ''/api/vtz/tree'' then ResolveVtzTree limit else ResolveVtzDetail zoneId)
                     in cached_read env key VTZ_CACHE_VERSION (EngineCall who (ZoneCall c)) st unavailable
                          (cache_store deps env key VTZ_CACHE_VERSION))))))"

definition distribute_error_reply :: "thrown \<Rightarrow> reply" where
  "distribute_error_reply e = (case e of
       DistributeZoneUnknown \<Rightarrow> fail_with 404 ''unknown_zone''
     | DistributeComposition \<Rightarrow> fail_with 503 ''unavailable''
     | SigningRefused \<Rightarrow> fail_with 422 ''signing_refused''
     | SigningUnavailable \<Rightarrow> fail_with 503 ''signer_unavailable''
     | EngineRefused cls \<Rightarrow> refused (if cls = ''Framing'' then 409 else 403) cls
     | _ \<Rightarrow> fail_with 502 ''engine_error'')"

definition handleVtzDistribute :: handler where
  "handleVtzDistribute deps env req st = (case exec VTZ_DISTRIBUTE_RE (path_in req) of
       None \<Rightarrow> None
     | Some gs \<Rightarrow>
         if method_of req \<noteq> ''POST'' then None
         else Some (with_session deps env req st (\<lambda>session st. with_engine deps st
           (case cf_signerPort (sd_config deps) of
              None \<Rightarrow> finish (fail_with 503 ''signer_unavailable'') st
            | Some port \<Rightarrow> (case Option.bind (body_of (64 * 1024) req) parseMembers of
                None \<Rightarrow> finish (fail_with 400 ''malformed_request'') st
              | Some members \<Rightarrow> (case decodeURIComponent (gs ! 0) of
                  None \<Rightarrow> finish (fail_with 502 ''engine_error'') st
                | Some zoneId \<Rightarrow>
                    await env (EngineCall (caller session req) (ZoneCall (ResolveDistribute port zoneId members))) st
                      distribute_error_reply show_value))))))"

definition vtz_command_error :: "thrown \<Rightarrow> reply" where
  "vtz_command_error e = (case e of
       VtzMutationRefused kind \<Rightarrow> answer (if kind = ''conflict'' then 409 else 403)
         (JObj [(''error'', JStr ''refused''), (''reason'', JStr kind)])
     | _ \<Rightarrow> read_error (\<lambda>e. e = VtzUnavailable) e)"

definition handleVtzCommand :: handler where
  "handleVtzCommand deps env req st =
     (let path = path_in req
      in if \<not> prefix ''/api/vtz'' path then None
         else if path \<in> {''/api/vtz/tree'', ''/api/vtz/detail'', ''/api/vtz/convergence''} then None
         else if method_of req = ''GET'' then None
         else Some (with_session deps env req st (\<lambda>session st. with_engine deps st
           (case parseVtzCommand req of
              None \<Rightarrow> finish (fail_with 405 ''method_not_allowed'') st
            | Some None \<Rightarrow> finish (fail_with 400 ''malformed_request'') st
            | Some (Some command) \<Rightarrow>
                (let who = caller session req
                 in await env (EngineCall who (ZoneCall (ResolveVtz command))) st vtz_command_error
                      (drop_prefix (vtzCachePrefix (op_tenant who)) (answer 200)))))))"

section \<open>Users\<close>

definition USERS_COMMAND_PATHS :: "string list" where
  "USERS_COMMAND_PATHS = [''/api/users'', ''/api/users/edit'', ''/api/users/status'', ''/api/users/groups'',
     ''/api/users/groups/edit'', ''/api/users/groups/members'']"

text \<open>The call a users command asks for; \<open>None\<close> is a malformed request.\<close>

definition users_command :: "string \<Rightarrow> jsval \<Rightarrow> directory_call option" where
  "users_command path body =
     (let nm = field_text body ''name''; description = field_text body ''description''
      in if path = ''/api/users'' then map_option ResolveCreatePrincipal (parsePrincipalDraft body)
         else if path = ''/api/users/edit'' then map_option ResolveEditPrincipal (parsePrincipalDraft body)
         else if path = ''/api/users/status'' then
           (case get_prop body ''status'' of
              JStr status \<Rightarrow>
                if field_text body ''username'' = [] \<or> status \<notin> {''active'', ''suspended'', ''revoked''} then None
                else Some (ResolveSetPrincipalStatus (field_text body ''username'') status)
            | _ \<Rightarrow> None)
         else if path = ''/api/users/groups/members'' then
           (case get_prop body ''members'' of
              JArr _ \<Rightarrow> if nm = [] then None else Some (ResolveSetGroupMembers nm (string_items (get_prop body ''members'')))
            | _ \<Rightarrow> None)
         else if nm = [] then None
         else if path = ''/api/users/groups'' then Some (ResolveCreateGroup nm description)
         else Some (ResolveEditGroup nm description))"

text \<open>A body that is \<open>null\<close> fails at its first property, outside the \<open>try\<close>.\<close>

definition handleUsersCommand :: handler where
  "handleUsersCommand deps env req st =
     (if path_in req \<notin> set USERS_COMMAND_PATHS \<or> method_of req \<noteq> ''POST'' then None
      else Some (with_session deps env req st (\<lambda>session st. with_engine deps st
        (case body_of MAX_COMMAND_BODY_BYTES req of
           None \<Rightarrow> finish (fail_with 400 ''malformed_request'') st
         | Some body \<Rightarrow>
             if body = JNull then finish Threw st
             else (case users_command (path_in req) body of
                 None \<Rightarrow> finish (fail_with 400 ''malformed_request'') st
               | Some c \<Rightarrow> await env (EngineCall (caller session req) (DirectoryCall c)) st (command_error none) show_value)))))"

definition handleUsers :: handler where
  "handleUsers deps env req st =
     (if path_in req \<noteq> ''/api/users'' \<and> path_in req \<noteq> ''/api/users/groups'' then None
      else Some (with_session deps env req st (\<lambda>session st. with_engine deps st
        (await env (EngineCall (caller session req) (DirectoryCall
             (if path_in req = ''/api/users'' then ResolveUsersList else ResolveGroupsList))) st
           (read_error (\<lambda>e. e = UsersUnavailable)) show_value))))"

section \<open>Objects\<close>

definition objects_command :: "string \<Rightarrow> jsval \<Rightarrow> catalog_call option" where
  "objects_command path body =
     (if path = ''/api/objects/delete'' then
        (if field_text body ''name'' = [] then None else Some (ResolveDeleteObject (field_text body ''name'')))
      else if path = ''/api/objects'' then map_option ResolveCreateObject (parseObjectDraft body)
      else map_option ResolveEditObject (parseObjectDraft body))"

definition objects_command_error :: "thrown \<Rightarrow> reply" where
  "objects_command_error e = (case e of
       ObjectCommandRefused cls \<Rightarrow> refused (class_status cls) cls
     | _ \<Rightarrow> command_error none e)"

text \<open>Here a body that is \<open>null\<close> fails inside the \<open>try\<close>.\<close>

definition handleObjectsCommand :: handler where
  "handleObjectsCommand deps env req st =
     (if path_in req \<notin> {''/api/objects'', ''/api/objects/edit'', ''/api/objects/delete''} \<or> method_of req \<noteq> ''POST'' then None
      else Some (with_session deps env req st (\<lambda>session st. with_engine deps st
        (case body_of MAX_COMMAND_BODY_BYTES req of
           None \<Rightarrow> finish (fail_with 400 ''malformed_request'') st
         | Some body \<Rightarrow>
             if body = JNull then finish (fail_with 502 ''engine_error'') st
             else (case objects_command (path_in req) body of
                 None \<Rightarrow> finish (fail_with 400 ''malformed_request'') st
               | Some c \<Rightarrow> await env (EngineCall (caller session req) (CatalogCall c)) st objects_command_error show_value)))))"

definition handleObjects :: handler where
  "handleObjects deps env req st =
     (if path_in req \<noteq> ''/api/objects'' \<and> path_in req \<noteq> ''/api/objects/detail'' then None
      else Some (with_session deps env req st (\<lambda>session st. with_engine deps st
        (let nm = trimmed_param req ''name''
         in if path_in req = ''/api/objects/detail'' \<and> nm = [] then finish (fail_with 400 ''bad_request'') st
            else await env (EngineCall (caller session req) (CatalogCall
                 (if path_in req = ''/api/objects'' then ResolveObjectCatalog else ResolveObjectDetail nm))) st
               (read_error (\<lambda>e. e = ObjectsUnavailable)) show_value))))"

section \<open>The operations centre\<close>

definition SOC_CACHE_VERSION :: string where
  "SOC_CACHE_VERSION = ''soc-v1''"

definition socCachePrefix :: "string \<Rightarrow> string" where
  "socCachePrefix tenant = ''soc:'' @ tenant @ '':''"

definition SOC_COMMAND_PATHS :: "string list" where
  "SOC_COMMAND_PATHS = [''/api/soc/plan/approve'', ''/api/soc/plan/modify'', ''/api/soc/generate'', ''/api/soc/act'',
     ''/api/soc/disposition'']"

definition soc_command :: "string \<Rightarrow> string \<Rightarrow> jsval \<Rightarrow> soc_call option" where
  "soc_command path subject body =
     (if path = ''/api/soc/generate'' then Some (ResolveCognitionRun subject)
      else if path = ''/api/soc/act'' then map_option (ResolveCaseAct subject) (toCaseActDraft body)
      else if path = ''/api/soc/disposition'' then map_option (ResolveDisposition subject) (toDispositionDraft body)
      else if path = ''/api/soc/plan/approve'' then do {
        n \<leftarrow> as_integer (get_prop body ''atRevision'');
        if toBigInt n < 0 then None else Some (ResolveApprovePlan subject n)
      }
      else map_option (ResolveModifyPlan subject) (toResponseStepDrafts (get_prop body ''steps'')))"

text \<open>An act or verdict that the engine refuses in band: \<open>404\<close> without a reason, \<open>409\<close> with one.\<close>

definition soc_result :: "string \<Rightarrow> jsval \<Rightarrow> reply" where
  "soc_result path v =
     (if path \<in> {''/api/soc/act'', ''/api/soc/disposition''} \<and> get_prop v ''kind'' = JStr ''refused'' then
        (if get_prop v ''explanation'' = JStr [] then fail_with 404 ''not_found''
         else answer 409 (JObj [(''error'', JStr ''refused''), (''explanation'', get_prop v ''explanation'')]))
      else answer 200 v)"

definition handleSocCommand :: handler where
  "handleSocCommand deps env req st =
     (if path_in req \<notin> set SOC_COMMAND_PATHS \<or> method_of req \<noteq> ''POST'' then None
      else Some (with_session deps env req st (\<lambda>session st. with_engine deps st
        (case body_of MAX_COMMAND_BODY_BYTES req of
           None \<Rightarrow> finish (fail_with 400 ''malformed_request'') st
         | Some body \<Rightarrow>
             if body = JNull then finish Threw st
             else if field_text body ''incident'' = [] then finish (fail_with 400 ''malformed_request'') st
             else (case soc_command (path_in req) (field_text body ''incident'') body of
                 None \<Rightarrow> finish (fail_with 400 ''malformed_request'') st
               | Some c \<Rightarrow>
                   (let who = caller session req;
                        recorded = drop_prefix (socCachePrefix (op_tenant who)) (soc_result (path_in req))
                    in await env (EngineCall who (SocCall c)) st (command_error (\<lambda>e. e = SocUnavailable))
                         (if path_in req \<in> {''/api/soc/act'', ''/api/soc/disposition''}
                          then unless_null (fail_with 400 ''malformed_request'') recorded else recorded)))))))"

definition per_incident_kind :: "string \<Rightarrow> string option" where
  "per_incident_kind path = map_of [
     (''/api/soc/incident'', ''detail''), (''/api/soc/narrative'', ''narrative''), (''/api/soc/telemetry'', ''telemetry''),
     (''/api/soc/audit'', ''audit''), (''/api/soc/notes'', ''notes''), (''/api/soc/impact'', ''impact''),
     (''/api/soc/report'', ''report'')] path"

definition soc_read :: "string \<Rightarrow> string \<Rightarrow> jsnum \<Rightarrow> soc_call" where
  "soc_read path subject weeks =
     (if path = ''/api/soc/kpis'' then ResolveSocKpis
      else if path = ''/api/soc/weekly'' then ResolveWeekly weeks
      else if path = ''/api/soc/incidents'' then ResolveIncidentQueue
      else if path = ''/api/soc/incident'' then ResolveIncidentDetail subject
      else if path = ''/api/soc/notes'' then ResolveIncidentNotes subject
      else if path = ''/api/soc/telemetry'' then ResolveIncidentTelemetry subject
      else if path = ''/api/soc/audit'' then ResolveAuditTrail subject
      else if path = ''/api/soc/impact'' then ResolveBusinessImpact subject
      else if path = ''/api/soc/report'' then ResolveIncidentReport subject
      else ResolveNarrative subject)"

definition soc_key :: "string \<Rightarrow> string \<Rightarrow> string \<Rightarrow> jsnum \<Rightarrow> string" where
  "soc_key pre path subject weeks = (case per_incident_kind path of
       Some kind \<Rightarrow> pre @ kind @ '':'' @ subject
     | None \<Rightarrow> if path = ''/api/soc/weekly'' then pre @ ''weekly:'' @ number_string weeks
         else pre @ (if path = ''/api/soc/kpis'' then ''kpis'' else ''incidents''))"

definition SOC_READS :: "string list" where
  "SOC_READS = [''/api/soc/kpis'', ''/api/soc/incidents'', ''/api/soc/incident'', ''/api/soc/narrative'',
     ''/api/soc/telemetry'', ''/api/soc/audit'', ''/api/soc/notes'', ''/api/soc/impact'', ''/api/soc/report'',
     ''/api/soc/weekly'']"

text \<open>The reads whose \<open>null\<close> is the engine's one refusal, answered 404 and never cached.\<close>

definition SOC_NULLABLE :: "string list" where
  "SOC_NULLABLE = [''/api/soc/weekly'', ''/api/soc/incident'', ''/api/soc/notes'', ''/api/soc/telemetry'', ''/api/soc/audit'',
     ''/api/soc/impact'', ''/api/soc/report'']"

definition weeks_of :: "server_request \<Rightarrow> jsnum" where
  "weeks_of req = (case param (url_of req) ''weeks'' of None \<Rightarrow> NInt 4 | Some w \<Rightarrow> parse_int10 w)"

definition weeks_ok :: "jsnum \<Rightarrow> bool" where
  "weeks_ok w \<longleftrightarrow> is_finite w \<and> \<not> num_less w (NInt 1) \<and> \<not> num_less (NInt 12) w"

definition handleSoc :: handler where
  "handleSoc deps env req st =
     (let path = path_in req
      in if path \<notin> set SOC_READS then None
         else Some (with_session deps env req st (\<lambda>session st. with_engine deps st
           (let subject = trimmed_param req ''id''; weeks = weeks_of req; who = caller session req;
                key = soc_key (socCachePrefix (op_tenant who)) path subject weeks;
                store = cache_store deps env key SOC_CACHE_VERSION
            in if path = ''/api/soc/weekly'' \<and> \<not> weeks_ok weeks then finish (fail_with 400 ''bad_request'') st
               else if path \<notin> {''/api/soc/incidents'', ''/api/soc/kpis'', ''/api/soc/weekly''} \<and> subject = []
               then finish (fail_with 400 ''bad_request'') st
               else cached_read env key SOC_CACHE_VERSION (EngineCall who (SocCall (soc_read path subject weeks))) st
                 (read_error (\<lambda>e. e = SocUnavailable))
                 (if path \<in> set SOC_NULLABLE then unless_null (fail_with 404 ''not_found'') store else store)))))"

section \<open>Policies\<close>

definition POLICIES_CACHE_VERSION :: string where
  "POLICIES_CACHE_VERSION = ''policies-v1''"

definition policiesCachePrefix :: "string \<Rightarrow> string" where
  "policiesCachePrefix tenant = ''policies:'' @ tenant @ '':''"

definition handlePolicies :: handler where
  "handlePolicies deps env req st =
     (let path = path_in req
      in if path \<noteq> ''/api/policies'' \<and> path \<noteq> ''/api/policies/detail'' then None
         else Some (with_session deps env req st (\<lambda>session st. with_engine deps st
           (let vtz = trimmed_param req ''vtz''; i = trimmed_param req ''id''; who = caller session req;
                pre = policiesCachePrefix (op_tenant who);
                key = (if path = ''/api/policies'' then pre @ ''byZone'' else pre @ ''detail:'' @ vtz @ '':'' @ i);
                c = (if path = ''/api/policies'' then ResolvePolicyZones else ResolvePolicyDetail vtz i)
            in if path = ''/api/policies/detail'' \<and> (vtz = [] \<or> i = []) then finish (fail_with 400 ''bad_request'') st
               else cached_read env key POLICIES_CACHE_VERSION (EngineCall who (CatalogCall c)) st
                 (read_error (\<lambda>e. e = PoliciesUnavailable)) (cache_store deps env key POLICIES_CACHE_VERSION)))))"

definition POLICIES_COMMAND_PATHS :: "string list" where
  "POLICIES_COMMAND_PATHS = [''/api/policies'', ''/api/policies/edit'', ''/api/policies/publish'', ''/api/policies/delete'']"

definition policies_command :: "string \<Rightarrow> jsval \<Rightarrow> catalog_call option" where
  "policies_command path body =
     (let vtz = field_text body ''vtz''; i = field_text body ''id''; version = field_text body ''version''
      in if path = ''/api/policies/delete'' then
           (if vtz = [] \<or> i = [] then None else Some (ResolveDeletePolicy vtz i))
         else if path = ''/api/policies/publish'' then
           (if vtz = [] \<or> i = [] \<or> version = [] then None else Some (ResolvePublishPolicy vtz i version))
         else do {
           draft \<leftarrow> toPolicyDraftInput body;
           if path = ''/api/policies'' then Some (ResolveCreatePolicy draft)
           else if i = [] then None else Some (ResolveEditPolicy i draft)
         })"

text \<open>Only deleting and publishing read a property of a \<open>null\<close> body, inside the \<open>try\<close>.\<close>

definition handlePoliciesCommand :: handler where
  "handlePoliciesCommand deps env req st =
     (if path_in req \<notin> set POLICIES_COMMAND_PATHS \<or> method_of req \<noteq> ''POST'' then None
      else Some (with_session deps env req st (\<lambda>session st. with_engine deps st
        (case body_of MAX_COMMAND_BODY_BYTES req of
           None \<Rightarrow> finish (fail_with 400 ''malformed_request'') st
         | Some body \<Rightarrow>
             if body = JNull \<and> path_in req \<in> {''/api/policies/publish'', ''/api/policies/delete''}
             then finish (fail_with 502 ''engine_error'') st
             else (case policies_command (path_in req) body of
                 None \<Rightarrow> finish (fail_with 400 ''malformed_request'') st
               | Some c \<Rightarrow>
                   (let who = caller session req
                    in await env (EngineCall who (CatalogCall c)) st (command_error (\<lambda>e. e = PoliciesUnavailable))
                         (drop_prefix (policiesCachePrefix (op_tenant who)) (answer 200))))))))"

section \<open>Identity connectors\<close>

text \<open>The commands of the connectors read their body alike: \<open>null\<close> fails outside the \<open>try\<close>.\<close>

definition connector_command ::
    "(jsval \<Rightarrow> directory_call option) \<Rightarrow> ServerDeps \<Rightarrow> server_env \<Rightarrow> server_request \<Rightarrow> server_state \<Rightarrow> run" where
  "connector_command parse_call deps env req st =
     with_session deps env req st (\<lambda>session st. with_engine deps st
       (case body_of MAX_COMMAND_BODY_BYTES req of
          None \<Rightarrow> finish (fail_with 400 ''malformed_request'') st
        | Some body \<Rightarrow>
            if body = JNull then finish Threw st
            else (case parse_call body of
                None \<Rightarrow> finish (fail_with 400 ''malformed_request'') st
              | Some c \<Rightarrow> await env (EngineCall (caller session req) (DirectoryCall c)) st (command_error none) show_value)))"

definition handleIdamConfigure :: handler where
  "handleIdamConfigure deps env req st =
     (if path_in req \<noteq> ''/api/idam/configure'' \<or> method_of req \<noteq> ''POST'' then None
      else Some (connector_command (\<lambda>body. map_option ResolveIdamConfigure (parseIdamConfigure body)) deps env req st))"

definition handleIdamConnect :: handler where
  "handleIdamConnect deps env req st =
     (if path_in req \<noteq> ''/api/idam/connect'' \<or> method_of req \<noteq> ''POST'' then None
      else Some (connector_command
        (\<lambda>body. map_option (\<lambda>draft. ResolveIdamConnect draft IDAM_SECRET_REF) (parseIdamConnect body)) deps env req st))"

definition handleIdamCommand :: handler where
  "handleIdamCommand deps env req st =
     (if path_in req \<noteq> ''/api/idam/sync'' \<or> method_of req \<noteq> ''POST'' then None
      else Some (connector_command
        (\<lambda>body. map_option ResolveIdamSync (text_or_null (field_text body ''provider''))) deps env req st))"

definition secret_error :: "thrown \<Rightarrow> reply" where
  "secret_error e = (if e = SecretRefused then fail_with 409 ''refused'' else fail_with 503 ''secret_plane_unavailable'')"

definition handleIdamSecret :: handler where
  "handleIdamSecret deps env req st =
     (if path_in req \<noteq> ''/api/idam/secret'' \<or> method_of req \<noteq> ''POST'' then None
      else Some (with_session deps env req st (\<lambda>session st.
        case cf_secretPort (sd_config deps) of
          None \<Rightarrow> finish (fail_with 503 ''secret_plane_unprovisioned'') st
        | Some port \<Rightarrow> (case body_of MAX_COMMAND_BODY_BYTES req of
            None \<Rightarrow> finish (fail_with 400 ''malformed_request'') st
          | Some body \<Rightarrow>
              if body = JNull then finish Threw st
              else (let provider = field_text body ''provider'';
                        secret = (case get_prop body ''secret'' of JStr s \<Rightarrow> s | _ \<Rightarrow> [])
                    in if provider = [] \<or> secret = [] then finish (fail_with 400 ''malformed_request'') st
                       else await env (SetConnectorSecret (cf_engineHost (sd_config deps)) port provider secret) st
                         secret_error (\<lambda>_ st. (answer 200 (JObj [(''ok'', JBool True)]), st)))))))"

definition handleIdam :: handler where
  "handleIdam deps env req st =
     (if path_in req \<noteq> ''/api/idam/connectors'' then None
      else Some (with_session deps env req st (\<lambda>session st. with_engine deps st
        (await env (EngineCall (caller session req) (DirectoryCall ResolveIdamConnectors)) st (read_error none) show_value))))"

section \<open>Settings\<close>

definition tier_refusal :: reply where
  "tier_refusal = refused 403 ''Tier''"

text \<open>\<open>/^[a-z_]{1,64}$/\<close>\<close>

definition surface_shape :: "string \<Rightarrow> bool" where
  "surface_shape s \<longleftrightarrow> 1 \<le> length s \<and> length s \<le> 64 \<and> list_all (\<lambda>c. c \<in> set ''abcdefghijklmnopqrstuvwxyz_'') s"

definition commitGovernedSettings :: "server_env \<Rightarrow> server_request \<Rightarrow> OperatorPrincipal \<Rightarrow> server_state \<Rightarrow> run" where
  "commitGovernedSettings env req who st =
     (case Option.bind (body_of MAX_COMMAND_BODY_BYTES req) toSettingsCommitRequest of
        None \<Rightarrow> finish (fail_with 400 ''malformed_request'') st
      | Some request \<Rightarrow> await env (EngineCall who (SettingsCall (ResolveSettingsCommit request))) st (read_error none) show_value)"

definition handleGovernedSettings :: handler where
  "handleGovernedSettings deps env req st =
     (if path_in req \<noteq> ''/api/settings'' \<or> method_of req \<notin> {''GET'', ''POST''} then None
      else Some (with_session deps env req st (\<lambda>session st. with_engine deps st
        (if method_of req = ''POST'' then commitGovernedSettings env req (caller session req) st
         else let surface = text_or_null (trimmed_param req ''surface'')
              in if \<not> pred_option surface_shape surface then finish (fail_with 400 ''bad_request'') st
                 else await env (EngineCall (caller session req) (SettingsCall (ResolveSettings surface))) st
                   (read_error (\<lambda>e. e = SettingsUnavailable)) (unless_null tier_refusal show_value)))))"

definition MAX_SPEND_DAYS :: int where
  "MAX_SPEND_DAYS = 31"

definition grant_outcome :: "jsval \<Rightarrow> server_state \<Rightarrow> reply \<times> server_state" where
  "grant_outcome v st = (answer (if get_prop v ''kind'' = JStr ''conflict'' then 409 else 200) v, st)"

definition handleModelAccess :: handler where
  "handleModelAccess deps env req st =
     (let isRead = (path_in req = ''/api/model-access'' \<and> method_of req = ''GET'');
          isWrite = (path_in req = ''/api/model-access/grant'' \<and> method_of req = ''PUT'')
      in if \<not> isRead \<and> \<not> isWrite then None
         else Some (with_session deps env req st (\<lambda>session st.
           if s_role session \<noteq> GlobalAdmin then finish (refused 403 ''Role'') st
           else with_engine deps st
             (if isRead then
                (let days = (case param (url_of req) ''days'' of None \<Rightarrow> NInt 7 | Some raw \<Rightarrow> string_to_number raw)
                 in if \<not> isInteger days \<or> toBigInt days < 1 \<or> MAX_SPEND_DAYS < toBigInt days
                    then finish (fail_with 400 ''bad_request'') st
                    else await env (EngineCall (caller session req) (SettingsCall (ResolveModelAccess days (ev_now env)))) st
                      (read_error none) (unless_null tier_refusal show_value))
              else (case Option.bind (body_of MAX_COMMAND_BODY_BYTES req) toAgentGrantChange of
                  None \<Rightarrow> finish (fail_with 400 ''bad_request'') st
                | Some change \<Rightarrow> await env (EngineCall (caller session req) (SettingsCall (ApplyAgentGrant change))) st
                    (read_error none) (unless_null tier_refusal grant_outcome))))))"

fun role_name :: "OperatorRole \<Rightarrow> string" where
  "role_name GlobalAdmin = ''global-admin''"
| "role_name TenantAdmin = ''tenant-admin''"
| "role_name TenantUser = ''tenant-user''"

definition nullable_text :: "string option \<Rightarrow> jsval" where
  "nullable_text t = (case t of None \<Rightarrow> JNull | Some s \<Rightarrow> JStr s)"

definition grant_row_json :: "RbacGrantRow \<Rightarrow> jsval" where
  "grant_row_json row = JObj [(''key'', JStr (gr_key row)), (''role'', JStr (role_name (gr_role row))),
     (''tenant'', nullable_text (gr_tenant row))]"

definition rbac_view_json :: "RbacConfigView \<Rightarrow> jsval" where
  "rbac_view_json v = JObj [(''groupRoles'', JArr (map grant_row_json (rv_groupRoles v))),
     (''localRbac'', JArr (map grant_row_json (rv_localRbac v))),
     (''defaultTenant'', nullable_text (rv_defaultTenant v))]"

definition handleConsoleRbac :: handler where
  "handleConsoleRbac deps env req st =
     (if path_in req \<noteq> ''/api/settings/console-rbac'' \<or> method_of req \<noteq> ''GET'' then None
      else Some (with_session deps env req st (\<lambda>session st.
        if s_role session \<noteq> GlobalAdmin then finish (refused 403 ''Role'') st
        else finish (answer 200 (rbac_view_json (rbacConfigView (cf_rbac (sd_config deps))))) st)))"

definition handleSettingsReports :: handler where
  "handleSettingsReports deps env req st =
     (if path_in req \<noteq> ''/api/settings/reports'' \<or> method_of req \<noteq> ''GET'' then None
      else Some (with_session deps env req st (\<lambda>session st. with_engine deps st
        (case toSettingsReportNames (param (url_of req) ''names'') of
           None \<Rightarrow> finish (fail_with 400 ''bad_request'') st
         | Some ns \<Rightarrow> await env (EngineCall (caller session req) (SettingsCall (ResolveSettingsReports ns))) st
             (read_error none) (unless_null tier_refusal show_value)))))"

definition status_body :: "string \<Rightarrow> jsval" where
  "status_body s = JObj [(''status'', JStr s)]"

definition handleSecuritySession :: handler where
  "handleSecuritySession deps env req st =
     (if path_in req \<noteq> ''/api/settings/security-session'' \<or> method_of req \<noteq> ''GET'' then None
      else Some (with_session deps env req st (\<lambda>session st.
        case cf_sessionPort (sd_config deps) of
          None \<Rightarrow> finish (answer 200 (status_body ''unconfigured'')) st
        | Some port \<Rightarrow> (case rq_remotePort req of
            None \<Rightarrow> finish (answer 200 (status_body ''not-tunnelled'')) st
          | Some remote \<Rightarrow> await env (LookupSessionGroup (cf_engineHost (sd_config deps)) port remote) st
              (\<lambda>_. fail_with 503 ''unavailable'')
              (\<lambda>v st. (answer 200 (if v = JNull then status_body ''not-tunnelled''
                                  else JObj [(''status'', JStr ''negotiated''), (''group'', v)]), st))))))"

datatype governance = Propose | Approvals | Approve string | History | Rollback

definition governance_of :: "server_request \<Rightarrow> governance option" where
  "governance_of req =
     (let path = path_in req; meth = method_of req
      in if path = ''/api/settings/propose'' \<and> meth = ''POST'' then Some Propose
         else if path = ''/api/settings/approvals'' \<and> meth = ''GET'' then Some Approvals
         else if path = ''/api/settings/history'' \<and> meth = ''GET'' then Some History
         else if path = ''/api/settings/rollback'' \<and> meth = ''POST'' then Some Rollback
         else case exec SETTINGS_APPROVE_RE path of
             Some gs \<Rightarrow> if meth = ''POST'' then Some (Approve (gs ! 0)) else None
           | None \<Rightarrow> None)"

text \<open>The call of a governance request, or the answer that refuses it.\<close>

definition governance_call :: "server_request \<Rightarrow> governance \<Rightarrow> string + settings_call" where
  "governance_call req g =
     (let body = body_of MAX_COMMAND_BODY_BYTES req; need = (\<lambda>e c. case c of None \<Rightarrow> Inl e | Some c \<Rightarrow> Inr c)
      in case g of
           Propose \<Rightarrow> need ''malformed_request'' (map_option ResolveSettingsPropose (Option.bind body toSettingsCommitRequest))
         | Approvals \<Rightarrow> Inr ResolveSettingsApprovals
         | Approve i \<Rightarrow> need ''bad_request'' (map_option ResolveSettingsApprove (toPositiveId (JStr i)))
         | History \<Rightarrow> need ''bad_request'' (map_option ResolveSettingsHistory (toHistoryLimit (param (url_of req) ''limit'')))
         | Rollback \<Rightarrow> need ''malformed_request'' (map_option ResolveSettingsRollback
             (Option.bind body (\<lambda>b. if is_object b then toPositiveId (get_prop b ''to'') else None))))"

definition governance_shown :: "governance \<Rightarrow> jsval \<Rightarrow> server_state \<Rightarrow> reply \<times> server_state" where
  "governance_shown g = (case g of
       Approvals \<Rightarrow> unless_null tier_refusal (\<lambda>v st. (answer 200 (JObj [(''proposals'', v)]), st))
     | History \<Rightarrow> unless_null tier_refusal show_value
     | _ \<Rightarrow> show_value)"

definition handleSettingsGovernance :: handler where
  "handleSettingsGovernance deps env req st = (case governance_of req of
       None \<Rightarrow> None
     | Some g \<Rightarrow> Some (with_session deps env req st (\<lambda>session st. with_engine deps st
         (case governance_call req g of
            Inl e \<Rightarrow> finish (fail_with 400 e) st
          | Inr c \<Rightarrow> await env (EngineCall (caller session req) (SettingsCall c)) st (read_error none) (governance_shown g)))))"

definition handleSocSettings :: handler where
  "handleSocSettings deps env req st =
     (if path_in req \<noteq> ''/api/settings/soc'' \<or> method_of req \<notin> {''GET'', ''POST''} then None
      else Some (with_session deps env req st (\<lambda>session st. with_engine deps st
        (if method_of req = ''GET''
         then await env (EngineCall (caller session req) (SettingsCall ResolveSocSettings)) st
           (read_error (\<lambda>e. e = SocUnavailable)) (unless_null tier_refusal show_value)
         else (case Option.bind (body_of MAX_COMMAND_BODY_BYTES req) toSocSettingsPatch of
             None \<Rightarrow> finish (fail_with 400 ''malformed_request'') st
           | Some patch \<Rightarrow>
               if p_tiers patch = None \<and> p_siemWriteback patch = None then finish (fail_with 400 ''malformed_request'') st
               else await env (EngineCall (caller session req) (SettingsCall (ResolveSocSettingsCommit patch))) st
                 (read_error (\<lambda>e. e = SocUnavailable)) show_value)))))"

section \<open>Dispatch\<close>

fun first_claim :: "handler list \<Rightarrow> ServerDeps \<Rightarrow> server_env \<Rightarrow> server_request \<Rightarrow> server_state \<Rightarrow> run option" where
  "first_claim [] deps env req st = None"
| "first_claim (h # hs) deps env req st = (case h deps env req st of
       Some claimed \<Rightarrow> Some claimed | None \<Rightarrow> first_claim hs deps env req st)"

text \<open>The handlers above the read-only gate, and those below it.\<close>

definition COMMAND_HANDLERS :: "handler list" where
  "COMMAND_HANDLERS = [handleEntityIsolate, handleLogExport, handleVtzDistribute, handleVtzCommand, handleUsersCommand,
     handleObjectsCommand, handlePoliciesCommand, handleIdamCommand, handleIdamConnect, handleIdamSecret,
     handleGovernedSettings, handleConsoleRbac, handleSettingsReports, handleModelAccess, handleSecuritySession,
     handleSettingsGovernance, handleSocSettings, handleIdamConfigure, handleSocCommand]"

definition READ_HANDLERS :: "handler list" where
  "READ_HANDLERS = [handleEntityDetail, handleLogs, handleOverview, handleUsers, handleObjects, handleSoc, handlePolicies,
     handleIdam, handleVtz]"

definition serve_readyz :: "server_env \<Rightarrow> server_state \<Rightarrow> run" where
  "serve_readyz env st = await env PingEngine st (\<lambda>_. answer 503 (JObj [(''ready'', JBool False)]))
     (\<lambda>_ st. (answer 200 (JObj [(''ready'', JBool True)]), st))"

definition serve_static :: "ServerDeps \<Rightarrow> server_env \<Rightarrow> server_request \<Rightarrow> server_state \<Rightarrow> run" where
  "serve_static deps env req st = (case cf_spaDir (sd_config deps) of
       None \<Rightarrow> finish (fail_with 404 ''not_found'') st
     | Some dir \<Rightarrow> (case serveSpa (ev_cwd env) (ev_files env) dir (path_in req) of
         (result, reads) \<Rightarrow>
           ((case result of
               SpaFile t bs \<Rightarrow> ReplyFile t bs
             | SpaForbidden \<Rightarrow> fail_with 403 ''forbidden''
             | SpaNotFound \<Rightarrow> fail_with 404 ''not_found''
             | SpaThrew \<Rightarrow> Threw), map ReadFile reads, st)))"

definition route :: "ServerDeps \<Rightarrow> server_env \<Rightarrow> server_request \<Rightarrow> server_state \<Rightarrow> run" where
  "route deps env req st =
     (let path = path_in req; verdict = apiRouteVerdict (method_of req) path
      in if prefix ''/api/'' path \<and> verdict = Undeclared then finish (fail_with 404 ''not_found'') st
         else if prefix ''/api/'' path \<and> verdict = MethodOnly then finish (fail_with 405 ''method_not_allowed'') st
         else case first_claim COMMAND_HANDLERS deps env req st of
             Some claimed \<Rightarrow> claimed
           | None \<Rightarrow>
               if method_of req \<noteq> ''GET'' then finish (fail_with 405 ''method_not_allowed'') st
               else if path = ''/healthz'' then finish (answer 200 (status_body ''ok'')) st
               else if path = ''/readyz'' then serve_readyz env st
               else if path = ''/openapi.json'' then finish (answer 200 (sd_openApi deps)) st
               else case first_claim READ_HANDLERS deps env req st of
                   Some claimed \<Rightarrow> claimed
                 | None \<Rightarrow> serve_static deps env req st)"

text \<open>The last-resort guard turns an exception into an answer.\<close>

definition guarded :: "run \<Rightarrow> run" where
  "guarded out = (case out of (reply, cs, st) \<Rightarrow> (if reply = Threw then fail_with 500 ''internal'' else reply, cs, st))"

definition json_of_bytes :: "bytes \<Rightarrow> jsval option" where
  "json_of_bytes bs = json_parse (buffer_toString bs)"

definition createRequestHandler :: "ServerDeps \<Rightarrow> server_env \<Rightarrow> server_request \<Rightarrow> server_state \<Rightarrow> run" where
  "createRequestHandler deps env req st = (case sd_authRouter deps of
       None \<Rightarrow> guarded (route deps env req st)
     | Some auth \<Rightarrow> (case auth_handle json_of_bytes auth (ev_oidc env) (ev_ambient env) (rq_http req) (sv_auth st) of
         (Some response, a) \<Rightarrow> (Reply response, [], st\<lparr>sv_auth := a\<rparr>)
       | (None, a) \<Rightarrow> guarded (route deps env req (st\<lparr>sv_auth := a\<rparr>))))"

end
