(* ===== verification/ServerLaws.thy ===== *)
theory ServerLaws
  imports Server
begin

text \<open>
  What every handler of \<open>apps/bff/src/server.ts\<close> keeps to: nothing happens for a request
  without a session, a call is attributed to the operator of the session and is well formed,
  and the read cache holds only answers that were given to an operator of the tenant whose
  key they are under.  The law of one run is \<open>lawful\<close>; the rules below compose it over the
  steps of a handler, and the locale \<open>lawful_handlers\<close> over the lists of handlers.
\<close>

section \<open>Well-formed calls\<close>

definition limit_ok :: "int \<Rightarrow> jsnum \<Rightarrow> bool" where
  "limit_ok most n \<longleftrightarrow> num_less (NInt 0) n \<and> \<not> num_less (NInt most) n"

definition ref_ok :: "EntityRef \<Rightarrow> bool" where
  "ref_ok ref \<longleftrightarrow> er_kind ref \<in> {''principal'', ''vtz'', ''object''}"

definition log_filter_ok :: "LogQueryFilter \<Rightarrow> bool" where
  "log_filter_ok f \<longleftrightarrow> limit_ok 500 (lf_limit f) \<and> pred_option is_finite (lf_since f) \<and> pred_option is_finite (lf_until f)"

fun entity_call_ok :: "entity_call \<Rightarrow> bool" where
  "entity_call_ok (ResolveEntityDetail ref) = ref_ok ref"
| "entity_call_ok (ResolveIsolate ref q _) = (ref_ok ref \<and> iq_ref q = ref \<and> trim (iq_commandId q) \<noteq> []
     \<and> iq_posture q \<in> {''quarantine'', ''deny''})"
| "entity_call_ok (ResolveLogExport q _) = (trim (le_commandId q) \<noteq> [] \<and> log_filter_ok (le_filter q))"
| "entity_call_ok (ResolveLogQuery f) = log_filter_ok f"
| "entity_call_ok (ResolveLogExplain _) = True"
| "entity_call_ok (ResolveOverviewSankey q) = (limit_ok 10000 (oq_limit q) \<and> pred_option is_finite (oq_since q)
     \<and> pred_option is_finite (oq_until q))"
| "entity_call_ok (ResolveEntityConnections i kind) = (i \<noteq> [] \<and> kind \<noteq> [])"
| "entity_call_ok (ResolveClassMembers container) = (container \<noteq> [])"

fun zone_call_ok :: "zone_call \<Rightarrow> bool" where
  "zone_call_ok (ResolveVtzTree limit) = limit_ok 500 limit"
| "zone_call_ok (ResolveVtzDetail zoneId) = (zoneId \<noteq> [])"
| "zone_call_ok (ResolveBundleConvergence zoneId) = (zoneId \<noteq> [])"
| "zone_call_ok (ResolveVtz (RescopeZone _ newName)) = (newName \<noteq> [])"
| "zone_call_ok (ResolveVtz _) = True"
| "zone_call_ok (ResolveDistribute _ _ members) = (members \<noteq> [] \<and> [] \<notin> set members)"

definition principal_draft_ok :: "PrincipalDraft \<Rightarrow> bool" where
  "principal_draft_ok d \<longleftrightarrow> pd_username d \<noteq> [] \<and> pd_kind d \<in> {''human'', ''service''}
     \<and> pd_email d \<noteq> Some [] \<and> pd_org d \<noteq> Some []"

fun directory_call_ok :: "directory_call \<Rightarrow> bool" where
  "directory_call_ok (ResolveCreatePrincipal d) = principal_draft_ok d"
| "directory_call_ok (ResolveEditPrincipal d) = principal_draft_ok d"
| "directory_call_ok (ResolveSetPrincipalStatus username status) =
     (username \<noteq> [] \<and> status \<in> {''active'', ''suspended'', ''revoked''})"
| "directory_call_ok (ResolveSetGroupMembers nm _) = (nm \<noteq> [])"
| "directory_call_ok (ResolveCreateGroup nm _) = (nm \<noteq> [])"
| "directory_call_ok (ResolveEditGroup nm _) = (nm \<noteq> [])"
| "directory_call_ok (ResolveIdamConfigure d) = (ic_provider d \<noteq> [] \<and> isInteger (ic_pollIntervalSecs d)
     \<and> isInteger (ic_fullSyncCadenceHours d))"
| "directory_call_ok (ResolveIdamConnect d secretRef) = (in_provider d \<noteq> [] \<and> in_domain d \<noteq> [] \<and> in_clientId d \<noteq> []
     \<and> secretRef = IDAM_SECRET_REF)"
| "directory_call_ok (ResolveIdamSync provider) = (provider \<noteq> [])"
| "directory_call_ok _ = True"

fun catalog_call_ok :: "catalog_call \<Rightarrow> bool" where
  "catalog_call_ok (ResolveObjectDetail nm) = (nm \<noteq> [])"
| "catalog_call_ok (ResolveCreateObject d) = (o_name d \<noteq> [] \<and> o_selectorValue d \<noteq> [])"
| "catalog_call_ok (ResolveEditObject d) = (o_name d \<noteq> [] \<and> o_selectorValue d \<noteq> [])"
| "catalog_call_ok (ResolveDeleteObject nm) = (nm \<noteq> [])"
| "catalog_call_ok (ResolvePolicyDetail vtz i) = (vtz \<noteq> [] \<and> i \<noteq> [])"
| "catalog_call_ok (ResolveEditPolicy i _) = (i \<noteq> [])"
| "catalog_call_ok (ResolvePublishPolicy vtz i version) = (vtz \<noteq> [] \<and> i \<noteq> [] \<and> version \<noteq> [])"
| "catalog_call_ok (ResolveDeletePolicy vtz i) = (vtz \<noteq> [] \<and> i \<noteq> [])"
| "catalog_call_ok _ = True"

fun soc_call_ok :: "soc_call \<Rightarrow> bool" where
  "soc_call_ok ResolveSocKpis = True"
| "soc_call_ok (ResolveWeekly weeks) = weeks_ok weeks"
| "soc_call_ok ResolveIncidentQueue = True"
| "soc_call_ok (ResolveIncidentDetail subject) = (subject \<noteq> [])"
| "soc_call_ok (ResolveIncidentNotes subject) = (subject \<noteq> [])"
| "soc_call_ok (ResolveIncidentTelemetry subject) = (subject \<noteq> [])"
| "soc_call_ok (ResolveAuditTrail subject) = (subject \<noteq> [])"
| "soc_call_ok (ResolveBusinessImpact subject) = (subject \<noteq> [])"
| "soc_call_ok (ResolveIncidentReport subject) = (subject \<noteq> [])"
| "soc_call_ok (ResolveNarrative subject) = (subject \<noteq> [])"
| "soc_call_ok (ResolveCognitionRun subject) = (subject \<noteq> [])"
| "soc_call_ok (ResolveCaseAct subject _) = (subject \<noteq> [])"
| "soc_call_ok (ResolveDisposition subject _) = (subject \<noteq> [])"
| "soc_call_ok (ResolveApprovePlan subject revision) = (subject \<noteq> [] \<and> isInteger revision \<and> 0 \<le> toBigInt revision)"
| "soc_call_ok (ResolveModifyPlan subject _) = (subject \<noteq> [])"

fun settings_call_ok :: "settings_call \<Rightarrow> bool" where
  "settings_call_ok (ResolveSettings surface) = pred_option surface_shape surface"
| "settings_call_ok (ResolveSocSettingsCommit patch) = (p_tiers patch \<noteq> None \<or> p_siemWriteback patch \<noteq> None)"
| "settings_call_ok (ResolveModelAccess days _) = (isInteger days \<and> 1 \<le> toBigInt days \<and> toBigInt days \<le> 31)"
| "settings_call_ok _ = True"

fun engine_call_ok :: "engine_call \<Rightarrow> bool" where
  "engine_call_ok (EntityCall c) = entity_call_ok c"
| "engine_call_ok (ZoneCall c) = zone_call_ok c"
| "engine_call_ok (DirectoryCall c) = directory_call_ok c"
| "engine_call_ok (CatalogCall c) = catalog_call_ok c"
| "engine_call_ok (SocCall c) = soc_call_ok c"
| "engine_call_ok (SettingsCall c) = settings_call_ok c"

text \<open>The calls for a global administrator only.\<close>

fun global_only :: "engine_call \<Rightarrow> bool" where
  "global_only (SettingsCall (ResolveModelAccess _ _)) = True"
| "global_only (SettingsCall (ApplyAgentGrant _)) = True"
| "global_only _ = False"

fun permitted :: "ServerDeps \<Rightarrow> server_request \<Rightarrow> OperatorSession \<Rightarrow> server_call \<Rightarrow> bool" where
  "permitted deps req session (EngineCall who c) \<longleftrightarrow>
     sd_operatorEngine deps \<and> who = caller session req \<and> engine_call_ok c
       \<and> (global_only c \<longrightarrow> s_role session = GlobalAdmin)"
| "permitted deps req session (LookupSessionGroup host port remote) \<longleftrightarrow>
     host = cf_engineHost (sd_config deps) \<and> cf_sessionPort (sd_config deps) = Some port \<and> rq_remotePort req = Some remote"
| "permitted deps req session (SetConnectorSecret host port provider secret) \<longleftrightarrow>
     host = cf_engineHost (sd_config deps) \<and> cf_secretPort (sd_config deps) = Some port \<and> provider \<noteq> [] \<and> secret \<noteq> []"
| "permitted deps req session PingEngine \<longleftrightarrow> False"
| "permitted deps req session (ReadFile _) \<longleftrightarrow> False"

section \<open>Where cached answers come from\<close>

text \<open>The key a read is cached under, for a tenant.\<close>

fun cache_key :: "string \<Rightarrow> engine_call \<Rightarrow> string option" where
  "cache_key t (EntityCall (ResolveOverviewSankey q)) = Some (overview_key ''sankey'' t q)"
| "cache_key t (EntityCall (ResolveEntityConnections i kind)) = Some (''overview:connections:'' @ t @ '':'' @ kind @ '':'' @ i)"
| "cache_key t (EntityCall (ResolveClassMembers container)) = Some (''overview:members:'' @ t @ '':'' @ container)"
| "cache_key t (ZoneCall (ResolveVtzTree limit)) = Some (vtzCachePrefix t @ ''tree:'' @ number_string limit)"
| "cache_key t (ZoneCall (ResolveVtzDetail zoneId)) = Some (vtzCachePrefix t @ ''detail:'' @ zoneId)"
| "cache_key t (SocCall ResolveSocKpis) = Some (socCachePrefix t @ ''kpis'')"
| "cache_key t (SocCall ResolveIncidentQueue) = Some (socCachePrefix t @ ''incidents'')"
| "cache_key t (SocCall (ResolveWeekly weeks)) = Some (socCachePrefix t @ ''weekly:'' @ number_string weeks)"
| "cache_key t (SocCall (ResolveIncidentDetail subject)) = Some (socCachePrefix t @ ''detail:'' @ subject)"
| "cache_key t (SocCall (ResolveNarrative subject)) = Some (socCachePrefix t @ ''narrative:'' @ subject)"
| "cache_key t (SocCall (ResolveIncidentTelemetry subject)) = Some (socCachePrefix t @ ''telemetry:'' @ subject)"
| "cache_key t (SocCall (ResolveAuditTrail subject)) = Some (socCachePrefix t @ ''audit:'' @ subject)"
| "cache_key t (SocCall (ResolveIncidentNotes subject)) = Some (socCachePrefix t @ ''notes:'' @ subject)"
| "cache_key t (SocCall (ResolveBusinessImpact subject)) = Some (socCachePrefix t @ ''impact:'' @ subject)"
| "cache_key t (SocCall (ResolveIncidentReport subject)) = Some (socCachePrefix t @ ''report:'' @ subject)"
| "cache_key t (CatalogCall ResolvePolicyZones) = Some (policiesCachePrefix t @ ''byZone'')"
| "cache_key t (CatalogCall (ResolvePolicyDetail vtz i)) = Some (policiesCachePrefix t @ ''detail:'' @ vtz @ '':'' @ i)"
| "cache_key t _ = None"

text \<open>What may stand under a key: a predicate on keys and values.\<close>

type_synonym provenance = "string \<Rightarrow> jsval \<Rightarrow> bool"

definition cache_sound :: "provenance \<Rightarrow> server_state \<Rightarrow> bool" where
  "cache_sound given st \<longleftrightarrow> (\<forall>(key, e) \<in> set (sv_cache st). given key (e_value e))"

text \<open>Answers are of the kind their key stands for, and other requests keep the cache sound.\<close>

definition fair_env :: "provenance \<Rightarrow> server_env \<Rightarrow> bool" where
  "fair_env given env \<longleftrightarrow>
     (\<forall>who c v key. ev_answer env (EngineCall who c) = Some (Inr v) \<longrightarrow> cache_key (op_tenant who) c = Some key \<longrightarrow> given key v)
     \<and> (\<forall>st. cache_sound given st \<longrightarrow> cache_sound given (ev_meanwhile env st))"

definition settles :: "server_env \<Rightarrow> bool" where
  "settles env \<longleftrightarrow> (\<forall>c. ev_answer env c \<noteq> None)"

text \<open>An answer given without a call: the one of a key of the caller's tenant, or one of two constant pages.\<close>

definition local_pages :: "string set" where
  "local_pages = {''/api/settings/console-rbac'', ''/api/settings/security-session''}"

definition warm_ok :: "provenance \<Rightarrow> server_request \<Rightarrow> string \<Rightarrow> server_call list \<Rightarrow> reply \<Rightarrow> bool" where
  "warm_ok given req t cs reply \<longleftrightarrow> (\<forall>v. cs = [] \<longrightarrow> reply = answer 200 v \<longrightarrow> path_in req \<notin> local_pages \<longrightarrow>
     (\<exists>c key. cache_key t c = Some key \<and> given key v))"

definition lawful :: "provenance \<Rightarrow> ServerDeps \<Rightarrow> server_env \<Rightarrow> server_request \<Rightarrow> OperatorSession \<Rightarrow> run \<Rightarrow> bool" where
  "lawful given deps env req session out = (case out of (reply, cs, st) \<Rightarrow>
     length cs \<le> 1 \<and> list_all (permitted deps req session) cs \<and> cache_sound given st
       \<and> (settles env \<longrightarrow> reply \<noteq> Unsettled) \<and> warm_ok given req (op_tenant (caller session req)) cs reply)"

section \<open>The law, step by step\<close>

named_theorems lawful_rules
named_theorems reply_simps

lemma answer_simps [simp, reply_simps]:
  "answer s v = answer s' v' \<longleftrightarrow> s = s' \<and> v = v'"
  "answer s v \<noteq> Unsettled" "answer s v \<noteq> Threw" "Unsettled \<noteq> answer s v" "Threw \<noteq> answer s v"
  "ReplyFile t bs \<noteq> answer s v" "answer s v \<noteq> ReplyFile t bs"
  by (auto simp: answer_def sendJson_def)

lemma fail_simps [simp, reply_simps]:
  "fail_with s e = answer s' v \<longleftrightarrow> s = s' \<and> v = error_body e"
  "fail_with s e \<noteq> Unsettled" "fail_with s e \<noteq> Threw"
  "refused s cls \<noteq> Unsettled" "refused s cls \<noteq> Threw" "tier_refusal \<noteq> Unsettled"
  by (auto simp: fail_with_def refused_def tier_refusal_def)

lemma soc_result_settled [simp]: "soc_result path v \<noteq> Unsettled"
  by (simp add: soc_result_def)

lemma error_simps [simp]:
  "read_error p e \<noteq> Unsettled" "command_error p e \<noteq> Unsettled" "explain_error e \<noteq> Unsettled" "members_error e \<noteq> Unsettled"
  "distribute_error_reply e \<noteq> Unsettled" "vtz_command_error e \<noteq> Unsettled" "objects_command_error e \<noteq> Unsettled"
  "secret_error e \<noteq> Unsettled"
  by (auto simp: read_error_def command_error_def explain_error_def members_error_def distribute_error_reply_def
      vtz_command_error_def objects_command_error_def secret_error_def split: thrown.split)

lemma lawful_finish [lawful_rules]:
  "cache_sound given st \<Longrightarrow> s \<noteq> 200 \<Longrightarrow> lawful given deps env req session (finish (fail_with s e) st)"
  "cache_sound given st \<Longrightarrow> lawful given deps env req session (finish Threw st)"
  "cache_sound given st \<Longrightarrow> s \<noteq> 200 \<Longrightarrow> lawful given deps env req session (finish (refused s cls) st)"
  "cache_sound given st \<Longrightarrow> path_in req \<in> local_pages \<Longrightarrow> lawful given deps env req session (finish (answer s v) st)"
  by (auto simp: lawful_def finish_def warm_ok_def refused_def)

lemma lawful_engine [lawful_rules]:
  "cache_sound given st \<Longrightarrow> (sd_operatorEngine deps \<Longrightarrow> lawful given deps env req session out) \<Longrightarrow>
     lawful given deps env req session (with_engine deps st out)"
  by (simp add: with_engine_def lawful_finish)

lemma lawful_if:
  "(b \<Longrightarrow> lawful given deps env req session x) \<Longrightarrow> (\<not> b \<Longrightarrow> lawful given deps env req session y) \<Longrightarrow>
     lawful given deps env req session (if b then x else y)"
  by simp

text \<open>What is made of an answer leaves the cache sound.\<close>

definition value_ok :: "provenance \<Rightarrow> server_env \<Rightarrow> server_call \<Rightarrow> (jsval \<Rightarrow> server_state \<Rightarrow> reply \<times> server_state) \<Rightarrow> bool" where
  "value_ok given env c on_value \<longleftrightarrow> (\<forall>v st. ev_answer env c = Some (Inr v) \<longrightarrow> cache_sound given st \<longrightarrow>
     fst (on_value v st) \<noteq> Unsettled \<and> cache_sound given (snd (on_value v st)))"

lemma fair_envD:
  "fair_env given env \<Longrightarrow> ev_answer env (EngineCall who c) = Some (Inr v) \<Longrightarrow> cache_key (op_tenant who) c = Some key \<Longrightarrow> given key v"
  "fair_env given env \<Longrightarrow> cache_sound given st \<Longrightarrow> cache_sound given (ev_meanwhile env st)"
  by (auto simp: fair_env_def)

lemma lawful_await [lawful_rules]:
  assumes "fair_env given env" "cache_sound given st" "permitted deps req session c"
    "\<And>e. on_error e \<noteq> Unsettled" "value_ok given env c on_value"
  shows "lawful given deps env req session (await env c st on_error on_value)"
proof (cases "ev_answer env c")
  case None
  then show ?thesis using assms by (auto simp: await_def lawful_def settles_def warm_ok_def)
next
  case (Some answered)
  then show ?thesis
    using assms fair_envD(2) [OF assms(1)]
    by (cases answered) (auto simp: await_def lawful_def value_ok_def warm_ok_def split: prod.split, (metis fst_conv snd_conv)+)
qed

lemma value_show [lawful_rules]:
  "value_ok given env c show_value"
  "value_ok given env c grant_outcome"
  "value_ok given env c (\<lambda>v st. (answer s (f v), st))"
  by (auto simp: value_ok_def show_value_def grant_outcome_def)

lemma value_unless_null [lawful_rules]:
  "reply \<noteq> Unsettled \<Longrightarrow> value_ok given env c k \<Longrightarrow> value_ok given env c (unless_null reply k)"
  by (auto simp: value_ok_def unless_null_def)

lemma cache_sound_subset:
  "cache_sound given st \<Longrightarrow> set (sv_cache st') \<subseteq> set (sv_cache st) \<Longrightarrow> cache_sound given st'"
  by (auto simp: cache_sound_def)

lemma cache_sound_cache: "sv_cache st' = sv_cache st \<Longrightarrow> cache_sound given st' = cache_sound given st"
  by (simp add: cache_sound_def)

lemma value_drop [lawful_rules]:
  "(\<And>v. shown v \<noteq> Unsettled) \<Longrightarrow> value_ok given env c (drop_prefix pre shown)"
  by (auto simp: value_ok_def drop_prefix_def deletePrefix_filter intro: cache_sound_subset)

lemma set_map_set: "set (map_set m k v) \<subseteq> insert (k, v) (set m)"
  by (induction m k v rule: map_set.induct) auto

lemma set_map_delete: "set (map_delete k m) \<subseteq> set m"
  by (auto simp: map_delete_def)

lemma set_evict: "set (evict_oldest n m) \<subseteq> set m"
  by (auto simp: evict_oldest_def map_delete_def split: list.split)

lemma value_store [lawful_rules]:
  assumes "fair_env given env" "cache_key (op_tenant who) c = Some key"
  shows "value_ok given env (EngineCall who c) (cache_store deps env key version)"
  unfolding value_ok_def
proof (intro allI impI conjI)
  fix v st
  assume v: "ev_answer env (EngineCall who c) = Some (Inr v)" and st: "cache_sound given st"
  show "fst (cache_store deps env key version v st) \<noteq> Unsettled" by (simp add: cache_store_def)
  have "given key v" using fair_envD(1) [OF assms(1) v assms(2)] .
  then show "cache_sound given (snd (cache_store deps env key version v st))"
    using st set_map_set set_evict set_map_delete
    unfolding cache_sound_def cache_store_def cache_set_def by fastforce
qed

lemma cache_lookup_sound:
  assumes "cache_sound given st" "cache_lookup env key version st = (found, st')"
  shows "cache_sound given st'" and "found = Some v \<Longrightarrow> given key v"
proof -
  have "set (sv_cache st') \<subseteq> set (sv_cache st)"
    using assms(2) by (auto simp: cache_lookup_def cache_get_def map_get_def map_delete_def split: option.splits if_splits)
  then show "cache_sound given st'" using assms(1) by (rule cache_sound_subset [rotated])
  show "given key v" if "found = Some v"
    using that assms map_of_SomeD
    by (fastforce simp: cache_lookup_def cache_get_def map_get_def cache_sound_def split: option.splits if_splits)
qed

lemma lawful_cached_read [lawful_rules]:
  assumes "fair_env given env" "cache_sound given st" "permitted deps req session (EngineCall who c)"
    "\<And>e. on_error e \<noteq> Unsettled" "value_ok given env (EngineCall who c) on_value"
    "cache_key (op_tenant who) c = Some key"
  shows "lawful given deps env req session (cached_read env key version (EngineCall who c) st on_error on_value)"
proof (cases "cache_lookup env key version st")
  case (Pair found st')
  note sound = cache_lookup_sound [OF assms(2) Pair]
  have who: "who = caller session req" using assms(3) by simp
  show ?thesis
  proof (cases found)
    case None
    then show ?thesis using assms sound(1) Pair lawful_await by (simp add: cached_read_def del: permitted.simps)
  next
    case (Some v)
    then show ?thesis using sound assms(6) Pair who
      by (auto simp: cached_read_def lawful_def finish_def warm_ok_def)
  qed
qed

section \<open>The gate\<close>

definition holder :: "ServerDeps \<Rightarrow> server_env \<Rightarrow> server_request \<Rightarrow> server_state \<Rightarrow> OperatorSession option" where
  "holder deps env req st = (case sd_authRouter deps of
       None \<Rightarrow> None | Some auth \<Rightarrow> fst (resolveSession auth (ev_now env) (rq_http req) (sv_auth st)))"

definition shut_out :: "server_state \<Rightarrow> run \<Rightarrow> bool" where
  "shut_out st out \<longleftrightarrow> (\<exists>a. out = finish (fail_with 401 ''unauthorized'') (st\<lparr>sv_auth := a\<rparr>))
     \<or> out = finish (fail_with 405 ''method_not_allowed'') st"

definition gated :: "provenance \<Rightarrow> ServerDeps \<Rightarrow> server_env \<Rightarrow> server_request \<Rightarrow> server_state \<Rightarrow> run \<Rightarrow> bool" where
  "gated given deps env req st out = (case holder deps env req st of
       None \<Rightarrow> shut_out st out | Some session \<Rightarrow> lawful given deps env req session out)"

lemma gated_session [lawful_rules]:
  assumes "cache_sound given st"
    and "\<And>session st'. cache_sound given st' \<Longrightarrow> lawful given deps env req session (k session st')"
  shows "gated given deps env req st (with_session deps env req st k)"
proof -
  have shut: "shut_out st (finish (fail_with 401 ''unauthorized'') (st\<lparr>sv_auth := a\<rparr>))" for a
    by (auto simp: shut_out_def)
  have sound: "cache_sound given (st\<lparr>sv_auth := a\<rparr>)" for a using assms(1) by (simp add: cache_sound_def)
  show ?thesis
    using shut shut [of "sv_auth st"] assms(2) [OF sound]
    by (auto simp: gated_def with_session_def holder_def split: option.split prod.split)
qed

lemma gated_method [lawful_rules]:
  "cache_sound given st \<Longrightarrow> gated given deps env req st (finish (fail_with 405 ''method_not_allowed'') st)"
  by (auto simp: gated_def shut_out_def intro: lawful_rules split: option.split)

section \<open>What the parsers of requests give\<close>

named_theorems parsed

lemma num_less_irrefl [simp]: "\<not> num_less a a"
  by (simp add: num_less_def)

lemma num_less_ints [simp]: "num_less (NInt a) (NInt b) \<longleftrightarrow> a < b"
  by (auto simp: num_less_def NaN_def is_finite_def ratio_def magnitude_def)

lemma clamp_limit_ok:
  assumes "0 < dflt" "dflt \<le> most"
  shows "limit_ok most (clamp_limit n (NInt most) (NInt dflt))"
  using assms by (auto simp: clamp_limit_def limit_ok_def math_min_def NaN_def split: option.split) (auto simp: num_less_def NaN_def)

lemma limits_ok [parsed]:
  "limit_ok 500 (clamp_limit n MAX_LOG_LIMIT DEFAULT_LOG_LIMIT)"
  "limit_ok 10000 (clamp_limit n MAX_OVERVIEW_LIMIT DEFAULT_OVERVIEW_LIMIT)"
  "limit_ok 500 (clamp_limit n MAX_VTZ_TREE_LIMIT DEFAULT_VTZ_TREE_LIMIT)"
  by (auto simp: MAX_LOG_LIMIT_def DEFAULT_LOG_LIMIT_def MAX_OVERVIEW_LIMIT_def DEFAULT_OVERVIEW_LIMIT_def
      MAX_VTZ_TREE_LIMIT_def DEFAULT_VTZ_TREE_LIMIT_def intro!: clamp_limit_ok)

lemma numbers_finite [parsed]:
  "pred_option is_finite (query_number req key)" "pred_option is_finite (filter_number f key)"
  by (auto simp: query_number_def filter_number_def Let_def split: option.split jsval.split)

lemma queries_ok [parsed]:
  "log_filter_ok (parseLogFilter req)"
  "limit_ok 10000 (oq_limit (parseOverviewQuery req))"
  "pred_option is_finite (oq_since (parseOverviewQuery req))" "pred_option is_finite (oq_until (parseOverviewQuery req))"
  "limit_ok 500 (parseVtzLimit req)"
  by (simp_all add: log_filter_ok_def parseLogFilter_def parseOverviewQuery_def parseVtzLimit_def parsed)

lemma refs_ok [parsed]: "ref_of_match gs = Some ref \<Longrightarrow> ref_ok ref"
  by (auto simp: ref_of_match_def entityRefOf_def ref_ok_def split: if_splits)

named_theorems parsedD

lemma isolate_ok [parsedD]:
  "parseIsolateRequest ref body = Some q \<Longrightarrow>
     iq_ref q = ref \<and> trim (iq_commandId q) \<noteq> [] \<and> iq_posture q \<in> {''quarantine'', ''deny''}"
  by (auto simp: parseIsolateRequest_def split: if_splits bind_splits)

lemma export_ok [parsedD]:
  "parseLogExportRequest body = Some q \<Longrightarrow> trim (le_commandId q) \<noteq> [] \<and> log_filter_ok (le_filter q)"
  by (auto simp: parseLogExportRequest_def log_filter_ok_def parsed Let_def split: if_splits bind_splits)

lemma zone_command_ok [parsed]: "parseVtzCommand req = Some (Some c) \<Longrightarrow> zone_call_ok (ResolveVtz c)"
  by (cases c) (auto simp: parseVtzCommand_def parseRescopeName_def Let_def
      split: if_splits bind_splits option.splits jsval.splits)

lemma members_ok [parsedD]:
  assumes "parseMembers body = Some ms"
  shows "ms \<noteq> [] \<and> [] \<notin> set ms"
proof -
  define item where "item = (\<lambda>m. case m of JStr s \<Rightarrow> if s \<noteq> [] then Some s else None | _ \<Rightarrow> None)"
  obtain raw where raw: "raw \<noteq> []" "map item raw = map Some ms"
    using assms by (auto simp: parseMembers_def item_def traverse_Some split: bind_splits if_splits)
  have "item m \<noteq> Some []" for m by (simp add: item_def split: jsval.split)
  moreover have "set (map item raw) = Some ` set ms" using raw(2) by simp
  ultimately have "[] \<notin> set ms" by (metis (no_types, lifting) ex_map_conv image_eqI list.set_map raw(2))
  then show ?thesis using raw by auto
qed

lemma principal_ok [parsed]: "parsePrincipalDraft body = Some d \<Longrightarrow> principal_draft_ok d"
  by (auto simp: parsePrincipalDraft_def principal_draft_ok_def text_or_null_def Let_def split: if_splits jsval.splits)

lemma object_ok [parsed]: "parseObjectDraft body = Some d \<Longrightarrow> o_name d \<noteq> [] \<and> o_selectorValue d \<noteq> []"
  by (auto simp: parseObjectDraft_def split: if_splits bind_splits)

lemma users_command_ok [parsed]: "users_command path body = Some c \<Longrightarrow> directory_call_ok c"
  by (auto simp: users_command_def parsed Let_def split: if_splits jsval.splits)

lemma objects_command_ok [parsed]: "objects_command path body = Some c \<Longrightarrow> catalog_call_ok c"
  by (auto simp: objects_command_def dest: object_ok split: if_splits)

lemma policies_command_ok [parsed]: "policies_command path body = Some c \<Longrightarrow> catalog_call_ok c"
  by (auto simp: policies_command_def Let_def split: if_splits bind_splits)

lemma soc_command_ok [parsed]: "subject \<noteq> [] \<Longrightarrow> soc_command path subject body = Some c \<Longrightarrow> soc_call_ok c"
  by (auto simp: soc_command_def as_integer_def split: if_splits bind_splits jsval.splits)

lemma idam_ok [parsedD]:
  "parseIdamConfigure body = Some d \<Longrightarrow>
     ic_provider d \<noteq> [] \<and> isInteger (ic_pollIntervalSecs d) \<and> isInteger (ic_fullSyncCadenceHours d)"
  "parseIdamConnect body = Some n \<Longrightarrow> in_provider n \<noteq> [] \<and> in_domain n \<noteq> [] \<and> in_clientId n \<noteq> []"
  "text_or_null t = Some p \<Longrightarrow> p \<noteq> []"
  by (auto simp: parseIdamConfigure_def parseIdamConnect_def text_or_null_def as_integer_def Let_def
      split: if_splits bind_splits jsval.splits)

section \<open>Every handler\<close>

lemma soc_read_ok [parsed]:
  "path \<in> set SOC_READS \<Longrightarrow> path = ''/api/soc/weekly'' \<longrightarrow> weeks_ok weeks \<Longrightarrow>
     path \<notin> {''/api/soc/incidents'', ''/api/soc/kpis'', ''/api/soc/weekly''} \<longrightarrow> subject \<noteq> [] \<Longrightarrow>
     soc_call_ok (soc_read path subject weeks)"
  by (auto simp: soc_read_def SOC_READS_def)

lemma soc_read_key:
  "path \<in> set SOC_READS \<Longrightarrow>
     cache_key t (SocCall (soc_read path subject weeks)) = Some (soc_key (socCachePrefix t) path subject weeks)"
  by (auto simp: soc_read_def SOC_READS_def soc_key_def per_incident_kind_def)

lemma governance_call_plain:
  "governance_call req g = Inr c \<Longrightarrow> settings_call_ok c \<and> \<not> global_only (SettingsCall c)"
  by (auto simp: governance_call_def Let_def split: governance.splits option.splits)

definition serves :: "handler \<Rightarrow> bool" where
  "serves h \<longleftrightarrow> (\<forall>given deps env req st out. fair_env given env \<longrightarrow> cache_sound given st \<longrightarrow>
     h deps env req st = Some out \<longrightarrow> gated given deps env req st out)"

lemma servesI:
  "(\<And>given deps env req st. fair_env given env \<Longrightarrow> cache_sound given st \<Longrightarrow>
     pred_option (gated given deps env req st) (h deps env req st)) \<Longrightarrow> serves h"
  unfolding serves_def by (metis option.pred_inject(2))

lemma servesEntityDetail: "serves handleEntityDetail"
  by (rule servesI) (auto simp: handleEntityDetail_def parsed Let_def bind_eq_Some_conv dest!: parsedD
      split: option.split intro!: lawful_rules)

lemma servesEntityIsolate: "serves handleEntityIsolate"
  by (rule servesI) (auto simp: handleEntityIsolate_def parsed Let_def bind_eq_Some_conv dest!: parsedD
      split: option.split intro!: lawful_rules)

lemma servesLogExport: "serves handleLogExport"
  by (rule servesI) (auto simp: handleLogExport_def parsed Let_def bind_eq_Some_conv dest!: parsedD
      split: option.split intro!: lawful_rules)

lemma servesVtzDistribute: "serves handleVtzDistribute"
  by (rule servesI) (auto simp: handleVtzDistribute_def parsed Let_def bind_eq_Some_conv dest!: parsedD
      split: option.split intro!: lawful_rules)

lemma servesVtzCommand: "serves handleVtzCommand"
  by (rule servesI) (auto simp: handleVtzCommand_def parsed Let_def bind_eq_Some_conv dest!: parsedD
      split: option.split intro!: lawful_rules)

lemma servesUsersCommand: "serves handleUsersCommand"
  by (rule servesI) (auto simp: handleUsersCommand_def parsed Let_def bind_eq_Some_conv dest!: parsedD
      split: option.split intro!: lawful_rules)

lemma servesObjectsCommand: "serves handleObjectsCommand"
  by (rule servesI) (auto simp: handleObjectsCommand_def parsed Let_def bind_eq_Some_conv dest!: parsedD
      split: option.split intro!: lawful_rules)

lemma servesPoliciesCommand: "serves handlePoliciesCommand"
  by (rule servesI) (auto simp: handlePoliciesCommand_def parsed Let_def bind_eq_Some_conv dest!: parsedD
      split: option.split intro!: lawful_rules)

lemma servesIdamCommand: "serves handleIdamCommand"
  by (rule servesI) (auto simp: handleIdamCommand_def connector_command_def parsed Let_def bind_eq_Some_conv dest!: parsedD
      split: option.split intro!: lawful_rules)

lemma servesIdamConnect: "serves handleIdamConnect"
  by (rule servesI) (auto simp: handleIdamConnect_def connector_command_def parsed Let_def bind_eq_Some_conv dest!: parsedD
      split: option.split intro!: lawful_rules)

lemma servesIdamSecret: "serves handleIdamSecret"
  by (rule servesI) (auto simp: handleIdamSecret_def parsed Let_def bind_eq_Some_conv dest!: parsedD
      split: option.split intro!: lawful_rules)

lemma servesGovernedSettings: "serves handleGovernedSettings"
  by (rule servesI) (auto simp: handleGovernedSettings_def commitGovernedSettings_def parsed Let_def bind_eq_Some_conv dest!: parsedD
      split: option.split intro!: lawful_rules)

lemma servesConsoleRbac: "serves handleConsoleRbac"
  by (rule servesI) (auto simp: handleConsoleRbac_def local_pages_def parsed Let_def bind_eq_Some_conv dest!: parsedD
      split: option.split intro!: lawful_rules)

lemma servesSettingsReports: "serves handleSettingsReports"
  by (rule servesI) (auto simp: handleSettingsReports_def parsed Let_def bind_eq_Some_conv dest!: parsedD
      split: option.split intro!: lawful_rules)

lemma servesModelAccess: "serves handleModelAccess"
  by (rule servesI) (auto simp: handleModelAccess_def MAX_SPEND_DAYS_def parsed Let_def bind_eq_Some_conv dest!: parsedD
      split: option.split intro!: lawful_rules)

lemma servesSecuritySession: "serves handleSecuritySession"
  by (rule servesI) (auto simp: handleSecuritySession_def local_pages_def parsed Let_def bind_eq_Some_conv dest!: parsedD
      split: option.split intro!: lawful_rules)

lemma servesSettingsGovernance: "serves handleSettingsGovernance"
  by (rule servesI) (auto simp: handleSettingsGovernance_def governance_shown_def governance_call_plain parsed Let_def bind_eq_Some_conv dest!: parsedD
      split: option.split sum.split governance.split intro!: lawful_rules)

lemma servesSocSettings: "serves handleSocSettings"
  by (rule servesI) (auto simp: handleSocSettings_def parsed Let_def bind_eq_Some_conv dest!: parsedD
      split: option.split intro!: lawful_rules)

lemma servesIdamConfigure: "serves handleIdamConfigure"
  by (rule servesI) (auto simp: handleIdamConfigure_def connector_command_def parsed Let_def bind_eq_Some_conv dest!: parsedD
      split: option.split intro!: lawful_rules)

lemma servesSocCommand: "serves handleSocCommand"
  by (rule servesI) (auto simp: handleSocCommand_def parsed Let_def bind_eq_Some_conv dest!: parsedD
      split: option.split intro!: lawful_rules)

lemma servesLogs: "serves handleLogs"
  by (rule servesI) (auto simp: handleLogs_def parsed Let_def bind_eq_Some_conv dest!: parsedD
      split: option.split intro!: lawful_rules)

lemma servesOverview: "serves handleOverview"
  by (rule servesI) (auto simp: handleOverview_def serveOverviewRead_def serveEntityConnections_def serveClassMembers_def parsed Let_def bind_eq_Some_conv dest!: parsedD
      split: option.split intro!: lawful_rules)

lemma servesUsers: "serves handleUsers"
  by (rule servesI) (auto simp: handleUsers_def parsed Let_def bind_eq_Some_conv dest!: parsedD
      split: option.split intro!: lawful_rules)

lemma servesObjects: "serves handleObjects"
  by (rule servesI) (auto simp: handleObjects_def parsed Let_def bind_eq_Some_conv dest!: parsedD
      split: option.split intro!: lawful_rules)

lemma servesSoc: "serves handleSoc"
proof (rule servesI)
  fix given deps env req st
  assume env: "fair_env given env" and st: "cache_sound given st"
  let ?path = "path_in req"
  let ?weeks = "weeks_of req"
  let ?subject = "trimmed_param req ''id''"
  have read: "lawful given deps env req session (cached_read env (soc_key (socCachePrefix (op_tenant (caller session req))) ?path ?subject ?weeks)
      SOC_CACHE_VERSION (EngineCall (caller session req) (SocCall (soc_read ?path ?subject ?weeks))) st'
      (read_error (\<lambda>e. e = SocUnavailable)) (if ?path \<in> set SOC_NULLABLE then unless_null (fail_with 404 ''not_found'') store else store))"
    if path: "?path \<in> set SOC_READS" and ok: "soc_call_ok (soc_read ?path ?subject ?weeks)" and "sd_operatorEngine deps"
      and "cache_sound given st'"
      and store: "store = cache_store deps env (soc_key (socCachePrefix (op_tenant (caller session req))) ?path ?subject ?weeks) SOC_CACHE_VERSION"
    for session st' store
    using that env by (intro lawful_cached_read) (simp_all add: soc_read_key value_store value_unless_null)
  show "pred_option (gated given deps env req st) (handleSoc deps env req st)"
  proof (cases "?path \<in> set SOC_READS")
    case False
    then show ?thesis by (simp add: handleSoc_def)
  next
    case True
    show ?thesis
      unfolding handleSoc_def Let_def
      using True st
      by (simp only: not_not if_False option.pred_inject simp_thms)
        (intro gated_session lawful_engine lawful_if lawful_finish read soc_read_ok, simp_all only: refl de_Morgan_conj not_not, auto)
  qed
qed

lemma servesPolicies: "serves handlePolicies"
  by (rule servesI) (auto simp: handlePolicies_def parsed Let_def bind_eq_Some_conv dest!: parsedD
      split: option.split intro!: lawful_rules)

lemma servesIdam: "serves handleIdam"
  by (rule servesI) (auto simp: handleIdam_def parsed Let_def bind_eq_Some_conv dest!: parsedD
      split: option.split intro!: lawful_rules)

lemma servesVtz: "serves handleVtz"
  by (rule servesI) (auto simp: handleVtz_def parsed Let_def bind_eq_Some_conv dest!: parsedD
      split: option.split intro!: lawful_rules)

text \<open>Without a session no handler does anything.\<close>

definition shuts :: "handler \<Rightarrow> bool" where
  "shuts h \<longleftrightarrow> (\<forall>deps env req st out. holder deps env req st = None \<longrightarrow> h deps env req st = Some out \<longrightarrow> shut_out st out)"

lemma shutsI:
  "(\<And>deps env req st. holder deps env req st = None \<Longrightarrow> pred_option (shut_out st) (h deps env req st)) \<Longrightarrow> shuts h"
  unfolding shuts_def by (metis option.pred_inject(2))

lemma with_session_none:
  assumes "holder deps env req st = None"
  shows "shut_out st (with_session deps env req st k)"
proof -
  have "shut_out st (finish (fail_with 401 ''unauthorized'') (st\<lparr>sv_auth := a\<rparr>))" for a
    by (auto simp: shut_out_def)
  from this this [of "sv_auth st"] show ?thesis
    using assms by (auto simp: with_session_def holder_def split: option.split prod.split)
qed

lemma shut_method: "shut_out st (finish (fail_with 405 ''method_not_allowed'') st)"
  by (simp add: shut_out_def)

lemmas shut_steps = with_session_none shut_method

lemmas handler_defs =
  handleEntityDetail_def handleEntityIsolate_def handleLogExport_def handleVtzDistribute_def
  handleVtzCommand_def handleUsersCommand_def handleObjectsCommand_def handlePoliciesCommand_def
  handleIdamCommand_def handleIdamConnect_def handleIdamSecret_def handleGovernedSettings_def
  handleConsoleRbac_def handleSettingsReports_def handleModelAccess_def handleSecuritySession_def
  handleSettingsGovernance_def handleSocSettings_def handleIdamConfigure_def handleSocCommand_def handleLogs_def
  handleOverview_def handleUsers_def handleObjects_def handleSoc_def handlePolicies_def handleIdam_def
  handleVtz_def
  connector_command_def serveOverviewRead_def serveEntityConnections_def serveClassMembers_def

section \<open>The tables\<close>

text \<open>What the dispatch relies on: every handler of a table keeps to both laws.\<close>

locale handler_table =
  fixes table :: "handler list"
  assumes table_serves: "h \<in> set table \<Longrightarrow> serves h"
    and table_shuts: "h \<in> set table \<Longrightarrow> shuts h"
begin

lemma claim_of:
  "first_claim hs deps env req st = Some out \<Longrightarrow> \<exists>h \<in> set hs. h deps env req st = Some out"
  by (induction hs) (auto split: option.splits)

lemma claim_gated:
  "first_claim table deps env req st = Some out \<Longrightarrow> fair_env given env \<Longrightarrow> cache_sound given st \<Longrightarrow>
     gated given deps env req st out"
  using claim_of table_serves unfolding serves_def by blast

lemma claim_shut:
  "first_claim table deps env req st = Some out \<Longrightarrow> holder deps env req st = None \<Longrightarrow> shut_out st out"
  using claim_of table_shuts unfolding shuts_def by blast

end

interpretation commands: handler_table COMMAND_HANDLERS
proof
  show "h \<in> set COMMAND_HANDLERS \<Longrightarrow> serves h" for h
    by (auto simp: COMMAND_HANDLERS_def
      servesEntityIsolate servesLogExport servesVtzDistribute servesVtzCommand servesUsersCommand
      servesObjectsCommand servesPoliciesCommand servesIdamCommand servesIdamConnect servesIdamSecret
      servesGovernedSettings servesConsoleRbac servesSettingsReports servesModelAccess servesSecuritySession
      servesSettingsGovernance servesSocSettings servesIdamConfigure servesSocCommand)
  show "h \<in> set COMMAND_HANDLERS \<Longrightarrow> shuts h" for h
    by (auto simp: COMMAND_HANDLERS_def handler_defs Let_def intro!: shutsI shut_steps split: option.split)
qed

interpretation reads: handler_table READ_HANDLERS
proof
  show "h \<in> set READ_HANDLERS \<Longrightarrow> serves h" for h
    by (auto simp: READ_HANDLERS_def
      servesEntityDetail servesLogs servesOverview servesUsers servesObjects servesSoc servesPolicies
      servesIdam servesVtz)
  show "h \<in> set READ_HANDLERS \<Longrightarrow> shuts h" for h
    by (auto simp: READ_HANDLERS_def handler_defs Let_def intro!: shutsI shut_steps split: option.split)
qed

section \<open>The whole surface\<close>

definition AUTH_PATHS :: "string list" where
  "AUTH_PATHS = [''/auth/login'', ''/auth/login/poll'', ''/auth/logout'', ''/auth/me'']"

lemma auth_unclaimed:
  "path_of rq \<notin> set AUTH_PATHS \<Longrightarrow> auth_handle parse_json auth oidc am rq a = (None, a)"
  by (simp add: auth_handle_def AUTH_PATHS_def Let_def)

lemma auth_claimed:
  "path_of rq \<in> set AUTH_PATHS \<Longrightarrow> \<exists>response a'. auth_handle parse_json auth oidc am rq a = (Some response, a')"
  by (auto simp: auth_handle_def AUTH_PATHS_def Let_def split: prod.split)

lemma request_cases:
  obtains (login) auth response a where "sd_authRouter deps = Some auth" "path_in req \<in> set AUTH_PATHS"
      "createRequestHandler deps env req st = (Reply response, [], st\<lparr>sv_auth := a\<rparr>)"
    | (routed) "createRequestHandler deps env req st = guarded (route deps env req st)"
proof (cases "sd_authRouter deps")
  case None
  then show thesis using routed by (simp add: createRequestHandler_def)
next
  case (Some auth)
  show thesis
  proof (cases "path_in req \<in> set AUTH_PATHS")
    case True
    obtain response a where
      "auth_handle json_of_bytes auth (ev_oidc env) (ev_ambient env) (rq_http req) (sv_auth st) = (Some response, a)"
      using auth_claimed True unfolding path_in_def by blast
    then show thesis using login [OF Some True] Some by (simp add: createRequestHandler_def)
  next
    case False
    then show thesis using Some routed by (simp add: createRequestHandler_def auth_unclaimed path_in_def)
  qed
qed

lemma route_cases:
  obtains (unknown) "route deps env req st = finish (fail_with 404 ''not_found'') st"
    | (wrong_method) "route deps env req st = finish (fail_with 405 ''method_not_allowed'') st"
    | (command) "first_claim COMMAND_HANDLERS deps env req st = Some (route deps env req st)"
    | (health) "path_in req = ''/healthz''" "route deps env req st = finish (answer 200 (status_body ''ok'')) st"
    | (ready) "path_in req = ''/readyz''" "route deps env req st = serve_readyz env st"
    | (document) "path_in req = ''/openapi.json''" "route deps env req st = finish (answer 200 (sd_openApi deps)) st"
    | (read) "first_claim READ_HANDLERS deps env req st = Some (route deps env req st)"
    | (static) "route deps env req st = serve_static deps env req st"
proof -
  let ?undeclared = "prefix ''/api/'' (path_in req) \<and> apiRouteVerdict (method_of req) (path_in req) = Undeclared"
  let ?misdirected = "prefix ''/api/'' (path_in req) \<and> apiRouteVerdict (method_of req) (path_in req) = MethodOnly"
  let ?command = "first_claim COMMAND_HANDLERS deps env req st"
  let ?read = "first_claim READ_HANDLERS deps env req st"
  note unfolded = route_def Let_def
  show thesis
  proof (cases "?undeclared \<or> ?misdirected")
    case True
    then have "route deps env req st \<in> {finish (fail_with 404 ''not_found'') st, finish (fail_with 405 ''method_not_allowed'') st}"
      by (auto simp: unfolded)
    then show thesis using unknown wrong_method by blast
  next
    case False
    note allowed = this
    show thesis
    proof (cases ?command)
      case (Some out)
      then have "route deps env req st = out" using allowed by (auto simp only: unfolded if_False option.simps de_Morgan_disj)
      with Some show thesis using command by simp
    next
      case None
      have rest: "route deps env req st =
          (if method_of req \<noteq> ''GET'' then finish (fail_with 405 ''method_not_allowed'') st
           else if path_in req = ''/healthz'' then finish (answer 200 (status_body ''ok'')) st
           else if path_in req = ''/readyz'' then serve_readyz env st
           else if path_in req = ''/openapi.json'' then finish (answer 200 (sd_openApi deps)) st
           else case ?read of Some claimed \<Rightarrow> claimed | None \<Rightarrow> serve_static deps env req st)"
        using allowed None by (auto simp only: unfolded if_False option.simps de_Morgan_disj)
      have "route deps env req st = finish (fail_with 405 ''method_not_allowed'') st
          \<or> path_in req = ''/healthz'' \<and> route deps env req st = finish (answer 200 (status_body ''ok'')) st
          \<or> path_in req = ''/readyz'' \<and> route deps env req st = serve_readyz env st
          \<or> path_in req = ''/openapi.json'' \<and> route deps env req st = finish (answer 200 (sd_openApi deps)) st
          \<or> ?read = Some (route deps env req st) \<or> route deps env req st = serve_static deps env req st"
        by (cases ?read) (simp_all add: rest)
      then show thesis using wrong_method health ready document read static by blast
    qed
  qed
qed

lemma guarded_simps [simp]:
  "guarded (finish reply st) = finish (if reply = Threw then fail_with 500 ''internal'' else reply) st"
  by (simp add: guarded_def finish_def)

lemma guarded_parts:
  assumes "guarded (rep0, cs0, st0) = (reply, cs, st')"
  shows "cs = cs0" "st' = st0" "reply = (if rep0 = Threw then fail_with 500 ''internal'' else rep0)"
  using assms by (auto simp: guarded_def split: if_splits)

lemma api_not_operational:
  "prefix ''/api/'' p \<Longrightarrow> p \<noteq> ''/healthz'' \<and> p \<noteq> ''/readyz'' \<and> p \<noteq> ''/openapi.json'' \<and> p \<notin> set AUTH_PATHS"
  by (auto simp: AUTH_PATHS_def)

lemma static_shape:
  assumes "serve_static deps env req st = (reply, cs, st')"
  shows "st' = st" "c \<in> set cs \<Longrightarrow> \<exists>f. c = ReadFile f" "reply \<noteq> Unsettled" "reply \<noteq> answer 200 v"
  using assms [symmetric] by (auto simp: serve_static_def finish_def split: option.splits prod.splits spa_result.splits)

lemma settlesD: "settles env \<Longrightarrow> ev_answer env c \<noteq> None"
  by (simp add: settles_def)

lemma readyz_shape:
  assumes "serve_readyz env st = (reply, cs, st')" "fair_env given env" "cache_sound given st"
  shows "cache_sound given st'" "cs = [PingEngine]" "settles env \<Longrightarrow> reply \<noteq> Unsettled"
  using assms fair_envD(2) [OF assms(2, 3)] settlesD [of env PingEngine]
  by (auto simp: serve_readyz_def await_def split: option.splits sum.splits)

text \<open>One request, in the session of its cookie or in none.\<close>

definition request_law :: "provenance \<Rightarrow> ServerDeps \<Rightarrow> server_env \<Rightarrow> server_request \<Rightarrow> server_state \<Rightarrow> run \<Rightarrow> bool" where
  "request_law given deps env req st out = (case out of (reply, cs, st') \<Rightarrow>
     cache_sound given st' \<and> (settles env \<longrightarrow> reply \<noteq> Unsettled)
     \<and> (\<forall>c \<in> set cs. (c = PingEngine \<and> path_in req = ''/readyz'') \<or> (\<exists>f. c = ReadFile f)
          \<or> (\<exists>session. holder deps env req st = Some session \<and> permitted deps req session c))
     \<and> length (filter (\<lambda>c. \<forall>f. c \<noteq> ReadFile f) cs) \<le> 1
     \<and> (\<forall>session. prefix ''/api/'' (path_in req) \<longrightarrow> holder deps env req st = Some session \<longrightarrow>
          warm_ok given req (op_tenant (caller session req)) cs reply))"

lemma request_law_finish:
  "cache_sound given st' \<Longrightarrow> reply \<noteq> Unsettled \<Longrightarrow> (\<forall>v. reply \<noteq> answer 200 v) \<or> \<not> prefix ''/api/'' (path_in req) \<Longrightarrow>
     request_law given deps env req st (finish reply st')"
  by (auto simp: request_law_def finish_def warm_ok_def)

lemma request_law_gated:
  assumes "gated given deps env req st out" "cache_sound given st"
  shows "request_law given deps env req st out"
proof (cases "holder deps env req st")
  case None
  then have "shut_out st out" using assms by (simp add: gated_def)
  then show ?thesis
    using assms(2) None by (auto simp: shut_out_def cache_sound_def intro!: request_law_finish)
next
  case (Some session)
  obtain reply cs st' where out: "out = (reply, cs, st')" by (cases out)
  show ?thesis
    using assms Some
    by (auto simp: out gated_def lawful_def request_law_def list_all_iff intro: le_trans [OF length_filter_le])
qed

lemma request_law_static:
  assumes "cache_sound given st"
  shows "request_law given deps env req st (serve_static deps env req st)"
proof -
  obtain reply cs st' where out: "serve_static deps env req st = (reply, cs, st')" by (cases "serve_static deps env req st")
  note shape = static_shape [OF out]
  then have "filter (\<lambda>c. \<forall>f. c \<noteq> ReadFile f) cs = []" by (auto simp: filter_empty_conv)
  then show ?thesis using shape assms by (auto simp: out request_law_def warm_ok_def)
qed

lemma request_law_ready:
  assumes "fair_env given env" "cache_sound given st" "path_in req = ''/readyz''"
  shows "request_law given deps env req st (serve_readyz env st)"
proof -
  obtain reply cs st' where out: "serve_readyz env st = (reply, cs, st')" by (cases "serve_readyz env st")
  show ?thesis using readyz_shape [OF out assms(1, 2)] assms(3) by (auto simp: out request_law_def)
qed

lemma route_lawful:
  assumes "fair_env given env" "cache_sound given st"
  shows "request_law given deps env req st (route deps env req st)"
proof (cases rule: route_cases [of deps env req st])
  case command
  then show ?thesis using commands.claim_gated assms by (intro request_law_gated)
next
  case read
  then show ?thesis using reads.claim_gated assms by (intro request_law_gated)
qed (use assms in \<open>auto intro!: request_law_finish request_law_static request_law_ready\<close>)

lemma request_law_guarded:
  assumes "request_law given deps env req st out"
  shows "request_law given deps env req st (guarded out)"
  using assms by (auto simp: request_law_def guarded_def warm_ok_def split: prod.splits)

text \<open>One request, in the session of its cookie or in none.\<close>

lemma request_lawful:
  assumes "fair_env given env" "cache_sound given st"
  shows "request_law given deps env req st (createRequestHandler deps env req st)"
proof (cases rule: request_cases [of deps req env st])
  case (login auth response a)
  then show ?thesis
    using assms(2) api_not_operational [of "path_in req"]
    by (auto simp: request_law_def cache_sound_def)
next
  case routed
  then show ?thesis using route_lawful [OF assms] by (simp add: request_law_guarded)
qed

lemma engine_caller:
  assumes "createRequestHandler deps env req st = (reply, cs, st')" "EngineCall who e \<in> set cs"
  shows "\<exists>session. holder deps env req st = Some session \<and> who = caller session req"
proof -
  have "fair_env (\<lambda>_ _. True) env" "cache_sound (\<lambda>_ _. True) st" by (auto simp: fair_env_def cache_sound_def)
  from request_lawful [OF this, of deps req] assms show ?thesis by (fastforce simp: request_law_def)
qed

section \<open>Tenants in keys\<close>

text \<open>The tenant a key was made for: its second part, or the third in the overview's keys.\<close>

definition tenant_of_key :: "string \<Rightarrow> string" where
  "tenant_of_key key = (let parts = split_on CHR '':'' key in parts ! (if hd parts = ''overview'' then 2 else 1))"

lemma cache_key_tenant:
  assumes "cache_key t c = Some key" "CHR '':'' \<notin> set t"
  shows "tenant_of_key key = t"
  using assms
  by (cases "(t, c)" rule: cache_key.cases)
    (auto simp: tenant_of_key_def overview_key_def vtzCachePrefix_def socCachePrefix_def policiesCachePrefix_def split_on_sep Let_def)

definition origin :: "(OperatorPrincipal \<times> engine_call \<times> jsval) set \<Rightarrow> provenance" where
  "origin given key v \<longleftrightarrow> (\<exists>who c. (who, c, v) \<in> given \<and> cache_key (op_tenant who) c = Some key)"

section \<open>A sample server\<close>

definition sample_config :: BffConfig where
  "sample_config = \<lparr>cf_engineHost = ''127.0.0.1'', cf_enginePort = 7443, cf_httpHost = ''127.0.0.1'', cf_httpPort = 8080,
     cf_logLevel = ''info'', cf_cacheTtlMs = 5000, cf_cacheMaxEntries = 10, cf_requestTimeoutMs = 1000, cf_signerPort = None,
     cf_secretPort = None, cf_sessionPort = None, cf_heartbeatIntervalMs = 1000, cf_spaDir = None,
     cf_session = \<lparr>ss_ttlMs = 1000, ss_cookieName = ''sid'', ss_cookieSecure = True, ss_maxSessions = 10, ss_maxPendingLogins = 10\<rparr>,
     cf_oidc = None, cf_rbac = \<lparr>groupRoles = [], localRbac = [], defaultTenant = None\<rparr>\<rparr>"

definition sample_server :: ServerDeps where
  "sample_server = \<lparr>sd_config = sample_config,
     sd_authRouter = Some \<lparr>d_maxSessions = 10, d_maxLogins = 10, d_sessionTtlMs = 1000,
       d_cookie = \<lparr>co_name = ''sid'', co_secure = True\<rparr>\<rparr>,
     sd_operatorEngine = True, sd_openApi = JObj []\<rparr>"

definition sample_caller :: "OperatorSession \<Rightarrow> OperatorPrincipal" where
  "sample_caller s = \<lparr>op_subject = s_subject s, op_tier = s_tier s, op_principalId = s_principalId s, op_tenant = s_tenant s,
     op_settingsTier = None\<rparr>"

text \<open>The session of the cookie, in a store of its own; the engine answers this operator's read.\<close>

definition sample_cold :: "OperatorSession \<Rightarrow> server_state" where
  "sample_cold s = \<lparr>sv_auth = \<lparr>au_sessions = [(''abc'', s)], au_pending = []\<rparr>, sv_cache = []\<rparr>"

definition sample_env :: "OperatorSession \<Rightarrow> server_env" where
  "sample_env s = \<lparr>ev_ambient = \<lparr>am_fresh = ''f'', am_now = 5, am_later = 6, am_meanwhile = (\<lambda>a. a)\<rparr>,
     ev_oidc = \<lparr>requestDeviceCode = None, pollToken = (\<lambda>_. PollPending), verifyLogin = (\<lambda>_. TokenInvalid)\<rparr>,
     ev_later = 7,
     ev_answer = (\<lambda>c. Some (if c = EngineCall (sample_caller s) (SocCall ResolveSocKpis) then Inr (JBool True) else Inl OtherError)),
     ev_meanwhile = (\<lambda>st. st), ev_files = (\<lambda>_. ReadError (Some ''ENOENT'')), ev_cwd = ''/''\<rparr>"

definition sample_request :: "string option \<Rightarrow> server_request" where
  "sample_request cookie = \<lparr>rq_http = \<lparr>rq_url = Some ''/api/soc/kpis'', rq_method = Some ''GET'', rq_cookie = cookie, rq_chunks = []\<rparr>,
     rq_activeTenant = Some ''other'', rq_remotePort = None\<rparr>"

lemma sample_request_simps:
  "path_in (sample_request cookie) = ''/api/soc/kpis''" "method_of (sample_request cookie) = ''GET''"
  by (simp_all add: sample_request_def path_in_def path_of_def method_of_def)

lemma sample_patterns:
  "exec ENTITY_ISOLATE_RE ''/api/soc/kpis'' = None"
  "exec ENTITY_DETAIL_RE ''/api/soc/kpis'' = None"
  "exec LOG_EXPLAIN_RE ''/api/soc/kpis'' = None"
  "exec VTZ_DISTRIBUTE_RE ''/api/soc/kpis'' = None"
  "exec SETTINGS_APPROVE_RE ''/api/soc/kpis'' = None"
  by code_simp+

lemma sample_declared: "apiRouteVerdict ''GET'' ''/api/soc/kpis'' = Declared"
  by code_simp

lemma sample_commands: "first_claim COMMAND_HANDLERS deps env (sample_request cookie) st = None"
  by (simp add: COMMAND_HANDLERS_def handler_defs sample_request_simps sample_patterns USERS_COMMAND_PATHS_def
    POLICIES_COMMAND_PATHS_def SOC_COMMAND_PATHS_def governance_of_def)

definition sample_read :: "OperatorSession \<Rightarrow> server_request \<Rightarrow> server_state \<Rightarrow> run" where
  "sample_read s req st = with_session sample_server (sample_env s) req st (\<lambda>session st.
     let key = ''soc:'' @ op_tenant (caller session req) @ '':kpis''
     in cached_read (sample_env s) key ''soc-v1'' (EngineCall (caller session req) (SocCall ResolveSocKpis)) st
          (read_error (\<lambda>e. e = SocUnavailable)) (cache_store sample_server (sample_env s) key ''soc-v1''))"

lemma sample_soc:
  "handleSoc sample_server (sample_env s) (sample_request cookie) st = Some (sample_read s (sample_request cookie) st)"
  by (simp add: handleSoc_def sample_request_simps SOC_READS_def Let_def soc_read_def soc_key_def per_incident_kind_def
      socCachePrefix_def SOC_CACHE_VERSION_def SOC_NULLABLE_def sample_read_def with_engine_def sample_server_def)

lemma sample_reads:
  "first_claim READ_HANDLERS sample_server (sample_env s) (sample_request cookie) st = Some (sample_read s (sample_request cookie) st)"
  by (simp add: READ_HANDLERS_def sample_soc handleEntityDetail_def handleLogs_def handleOverview_def handleUsers_def handleObjects_def
      sample_request_simps sample_patterns)

lemma sample_handled:
  "createRequestHandler sample_server (sample_env s) (sample_request cookie) st = guarded (sample_read s (sample_request cookie) st)"
proof -
  have path: "path_of (rq_http (sample_request cookie)) = ''/api/soc/kpis''"
    using sample_request_simps(1) by (simp add: path_in_def)
  have "route sample_server (sample_env s) (sample_request cookie) st = sample_read s (sample_request cookie) st"
    by (simp add: route_def Let_def sample_request_simps sample_declared sample_commands sample_reads)
  moreover have "auth_handle json_of_bytes auth oidc am (rq_http (sample_request cookie)) a = (None, a)" for auth oidc am a
    using path by (simp add: auth_unclaimed AUTH_PATHS_def)
  ultimately show ?thesis by (simp add: createRequestHandler_def sample_server_def)
qed

lemma sample_cookies: "readCookie None ''sid'' = None" "readCookie (Some ''sid=abc'') ''sid'' = Some ''abc''"
  using read_header [of "[(''sid'', ''abc'')]" "''sid''"]
  by (simp_all add: readCookie_def parseCookies_def map_get_def pair_ok_def cookie_name_def token_char_def pair_text_def)

lemma sample_fields:
  "ev_now (sample_env s) = 5" "ev_later (sample_env s) = 7" "ev_meanwhile (sample_env s) st = st"
  "ev_answer (sample_env s) c =
     Some (if c = EngineCall (sample_caller s) (SocCall ResolveSocKpis) then Inr (JBool True) else Inl OtherError)"
  "cf_cacheMaxEntries (sd_config sample_server) = 10" "cf_cacheTtlMs (sd_config sample_server) = 5000" "sv_cache (sample_cold s) = []"
  by (simp_all add: sample_env_def sample_server_def sample_config_def sample_cold_def)

lemma sample_anonymous:
  "with_session sample_server (sample_env s) (sample_request None) st k = finish (fail_with 401 ''unauthorized'') st"
  "holder sample_server (sample_env s) (sample_request None) st = None"
  by (simp_all add: with_session_def holder_def sample_fields(1) sample_server_def sample_request_def resolveSession_def sample_cookies)

lemma sample_opened:
  assumes "sv_auth st = sv_auth (sample_cold s)" "5 < s_expiresAt s"
  shows "with_session sample_server (sample_env s) (sample_request (Some ''sid=abc'')) st k = k s st"
    and "holder sample_server (sample_env s) (sample_request (Some ''sid=abc'')) st = Some s"
proof -
  have "resolveSession auth 5 (rq_http (sample_request (Some ''sid=abc''))) (sv_auth st) = (Some s, sv_auth st)"
    if "sd_authRouter sample_server = Some auth" for auth
    using that assms
    by (auto simp: sample_server_def sample_request_def resolveSession_def sample_cookies sample_cold_def session_get_def map_get_def)
  moreover obtain auth where auth: "sd_authRouter sample_server = Some auth" by (simp add: sample_server_def)
  ultimately have resolved: "resolveSession auth 5 (rq_http (sample_request (Some ''sid=abc''))) (sv_auth st) = (Some s, sv_auth st)"
    by blast
  have "with_session sample_server (sample_env s) (sample_request (Some ''sid=abc'')) st k = k s (st\<lparr>sv_auth := sv_auth st\<rparr>)"
    using auth resolved by (simp add: with_session_def sample_fields)
  then show "with_session sample_server (sample_env s) (sample_request (Some ''sid=abc'')) st k = k s st" by simp
  show "holder sample_server (sample_env s) (sample_request (Some ''sid=abc'')) st = Some s"
    using auth resolved by (simp add: holder_def sample_fields)
qed

lemma sample_callers:
  "s_role s \<noteq> GlobalAdmin \<Longrightarrow> caller s (sample_request cookie) = sample_caller s" "op_tenant (sample_caller s) = s_tenant s"
  by (simp_all add: caller_def principalFromSession_def sample_caller_def Let_def)

lemmas sample_steps = sample_callers sample_fields cached_read_def cache_lookup_def cache_get_def map_get_def
  await_def cache_store_def cache_set_def map_delete_def evict_oldest_def guarded_def finish_def Let_def

text \<open>The read without a cookie, with one, and again from the cache.\<close>

definition sample_warm :: "OperatorSession \<Rightarrow> server_state" where
  "sample_warm s = (sample_cold s)\<lparr>sv_cache :=
     [(''soc:'' @ s_tenant s @ '':kpis'', \<lparr>e_value = JBool True, e_version = ''soc-v1'', e_expiresAt = 5007\<rparr>)]\<rparr>"

lemma sample_refused:
  "createRequestHandler sample_server (sample_env s) (sample_request None) (sample_cold s) =
     (fail_with 401 ''unauthorized'', [], sample_cold s)"
  by (simp add: sample_handled sample_read_def sample_anonymous finish_def guarded_def)

lemma sample_first:
  assumes "s_role s \<noteq> GlobalAdmin" "5 < s_expiresAt s"
  shows "createRequestHandler sample_server (sample_env s) (sample_request (Some ''sid=abc'')) (sample_cold s) =
     (answer 200 (JBool True), [EngineCall (sample_caller s) (SocCall ResolveSocKpis)], sample_warm s)"
  unfolding sample_handled sample_read_def sample_opened(1) [OF refl assms(2)]
  using assms(1) by (simp add: sample_steps sample_warm_def)

lemma sample_second:
  assumes "s_role s \<noteq> GlobalAdmin" "5 < s_expiresAt s"
  shows "createRequestHandler sample_server (sample_env s) (sample_request (Some ''sid=abc'')) (sample_warm s) =
     (answer 200 (JBool True), [], sample_warm s)"
proof -
  have "sv_auth (sample_warm s) = sv_auth (sample_cold s)" by (simp add: sample_warm_def)
  note opened = sample_opened(1) [OF this assms(2)]
  show ?thesis unfolding sample_handled sample_read_def opened using assms(1) by (simp add: sample_steps sample_warm_def)
qed

definition sample_session :: OperatorSession where
  "sample_session = new_session ''abc'' sample_identity 1000"

lemma sample_identities:
  "s_role sample_session \<noteq> GlobalAdmin" "s_tenant sample_session = ''t''" "5 < s_expiresAt sample_session"
  by (simp_all add: sample_session_def sample_identity_def new_session_def)

section \<open>Properties\<close>

text \<open>
  C2.  Nothing of the API is reached without a session: a request under \<open>/api/\<close> whose cookie
  names no live session makes no call and leaves the read cache as it is, and is answered 401,
  404 or 405, whatever its verb, query and body; the one other outcome is the file the
  static surface gives for that path.
\<close>

theorem api_needs_session:
  assumes "prefix ''/api/'' (path_in req)" "holder deps env req st = None"
    and "createRequestHandler deps env req st = (reply, cs, st')"
  shows "sv_cache st' = sv_cache st \<and>
     ((cs = [] \<and> reply \<in> {fail_with 401 ''unauthorized'', fail_with 404 ''not_found'', fail_with 405 ''method_not_allowed''})
      \<or> (reply, cs, st') = guarded (serve_static deps env req st))"
proof (cases rule: request_cases [of deps req env st])
  case (login auth response a)
  then show ?thesis using api_not_operational [OF assms(1)] by simp
next
  case routed
  have shut: ?thesis if "shut_out st (route deps env req st)"
    using that routed assms(3) by (auto simp: shut_out_def finish_def guarded_def)
  show ?thesis
  proof (cases rule: route_cases [of deps env req st])
    case command
    then show ?thesis using shut commands.claim_shut assms(2) by blast
  next
    case read
    then show ?thesis using shut reads.claim_shut assms(2) by blast
  qed (use routed assms(3) api_not_operational [OF assms(1)] in \<open>auto simp: finish_def guarded_def serve_static_def split: option.splits prod.splits if_splits\<close>)
qed

theorem api_needs_session_witness:
  "holder sample_server (sample_env sample_session) (sample_request None) (sample_cold sample_session) = None \<and>
   createRequestHandler sample_server (sample_env sample_session) (sample_request None) (sample_cold sample_session) = (fail_with 401 ''unauthorized'', [], (sample_cold sample_session)) \<and>
   (([] :: server_call list) = [] \<or> (fail_with 401 ''unauthorized'', [], (sample_cold sample_session)) =
      guarded (serve_static sample_server (sample_env sample_session) (sample_request None) (sample_cold sample_session)))"
  using api_needs_session [OF _ sample_anonymous(2) sample_refused [of sample_session]] sample_anonymous(2) sample_refused [of sample_session]
  by (simp add: sample_request_simps)





text \<open>
  C31.  Every request is answered: if the calls of the environment settle, with a value or an
  error, the browser gets a JSON answer or a file, and no exception escapes.
\<close>

theorem requests_answered:
  assumes "settles env"
  shows "\<exists>reply cs st'. createRequestHandler deps env req st = (reply, cs, st') \<and>
     ((\<exists>response. reply = Reply response) \<or> (\<exists>t bs. reply = ReplyFile t bs))"
proof -
  obtain reply cs st' where out: "createRequestHandler deps env req st = (reply, cs, st')"
    by (cases "createRequestHandler deps env req st")
  have "fair_env (\<lambda>_ _. True) env" "cache_sound (\<lambda>_ _. True) st" by (auto simp: fair_env_def cache_sound_def)
  from request_lawful [OF this, of deps req] assms have "reply \<noteq> Unsettled" by (simp add: out request_law_def)
  moreover have "reply \<noteq> Threw"
    using out by (cases rule: request_cases [of deps req env st]) (auto simp: guarded_def split: prod.splits if_splits)
  ultimately show ?thesis using out by (cases reply) auto
qed

theorem requests_answered_witness:
  "settles (sample_env sample_session) \<and> (\<exists>reply cs st'. createRequestHandler sample_server (sample_env sample_session) (sample_request None) (sample_cold sample_session) = (reply, cs, st') \<and>
     ((\<exists>response. reply = Reply response) \<or> (\<exists>t bs. reply = ReplyFile t bs)))"
proof
  show "settles (sample_env sample_session)" by (simp add: settles_def sample_fields)
  then show "\<exists>reply cs st'. createRequestHandler sample_server (sample_env sample_session) (sample_request None) (sample_cold sample_session) = (reply, cs, st') \<and>
     ((\<exists>response. reply = Reply response) \<or> (\<exists>t bs. reply = ReplyFile t bs))"
    by (rule requests_answered)
qed

end
