(* ===== verification/Bindings.thy ===== *)
theory Bindings
  imports Routes Auth
begin

text \<open>
  The binding registry (\<open>packages/bindings/src\<close>, with the shapes of
  \<open>packages/contracts/src/binding.ts\<close>): every value the console renders and every control
  it exposes names an operation of the platform, or is pending with the work that gates it.
  The registry, the structural rules that always hold, the release gate, and the agreement
  of the registry with the route table.
\<close>

section \<open>Bindings\<close>

datatype EngineSurface = Cruciblql | AdminSurface | Torch | ForgeSurface | Console

datatype BindingStatus = Live | Pending (owningRepo: string) (gatingTask: string)

datatype CommandAudit = Audited | AuditGap string

datatype Binding =
    ReadBinding (b_id: string) (b_surface: EngineSurface) (b_op: string) (b_viewModel: string)
      (b_status: BindingStatus)
  | CommandBinding (b_id: string) (b_surface: EngineSurface) (b_op: string) (b_authz: string)
      (b_audit: CommandAudit) (b_status: BindingStatus)

type_synonym BindingManifest = "(string, Binding) jsmap"

definition isPending :: "Binding \<Rightarrow> bool" where
  "isPending b = (b_status b \<noteq> Live)"

definition unaudited :: "Binding \<Rightarrow> bool" where
  "unaudited b = (case b of CommandBinding _ _ _ _ (AuditGap _) _ \<Rightarrow> True | _ \<Rightarrow> False)"

section \<open>The registry\<close>

definition entityReads :: "Binding list" where
  "entityReads = [
     ReadBinding ''entity.header'' Cruciblql ''list_agents_v1'' ''HeaderView'' Live,
     ReadBinding ''entity.info'' Cruciblql ''list_agents_v1'' ''EntityInfoView'' Live,
     ReadBinding ''entity.zones'' ForgeSurface ''entity_zones_v1'' ''ZonesView''
       (Pending ''forge'' ''Forge VTZ membership store + a queryable read surface (not in crdb today)''),
     ReadBinding ''entity.effectivePolicies'' ForgeSurface ''entity_effective_policies_v1'' ''EffectivePoliciesView''
       (Pending ''forge'' ''Forge effective-policy resolution as a queryable read surface (not in crdb today)''),
     ReadBinding ''entity.recentDecisions'' Cruciblql ''entity_decisions_v1'' ''RecentDecisionsView'' Live,
     ReadBinding ''entity.capabilities'' Cruciblql ''agent_capabilities_v1'' ''CapabilitiesView'' Live]"

definition entityCommands :: "Binding list" where
  "entityCommands = [
     CommandBinding ''entity.isolate'' Cruciblql ''entity_isolate_v1'' ''operator:contain'' Audited Live,
     CommandBinding ''entity.reassignZone'' ForgeSurface ''entity_reassign_zone_v1'' ''operator:vtz.reassign'' Audited
       (Pending ''forge'' ''IP-CONSOLE-12 DR.5 / IP-CONSOLE-02: Forge VTZ membership-change command''),
     CommandBinding ''entity.remediation'' ForgeSurface ''entity_remediation_v1'' ''operator:remediation.view'' Audited
       (Pending ''forgecentral'' ''IP-CONSOLE-07 AIOps Workflows surface''),
     CommandBinding ''entity.fullReport'' Cruciblql ''entity_full_report_v1'' ''operator:report.view'' Audited
       (Pending ''forgecentral'' ''IP-CONSOLE-08 Reports surface'')]"

definition logReads :: "Binding list" where
  "logReads = [
     ReadBinding ''logs.query'' Cruciblql ''log_query_v1'' ''LogPage'' Live,
     ReadBinding ''logs.explain'' Cruciblql ''log_explain_v1'' ''LogDetailView'' Live,
     ReadBinding ''logs.tail'' Cruciblql ''log_tail_v1'' ''LogPage''
       (Pending ''crdb'' ''IP-CONSOLE-READINESS Part B (bounded decision SUBSCRIBE push stream)'')]"

definition logCommands :: "Binding list" where
  "logCommands = [
     CommandBinding ''logs.export'' Cruciblql ''log_export_v1'' ''operator:logs.export'' Audited Live]"

definition overviewReads :: "Binding list" where
  "overviewReads = [
     ReadBinding ''overview.graph'' Cruciblql ''connectivity_graph_v1'' ''OverviewSankey'' Live,
     ReadBinding ''overview.entityConnections'' Cruciblql ''entity_connections_v1'' ''ConnectionList'' Live,
     ReadBinding ''overview.members'' Cruciblql ''connectivity_members_v1'' ''OverviewMemberList'' Live,
     ReadBinding ''overview.live'' Cruciblql ''overview_live_v1'' ''OverviewSankey''
       (Pending ''crdb'' ''IP-CONSOLE-READINESS Part B (bounded connectivity SUBSCRIBE push stream)'')]"

definition vtzReads :: "Binding list" where
  "vtzReads = [
     ReadBinding ''vtz.tree'' Cruciblql ''vtz_tree_v1'' ''VtzTree'' Live,
     ReadBinding ''vtz.detail'' Cruciblql ''vtz_detail_v1'' ''VtzDetailView'' Live,
     ReadBinding ''vtz.riskBand'' Cruciblql ''connectivity_graph_v1'' ''OverviewRiskBand'' Live,
     ReadBinding ''vtz.memberCounts'' Cruciblql ''vtz_member_counts_v1'' ''VtzMemberCounts''
       (Pending ''crdb'' ''IP-CONSOLE-VTZ-SUBSTRATE VtzSetMembership (zone-membership substrate, TRD-CONSOLE-12)''),
     ReadBinding ''vtz.policyCount'' Cruciblql ''vtz_policy_count_v1'' ''VtzPolicyCount''
       (Pending ''forgecentral'' ''IP-CONSOLE-02: derive the per-zone count from POLICY_LIST_BY_ZONE (not wired)'')]"

definition vtzCommands :: "Binding list" where
  "vtzCommands = [
     CommandBinding ''vtz.create'' Cruciblql ''vtz_create_v1'' ''operator:vtz.author'' Audited Live,
     CommandBinding ''vtz.edit'' Cruciblql ''vtz_edit_v1'' ''operator:vtz.author'' Audited Live,
     CommandBinding ''vtz.rescope'' Cruciblql ''vtz_rescope_v1'' ''operator:vtz.author'' Audited Live,
     CommandBinding ''vtz.delete'' Cruciblql ''vtz_delete_v1'' ''operator:vtz.author'' Audited Live,
     CommandBinding ''vtz.setMembership'' Cruciblql ''vtz_set_membership_v1'' ''operator:vtz.reassign'' Audited
       (Pending ''crdb'' ''IP-CONSOLE-VTZ-SUBSTRATE VtzSetMembership (zone-membership substrate, TRD-CONSOLE-12)'')]"

definition usersReads :: "Binding list" where
  "usersReads = [
     ReadBinding ''users.list'' Cruciblql ''list_principals_v1'' ''PrincipalRow'' Live,
     ReadBinding ''users.detail'' Cruciblql ''list_principals_v1'' ''PrincipalRow'' Live,
     ReadBinding ''groups.list'' Cruciblql ''list_groups_v1'' ''GroupCard'' Live,
     ReadBinding ''groups.detail'' Cruciblql ''list_groups_v1'' ''GroupCard'' Live,
     ReadBinding ''idam.connectors'' Cruciblql ''idam_connectors_v1'' ''IdamConnector'' Live]"

definition usersCommands :: "Binding list" where
  "usersCommands = [
     CommandBinding ''users.create'' Cruciblql ''principal_create_v1'' ''operator:users.manage'' Audited Live,
     CommandBinding ''users.edit'' Cruciblql ''principal_edit_v1'' ''operator:users.manage'' Audited Live,
     CommandBinding ''users.setStatus'' Cruciblql ''principal_set_status_v1'' ''operator:users.manage'' Audited Live,
     CommandBinding ''groups.create'' Cruciblql ''group_create_v1'' ''operator:users.manage'' Audited Live,
     CommandBinding ''groups.edit'' Cruciblql ''group_edit_v1'' ''operator:users.manage'' Audited Live,
     CommandBinding ''groups.setMembers'' Cruciblql ''group_set_members_v1'' ''operator:users.manage'' Audited Live,
     CommandBinding ''idam.configure'' Cruciblql ''idam_configure_v1'' ''operator:users.manage''
       (AuditGap ''CD-15: IDAM_CONFIGURE changes in-memory connector state, writes no audit record, and reverts at an engine restart'') Live,
     CommandBinding ''idam.connect'' Cruciblql ''idam_connect_v1'' ''operator:users.manage''
       (AuditGap ''CD-15: IDAM_CONNECT re-spawns the in-memory connector, writes no audit record, and reverts at an engine restart'') Live,
     CommandBinding ''idam.sync'' Cruciblql ''idam_sync_v1'' ''operator:users.manage''
       (AuditGap ''CD-15: IDAM_SYNC queues a directory sync and writes no audit record'') Live,
     CommandBinding ''idam.secret'' Console ''idam_secret_set_v1'' ''operator:users.manage''
       (AuditGap ''CD-01: the secret write needs only a session, has no engine authorization, and writes no audit record'') Live]"

definition objectReads :: "Binding list" where
  "objectReads = [
     ReadBinding ''objects.list'' Cruciblql ''object_list_v1'' ''ObjectCard'' Live,
     ReadBinding ''objects.detail'' Cruciblql ''object_detail_v1'' ''ObjectDetailView'' Live,
     ReadBinding ''objects.governingPolicies'' ForgeSurface ''object_governing_policies_v1'' ''GoverningPoliciesView''
       (Pending ''crdb'' ''TRD-CONSOLE-05 Policy surface (object -> governing-policy resolution)'')]"

definition objectCommands :: "Binding list" where
  "objectCommands = [
     CommandBinding ''objects.create'' Cruciblql ''object_create_v1'' ''operator:objects.manage'' Audited Live,
     CommandBinding ''objects.edit'' Cruciblql ''object_edit_v1'' ''operator:objects.manage'' Audited Live,
     CommandBinding ''objects.delete'' Cruciblql ''object_delete_v1'' ''operator:objects.manage'' Audited Live]"

definition policyReads :: "Binding list" where
  "policyReads = [
     ReadBinding ''policies.byZone'' Cruciblql ''policy_list_by_zone_v1'' ''PolicyZoneGroup'' Live,
     ReadBinding ''policies.detail'' Cruciblql ''policy_detail_v1'' ''PolicyDetailView'' Live,
     ReadBinding ''policies.convergence'' Cruciblql ''bundle_convergence_v1'' ''BundleConvergenceView'' Live,
     ReadBinding ''policies.enforcement'' Torch ''policy_enforcement_status_v1'' ''PolicyEnforcementStatus''
       (Pending ''torch'' ''IP-TORCH-POLICY-ENFORCE (host realization of schedule/geo/port rules; AG.7-OFF)'')]"

definition policyCommands :: "Binding list" where
  "policyCommands = [
     CommandBinding ''policies.create'' Cruciblql ''policy_create_v1'' ''operator:policies.author'' Audited Live,
     CommandBinding ''policies.edit'' Cruciblql ''policy_edit_v1'' ''operator:policies.author'' Audited Live,
     CommandBinding ''policies.publish'' Cruciblql ''policy_publish_v1'' ''operator:policies.author'' Audited Live,
     CommandBinding ''policies.delete'' Cruciblql ''policy_delete_v1'' ''operator:policies.author'' Audited Live,
     CommandBinding ''policies.distribute'' ForgeSurface ''bundle_commit_v1'' ''operator:policies.author'' Audited Live]"

definition socReads :: "Binding list" where
  "socReads = [
     ReadBinding ''soc.incidents'' Cruciblql ''soc_incident_list_v1'' ''SocIncidentRow'' Live,
     ReadBinding ''soc.incident.detail'' Cruciblql ''soc_incident_detail_v1'' ''SocIncidentDetail'' Live,
     ReadBinding ''soc.narrative'' Cruciblql ''soc_narrative_v1'' ''VerdictNarrative'' Live,
     ReadBinding ''soc.plan.propose'' Cruciblql ''soc_incident_detail_v1'' ''ResponseStep'' Live,
     ReadBinding ''soc.telemetry.raw'' Cruciblql ''soc_incident_telemetry_v1'' ''IncidentTelemetry'' Live,
     ReadBinding ''soc.audit.trail'' Cruciblql ''soc_incident_audit_v1'' ''IncidentActRow'' Live,
     ReadBinding ''soc.notes'' Cruciblql ''soc_incident_notes_v1'' ''IncidentNote'' Live,
     ReadBinding ''soc.impact'' Cruciblql ''soc_incident_impact_v1'' ''BusinessImpact'' Live,
     ReadBinding ''soc.kpis'' Cruciblql ''detect_summary_v1'' ''SocKpis'' Live,
     ReadBinding ''soc.report'' Cruciblql ''soc_incident_report_v1'' ''SocReport'' Live,
     ReadBinding ''soc.weekly'' Cruciblql ''soc_weekly_summary_v1'' ''SocWeekly'' Live]"

definition socCommands :: "Binding list" where
  "socCommands = [
     CommandBinding ''soc.cognition.run'' Cruciblql ''soc_cognition_run_v1'' ''operator:soc.respond'' Audited Live,
     CommandBinding ''soc.plan.approve'' Cruciblql ''soc_plan_approve_v1'' ''operator:soc.respond'' Audited Live,
     CommandBinding ''soc.plan.modify'' Cruciblql ''soc_plan_modify_v1'' ''operator:soc.respond'' Audited Live,
     CommandBinding ''soc.case.assign'' Cruciblql ''soc_incident_act_v1'' ''operator:soc.respond'' Audited Live,
     CommandBinding ''soc.case.ack'' Cruciblql ''soc_incident_act_v1'' ''operator:soc.respond'' Audited Live,
     CommandBinding ''soc.case.note'' Cruciblql ''soc_incident_act_v1'' ''operator:soc.respond'' Audited Live,
     CommandBinding ''soc.case.close'' Cruciblql ''soc_incident_act_v1'' ''operator:soc.respond'' Audited Live,
     CommandBinding ''soc.disposition'' Cruciblql ''soc_incident_disposition_v1'' ''operator:soc.respond'' Audited Live]"

definition settingsReads :: "Binding list" where
  "settingsReads = [
     ReadBinding ''settings.read'' Cruciblql ''settings_read_v1'' ''SettingsView'' Live,
     ReadBinding ''settings.reports'' Cruciblql ''settings_reports_v1'' ''SettingsReportsView'' Live,
     ReadBinding ''settings.modelAccess'' Cruciblql ''model_access_read_v1'' ''ModelAccessView'' Live,
     ReadBinding ''settings.approvals'' Cruciblql ''settings_approvals_v1'' ''PendingProposal'' Live,
     ReadBinding ''settings.history'' Cruciblql ''settings_history_v1'' ''SettingsHistoryView'' Live,
     ReadBinding ''soc.settings.read'' Cruciblql ''soc_settings_read_v1'' ''SocSettings'' Live,
     ReadBinding ''settings.consoleRbac'' Console ''console_rbac_config_v1'' ''ConsoleRbacView'' Live,
     ReadBinding ''settings.securitySession'' Console ''admin_session_lookup_v1'' ''AdminSessionKx'' Live]"

definition settingsCommands :: "Binding list" where
  "settingsCommands = [
     CommandBinding ''settings.commit'' Cruciblql ''settings_commit_v1'' ''operator:settings.change'' Audited Live,
     CommandBinding ''settings.propose'' Cruciblql ''settings_propose_v1'' ''operator:settings.change'' Audited Live,
     CommandBinding ''settings.approve'' Cruciblql ''settings_approve_v1'' ''operator:settings.change'' Audited Live,
     CommandBinding ''settings.rollback'' Cruciblql ''settings_rollback_v1'' ''operator:settings.change'' Audited Live,
     CommandBinding ''settings.modelAccessGrant'' Cruciblql ''agent_grant_set_v1'' ''operator:settings.change'' Audited Live,
     CommandBinding ''soc.settings.commit'' Cruciblql ''soc_settings_commit_v1'' ''operator:settings.change'' Audited Live]"

definition register :: "BindingManifest \<Rightarrow> Binding list \<Rightarrow> BindingManifest" where
  "register target entries = fold (\<lambda>entry m. map_set m (b_id entry) entry) entries target"

definition bindings :: BindingManifest where
  "bindings = foldl register [] [entityReads, entityCommands, logReads, logCommands, overviewReads,
     vtzReads, vtzCommands, usersReads, usersCommands, objectReads, objectCommands, policyReads,
     policyCommands, socReads, socCommands, settingsReads, settingsCommands]"

section \<open>The rules\<close>

record BindingViolation =
  v_bindingId :: string
  v_problem :: string

text \<open>\<open>/^(mock|fixture|stub):/i\<close>\<close>

definition mock_op :: "string \<Rightarrow> bool" where
  "mock_op op \<longleftrightarrow> list_ex (\<lambda>p. prefix p (map lower_char op)) [''mock:'', ''fixture:'', ''stub:'']"

definition violation :: "string \<Rightarrow> bool \<Rightarrow> string \<Rightarrow> BindingViolation list" where
  "violation key broken problem = (if broken then [\<lparr>v_bindingId = key, v_problem = problem\<rparr>] else [])"

definition binding_violations :: "string \<Rightarrow> Binding \<Rightarrow> BindingViolation list" where
  "binding_violations key b =
     violation key (b_id b \<noteq> key)
       (''manifest key '' @ [CHR 39] @ key @ [CHR 39] @ '' does not match binding id '' @ [CHR 39] @ b_id b @ [CHR 39]) @
     violation key (trim (b_op b) = []) ''binding has an empty op'' @
     violation key (mock_op (b_op b)) (''op '' @ [CHR 39] @ b_op b @ [CHR 39] @ '' names a mock/fixture provider'') @
     violation key (case b of CommandBinding _ _ _ _ (AuditGap gap) _ \<Rightarrow> trim gap = [] | _ \<Rightarrow> False)
       ''command binding must be audited, or name its tracked audit gap'' @
     violation key (case b_status b of Pending repo task \<Rightarrow> repo = [] \<or> task = [] | Live \<Rightarrow> False)
       ''PENDING binding must name its owning repo and gating task (INV-CROSS)''"

definition validateManifest :: "BindingManifest \<Rightarrow> BindingViolation list" where
  "validateManifest manifest = concat (map (\<lambda>(key, b). binding_violations key b) manifest)"

text \<open>\<open>None\<close> when the gate passes, the message of the error it throws otherwise.\<close>

definition release_problems :: "BindingManifest \<Rightarrow> string list" where
  "release_problems manifest =
     (let problems = map (\<lambda>v. v_bindingId v @ '': '' @ v_problem v) (validateManifest manifest);
          pending = map b_id (filter isPending (map snd manifest));
          unauditeds = map b_id (filter unaudited (map snd manifest))
      in problems
         @ (if pending \<noteq> [] then [''PENDING bindings must not ship in a release build: '' @ join '', '' pending] else [])
         @ (if unauditeds \<noteq> [] then [''unaudited commands must not ship in a release build: '' @ join '', '' unauditeds] else []))"

definition assertReleaseReady :: "BindingManifest \<Rightarrow> string option" where
  "assertReleaseReady manifest =
     (let problems = release_problems manifest; newline = char_of (10 :: nat)
      in if problems = [] then None
         else Some (''INV-CONSOLE-NO-STUB violated:'' @ [newline] @ ''  '' @ join ([newline] @ ''  '') problems))"

section \<open>The rules hold of the registry\<close>

definition binding_sound :: "string \<Rightarrow> Binding \<Rightarrow> bool" where
  "binding_sound key b \<longleftrightarrow>
     b_id b = key \<and> trim (b_op b) \<noteq> [] \<and> \<not> mock_op (b_op b) \<and>
     (case b of CommandBinding _ _ _ _ (AuditGap gap) _ \<Rightarrow> trim gap \<noteq> [] | _ \<Rightarrow> True) \<and>
     (case b_status b of Pending repo task \<Rightarrow> repo \<noteq> [] \<and> task \<noteq> [] | Live \<Rightarrow> True)"

lemma violation_Nil [simp]: "violation key broken problem = [] \<longleftrightarrow> \<not> broken"
  by (simp add: violation_def)

lemma binding_violations_Nil: "binding_violations key b = [] \<longleftrightarrow> binding_sound key b"
  by (auto simp: binding_violations_def binding_sound_def split: Binding.splits CommandAudit.splits BindingStatus.splits)

lemma validateManifest_Nil: "validateManifest m = [] \<longleftrightarrow> (\<forall>(key, b) \<in> set m. binding_sound key b)"
  by (auto simp: validateManifest_def binding_violations_Nil)

lemma filter_ids_Nil: "map b_id (filter P (map snd m)) = [] \<longleftrightarrow> (\<forall>(key, b) \<in> set m. \<not> P b)"
  by (auto simp: filter_empty_conv)

lemma release_problems_Nil:
  "release_problems m = [] \<longleftrightarrow>
     (\<forall>(key, b) \<in> set m. binding_sound key b \<and> \<not> isPending b \<and> \<not> unaudited b)"
  using validateManifest_Nil [of m] filter_ids_Nil [of isPending m] filter_ids_Nil [of unaudited m]
  by (auto simp: release_problems_def Let_def)

text \<open>
  The release gate throws for a manifest exactly when some binding breaks a structural
  rule, is pending, or is a command the engine does not audit.
\<close>
theorem release_gate:
  "assertReleaseReady m = None \<longleftrightarrow>
     (\<forall>(key, b) \<in> set m. binding_sound key b \<and> \<not> isPending b \<and> \<not> unaudited b)"
  by (simp add: assertReleaseReady_def Let_def release_problems_Nil)

text \<open>The registry as the code builds it.\<close>

definition all_bindings :: "Binding list" where
  "all_bindings = entityReads @ entityCommands @ logReads @ logCommands @ overviewReads @ vtzReads @ vtzCommands @
     usersReads @ usersCommands @ objectReads @ objectCommands @ policyReads @ policyCommands @ socReads @
     socCommands @ settingsReads @ settingsCommands"

lemma map_set_fresh: "k \<notin> fst ` set m \<Longrightarrow> map_set m k v = m @ [(k, v)]"
  by (induction m k v rule: map_set.induct) auto

lemma register_distinct:
  assumes "distinct (map fst m @ map b_id es)"
  shows "register m es = m @ map (\<lambda>b. (b_id b, b)) es"
  using assms unfolding register_def
proof (induction es arbitrary: m)
  case Nil
  then show ?case by simp
next
  case (Cons e es)
  then have "map_set m (b_id e) e = m @ [(b_id e, e)]" by (intro map_set_fresh) auto
  with Cons.IH [of "m @ [(b_id e, e)]"] Cons.prems show ?case by simp
qed

lemma register_append: "register (register m as) bs = register m (as @ bs)"
  by (simp add: register_def)

lemma ids_distinct: "distinct (map b_id all_bindings)"
  by code_simp

lemma bindings_eq: "bindings = map (\<lambda>b. (b_id b, b)) all_bindings"
proof -
  have "bindings = register [] all_bindings"
    by (simp add: bindings_def all_bindings_def register_append)
  with register_distinct [of "[]" all_bindings] ids_distinct show ?thesis by simp
qed

section \<open>The registry and the route table\<close>

text \<open>The live bindings of a kind, and the bindings the routes of a kind realize.\<close>

definition live_of :: "bool \<Rightarrow> string list" where
  "live_of reads = map b_id (filter (\<lambda>b. b_status b = Live \<and> is_ReadBinding b = reads) all_bindings)"

definition routed :: "bool \<Rightarrow> string list" where
  "routed reads = concat (map route_bindings (filter (\<lambda>route. (route_method route = GET) = reads) API_ROUTES))"

definition all_in :: "string list \<Rightarrow> string list \<Rightarrow> bool" where
  "all_in xs ys = list_all (\<lambda>x. x \<in> set ys) xs"

lemma routed_live: "all_in (routed reads) (live_of reads)"
proof (cases reads)
  case True
  have "all_in (routed True) (live_of True)" by code_simp
  with True show ?thesis by simp
next
  case False
  have "all_in (routed False) (live_of False)" by code_simp
  with False show ?thesis by simp
qed

lemma live_routed: "all_in (live_of reads) (routed reads)"
proof (cases reads)
  case True
  have "all_in (live_of True) (routed True)" by code_simp
  with True show ?thesis by simp
next
  case False
  have "all_in (live_of False) (routed False)" by code_simp
  with False show ?thesis by simp
qed

lemma map_get_binding: "b \<in> set all_bindings \<Longrightarrow> map_get bindings (b_id b) = Some b"
  unfolding map_get_def bindings_eq using ids_distinct
  by (intro map_of_is_SomeI) (auto simp: comp_def)

definition surely_sound :: "Binding \<Rightarrow> bool" where
  "surely_sound b \<longleftrightarrow> visible (b_op b) \<and> visible (rev (b_op b)) \<and> CHR '':'' \<notin> set (b_op b) \<and>
     (case b of CommandBinding _ _ _ _ (AuditGap gap) _ \<Rightarrow> visible gap \<and> visible (rev gap) | _ \<Rightarrow> True) \<and>
     (case b_status b of Pending repo task \<Rightarrow> repo \<noteq> [] \<and> task \<noteq> [] | Live \<Rightarrow> True)"

lemma lower_char_colon: "lower_char c = CHR '':'' \<Longrightarrow> c = CHR '':''"
proof (cases "65 \<le> (of_char c :: nat) \<and> (of_char c :: nat) \<le> 90")
  case True
  assume "lower_char c = CHR '':''"
  with True have "of_char (char_of (of_char c + 32 :: nat) :: char) = (58 :: nat)" by (simp add: lower_char_def)
  with True show ?thesis by simp
qed (auto simp: lower_char_def)

lemma not_mock: "CHR '':'' \<notin> set s \<Longrightarrow> \<not> mock_op s"
proof
  assume no: "CHR '':'' \<notin> set s" and "mock_op s"
  then obtain p where "p \<in> set [''mock:'', ''fixture:'', ''stub:'']" and "prefix p (map lower_char s)"
    by (auto simp: mock_op_def)
  then have "CHR '':'' \<in> set (map lower_char s)" by (auto simp: prefix_def)
  with no show False by (auto dest!: lower_char_colon [OF sym])
qed

lemma surely_sound: "surely_sound b \<Longrightarrow> binding_sound (b_id b) b"
  by (auto simp: surely_sound_def binding_sound_def not_mock visible_trim visible_def
      split: Binding.splits CommandAudit.splits BindingStatus.splits list.splits)

lemma registry_surely_sound: "list_all surely_sound all_bindings"
  by code_simp

lemma routes_bind: "list_all (\<lambda>route. route_bindings route \<noteq> []) API_ROUTES"
  by code_simp

text \<open>
  C32.  The binding registry and the route table are one index of the operations of the
  console: every registered binding obeys the structural rules; every declared route realizes at least one
  binding, all of them registered, live, and of its kind (reads for \<open>GET\<close>, commands for the
  other methods); and every live binding is served by a declared route.
\<close>
theorem routes_realize_bindings:
  "validateManifest bindings = [] \<and>
   (\<forall>route \<in> set API_ROUTES. route_bindings route \<noteq> [] \<and>
      (\<forall>i \<in> set (route_bindings route). \<exists>b. map_get bindings i = Some b \<and> b_status b = Live \<and>
         (is_ReadBinding b \<longleftrightarrow> route_method route = GET))) \<and>
   (\<forall>(i, b) \<in> set bindings. b_status b = Live \<longrightarrow> (\<exists>route \<in> set API_ROUTES. i \<in> set (route_bindings route)))"
proof (intro conjI ballI)
  show "validateManifest bindings = []"
    using registry_surely_sound surely_sound by (auto simp: validateManifest_Nil list_all_iff bindings_eq)
next
  fix route assume "route \<in> set API_ROUTES"
  then show "route_bindings route \<noteq> []"
    using routes_bind by (simp add: list_all_iff)
next
  fix route i assume "route \<in> set API_ROUTES" and "i \<in> set (route_bindings route)"
  then have "i \<in> set (live_of (route_method route = GET))"
    using routed_live [of "route_method route = GET"] by (auto simp: routed_def all_in_def list_all_iff)
  then show "\<exists>b. map_get bindings i = Some b \<and> b_status b = Live \<and> (is_ReadBinding b \<longleftrightarrow> route_method route = GET)"
    using map_get_binding by (auto simp: live_of_def)
next
  fix x assume "x \<in> set bindings"
  then obtain b where "x = (b_id b, b)" and "b \<in> set all_bindings" by (auto simp: bindings_eq)
  with live_routed [of "is_ReadBinding b"]
  show "case x of (i, b) \<Rightarrow> b_status b = Live \<longrightarrow> (\<exists>route\<in>set API_ROUTES. i \<in> set (route_bindings route))"
    by (auto simp: live_of_def routed_def all_in_def list_all_iff)
qed

theorem routes_realize_bindings_witness:
  "r POST ''/api/idam/secret'' [''idam.secret''] \<in> set API_ROUTES \<and>
   (\<exists>b. map_get bindings ''idam.secret'' = Some b \<and> b_status b = Live \<and> \<not> is_ReadBinding b)"
proof -
  have route: "r POST ''/api/idam/secret'' [''idam.secret''] \<in> set API_ROUTES"
    by (simp add: API_ROUTES_def)
  from routes_realize_bindings [THEN conjunct2, THEN conjunct1, THEN bspec, OF route]
  have "\<exists>b. map_get bindings ''idam.secret'' = Some b \<and> b_status b = Live \<and> \<not> is_ReadBinding b"
    by (simp add: r_def)
  with route show ?thesis ..
qed

text \<open>Today the registry does not pass the release gate: it has pending bindings.\<close>

theorem registry_not_released: "assertReleaseReady bindings \<noteq> None"
proof
  assume "assertReleaseReady bindings = None"
  then have "\<forall>(key, b) \<in> set bindings. \<not> isPending b"
    by (auto simp: assertReleaseReady_def Let_def release_problems_Nil split: if_splits)
  moreover have "list_ex isPending all_bindings" by code_simp
  ultimately show False by (auto simp: bindings_eq list_ex_iff)
qed

end
