(* ===== verification/Resolvers.thy ===== *)
theory Resolvers
  imports Requests WireDto
begin

text \<open>
  What the resolvers of \<open>apps/bff/src/engine\<close> share.  A resolver takes the state of its module and
  gives the outcome of its promise (\<open>None\<close> when it never settles) with the new state.  The state
  holds the module's request counter, what was asked of the engine and by whom, and the world
  behind the engine, of which nothing is assumed: a verb of the engine is any function of the
  caller, the request and that world.  The laws below say what every resolver keeps to.
\<close>

section \<open>Effects\<close>

record 'w backend =
  bk_ids :: int
  bk_sent :: "(OperatorPrincipal \<times> WireRequest) list"
  bk_world :: 'w

type_synonym ('w, 'a) resolver = "'w backend \<Rightarrow> (thrown + 'a) option \<times> 'w backend"
type_synonym ('w, 'q, 'a) verb = "OperatorPrincipal \<Rightarrow> 'q \<Rightarrow> 'w \<Rightarrow> (thrown + 'a) option \<times> 'w"

definition give :: "'a \<Rightarrow> ('w, 'a) resolver" where
  "give x b = (Some (Inr x), b)"

definition throw :: "thrown \<Rightarrow> ('w, 'a) resolver" where
  "throw e b = (Some (Inl e), b)"

definition and_then :: "('w, 'a) resolver \<Rightarrow> ('a \<Rightarrow> ('w, 'b) resolver) \<Rightarrow> ('w, 'b) resolver" where
  "and_then m k b = (case m b of
       (None, b') \<Rightarrow> (None, b')
     | (Some (Inl e), b') \<Rightarrow> (Some (Inl e), b')
     | (Some (Inr x), b') \<Rightarrow> k x b')"

text \<open>\<open>await engine.verb(principal, request, opts)\<close>; \<open>form\<close> is the variant the request travels in.\<close>

definition ask :: "('w, 'q, 'a) verb \<Rightarrow> ('q \<Rightarrow> WireRequest) \<Rightarrow> OperatorPrincipal \<Rightarrow> 'q \<Rightarrow> ('w, 'a) resolver" where
  "ask verb form who request b = (case verb who request (bk_world b) of
     (res, w) \<Rightarrow> (res, b\<lparr>bk_sent := bk_sent b @ [(who, form request)], bk_world := w\<rparr>))"

text \<open>\<open>if (view === null) throw e; return view;\<close>\<close>

definition or_throw :: "thrown \<Rightarrow> 'a option \<Rightarrow> ('w, 'a) resolver" where
  "or_throw e v = (case v of None \<Rightarrow> throw e | Some x \<Rightarrow> give x)"

text \<open>\<open>if (wire.refused) return null; const v = project(wire); if (v === null) throw ...; return v;\<close>\<close>

definition unless_refused :: "thrown \<Rightarrow> ('a \<Rightarrow> bool) \<Rightarrow> ('a \<Rightarrow> 'b option) \<Rightarrow> 'a \<Rightarrow> ('w, 'b option) resolver" where
  "unless_refused e refused project w =
     (if refused w then give None
      else and_then (or_throw e (project w)) (\<lambda>v. give (Some v)))"

definition shown_as :: "('a \<Rightarrow> 'b) \<Rightarrow> ('w, 'a) resolver \<Rightarrow> ('w, 'b) resolver" where
  "shown_as f m = and_then m (\<lambda>x. give (f x))"

text \<open>\<open>nextRequestId += 1n; return Number(nextRequestId % 1_000_000_000n)\<close>.\<close>

definition requestId :: "('w, jsnum) resolver" where
  "requestId b = (Some (Inr (NInt ((bk_ids b + 1) mod 1000000000))), b\<lparr>bk_ids := bk_ids b + 1\<rparr>)"

text \<open>
  \<open>Promise.all([m, n])\<close>, both started: their values, or a rejection as soon as one rejects; when
  both do, \<open>first\<close> says whose came first.
\<close>

fun settle_all :: "bool \<Rightarrow> (thrown + 'a) option \<Rightarrow> (thrown + 'b) option \<Rightarrow> (thrown + 'a \<times> 'b) option" where
  "settle_all first (Some (Inr x)) (Some (Inr y)) = Some (Inr (x, y))"
| "settle_all first (Some (Inl e)) (Some (Inl e')) = Some (Inl (if first then e else e'))"
| "settle_all first (Some (Inl e)) _ = Some (Inl e)"
| "settle_all first _ (Some (Inl e)) = Some (Inl e)"
| "settle_all first _ _ = None"

definition promise_all :: "bool \<Rightarrow> ('w, 'a) resolver \<Rightarrow> ('w, 'b) resolver \<Rightarrow> ('w, 'a \<times> 'b) resolver" where
  "promise_all first m n b = (case m b of (res, b') \<Rightarrow> case n b' of (res', b'') \<Rightarrow> (settle_all first res res', b''))"

section \<open>Laws\<close>

text \<open>\<open>speaks who bound m\<close>: what \<open>m\<close> asks, it asks for \<open>who\<close>, with at most \<open>bound\<close> requests.\<close>

definition asked :: "('w, 'a) resolver \<Rightarrow> 'w backend \<Rightarrow> (OperatorPrincipal \<times> WireRequest) list" where
  "asked m b = drop (length (bk_sent b)) (bk_sent (snd (m b)))"

definition speaks :: "OperatorPrincipal \<Rightarrow> nat \<Rightarrow> ('w, 'a) resolver \<Rightarrow> bool" where
  "speaks who bound m \<longleftrightarrow> (\<forall>b. \<exists>new. bk_sent (snd (m b)) = bk_sent b @ new \<and> length new \<le> bound \<and>
     list_all (\<lambda>(p, _). p = who) new)"

named_theorems speak_intros

lemma speaks_asked: "speaks who bound m \<Longrightarrow> length (asked m b) \<le> bound \<and> list_all (\<lambda>(p, _). p = who) (asked m b)"
  unfolding speaks_def asked_def by (metis append_eq_conv_conj)

lemma speaks_pure [speak_intros]: "speaks who 0 (give x)" "speaks who 0 (throw e)" "speaks who 0 requestId"
    "speaks who 0 (or_throw e v)"
  by (auto simp: speaks_def give_def throw_def requestId_def or_throw_def split: option.split)

lemma speaks_ask [speak_intros]: "speaks who 1 (ask verb form who request)"
  by (auto simp: speaks_def ask_def split: prod.splits)

lemma speaks_and_then [speak_intros]:
  assumes "speaks who i m" and "\<And>x. speaks who j (k x)"
  shows "speaks who (i + j) (and_then m k)"
  unfolding speaks_def
proof
  fix b
  obtain res b' where m: "m b = (res, b')" by fastforce
  from assms(1) m obtain new where new: "bk_sent b' = bk_sent b @ new" "length new \<le> i" "list_all (\<lambda>(p, _). p = who) new"
    unfolding speaks_def by (metis snd_conv)
  show "\<exists>new. bk_sent (snd (and_then m k b)) = bk_sent b @ new \<and> length new \<le> i + j \<and> list_all (\<lambda>(p, _). p = who) new"
  proof (cases "\<exists>x. res = Some (Inr x)")
    case True
    then obtain x where r: "res = Some (Inr x)" by blast
    from assms(2) obtain more where "bk_sent (snd (k x b')) = bk_sent b' @ more" "length more \<le> j"
        "list_all (\<lambda>(p, _). p = who) more"
      unfolding speaks_def by blast
    then show ?thesis using m r new by (intro exI [of _ "new @ more"]) (simp add: and_then_def)
  next
    case False
    then have "snd (and_then m k b) = b'" using m by (auto simp: and_then_def split: option.split sum.split)
    then show ?thesis using new by (intro exI [of _ new]) simp
  qed
qed

lemma speaks_promise_all [speak_intros]:
  assumes "speaks who i m" and "speaks who j n"
  shows "speaks who (i + j) (promise_all first m n)"
  unfolding speaks_def
proof
  fix b
  obtain res b' where m: "m b = (res, b')" by fastforce
  obtain res' b'' where n: "n b' = (res', b'')" by fastforce
  from assms(1) m obtain new where new: "bk_sent b' = bk_sent b @ new" "length new \<le> i" "list_all (\<lambda>(p, _). p = who) new"
    unfolding speaks_def by (metis snd_conv)
  from assms(2) n obtain later where "bk_sent b'' = bk_sent b' @ later" "length later \<le> j"
      "list_all (\<lambda>(p, _). p = who) later"
    unfolding speaks_def by (metis snd_conv)
  then show "\<exists>new. bk_sent (snd (promise_all first m n b)) = bk_sent b @ new \<and> length new \<le> i + j \<and> list_all (\<lambda>(p, _). p = who) new"
    using m n new by (intro exI [of _ "new @ later"]) (simp add: promise_all_def)
qed

lemma speaks_mono: "speaks who i m \<Longrightarrow> i \<le> j \<Longrightarrow> speaks who j m"
  unfolding speaks_def by (meson order_trans)

lemma speaks_bind:
  "speaks who i m \<Longrightarrow> (\<And>x. speaks who j (k x)) \<Longrightarrow> i + j \<le> n \<Longrightarrow> speaks who n (and_then m k)"
  by (rule speaks_mono [OF speaks_and_then])

lemma speaks_shown [speak_intros]: "speaks who i m \<Longrightarrow> speaks who i (shown_as f m)"
  unfolding shown_as_def by (rule speaks_bind [OF _ speaks_pure(1)]) auto

text \<open>A resolver of one request, seen through its result.\<close>

lemma asked_shows: "asked (shown_as f m) b = asked m b"
  by (auto simp: asked_def shown_as_def and_then_def give_def split: prod.splits option.splits sum.splits)

lemma asked_one:
  assumes "\<And>w b. bk_sent (snd (k w b)) = bk_sent b"
  shows "asked (and_then requestId (\<lambda>i. and_then (ask verb form who (request i)) k)) b =
    [(who, form (request (NInt ((bk_ids b + 1) mod 1000000000))))]"
  using assms by (auto simp: asked_def and_then_def requestId_def ask_def split: prod.splits option.splits sum.splits)

lemma silent [simp]: "bk_sent (snd (give x b)) = bk_sent b" "bk_sent (snd (throw e b)) = bk_sent b"
    "bk_sent (snd (or_throw e v b)) = bk_sent b" "bk_sent (snd (unless_refused e refused project w b)) = bk_sent b"
  by (auto simp: give_def throw_def or_throw_def unless_refused_def and_then_def split: option.split)

lemma speaks_one:
  "(\<And>w. speaks who 0 (k w)) \<Longrightarrow> 1 \<le> n \<Longrightarrow>
   speaks who n (and_then requestId (\<lambda>i. and_then (ask verb form who (request i)) k))"
  by (rule speaks_bind [OF speaks_pure(3), where j = 1], rule speaks_bind [OF speaks_ask]) simp_all

lemma speaks_unless_refused: "speaks who 0 (unless_refused e refused project w)"
  unfolding unless_refused_def by (auto intro: speaks_pure speaks_bind [OF speaks_pure(4) speaks_pure(1)])

text \<open>A list is projected whole, entry by entry, or not at all.\<close>

lemma traverse_list_all2: "traverse f ws = Some ss \<longleftrightarrow> list_all2 (\<lambda>w s. f w = Some s) ws ss"
proof -
  have "map f ws = map Some ss \<longleftrightarrow> list_all2 (=) (map f ws) (map Some ss)" by (simp add: list.rel_eq)
  then show ?thesis by (simp add: traverse_Some list.rel_map)
qed

lemma traverse_shown:
  assumes "\<And>w v. f w = Some v \<longleftrightarrow> shown w v"
  shows "traverse f ws = Some vs \<longleftrightarrow> list_all2 shown ws vs"
  by (simp add: traverse_list_all2 assms)

section \<open>Honest reads\<close>

text \<open>
  The outcome of a read that the engine may refuse: missing exactly when the engine refused,
  shown exactly when the console knows every tag in it, and otherwise unavailable; the engine's own
  error, or its silence, is passed on.
\<close>

definition honest_read ::
    "thrown \<Rightarrow> ('w, 'q, 'a) verb \<Rightarrow> OperatorPrincipal \<Rightarrow> (jsnum \<Rightarrow> 'q) \<Rightarrow> ('a \<Rightarrow> bool) \<Rightarrow> ('a \<Rightarrow> 'b option) \<Rightarrow> ('w, 'b option) resolver \<Rightarrow> bool" where
  "honest_read e verb who request refused project resolver \<longleftrightarrow> (\<forall>b.
     fst (resolver b) = (case fst (verb who (request (NInt ((bk_ids b + 1) mod 1000000000))) (bk_world b)) of
        None \<Rightarrow> None
      | Some (Inl e') \<Rightarrow> Some (Inl e')
      | Some (Inr d) \<Rightarrow> Some (if refused d then Inr None
          else case project d of None \<Rightarrow> Inl e | Some v \<Rightarrow> Inr (Some v))))"

locale refusable_read =
  fixes e :: thrown
    and verb :: "('w, 'q, 'a) verb"
    and form :: "'q \<Rightarrow> WireRequest"
    and who :: OperatorPrincipal
    and request :: "jsnum \<Rightarrow> 'q"
    and refused :: "'a \<Rightarrow> bool"
    and project :: "'a \<Rightarrow> 'b option"
    and resolver :: "('w, 'b option) resolver"
  assumes shape: "resolver = and_then requestId (\<lambda>i. and_then (ask verb form who (request i)) (unless_refused e refused project))"
begin

lemma honest: "honest_read e verb who request refused project resolver"
  by (auto simp: honest_read_def shape and_then_def requestId_def ask_def unless_refused_def give_def throw_def or_throw_def
      split: prod.splits option.splits sum.splits)

lemma asks_for_caller: "asked resolver b = [(who, form (request (NInt ((bk_ids b + 1) mod 1000000000))))]"
  unfolding shape by (rule asked_one) simp

end

end
