(* ===== verification/Catalog.thy ===== *)
theory Catalog
  imports Resolvers Server Forge
begin

text \<open>
  The resolvers of the governance surfaces: \<open>apps/bff/src/engine/objects.ts\<close>, \<open>policies.ts\<close> and
  \<open>vtz.ts\<close>.  What they show is the engine's whole answer or a refusal to show it, and what the
  browser is told of a zone command is what the engine said.
\<close>

section \<open>The engine as these resolvers see it\<close>

record 'w catalog_engine =
  eng_objectList :: "('w, WireObjectList, WireObjectCatalog) verb"
  eng_objectDetail :: "('w, WireObjectDetailQuery, WireObjectDetail) verb"
  eng_objectCreate :: "('w, WireObjectCreate, WireObjectMutated) verb"
  eng_objectEdit :: "('w, WireObjectEdit, WireObjectMutated) verb"
  eng_objectDelete :: "('w, WireObjectDelete, WireObjectMutated) verb"
  eng_policyListByZone :: "('w, WirePolicyListQuery, WirePolicyList) verb"
  eng_policyDetail :: "('w, WirePolicyDetailQuery, WirePolicyDetail) verb"
  eng_policyCreate :: "('w, WirePolicyCreate, WirePolicyMutated) verb"
  eng_policyEdit :: "('w, WirePolicyEdit, WirePolicyMutated) verb"
  eng_policyPublish :: "('w, WirePolicyPublish, WirePolicyMutated) verb"
  eng_policyDelete :: "('w, WirePolicyDelete, WirePolicyMutated) verb"

record 'w zone_engine =
  eng_vtzTree :: "('w, WireVtzTreeQuery, WireVtzTree) verb"
  eng_vtzDetail :: "('w, WireVtzDetailQuery, WireVtzDetail) verb"
  eng_bundleConvergence :: "('w, WireBundleConvergenceQuery, WireBundleConvergence) verb"
  eng_vtzCreate :: "('w, WireVtzCreate, WireVtzMutation) verb"
  eng_vtzEdit :: "('w, WireVtzEdit, WireVtzMutation) verb"
  eng_vtzRescope :: "('w, WireVtzRescope, WireVtzMutation) verb"
  eng_vtzDelete :: "('w, WireVtzDelete, WireVtzMutation) verb"

section \<open>Objects\<close>

definition resolveObjectCatalog :: "'w catalog_engine \<Rightarrow> OperatorPrincipal \<Rightarrow> ('w, ObjectCard list) resolver" where
  "resolveObjectCatalog engine who = and_then requestId (\<lambda>i.
     and_then (ask (eng_objectList engine) (\<lambda>q. Directory (ReqObjectList q)) who \<lparr>request_id = i, operator = None\<rparr>)
       (\<lambda>catalog. or_throw ObjectsUnavailable (toObjectCatalog catalog)))"

definition resolveCreateObject :: "'w catalog_engine \<Rightarrow> OperatorPrincipal \<Rightarrow> ObjectDraft \<Rightarrow> ('w, ObjectMutation) resolver" where
  "resolveCreateObject engine who draft = and_then requestId (\<lambda>i.
     and_then (ask (eng_objectCreate engine) (\<lambda>q. Directory (ReqObjectCreate q)) who
         \<lparr>request_id = i, operator = None, rq_spec = toWireObjectSpec draft\<rparr>)
       (\<lambda>reply. give (toObjectMutation reply)))"

definition resolveEditObject :: "'w catalog_engine \<Rightarrow> OperatorPrincipal \<Rightarrow> ObjectDraft \<Rightarrow> ('w, ObjectMutation) resolver" where
  "resolveEditObject engine who draft = and_then requestId (\<lambda>i.
     and_then (ask (eng_objectEdit engine) (\<lambda>q. Directory (ReqObjectEdit q)) who
         \<lparr>request_id = i, operator = None, rq_spec = toWireObjectSpec draft\<rparr>)
       (\<lambda>reply. give (toObjectMutation reply)))"

definition resolveDeleteObject :: "'w catalog_engine \<Rightarrow> OperatorPrincipal \<Rightarrow> string \<Rightarrow> ('w, ObjectMutation) resolver" where
  "resolveDeleteObject engine who object_name = and_then requestId (\<lambda>i.
     and_then (ask (eng_objectDelete engine) (\<lambda>q. Directory (ReqObjectDelete q)) who
         \<lparr>request_id = i, operator = None, rq_name = object_name\<rparr>)
       (\<lambda>reply. give (toObjectMutation reply)))"

definition resolveObjectDetail :: "'w catalog_engine \<Rightarrow> OperatorPrincipal \<Rightarrow> string \<Rightarrow> ('w, ObjectDetailView) resolver" where
  "resolveObjectDetail engine who object_name = and_then requestId (\<lambda>i.
     and_then (ask (eng_objectDetail engine) (\<lambda>q. Directory (ReqObjectDetail q)) who
         \<lparr>request_id = i, operator = None, rq_name = object_name\<rparr>)
       (\<lambda>detail. or_throw ObjectsUnavailable (toObjectDetail detail)))"

section \<open>Policies\<close>

definition resolvePolicyZones :: "'w catalog_engine \<Rightarrow> OperatorPrincipal \<Rightarrow> ('w, PolicyZoneGroup list) resolver" where
  "resolvePolicyZones engine who = and_then requestId (\<lambda>i.
     and_then (ask (eng_policyListByZone engine) (\<lambda>q. Zone (ReqPolicyListByZone q)) who \<lparr>request_id = i, operator = None\<rparr>)
       (\<lambda>ps. or_throw PoliciesUnavailable (toPolicyZones ps)))"

definition resolvePolicyDetail :: "'w catalog_engine \<Rightarrow> OperatorPrincipal \<Rightarrow> string \<Rightarrow> string \<Rightarrow> ('w, PolicyDetailView) resolver" where
  "resolvePolicyDetail engine who vtz policy = and_then requestId (\<lambda>i.
     and_then (ask (eng_policyDetail engine) (\<lambda>q. Zone (ReqPolicyDetail q)) who
         \<lparr>request_id = i, operator = None, pq_vtz = vtz, pq_id = policy\<rparr>)
       (\<lambda>detail. or_throw PoliciesUnavailable (toPolicyDetail detail)))"

definition mutation :: "WirePolicyMutated \<Rightarrow> ('w, PolicyMutation) resolver" where
  "mutation reply = or_throw PoliciesUnavailable (toPolicyMutation reply)"

definition resolveCreatePolicy :: "'w catalog_engine \<Rightarrow> OperatorPrincipal \<Rightarrow> PolicyDraft \<Rightarrow> ('w, PolicyMutation) resolver" where
  "resolveCreatePolicy engine who draft = and_then requestId (\<lambda>i.
     and_then (ask (eng_policyCreate engine) (\<lambda>q. Zone (ReqPolicyCreate q)) who
         \<lparr>request_id = i, operator = None, rq_spec = toWirePolicySpec draft\<rparr>)
       mutation)"

definition resolveEditPolicy :: "'w catalog_engine \<Rightarrow> OperatorPrincipal \<Rightarrow> string \<Rightarrow> PolicyDraft \<Rightarrow> ('w, PolicyMutation) resolver" where
  "resolveEditPolicy engine who policy draft = and_then requestId (\<lambda>i.
     and_then (ask (eng_policyEdit engine) (\<lambda>q. Zone (ReqPolicyEdit q)) who
         \<lparr>request_id = i, operator = None, rq_spec = toWirePolicySpec draft, pe_id = policy\<rparr>)
       mutation)"

definition resolvePublishPolicy ::
    "'w catalog_engine \<Rightarrow> OperatorPrincipal \<Rightarrow> string \<Rightarrow> string \<Rightarrow> string \<Rightarrow> ('w, PolicyMutation) resolver" where
  "resolvePublishPolicy engine who vtz policy version = and_then requestId (\<lambda>i.
     and_then (ask (eng_policyPublish engine) (\<lambda>q. Zone (ReqPolicyPublish q)) who
         \<lparr>request_id = i, operator = None, pq_vtz = vtz, pq_id = policy, pq_version = version\<rparr>)
       mutation)"

definition resolveDeletePolicy :: "'w catalog_engine \<Rightarrow> OperatorPrincipal \<Rightarrow> string \<Rightarrow> string \<Rightarrow> ('w, PolicyDeleted) resolver" where
  "resolveDeletePolicy engine who vtz policy = and_then requestId (\<lambda>i.
     and_then (ask (eng_policyDelete engine) (\<lambda>q. Zone (ReqPolicyDelete q)) who
         \<lparr>request_id = i, operator = None, pq_vtz = vtz, pq_id = policy\<rparr>)
       (\<lambda>reply. or_throw PoliciesUnavailable (toPolicyDeleted reply)))"

section \<open>Zones\<close>

text \<open>These resolvers number every request 0.\<close>

definition resolveVtzTree :: "'w zone_engine \<Rightarrow> OperatorPrincipal \<Rightarrow> jsnum \<Rightarrow> ('w, VtzTree) resolver" where
  "resolveVtzTree engine who limit =
     and_then (ask (eng_vtzTree engine) (\<lambda>q. Zone (ReqVtzTree q)) who
         \<lparr>request_id = NInt 0, operator = None, vt_limit = math_min (math_max (NInt 1) limit) MAX_VTZ_TREE_LIMIT\<rparr>)
       (\<lambda>reply. or_throw VtzUnavailable (toVtzTree reply))"

definition resolveVtzDetail :: "'w zone_engine \<Rightarrow> OperatorPrincipal \<Rightarrow> string \<Rightarrow> ('w, VtzDetailView) resolver" where
  "resolveVtzDetail engine who zone =
     and_then (ask (eng_vtzDetail engine) (\<lambda>q. Zone (ReqVtzDetail q)) who
         \<lparr>request_id = NInt 0, operator = None, vr_vtz_id = zone\<rparr>)
       (\<lambda>reply. or_throw VtzUnavailable (toVtzDetail reply))"

definition resolveBundleConvergence :: "'w zone_engine \<Rightarrow> OperatorPrincipal \<Rightarrow> string \<Rightarrow> ('w, BundleConvergenceView) resolver" where
  "resolveBundleConvergence engine who zone =
     and_then (ask (eng_bundleConvergence engine) (\<lambda>q. Zone (ReqBundleConvergence q)) who
         \<lparr>bq_request_id = NInt 0, bq_vtz_id = zone\<rparr>)
       (\<lambda>reply. or_throw VtzUnavailable (toBundleConvergence reply))"

definition classifyVtzRefusal :: "thrown \<Rightarrow> string option" where
  "classifyVtzRefusal e = (case e of
       EngineRefused cls \<Rightarrow> if cls = ''Conflict'' then Some ''conflict'' else if cls = ''Denied'' then Some ''denied'' else None
     | _ \<Rightarrow> None)"

definition on_reject :: "(thrown \<Rightarrow> thrown) \<Rightarrow> ('w, 'a) resolver \<Rightarrow> ('w, 'a) resolver" where
  "on_reject f m b = (case m b of (Some (Inl e), b') \<Rightarrow> (Some (Inl (f e)), b') | other \<Rightarrow> other)"

definition commit_zone :: "('w, WireVtzMutation) resolver \<Rightarrow> ('w, VtzMutationResult) resolver" where
  "commit_zone run =
     and_then (on_reject (\<lambda>e. case classifyVtzRefusal e of Some kind \<Rightarrow> VtzMutationRefused kind | None \<Rightarrow> e) run)
       (\<lambda>reply. or_throw VtzUnavailable (toVtzMutation reply))"

definition resolveVtzCreate :: "'w zone_engine \<Rightarrow> OperatorPrincipal \<Rightarrow> VtzSpecInput \<Rightarrow> ('w, VtzMutationResult) resolver" where
  "resolveVtzCreate engine who spec = commit_zone (ask (eng_vtzCreate engine) (\<lambda>q. Zone (ReqVtzCreate q)) who
     \<lparr>request_id = NInt 0, operator = None, rq_spec = toWireVtzSpec spec\<rparr>)"

definition resolveVtzEdit :: "'w zone_engine \<Rightarrow> OperatorPrincipal \<Rightarrow> VtzSpecInput \<Rightarrow> ('w, VtzMutationResult) resolver" where
  "resolveVtzEdit engine who spec = commit_zone (ask (eng_vtzEdit engine) (\<lambda>q. Zone (ReqVtzEdit q)) who
     \<lparr>request_id = NInt 0, operator = None, rq_spec = toWireVtzSpec spec\<rparr>)"

definition resolveVtzRescope :: "'w zone_engine \<Rightarrow> OperatorPrincipal \<Rightarrow> string \<Rightarrow> string \<Rightarrow> ('w, VtzMutationResult) resolver" where
  "resolveVtzRescope engine who zone newName = commit_zone (ask (eng_vtzRescope engine) (\<lambda>q. Zone (ReqVtzRescope q)) who
     \<lparr>request_id = NInt 0, operator = None, vr_vtz_id = zone, vr_new_name = newName\<rparr>)"

definition resolveVtzDelete :: "'w zone_engine \<Rightarrow> OperatorPrincipal \<Rightarrow> string \<Rightarrow> ('w, VtzMutationResult) resolver" where
  "resolveVtzDelete engine who zone = commit_zone (ask (eng_vtzDelete engine) (\<lambda>q. Zone (ReqVtzDelete q)) who
     \<lparr>request_id = NInt 0, operator = None, vr_vtz_id = zone\<rparr>)"

text \<open>The dispatch of a parsed command (\<open>handleVtzCommand\<close>).\<close>

fun run_vtz_command :: "'w zone_engine \<Rightarrow> OperatorPrincipal \<Rightarrow> VtzCommand \<Rightarrow> ('w, VtzMutationResult) resolver" where
  "run_vtz_command engine who (CreateZone spec) = resolveVtzCreate engine who spec"
| "run_vtz_command engine who (EditZone spec) = resolveVtzEdit engine who spec"
| "run_vtz_command engine who (RescopeZone zone newName) = resolveVtzRescope engine who zone newName"
| "run_vtz_command engine who (DeleteZone zone) = resolveVtzDelete engine who zone"

lemmas catalog_resolvers =
  resolveObjectCatalog_def resolveCreateObject_def resolveEditObject_def resolveDeleteObject_def resolveObjectDetail_def
  resolvePolicyZones_def resolvePolicyDetail_def resolveCreatePolicy_def resolveEditPolicy_def resolvePublishPolicy_def
  resolveDeletePolicy_def mutation_def

lemmas zone_commands = resolveVtzCreate_def resolveVtzEdit_def resolveVtzRescope_def resolveVtzDelete_def

section \<open>Reads that are whole or refused\<close>

text \<open>
  What a projected read settles to: nothing while the engine is silent, the engine's own error, or
  for an answer all of it when it can be shown and the error \<open>e\<close> when it cannot.
\<close>

definition whole_read :: "thrown \<Rightarrow> ('a \<Rightarrow> bool) \<Rightarrow> ('a \<Rightarrow> 'v \<Rightarrow> bool) \<Rightarrow> (thrown + 'a) option \<Rightarrow> (thrown + 'v) option \<Rightarrow> bool" where
  "whole_read e known shown answered outcome \<longleftrightarrow> (case answered of
       None \<Rightarrow> outcome = None
     | Some (Inl e') \<Rightarrow> outcome = Some (Inl e')
     | Some (Inr w) \<Rightarrow> if known w then \<exists>v. outcome = Some (Inr v) \<and> shown w v else outcome = Some (Inl e))"

text \<open>
  The contract of a surface that shows an answer or refuses it: its projection fails exactly on
  the answers with an unknown tag, and otherwise shows the answer.
\<close>

locale whole_surface =
  fixes e :: thrown
    and verb :: "('w, 'q, 'a) verb"
    and form :: "'q \<Rightarrow> WireRequest"
    and who :: OperatorPrincipal
    and request :: "'w backend \<Rightarrow> 'q"
    and project :: "'a \<Rightarrow> 'v option"
    and known :: "'a \<Rightarrow> bool"
    and shown :: "'a \<Rightarrow> 'v \<Rightarrow> bool"
    and resolver :: "('w, 'v) resolver"
  assumes runs: "\<exists>b'. bk_world b' = bk_world b \<and> bk_sent b' = bk_sent b \<and>
      resolver b = and_then (ask verb form who (request b)) (\<lambda>w. or_throw e (project w)) b'"
    and refuses: "project w = None \<longleftrightarrow> \<not> known w"
    and shows_whole: "project w = Some v \<Longrightarrow> shown w v"
begin

lemma whole: "whole_read e known shown (fst (verb who (request b) (bk_world b))) (fst (resolver b))"
proof -
  have "if known w then \<exists>v. project w = Some v \<and> shown w v else project w = None" for w
    using refuses [of w] shows_whole [of w] by auto
  then show ?thesis using runs [of b]
    by (auto simp: whole_read_def and_then_def ask_def or_throw_def give_def throw_def split: prod.splits option.splits sum.splits)
      (metis option.distinct(1) option.inject)+
qed

lemma asks_once: "asked resolver b = [(who, form (request b))]"
  using runs [of b] by (auto simp: asked_def and_then_def ask_def or_throw_def give_def throw_def
      split: prod.splits option.splits sum.splits)

end

text \<open>The number of the next request of a module that counts its requests.\<close>

definition fresh :: "'w backend \<Rightarrow> jsnum" where
  "fresh b = NInt ((bk_ids b + 1) mod 1000000000)"

lemma numbered_read:
  "\<exists>b'. bk_world b' = bk_world b \<and> bk_sent b' = bk_sent b \<and>
     and_then requestId (\<lambda>i. and_then (ask verb form who (request i)) (\<lambda>w. or_throw e (project w))) b =
     and_then (ask verb form who (request (fresh b))) (\<lambda>w. or_throw e (project w)) b'"
  by (intro exI [of _ "b\<lparr>bk_ids := bk_ids b + 1\<rparr>"]) (simp add: and_then_def [of requestId] requestId_def fresh_def)

definition object_known :: "WireObjectRecord \<Rightarrow> bool" where
  "object_known w \<longleftrightarrow> or_kind w \<in> range object_kind_tag \<and> or_selector_kind w \<in> range selector_kind_tag \<and>
     or_lifecycle w \<in> range lifecycle_tag"

lemma catalog_projection:
  "toObjectCatalog c = None \<longleftrightarrow> \<not> list_all object_known (cat_objects c)"
  "toObjectCatalog c = Some cards \<Longrightarrow> cat_objects c = map record_of_card cards"
proof -
  have "toObjectCard w = None \<longleftrightarrow> \<not> object_known w" for w
    by (auto simp: toObjectCard_def object_known_def object_kind.project_None [symmetric] selector_kind.project_None [symmetric]
        lifecycle.project_None [symmetric] split: option.split)
  then show "toObjectCatalog c = None \<longleftrightarrow> \<not> list_all object_known (cat_objects c)"
    by (auto simp: toObjectCatalog_def traverse_None list_all_iff)
  show "cat_objects c = map record_of_card cards" if "toObjectCatalog c = Some cards"
    using that by (simp add: toObjectCatalog_def object_card.traverse_Some_render)
qed

definition policies_known :: "WirePolicyList \<Rightarrow> bool" where
  "policies_known ps \<longleftrightarrow> list_all (\<lambda>zone. list_all known_policy (pz_policies zone)) (pl_zones ps)"

definition policies_shown :: "WirePolicyList \<Rightarrow> PolicyZoneGroup list \<Rightarrow> bool" where
  "policies_shown ps groups \<longleftrightarrow> map pg_vtz groups = map pz_vtz (pl_zones ps) \<and>
     map (\<lambda>g. map record_of_row (pg_policies g)) groups = map (\<lambda>z. map canonical (pz_policies z)) (pl_zones ps)"

lemma policies_projection:
  "toPolicyZones ps = None \<longleftrightarrow> \<not> policies_known ps"
  "toPolicyZones ps = Some groups \<Longrightarrow> policies_shown ps groups"
  using policy_list_faithful [of ps] by (auto simp: policies_known_def policies_shown_def Let_def split: option.splits)

lemma tree_projection:
  "toVtzTree reply = None \<longleftrightarrow> \<not> list_all known_node (wt_nodes reply)"
  "toVtzTree reply = Some tree \<Longrightarrow> list_all2 zone_view (wt_nodes reply) (vt_zones tree) \<and> vt_truncated tree = wt_truncated reply"
  using zone_tree_faithful [of reply] by (auto split: option.splits)

interpretation objects_surface: whole_surface ObjectsUnavailable "eng_objectList engine" "\<lambda>q. Directory (ReqObjectList q)" who
    "\<lambda>b. \<lparr>request_id = fresh b, operator = None\<rparr>" toObjectCatalog "\<lambda>c. list_all object_known (cat_objects c)"
    "\<lambda>c cards. cat_objects c = map record_of_card cards" "resolveObjectCatalog engine who"
  unfolding resolveObjectCatalog_def
  by unfold_locales (rule numbered_read, auto simp: catalog_projection)

interpretation policies_surface: whole_surface PoliciesUnavailable "eng_policyListByZone engine" "\<lambda>q. Zone (ReqPolicyListByZone q)" who
    "\<lambda>b. \<lparr>request_id = fresh b, operator = None\<rparr>" toPolicyZones policies_known policies_shown "resolvePolicyZones engine who"
  unfolding resolvePolicyZones_def
  by unfold_locales (rule numbered_read, auto simp: policies_projection)

interpretation zones_surface: whole_surface VtzUnavailable "eng_vtzTree engine" "\<lambda>q. Zone (ReqVtzTree q)" who
    "\<lambda>_. \<lparr>request_id = NInt 0, operator = None, vt_limit = math_min (math_max (NInt 1) limit) MAX_VTZ_TREE_LIMIT\<rparr>"
    toVtzTree "\<lambda>t. list_all known_node (wt_nodes t)"
    "\<lambda>t tree. list_all2 zone_view (wt_nodes t) (vt_zones tree) \<and> vt_truncated tree = wt_truncated t"
    "resolveVtzTree engine who limit"
  unfolding resolveVtzTree_def
  by unfold_locales (blast, auto simp: tree_projection)

section \<open>Zone commands\<close>

fun status_of :: "reply \<Rightarrow> nat option" where
  "status_of (Reply resp) = Some (rs_status resp)"
| "status_of _ = None"

lemma status_of_answer [simp]: "status_of (answer status body) = Some status"
  by (simp add: answer_def sendJson_def)

lemma status_of_fail [simp]: "status_of (fail_with status e) = Some status" "status_of (refused status cls) = Some status"
  by (simp_all add: fail_with_def refused_def)

text \<open>The request of a command, and how the engine answers it.\<close>

fun zone_request :: "VtzCommand \<Rightarrow> ZoneRequest" where
  "zone_request (CreateZone spec) = ReqVtzCreate \<lparr>request_id = NInt 0, operator = None, rq_spec = toWireVtzSpec spec\<rparr>"
| "zone_request (EditZone spec) = ReqVtzEdit \<lparr>request_id = NInt 0, operator = None, rq_spec = toWireVtzSpec spec\<rparr>"
| "zone_request (RescopeZone zone newName) =
     ReqVtzRescope \<lparr>request_id = NInt 0, operator = None, vr_vtz_id = zone, vr_new_name = newName\<rparr>"
| "zone_request (DeleteZone zone) = ReqVtzDelete \<lparr>request_id = NInt 0, operator = None, vr_vtz_id = zone\<rparr>"

fun zone_verb :: "'w zone_engine \<Rightarrow> OperatorPrincipal \<Rightarrow> ZoneRequest \<Rightarrow> 'w \<Rightarrow> (thrown + WireVtzMutation) option \<times> 'w" where
  "zone_verb engine who (ReqVtzCreate q) w = eng_vtzCreate engine who q w"
| "zone_verb engine who (ReqVtzEdit q) w = eng_vtzEdit engine who q w"
| "zone_verb engine who (ReqVtzRescope q) w = eng_vtzRescope engine who q w"
| "zone_verb engine who (ReqVtzDelete q) w = eng_vtzDelete engine who q w"
| "zone_verb engine who _ w = (None, w)"

lemma zone_command_runs:
  "run_vtz_command engine who command b =
     commit_zone (ask (zone_verb engine) Zone who (zone_request command)) b"
  by (cases command) (simp_all add: zone_commands commit_zone_def on_reject_def and_then_def ask_def)

text \<open>
  What a zone command settles to and what the browser is told: a refusal of the engine with its
  kind, a committed zone with its lifecycle, and \<open>unavailable\<close> when the engine names a lifecycle
  the console does not know.
\<close>

definition zone_outcome :: "(thrown + WireVtzMutation) option \<Rightarrow> (thrown + VtzMutationResult) option" where
  "zone_outcome answered = (case answered of
       None \<Rightarrow> None
     | Some (Inl e) \<Rightarrow> Some (Inl (if e = EngineRefused ''Conflict'' then VtzMutationRefused ''conflict''
                                else if e = EngineRefused ''Denied'' then VtzMutationRefused ''denied'' else e))
     | Some (Inr m) \<Rightarrow> Some (if wm_lifecycle m = [] then Inr \<lparr>vm_id = wm_id m, vm_lifecycle = None\<rparr>
         else if wm_lifecycle m = lifecycle_tag Draft then Inr \<lparr>vm_id = wm_id m, vm_lifecycle = Some Draft\<rparr>
         else if wm_lifecycle m = lifecycle_tag Published then Inr \<lparr>vm_id = wm_id m, vm_lifecycle = Some Published\<rparr>
         else Inl VtzUnavailable))"

lemma commit_zone_outcome: "fst (commit_zone run b) = zone_outcome (fst (run b))"
  by (auto simp: commit_zone_def on_reject_def and_then_def or_throw_def give_def throw_def zone_outcome_def classifyVtzRefusal_def
      toVtzMutation_def toVtzLifecycle_def split: prod.splits option.splits sum.splits thrown.splits if_splits)

lemma commit_zone_asks: "asked (commit_zone (ask verb form who request)) b = [(who, form request)]"
  by (auto simp: asked_def commit_zone_def on_reject_def and_then_def ask_def or_throw_def give_def throw_def
      split: prod.splits option.splits sum.splits)

lemma refusal_statuses:
  "classifyVtzRefusal e = Some kind \<Longrightarrow> status_of (vtz_command_error (VtzMutationRefused kind)) = status_of (command_error none e)"
  by (auto simp: classifyVtzRefusal_def vtz_command_error_def command_error_def class_status_def split: thrown.splits if_splits)

section \<open>Calls\<close>

datatype catalog_view =
    CatalogShown "ObjectCard list" | ObjectShown ObjectDetailView | ObjectChanged ObjectMutation
  | PoliciesShown "PolicyZoneGroup list" | PolicyShown PolicyDetailView | PolicyChanged PolicyMutation
  | PolicyGone PolicyDeleted

fun resolve_catalog :: "'w catalog_engine \<Rightarrow> OperatorPrincipal \<Rightarrow> catalog_call \<Rightarrow> ('w, catalog_view) resolver" where
  "resolve_catalog engine who ResolveObjectCatalog = shown_as CatalogShown (resolveObjectCatalog engine who)"
| "resolve_catalog engine who (ResolveObjectDetail s) = shown_as ObjectShown (resolveObjectDetail engine who s)"
| "resolve_catalog engine who (ResolveCreateObject d) = shown_as ObjectChanged (resolveCreateObject engine who d)"
| "resolve_catalog engine who (ResolveEditObject d) = shown_as ObjectChanged (resolveEditObject engine who d)"
| "resolve_catalog engine who (ResolveDeleteObject s) = shown_as ObjectChanged (resolveDeleteObject engine who s)"
| "resolve_catalog engine who ResolvePolicyZones = shown_as PoliciesShown (resolvePolicyZones engine who)"
| "resolve_catalog engine who (ResolvePolicyDetail z s) = shown_as PolicyShown (resolvePolicyDetail engine who z s)"
| "resolve_catalog engine who (ResolveCreatePolicy d) = shown_as PolicyChanged (resolveCreatePolicy engine who d)"
| "resolve_catalog engine who (ResolveEditPolicy s d) = shown_as PolicyChanged (resolveEditPolicy engine who s d)"
| "resolve_catalog engine who (ResolvePublishPolicy z s v) = shown_as PolicyChanged (resolvePublishPolicy engine who z s v)"
| "resolve_catalog engine who (ResolveDeletePolicy z s) = shown_as PolicyGone (resolveDeletePolicy engine who z s)"

lemma catalog_speaks: "speaks who 1 (resolve_catalog engine who call)"
  by (cases call) (auto intro!: speaks_shown speaks_one speaks_pure simp: catalog_resolvers)

lemma zone_command_speaks: "speaks who 1 (run_vtz_command engine who command)"
  unfolding speaks_def zone_command_runs
  by (auto simp: commit_zone_def on_reject_def and_then_def ask_def or_throw_def give_def throw_def
      split: prod.splits option.splits sum.splits)

lemma zone_read_speaks:
  "speaks who 1 (resolveVtzTree engine who limit)" "speaks who 1 (resolveVtzDetail engine who zone)"
  "speaks who 1 (resolveBundleConvergence engine who zone)"
  unfolding resolveVtzTree_def resolveVtzDetail_def resolveBundleConvergence_def
  by (rule speaks_bind [OF speaks_ask speaks_pure(4)], simp)+

section \<open>Properties\<close>

text \<open>
  C20.  The governance surfaces are whole or refused.  The object catalog, the policies of the
  zones and the zone tree ask the engine once, for the caller; they pass on its silence or its
  error; an answer with a tag the console does not know is refused as unavailable, and any other is
  shown with every record, in order, each determining its record (policies up to absent axes,
  zones with their postures in the order of domains).  The tree is asked for with a limit of at
  most 500 zones.
\<close>
theorem governance_reads_whole:
  "whole_read ObjectsUnavailable (\<lambda>c. list_all object_known (cat_objects c)) (\<lambda>c cards. cat_objects c = map record_of_card cards)
     (fst (eng_objectList engine who \<lparr>request_id = fresh b, operator = None\<rparr> (bk_world b))) (fst (resolveObjectCatalog engine who b)) \<and>
   whole_read PoliciesUnavailable policies_known policies_shown
     (fst (eng_policyListByZone engine who \<lparr>request_id = fresh b, operator = None\<rparr> (bk_world b))) (fst (resolvePolicyZones engine who b)) \<and>
   (let q = \<lparr>request_id = NInt 0, operator = None, vt_limit = math_min (math_max (NInt 1) limit) MAX_VTZ_TREE_LIMIT\<rparr> in
    whole_read VtzUnavailable (\<lambda>t. list_all known_node (wt_nodes t))
       (\<lambda>t tree. list_all2 zone_view (wt_nodes t) (vt_zones tree) \<and> vt_truncated tree = wt_truncated t)
       (fst (eng_vtzTree zones who q (bk_world b))) (fst (resolveVtzTree zones who limit b)) \<and>
    asked (resolveVtzTree zones who limit) b = [(who, Zone (ReqVtzTree q))] \<and>
    \<not> num_less (NInt 500) (vt_limit q)) \<and>
   asked (resolveObjectCatalog engine who) b = [(who, Directory (ReqObjectList \<lparr>request_id = fresh b, operator = None\<rparr>))] \<and>
   asked (resolvePolicyZones engine who) b = [(who, Zone (ReqPolicyListByZone \<lparr>request_id = fresh b, operator = None\<rparr>))]"
proof -
  have "\<not> num_less (NInt 500) (math_min (math_max (NInt 1) limit) MAX_VTZ_TREE_LIMIT)"
    unfolding math_min_def MAX_VTZ_TREE_LIMIT_def by (auto simp: num_less_def)
  then have "\<not> num_less (NInt 500) (vt_limit \<lparr>request_id = NInt 0, operator = None,
      vt_limit = math_min (math_max (NInt 1) limit) MAX_VTZ_TREE_LIMIT\<rparr>)" by simp
  then show ?thesis unfolding Let_def
    by (intro conjI objects_surface.whole policies_surface.whole zones_surface.whole
        objects_surface.asks_once policies_surface.asks_once zones_surface.asks_once)
qed


end
