(* ===== verification/Users.thy ===== *)
theory Users
  imports Resolvers "HOL-Library.Multiset" "HOL-Library.List_Lexorder"
begin

text \<open>
  The users and identity surface: \<open>packages/contracts/src/users.ts\<close> with the resolvers
  \<open>apps/bff/src/engine/users.ts\<close> and \<open>idam.ts\<close>.  The directory is two reads merged and sorted;
  \<open>String.prototype.localeCompare\<close>, which follows the locale of the host, is a parameter of the
  sort.
\<close>

section \<open>Replies and views\<close>

record WireAgentRecord =
  war_agent_id :: string
  war_attributes :: "(string \<times> string) list"
  war_enrolled_at :: jsnum
  war_status :: string

record WireAgentList =
  wal_agents :: "WireAgentRecord list"

record WirePrincipalRecord =
  wpr_account_type :: string
  wpr_binding_status :: "string option"
  wpr_bound_connector :: "string option"
  wpr_email :: string
  wpr_enabled :: bool
  wpr_first_seen :: jsnum
  wpr_groups :: "string list"
  wpr_last_seen_bucket :: "jsnum option"
  wpr_namespace :: string
  wpr_org :: string
  wpr_origin :: string
  wpr_owned_fields :: "string list"
  wpr_principal_id :: string
  wpr_privileges :: "string list"
  wpr_status :: string
  wpr_subject_id :: "string option"
  wpr_username :: string

record WirePrincipalList =
  wpl_principals :: "WirePrincipalRecord list"

record WireGroupRecord =
  wgp_built_in :: bool
  wgp_description :: string
  wgp_group_id :: string
  wgp_member_count :: jsnum
  wgp_name :: string
  wgp_namespace :: string

record WireGroupList =
  wgl_groups :: "WireGroupRecord list"

record WireIdamConnectorRecord =
  wic_display_name :: string
  wic_enabled :: bool
  wic_full_sync_cadence_hours :: jsnum
  wic_last_completeness :: "string option"
  wic_last_error :: "string option"
  wic_last_sync_unix_ms :: "jsnum option"
  wic_objects_synced :: jsnum
  wic_poll_interval_secs :: jsnum
  wic_provider :: string
  wic_provider_tenant :: string
  wic_running :: bool

record WireIdamConnectorList =
  wicl_connectors :: "WireIdamConnectorRecord list"

record WireIdamSyncStarted =
  wiss_provider :: string

record WireLugProvisioned =
  wlp_commit_version :: jsnum

datatype PrincipalKind = HumanKind | ServiceKind | AgentKind

fun principal_kind_tag :: "PrincipalKind \<Rightarrow> string" where
  "principal_kind_tag HumanKind = ''human''"
| "principal_kind_tag ServiceKind = ''service''"
| "principal_kind_tag AgentKind = ''agent''"

definition PRINCIPAL_KINDS :: "PrincipalKind list" where
  "PRINCIPAL_KINDS = [HumanKind, ServiceKind, AgentKind]"

definition toKind :: "string \<Rightarrow> PrincipalKind option" where
  "toKind = narrow_in PRINCIPAL_KINDS principal_kind_tag"

lemma principal_kind_listed: "a \<in> set PRINCIPAL_KINDS"
  by (cases a) (simp_all add: PRINCIPAL_KINDS_def)

interpretation principal_kind: tag_list PRINCIPAL_KINDS principal_kind_tag
  rewrites "narrow_in PRINCIPAL_KINDS principal_kind_tag = toKind"
  by (unfold_locales, rule principal_kind_listed, simp_all add: PRINCIPAL_KINDS_def toKind_def)

datatype PrincipalStatus = ActiveStatus | SuspendedStatus | RevokedStatus | DisabledStatus | CompromisedStatus

fun principal_status_tag :: "PrincipalStatus \<Rightarrow> string" where
  "principal_status_tag ActiveStatus = ''active''"
| "principal_status_tag SuspendedStatus = ''suspended''"
| "principal_status_tag RevokedStatus = ''revoked''"
| "principal_status_tag DisabledStatus = ''disabled''"
| "principal_status_tag CompromisedStatus = ''compromised''"

definition PRINCIPAL_STATUSES :: "PrincipalStatus list" where
  "PRINCIPAL_STATUSES = [ActiveStatus, SuspendedStatus, RevokedStatus, DisabledStatus, CompromisedStatus]"

definition toStatus :: "string \<Rightarrow> PrincipalStatus option" where
  "toStatus = narrow_in PRINCIPAL_STATUSES principal_status_tag"

lemma principal_status_listed: "a \<in> set PRINCIPAL_STATUSES"
  by (cases a) (simp_all add: PRINCIPAL_STATUSES_def)

interpretation principal_status: tag_list PRINCIPAL_STATUSES principal_status_tag
  rewrites "narrow_in PRINCIPAL_STATUSES principal_status_tag = toStatus"
  by (unfold_locales, rule principal_status_listed, simp_all add: PRINCIPAL_STATUSES_def toStatus_def)

datatype PrincipalOrigin = LocalOrigin | ObservedOrigin

fun principal_origin_tag :: "PrincipalOrigin \<Rightarrow> string" where
  "principal_origin_tag LocalOrigin = ''local''"
| "principal_origin_tag ObservedOrigin = ''observed''"

definition PRINCIPAL_ORIGINS :: "PrincipalOrigin list" where
  "PRINCIPAL_ORIGINS = [LocalOrigin, ObservedOrigin]"

definition toOrigin :: "string \<Rightarrow> PrincipalOrigin option" where
  "toOrigin = narrow_in PRINCIPAL_ORIGINS principal_origin_tag"

lemma principal_origin_listed: "a \<in> set PRINCIPAL_ORIGINS"
  by (cases a) (simp_all add: PRINCIPAL_ORIGINS_def)

interpretation principal_origin: tag_list PRINCIPAL_ORIGINS principal_origin_tag
  rewrites "narrow_in PRINCIPAL_ORIGINS principal_origin_tag = toOrigin"
  by (unfold_locales, rule principal_origin_listed, simp_all add: PRINCIPAL_ORIGINS_def toOrigin_def)

datatype IdamSyncOutcome = CompleteSync | PartialSync | FailedSync

fun sync_outcome_tag :: "IdamSyncOutcome \<Rightarrow> string" where
  "sync_outcome_tag CompleteSync = ''complete''"
| "sync_outcome_tag PartialSync = ''partial''"
| "sync_outcome_tag FailedSync = ''failed''"

definition IDAM_SYNC_OUTCOMES :: "IdamSyncOutcome list" where
  "IDAM_SYNC_OUTCOMES = [CompleteSync, PartialSync, FailedSync]"

lemma sync_outcome_listed: "a \<in> set IDAM_SYNC_OUTCOMES"
  by (cases a) (simp_all add: IDAM_SYNC_OUTCOMES_def)

interpretation sync_outcome: tag_list IDAM_SYNC_OUTCOMES sync_outcome_tag
  by (unfold_locales, rule sync_outcome_listed, simp_all add: IDAM_SYNC_OUTCOMES_def)

datatype IdamConnectorState = DisabledState | NeverSynced | HealthyState | PartialState | ErrorState | UnknownState

record PrincipalRow =
  pw_principalId :: string
  pw_username :: string
  pw_namespace :: string
  pw_kind :: PrincipalKind
  pw_status :: PrincipalStatus
  pw_origin :: PrincipalOrigin
  pw_email :: string
  pw_org :: string
  pw_groups :: "string list"
  pw_subjectId :: "string option"
  pw_privileges :: "string list"
  pw_firstSeen :: jsnum
  pw_boundConnector :: "string option"
  pw_bindingStatus :: "string option"
  pw_ownedFields :: "string list"

record GroupCard =
  gc_groupId :: string
  gc_name :: string
  gc_namespace :: string
  gc_builtIn :: bool
  gc_memberCount :: jsnum
  gc_description :: string

record IdamConnector =
  icn_connectorId :: string
  icn_displayName :: string
  icn_providerTenant :: string
  icn_state :: IdamConnectorState
  icn_enabled :: bool
  icn_running :: bool
  icn_lastSyncAt :: "jsnum option"
  icn_lastSyncOutcome :: "IdamSyncOutcome option"
  icn_objectsSynced :: jsnum
  icn_lastError :: "string option"
  icn_pollIntervalSecs :: jsnum
  icn_fullSyncCadenceHours :: jsnum

record SyncReceipt =
  syr_provider :: string

record ProvisionReceipt =
  pvr_commitVersion :: jsnum

section \<open>Projections\<close>

definition toPrincipalRow :: "WirePrincipalRecord \<Rightarrow> PrincipalRow option" where
  "toPrincipalRow w = do {
     kind \<leftarrow> toKind (wpr_account_type w);
     status \<leftarrow> toStatus (wpr_status w);
     origin \<leftarrow> toOrigin (wpr_origin w);
     Some \<lparr>pw_principalId = wpr_principal_id w, pw_username = wpr_username w, pw_namespace = wpr_namespace w, pw_kind = kind, pw_status = status, pw_origin = origin,
       pw_email = wpr_email w, pw_org = wpr_org w, pw_groups = wpr_groups w, pw_subjectId = wpr_subject_id w, pw_privileges = wpr_privileges w, pw_firstSeen = wpr_first_seen w,
       pw_boundConnector = wpr_bound_connector w, pw_bindingStatus = wpr_binding_status w, pw_ownedFields = wpr_owned_fields w\<rparr>
   }"

definition toPrincipalRows :: "WirePrincipalList \<Rightarrow> PrincipalRow list option" where
  "toPrincipalRows l = traverse toPrincipalRow (wpl_principals l)"

definition toGroupCard :: "WireGroupRecord \<Rightarrow> GroupCard" where
  "toGroupCard w = \<lparr>gc_groupId = wgp_group_id w, gc_name = wgp_name w, gc_namespace = wgp_namespace w, gc_builtIn = wgp_built_in w, gc_memberCount = wgp_member_count w, gc_description = wgp_description w\<rparr>"

definition toAgentPrincipalRow :: "WireAgentRecord \<Rightarrow> PrincipalRow option" where
  "toAgentPrincipalRow w = do {
     status \<leftarrow> toStatus (war_status w);
     Some \<lparr>pw_principalId = war_agent_id w, pw_username = war_agent_id w, pw_namespace = ''aig'', pw_kind = AgentKind,
       pw_status = status, pw_origin = ObservedOrigin, pw_email = [], pw_org = [], pw_groups = [], pw_subjectId = None,
       pw_privileges = [], pw_firstSeen = war_enrolled_at w, pw_boundConnector = None, pw_bindingStatus = None, pw_ownedFields = []\<rparr>
   }"

definition toGroupCards :: "WireGroupList \<Rightarrow> GroupCard list" where
  "toGroupCards l = map toGroupCard (wgl_groups l)"

definition toWirePrincipalSpec :: "PrincipalDraft \<Rightarrow> WirePrincipalSpec" where
  "toWirePrincipalSpec d = \<lparr>ps_username = pd_username d, ps_subject_type = pd_kind d, ps_email = pd_email d, ps_org = pd_org d\<rparr>"

definition toProvisionReceipt :: "WireLugProvisioned \<Rightarrow> ProvisionReceipt" where
  "toProvisionReceipt w = \<lparr>pvr_commitVersion = wlp_commit_version w\<rparr>"

definition toIdamSyncOutcome :: "string option \<Rightarrow> IdamSyncOutcome option" where
  "toIdamSyncOutcome t = Option.bind t (narrow_in IDAM_SYNC_OUTCOMES sync_outcome_tag)"

definition deriveIdamState :: "WireIdamConnectorRecord \<Rightarrow> IdamConnectorState" where
  "deriveIdamState w =
     (if \<not> wic_enabled w then DisabledState
      else if wic_last_error w \<noteq> None then ErrorState
      else if wic_last_sync_unix_ms w = None then NeverSynced
      else case toIdamSyncOutcome (wic_last_completeness w) of
        Some CompleteSync \<Rightarrow> HealthyState
      | Some PartialSync \<Rightarrow> PartialState
      | Some FailedSync \<Rightarrow> ErrorState
      | None \<Rightarrow> UnknownState)"

definition toIdamConnector :: "WireIdamConnectorRecord \<Rightarrow> IdamConnector" where
  "toIdamConnector w =
     \<lparr>icn_connectorId = wic_provider w, icn_displayName = wic_display_name w, icn_providerTenant = wic_provider_tenant w,
      icn_state = deriveIdamState w, icn_enabled = wic_enabled w, icn_running = wic_running w,
      icn_lastSyncAt = wic_last_sync_unix_ms w, icn_lastSyncOutcome = toIdamSyncOutcome (wic_last_completeness w),
      icn_objectsSynced = wic_objects_synced w, icn_lastError = wic_last_error w,
      icn_pollIntervalSecs = wic_poll_interval_secs w, icn_fullSyncCadenceHours = wic_full_sync_cadence_hours w\<rparr>"

definition toIdamConnectors :: "WireIdamConnectorList \<Rightarrow> IdamConnector list" where
  "toIdamConnectors l = map toIdamConnector (wicl_connectors l)"

definition toSyncReceipt :: "WireIdamSyncStarted \<Rightarrow> SyncReceipt" where
  "toSyncReceipt w = \<lparr>syr_provider = wiss_provider w\<rparr>"

text \<open>The fields of the drafts on a request with the number \<open>i\<close>.\<close>

definition toWireIdamConfigureFields :: "IdamConfigureDraft \<Rightarrow> jsnum \<Rightarrow> WireIdamConfigure" where
  "toWireIdamConfigureFields d i = \<lparr>request_id = i, operator = None, idam_provider = ic_provider d, idam_enabled = ic_enabled d,
     idam_poll_interval_secs = ic_pollIntervalSecs d, idam_full_sync_cadence_hours = ic_fullSyncCadenceHours d\<rparr>"

definition toWireIdamConnectFields :: "IdamConnectDraft \<Rightarrow> string \<Rightarrow> jsnum \<Rightarrow> WireIdamConnect" where
  "toWireIdamConnectFields d secretRef i = \<lparr>request_id = i, operator = None, idam_provider = in_provider d, idam_domain = in_domain d,
     idam_client_id = in_clientId d, idam_audience = in_audience d, idam_client_secret_ref = secretRef\<rparr>"

section \<open>Sorting with a comparator\<close>

text \<open>
  \<open>xs.sort(cmp)\<close>: stable, and sorted where the comparator is consistent, that is a total preorder;
  for a comparator that is not, the language leaves the order open.
\<close>

fun place :: "('a \<Rightarrow> 'a \<Rightarrow> int) \<Rightarrow> 'a \<Rightarrow> 'a list \<Rightarrow> 'a list" where
  "place cmp x [] = [x]"
| "place cmp x (y # ys) = (if cmp x y \<le> 0 then x # y # ys else y # place cmp x ys)"

definition sort_by :: "('a \<Rightarrow> 'a \<Rightarrow> int) \<Rightarrow> 'a list \<Rightarrow> 'a list" where
  "sort_by cmp xs = foldr (place cmp) xs []"

lemma place_mset [simp]: "mset (place cmp x ys) = add_mset x (mset ys)"
  by (induction ys) auto

lemma sort_by_mset [simp]: "mset (sort_by cmp xs) = mset xs"
  by (induction xs) (simp_all add: sort_by_def)

lemma sort_by_set [simp]: "set (sort_by cmp xs) = set xs"
  by (metis set_mset_mset sort_by_mset)

locale comparator =
  fixes cmp :: "'a \<Rightarrow> 'a \<Rightarrow> int"
  assumes total_order: "cmp x y \<le> 0 \<or> cmp y x \<le> 0"
    and trans_order: "cmp x y \<le> 0 \<Longrightarrow> cmp y z \<le> 0 \<Longrightarrow> cmp x z \<le> 0"
begin

lemma place_sorted: "sorted_wrt (\<lambda>x y. cmp x y \<le> 0) ys \<Longrightarrow> sorted_wrt (\<lambda>x y. cmp x y \<le> 0) (place cmp x ys)"
proof (induction ys)
  case (Cons y ys)
  have "set (place cmp x ys) = insert x (set ys)" by (metis place_mset set_mset_add_mset_insert set_mset_mset)
  then show ?case using Cons total_order [of x y] trans_order [of x y] by auto
qed simp

lemma sort_by_sorted: "sorted_wrt (\<lambda>x y. cmp x y \<le> 0) (sort_by cmp xs)"
  by (induction xs) (simp_all add: sort_by_def place_sorted)

lemma place_stable:
  "filter (\<lambda>y. cmp y k \<le> 0 \<and> cmp k y \<le> 0) (place cmp x ys) =
   filter (\<lambda>y. cmp y k \<le> 0 \<and> cmp k y \<le> 0) (x # ys)"
proof (induction ys)
  case (Cons y ys)
  have "\<not> (cmp x k \<le> 0 \<and> cmp k x \<le> 0 \<and> cmp y k \<le> 0 \<and> cmp k y \<le> 0)" if "\<not> cmp x y \<le> 0"
    using that trans_order [of x k y] by blast
  then show ?case using Cons by auto
qed simp

lemma sort_by_stable:
  "filter (\<lambda>y. cmp y k \<le> 0 \<and> cmp k y \<le> 0) (sort_by cmp xs) = filter (\<lambda>y. cmp y k \<le> 0 \<and> cmp k y \<le> 0) xs"
proof (induction xs)
  case (Cons x xs)
  have "sort_by cmp (x # xs) = place cmp x (sort_by cmp xs)" by (simp add: sort_by_def)
  then show ?case using Cons place_stable [of k x "sort_by cmp xs"] by simp
qed (simp add: sort_by_def)

end

text \<open>\<open>a.username.localeCompare(b.username) || a.principalId.localeCompare(b.principalId)\<close>\<close>

definition directory_order :: "(string \<Rightarrow> string \<Rightarrow> int) \<Rightarrow> PrincipalRow \<Rightarrow> PrincipalRow \<Rightarrow> int" where
  "directory_order localeCompare a b =
     (let c = localeCompare (pw_username a) (pw_username b)
      in if c \<noteq> 0 then c else localeCompare (pw_principalId a) (pw_principalId b))"

text \<open>What \<open>localeCompare\<close> promises: a comparison and its mirror have opposite signs, and it is transitive.\<close>

definition collates :: "(string \<Rightarrow> string \<Rightarrow> int) \<Rightarrow> bool" where
  "collates lc \<longleftrightarrow> (\<forall>a b. sgn (lc b a) = - sgn (lc a b)) \<and> (\<forall>a b c. lc a b \<le> 0 \<longrightarrow> lc b c \<le> 0 \<longrightarrow> lc a c \<le> 0)"

lemma collates_comparator:
  assumes "collates lc"
  shows "comparator (directory_order lc)"
proof
  have mirror: "lc b a \<le> 0 \<longleftrightarrow> 0 \<le> lc a b" "lc a b = 0 \<longleftrightarrow> lc b a = 0" for a b
    using spec [OF spec [OF conjunct1 [OF assms [unfolded collates_def]]], of b a] by (auto simp: sgn_if split: if_splits)
  have trans: "lc a b \<le> 0 \<Longrightarrow> lc b c \<le> 0 \<Longrightarrow> lc a c \<le> 0" for a b c using assms unfolding collates_def by blast
  show "directory_order lc x y \<le> 0 \<or> directory_order lc y x \<le> 0" for x y
    using mirror [of "pw_username x" "pw_username y"] mirror [of "pw_principalId x" "pw_principalId y"]
    by (auto simp: directory_order_def Let_def)
  show "directory_order lc x z \<le> 0" if "directory_order lc x y \<le> 0" "directory_order lc y z \<le> 0" for x y z
  proof -
    let ?u = "\<lambda>p q. lc (pw_username p) (pw_username q)" and ?i = "\<lambda>p q. lc (pw_principalId p) (pw_principalId q)"
    have le: "?u x y \<le> 0" "?u y z \<le> 0" using that by (auto simp: directory_order_def Let_def split: if_splits)
    then have xz: "?u x z \<le> 0" by (rule trans)
    have "?i x z \<le> 0" if zero: "?u x z = 0"
    proof -
      have "?u z x \<le> 0" using zero mirror(2) [of "pw_username x" "pw_username z"] by simp
      then have "?u y x \<le> 0" "?u z y \<le> 0" using le trans by blast+
      then have "?u x y = 0" "?u y z = 0"
        using le mirror(1) [of "pw_username y" "pw_username x"] mirror(1) [of "pw_username z" "pw_username y"] by simp_all
      then have "?i x y \<le> 0" "?i y z \<le> 0" using \<open>directory_order lc x y \<le> 0\<close> \<open>directory_order lc y z \<le> 0\<close>
        by (simp_all add: directory_order_def Let_def)
      then show ?thesis by (rule trans)
    qed
    then show ?thesis using xz by (simp add: directory_order_def Let_def)
  qed
qed

locale collation =
  fixes lc :: "string \<Rightarrow> string \<Rightarrow> int"
  assumes collates: "collates lc"
begin

lemma ordered: "comparator (directory_order lc)"
  by (rule collates_comparator [OF collates])

end

sublocale collation \<subseteq> comparator "directory_order lc"
  by (rule ordered)

context collation
begin

lemma directory_sorted: "sorted_wrt (\<lambda>x y. directory_order lc x y \<le> 0) (sort_by (directory_order lc) rows)"
  by (rule sort_by_sorted)

lemma directory_stable:
  "filter (\<lambda>y. directory_order lc y k \<le> 0 \<and> directory_order lc k y \<le> 0) (sort_by (directory_order lc) rows) =
   filter (\<lambda>y. directory_order lc y k \<le> 0 \<and> directory_order lc k y \<le> 0) rows"
  by (rule sort_by_stable)

end

text \<open>The order of code units is a collation.\<close>

definition unit_order :: "string \<Rightarrow> string \<Rightarrow> int" where
  "unit_order a b = (if utf16_units a < utf16_units b then - 1 else if utf16_units b < utf16_units a then 1 else 0)"

lemma unit_order_collates: "collates unit_order"
  unfolding collates_def unit_order_def by (auto split: if_splits)

interpretation units: collation unit_order
  by unfold_locales (rule unit_order_collates)

section \<open>Resolvers\<close>

record 'w users_engine =
  eng_listPrincipals :: "('w, WireListPrincipals, WirePrincipalList) verb"
  eng_listAgents :: "('w, WireListAgents, WireAgentList) verb"
  eng_listGroups :: "('w, WireListGroups, WireGroupList) verb"
  eng_principalCreate :: "('w, WirePrincipalCreate, WireLugProvisioned) verb"
  eng_principalEdit :: "('w, WirePrincipalEdit, WireLugProvisioned) verb"
  eng_principalSetStatus :: "('w, WirePrincipalSetStatus, WireLugProvisioned) verb"
  eng_groupCreate :: "('w, WireGroupWrite, WireLugProvisioned) verb"
  eng_groupEdit :: "('w, WireGroupWrite, WireLugProvisioned) verb"
  eng_groupSetMembers :: "('w, WireGroupSetMembers, WireLugProvisioned) verb"
  eng_idamConnectors :: "('w, WireIdamConnectors, WireIdamConnectorList) verb"
  eng_idamSync :: "('w, WireIdamSync, WireIdamSyncStarted) verb"
  eng_idamConnect :: "('w, WireIdamConnect, WireLugProvisioned) verb"
  eng_idamConfigure :: "('w, WireIdamConfigure, WireLugProvisioned) verb"

text \<open>The rows of both directories, in the order they are merged.\<close>

definition merged_rows :: "WirePrincipalList \<Rightarrow> WireAgentList \<Rightarrow> PrincipalRow list option" where
  "merged_rows principals agents = do {
     rows \<leftarrow> toPrincipalRows principals;
     enrolled \<leftarrow> traverse toAgentPrincipalRow (wal_agents agents);
     Some (rows @ enrolled)
   }"

definition directory_reads :: "bool \<Rightarrow> 'w users_engine \<Rightarrow> OperatorPrincipal \<Rightarrow> ('w, WirePrincipalList \<times> WireAgentList) resolver" where
  "directory_reads first engine who = and_then requestId (\<lambda>i. and_then requestId (\<lambda>j. promise_all first
     (ask (eng_listPrincipals engine) (\<lambda>q. Directory (ReqListPrincipals q)) who \<lparr>request_id = i, operator = None\<rparr>)
     (ask (eng_listAgents engine) (\<lambda>q. Directory (ReqListAgents q)) who \<lparr>request_id = j, operator = None\<rparr>)))"

definition resolveUsersList ::
    "(string \<Rightarrow> string \<Rightarrow> int) \<Rightarrow> bool \<Rightarrow> 'w users_engine \<Rightarrow> OperatorPrincipal \<Rightarrow> ('w, PrincipalRow list) resolver" where
  "resolveUsersList localeCompare first engine who = and_then (directory_reads first engine who)
     (\<lambda>(principals, agents). and_then (or_throw UsersUnavailable (merged_rows principals agents))
       (\<lambda>rows. give (sort_by (directory_order localeCompare) rows)))"

definition resolveGroupsList :: "'w users_engine \<Rightarrow> OperatorPrincipal \<Rightarrow> ('w, GroupCard list) resolver" where
  "resolveGroupsList engine who = and_then requestId (\<lambda>i.
     and_then (ask (eng_listGroups engine) (\<lambda>q. Directory (ReqListGroups q)) who \<lparr>request_id = i, operator = None\<rparr>)
       (\<lambda>w. give (toGroupCards w)))"

definition resolveCreateGroup :: "'w users_engine \<Rightarrow> OperatorPrincipal \<Rightarrow> string \<Rightarrow> string \<Rightarrow> ('w, ProvisionReceipt) resolver" where
  "resolveCreateGroup engine who groupName description = and_then requestId (\<lambda>i.
     and_then (ask (eng_groupCreate engine) (\<lambda>q. Directory (ReqGroupCreate q)) who
         \<lparr>request_id = i, operator = None, rq_name = groupName, gw_description = description\<rparr>)
       (\<lambda>w. give (toProvisionReceipt w)))"

definition resolveEditGroup :: "'w users_engine \<Rightarrow> OperatorPrincipal \<Rightarrow> string \<Rightarrow> string \<Rightarrow> ('w, ProvisionReceipt) resolver" where
  "resolveEditGroup engine who groupName description = and_then requestId (\<lambda>i.
     and_then (ask (eng_groupEdit engine) (\<lambda>q. Directory (ReqGroupEdit q)) who
         \<lparr>request_id = i, operator = None, rq_name = groupName, gw_description = description\<rparr>)
       (\<lambda>w. give (toProvisionReceipt w)))"

definition resolveSetGroupMembers :: "'w users_engine \<Rightarrow> OperatorPrincipal \<Rightarrow> string \<Rightarrow> string list \<Rightarrow> ('w, ProvisionReceipt) resolver" where
  "resolveSetGroupMembers engine who groupName memberNames = and_then requestId (\<lambda>i.
     and_then (ask (eng_groupSetMembers engine) (\<lambda>q. Directory (ReqGroupSetMembers q)) who
         \<lparr>request_id = i, operator = None, rq_name = groupName, gm_members = memberNames\<rparr>)
       (\<lambda>w. give (toProvisionReceipt w)))"

definition resolveCreatePrincipal :: "'w users_engine \<Rightarrow> OperatorPrincipal \<Rightarrow> PrincipalDraft \<Rightarrow> ('w, ProvisionReceipt) resolver" where
  "resolveCreatePrincipal engine who draft = and_then requestId (\<lambda>i.
     and_then (ask (eng_principalCreate engine) (\<lambda>q. Directory (ReqPrincipalCreate q)) who
         \<lparr>request_id = i, operator = None, rq_spec = toWirePrincipalSpec draft\<rparr>)
       (\<lambda>w. give (toProvisionReceipt w)))"

definition resolveEditPrincipal :: "'w users_engine \<Rightarrow> OperatorPrincipal \<Rightarrow> PrincipalDraft \<Rightarrow> ('w, ProvisionReceipt) resolver" where
  "resolveEditPrincipal engine who draft = and_then requestId (\<lambda>i.
     and_then (ask (eng_principalEdit engine) (\<lambda>q. Directory (ReqPrincipalEdit q)) who
         \<lparr>request_id = i, operator = None, rq_spec = toWirePrincipalSpec draft\<rparr>)
       (\<lambda>w. give (toProvisionReceipt w)))"

definition resolveSetPrincipalStatus :: "'w users_engine \<Rightarrow> OperatorPrincipal \<Rightarrow> string \<Rightarrow> string \<Rightarrow> ('w, ProvisionReceipt) resolver" where
  "resolveSetPrincipalStatus engine who username status = and_then requestId (\<lambda>i.
     and_then (ask (eng_principalSetStatus engine) (\<lambda>q. Directory (ReqPrincipalSetStatus q)) who
         \<lparr>request_id = i, operator = None, pss_username = username, pss_status = status\<rparr>)
       (\<lambda>w. give (toProvisionReceipt w)))"

definition resolveIdamConnectors :: "'w users_engine \<Rightarrow> OperatorPrincipal \<Rightarrow> ('w, IdamConnector list) resolver" where
  "resolveIdamConnectors engine who = and_then requestId (\<lambda>i.
     and_then (ask (eng_idamConnectors engine) (\<lambda>q. Directory (ReqIdamConnectors q)) who \<lparr>request_id = i, operator = None\<rparr>)
       (\<lambda>w. give (toIdamConnectors w)))"

definition resolveIdamSync :: "'w users_engine \<Rightarrow> OperatorPrincipal \<Rightarrow> string \<Rightarrow> ('w, SyncReceipt) resolver" where
  "resolveIdamSync engine who provider = and_then requestId (\<lambda>i.
     and_then (ask (eng_idamSync engine) (\<lambda>q. Directory (ReqIdamSync q)) who
         \<lparr>request_id = i, operator = None, idam_provider = provider\<rparr>)
       (\<lambda>w. give (toSyncReceipt w)))"

definition resolveIdamConnect :: "'w users_engine \<Rightarrow> OperatorPrincipal \<Rightarrow> IdamConnectDraft \<Rightarrow> string \<Rightarrow> ('w, ProvisionReceipt) resolver" where
  "resolveIdamConnect engine who draft secretRef = and_then requestId (\<lambda>i.
     and_then (ask (eng_idamConnect engine) (\<lambda>q. Directory (ReqIdamConnect q)) who (toWireIdamConnectFields draft secretRef i))
       (\<lambda>w. give (toProvisionReceipt w)))"

definition resolveIdamConfigure :: "'w users_engine \<Rightarrow> OperatorPrincipal \<Rightarrow> IdamConfigureDraft \<Rightarrow> ('w, ProvisionReceipt) resolver" where
  "resolveIdamConfigure engine who draft = and_then requestId (\<lambda>i.
     and_then (ask (eng_idamConfigure engine) (\<lambda>q. Directory (ReqIdamConfigure q)) who (toWireIdamConfigureFields draft i))
       (\<lambda>w. give (toProvisionReceipt w)))"

lemmas users_resolvers =
  resolveGroupsList_def resolveCreateGroup_def resolveEditGroup_def resolveSetGroupMembers_def resolveCreatePrincipal_def
  resolveEditPrincipal_def resolveSetPrincipalStatus_def resolveIdamConnectors_def resolveIdamSync_def
  resolveIdamConnect_def resolveIdamConfigure_def

section \<open>Calls\<close>

datatype directory_view =
    UsersShown "PrincipalRow list" | GroupsShown "GroupCard list" | ConnectorsShown "IdamConnector list"
  | SyncStarted SyncReceipt | Provisioned ProvisionReceipt

fun resolve_directory ::
    "(string \<Rightarrow> string \<Rightarrow> int) \<Rightarrow> bool \<Rightarrow> 'w users_engine \<Rightarrow> OperatorPrincipal \<Rightarrow> directory_call \<Rightarrow> ('w, directory_view) resolver" where
  "resolve_directory lc first engine who ResolveUsersList = shown_as UsersShown (resolveUsersList lc first engine who)"
| "resolve_directory lc first engine who ResolveGroupsList = shown_as GroupsShown (resolveGroupsList engine who)"
| "resolve_directory lc first engine who ResolveIdamConnectors = shown_as ConnectorsShown (resolveIdamConnectors engine who)"
| "resolve_directory lc first engine who (ResolveIdamSync provider) = shown_as SyncStarted (resolveIdamSync engine who provider)"
| "resolve_directory lc first engine who (ResolveCreatePrincipal d) = shown_as Provisioned (resolveCreatePrincipal engine who d)"
| "resolve_directory lc first engine who (ResolveEditPrincipal d) = shown_as Provisioned (resolveEditPrincipal engine who d)"
| "resolve_directory lc first engine who (ResolveSetPrincipalStatus u s) = shown_as Provisioned (resolveSetPrincipalStatus engine who u s)"
| "resolve_directory lc first engine who (ResolveSetGroupMembers g ms) = shown_as Provisioned (resolveSetGroupMembers engine who g ms)"
| "resolve_directory lc first engine who (ResolveCreateGroup g d) = shown_as Provisioned (resolveCreateGroup engine who g d)"
| "resolve_directory lc first engine who (ResolveEditGroup g d) = shown_as Provisioned (resolveEditGroup engine who g d)"
| "resolve_directory lc first engine who (ResolveIdamConfigure d) = shown_as Provisioned (resolveIdamConfigure engine who d)"
| "resolve_directory lc first engine who (ResolveIdamConnect d ref) = shown_as Provisioned (resolveIdamConnect engine who d ref)"

lemma speaks_users: "speaks who 2 (resolveUsersList lc first engine who)"
proof -
  have "speaks who 0 (case x of (ps, as) \<Rightarrow> and_then (or_throw UsersUnavailable (merged_rows ps as))
      (\<lambda>rows. give (sort_by (directory_order lc) rows)))" for x
    by (cases x) (simp add: speaks_bind [OF speaks_pure(4) speaks_pure(1)])
  then have "speaks who (0 + (0 + (1 + 1)) + 0) (resolveUsersList lc first engine who)"
    unfolding resolveUsersList_def directory_reads_def by (intro speak_intros) auto
  then show ?thesis by (simp add: numeral_2_eq_2)
qed

lemma directory_speaks: "speaks who 2 (resolve_directory lc first engine who call)"
  by (cases call) (auto intro!: speaks_shown speaks_users speaks_one speaks_pure simp: users_resolvers)

section \<open>The directory\<close>

definition principal_shown :: "WirePrincipalRecord \<Rightarrow> PrincipalRow \<Rightarrow> bool" where
  "principal_shown w row \<longleftrightarrow>
     principal_kind_tag (pw_kind row) = wpr_account_type w \<and> principal_status_tag (pw_status row) = wpr_status w \<and>
     principal_origin_tag (pw_origin row) = wpr_origin w \<and> pw_principalId row = wpr_principal_id w \<and>
     pw_username row = wpr_username w \<and> pw_namespace row = wpr_namespace w \<and> pw_email row = wpr_email w \<and>
     pw_org row = wpr_org w \<and> pw_groups row = wpr_groups w \<and> pw_subjectId row = wpr_subject_id w \<and>
     pw_privileges row = wpr_privileges w \<and> pw_firstSeen row = wpr_first_seen w \<and>
     pw_boundConnector row = wpr_bound_connector w \<and> pw_bindingStatus row = wpr_binding_status w \<and>
     pw_ownedFields row = wpr_owned_fields w"

definition agent_shown :: "WireAgentRecord \<Rightarrow> PrincipalRow \<Rightarrow> bool" where
  "agent_shown w row \<longleftrightarrow>
     principal_status_tag (pw_status row) = war_status w \<and>
     row = \<lparr>pw_principalId = war_agent_id w, pw_username = war_agent_id w, pw_namespace = ''aig'', pw_kind = AgentKind,
       pw_status = pw_status row, pw_origin = ObservedOrigin, pw_email = [], pw_org = [], pw_groups = [], pw_subjectId = None,
       pw_privileges = [], pw_firstSeen = war_enrolled_at w, pw_boundConnector = None, pw_bindingStatus = None, pw_ownedFields = []\<rparr>"

lemmas users_tags = principal_kind.project_Some principal_status.project_Some principal_origin.project_Some

lemma principal_projection: "toPrincipalRow w = Some row \<longleftrightarrow> principal_shown w row"
  by (cases row) (auto simp: toPrincipalRow_def principal_shown_def Option.bind_eq_Some_conv users_tags)

lemma agent_projection: "toAgentPrincipalRow w = Some row \<longleftrightarrow> agent_shown w row"
  by (cases row) (auto simp: toAgentPrincipalRow_def agent_shown_def Option.bind_eq_Some_conv users_tags)

lemma merged_rows_Some:
  "merged_rows ps as = Some rows \<longleftrightarrow>
     (\<exists>listed enrolled. list_all2 principal_shown (wpl_principals ps) listed \<and> list_all2 agent_shown (wal_agents as) enrolled \<and>
        rows = listed @ enrolled)"
  by (auto simp: merged_rows_def toPrincipalRows_def Option.bind_eq_Some_conv
      traverse_shown [OF principal_projection] traverse_shown [OF agent_projection])

text \<open>
  C19.  The users page lists the whole directory.  Once both directories answer, the page is
  unavailable exactly when some principal or agent carries a tag the console does not know;
  otherwise it shows every principal and every agent, each once and as the engine describes it,
  ordered by name and then identifier, rows that compare equal in the engine's order.
\<close>
theorem directory_whole:
  assumes "collates lc" and "directory_reads first engine who b = (Some (Inr (ps, as)), b')"
  shows "case fst (resolveUsersList lc first engine who b) of
      Some (Inr rows) \<Rightarrow> (\<exists>listed enrolled. list_all2 principal_shown (wpl_principals ps) listed \<and>
          list_all2 agent_shown (wal_agents as) enrolled \<and> mset rows = mset listed + mset enrolled \<and>
          sorted_wrt (\<lambda>x y. directory_order lc x y \<le> 0) rows \<and>
          (\<forall>k. filter (\<lambda>y. directory_order lc y k \<le> 0 \<and> directory_order lc k y \<le> 0) rows =
               filter (\<lambda>y. directory_order lc y k \<le> 0 \<and> directory_order lc k y \<le> 0) (listed @ enrolled)))
    | Some (Inl e) \<Rightarrow> e = UsersUnavailable \<and>
        (list_ex (\<lambda>w. \<nexists>row. principal_shown w row) (wpl_principals ps) \<or> list_ex (\<lambda>w. \<nexists>row. agent_shown w row) (wal_agents as))
    | None \<Rightarrow> False"
proof (cases "merged_rows ps as")
  case None
  have "(\<nexists>row. principal_shown w row) \<longleftrightarrow> toPrincipalRow w = None" "(\<nexists>row. agent_shown v row) \<longleftrightarrow> toAgentPrincipalRow v = None" for w v
    by (simp_all add: principal_projection [symmetric] agent_projection [symmetric])
  moreover have "list_ex (\<lambda>w. toPrincipalRow w = None) (wpl_principals ps) \<or> list_ex (\<lambda>w. toAgentPrincipalRow w = None) (wal_agents as)"
    using None by (auto simp: merged_rows_def toPrincipalRows_def bind_eq_None_conv traverse_None list_ex_iff)
  ultimately show ?thesis using None assms(2) by (simp add: resolveUsersList_def and_then_def or_throw_def throw_def)
next
  case (Some rows)
  then obtain listed enrolled where "list_all2 principal_shown (wpl_principals ps) listed"
      "list_all2 agent_shown (wal_agents as) enrolled" "rows = listed @ enrolled"
    by (auto simp: merged_rows_Some)
  moreover note collation.directory_sorted [OF collation.intro [OF assms(1)], of rows]
    collation.directory_stable [OF collation.intro [OF assms(1)], of _ rows]
  moreover have out: "fst (resolveUsersList lc first engine who b) = Some (Inr (sort_by (directory_order lc) rows))"
    using Some assms(2) by (simp add: resolveUsersList_def and_then_def or_throw_def give_def)
  ultimately show ?thesis unfolding out option.case sum.case
    by (intro exI [of _ listed] exI [of _ enrolled] conjI) simp_all
qed

definition sample_principal :: WirePrincipalRecord where
  "sample_principal = \<lparr>wpr_account_type = ''human'', wpr_binding_status = None, wpr_bound_connector = None, wpr_email = ''ada@x'',
     wpr_enabled = True, wpr_first_seen = NInt 5, wpr_groups = [], wpr_last_seen_bucket = None, wpr_namespace = ''enterprise'',
     wpr_org = ''x'', wpr_origin = ''local'', wpr_owned_fields = [], wpr_principal_id = ''p1'', wpr_privileges = [],
     wpr_status = ''active'', wpr_subject_id = None, wpr_username = ''ada''\<rparr>"

definition sample_agent :: WireAgentRecord where
  "sample_agent = \<lparr>war_agent_id = ''Bot'', war_attributes = [], war_enrolled_at = NInt 7, war_status = ''active''\<rparr>"

definition silent_verb :: "(unit, 'q, 'a) verb" where
  "silent_verb who request w = (None, w)"

definition sample_users :: "unit users_engine" where
  "sample_users = \<lparr>eng_listPrincipals = (\<lambda>_ _ w. (Some (Inr \<lparr>wpl_principals = [sample_principal]\<rparr>), w)),
     eng_listAgents = (\<lambda>_ _ w. (Some (Inr \<lparr>wal_agents = [sample_agent]\<rparr>), w)), eng_listGroups = silent_verb,
     eng_principalCreate = silent_verb, eng_principalEdit = silent_verb, eng_principalSetStatus = silent_verb,
     eng_groupCreate = silent_verb, eng_groupEdit = silent_verb, eng_groupSetMembers = silent_verb,
     eng_idamConnectors = silent_verb, eng_idamSync = silent_verb, eng_idamConnect = silent_verb,
     eng_idamConfigure = silent_verb\<rparr>"

lemmas sample_users_simps =
  merged_rows_def toPrincipalRows_def toPrincipalRow_def toAgentPrincipalRow_def sample_principal_def sample_agent_def
  toKind_def toStatus_def toOrigin_def PRINCIPAL_KINDS_def PRINCIPAL_STATUSES_def PRINCIPAL_ORIGINS_def narrow_in_def

theorem directory_whole_witness:
  "\<exists>who. case fst (resolveUsersList unit_order True sample_users who \<lparr>bk_ids = 1, bk_sent = [], bk_world = ()\<rparr>) of
      Some (Inr rows) \<Rightarrow> map pw_username rows = [''Bot'', ''ada''] \<and> sorted_wrt (\<lambda>x y. directory_order unit_order x y \<le> 0) rows
    | _ \<Rightarrow> False"
proof -
  fix who :: OperatorPrincipal
  let ?b = "\<lparr>bk_ids = 1, bk_sent = [], bk_world = ()\<rparr>"
  let ?ps = "\<lparr>wpl_principals = [sample_principal]\<rparr>" and ?as = "\<lparr>wal_agents = [sample_agent]\<rparr>"
  have reads: "directory_reads True sample_users who ?b =
      (Some (Inr (?ps, ?as)), snd (directory_reads True sample_users who ?b))"
    by (simp add: directory_reads_def sample_users_def and_then_def requestId_def promise_all_def ask_def)
  have units: "utf16_units ''Bot'' = [66, 111, 116]" "utf16_units ''ada'' = [97, 100, 97]" by code_simp+
  obtain rows where rows: "merged_rows ?ps ?as = Some rows" by (simp add: sample_users_simps)
  then have "map pw_username (sort_by (directory_order unit_order) rows) = [''Bot'', ''ada'']"
    by (auto simp: sample_users_simps sort_by_def directory_order_def unit_order_def units)
  moreover have "fst (resolveUsersList unit_order True sample_users who ?b) = Some (Inr (sort_by (directory_order unit_order) rows))"
    unfolding resolveUsersList_def and_then_def by (subst reads) (simp add: rows or_throw_def give_def)
  ultimately show ?thesis using directory_whole [OF unit_order_collates reads] by (intro exI [of _ who]) auto
qed

text \<open>
  A connector card is green only when it should be.  A connector is shown as healthy exactly
  when it is enabled, has synced, reports no error, and its last walk was complete; an outcome the
  console does not know is shown as unknown.
\<close>
theorem connector_healthy:
  "(icn_state (toIdamConnector w) = HealthyState \<longleftrightarrow>
      wic_enabled w \<and> wic_last_error w = None \<and> wic_last_sync_unix_ms w \<noteq> None \<and> wic_last_completeness w = Some ''complete'') \<and>
   (icn_state (toIdamConnector w) = UnknownState \<longleftrightarrow>
      wic_enabled w \<and> wic_last_error w = None \<and> wic_last_sync_unix_ms w \<noteq> None \<and> icn_lastSyncOutcome (toIdamConnector w) = None)"
  by (cases "wic_last_completeness w")
    (auto simp: toIdamConnector_def deriveIdamState_def toIdamSyncOutcome_def IDAM_SYNC_OUTCOMES_def narrow_in_def
      split: IdamSyncOutcome.splits option.splits)

end
