(* ===== verification/Entities.thy ===== *)
theory Entities
  imports Users Numbers Objects
begin

text \<open>
  The entity drawer, the isolate command and the decision log: \<open>packages/contracts/src/entity.ts\<close>
  and \<open>logs.ts\<close> with the resolvers \<open>apps/bff/src/engine/entity-detail.ts\<close>, \<open>isolate.ts\<close> and
  \<open>logs.ts\<close>.  These requests carry the number 0.
\<close>

section \<open>Replies\<close>

record WireDecisionRow =
  wdr_confidence :: string
  wdr_created_at :: jsnum
  wdr_decision_id :: string
  wdr_evidence :: "string list"
  wdr_finding :: string
  wdr_recommended_action :: string
  wdr_rule_id :: string
  wdr_tactics :: "string list"
  wdr_technique :: string

record WireDecisionList =
  wdl_decisions :: "WireDecisionRow list"

record WireDecisionDetail =
  wdd_confidence :: string
  wdd_correlation_id :: string
  wdd_created_at :: jsnum
  wdd_decision_id :: string
  wdd_evidence :: "string list"
  wdd_finding :: string
  wdd_recommended_action :: string
  wdd_replay_as_of :: jsnum
  wdd_replay_digest :: string
  wdd_rule_id :: string
  wdd_scope :: string
  wdd_source_context :: "string list"
  wdd_source_hosts :: "string list"
  wdd_source_observations :: "string list"
  wdd_source_subjects :: "string list"
  wdd_tactics :: "string list"
  wdd_technique :: string
  wdd_watermark_seconds :: jsnum
  wdd_window_seconds :: jsnum

record WireLogExportEffect =
  wle_commit_version :: jsnum
  wle_export_id :: string
  wle_row_count :: jsnum
  wle_rows :: "WireDecisionRow list"

type_synonym query_row = "(string \<times> WireValue) list"

record WireQueryRows =
  wqr_cursor :: "jsnum list option"
  wqr_redacted_fields :: "string list"
  wqr_rows :: "query_row list"

datatype Action = PermitAction | MonitorAction | QuarantineAction | DenyAction

fun action_tag :: "Action \<Rightarrow> string" where
  "action_tag PermitAction = ''Permit''"
| "action_tag MonitorAction = ''Monitor''"
| "action_tag QuarantineAction = ''Quarantine''"
| "action_tag DenyAction = ''Deny''"

record WireContainEffect =
  wce_action :: Action
  wce_enforcement_active :: bool
  wce_summary :: string

section \<open>Views\<close>

datatype 'a SectionState =
    SectionOk 'a | SectionEmpty | NotApplicable | SectionPending string string | Unauthorized | SectionError string

datatype EntityStatus = EntityActive | EntitySuspended | EntityCompromised | EntityUnknown
datatype DecisionStatus = SuccessDecision | PassDecision | DeniedDecision | FlaggedDecision
datatype CapabilitySource = AigGraph | ConstructionReport

record HeaderView =
  hv_displayName :: string
  hv_kindLabel :: string
  hv_status :: EntityStatus

record EntityInfoView =
  ei_role :: "string option"
  ei_clearance :: "string option"
  ei_enrolledAt :: jsnum
  ei_tags :: "string list"

record ConnectedZone =
  cz_id :: string
  cz_name :: string

record ZonesView =
  zv_zones :: "ConnectedZone list"

record AgentCapabilityRow =
  acr_name :: string
  acr_surface :: string

datatype CapabilitiesView = Capabilities CapabilitySource "AgentCapabilityRow list" | NoCapabilities

datatype PolicyEffect = AllowEffect | DenyEffect
datatype PolicyOrigin = DirectPolicy | InheritedPolicy string

record EffectivePolicyRow =
  epr_id :: string
  epr_name :: string
  epr_effect :: PolicyEffect
  epr_origin :: PolicyOrigin

record EffectivePoliciesView =
  epv_policies :: "EffectivePolicyRow list"

record RecentDecisionRow =
  rd_decisionId :: string
  rd_ruleId :: string
  rd_summary :: string
  rd_outcome :: string
  rd_status :: DecisionStatus
  rd_at :: jsnum

record RecentDecisionsView =
  rdv_decisions :: "RecentDecisionRow list"

record EntityDetailView =
  edv_ref :: EntityRef
  edv_header :: "HeaderView SectionState"
  edv_info :: "EntityInfoView SectionState"
  edv_zones :: "ZonesView SectionState"
  edv_capabilities :: "CapabilitiesView SectionState"
  edv_effectivePolicies :: "EffectivePoliciesView SectionState"
  edv_recentDecisions :: "RecentDecisionsView SectionState"

record IsolateEffect =
  ief_posture :: string
  ief_enforcementActive :: bool
  ief_summary :: string

record LogRow =
  lr_decisionId :: string
  lr_at :: jsnum
  lr_ruleId :: string
  lr_summary :: string
  lr_outcome :: string
  lr_status :: DecisionStatus
  lr_technique :: string
  lr_tactics :: "string list"
  lr_confidence :: string
  lr_evidenceCount :: nat

record LogPage =
  lp_rows :: "LogRow list"

record LogExportView =
  lev_exportId :: string
  lev_commitVersion :: jsnum
  lev_rowCount :: jsnum
  lev_rows :: "LogRow list"

record LogDetailView =
  ldv_decisionId :: string
  ldv_at :: jsnum
  ldv_ruleId :: string
  ldv_finding :: string
  ldv_technique :: string
  ldv_tactics :: "string list"
  ldv_evidence :: "string list"
  ldv_confidence :: string
  ldv_outcome :: string
  ldv_scope :: string
  ldv_sourceHosts :: "string list"
  ldv_sourceSubjects :: "string list"
  ldv_sourceContext :: "string list"
  ldv_sourceObservations :: "string list"
  ldv_correlationId :: string
  ldv_replayAsOf :: jsnum
  ldv_watermarkSeconds :: jsnum
  ldv_windowSeconds :: jsnum
  ldv_replayDigest :: string
  ldv_actingEntity :: "EntityRef option"

section \<open>Projections\<close>

definition toEntityStatus :: "string \<Rightarrow> EntityStatus" where
  "toEntityStatus status =
     (if status = ''active'' then EntityActive else if status = ''suspended'' then EntitySuspended
      else if status = ''compromised'' then EntityCompromised else EntityUnknown)"

definition attribute :: "WireAgentRecord \<Rightarrow> string \<Rightarrow> string option" where
  "attribute w key = map_of (war_attributes w) key"

definition toHeader :: "WireAgentRecord \<Rightarrow> HeaderView" where
  "toHeader w = \<lparr>hv_displayName = war_agent_id w, hv_kindLabel = ''Agent'', hv_status = toEntityStatus (war_status w)\<rparr>"

definition principalHeader :: "PrincipalRow \<Rightarrow> HeaderView" where
  "principalHeader row =
     \<lparr>hv_displayName = pw_username row,
      hv_kindLabel = (case pw_kind row of HumanKind \<Rightarrow> ''Human'' | ServiceKind \<Rightarrow> ''Service Account'' | AgentKind \<Rightarrow> ''AI Agent''),
      hv_status = (case pw_status row of ActiveStatus \<Rightarrow> EntityActive | SuspendedStatus \<Rightarrow> EntitySuspended
        | CompromisedStatus \<Rightarrow> EntityCompromised | RevokedStatus \<Rightarrow> EntitySuspended | DisabledStatus \<Rightarrow> EntitySuspended)\<rparr>"

text \<open>\<open>`key=${value}`\<close>\<close>

definition pair_text :: "string \<Rightarrow> string \<Rightarrow> string" where
  "pair_text key v = key @ ''='' @ v"

definition principalInfo :: "PrincipalRow \<Rightarrow> EntityInfoView" where
  "principalInfo row =
     \<lparr>ei_role = None, ei_clearance = None, ei_enrolledAt = pw_firstSeen row,
      ei_tags = [pair_text ''origin'' (principal_origin_tag (pw_origin row)), pair_text ''namespace'' (pw_namespace row)] @
        (if pw_status row = RevokedStatus \<or> pw_status row = DisabledStatus
         then [pair_text ''lifecycle'' (principal_status_tag (pw_status row))] else []) @
        (if pw_email row = [] then [] else [pair_text ''email'' (pw_email row)]) @
        (if pw_org row = [] then [] else [pair_text ''org'' (pw_org row)]) @
        map (pair_text ''group'') (pw_groups row) @
        map (pair_text ''privilege'') (pw_privileges row) @
        (case pw_subjectId row of None \<Rightarrow> [] | Some s \<Rightarrow> [pair_text ''identity'' s])\<rparr>"

definition toInfo :: "WireAgentRecord \<Rightarrow> EntityInfoView" where
  "toInfo w =
     \<lparr>ei_role = attribute w ''role'', ei_clearance = attribute w ''clearance'', ei_enrolledAt = war_enrolled_at w,
      ei_tags = map (\<lambda>(key, v). pair_text key v)
        (filter (\<lambda>(key, v). key \<noteq> ''role'' \<and> key \<noteq> ''clearance'') (war_attributes w))\<rparr>"

text \<open>\<open>a.includes(s)\<close>\<close>

definition has_word :: "string \<Rightarrow> string \<Rightarrow> bool" where
  "has_word a s \<longleftrightarrow> list_ex (prefix s) (suffixes a)"

definition toDecisionStatus :: "string \<Rightarrow> DecisionStatus" where
  "toDecisionStatus action =
     (let a = toLowerCase action
      in if list_ex (has_word a) [''escalate'', ''deny'', ''quarantine'', ''block''] then DeniedDecision
         else if list_ex (has_word a) [''candidate'', ''flag'', ''alert'', ''monitor''] then FlaggedDecision
         else if list_ex (has_word a) [''observe'', ''pass''] then PassDecision
         else SuccessDecision)"

definition toDecisionRow :: "WireDecisionRow \<Rightarrow> RecentDecisionRow" where
  "toDecisionRow w =
     \<lparr>rd_decisionId = wdr_decision_id w, rd_ruleId = wdr_rule_id w, rd_summary = wdr_finding w,
      rd_outcome = wdr_recommended_action w, rd_status = toDecisionStatus (wdr_recommended_action w),
      rd_at = num_times (wdr_created_at w) 1000\<rparr>"

definition textCell :: "query_row \<Rightarrow> string \<Rightarrow> string option" where
  "textCell row cell = (case map_of row cell of Some (VText s) \<Rightarrow> Some s | _ \<Rightarrow> None)"

definition capabilitySurface :: "string \<Rightarrow> string" where
  "capabilitySurface relation =
     (if relation = ''USES_TOOL'' then ''tools'' else if relation = ''GRANTS_AUTHORITY'' then ''authority''
      else if relation = ''DELEGATES_TO'' then ''delegation'' else toLowerCase relation)"

definition toCapabilityRow :: "query_row \<Rightarrow> AgentCapabilityRow option" where
  "toCapabilityRow row = do {
     relation \<leftarrow> textCell row ''relation'';
     target \<leftarrow> textCell row ''target'';
     Some \<lparr>acr_name = target, acr_surface = capabilitySurface relation\<rparr>
   }"

definition toCapabilityRows :: "WireQueryRows \<Rightarrow> AgentCapabilityRow list" where
  "toCapabilityRows w = List.map_filter toCapabilityRow (wqr_rows w)"

definition toConstructionRow :: "query_row \<Rightarrow> AgentCapabilityRow option" where
  "toConstructionRow row = do {
     surface \<leftarrow> textCell row ''surface'';
     entry \<leftarrow> textCell row ''entry'';
     if entry = [] then None else Some \<lparr>acr_name = entry, acr_surface = surface\<rparr>
   }"

definition toConstructionRows :: "WireQueryRows \<Rightarrow> AgentCapabilityRow list" where
  "toConstructionRows w = List.map_filter toConstructionRow (wqr_rows w)"

section \<open>The drawer\<close>

record 'w entity_engine =
  ent_listAgents :: "('w, WireListAgents, WireAgentList) verb"
  ent_listPrincipals :: "('w, WireListPrincipals, WirePrincipalList) verb"
  ent_entityDecisions :: "('w, WireEntityDecisions, WireDecisionList) verb"
  ent_querySubmit :: "('w, WireQuerySubmit, WireQueryRows) verb"
  ent_objectDetail :: "('w, WireObjectDetailQuery, WireObjectDetail) verb"
  ent_contain :: "('w, WireContain, WireContainEffect) verb"
  ent_logQuery :: "('w, WireLogQuery, WireDecisionList) verb"
  ent_logExplain :: "('w, WireLogExplain, WireDecisionDetail) verb"
  ent_logExport :: "('w, WireLogExport, WireLogExportEffect) verb"

text \<open>One entry of \<open>Promise.allSettled\<close>, or a \<open>try\<close> with a \<open>catch\<close>: the outcome as a value.\<close>

definition outcome_of :: "('w, 'a) resolver \<Rightarrow> ('w, thrown + 'a) resolver" where
  "outcome_of m b = (case m b of (res, b') \<Rightarrow> (map_option Inr res, b'))"

definition numbered :: "jsnum \<Rightarrow> WireRead" where
  "numbered i = \<lparr>request_id = i, operator = None\<rparr>"

text \<open>The sections of an object, from the outcome of its read.\<close>

definition pending_policies :: "EffectivePoliciesView SectionState" where
  "pending_policies = SectionPending ''crdb'' ''TRD-CONSOLE-05 Policy surface (object -> governing-policy resolution)''"

definition selector_label :: "SelectorKind \<Rightarrow> string" where
  "selector_label k = (if selector_kind_tag k = ''cidr'' then ''CIDR'' else if selector_kind_tag k = ''group_ref'' then ''group''
     else selector_kind_tag k)"

definition object_tags :: "ObjectCard \<Rightarrow> string list \<Rightarrow> string list" where
  "object_tags c memberNames =
     [''selector='' @ selector_label (o_selectorKind c) @ '' '' @ o_selectorValue c, pair_text ''lifecycle'' (lifecycle_tag (o_lifecycle c))] @
     map (pair_text ''tag'') (o_tags c) @ map (pair_text ''attribute'') (o_attributes c) @ map (pair_text ''member'') memberNames"

definition object_view :: "EntityRef \<Rightarrow> thrown + WireObjectDetail \<Rightarrow> EntityDetailView" where
  "object_view ref res =
     (let show = (\<lambda>header info. \<lparr>edv_ref = ref, edv_header = header, edv_info = info, edv_zones = NotApplicable,
            edv_capabilities = NotApplicable, edv_effectivePolicies = pending_policies, edv_recentDecisions = NotApplicable\<rparr>)
      in case (case res of Inl _ \<Rightarrow> None | Inr d \<Rightarrow> toObjectDetail d) of
           None \<Rightarrow> show (SectionError ''object registry unavailable'') (SectionError ''object registry unavailable'')
         | Some detail \<Rightarrow> (case odv_object detail of
               None \<Rightarrow> show SectionEmpty SectionEmpty
             | Some c \<Rightarrow> show (SectionOk \<lparr>hv_displayName = o_name c, hv_kindLabel = objectKindLabel (o_kind c), hv_status = EntityUnknown\<rparr>)
                 (SectionOk \<lparr>ei_role = None, ei_clearance = None, ei_enrolledAt = NInt 0, ei_tags = object_tags c (odv_members detail)\<rparr>)))"

definition resolveObjectEntity :: "'w entity_engine \<Rightarrow> OperatorPrincipal \<Rightarrow> EntityRef \<Rightarrow> ('w, EntityDetailView) resolver" where
  "resolveObjectEntity engine who ref =
     and_then (outcome_of (ask (ent_objectDetail engine) (\<lambda>q. Directory (ReqObjectDetail q)) who
         \<lparr>request_id = NInt 0, operator = None, rq_name = er_id ref\<rparr>))
       (\<lambda>res. give (object_view ref res))"

text \<open>The reads of any other entity, all started, and the query of its rows.\<close>

definition capability_query :: "string \<Rightarrow> string \<Rightarrow> WireQuerySubmit" where
  "capability_query query agent = \<lparr>request_id = NInt 0, operator = None, qs_text = query, qs_params = [(''a'', VText agent)]\<rparr>"

record entity_reads =
  rds_directory :: "thrown + WireAgentList"
  rds_principals :: "thrown + WirePrincipalList"
  rds_decisions :: "thrown + WireDecisionList"
  rds_capabilities :: "thrown + WireQueryRows"
  rds_construction :: "thrown + WireQueryRows"

definition entity_reads_of :: "'w entity_engine \<Rightarrow> OperatorPrincipal \<Rightarrow> EntityRef \<Rightarrow> ('w, entity_reads) resolver" where
  "entity_reads_of engine who ref =
     and_then
       (promise_all True (outcome_of (ask (ent_listAgents engine) (\<lambda>q. Directory (ReqListAgents q)) who (numbered (NInt 0))))
       (promise_all True (outcome_of (ask (ent_listPrincipals engine) (\<lambda>q. Directory (ReqListPrincipals q)) who (numbered (NInt 0))))
       (promise_all True (outcome_of (ask (ent_entityDecisions engine) (\<lambda>q. Core (ReqEntityDecisions q)) who
           \<lparr>request_id = NInt 0, operator = None, ed_entity_type = er_kind ref, ed_entity_value = er_id ref, ed_limit = NInt 50\<rparr>))
       (promise_all True (outcome_of (ask (ent_querySubmit engine) (\<lambda>q. Core (ReqQuerySubmit q)) who
           (capability_query ''FIND agent_capabilities WHERE agent_id = $a RETURN relation, target'' (er_id ref))))
         (outcome_of (ask (ent_querySubmit engine) (\<lambda>q. Core (ReqQuerySubmit q)) who
           (capability_query ''FIND construction_report WHERE agent_id = $a RETURN surface, entry'' (er_id ref))))))))
       (\<lambda>(d, p, c, a, t). give \<lparr>rds_directory = d, rds_principals = p, rds_decisions = c, rds_capabilities = a, rds_construction = t\<rparr>)"

definition agent_record :: "EntityRef \<Rightarrow> entity_reads \<Rightarrow> WireAgentRecord option" where
  "agent_record ref reads = (case rds_directory reads of Inl _ \<Rightarrow> None
     | Inr l \<Rightarrow> List.find (\<lambda>a. war_agent_id a = er_id ref) (wal_agents l))"

definition principal_row :: "EntityRef \<Rightarrow> entity_reads \<Rightarrow> PrincipalRow option" where
  "principal_row ref reads = (case rds_principals reads of Inl _ \<Rightarrow> None
     | Inr l \<Rightarrow> Option.bind (toPrincipalRows l) (List.find (\<lambda>row. pw_principalId row = er_id ref)))"

definition identity_sections :: "EntityRef \<Rightarrow> entity_reads \<Rightarrow> HeaderView SectionState \<times> EntityInfoView SectionState" where
  "identity_sections ref reads = (case agent_record ref reads of
       Some w \<Rightarrow> (SectionOk (toHeader w), SectionOk (toInfo w))
     | None \<Rightarrow> (case principal_row ref reads of
           Some row \<Rightarrow> (SectionOk (principalHeader row), SectionOk (principalInfo row))
         | None \<Rightarrow> (if \<not> isl (rds_directory reads) \<and> \<not> isl (rds_principals reads) then (SectionEmpty, SectionEmpty)
             else (SectionError ''entity directory unavailable'', SectionError ''entity directory unavailable''))))"

definition capabilities_section :: "EntityRef \<Rightarrow> entity_reads \<Rightarrow> CapabilitiesView SectionState" where
  "capabilities_section ref reads =
     (if isl (rds_directory reads) then SectionError ''agent directory unavailable''
      else if agent_record ref reads = None then NotApplicable
      else let report = (case rds_construction reads of Inl _ \<Rightarrow> [] | Inr rows \<Rightarrow> toConstructionRows rows)
        in if report \<noteq> [] then SectionOk (Capabilities ConstructionReport report)
           else case rds_capabilities reads of
             Inl _ \<Rightarrow> SectionError ''capabilities unavailable''
           | Inr rows \<Rightarrow> (if toCapabilityRows rows = [] then SectionEmpty else SectionOk (Capabilities AigGraph (toCapabilityRows rows))))"

definition decisions_section :: "entity_reads \<Rightarrow> RecentDecisionsView SectionState" where
  "decisions_section reads = (case rds_decisions reads of
       Inl _ \<Rightarrow> SectionError ''decisions unavailable''
     | Inr l \<Rightarrow> (if wdl_decisions l = [] then SectionEmpty else SectionOk \<lparr>rdv_decisions = map toDecisionRow (wdl_decisions l)\<rparr>))"

definition entity_view :: "EntityRef \<Rightarrow> entity_reads \<Rightarrow> EntityDetailView" where
  "entity_view ref reads = (case identity_sections ref reads of (header, info) \<Rightarrow>
     \<lparr>edv_ref = ref, edv_header = header, edv_info = info,
      edv_zones = SectionPending ''forge'' ''Forge VTZ membership store (not queryable in crdb)'',
      edv_capabilities = capabilities_section ref reads,
      edv_effectivePolicies = SectionPending ''forge'' ''Forge effective-policy resolution (not queryable in crdb)'',
      edv_recentDecisions = decisions_section reads\<rparr>)"

definition resolveEntityDetail :: "'w entity_engine \<Rightarrow> OperatorPrincipal \<Rightarrow> EntityRef \<Rightarrow> ('w, EntityDetailView) resolver" where
  "resolveEntityDetail engine who ref =
     (if er_kind ref = ''object'' then resolveObjectEntity engine who ref
      else shown_as (entity_view ref) (entity_reads_of engine who ref))"

section \<open>Isolate\<close>

definition actionForPosture :: "string \<Rightarrow> Action" where
  "actionForPosture posture = (if posture = ''deny'' then DenyAction else QuarantineAction)"

definition postureForAction :: "Action \<Rightarrow> string" where
  "postureForAction action = (if action = DenyAction then ''deny'' else ''quarantine'')"

definition containment :: "EntityRef \<Rightarrow> IsolateRequest \<Rightarrow> int \<Rightarrow> WireContain" where
  "containment ref request now = \<lparr>ct_operator = None, ct_request = JObj
     [(''subject'', JStr (er_id ref)), (''action'', JStr (action_tag (actionForPosture (iq_posture request)))),
      (''reason'', JStr (''Operator isolate from the Console ('' @ iq_posture request @ '')'')),
      (''command_id'', JStr (iq_commandId request)), (''issued_at'', JNum (NInt now)),
      (''derived_from_decision_id'', JNull), (''ai_assist'', JNull)]\<rparr>"

definition resolveIsolate :: "'w entity_engine \<Rightarrow> OperatorPrincipal \<Rightarrow> EntityRef \<Rightarrow> IsolateRequest \<Rightarrow> int \<Rightarrow> ('w, IsolateEffect) resolver" where
  "resolveIsolate engine who ref request now =
     and_then (ask (ent_contain engine) (\<lambda>q. Core (ReqContain q)) who (containment ref request now))
       (\<lambda>w. give \<lparr>ief_posture = postureForAction (wce_action w), ief_enforcementActive = wce_enforcement_active w,
          ief_summary = wce_summary w\<rparr>)"

section \<open>The decision log\<close>

definition toLogRow :: "WireDecisionRow \<Rightarrow> LogRow" where
  "toLogRow w =
     \<lparr>lr_decisionId = wdr_decision_id w, lr_at = num_times (wdr_created_at w) 1000, lr_ruleId = wdr_rule_id w,
      lr_summary = wdr_finding w, lr_outcome = wdr_recommended_action w, lr_status = toDecisionStatus (wdr_recommended_action w),
      lr_technique = wdr_technique w, lr_tactics = wdr_tactics w, lr_confidence = wdr_confidence w, lr_evidenceCount = length (wdr_evidence w)\<rparr>"

definition actingEntityOf :: "WireDecisionDetail \<Rightarrow> EntityRef option" where
  "actingEntityOf w = (case wdd_source_subjects w of
       [] \<Rightarrow> None
     | subject # _ \<Rightarrow> if subject = [] then None else Some \<lparr>er_kind = ''principal'', er_id = subject\<rparr>)"

definition toLogDetail :: "WireDecisionDetail \<Rightarrow> LogDetailView" where
  "toLogDetail w =
     \<lparr>ldv_decisionId = wdd_decision_id w, ldv_at = num_times (wdd_created_at w) 1000,
      ldv_ruleId = wdd_rule_id w, ldv_finding = wdd_finding w, ldv_technique = wdd_technique w, ldv_tactics = wdd_tactics w, ldv_evidence = wdd_evidence w, ldv_confidence = wdd_confidence w, ldv_outcome = wdd_recommended_action w, ldv_scope = wdd_scope w,
      ldv_sourceHosts = wdd_source_hosts w, ldv_sourceSubjects = wdd_source_subjects w, ldv_sourceContext = wdd_source_context w, ldv_sourceObservations = wdd_source_observations w,
      ldv_correlationId = wdd_correlation_id w, ldv_replayAsOf = wdd_replay_as_of w, ldv_watermarkSeconds = wdd_watermark_seconds w, ldv_windowSeconds = wdd_window_seconds w, ldv_replayDigest = wdd_replay_digest w,
      ldv_actingEntity = actingEntityOf w\<rparr>"

text \<open>\<open>Math.floor(ms / 1000)\<close>\<close>

definition seconds_of :: "jsnum \<Rightarrow> jsnum" where
  "seconds_of ms = (let s = num_over ms 1000
     in if is_finite s then (case ratio s of (p, q) \<Rightarrow> number_of_ratio (p < 0) (nat \<bar>p div q\<bar>) 1) else s)"

definition filterToWire :: "LogQueryFilter \<Rightarrow> WireLogQuery" where
  "filterToWire f =
     \<lparr>request_id = NInt 0, operator = None,
      lq_since = map_option seconds_of (lf_since f), lq_until = map_option seconds_of (lf_until f),
      lq_technique = lf_technique f, lq_tactic = lf_tactic f, lq_rule_id = lf_ruleId f, lq_confidence = lf_confidence f,
      lq_action = lf_action f, lq_search = lf_search f, lq_limit = lf_limit f,
      lq_offset = (case lf_offset f of None \<Rightarrow> None | Some n \<Rightarrow> if num_less (NInt 0) n then Some n else None)\<rparr>"

definition resolveLogQuery :: "'w entity_engine \<Rightarrow> OperatorPrincipal \<Rightarrow> LogQueryFilter \<Rightarrow> ('w, LogPage) resolver" where
  "resolveLogQuery engine who f =
     and_then (ask (ent_logQuery engine) (\<lambda>q. Core (ReqLogQuery q)) who (filterToWire f))
       (\<lambda>l. give \<lparr>lp_rows = map toLogRow (wdl_decisions l)\<rparr>)"

definition resolveLogExplain :: "'w entity_engine \<Rightarrow> OperatorPrincipal \<Rightarrow> string \<Rightarrow> ('w, LogDetailView) resolver" where
  "resolveLogExplain engine who decision =
     and_then (ask (ent_logExplain engine) (\<lambda>q. Core (ReqLogExplain q)) who
         \<lparr>request_id = NInt 0, operator = None, le_decision_id = decision\<rparr>)
       (\<lambda>d. give (toLogDetail d))"

definition resolveLogExport :: "'w entity_engine \<Rightarrow> OperatorPrincipal \<Rightarrow> LogExportRequest \<Rightarrow> int \<Rightarrow> ('w, LogExportView) resolver" where
  "resolveLogExport engine who request now =
     and_then (ask (ent_logExport engine) (\<lambda>q. Core (ReqLogExport q)) who
         \<lparr>lx_operator = None, lx_query = filterToWire (le_filter request), lx_command_id = le_commandId request,
          lx_issued_at = seconds_of (NInt now)\<rparr>)
       (\<lambda>w. give \<lparr>lev_exportId = wle_export_id w, lev_commitVersion = wle_commit_version w, lev_rowCount = wle_row_count w,
          lev_rows = map toLogRow (wle_rows w)\<rparr>)"

section \<open>What the drawer asks\<close>

lemma speaks_outcome [speak_intros]: "speaks who i m \<Longrightarrow> speaks who i (outcome_of m)"
  unfolding speaks_def outcome_of_def by (auto split: prod.split) (metis snd_conv)

lemma speaks_once: "(\<And>w. speaks who 0 (k w)) \<Longrightarrow> speaks who 1 (and_then (ask verb form who request) k)"
  by (rule speaks_bind [OF speaks_ask]) simp_all

lemma speaks_reads: "speaks who 5 (entity_reads_of engine who ref)"
proof -
  have "speaks who 0 (case x of (d, p, c, a, t) \<Rightarrow> give \<lparr>rds_directory = d, rds_principals = p, rds_decisions = c, rds_capabilities = a, rds_construction = t\<rparr>)" for x
    by (cases x) (simp add: speaks_pure)
  then have "speaks who (1 + (1 + (1 + (1 + 1))) + 0) (entity_reads_of engine who ref)"
    unfolding entity_reads_of_def by (intro speak_intros) auto
  then show ?thesis by (simp add: eval_nat_numeral)
qed

lemma speaks_entity_detail: "speaks who 5 (resolveEntityDetail engine who ref)"
proof -
  have "speaks who 1 (resolveObjectEntity engine who ref)"
    unfolding resolveObjectEntity_def by (rule speaks_bind [OF speaks_outcome [OF speaks_ask]]) (simp_all add: speaks_pure)
  then show ?thesis unfolding resolveEntityDetail_def by (auto intro: speaks_shown speaks_reads speaks_mono)
qed

section \<open>What the drawer shows\<close>

text \<open>A resolver that never rejects, and one that settles whatever its state.\<close>

definition tolerant :: "('w, 'a) resolver \<Rightarrow> bool" where
  "tolerant m \<longleftrightarrow> (\<forall>b e. fst (m b) \<noteq> Some (Inl e))"

definition answering :: "('w, 'a) resolver \<Rightarrow> bool" where
  "answering m \<longleftrightarrow> (\<forall>b. fst (m b) \<noteq> None)"

definition heard :: "('w, 'q, 'a) verb \<Rightarrow> bool" where
  "heard verb \<longleftrightarrow> (\<forall>who q w. fst (verb who q w) \<noteq> None)"

named_theorems tolerance

lemma tolerant_give [tolerance]: "tolerant (give x)" "answering (give x)"
  by (simp_all add: tolerant_def answering_def give_def)

lemma tolerant_outcome [tolerance]: "tolerant (outcome_of m)"
  by (auto simp: tolerant_def outcome_of_def split: prod.split)

lemma answering_outcome [tolerance]: "heard verb \<Longrightarrow> answering (outcome_of (ask verb form who q))"
  by (auto simp: answering_def heard_def outcome_of_def ask_def split: prod.split) (metis fst_conv)

lemma tolerant_both [tolerance]: "tolerant m \<Longrightarrow> tolerant n \<Longrightarrow> tolerant (promise_all first m n)"
  unfolding tolerant_def
  by (auto simp: promise_all_def split: prod.splits elim!: settle_all.elims) (metis fst_conv)+

lemma answering_both [tolerance]:
  assumes "answering m" "tolerant m" "answering n" "tolerant n"
  shows "answering (promise_all first m n)"
  unfolding answering_def
proof
  fix b
  obtain res b1 res' b2 where mn: "m b = (res, b1)" "n b1 = (res', b2)" by (meson surj_pair)
  then obtain x y where "res = Some (Inr x)" "res' = Some (Inr y)"
    using assms unfolding answering_def tolerant_def by (metis fst_conv not_None_eq old.sum.exhaust)
  then show "fst (promise_all first m n b) \<noteq> None" using mn by (simp add: promise_all_def)
qed

lemma tolerant_bind [tolerance]: "tolerant m \<Longrightarrow> (\<And>x. tolerant (k x)) \<Longrightarrow> tolerant (and_then m k)"
  unfolding tolerant_def by (auto simp: and_then_def split: prod.splits option.splits sum.splits) (metis fst_conv)+

lemma answering_bind [tolerance]: "answering m \<Longrightarrow> (\<And>x. answering (k x)) \<Longrightarrow> answering (and_then m k)"
  unfolding answering_def by (auto simp: and_then_def split: prod.splits option.splits sum.splits) (metis fst_conv option.distinct(1))

lemma reads_tolerant: "tolerant (entity_reads_of engine who ref)"
  unfolding entity_reads_of_def by (intro tolerance) (auto simp: tolerance split: prod.split)

lemma reads_answering:
  assumes "heard (ent_listAgents engine)" "heard (ent_listPrincipals engine)" "heard (ent_entityDecisions engine)" "heard (ent_querySubmit engine)"
  shows "answering (entity_reads_of engine who ref)"
  unfolding entity_reads_of_def using assms by (intro tolerance) (auto simp: tolerance split: prod.split)

text \<open>Where each part of the drawer comes from.\<close>

definition header_sourced :: "EntityRef \<Rightarrow> entity_reads \<Rightarrow> HeaderView \<Rightarrow> bool" where
  "header_sourced ref reads h \<longleftrightarrow>
     (\<exists>l w. rds_directory reads = Inr l \<and> w \<in> set (wal_agents l) \<and> war_agent_id w = er_id ref \<and> h = toHeader w) \<or>
     (\<exists>l w row. rds_principals reads = Inr l \<and> w \<in> set (wpl_principals l) \<and> principal_shown w row \<and>
        wpr_principal_id w = er_id ref \<and> h = principalHeader row)"

definition unlisted :: "EntityRef \<Rightarrow> entity_reads \<Rightarrow> bool" where
  "unlisted ref reads \<longleftrightarrow> (case rds_directory reads of Inl _ \<Rightarrow> True | Inr l \<Rightarrow> list_all (\<lambda>w. war_agent_id w \<noteq> er_id ref) (wal_agents l))"

lemma agent_record_None: "agent_record ref reads = None \<longleftrightarrow> unlisted ref reads"
  by (auto simp: agent_record_def unlisted_def find_None_iff list_all_iff split: sum.split)

lemma agent_record_Some:
  "agent_record ref reads = Some w \<Longrightarrow> \<exists>l. rds_directory reads = Inr l \<and> w \<in> set (wal_agents l) \<and> war_agent_id w = er_id ref"
  by (auto simp: agent_record_def find_Some_iff split: sum.splits)

lemma principal_row_Some:
  assumes "principal_row ref reads = Some row"
  shows "\<exists>l w. rds_principals reads = Inr l \<and> w \<in> set (wpl_principals l) \<and> principal_shown w row \<and> wpr_principal_id w = er_id ref"
proof -
  obtain l rows where l: "rds_principals reads = Inr l" "toPrincipalRows l = Some rows" "row \<in> set rows" "pw_principalId row = er_id ref"
    using assms by (auto simp: principal_row_def find_Some_iff Option.bind_eq_Some_conv split: sum.splits)
  then have "list_all2 principal_shown (wpl_principals l) rows"
    by (simp add: toPrincipalRows_def traverse_shown [OF principal_projection])
  then obtain w where "w \<in> set (wpl_principals l)" "principal_shown w row"
    using l(3) by (metis in_set_conv_nth list_all2_conv_all_nth)
  then show ?thesis using l by (auto simp: principal_shown_def)
qed

definition capability_sourced :: "CapabilitySource \<Rightarrow> entity_reads \<Rightarrow> AgentCapabilityRow \<Rightarrow> bool" where
  "capability_sourced source reads row \<longleftrightarrow> (case source of
       ConstructionReport \<Rightarrow> (\<exists>rows cells. rds_construction reads = Inr rows \<and> cells \<in> set (wqr_rows rows) \<and>
         textCell cells ''entry'' = Some (acr_name row) \<and> textCell cells ''surface'' = Some (acr_surface row) \<and> acr_name row \<noteq> [])
     | AigGraph \<Rightarrow> (\<exists>rows cells relation. rds_capabilities reads = Inr rows \<and> cells \<in> set (wqr_rows rows) \<and>
         textCell cells ''target'' = Some (acr_name row) \<and> textCell cells ''relation'' = Some relation \<and>
         acr_surface row = capabilitySurface relation))"

lemma construction_sourced:
  "rds_construction reads = Inr rows \<Longrightarrow> row \<in> set (toConstructionRows rows) \<Longrightarrow> capability_sourced ConstructionReport reads row"
  by (auto simp: toConstructionRows_def map_filter_def toConstructionRow_def capability_sourced_def Option.bind_eq_Some_conv split: if_splits)

lemma graph_sourced:
  "rds_capabilities reads = Inr rows \<Longrightarrow> row \<in> set (toCapabilityRows rows) \<Longrightarrow> capability_sourced AigGraph reads row"
  by (auto simp: toCapabilityRows_def map_filter_def toCapabilityRow_def capability_sourced_def Option.bind_eq_Some_conv split: if_splits)

definition header_true :: "EntityRef \<Rightarrow> entity_reads \<Rightarrow> HeaderView SectionState \<Rightarrow> bool" where
  "header_true ref reads section \<longleftrightarrow> (case section of
       SectionOk h \<Rightarrow> header_sourced ref reads h
     | SectionEmpty \<Rightarrow> unlisted ref reads \<and> \<not> isl (rds_directory reads) \<and> \<not> isl (rds_principals reads)
     | SectionError _ \<Rightarrow> unlisted ref reads \<and> (isl (rds_directory reads) \<or> isl (rds_principals reads))
     | _ \<Rightarrow> False)"

definition capabilities_true :: "EntityRef \<Rightarrow> entity_reads \<Rightarrow> CapabilitiesView SectionState \<Rightarrow> bool" where
  "capabilities_true ref reads section \<longleftrightarrow> (case section of
       SectionOk (Capabilities source rows) \<Rightarrow> \<not> unlisted ref reads \<and> rows \<noteq> [] \<and> list_all (capability_sourced source reads) rows
     | SectionEmpty \<Rightarrow> \<not> unlisted ref reads \<and> \<not> isl (rds_capabilities reads)
     | NotApplicable \<Rightarrow> unlisted ref reads \<and> \<not> isl (rds_directory reads)
     | SectionError _ \<Rightarrow> isl (rds_directory reads) \<or> isl (rds_capabilities reads)
     | _ \<Rightarrow> False)"

definition decisions_true :: "entity_reads \<Rightarrow> RecentDecisionsView SectionState \<Rightarrow> bool" where
  "decisions_true reads section \<longleftrightarrow> (case section of
       SectionOk v \<Rightarrow> (\<exists>l. rds_decisions reads = Inr l \<and> map rd_decisionId (rdv_decisions v) = map wdr_decision_id (wdl_decisions l) \<and>
         map rd_outcome (rdv_decisions v) = map wdr_recommended_action (wdl_decisions l) \<and> wdl_decisions l \<noteq> [])
     | SectionEmpty \<Rightarrow> (\<exists>l. rds_decisions reads = Inr l \<and> wdl_decisions l = [])
     | SectionError _ \<Rightarrow> isl (rds_decisions reads)
     | _ \<Rightarrow> False)"

lemma header_shown: "header_true ref reads (fst (identity_sections ref reads))"
proof (cases "agent_record ref reads")
  case None
  then have "unlisted ref reads" by (simp add: agent_record_None)
  then show ?thesis using None principal_row_Some [of ref reads]
    by (cases "principal_row ref reads") (auto simp: header_true_def identity_sections_def header_sourced_def, blast)
next
  case (Some w)
  then show ?thesis using agent_record_Some [OF Some] by (auto simp: header_true_def identity_sections_def header_sourced_def)
qed

lemma capabilities_shown: "capabilities_true ref reads (capabilities_section ref reads)"
  using construction_sourced [of reads] graph_sourced [of reads] agent_record_None [of ref reads]
  by (auto simp: capabilities_true_def capabilities_section_def Let_def list_all_iff split: sum.splits)

lemma decisions_shown: "decisions_true reads (decisions_section reads)"
  by (auto simp: decisions_true_def decisions_section_def toDecisionRow_def split: sum.split)


text \<open>
  A directory that the console cannot narrow reads as an entity that is not there: the header is
  empty although a principal of that identifier was listed.
\<close>

lemma unreadable_directory_reads_empty:
  assumes "agent_record ref reads = None" "rds_directory reads = Inr l" "rds_principals reads = Inr ps" "toPrincipalRows ps = None"
  shows "fst (identity_sections ref reads) = SectionEmpty"
  using assms by (simp add: identity_sections_def principal_row_def)

text \<open>An agent whose construction report could not be read, and without edges, is shown to have no capabilities.\<close>

lemma lost_report_reads_empty:
  assumes "agent_record ref reads = Some w" "rds_construction reads = Inl e" "rds_capabilities reads = Inr rows" "toCapabilityRows rows = []"
  shows "capabilities_section ref reads = SectionEmpty"
  using assms by (auto simp: capabilities_section_def agent_record_def split: sum.splits)

end
