(* ===== verification/ReverseDns.thy ===== *)
theory ReverseDns
  imports Http Stores "HOL-Library.Multiset"
begin

text \<open>
  The names of destinations: \<open>apps/bff/src/engine/reverse-dns.ts\<close>, a cache of reverse lookups that
  land in the background.  A read serves what is cached and fresh and starts lookups for the rest;
  the lookups, at most so many at a time, land later in any order, and each result is cached,
  found or not.  The resolver itself is outside: a landing carries what it answered, or nothing
  when it failed or took too long.
\<close>

section \<open>The cache\<close>

record CacheEntry =
  ce_name :: "string option"
  ce_resolvedAtMs :: int

record ReverseDnsConfig =
  rc_ttlMs :: int
  rc_lookupTimeoutMs :: int
  rc_maxConcurrent :: nat

definition DEFAULT_CONFIG :: ReverseDnsConfig where
  "DEFAULT_CONFIG = \<lparr>rc_ttlMs = 6 * 60 * 60 * 1000, rc_lookupTimeoutMs = 2000, rc_maxConcurrent = 8\<rparr>"

text \<open>One background pass: the addresses it has not taken yet, and those its workers wait for.\<close>

record background_pass =
  bp_waiting :: "string list"
  bp_running :: "string list"

record ReverseDnsResolver =
  rd_cache :: "(string, CacheEntry) jsmap"
  rd_inflight :: "string set"
  rd_passes :: "background_pass list"

text \<open>\<open>\d{1,3}(?:\.\d{1,3}){3}\<close>\<close>

definition ipv4_shape :: "string \<Rightarrow> bool" where
  "ipv4_shape s \<longleftrightarrow> (let parts = split_on (CHR ''.'') s
     in length parts = 4 \<and> list_all (\<lambda>p. 1 \<le> length p \<and> length p \<le> 3 \<and> list_all is_digit p) parts)"

text \<open>\<open>^(...):(\d+)$\<close>: neither part holds a colon, so the only colon splits the text.\<close>

definition endpoint_parts :: "string \<Rightarrow> (string \<times> string) option" where
  "endpoint_parts address = (case split_on (CHR '':'') address of
       [ip, port] \<Rightarrow> if ipv4_shape ip \<and> port \<noteq> [] \<and> list_all is_digit port then Some (ip, port) else None
     | _ \<Rightarrow> None)"

definition ipOf :: "string \<Rightarrow> string" where
  "ipOf address = (case endpoint_parts address of Some (ip, _) \<Rightarrow> ip | None \<Rightarrow> address)"

section \<open>Reads\<close>

definition fresh_entry :: "ReverseDnsConfig \<Rightarrow> int \<Rightarrow> ReverseDnsResolver \<Rightarrow> string \<Rightarrow> CacheEntry option" where
  "fresh_entry config now st ip = (case map_get (rd_cache st) ip of
       Some entry \<Rightarrow> if now - ce_resolvedAtMs entry < rc_ttlMs config then Some entry else None
     | None \<Rightarrow> None)"

text \<open>The map of names a read returns, and the addresses it leaves to be resolved.\<close>

fun names_loop ::
    "ReverseDnsConfig \<Rightarrow> int \<Rightarrow> ReverseDnsResolver \<Rightarrow> (string, string) jsmap \<Rightarrow> string list \<Rightarrow> string list \<Rightarrow> (string, string) jsmap \<times> string list" where
  "names_loop config now st names toResolve [] = (names, toResolve)"
| "names_loop config now st names toResolve (address # rest) = (case fresh_entry config now st (ipOf address) of
       Some entry \<Rightarrow> names_loop config now st (case ce_name entry of None \<Rightarrow> names | Some n \<Rightarrow> map_set names address n) toResolve rest
     | None \<Rightarrow> names_loop config now st names (toResolve @ [ipOf address]) rest)"

text \<open>The workers that a pass may start take the next addresses.\<close>

definition take_next :: "nat \<Rightarrow> background_pass \<Rightarrow> background_pass" where
  "take_next n p = \<lparr>bp_waiting = drop n (bp_waiting p), bp_running = bp_running p @ take n (bp_waiting p)\<rparr>"

text \<open>\<open>[...new Set(ips)].filter((ip) => !this.inflight.has(ip))\<close>\<close>

definition resolveInBackground :: "ReverseDnsConfig \<Rightarrow> string list \<Rightarrow> ReverseDnsResolver \<Rightarrow> ReverseDnsResolver" where
  "resolveInBackground config ips st =
     (let pending = filter (\<lambda>ip. ip \<notin> rd_inflight st) (rev (remdups (rev ips)))
      in st\<lparr>rd_inflight := rd_inflight st \<union> set pending,
            rd_passes := rd_passes st @ [take_next (rc_maxConcurrent config) \<lparr>bp_waiting = pending, bp_running = []\<rparr>]\<rparr>)"

definition namesFor :: "ReverseDnsConfig \<Rightarrow> int \<Rightarrow> string list \<Rightarrow> ReverseDnsResolver \<Rightarrow> (string, string) jsmap \<times> ReverseDnsResolver" where
  "namesFor config now addresses st = (case names_loop config now st [] [] addresses of
     (names, toResolve) \<Rightarrow> (names, if toResolve = [] then st else resolveInBackground config toResolve st))"

section \<open>Landings\<close>

text \<open>\<open>names.find((n) => n.trim().length > 0)?.trim()\<close>, nothing for a failed lookup.\<close>

definition lookupOne :: "string list option \<Rightarrow> string option" where
  "lookupOne answer = Option.bind answer (\<lambda>names. map_option trim (List.find (\<lambda>n. trim n \<noteq> []) names))"

text \<open>The lookup of \<open>ip\<close> in pass \<open>k\<close> settles: its result is cached and its worker takes the next address.\<close>

definition landed :: "nat \<Rightarrow> string \<Rightarrow> string list option \<Rightarrow> int \<Rightarrow> ReverseDnsResolver \<Rightarrow> ReverseDnsResolver" where
  "landed k ip answer now st =
     (let p = rd_passes st ! k
      in \<lparr>rd_cache = map_set (rd_cache st) ip \<lparr>ce_name = lookupOne answer, ce_resolvedAtMs = now\<rparr>,
          rd_inflight = rd_inflight st - {ip},
          rd_passes = (rd_passes st)[k := take_next 1 (p\<lparr>bp_running := remove1 ip (bp_running p)\<rparr>)]\<rparr>)"

text \<open>
  The history of a resolver, newest last: the lookups that landed, with their answers.
\<close>

type_synonym landing = "string \<times> string option \<times> int"

inductive resolving :: "ReverseDnsConfig \<Rightarrow> landing list \<Rightarrow> ReverseDnsResolver \<Rightarrow> bool" for config where
  Start: "resolving config [] \<lparr>rd_cache = [], rd_inflight = {}, rd_passes = []\<rparr>"
| Names: "resolving config log st \<Longrightarrow> resolving config log (snd (namesFor config now addresses st))"
| Landed: "resolving config log st \<Longrightarrow> k < length (rd_passes st) \<Longrightarrow> ip \<in> set (bp_running (rd_passes st ! k)) \<Longrightarrow>
    resolving config (log @ [(ip, lookupOne answer, now)]) (landed k ip answer now st)"

section \<open>Invariants\<close>

lemma map_get_set: "map_get (map_set m k v) j = (if j = k then Some v else map_get m j)"
  by (simp add: map_get_def map_of_set)

definition pass_ips :: "background_pass \<Rightarrow> string list" where
  "pass_ips p = bp_running p @ bp_waiting p"

definition all_ips :: "ReverseDnsResolver \<Rightarrow> string list" where
  "all_ips st = concat (map pass_ips (rd_passes st))"

definition resolver_ok :: "ReverseDnsConfig \<Rightarrow> landing list \<Rightarrow> ReverseDnsResolver \<Rightarrow> bool" where
  "resolver_ok config log st \<longleftrightarrow>
     (\<forall>ip entry. map_get (rd_cache st) ip = Some entry \<longrightarrow> (ip, ce_name entry, ce_resolvedAtMs entry) \<in> set log) \<and>
     distinct (all_ips st) \<and> set (all_ips st) = rd_inflight st \<and>
     list_all (\<lambda>p. length (bp_running p) \<le> rc_maxConcurrent config \<and> (bp_waiting p = [] \<or> length (bp_running p) = rc_maxConcurrent config))
       (rd_passes st)"

lemma pass_take_next [simp]: "pass_ips (take_next n p) = pass_ips p"
  by (simp add: pass_ips_def take_next_def)

lemma all_ips_update:
  assumes "k < length (rd_passes st)"
  shows "mset (all_ips (st\<lparr>rd_passes := (rd_passes st)[k := q]\<rparr>)) + mset (pass_ips (rd_passes st ! k)) = mset (all_ips st) + mset (pass_ips q)"
proof -
  have "rd_passes st = take k (rd_passes st) @ rd_passes st ! k # drop (Suc k) (rd_passes st)"
    by (rule id_take_nth_drop [OF assms])
  then have "mset (all_ips st) = mset (concat (map pass_ips (take k (rd_passes st)))) + mset (pass_ips (rd_passes st ! k)) +
      mset (concat (map pass_ips (drop (Suc k) (rd_passes st))))"
    unfolding all_ips_def by (metis (no_types) ab_semigroup_add_class.add_ac(1) concat.simps(2) concat_append list.simps(9) map_append mset_append)
  then show ?thesis by (simp add: all_ips_def upd_conv_take_nth_drop [OF assms] add_ac)
qed

definition within_limit :: "ReverseDnsConfig \<Rightarrow> background_pass \<Rightarrow> bool" where
  "within_limit config p \<longleftrightarrow> length (bp_running p) \<le> rc_maxConcurrent config \<and>
     (bp_waiting p = [] \<or> length (bp_running p) = rc_maxConcurrent config)"

lemma names_ok:
  assumes "resolver_ok config log st"
  shows "resolver_ok config log (snd (namesFor config now addresses st))"
proof -
  have "resolver_ok config log (resolveInBackground config ips st)" for ips
  proof -
    define pending where "pending = filter (\<lambda>ip. ip \<notin> rd_inflight st) (rev (remdups (rev ips)))"
    have "distinct pending" "set pending \<inter> rd_inflight st = {}" by (auto simp: pending_def)
    moreover have "resolveInBackground config ips st = st\<lparr>rd_inflight := rd_inflight st \<union> set pending,
        rd_passes := rd_passes st @ [take_next (rc_maxConcurrent config) \<lparr>bp_waiting = pending, bp_running = []\<rparr>]\<rparr>"
      by (simp add: resolveInBackground_def pending_def Let_def)
    moreover have "pass_ips \<lparr>bp_waiting = pending, bp_running = []\<rparr> = pending" by (simp add: pass_ips_def)
    ultimately show ?thesis using assms by (auto simp: resolver_ok_def all_ips_def take_next_def [of _ "\<lparr>bp_waiting = pending, bp_running = []\<rparr>"])
        (auto simp: pass_ips_def disjoint_iff)
  qed
  then show ?thesis using assms by (auto simp: namesFor_def split: prod.split)
qed

lemma landed_ok:
  assumes ok: "resolver_ok config log st" and k: "k < length (rd_passes st)" and ip: "ip \<in> set (bp_running (rd_passes st ! k))"
  shows "resolver_ok config (log @ [(ip, lookupOne answer, now)]) (landed k ip answer now st)"
proof -
  define p where "p = rd_passes st ! k"
  define q where "q = take_next 1 (p\<lparr>bp_running := remove1 ip (bp_running p)\<rparr>)"
  have st': "landed k ip answer now st = \<lparr>rd_cache = map_set (rd_cache st) ip \<lparr>ce_name = lookupOne answer, ce_resolvedAtMs = now\<rparr>,
      rd_inflight = rd_inflight st - {ip}, rd_passes = (rd_passes st)[k := q]\<rparr>"
    by (simp add: landed_def q_def p_def Let_def)
  have q: "mset (pass_ips p) = add_mset ip (mset (pass_ips q))"
    using ip by (simp add: q_def pass_ips_def take_next_def p_def add_mset_add_single [symmetric])
  have "mset (all_ips st) = mset (ip # all_ips (landed k ip answer now st))"
    using all_ips_update [OF k, of q] q by (simp add: st' all_ips_def p_def)
  then have "distinct (ip # all_ips (landed k ip answer now st))" "set (ip # all_ips (landed k ip answer now st)) = rd_inflight st"
    using ok unfolding resolver_ok_def by (metis mset_eq_imp_distinct_iff, metis mset_eq_setD)
  then have "distinct (all_ips (landed k ip answer now st))" "set (all_ips (landed k ip answer now st)) = rd_inflight (landed k ip answer now st)"
    by (auto simp: st')
  moreover have "within_limit config p" using ok k by (auto simp: resolver_ok_def within_limit_def p_def list_all_length)
  then have "within_limit config q"
    using ip length_pos_if_in_set [OF ip] by (cases "bp_waiting p"; cases "rc_maxConcurrent config") (auto simp: within_limit_def q_def take_next_def p_def length_remove1)
  then have "list_all (within_limit config) (rd_passes (landed k ip answer now st))"
    using ok k by (auto simp: st' resolver_ok_def within_limit_def list_all_length nth_list_update)
  moreover have "\<forall>x entry. map_get (rd_cache (landed k ip answer now st)) x = Some entry \<longrightarrow>
      (x, ce_name entry, ce_resolvedAtMs entry) \<in> set (log @ [(ip, lookupOne answer, now)])"
    using ok by (auto simp: st' resolver_ok_def map_get_set)
  ultimately show ?thesis by (auto simp: resolver_ok_def within_limit_def list_all_iff)
qed

lemma resolving_ok: "resolving config log st \<Longrightarrow> resolver_ok config log st"
proof (induction rule: resolving.induct)
  case Start
  show ?case by (simp add: resolver_ok_def all_ips_def map_get_def)
qed (simp_all add: names_ok landed_ok)

section \<open>What a read serves\<close>

lemma names_loop_get:
  "map_get (fst (names_loop config now st names toResolve addresses)) a =
     (case (if a \<in> set addresses then Option.bind (fresh_entry config now st (ipOf a)) ce_name else None) of
        Some n \<Rightarrow> Some n | None \<Rightarrow> map_get names a)"
  by (induction addresses arbitrary: names toResolve) (auto simp: map_get_set split: option.splits)

lemma names_loop_resolve:
  "set (snd (names_loop config now st names toResolve addresses)) =
     set toResolve \<union> {ip \<in> ipOf ` set addresses. fresh_entry config now st ip = None}"
  by (induction addresses arbitrary: names toResolve) (auto split: option.splits)

lemma names_of_read: "fst (namesFor config now addresses st) = fst (names_loop config now st [] [] addresses)"
  by (simp add: namesFor_def split: prod.split)

lemma names_inflight:
  "rd_inflight (snd (namesFor config now addresses st)) =
     rd_inflight st \<union> {ip \<in> ipOf ` set addresses. fresh_entry config now st ip = None}"
  using names_loop_resolve [of config now st "[]" "[]" addresses]
  by (auto simp: namesFor_def resolveInBackground_def Let_def split: prod.split)



end
