(* ===== verification/ModelAccess.thy ===== *)
theory ModelAccess
  imports SettingsCommands Numbers Stores Resolvers "HOL-Library.List_Lexorder"
begin

text \<open>
  The model-access page: \<open>packages/contracts/src/model-access.ts\<close> and its resolvers,
  \<open>apps/bff/src/engine/model-access.ts\<close>.  One reply carries the catalog, the grants of the agents
  and the spend of a window; spend under an agent-door session is grouped by agent and day.
  The check of a grant change is in \<open>SettingsCommands\<close>.
\<close>

section \<open>Replies and views\<close>

record WireAgentGrant =
  wag_agent :: string
  wag_class :: string
  wag_models :: "string list"
  wag_read_scopes :: "string list"
  wag_tools :: "string list"
  wag_workspaces :: "string list"

record WireModelView =
  wmv_ceiling :: string
  wmv_context_window :: jsnum
  wmv_destination :: string
  wmv_id :: string
  wmv_lifecycle :: string
  wmv_max_output_tokens :: jsnum
  wmv_pin :: string
  wmv_price_cache_read :: jsnum
  wmv_price_cache_write :: jsnum
  wmv_price_output :: jsnum
  wmv_price_uncached_input :: jsnum
  wmv_region :: string
  wmv_retention_days :: jsnum
  wmv_surface :: string
  wmv_vendor_model :: string
  wmv_version :: string
  wmv_zdr_eligible :: bool

record WireModelRole =
  wmr_model :: string
  wmr_role :: string
  wmr_version :: string

record WireSpendRow =
  wsd_cache_read :: jsnum
  wsd_cache_write :: jsnum
  wsd_calls :: jsnum
  wsd_cost_micro_usd :: jsnum
  wsd_model :: string
  wsd_output :: jsnum
  wsd_principal :: string
  wsd_reasoning :: jsnum
  wsd_session :: string
  wsd_uncached_input :: jsnum

record WireModelAccess =
  wma_admin_plane :: bool
  wma_catalog_configured :: bool
  wma_catalog_version :: jsnum
  wma_explanation :: "string option"
  wma_grants :: "WireAgentGrant list"
  wma_grants_truncated :: bool
  wma_models :: "WireModelView list"
  wma_refused :: bool
  wma_roles :: "WireModelRole list"
  wma_spend :: "WireSpendRow list"
  wma_spend_truncated :: bool

record WireAgentGrantReceipt =
  wgr_conflict :: bool
  wgr_current :: "WireAgentGrant option"
  wgr_explanation :: "string option"
  wgr_grant :: "WireAgentGrant option"
  wgr_refused :: bool

record ModelPrices =
  mp_uncachedInput :: jsnum
  mp_cacheRead :: jsnum
  mp_cacheWrite :: jsnum
  mp_output :: jsnum

record ModelRow =
  mr_id :: string
  mr_version :: string
  mr_vendorModel :: string
  mr_destination :: string
  mr_surface :: string
  mr_pin :: string
  mr_lifecycle :: string
  mr_ceiling :: ClassificationTag
  mr_region :: string
  mr_contextWindow :: jsnum
  mr_maxOutputTokens :: jsnum
  mr_prices :: ModelPrices
  mr_zdrEligible :: bool
  mr_retentionDays :: jsnum

record ModelRoleRow =
  mrr_role :: string
  mrr_model :: string
  mrr_version :: string

record AgentGrantRow =
  agr_models :: "string list"
  agr_tools :: "string list"
  agr_readScopes :: "string list"
  agr_workspaces :: "string list"
  agr_classification :: ClassificationTag

record AgentDaySpend =
  ads_day :: jsnum
  ads_date :: string
  ads_calls :: jsnum
  ads_costMicroUsd :: jsnum
  ads_inputTokens :: jsnum
  ads_cacheReadTokens :: jsnum
  ads_outputTokens :: jsnum

record AgentAccess =
  aac_agent :: string
  aac_grant :: "AgentGrantRow option"
  aac_spend :: "AgentDaySpend list"

record OtherSpendRow =
  osr_session :: string
  osr_principal :: string
  osr_model :: string
  osr_calls :: jsnum
  osr_costMicroUsd :: jsnum

record ModelAccessView =
  mav_adminPlane :: bool
  mav_catalogConfigured :: bool
  mav_catalogVersion :: jsnum
  mav_models :: "ModelRow list"
  mav_roles :: "ModelRoleRow list"
  mav_agents :: "AgentAccess list"
  mav_otherSpend :: "OtherSpendRow list"
  mav_grantsTruncated :: bool
  mav_spendTruncated :: bool

section \<open>Sessions and dates\<close>

text \<open>What \<open>.\<close> matches in a pattern: anything but a line terminator.\<close>

definition line_separators :: "string list" where
  "line_separators = [[CHR 0x0A], [CHR 0x0D], [CHR 0xE2, CHR 0x80, CHR 0xA8], [CHR 0xE2, CHR 0x80, CHR 0xA9]]"

fun one_line :: "string \<Rightarrow> bool" where
  "one_line [] = True"
| "one_line (c # cs) = (list_all (\<lambda>l. \<not> prefix l (c # cs)) line_separators \<and> one_line cs)"

text \<open>
  \<open>/^agent-door:(.+):d(\d+)$/\<close>: the day is digits, so the colon before it is the last one of the
  session, and the agent is what stands between.
\<close>

definition parseAgentDoorSession :: "string \<Rightarrow> (string \<times> jsnum) option" where
  "parseAgentDoorSession session =
     (if \<not> prefix ''agent-door:'' session then None
      else let rest = drop 11 session;
               tail = rev (takeWhile (\<lambda>c. c \<noteq> CHR '':'') (rev rest));
               agent = rev (drop 1 (dropWhile (\<lambda>c. c \<noteq> CHR '':'') (rev rest)))
           in if CHR '':'' \<in> set rest \<and> agent \<noteq> [] \<and> one_line agent \<and> prefix ''d'' tail \<and> drop 1 tail \<noteq> []
                \<and> list_all is_digit (drop 1 tail)
              then Some (agent, parse_int10 (drop 1 tail)) else None)"

definition DAY_MS :: int where
  "DAY_MS = 86400000"

text \<open>\<open>new Date(day * DAY_MS).toISOString().slice(0, 10)\<close>, which may throw.\<close>

definition epochDayDate :: "jsnum \<Rightarrow> string option" where
  "epochDayDate day = map_option (take 10) (toISOString (num_times day DAY_MS))"

definition formatPerMillion :: "jsnum \<Rightarrow> string" where
  "formatPerMillion n =
     (let usd = num_over n 1000000
      in ''$'' @ toFixed usd (if num_less (NInt 0) usd \<and> num_less usd (number_of_ratio False 1 100) then 4 else 2) @ ''/M'')"

definition formatMicroUsd :: "jsnum \<Rightarrow> string" where
  "formatMicroUsd n = ''$'' @ toFixed (num_over n 1000000) 4"

section \<open>Projections\<close>

definition classification :: "string \<Rightarrow> ClassificationTag option" where
  "classification = narrow_in CLASSIFICATION_TAGS SocCommands.classification_tag"

definition toAgentGrantRow :: "WireAgentGrant \<Rightarrow> AgentGrantRow option" where
  "toAgentGrantRow w = do {
     tag \<leftarrow> classification (wag_class w);
     Some \<lparr>agr_models = wag_models w, agr_tools = wag_tools w, agr_readScopes = wag_read_scopes w, agr_workspaces = wag_workspaces w, agr_classification = tag\<rparr>
   }"

definition model_row :: "WireModelView \<Rightarrow> ModelRow option" where
  "model_row m = do {
     ceiling \<leftarrow> classification (wmv_ceiling m);
     Some \<lparr>mr_id = wmv_id m, mr_version = wmv_version m, mr_vendorModel = wmv_vendor_model m, mr_destination = wmv_destination m, mr_surface = wmv_surface m, mr_pin = wmv_pin m, mr_lifecycle = wmv_lifecycle m, mr_ceiling = ceiling,
       mr_region = wmv_region m, mr_contextWindow = wmv_context_window m, mr_maxOutputTokens = wmv_max_output_tokens m,
       mr_prices = \<lparr>mp_uncachedInput = wmv_price_uncached_input m, mp_cacheRead = wmv_price_cache_read m,
         mp_cacheWrite = wmv_price_cache_write m, mp_output = wmv_price_output m\<rparr>,
       mr_zdrEligible = wmv_zdr_eligible m, mr_retentionDays = wmv_retention_days m\<rparr>
   }"

text \<open>\<open>grants.set(g.agent, row)\<close> for every grant; \<open>null\<close> at the first whose tag is unknown.\<close>

fun grant_map :: "(string, AgentGrantRow) jsmap \<Rightarrow> WireAgentGrant list \<Rightarrow> (string, AgentGrantRow) jsmap option" where
  "grant_map m [] = Some m"
| "grant_map m (g # gs) = (case toAgentGrantRow g of None \<Rightarrow> None | Some row \<Rightarrow> grant_map (map_set m (wag_agent g) row) gs)"

definition other_row :: "WireSpendRow \<Rightarrow> OtherSpendRow" where
  "other_row row = \<lparr>osr_session = wsd_session row, osr_principal = wsd_principal row, osr_model = wsd_model row, osr_calls = wsd_calls row,
     osr_costMicroUsd = wsd_cost_micro_usd row\<rparr>"

text \<open>\<open>prior?.x ?? 0\<close>, plus the row's numbers.\<close>

definition add_row :: "AgentDaySpend option \<Rightarrow> jsnum \<Rightarrow> string \<Rightarrow> WireSpendRow \<Rightarrow> AgentDaySpend" where
  "add_row prior day date row =
     (let old = (\<lambda>f. case prior of None \<Rightarrow> NInt 0 | Some p \<Rightarrow> f p)
      in \<lparr>ads_day = day, ads_date = date, ads_calls = num_add (old ads_calls) (wsd_calls row),
          ads_costMicroUsd = num_add (old ads_costMicroUsd) (wsd_cost_micro_usd row),
          ads_inputTokens = num_add (num_add (old ads_inputTokens) (wsd_uncached_input row)) (wsd_cache_write row),
          ads_cacheReadTokens = num_add (old ads_cacheReadTokens) (wsd_cache_read row),
          ads_outputTokens = num_add (old ads_outputTokens) (wsd_output row)\<rparr>)"

type_synonym spend_map = "(string, (jsnum, AgentDaySpend) jsmap) jsmap"

text \<open>The loop over the spend; \<open>None\<close> where the date of a day throws.\<close>

definition days_of :: "spend_map \<Rightarrow> string \<Rightarrow> (jsnum, AgentDaySpend) jsmap" where
  "days_of spend agent = (case map_get spend agent of None \<Rightarrow> [] | Some days \<Rightarrow> days)"

fun spend_rows :: "spend_map \<Rightarrow> OtherSpendRow list \<Rightarrow> WireSpendRow list \<Rightarrow> (spend_map \<times> OtherSpendRow list) option" where
  "spend_rows spend other [] = Some (spend, other)"
| "spend_rows spend other (row # rows) = (case parseAgentDoorSession (wsd_session row) of
       None \<Rightarrow> spend_rows spend (other @ [other_row row]) rows
     | Some (agent, day) \<Rightarrow> (case epochDayDate day of
         None \<Rightarrow> None
       | Some date \<Rightarrow>
           let days = days_of spend agent
           in spend_rows (map_set spend agent (map_set days day (add_row (map_get days day) day date row))) other rows))"

text \<open>\<open>[...new Set(xs)]\<close>\<close>

definition set_of :: "'a list \<Rightarrow> 'a list" where
  "set_of xs = rev (remdups (rev xs))"

definition agent_access :: "(string, AgentGrantRow) jsmap \<Rightarrow> spend_map \<Rightarrow> string \<Rightarrow> AgentAccess" where
  "agent_access grants spend agent =
     \<lparr>aac_agent = agent, aac_grant = map_get grants agent,
      aac_spend = sort_key (\<lambda>d. - toBigInt (ads_day d)) (map snd (days_of spend agent))\<rparr>"

text \<open>\<open>Inl\<close> is the error a date out of range throws, \<open>None\<close> is \<open>null\<close>.\<close>

definition toModelAccessView :: "WireModelAccess \<Rightarrow> thrown + ModelAccessView option" where
  "toModelAccessView w =
     (if wma_refused w then Inr None
      else case (traverse model_row (wma_models w), grant_map [] (wma_grants w)) of
        (Some models, Some grants) \<Rightarrow> (case spend_rows [] [] (wma_spend w) of
            None \<Rightarrow> Inl OtherError
          | Some (spend, other) \<Rightarrow>
              let agents = sort_key utf16_units (set_of (map fst grants @ map fst spend))
              in Inr (Some
                \<lparr>mav_adminPlane = wma_admin_plane w, mav_catalogConfigured = wma_catalog_configured w,
                 mav_catalogVersion = wma_catalog_version w, mav_models = models,
                 mav_roles = map (\<lambda>x. \<lparr>mrr_role = wmr_role x, mrr_model = wmr_model x, mrr_version = wmr_version x\<rparr>) (wma_roles w),
                 mav_agents = map (agent_access grants spend) agents, mav_otherSpend = other,
                 mav_grantsTruncated = wma_grants_truncated w, mav_spendTruncated = wma_spend_truncated w\<rparr>))
      | _ \<Rightarrow> Inr None)"

definition toggleEntry :: "string list \<Rightarrow> string \<Rightarrow> string list" where
  "toggleEntry list entry =
     sort_key utf16_units (if entry \<in> set list then filter (\<lambda>e. e \<noteq> entry) list else list @ [entry])"

datatype AgentGrantOutcome = GrantApplied AgentGrantRow | GrantConflict "AgentGrantRow option"

definition toAgentGrantOutcome :: "WireAgentGrantReceipt \<Rightarrow> AgentGrantOutcome option" where
  "toAgentGrantOutcome w =
     (if wgr_refused w then None
      else if wgr_conflict w then
        (case wgr_current w of
           None \<Rightarrow> Some (GrantConflict None)
         | Some c \<Rightarrow> map_option (\<lambda>row. GrantConflict (Some row)) (toAgentGrantRow c))
      else do { g \<leftarrow> wgr_grant w; row \<leftarrow> toAgentGrantRow g; Some (GrantApplied row) })"

section \<open>Resolvers\<close>

record 'w model_engine =
  eng_modelAccessRead :: "('w, WireModelAccessQuery, WireModelAccess) verb"
  eng_agentGrantSet :: "('w, WireAgentGrantSet, WireAgentGrantReceipt) verb"

text \<open>For a day count the route has checked and a clock that counts milliseconds.\<close>

definition spendWindow :: "int \<Rightarrow> int \<Rightarrow> int \<times> int" where
  "spendWindow days nowMs = ((nowMs div DAY_MS - (days - 1)) * DAY_MS, nowMs + 1)"

definition resolveModelAccess ::
    "'w model_engine \<Rightarrow> OperatorPrincipal \<Rightarrow> int \<Rightarrow> int \<Rightarrow> ('w, ModelAccessView option) resolver" where
  "resolveModelAccess engine who days nowMs = and_then requestId (\<lambda>i.
     and_then (ask (eng_modelAccessRead engine) (\<lambda>q. Settings (ReqModelAccessRead q)) who
         (case spendWindow days nowMs of (start, stop) \<Rightarrow>
            \<lparr>request_id = i, operator = None, ma_from_unix_ms = NInt start, ma_to_unix_ms = NInt stop\<rparr>))
       (\<lambda>w. case toModelAccessView w of Inl e \<Rightarrow> throw e | Inr v \<Rightarrow> give v))"

definition applyAgentGrant ::
    "'w model_engine \<Rightarrow> OperatorPrincipal \<Rightarrow> AgentGrantChange \<Rightarrow> ('w, AgentGrantOutcome option) resolver" where
  "applyAgentGrant engine who change = and_then requestId (\<lambda>i.
     and_then (ask (eng_agentGrantSet engine) (\<lambda>q. Settings (ReqAgentGrantSet q)) who
         \<lparr>request_id = i, operator = None, ag_agent = gc_agent change, ag_models = gc_models change, ag_tools = gc_tools change,
          ag_expected_models = gc_expectedModels change, ag_expected_tools = gc_expectedTools change\<rparr>)
       (\<lambda>w. give (toAgentGrantOutcome w)))"

section \<open>Where the spend goes\<close>

abbreviation door :: "WireSpendRow \<Rightarrow> (string \<times> jsnum) option" where
  "door row \<equiv> parseAgentDoorSession (wsd_session row)"

text \<open>The spend of one agent on one day, row by row in the order of the reply, from what was there before.\<close>

definition day_total :: "AgentDaySpend option \<Rightarrow> WireSpendRow list \<Rightarrow> string \<Rightarrow> jsnum \<Rightarrow> AgentDaySpend option" where
  "day_total before rows agent day =
     foldl (\<lambda>prior row. Some (add_row prior day (the (epochDayDate day)) row)) before
       (filter (\<lambda>row. door row = Some (agent, day)) rows)"

definition spending_agents :: "WireSpendRow list \<Rightarrow> string set" where
  "spending_agents rows = {a. \<exists>row \<in> set rows. \<exists>d. door row = Some (a, d)}"

lemma day_total_Nil [simp]: "day_total before [] a d = before"
  by (simp add: day_total_def)

lemma day_total_Cons:
  "day_total before (row # rows) a d =
     day_total (if door row = Some (a, d) then Some (add_row before d (the (epochDayDate d)) row) else before) rows a d"
  by (simp add: day_total_def)

lemma days_of_set: "days_of (map_set spend agent days) a = (if a = agent then days else days_of spend a)"
  by (simp add: days_of_def map_get_def map_of_set)

definition spend_ok :: "spend_map \<Rightarrow> bool" where
  "spend_ok spend \<longleftrightarrow> map_ok spend \<and> (\<forall>a. map_ok (days_of spend a) \<and> (\<forall>(d, s) \<in> set (days_of spend a). ads_day s = d))"

lemma set_map_set_eq: "map_ok m \<Longrightarrow> set (map_set m k v) = insert (k, v) {e \<in> set m. fst e \<noteq> k}"
  by (induction m k v rule: map_set.induct) (auto simp: map_ok_def rev_image_eqI)

lemma spend_ok_step:
  assumes "spend_ok spend"
  shows "spend_ok (map_set spend agent (map_set (days_of spend agent) day (add_row prior day date row)))"
  using assms unfolding spend_ok_def
  by (auto simp: days_of_set map_ok_set set_map_set_eq add_row_def Let_def)

lemma spend_rows_ok: "spend_rows spend other rows = Some (spend', other') \<Longrightarrow> spend_ok spend \<Longrightarrow> spend_ok spend'"
  by (induction spend other rows rule: spend_rows.induct) (auto simp: Let_def spend_ok_step split: option.splits)

lemma spend_rows_totals:
  "spend_rows spend other rows = Some (spend', other') \<Longrightarrow>
   map_of (days_of spend' a) d = day_total (map_of (days_of spend a) d) rows a d"
proof (induction spend other rows rule: spend_rows.induct)
  case (2 spend other row rows)
  show ?case
  proof (cases "door row")
    case None
    then show ?thesis using 2 by (simp add: day_total_Cons)
  next
    case (Some p)
    obtain agent day where p: "p = (agent, day)" by fastforce
    from 2 Some p obtain date where date: "epochDayDate day = Some date" by (auto split: option.splits)
    let ?days = "days_of spend agent"
    let ?spend = "map_set spend agent (map_set ?days day (add_row (map_get ?days day) day date row))"
    have rest: "spend_rows ?spend other rows = Some (spend', other')"
      using 2(3) Some p date by (simp add: Let_def)
    have IH: "map_of (days_of spend' a) d = day_total (map_of (days_of ?spend a) d) rows a d"
      using 2(2) [OF Some p [symmetric] date refl rest] Some p date by simp
    have "map_of (days_of ?spend a) d = (if door row = Some (a, d) then Some (add_row (map_of (days_of spend a) d) d (the (epochDayDate d)) row)
        else map_of (days_of spend a) d)"
      using Some p date by (auto simp: days_of_set map_of_set map_get_def)
    then show ?thesis by (simp add: IH day_total_Cons)
  qed
qed simp

lemma spend_rows_other:
  "spend_rows spend other rows = Some (spend', other') \<Longrightarrow> other' = other @ map other_row (filter (\<lambda>row. door row = None) rows)"
  by (induction spend other rows rule: spend_rows.induct) (auto simp: Let_def split: option.splits)

lemma spend_rows_agents:
  "spend_rows spend other rows = Some (spend', other') \<Longrightarrow> fst ` set spend' = fst ` set spend \<union> spending_agents rows"
proof (induction rows arbitrary: spend other)
  case (Cons row rows)
  show ?case
  proof (cases "door row")
    case None
    then have "spend_rows spend (other @ [other_row row]) rows = Some (spend', other')" using Cons.prems by simp
    from Cons.IH [OF this] show ?thesis using None by (auto simp: spending_agents_def)
  next
    case (Some p)
    obtain agent day where p: "p = (agent, day)" by fastforce
    from Cons.prems Some p obtain days where "spend_rows (map_set spend agent days) other rows = Some (spend', other')"
      by (auto simp: Let_def split: option.splits)
    from Cons.IH [OF this] show ?thesis using Some p by (auto simp: map_set_keys spending_agents_def)
  qed
qed (simp add: spending_agents_def)

lemma spend_rows_None:
  "spend_rows spend other rows = None \<longleftrightarrow> list_ex (\<lambda>row. \<exists>a d. door row = Some (a, d) \<and> epochDayDate d = None) rows"
  by (induction spend other rows rule: spend_rows.induct) (auto simp: Let_def split: option.splits)

lemma grant_map_None: "grant_map m gs = None \<longleftrightarrow> list_ex (\<lambda>g. toAgentGrantRow g = None) gs"
  by (induction m gs rule: grant_map.induct) (auto split: option.splits)

text \<open>The grant an agent has: the last of its name.\<close>

definition latest_grant :: "AgentGrantRow option \<Rightarrow> WireAgentGrant list \<Rightarrow> string \<Rightarrow> AgentGrantRow option" where
  "latest_grant before gs agent = foldl (\<lambda>_ g. toAgentGrantRow g) before (filter (\<lambda>g. wag_agent g = agent) gs)"

lemma grant_map_get: "grant_map m gs = Some m' \<Longrightarrow> map_of m' a = latest_grant (map_of m a) gs a"
  by (induction m gs rule: grant_map.induct) (auto simp: latest_grant_def map_of_set split: option.splits)

lemma grant_map_keys: "grant_map m gs = Some m' \<Longrightarrow> fst ` set m' = fst ` set m \<union> wag_agent ` set gs"
  by (induction m gs rule: grant_map.induct) (auto simp: map_set_keys split: option.splits)

lemma set_of_set [simp]: "set (set_of xs) = set xs" "distinct (set_of xs)"
  by (simp_all add: set_of_def)

text \<open>What one agent's entry says of the reply.\<close>

definition entry_true :: "WireModelAccess \<Rightarrow> AgentAccess \<Rightarrow> bool" where
  "entry_true w access \<longleftrightarrow>
     aac_grant access = latest_grant None (wma_grants w) (aac_agent access) \<and>
     set (aac_spend access) = {s. \<exists>d. day_total None (wma_spend w) (aac_agent access) d = Some s} \<and>
     distinct (map ads_day (aac_spend access)) \<and>
     sorted_wrt (\<lambda>x y. toBigInt (ads_day y) \<le> toBigInt (ads_day x)) (aac_spend access)"

lemma agent_entry:
  assumes grants: "grant_map [] (wma_grants w) = Some grants"
    and spend: "spend_rows [] [] (wma_spend w) = Some (spend, other)"
  shows "entry_true w (agent_access grants spend a)"
proof -
  let ?days = "days_of spend a"
  have "spend_ok []" by (simp add: spend_ok_def map_ok_def days_of_def map_get_def)
  with spend have ok: "map_ok ?days" "\<forall>(d, s) \<in> set ?days. ads_day s = d"
    using spend_rows_ok unfolding spend_ok_def by blast+
  then have keys: "map ads_day (map snd ?days) = map fst ?days" by auto
  have totals: "map_of ?days d = day_total None (wma_spend w) a d" for d
    using spend_rows_totals [OF spend, of a d] by (simp add: days_of_def map_get_def)
  have "set (map snd ?days) = {s. \<exists>d. map_of ?days d = Some s}"
    using ok(1) unfolding map_ok_def by (force simp: map_of_eq_Some_iff)
  then have "set (map snd ?days) = {s. \<exists>d. day_total None (wma_spend w) a d = Some s}"
    by (simp add: totals)
  moreover have "distinct (map ads_day (sort_key f (map snd ?days)))" for f :: "AgentDaySpend \<Rightarrow> int"
    using ok(1) keys by (metis map_ok_def distinct_map distinct_sort set_sort)
  moreover have "sorted_wrt (\<lambda>x y. toBigInt (ads_day y) \<le> toBigInt (ads_day x)) (sort_key (\<lambda>d. - toBigInt (ads_day d)) xs)" for xs
    using sorted_sort_key [of "\<lambda>d. - toBigInt (ads_day d)" xs] by (simp add: sorted_wrt_map)
  moreover have "map_of grants a = latest_grant None (wma_grants w) a"
    using grant_map_get [OF grants, of a] by simp
  ultimately show ?thesis by (simp add: entry_true_def agent_access_def map_get_def)
qed

lemma agent_names:
  assumes "grant_map [] (wma_grants w) = Some grants" and "spend_rows [] [] (wma_spend w) = Some (spend, other)"
  shows "set (map fst grants @ map fst spend) = wag_agent ` set (wma_grants w) \<union> spending_agents (wma_spend w)"
  using grant_map_keys [OF assms(1)] spend_rows_agents [OF assms(2)] by simp

text \<open>
  C29.  The model-access page accounts for all the spend it was sent.  A refusal or an unknown
  classification anywhere shows nothing; a session whose day is not a date fails the page.
  Otherwise the page lists, in order and once each, exactly the agents with a grant or with spend;
  each entry carries the agent's latest grant and, for every day it spent on and newest first, the
  sum over exactly its rows of that day; and every other row is listed as it stands.
\<close>
theorem spend_accounted:
  "case toModelAccessView w of
     Inl e \<Rightarrow> e = OtherError \<and> list_ex (\<lambda>row. \<exists>a d. door row = Some (a, d) \<and> epochDayDate d = None) (wma_spend w)
   | Inr None \<Rightarrow> wma_refused w \<or> list_ex (\<lambda>m. model_row m = None) (wma_models w) \<or> list_ex (\<lambda>g. toAgentGrantRow g = None) (wma_grants w)
   | Inr (Some v) \<Rightarrow>
       map model_row (wma_models w) = map Some (mav_models v) \<and>
       mav_otherSpend v = map other_row (filter (\<lambda>row. door row = None) (wma_spend w)) \<and>
       sorted (map (utf16_units \<circ> aac_agent) (mav_agents v)) \<and> distinct (map aac_agent (mav_agents v)) \<and>
       set (map aac_agent (mav_agents v)) = wag_agent ` set (wma_grants w) \<union> spending_agents (wma_spend w) \<and>
       list_all (entry_true w) (mav_agents v)"
proof (cases "wma_refused w \<or> traverse model_row (wma_models w) = None \<or> grant_map [] (wma_grants w) = None")
  case True
  then have "toModelAccessView w = Inr None"
    by (auto simp: toModelAccessView_def split: option.splits)
  moreover have "wma_refused w \<or> list_ex (\<lambda>m. model_row m = None) (wma_models w) \<or> list_ex (\<lambda>g. toAgentGrantRow g = None) (wma_grants w)"
    using True by (auto simp: traverse_None grant_map_None list_ex_iff)
  ultimately show ?thesis by simp
next
  case False
  then obtain models grants where models: "traverse model_row (wma_models w) = Some models"
    and grants: "grant_map [] (wma_grants w) = Some grants" and nr: "\<not> wma_refused w" by auto
  show ?thesis
  proof (cases "spend_rows [] [] (wma_spend w)")
    case None
    then show ?thesis using models grants nr spend_rows_None [of "[]" "[]" "wma_spend w"] by (simp add: toModelAccessView_def)
  next
    case (Some p)
    then obtain spend other where spend: "spend_rows [] [] (wma_spend w) = Some (spend, other)" by (cases p) auto
    define agents where "agents = sort_key utf16_units (set_of (map fst grants @ map fst spend))"
    define shown where "shown = map (agent_access grants spend) agents"
    have "map aac_agent (map (agent_access grants spend) xs) = xs" for xs
      by (induction xs) (simp_all add: agent_access_def)
    then have names: "map aac_agent shown = agents" by (simp only: shown_def)
    have order: "sorted (map utf16_units agents)" "distinct agents"
      by (simp_all add: agents_def)
    have "set agents = wag_agent ` set (wma_grants w) \<union> spending_agents (wma_spend w)"
      using agent_names [OF grants spend] by (simp only: agents_def set_sort set_of_set)
    moreover have "list_all (entry_true w) shown"
      using agent_entry [OF grants spend] by (simp add: shown_def list_all_iff)
    moreover have "map model_row (wma_models w) = map Some models" using models by (simp add: traverse_Some)
    moreover have "sorted (map (utf16_units \<circ> aac_agent) shown)"
      using order(1) names by (metis map_map)
    moreover obtain v where "toModelAccessView w = Inr (Some v)" "mav_models v = models" "mav_agents v = shown"
        "mav_otherSpend v = map other_row (filter (\<lambda>row. door row = None) (wma_spend w))"
      using models grants nr spend spend_rows_other [OF spend]
      by (simp add: toModelAccessView_def Let_def shown_def agents_def)
    ultimately show ?thesis using names order(2) by simp
  qed
qed

end
