(* ===== verification/Overview.thy ===== *)
theory Overview
  imports Entities ReverseDns ModelAccess
begin

text \<open>
  The overview: \<open>packages/contracts/src/overview.ts\<close> with the resolvers
  \<open>apps/bff/src/engine/overview.ts\<close>, and the classifier of
  destinations \<open>destination-classifier.ts\<close>.  Host names are taken to be ASCII where
  the code changes their case; \<open>localeCompare\<close> is a parameter.
\<close>

section \<open>Replies and views\<close>

record WireConnClass =
  wcc_class :: string
  wcc_count :: jsnum

record WireConnEdge =
  wcd_dest_class :: string
  wcd_source_class :: string
  wcd_weight :: jsnum

record WireNamedDest =
  wnd_address :: string
  wnd_count :: jsnum

record WireRiskBand =
  wrb_candidate :: jsnum
  wrb_escalate :: jsnum
  wrb_level :: string
  wrb_observe :: jsnum

record WireSourceVtzEdge =
  wsv_source_class :: string
  wsv_vtz_id :: string
  wsv_weight :: jsnum

record WireVtzDestEdge =
  wvd_dest_class :: string
  wvd_vtz_id :: string
  wvd_weight :: jsnum

record WireVtzNode =
  wvn_id :: string
  wvn_name :: string
  wvn_profile :: string
  wvn_risk :: WireRiskBand

record WireConnectivityGraph =
  wcg_dest_edges :: "WireVtzDestEdge list"
  wcg_destinations :: "WireConnClass list"
  wcg_edges :: "WireConnEdge list"
  wcg_risk :: WireRiskBand
  wcg_source_edges :: "WireSourceVtzEdge list"
  wcg_sources :: "WireConnClass list"
  wcg_top_destinations :: "WireNamedDest list"
  wcg_truncated :: bool
  wcg_vtzs :: "WireVtzNode list"

record WireConnection =
  wcx_destination_id :: string
  wcx_destination_kind :: string
  wcx_observed_at :: jsnum

record WireConnectionList =
  wcxl_connections :: "WireConnection list"

record WireConnectivityMember =
  wcm_connection_count :: jsnum
  wcm_display_name :: string
  wcm_id :: string
  wcm_kind :: string

record WireMemberList =
  wml_members :: "WireConnectivityMember list"

datatype RiskLevel = GreenLevel | YellowLevel | RedLevel

fun risk_level_tag :: "RiskLevel \<Rightarrow> string" where
  "risk_level_tag GreenLevel = ''green''"
| "risk_level_tag YellowLevel = ''yellow''"
| "risk_level_tag RedLevel = ''red''"

definition RISK_LEVELS :: "RiskLevel list" where
  "RISK_LEVELS = [GreenLevel, YellowLevel, RedLevel]"

definition toRiskLevel :: "string \<Rightarrow> RiskLevel option" where
  "toRiskLevel = narrow_in RISK_LEVELS risk_level_tag"

lemma risk_level_listed: "a \<in> set RISK_LEVELS"
  by (cases a) (simp_all add: RISK_LEVELS_def)

interpretation risk_level: tag_list RISK_LEVELS risk_level_tag
  rewrites "narrow_in RISK_LEVELS risk_level_tag = toRiskLevel"
  by (unfold_locales, rule risk_level_listed, simp_all add: RISK_LEVELS_def toRiskLevel_def)

datatype VtzProfile = ObserveProfile | StandardProfile | QuarantineProfile

datatype OverviewDestCategory = NetworkDest | SaasDest | PrivateAppsDest | DataStoresDest

fun dest_category_tag :: "OverviewDestCategory \<Rightarrow> string" where
  "dest_category_tag NetworkDest = ''network''"
| "dest_category_tag SaasDest = ''saas''"
| "dest_category_tag PrivateAppsDest = ''private-apps''"
| "dest_category_tag DataStoresDest = ''data-stores''"

definition OVERVIEW_DEST_CATEGORIES :: "OverviewDestCategory list" where
  "OVERVIEW_DEST_CATEGORIES = [NetworkDest, SaasDest, PrivateAppsDest, DataStoresDest]"

lemma dest_category_listed: "a \<in> set OVERVIEW_DEST_CATEGORIES"
  by (cases a) (simp_all add: OVERVIEW_DEST_CATEGORIES_def)

interpretation dest_category: tag_list OVERVIEW_DEST_CATEGORIES dest_category_tag
  by (unfold_locales, rule dest_category_listed, simp_all add: OVERVIEW_DEST_CATEGORIES_def)

record OverviewRiskBand =
  rb_level :: RiskLevel
  rb_escalate :: jsnum
  rb_candidate :: jsnum
  rb_observe :: jsnum

record OverviewSourceNode =
  osn_class :: string
  osn_count :: jsnum

record OverviewVtzNode =
  ovn_id :: string
  ovn_name :: string
  ovn_profile :: VtzProfile
  ovn_risk :: OverviewRiskBand

record OverviewApp =
  oa_name :: string
  oa_address :: string
  oa_count :: jsnum

record OverviewDestNode =
  odn_class :: string
  odn_count :: jsnum
  odn_apps :: "OverviewApp list"
  odn_moreCount :: jsnum

record OverviewSourceEdge =
  ose_sourceClass :: string
  ose_vtzId :: string
  ose_weight :: jsnum

record OverviewDestEdge =
  ode_vtzId :: string
  ode_destClass :: string
  ode_weight :: jsnum

record OverviewSankey =
  osk_sources :: "OverviewSourceNode list"
  osk_vtzs :: "OverviewVtzNode list"
  osk_destinations :: "OverviewDestNode list"
  osk_sourceEdges :: "OverviewSourceEdge list"
  osk_destEdges :: "OverviewDestEdge list"
  osk_truncated :: bool

record OverviewConnection =
  ocn_destinationId :: string
  ocn_destinationKind :: string
  ocn_observedAt :: jsnum

record OverviewConnectionList =
  ocl_connections :: "OverviewConnection list"

record OverviewMember =
  omb_id :: string
  omb_kind :: string
  omb_name :: string
  omb_connectionCount :: jsnum

record OverviewMemberList =
  oml_members :: "OverviewMember list"

record OverviewHighlight =
  oh_vtzIds :: "string set"
  oh_sourceEdgeKeys :: "string set"
  oh_destEdgeKeys :: "string set"
  oh_sourceClasses :: "string set"
  oh_destClasses :: "string set"

section \<open>Risk, paging and highlights\<close>

definition toRiskBand :: "WireRiskBand \<Rightarrow> OverviewRiskBand option" where
  "toRiskBand w = do {
     level \<leftarrow> toRiskLevel (wrb_level w);
     Some \<lparr>rb_level = level, rb_escalate = wrb_escalate w, rb_candidate = wrb_candidate w, rb_observe = wrb_observe w\<rparr>
   }"

definition toVtzProfile :: "string \<Rightarrow> VtzProfile" where
  "toVtzProfile profile = (if profile = ''standard'' then StandardProfile else if profile = ''quarantine'' then QuarantineProfile else ObserveProfile)"

definition OVERVIEW_SOURCE_CATEGORIES :: "string list" where
  "OVERVIEW_SOURCE_CATEGORIES = [''agents'', ''users'', ''devices'']"

definition OVERVIEW_VTZS_PER_PAGE :: nat where
  "OVERVIEW_VTZS_PER_PAGE = 3"

definition overviewVtzPageCount :: "nat \<Rightarrow> nat" where
  "overviewVtzPageCount n = max 1 ((n + OVERVIEW_VTZS_PER_PAGE - 1) div OVERVIEW_VTZS_PER_PAGE)"

definition overviewVtzPage :: "'a list \<Rightarrow> int \<Rightarrow> 'a list" where
  "overviewVtzPage vtzs page =
     (let clamped = max 0 (min page (int (overviewVtzPageCount (length vtzs)) - 1)); start = nat clamped * OVERVIEW_VTZS_PER_PAGE
      in take OVERVIEW_VTZS_PER_PAGE (drop start vtzs))"

definition sourceEdgeKey :: "OverviewSourceEdge \<Rightarrow> string" where
  "sourceEdgeKey e = ose_sourceClass e @ ''>'' @ ose_vtzId e"

definition destEdgeKey :: "OverviewDestEdge \<Rightarrow> string" where
  "destEdgeKey e = ode_vtzId e @ ''>'' @ ode_destClass e"

definition overviewHighlight :: "OverviewSankey \<Rightarrow> string \<Rightarrow> OverviewHighlight" where
  "overviewHighlight graph destClass =
     (let destEdges = filter (\<lambda>e. ode_destClass e = destClass) (osk_destEdges graph);
          vtzIds = ode_vtzId ` set destEdges;
          sourceEdges = filter (\<lambda>e. ose_vtzId e \<in> vtzIds) (osk_sourceEdges graph)
      in \<lparr>oh_vtzIds = vtzIds, oh_sourceEdgeKeys = sourceEdgeKey ` set sourceEdges, oh_destEdgeKeys = destEdgeKey ` set destEdges,
          oh_sourceClasses = ose_sourceClass ` set sourceEdges, oh_destClasses = {destClass}\<rparr>)"

definition overviewHighlightSource :: "OverviewSankey \<Rightarrow> string \<Rightarrow> OverviewHighlight" where
  "overviewHighlightSource graph sourceClass =
     (let sourceEdges = filter (\<lambda>e. ose_sourceClass e = sourceClass) (osk_sourceEdges graph);
          vtzIds = ose_vtzId ` set sourceEdges;
          destEdges = filter (\<lambda>e. ode_vtzId e \<in> vtzIds) (osk_destEdges graph)
      in \<lparr>oh_vtzIds = vtzIds, oh_sourceEdgeKeys = sourceEdgeKey ` set sourceEdges, oh_destEdgeKeys = destEdgeKey ` set destEdges,
          oh_sourceClasses = {sourceClass}, oh_destClasses = ode_destClass ` set destEdges\<rparr>)"

section \<open>Destinations\<close>

definition DATA_STORE_PORTS :: "(int \<times> string) list" where
  "DATA_STORE_PORTS = [(1433, ''SQL Server''), (1521, ''Oracle DB''), (3306, ''MySQL''), (5432, ''Postgres''), (5984, ''CouchDB''), (6379, ''Redis''), (9042, ''Cassandra''), (9200, ''Elasticsearch''), (11211, ''Memcached''), (27017, ''MongoDB'')]"

definition PRIVATE_APP_PORTS :: "(int \<times> string) list" where
  "PRIVATE_APP_PORTS = [(22, ''SSH''), (445, ''Microsoft SMB''), (3389, ''RDP''), (5900, ''VNC'')]"

definition BRAND_RULES :: "(string \<times> string \<times> OverviewDestCategory) list" where
  "BRAND_RULES =
     [(''dns.google'', ''Google DNS'', NetworkDest),
      (''one.one.one.one'', ''Cloudflare DNS'', NetworkDest),
      (''quad9.net'', ''Quad9 DNS'', NetworkDest),
      (''opendns.com'', ''OpenDNS'', NetworkDest),
      (''cloudflare.com'', ''Cloudflare'', NetworkDest),
      (''fastly.net'', ''Fastly'', NetworkDest),
      (''akamaitechnologies.com'', ''Akamai'', NetworkDest),
      (''akamai.net'', ''Akamai'', NetworkDest),
      (''cloudfront.net'', ''CloudFront'', NetworkDest),
      (''googleusercontent.com'', ''Google Cloud'', NetworkDest),
      (''s3.amazonaws.com'', ''Amazon S3'', DataStoresDest),
      (''github.com'', ''GitHub'', SaasDest),
      (''github.io'', ''GitHub'', SaasDest),
      (''slack.com'', ''Slack'', SaasDest),
      (''salesforce.com'', ''Salesforce'', SaasDest),
      (''force.com'', ''Salesforce'', SaasDest),
      (''service-now.com'', ''ServiceNow'', SaasDest),
      (''zoom.us'', ''Zoom'', SaasDest),
      (''atlassian.net'', ''Atlassian'', SaasDest),
      (''atlassian.com'', ''Atlassian'', SaasDest),
      (''office365.com'', ''Microsoft 365'', SaasDest),
      (''outlook.com'', ''Microsoft 365'', SaasDest),
      (''sharepoint.com'', ''Microsoft 365'', SaasDest),
      (''amazonaws.com'', ''AWS'', SaasDest),
      (''azure.com'', ''Microsoft Azure'', SaasDest),
      (''azurewebsites.net'', ''Microsoft Azure'', SaasDest),
      (''googleapis.com'', ''Google APIs'', SaasDest),
      (''google.com'', ''Google'', SaasDest),
      (''1e100.net'', ''Google'', SaasDest),
      (''anthropic.com'', ''Anthropic'', SaasDest),
      (''openai.com'', ''OpenAI'', SaasDest),
      (''wikimedia.org'', ''Wikipedia'', NetworkDest),
      (''wikipedia.org'', ''Wikipedia'', NetworkDest)]"

definition splitEndpoint :: "string \<Rightarrow> string \<times> jsnum option" where
  "splitEndpoint address = (case endpoint_parts address of
       Some (ip, port) \<Rightarrow> (ip, Some (string_to_number port))
     | None \<Rightarrow> (address, None))"

definition port_name :: "(int \<times> string) list \<Rightarrow> jsnum option \<Rightarrow> string option" where
  "port_name ports port = (case port of Some (NInt n) \<Rightarrow> map_of ports n | _ \<Rightarrow> None)"

definition isPrivateIp :: "string \<Rightarrow> bool" where
  "isPrivateIp ip = (case map string_to_number (split_on (CHR ''.'') ip) of
       [a, b, _, _] \<Rightarrow>
         a = NInt 10 \<or> a = NInt 127 \<or> a = NInt 172 \<and> num_le (NInt 16) b \<and> num_le b (NInt 31) \<or>
         a = NInt 192 \<and> b = NInt 168 \<or> a = NInt 169 \<and> b = NInt 254
     | _ \<Rightarrow> False)"

definition brand_matches :: "string \<Rightarrow> string \<times> string \<times> OverviewDestCategory \<Rightarrow> bool" where
  "brand_matches lower rule \<longleftrightarrow> lower = fst rule \<or> suffix (CHR ''.'' # fst rule) lower"

definition better_brand :: "string \<Rightarrow> (string \<times> string \<times> OverviewDestCategory) option \<Rightarrow> string \<times> string \<times> OverviewDestCategory
    \<Rightarrow> (string \<times> string \<times> OverviewDestCategory) option" where
  "better_brand lower best rule =
     (if brand_matches lower rule \<and> (case best of None \<Rightarrow> True | Some b \<Rightarrow> length (fst b) < length (fst rule)) then Some rule else best)"

definition brandOf :: "string \<Rightarrow> (OverviewDestCategory \<times> string) option" where
  "brandOf resolvedName =
     map_option (\<lambda>(_, name, category). (category, name)) (foldl (better_brand (toLowerCase resolvedName)) None BRAND_RULES)"

definition upper_char :: "char \<Rightarrow> char" where
  "upper_char c = (if 97 \<le> (of_char c :: nat) \<and> (of_char c :: nat) \<le> 122 then char_of ((of_char c :: nat) - 32) else c)"

definition title :: "string \<Rightarrow> string" where
  "title s = (case s of [] \<Rightarrow> [] | c # cs \<Rightarrow> upper_char c # cs)"

definition domainName :: "string \<Rightarrow> string option" where
  "domainName resolvedName =
     (let labels = filter (\<lambda>l. l \<noteq> []) (split_on (CHR ''.'') (toLowerCase resolvedName)); n = length labels
      in if n < 2 then None
         else let second = labels ! (n - 2);
                core = (if 3 \<le> n \<and> second \<in> set [''co'', ''com'', ''net'', ''org'', ''ac'', ''gov''] then labels ! (n - 3) else second)
              in Some (title core))"

definition classifyDestination :: "string \<Rightarrow> string option \<Rightarrow> OverviewDestCategory \<times> string" where
  "classifyDestination address resolvedName = (case splitEndpoint address of (ip, port) \<Rightarrow>
     let ptr = map_option trim resolvedName; known = (case ptr of Some p \<Rightarrow> if p = [] then None else Some p | None \<Rightarrow> None)
     in case port_name DATA_STORE_PORTS port of
          Some store \<Rightarrow> (DataStoresDest, store)
        | None \<Rightarrow>
            if ip = ''169.254.169.254'' then (PrivateAppsDest, ''Cloud Metadata'')
            else if prefix ''127.'' ip then (PrivateAppsDest, ''Localhost'')
            else if isPrivateIp ip then
              (case port_name PRIVATE_APP_PORTS port of
                 Some app \<Rightarrow> (PrivateAppsDest, app)
               | None \<Rightarrow> (PrivateAppsDest, case known of None \<Rightarrow> ip | Some p \<Rightarrow> (case domainName p of None \<Rightarrow> p | Some d \<Rightarrow> d)))
            else (case Option.bind known brandOf of
                Some brand \<Rightarrow> brand
              | None \<Rightarrow> (case port_name PRIVATE_APP_PORTS port of
                  Some app \<Rightarrow> (PrivateAppsDest, app)
                | None \<Rightarrow> (NetworkDest, case known of None \<Rightarrow> ip | Some p \<Rightarrow> (case domainName p of None \<Rightarrow> p | Some d \<Rightarrow> d)))))"

section \<open>Rings\<close>

text \<open>\<open>`${category}\0${name}`\<close>, the key of a merged destination.\<close>

definition merge_key :: "OverviewDestCategory \<Rightarrow> string \<Rightarrow> string" where
  "merge_key category appName = dest_category_tag category @ [CHR 0x00] @ appName"

type_synonym merged_apps = "(string, OverviewDestCategory \<times> OverviewApp) jsmap"

definition merge_app ::
    "(string \<Rightarrow> string option \<Rightarrow> OverviewDestCategory \<times> string) \<Rightarrow> merged_apps \<Rightarrow> OverviewApp \<times> string option \<Rightarrow> merged_apps" where
  "merge_app classify m entry = (case entry of (app, resolved) \<Rightarrow>
     (case classify (oa_address app) resolved of (category, appName) \<Rightarrow>
        let key = merge_key category appName
        in case map_get m key of
             Some (_, prior) \<Rightarrow> map_set m key (category, prior\<lparr>oa_count := num_add (oa_count prior) (oa_count app)\<rparr>)
           | None \<Rightarrow> map_set m key (category, \<lparr>oa_name = appName, oa_address = oa_address app, oa_count = oa_count app\<rparr>)))"

text \<open>The sign of a number, 0 for NaN; \<open>b.count - a.count || a.name.localeCompare(b.name)\<close>.\<close>

definition num_sign :: "jsnum \<Rightarrow> int" where
  "num_sign n = (if num_less n (NInt 0) then - 1 else if num_less (NInt 0) n then 1 else 0)"

definition app_order :: "(string \<Rightarrow> string \<Rightarrow> int) \<Rightarrow> OverviewApp \<Rightarrow> OverviewApp \<Rightarrow> int" where
  "app_order localeCompare a b =
     (let d = num_sign (num_sub (oa_count b) (oa_count a)) in if d \<noteq> 0 then d else localeCompare (oa_name a) (oa_name b))"

definition ring_apps :: "(string \<Rightarrow> string \<Rightarrow> int) \<Rightarrow> merged_apps \<Rightarrow> OverviewDestCategory \<Rightarrow> OverviewApp list" where
  "ring_apps localeCompare m c = sort_by (app_order localeCompare) (map snd (filter (\<lambda>(category, _). category = c) (map snd m)))"

definition class_count :: "WireConnClass list \<Rightarrow> string \<Rightarrow> jsnum" where
  "class_count ds c = (case List.find (\<lambda>d. wcc_class d = c) ds of None \<Rightarrow> NInt 0 | Some d \<Rightarrow> wcc_count d)"

definition NETWORK_DEST_CLASS :: string where
  "NETWORK_DEST_CLASS = ''network''"

text \<open>What a ring counts beyond the apps it lists: the unlisted endpoints of the network, or the engine's own class.\<close>

definition unlisted_count :: "WireConnectivityGraph \<Rightarrow> nat \<Rightarrow> OverviewDestCategory \<Rightarrow> jsnum" where
  "unlisted_count graph listed c =
     (if c = NetworkDest then math_max (NInt 0) (num_sub (class_count (wcg_destinations graph) NETWORK_DEST_CLASS) (NInt (int listed)))
      else class_count (wcg_destinations graph) (dest_category_tag c))"

definition ring_node :: "(string \<Rightarrow> string \<Rightarrow> int) \<Rightarrow> WireConnectivityGraph \<Rightarrow> nat \<Rightarrow> merged_apps \<Rightarrow> OverviewDestCategory \<Rightarrow> OverviewDestNode" where
  "ring_node localeCompare graph listed m c =
     (let apps = ring_apps localeCompare m c; rest = unlisted_count graph listed c
      in \<lparr>odn_class = dest_category_tag c, odn_count = num_add (NInt (int (length apps))) rest, odn_apps = apps, odn_moreCount = rest\<rparr>)"

definition foreign_classes :: "WireConnClass list \<Rightarrow> WireConnClass list" where
  "foreign_classes ds = filter (\<lambda>d. wcc_class d \<noteq> NETWORK_DEST_CLASS \<and> wcc_class d \<notin> dest_category_tag ` set OVERVIEW_DEST_CATEGORIES) ds"

definition ring_connections :: "(string \<Rightarrow> string \<Rightarrow> int) \<Rightarrow> merged_apps \<Rightarrow> OverviewDestCategory \<Rightarrow> jsnum" where
  "ring_connections localeCompare m c = foldl (\<lambda>s a. num_add s (oa_count a)) (NInt 0) (ring_apps localeCompare m c)"

definition split_edge :: "(OverviewDestCategory \<Rightarrow> jsnum) \<Rightarrow> jsnum \<Rightarrow> WireVtzDestEdge \<Rightarrow> OverviewDestEdge list" where
  "split_edge conns listedTotal e =
     (if wvd_dest_class e \<noteq> NETWORK_DEST_CLASS \<or> is_zero listedTotal
      then [\<lparr>ode_vtzId = wvd_vtz_id e, ode_destClass = wvd_dest_class e, ode_weight = wvd_weight e\<rparr>]
      else concat (map (\<lambda>c. let share = num_div (conns c) listedTotal
        in if num_less (NInt 0) share
           then [\<lparr>ode_vtzId = wvd_vtz_id e, ode_destClass = dest_category_tag c, ode_weight = num_mul (wvd_weight e) share\<rparr>]
           else []) OVERVIEW_DEST_CATEGORIES))"

definition rebucketDestinations ::
    "(string \<Rightarrow> string \<Rightarrow> int) \<Rightarrow> WireConnectivityGraph \<Rightarrow> (OverviewApp \<times> string option) list \<Rightarrow>
      (string \<Rightarrow> string option \<Rightarrow> OverviewDestCategory \<times> string) \<Rightarrow> OverviewDestNode list \<times> OverviewDestEdge list" where
  "rebucketDestinations localeCompare graph apps classify =
     (let m = foldl (merge_app classify) [] apps;
          conns = ring_connections localeCompare m;
          listedTotal = foldl (\<lambda>s c. num_add s (conns c)) (NInt 0) OVERVIEW_DEST_CATEGORIES
      in (map (ring_node localeCompare graph (length apps) m) OVERVIEW_DEST_CATEGORIES @
            map (\<lambda>d. \<lparr>odn_class = wcc_class d, odn_count = wcc_count d, odn_apps = [], odn_moreCount = wcc_count d\<rparr>)
              (foreign_classes (wcg_destinations graph)),
          concat (map (split_edge conns listedTotal) (wcg_dest_edges graph))))"

section \<open>The graph\<close>

definition vtz_node :: "WireVtzNode \<Rightarrow> OverviewVtzNode option" where
  "vtz_node v = do {
     risk \<leftarrow> toRiskBand (wvn_risk v);
     Some \<lparr>ovn_id = wvn_id v, ovn_name = wvn_name v, ovn_profile = toVtzProfile (wvn_profile v), ovn_risk = risk\<rparr>
   }"

definition resolved_app :: "(string \<Rightarrow> string option) option \<Rightarrow> WireNamedDest \<Rightarrow> OverviewApp \<times> string option" where
  "resolved_app resolveName d =
     (let name = (case resolveName of None \<Rightarrow> None | Some f \<Rightarrow> map_option trim (f (wnd_address d)));
          known = (if name = Some [] then None else name)
      in (\<lparr>oa_name = (case known of None \<Rightarrow> wnd_address d | Some n \<Rightarrow> n), oa_address = wnd_address d, oa_count = wnd_count d\<rparr>, known))"

definition plain_node :: "OverviewApp list \<Rightarrow> WireConnClass \<Rightarrow> OverviewDestNode" where
  "plain_node apps d =
     (let shown = (if wcc_class d = NETWORK_DEST_CLASS then apps else [])
      in \<lparr>odn_class = wcc_class d, odn_count = wcc_count d, odn_apps = shown,
          odn_moreCount = math_max (NInt 0) (num_sub (wcc_count d) (NInt (int (length shown))))\<rparr>)"

text \<open>\<open>new Map(sources.map(...)).get(c) ?? 0\<close>: the last of equal keys.\<close>

definition source_nodes :: "WireConnClass list \<Rightarrow> OverviewSourceNode list" where
  "source_nodes ss =
     map (\<lambda>c. \<lparr>osn_class = c, osn_count = (case map_of (rev (map (\<lambda>s. (wcc_class s, wcc_count s)) ss)) c of None \<Rightarrow> NInt 0 | Some n \<Rightarrow> n)\<rparr>)
       OVERVIEW_SOURCE_CATEGORIES @
     map (\<lambda>s. \<lparr>osn_class = wcc_class s, osn_count = wcc_count s\<rparr>) (filter (\<lambda>s. wcc_class s \<notin> set OVERVIEW_SOURCE_CATEGORIES) ss)"

definition toOverviewSankey ::
    "(string \<Rightarrow> string \<Rightarrow> int) \<Rightarrow> WireConnectivityGraph \<Rightarrow> (string \<Rightarrow> string option) option \<Rightarrow>
      (string \<Rightarrow> string option \<Rightarrow> OverviewDestCategory \<times> string) option \<Rightarrow> OverviewSankey option" where
  "toOverviewSankey localeCompare graph resolveName classify = do {
     vtzs \<leftarrow> traverse vtz_node (wcg_vtzs graph);
     let resolved = map (resolved_app resolveName) (wcg_top_destinations graph);
     let (destinations, destEdges) = (case classify of
        Some f \<Rightarrow> rebucketDestinations localeCompare graph resolved f
      | None \<Rightarrow> (map (plain_node (map fst resolved)) (wcg_destinations graph),
          map (\<lambda>e. \<lparr>ode_vtzId = wvd_vtz_id e, ode_destClass = wvd_dest_class e, ode_weight = wvd_weight e\<rparr>) (wcg_dest_edges graph)));
     Some \<lparr>osk_sources = source_nodes (wcg_sources graph), osk_vtzs = vtzs, osk_destinations = destinations,
       osk_sourceEdges = map (\<lambda>e. \<lparr>ose_sourceClass = wsv_source_class e, ose_vtzId = wsv_vtz_id e, ose_weight = wsv_weight e\<rparr>) (wcg_source_edges graph),
       osk_destEdges = destEdges, osk_truncated = wcg_truncated graph\<rparr>
   }"

definition toConnectionList :: "WireConnectionList \<Rightarrow> OverviewConnectionList" where
  "toConnectionList w = \<lparr>ocl_connections = map (\<lambda>c. \<lparr>ocn_destinationId = wcx_destination_id c, ocn_destinationKind = wcx_destination_kind c,
     ocn_observedAt = wcx_observed_at c\<rparr>) (wcxl_connections w)\<rparr>"

definition toMemberList :: "WireMemberList \<Rightarrow> OverviewMemberList" where
  "toMemberList w = \<lparr>oml_members = map (\<lambda>m. \<lparr>omb_id = wcm_id m, omb_kind = wcm_kind m, omb_name = wcm_display_name m,
     omb_connectionCount = wcm_connection_count m\<rparr>) (wml_members w)\<rparr>"

definition PRINCIPAL_MEMBER_KINDS :: "string list" where
  "PRINCIPAL_MEMBER_KINDS = [''agent_instance'', ''mcp_server'', ''user'']"

definition memberEntityRef :: "OverviewMember \<Rightarrow> EntityRef" where
  "memberEntityRef m = \<lparr>er_kind = (if omb_kind m \<in> set PRINCIPAL_MEMBER_KINDS then ''principal'' else ''object''), er_id = omb_id m\<rparr>"

section \<open>Resolvers\<close>

record 'w overview_engine =
  ovw_connectivityGraph :: "('w, WireConnectivityQuery, WireConnectivityGraph) verb"
  ovw_entityConnections :: "('w, WireEntityConnections, WireConnectionList) verb"
  ovw_connectivityMembers :: "('w, WireConnectivityMembers, WireMemberList) verb"

text \<open>What \<open>reverseDns?.namesFor\<close> gives for a list of addresses at the time of the call.\<close>

type_synonym name_reader = "(string list \<Rightarrow> string \<Rightarrow> string option) option"

definition cached_names :: "ReverseDnsConfig \<Rightarrow> int \<Rightarrow> ReverseDnsResolver \<Rightarrow> string list \<Rightarrow> string \<Rightarrow> string option" where
  "cached_names config now st addresses = map_get (fst (namesFor config now addresses st))"

definition queryToWire :: "OverviewQuery \<Rightarrow> WireConnectivityQuery" where
  "queryToWire q = \<lparr>request_id = NInt 0, operator = None, cq_since = map_option seconds_of (oq_since q),
     cq_until = map_option seconds_of (oq_until q), cq_limit = oq_limit q\<rparr>"

definition resolveOverviewSankey ::
    "(string \<Rightarrow> string \<Rightarrow> int) \<Rightarrow> name_reader \<Rightarrow> 'w overview_engine \<Rightarrow> OperatorPrincipal \<Rightarrow> OverviewQuery \<Rightarrow> ('w, OverviewSankey) resolver" where
  "resolveOverviewSankey localeCompare reverseDns engine who query =
     and_then (ask (ovw_connectivityGraph engine) (\<lambda>q. Core (ReqConnectivityGraph q)) who (queryToWire query))
       (\<lambda>graph. or_throw OverviewUnavailable (toOverviewSankey localeCompare graph
          (map_option (\<lambda>lookup. lookup (map wnd_address (wcg_top_destinations graph))) reverseDns) (Some classifyDestination)))"

definition MAX_CONNECTIONS_LIMIT :: int where
  "MAX_CONNECTIONS_LIMIT = 500"

definition resolveEntityConnections ::
    "'w overview_engine \<Rightarrow> OperatorPrincipal \<Rightarrow> string \<Rightarrow> string \<Rightarrow> ('w, OverviewConnectionList) resolver" where
  "resolveEntityConnections engine who subjectId subjectKind =
     and_then (ask (ovw_entityConnections engine) (\<lambda>q. Core (ReqEntityConnections q)) who
         \<lparr>request_id = NInt 0, operator = None, ec_subject_kind = subjectKind, ec_subject_id = subjectId, ec_limit = NInt MAX_CONNECTIONS_LIMIT\<rparr>)
       (\<lambda>w. give (toConnectionList w))"

definition MAX_MEMBERS_LIMIT :: int where
  "MAX_MEMBERS_LIMIT = 500"

definition isSourceContainer :: "string \<Rightarrow> bool" where
  "isSourceContainer v \<longleftrightarrow> v \<in> set OVERVIEW_SOURCE_CATEGORIES"

definition membersRequest :: "string \<Rightarrow> WireConnectivityMembers" where
  "membersRequest engineClass = \<lparr>request_id = NInt 0, operator = None, cm_class = engineClass, cm_limit = NInt MAX_MEMBERS_LIMIT\<rparr>"

definition member_class :: "name_reader \<Rightarrow> OverviewMemberList \<Rightarrow> OverviewMember \<Rightarrow> OverviewDestCategory \<times> string" where
  "member_class reverseDns l m = classifyDestination (omb_id m)
     (case reverseDns of None \<Rightarrow> None | Some lookup \<Rightarrow> lookup (map omb_id (oml_members l)) (omb_id m))"

definition rebucketDestMembers :: "name_reader \<Rightarrow> OverviewMemberList \<Rightarrow> OverviewDestCategory \<Rightarrow> OverviewMemberList" where
  "rebucketDestMembers reverseDns l ring =
     \<lparr>oml_members = concat (map (\<lambda>m. case member_class reverseDns l m of (category, label) \<Rightarrow>
        if category = ring then [m\<lparr>omb_name := label\<rparr>] else []) (oml_members l))\<rparr>"

definition resolveClassMembers :: "name_reader \<Rightarrow> 'w overview_engine \<Rightarrow> OperatorPrincipal \<Rightarrow> string \<Rightarrow> ('w, OverviewMemberList) resolver" where
  "resolveClassMembers reverseDns engine who container =
     (if isSourceContainer container then
        and_then (ask (ovw_connectivityMembers engine) (\<lambda>q. Core (ReqConnectivityMembers q)) who (membersRequest container))
          (\<lambda>w. give (toMemberList w))
      else case narrow_in OVERVIEW_DEST_CATEGORIES dest_category_tag container of
        Some ring \<Rightarrow> and_then (ask (ovw_connectivityMembers engine) (\<lambda>q. Core (ReqConnectivityMembers q)) who (membersRequest NETWORK_DEST_CLASS))
          (\<lambda>w. give (rebucketDestMembers reverseDns (toMemberList w) ring))
      | None \<Rightarrow> throw UnknownContainer)"

section \<open>Pages of zones\<close>

lemma pages_cover:
  "concat (map (\<lambda>p. take k (drop (p * k) xs)) [0..<n]) = take (n * k) xs"
proof (induction n)
  case (Suc n)
  have "take (Suc n * k) xs = take (n * k) xs @ take k (drop (n * k) xs)"
    by (metis add.commute mult_Suc take_add)
  then show ?case using Suc by simp
qed simp

lemma pages_whole: "concat (map (\<lambda>p. overviewVtzPage vtzs (int p)) [0..<overviewVtzPageCount (length vtzs)]) = vtzs"
proof -
  let ?n = "overviewVtzPageCount (length vtzs)"
  have "overviewVtzPage vtzs (int p) = take 3 (drop (p * 3) vtzs)" if "p < ?n" for p
    using that by (simp add: overviewVtzPage_def OVERVIEW_VTZS_PER_PAGE_def Let_def min_def max_def)
  then have "map (\<lambda>p. overviewVtzPage vtzs (int p)) [0..<?n] = map (\<lambda>p. take 3 (drop (p * 3) vtzs)) [0..<?n]" by simp
  moreover have "length vtzs \<le> ((length vtzs + 2) div 3) * 3" by linarith
  then have "length vtzs \<le> ?n * 3" by (auto simp: overviewVtzPageCount_def OVERVIEW_VTZS_PER_PAGE_def max_def)
  ultimately show ?thesis by (simp only: pages_cover take_all)
qed

section \<open>Brands\<close>

text \<open>The longest of the rules that match, the first of equally long ones.\<close>

lemma best_brand:
  assumes "foldl (better_brand lower) None rules = best"
  shows "case best of
      None \<Rightarrow> list_all (\<lambda>rule. \<not> brand_matches lower rule) rules
    | Some rule \<Rightarrow> rule \<in> set rules \<and> brand_matches lower rule \<and>
        list_all (\<lambda>other. \<not> brand_matches lower other \<or> length (fst other) \<le> length (fst rule)) rules"
  using assms
proof (induction rules arbitrary: best rule: rev_induct)
  case (snoc rule rules)
  define prior where "prior = foldl (better_brand lower) None rules"
  have "best = better_brand lower prior rule" using snoc.prems by (simp add: prior_def)
  then show ?case using snoc.IH [OF prior_def [symmetric]]
    by (cases prior) (fastforce simp: better_brand_def list_all_iff split: if_splits)+
qed simp

lemma private_not_public:
  "isPrivateIp (fst (splitEndpoint a)) \<Longrightarrow> fst (classifyDestination a n) = PrivateAppsDest \<or> fst (classifyDestination a n) = DataStoresDest"
  by (auto simp: classifyDestination_def Let_def split: prod.splits option.splits)

section \<open>Merged destinations\<close>

lemma merge_key_inject: "merge_key c n = merge_key c' n' \<longleftrightarrow> c = c' \<and> n = n'"
  by (cases c; cases c') (simp_all add: merge_key_def)

text \<open>The entry of one category and name: the destinations that classify so, summed in order.\<close>

definition grow_entry ::
    "OverviewDestCategory \<Rightarrow> string \<Rightarrow> (OverviewDestCategory \<times> OverviewApp) option \<Rightarrow> OverviewApp \<times> string option \<Rightarrow> (OverviewDestCategory \<times> OverviewApp) option" where
  "grow_entry c n prior entry = Some (c, case prior of
       None \<Rightarrow> \<lparr>oa_name = n, oa_address = oa_address (fst entry), oa_count = oa_count (fst entry)\<rparr>
     | Some (_, p) \<Rightarrow> p\<lparr>oa_count := num_add (oa_count p) (oa_count (fst entry))\<rparr>)"

abbreviation falls_in :: "(string \<Rightarrow> string option \<Rightarrow> OverviewDestCategory \<times> string) \<Rightarrow> OverviewDestCategory \<Rightarrow> string \<Rightarrow> OverviewApp \<times> string option \<Rightarrow> bool" where
  "falls_in classify c n entry \<equiv> classify (oa_address (fst entry)) (snd entry) = (c, n)"

definition entry_total ::
    "(string \<Rightarrow> string option \<Rightarrow> OverviewDestCategory \<times> string) \<Rightarrow> OverviewDestCategory \<Rightarrow> string \<Rightarrow>
      (OverviewDestCategory \<times> OverviewApp) option \<Rightarrow> (OverviewApp \<times> string option) list \<Rightarrow> (OverviewDestCategory \<times> OverviewApp) option" where
  "entry_total classify c n before apps = foldl (grow_entry c n) before (filter (falls_in classify c n) apps)"

lemma merge_app_get:
  "map_get (merge_app classify m entry) (merge_key c n) =
     (if falls_in classify c n entry then grow_entry c n (map_get m (merge_key c n)) entry else map_get m (merge_key c n))"
  by (cases entry)
    (auto simp: merge_app_def grow_entry_def Let_def map_get_set merge_key_inject split: prod.splits option.splits)

lemma merged_get:
  "map_get (foldl (merge_app classify) m apps) (merge_key c n) = entry_total classify c n (map_get m (merge_key c n)) apps"
  by (induction apps arbitrary: m) (auto simp: entry_total_def merge_app_get)

lemma entry_total_None: "entry_total classify c n None apps = None \<longleftrightarrow> \<not> list_ex (falls_in classify c n) apps"
proof -
  have "foldl (grow_entry c n) None xs = None \<longleftrightarrow> xs = []" for xs
    by (cases xs rule: rev_cases) (simp_all add: grow_entry_def)
  then show ?thesis by (auto simp: entry_total_def filter_empty_conv list_ex_iff)
qed

lemma grow_named:
  "grow_entry c n prior x = Some (c', app) \<Longrightarrow> (\<And>c0 p. prior = Some (c0, p) \<Longrightarrow> oa_name p = n) \<Longrightarrow> c' = c \<and> oa_name app = n"
  by (cases prior) (auto simp: grow_entry_def)

lemma entry_total_named:
  assumes "entry_total classify c n None apps = Some (c', app)"
  shows "c' = c \<and> oa_name app = n"
proof -
  have "foldl (grow_entry c n) None xs = Some (c', app) \<Longrightarrow> c' = c \<and> oa_name app = n" for xs
  proof (induction xs arbitrary: c' app rule: rev_induct)
    case (snoc x xs)
    show ?case by (rule grow_named [of _ _ "foldl (grow_entry c n) None xs" x]) (use snoc in auto)
  qed simp
  then show ?thesis using assms by (simp add: entry_total_def)
qed

definition merged_ok :: "merged_apps \<Rightarrow> bool" where
  "merged_ok m \<longleftrightarrow> map_ok m \<and> list_all (\<lambda>(key, c, app). key = merge_key c (oa_name app)) m"

lemma merge_app_ok:
  assumes "merged_ok m"
  shows "merged_ok (merge_app classify m entry)"
proof -
  obtain app resolved where entry: "entry = (app, resolved)" by fastforce
  obtain c n where cn: "classify (oa_address app) resolved = (c, n)" by fastforce
  define key where "key = merge_key c n"
  have named: "key = merge_key c' (oa_name p)" if "map_get m key = Some (c', p)" for c' p
    using assms map_of_SomeD [of m key "(c', p)"] that by (auto simp: merged_ok_def map_get_def list_all_iff)
  have set_ok: "merged_ok (map_set m key (c, p))" if "oa_name p = n" for p
    using assms that by (auto simp: merged_ok_def map_ok_set set_map_set_eq list_all_iff key_def)
  show ?thesis
  proof (cases "map_get m key")
    case None
    then show ?thesis using set_ok by (simp add: merge_app_def entry cn key_def [symmetric])
  next
    case (Some v)
    then obtain c' p where v: "map_get m key = Some (c', p)" by (cases v) auto
    then have "oa_name p = n" using named by (simp add: key_def merge_key_inject)
    then show ?thesis using v set_ok by (simp add: merge_app_def entry cn key_def [symmetric])
  qed
qed

lemma merged_ok_all: "merged_ok m \<Longrightarrow> merged_ok (foldl (merge_app classify) m apps)"
  by (induction apps arbitrary: m) (auto simp: merge_app_ok)

lemma merged_entry:
  assumes "m = foldl (merge_app classify) [] apps"
  shows "(key, c, app) \<in> set m \<longleftrightarrow> key = merge_key c (oa_name app) \<and> entry_total classify c (oa_name app) None apps = Some (c, app)"
proof -
  have ok: "merged_ok m" unfolding assms by (rule merged_ok_all) (simp add: merged_ok_def map_ok_def)
  have get: "map_get m (merge_key c n) = entry_total classify c n None apps" for c n
    using merged_get [of classify "[]" apps c n] by (simp add: assms map_get_def)
  show ?thesis
    using ok get [of c "oa_name app"]
    by (auto simp: merged_ok_def map_ok_def list_all_iff map_get_def dest: map_of_SomeD)
qed

lemma merged_names_distinct:
  assumes "merged_ok m"
  shows "distinct (map oa_name (map snd (filter (\<lambda>(category, _). category = c) (map snd m))))"
  using assms
proof (induction m)
  case (Cons e m)
  obtain key c' app where e: "e = (key, c', app)" by (cases e) auto
  have "merged_ok m" using Cons.prems by (auto simp: merged_ok_def map_ok_def)
  moreover have "oa_name app' \<noteq> oa_name app" if "(k', c', app') \<in> set m" for k' app'
  proof
    assume "oa_name app' = oa_name app"
    then have "k' = key" using Cons.prems that by (auto simp: merged_ok_def e list_all_iff)
    then show False using Cons.prems that by (force simp: merged_ok_def map_ok_def e)
  qed
  then have "oa_name app \<notin> oa_name ` snd ` {x \<in> snd ` set m. fst x = c'}" by force
  ultimately show ?case using Cons.IH by (auto simp: e image_iff)
qed simp

lemma ring_names:
  assumes "m = foldl (merge_app classify) [] apps"
  shows "distinct (map oa_name (ring_apps lc m c))"
    and "oa_name ` set (ring_apps lc m c) = {n. list_ex (falls_in classify c n) apps}"
    and "list_all (\<lambda>app. entry_total classify c (oa_name app) None apps = Some (c, app)) (ring_apps lc m c)"
proof -
  have ok: "merged_ok m" unfolding assms by (rule merged_ok_all) (simp add: merged_ok_def map_ok_def)
  let ?listed = "map snd (filter (\<lambda>(category, _). category = c) (map snd m))"
  have "distinct (map oa_name ?listed)" by (rule merged_names_distinct [OF ok])
  then show "distinct (map oa_name (ring_apps lc m c))"
    unfolding ring_apps_def by (metis mset_map mset_eq_imp_distinct_iff sort_by_mset)
  have member: "app \<in> set (ring_apps lc m c) \<longleftrightarrow> (\<exists>key. (key, c, app) \<in> set m)" for app
    by (auto simp: ring_apps_def image_iff) force
  have in_ring: "app \<in> set (ring_apps lc m c) \<longleftrightarrow> entry_total classify c (oa_name app) None apps = Some (c, app)" for app
    unfolding member merged_entry [OF assms] by simp
  then show "list_all (\<lambda>app. entry_total classify c (oa_name app) None apps = Some (c, app)) (ring_apps lc m c)"
    by (simp add: list_all_iff)
  show "oa_name ` set (ring_apps lc m c) = {n. list_ex (falls_in classify c n) apps}"
  proof (intro set_eqI iffI)
    fix n assume "n \<in> oa_name ` set (ring_apps lc m c)"
    then show "n \<in> {n. list_ex (falls_in classify c n) apps}"
      using in_ring entry_total_None [of classify c n apps] by auto
  next
    fix n assume "n \<in> {n. list_ex (falls_in classify c n) apps}"
    then obtain c' app where "entry_total classify c n None apps = Some (c', app)"
      using entry_total_None [of classify c n apps] by auto
    then show "n \<in> oa_name ` set (ring_apps lc m c)"
      using entry_total_named [of classify c n apps c' app] in_ring by (metis imageI)
  qed
qed

section \<open>Properties\<close>

lemma concat_filter:
  "concat (map (\<lambda>x. case g x of (c, n) \<Rightarrow> if c = ring then [h x n] else []) xs) = map (\<lambda>x. h x (snd (g x))) (filter (\<lambda>x. fst (g x) = ring) xs)"
  by (induction xs) (auto split: prod.splits)

lemma rebucket_ids:
  "map omb_id (oml_members (rebucketDestMembers reverseDns l c)) =
   map omb_id (filter (\<lambda>m. fst (member_class reverseDns l m) = c) (oml_members l))"
  by (simp add: rebucketDestMembers_def concat_filter comp_def)

lemma filter_partition:
  "mset xs = mset (filter (\<lambda>x. f x = NetworkDest) xs) + mset (filter (\<lambda>x. f x = SaasDest) xs) +
     mset (filter (\<lambda>x. f x = PrivateAppsDest) xs) + mset (filter (\<lambda>x. f x = DataStoresDest) xs)"
proof (induction xs)
  case (Cons x xs)
  then show ?case by (cases "f x") auto
qed simp

text \<open>
  C17.  The overview loses no destination and shows none twice.  The right column starts with the
  four rings, in order; a ring lists exactly the names that some destination of the engine is
  classified to in that ring, each once, with the counts of its destinations summed; the zones
  are all shown, page by page; and the members of the network class, asked for ring by ring, come
  back in one ring each and in the order of the engine.
\<close>
theorem overview_conserves:
  "(case toOverviewSankey lc graph resolveName (Some classify) of
      None \<Rightarrow> list_ex (\<lambda>v. toRiskLevel (wrb_level (wvn_risk v)) = None) (wcg_vtzs graph)
    | Some v \<Rightarrow>
       map ovn_id (osk_vtzs v) = map wvn_id (wcg_vtzs graph) \<and>
       concat (map (\<lambda>p. overviewVtzPage (osk_vtzs v) (int p)) [0..<overviewVtzPageCount (length (osk_vtzs v))]) = osk_vtzs v \<and>
       map odn_class (take 4 (osk_destinations v)) = map dest_category_tag OVERVIEW_DEST_CATEGORIES \<and>
       list_all2 (\<lambda>c ring. distinct (map oa_name (odn_apps ring)) \<and>
           oa_name ` set (odn_apps ring) =
             {n. list_ex (falls_in classify c n) (map (resolved_app resolveName) (wcg_top_destinations graph))} \<and>
           list_all (\<lambda>app. entry_total classify c (oa_name app) None (map (resolved_app resolveName) (wcg_top_destinations graph)) = Some (c, app))
             (odn_apps ring))
         OVERVIEW_DEST_CATEGORIES (take 4 (osk_destinations v))) \<and>
   mset (map omb_id (oml_members l)) = sum_list (map (\<lambda>c. mset (map omb_id (oml_members (rebucketDestMembers reverseDns l c)))) OVERVIEW_DEST_CATEGORIES) \<and>
   list_all (\<lambda>c. subseq (map omb_id (oml_members (rebucketDestMembers reverseDns l c))) (map omb_id (oml_members l))) OVERVIEW_DEST_CATEGORIES"
proof (intro conjI)
  show "mset (map omb_id (oml_members l)) = sum_list (map (\<lambda>c. mset (map omb_id (oml_members (rebucketDestMembers reverseDns l c)))) OVERVIEW_DEST_CATEGORIES)"
    unfolding rebucket_ids
    using arg_cong [OF filter_partition [of "oml_members l" "\<lambda>m. fst (member_class reverseDns l m)"], of "image_mset omb_id"]
    by (simp add: OVERVIEW_DEST_CATEGORIES_def add.assoc)
  show "list_all (\<lambda>c. subseq (map omb_id (oml_members (rebucketDestMembers reverseDns l c))) (map omb_id (oml_members l))) OVERVIEW_DEST_CATEGORIES"
    unfolding rebucket_ids by (simp add: list_all_iff subseq_map subseq_filter_left)
next
  show "case toOverviewSankey lc graph resolveName (Some classify) of
      None \<Rightarrow> list_ex (\<lambda>v. toRiskLevel (wrb_level (wvn_risk v)) = None) (wcg_vtzs graph)
    | Some v \<Rightarrow>
       map ovn_id (osk_vtzs v) = map wvn_id (wcg_vtzs graph) \<and>
       concat (map (\<lambda>p. overviewVtzPage (osk_vtzs v) (int p)) [0..<overviewVtzPageCount (length (osk_vtzs v))]) = osk_vtzs v \<and>
       map odn_class (take 4 (osk_destinations v)) = map dest_category_tag OVERVIEW_DEST_CATEGORIES \<and>
       list_all2 (\<lambda>c ring. distinct (map oa_name (odn_apps ring)) \<and>
           oa_name ` set (odn_apps ring) =
             {n. list_ex (falls_in classify c n) (map (resolved_app resolveName) (wcg_top_destinations graph))} \<and>
           list_all (\<lambda>app. entry_total classify c (oa_name app) None (map (resolved_app resolveName) (wcg_top_destinations graph)) = Some (c, app))
             (odn_apps ring))
         OVERVIEW_DEST_CATEGORIES (take 4 (osk_destinations v))"
  proof (cases "traverse vtz_node (wcg_vtzs graph)")
    case None
    then have "list_ex (\<lambda>v. toRiskLevel (wrb_level (wvn_risk v)) = None) (wcg_vtzs graph)"
      by (auto simp: traverse_None list_ex_iff vtz_node_def toRiskBand_def bind_eq_None_conv)
    then show ?thesis using None by (simp add: toOverviewSankey_def)
  next
    case (Some vtzs)
    define apps where "apps = map (resolved_app resolveName) (wcg_top_destinations graph)"
    define m where "m = foldl (merge_app classify) [] apps"
    have "list_all2 (\<lambda>w v. vtz_node w = Some v) (wcg_vtzs graph) vtzs" using Some by (simp add: traverse_list_all2)
    then have "map ovn_id vtzs = map wvn_id (wcg_vtzs graph)"
      by (induction rule: list_all2_induct) (auto simp: vtz_node_def Option.bind_eq_Some_conv)
    then show ?thesis
      using Some ring_names [OF m_def] pages_whole [of vtzs]
      by (simp add: toOverviewSankey_def rebucketDestinations_def apps_def [symmetric] m_def [symmetric] Let_def
          OVERVIEW_DEST_CATEGORIES_def ring_node_def eval_nat_numeral)
  qed
qed

end
