(* ===== verification/SettingsViews.thy ===== *)
theory SettingsViews
  imports SettingsCommands Server Numbers
begin

text \<open>
  What the settings surface shows: the projections of \<open>packages/contracts/src/settings.ts\<close>.
  Replies are taken at the types \<open>generated/wire-dto.ts\<close> declares, with an \<open>option\<close> for a
  property that may be absent.  The role map of the backend itself arrives as JSON and is narrowed
  from it.
\<close>

section \<open>Replies\<close>

record WireSettingRow =
  wsg_bound :: string
  wsg_change_via :: string
  wsg_default_value :: string
  wsg_editable :: bool
  wsg_key :: string
  wsg_live_apply :: string
  wsg_origin :: string
  wsg_summary :: string
  wsg_surface :: string
  wsg_ui_binding :: string
  wsg_value :: "string option"
  wsg_value_type :: string

record WireAdminAssignment =
  waa_clearance :: string
  waa_identity :: string
  waa_roles :: "string list"

record WireSsoGroupRoles =
  wsgr_group :: string
  wsgr_roles :: "string list"

record WireIdentitySettings =
  wis_admins :: "(WireAdminAssignment list) option"
  wis_sso_group_roles :: "(WireSsoGroupRoles list) option"

record WireSettings =
  wst_dual_control_required :: bool
  wst_explanation :: "string option"
  wst_identity_values :: "WireIdentitySettings option"
  wst_refused :: bool
  wst_rows :: "WireSettingRow list"
  wst_section_values :: "WireSectionPatch option"
  wst_surfaces :: "string list"
  wst_version :: jsnum

record WireSettingRefusal =
  wsf_cause :: string
  wsf_detail :: "string option"
  wsf_key :: string

record WireSettingsCommitted =
  wct_approval_refused :: "string option"
  wct_dual_control_required :: bool
  wct_explanation :: "string option"
  wct_needs_restart :: "string list"
  wct_proposal :: "jsnum option"
  wct_refused :: bool
  wct_refused_edits :: "WireSettingRefusal list"
  wct_version :: jsnum
  wct_violations :: "string list"

record WireSettingsProposed =
  wsp_explanation :: "string option"
  wsp_proposal :: jsnum
  wsp_refused :: bool
  wsp_refused_edits :: "WireSettingRefusal list"
  wsp_violations :: "string list"

record WireSettingsProposal =
  wpp_changed_keys :: "string list"
  wpp_proposal :: jsnum
  wpp_proposed_at_ms :: jsnum
  wpp_proposer :: string
  wpp_stale :: bool

record WireSettingsApprovals =
  wsa_explanation :: "string option"
  wsa_proposals :: "WireSettingsProposal list"
  wsa_refused :: bool

record WireSettingsVersion =
  wsv_at_ms :: "jsnum option"
  wsv_changed_keys :: "string list"
  wsv_principal :: "string option"
  wsv_version :: jsnum

record WireSettingsHistory =
  wsh_complete :: bool
  wsh_explanation :: "string option"
  wsh_refused :: bool
  wsh_versions :: "WireSettingsVersion list"

record WireServerReport =
  wsrv_build_time_unix :: "jsnum option"
  wsrv_durable :: bool
  wsrv_maintenance_cadence_secs :: jsnum
  wsrv_maintenance_enabled :: bool
  wsrv_max_payload :: jsnum
  wsrv_serving :: bool
  wsrv_shards :: jsnum
  wsrv_version :: string

record WireConnectivityReport =
  wcn_crypto_provider :: string
  wcn_fips_module :: bool
  wcn_identities_bound :: jsnum
  wcn_listen_addr :: string
  wcn_mutual_tls :: bool
  wcn_post_quantum_kx :: bool

record WireSecurityReport =
  wse_artifact_spot_failures :: jsnum
  wse_artifacts_spot_checked :: jsnum
  wse_audit_chain_verified :: bool
  wse_audit_entries :: jsnum
  wse_audit_head_version :: jsnum
  wse_classification :: string
  wse_template_artifacts :: jsnum

record WireTelemetryReport =
  wtl_enabled :: bool
  wtl_grpc_addr :: string
  wtl_http_addr :: string
  wtl_queue_capacity :: jsnum
  wtl_tenants_bound :: jsnum

record WireKeyIssuingReport =
  wki_dual_control_required :: bool
  wki_enabled :: bool
  wki_key_validity_secs :: jsnum

record WireSettingsReports =
  wrr_admin_plane :: bool
  wrr_connectivity :: "WireConnectivityReport option"
  wrr_egress :: "(WireEgressSetting list) option"
  wrr_explanation :: "string option"
  wrr_key_issuing :: "WireKeyIssuingReport option"
  wrr_refused :: bool
  wrr_security :: "WireSecurityReport option"
  wrr_server :: "WireServerReport option"
  wrr_telemetry :: "WireTelemetryReport option"

section \<open>Views\<close>

datatype SettingOrigin = KnobOrigin | SectionOrigin | EnvOrigin | ConstOrigin

fun setting_origin_tag :: "SettingOrigin \<Rightarrow> string" where
  "setting_origin_tag KnobOrigin = ''knob''"
| "setting_origin_tag SectionOrigin = ''section''"
| "setting_origin_tag EnvOrigin = ''env''"
| "setting_origin_tag ConstOrigin = ''const''"

definition SETTING_ORIGINS :: "SettingOrigin list" where
  "SETTING_ORIGINS = [KnobOrigin, SectionOrigin, EnvOrigin, ConstOrigin]"

lemma setting_origin_listed: "a \<in> set SETTING_ORIGINS"
  by (cases a) (simp_all add: SETTING_ORIGINS_def)

interpretation setting_origin: tag_list SETTING_ORIGINS setting_origin_tag
  by (unfold_locales, rule setting_origin_listed, simp_all add: SETTING_ORIGINS_def)

record SettingRow =
  srow_key :: string
  srow_surface :: string
  srow_origin :: SettingOrigin
  srow_value :: "string option"
  srow_valueType :: string
  srow_defaultValue :: string
  srow_bound :: string
  srow_liveApply :: string
  srow_changeVia :: string
  srow_uiBinding :: string
  srow_summary :: string
  srow_editable :: bool

record SectionValues =
  sv_dualControl :: "string list"
  sv_egressDestinations :: "EgressDestination list"
  sv_lugExposure :: LugExposure
  sv_disabledDecoderFamilies :: "string list"
  sv_sourceFormatMap :: "SourceFormat list"
  sv_socNarrativeModelRef :: "string option"

record AdminAssignment =
  aa_identity :: string
  aa_roles :: "string list"
  aa_clearance :: string

record SsoGroupRoles =
  sgr_group :: string
  sgr_roles :: "string list"

record IdentityValues =
  iv_admins :: "AdminAssignment list"
  iv_ssoGroupRoles :: "SsoGroupRoles list"

record SettingsView =
  stv_version :: jsnum
  stv_rows :: "SettingRow list"
  stv_surfaces :: "string list"
  stv_dualControlRequired :: bool
  stv_sectionValues :: "SectionValues option"
  stv_identity :: "IdentityValues option"

text \<open>\<open>SettingRefusalCause | 'other'\<close>: \<open>None\<close> is \<open>other\<close>.\<close>

datatype SettingRefusalCause = UnknownKey | NotAKnob | BootBound | PendingSubsystem | Unparseable | KindMismatch | DuplicateEdit

fun refusal_cause_tag :: "SettingRefusalCause \<Rightarrow> string" where
  "refusal_cause_tag UnknownKey = ''unknown_key''"
| "refusal_cause_tag NotAKnob = ''not_a_knob''"
| "refusal_cause_tag BootBound = ''boot_bound''"
| "refusal_cause_tag PendingSubsystem = ''pending_subsystem''"
| "refusal_cause_tag Unparseable = ''unparseable''"
| "refusal_cause_tag KindMismatch = ''kind_mismatch''"
| "refusal_cause_tag DuplicateEdit = ''duplicate''"

definition SETTING_REFUSAL_CAUSES :: "SettingRefusalCause list" where
  "SETTING_REFUSAL_CAUSES = [UnknownKey, NotAKnob, BootBound, PendingSubsystem, Unparseable, KindMismatch, DuplicateEdit]"

lemma refusal_cause_listed: "a \<in> set SETTING_REFUSAL_CAUSES"
  by (cases a) (simp_all add: SETTING_REFUSAL_CAUSES_def)

interpretation refusal_cause: tag_list SETTING_REFUSAL_CAUSES refusal_cause_tag
  by (unfold_locales, rule refusal_cause_listed, simp_all add: SETTING_REFUSAL_CAUSES_def)

datatype ApprovalRefusal = SelfApproval | UnknownProposal | StaleProposal | OtherRefusal

record SettingRefusal =
  sfr_key :: string
  sfr_cause :: "SettingRefusalCause option"
  sfr_causeTag :: string
  sfr_detail :: "string option"

record SettingsReceipt =
  sre_version :: jsnum
  sre_needsRestart :: "string list"
  sre_dualControlRequired :: bool
  sre_refusedEdits :: "SettingRefusal list"
  sre_violations :: "string list"
  sre_refused :: bool
  sre_explanation :: "string option"
  sre_proposal :: "jsnum option"
  sre_approvalRefused :: "ApprovalRefusal option"

record SettingsProposalReceipt =
  spr_proposal :: "jsnum option"
  spr_refusedEdits :: "SettingRefusal list"
  spr_violations :: "string list"
  spr_refused :: bool
  spr_explanation :: "string option"

record PendingProposal =
  pp_proposal :: jsnum
  pp_proposer :: string
  pp_proposedAtMs :: jsnum
  pp_changedKeys :: "string list"
  pp_stale :: bool

record SettingsVersionRow =
  svr_version :: jsnum
  svr_principal :: "string option"
  svr_atMs :: "jsnum option"
  svr_changedKeys :: "string list"

record SettingsHistoryView =
  shv_versions :: "SettingsVersionRow list"
  shv_complete :: bool

datatype EngineBuild = CommitBuild string bool | Unstamped string

record ServerReport =
  srp_shards :: jsnum
  srp_serving :: bool
  srp_durable :: bool
  srp_maintenanceEnabled :: bool
  srp_maintenanceCadenceSecs :: jsnum
  srp_maxPayload :: jsnum
  srp_version :: string
  srp_build :: EngineBuild
  srp_builtAtUnix :: "jsnum option"

record ConnectivityReport =
  cnr_listenAddr :: string
  cnr_mutualTls :: bool
  cnr_identitiesBound :: jsnum
  cnr_postQuantumKx :: bool
  cnr_cryptoProvider :: string
  cnr_fipsModule :: bool

record SecurityReport =
  scr_classification :: string
  scr_auditHeadVersion :: jsnum
  scr_auditEntries :: jsnum
  scr_auditChainVerified :: bool
  scr_artifactsSpotChecked :: jsnum
  scr_artifactSpotFailures :: jsnum
  scr_templateArtifacts :: jsnum

record TelemetryReport =
  tlr_enabled :: bool
  tlr_grpcAddr :: string
  tlr_httpAddr :: string
  tlr_queueCapacity :: jsnum
  tlr_tenantsBound :: jsnum

record KeyIssuingReport =
  kir_enabled :: bool
  kir_dualControlRequired :: bool
  kir_keyValiditySecs :: jsnum

record SettingsReportsView =
  srv_adminPlane :: bool
  srv_server :: "ServerReport option"
  srv_connectivity :: "ConnectivityReport option"
  srv_security :: "SecurityReport option"
  srv_telemetry :: "TelemetryReport option"
  srv_keyIssuing :: "KeyIssuingReport option"
  srv_egress :: "(EgressDestination list) option"

section \<open>Projections\<close>

text \<open>\<open>text === undefined || text === '' ? null : text\<close>\<close>

definition textOrNull :: "string option \<Rightarrow> string option" where
  "textOrNull v = (if v = Some [] then None else v)"

text \<open>\<open>n === undefined || n === 0 ? null : n\<close>; \<open>-0\<close> equals \<open>0\<close> too.\<close>

definition positiveOrNull :: "jsnum option \<Rightarrow> jsnum option" where
  "positiveOrNull v = (case v of None \<Rightarrow> None | Some n \<Rightarrow> if is_zero n then None else Some n)"

definition list_or_empty :: "'a list option \<Rightarrow> 'a list" where
  "list_or_empty v = (case v of None \<Rightarrow> [] | Some xs \<Rightarrow> xs)"

definition toIdentityValues :: "WireIdentitySettings option \<Rightarrow> IdentityValues option" where
  "toIdentityValues w = map_option (\<lambda>w.
     \<lparr>iv_admins = map (\<lambda>a. \<lparr>aa_identity = waa_identity a, aa_roles = waa_roles a, aa_clearance = waa_clearance a\<rparr>) (list_or_empty (wis_admins w)),
      iv_ssoGroupRoles = map (\<lambda>g. \<lparr>sgr_group = wsgr_group g, sgr_roles = wsgr_roles g\<rparr>)
        (list_or_empty (wis_sso_group_roles w))\<rparr>) w"

definition toSettingRow :: "WireSettingRow \<Rightarrow> SettingRow option" where
  "toSettingRow row = do {
     origin \<leftarrow> narrow_in SETTING_ORIGINS setting_origin_tag (wsg_origin row);
     Some \<lparr>srow_key = wsg_key row, srow_surface = wsg_surface row, srow_origin = origin, srow_value = wsg_value row,
       srow_valueType = wsg_value_type row, srow_defaultValue = wsg_default_value row, srow_bound = wsg_bound row, srow_liveApply = wsg_live_apply row, srow_changeVia = wsg_change_via row, srow_uiBinding = wsg_ui_binding row, srow_summary = wsg_summary row, srow_editable = wsg_editable row\<rparr>
   }"

definition toLug :: "WireLugExposureSettings \<Rightarrow> LugExposure" where
  "toLug l = \<lparr>x_enabled = lu_enabled l, x_resolutionEnabled = lu_resolution_enabled l, x_maxAccountsPerNamespace = lu_max_accounts_per_namespace l, x_maxGroupsPerNamespace = lu_max_groups_per_namespace l, x_maxSessionsPerDevice = lu_max_sessions_per_device l, x_lastSeenBucketHours = lu_last_seen_bucket_hours l, x_bindingConfirmThresholdPermille = lu_binding_confirm_threshold_permille l, x_snapshotCadenceHours = lu_snapshot_cadence_hours l\<rparr>"

definition toSectionValues :: "WireSectionPatch option \<Rightarrow> SectionValues option" where
  "toSectionValues w = do {
     p \<leftarrow> w;
     dual \<leftarrow> sc_dual_control p;
     egress \<leftarrow> sc_egress_destinations p;
     lug \<leftarrow> sc_lug_exposure p;
     disabled \<leftarrow> sc_disabled_decoder_families p;
     formats \<leftarrow> sc_source_format_map p;
     ref \<leftarrow> sc_soc_narrative_model_ref p;
     Some \<lparr>sv_dualControl = dual,
       sv_egressDestinations = map (\<lambda>e. \<lparr>ge_id = eg_id e, ge_ceiling = eg_ceiling e\<rparr>) egress,
       sv_lugExposure = toLug lug, sv_disabledDecoderFamilies = disabled,
       sv_sourceFormatMap = map (\<lambda>m. \<lparr>fm_source = sf_source m, fm_format = sf_format m\<rparr>) formats,
       sv_socNarrativeModelRef = (if ref = [] then None else Some ref)\<rparr>
   }"

definition toSettingsView :: "WireSettings \<Rightarrow> SettingsView option" where
  "toSettingsView w =
     (if wst_refused w then None
      else do {
        rows \<leftarrow> traverse toSettingRow (wst_rows w);
        Some \<lparr>stv_version = wst_version w, stv_rows = rows, stv_surfaces = wst_surfaces w,
          stv_dualControlRequired = wst_dual_control_required w, stv_sectionValues = toSectionValues (wst_section_values w),
          stv_identity = toIdentityValues (wst_identity_values w)\<rparr>
      })"

definition settingSourceLabel :: "SettingRow \<Rightarrow> jsnum \<Rightarrow> string" where
  "settingSourceLabel row version = (case srow_origin row of
       EnvOrigin \<Rightarrow> ''node environment at boot''
     | ConstOrigin \<Rightarrow> ''compile-time constant''
     | _ \<Rightarrow> if is_zero version then ''fail-closed default (nothing committed)''
            else ''committed at version '' @ number_string version)"

datatype ApplyClass = LiveApply | BootBoundApply | PendingApply | FixedApply

definition settingApplyClass :: "SettingRow \<Rightarrow> ApplyClass" where
  "settingApplyClass row =
     (if srow_origin row = EnvOrigin \<or> srow_origin row = ConstOrigin then FixedApply
      else if prefix ''live'' (srow_liveApply row) then LiveApply
      else if prefix ''pending'' (srow_liveApply row) then PendingApply
      else BootBoundApply)"

definition isKeyEditable :: "SettingRow \<Rightarrow> bool" where
  "isKeyEditable row \<longleftrightarrow> srow_editable row \<and> srow_origin row = KnobOrigin \<and> srow_valueType row \<noteq> ''CapabilitySet''"

definition toRefusals :: "WireSettingRefusal list \<Rightarrow> SettingRefusal list" where
  "toRefusals = map (\<lambda>r. \<lparr>sfr_key = wsf_key r,
     sfr_cause = narrow_in SETTING_REFUSAL_CAUSES refusal_cause_tag (wsf_cause r),
     sfr_causeTag = wsf_cause r, sfr_detail = textOrNull (wsf_detail r)\<rparr>)"

definition approval_refusal :: "string option \<Rightarrow> ApprovalRefusal option" where
  "approval_refusal v = map_option (\<lambda>cause.
     if cause = ''self_approval'' then SelfApproval
     else if cause = ''unknown_proposal'' then UnknownProposal
     else if cause = ''stale'' then StaleProposal
     else OtherRefusal) (textOrNull v)"

definition toSettingsReceipt :: "WireSettingsCommitted \<Rightarrow> SettingsReceipt" where
  "toSettingsReceipt w =
     \<lparr>sre_version = wct_version w, sre_needsRestart = wct_needs_restart w,
      sre_dualControlRequired = wct_dual_control_required w, sre_refusedEdits = toRefusals (wct_refused_edits w),
      sre_violations = wct_violations w, sre_refused = wct_refused w, sre_explanation = textOrNull (wct_explanation w),
      sre_proposal = positiveOrNull (wct_proposal w), sre_approvalRefused = approval_refusal (wct_approval_refused w)\<rparr>"

fun approvalRefusalLabel :: "ApprovalRefusal \<Rightarrow> string" where
  "approvalRefusalLabel SelfApproval = ''You proposed this change; a different Admin must approve it.''"
| "approvalRefusalLabel UnknownProposal =
     ''That proposal no longer exists (it was approved, discarded, or the node restarted).''"
| "approvalRefusalLabel StaleProposal =
     ''The configuration changed after this was proposed, so approving it would undo that change. The proposal was discarded; propose again.''"
| "approvalRefusalLabel OtherRefusal = ''The engine refused the approval.''"

definition refusalCauseLabel :: "SettingRefusal \<Rightarrow> string" where
  "refusalCauseLabel refusal = (case sfr_cause refusal of
       Some UnknownKey \<Rightarrow> ''not a governed setting''
     | Some NotAKnob \<Rightarrow> ''a section: change it through its form''
     | Some BootBound \<Rightarrow> ''boot-bound: needs a restart, not editable here''
     | Some PendingSubsystem \<Rightarrow> ''pending: nothing applies it yet''
     | Some Unparseable \<Rightarrow> ''not a valid value for this setting''
     | Some KindMismatch \<Rightarrow> ''the wrong kind of value''
     | Some DuplicateEdit \<Rightarrow> ''listed twice in one commit''
     | None \<Rightarrow> ''refused ('' @ sfr_causeTag refusal @ '')'')"

definition toSettingsProposalReceipt :: "WireSettingsProposed \<Rightarrow> SettingsProposalReceipt" where
  "toSettingsProposalReceipt w =
     \<lparr>spr_proposal = (if wsp_refused w \<or> is_zero (wsp_proposal w) then None else Some (wsp_proposal w)),
      spr_refusedEdits = toRefusals (wsp_refused_edits w), spr_violations = wsp_violations w,
      spr_refused = wsp_refused w, spr_explanation = textOrNull (wsp_explanation w)\<rparr>"

definition toPendingProposals :: "WireSettingsApprovals \<Rightarrow> PendingProposal list option" where
  "toPendingProposals w =
     (if wsa_refused w then None
      else Some (map (\<lambda>p. \<lparr>pp_proposal = wpp_proposal p, pp_proposer = wpp_proposer p, pp_proposedAtMs = wpp_proposed_at_ms p, pp_changedKeys = wpp_changed_keys p, pp_stale = wpp_stale p\<rparr>) (wsa_proposals w)))"

definition toSettingsHistoryView :: "WireSettingsHistory \<Rightarrow> SettingsHistoryView option" where
  "toSettingsHistoryView w =
     (if wsh_refused w then None
      else Some \<lparr>shv_versions = map (\<lambda>v. \<lparr>svr_version = wsv_version v, svr_principal = textOrNull (wsv_principal v),
          svr_atMs = positiveOrNull (wsv_at_ms v), svr_changedKeys = wsv_changed_keys v\<rparr>) (wsh_versions w),
        shv_complete = wsh_complete w\<rparr>)"

section \<open>Reports\<close>

definition lower_hex :: "char \<Rightarrow> bool" where
  "lower_hex c \<longleftrightarrow> c \<in> set ''0123456789abcdef''"

text \<open>\<open>ENGINE_BUILD_ID\<close>: 40 or 64 digits, then perhaps \<open>-dirty\<close>; no digit is a dash.\<close>

definition parseEngineBuild :: "string \<Rightarrow> EngineBuild" where
  "parseEngineBuild version =
     (let commit = takeWhile lower_hex version; suffix = dropWhile lower_hex version
      in if (length commit = 40 \<or> length commit = 64) \<and> (suffix = [] \<or> suffix = ''-dirty'')
         then CommitBuild commit (suffix \<noteq> []) else Unstamped version)"

definition toSettingsReportsView :: "WireSettingsReports \<Rightarrow> SettingsReportsView option" where
  "toSettingsReportsView w =
     (if wrr_refused w then None
      else Some
        \<lparr>srv_adminPlane = wrr_admin_plane w,
         srv_server = map_option (\<lambda>s. \<lparr>srp_shards = wsrv_shards s, srp_serving = wsrv_serving s, srp_durable = wsrv_durable s, srp_maintenanceEnabled = wsrv_maintenance_enabled s, srp_maintenanceCadenceSecs = wsrv_maintenance_cadence_secs s, srp_maxPayload = wsrv_max_payload s, srp_version = wsrv_version s,
           srp_build = parseEngineBuild (wsrv_version s), srp_builtAtUnix = wsrv_build_time_unix s\<rparr>) (wrr_server w),
         srv_connectivity = map_option (\<lambda>c. \<lparr>cnr_listenAddr = wcn_listen_addr c, cnr_mutualTls = wcn_mutual_tls c, cnr_identitiesBound = wcn_identities_bound c, cnr_postQuantumKx = wcn_post_quantum_kx c, cnr_cryptoProvider = wcn_crypto_provider c, cnr_fipsModule = wcn_fips_module c\<rparr>) (wrr_connectivity w),
         srv_security = map_option (\<lambda>s. \<lparr>scr_classification = wse_classification s, scr_auditHeadVersion = wse_audit_head_version s, scr_auditEntries = wse_audit_entries s, scr_auditChainVerified = wse_audit_chain_verified s, scr_artifactsSpotChecked = wse_artifacts_spot_checked s, scr_artifactSpotFailures = wse_artifact_spot_failures s, scr_templateArtifacts = wse_template_artifacts s\<rparr>) (wrr_security w),
         srv_telemetry = map_option (\<lambda>t. \<lparr>tlr_enabled = wtl_enabled t, tlr_grpcAddr = wtl_grpc_addr t, tlr_httpAddr = wtl_http_addr t, tlr_queueCapacity = wtl_queue_capacity t, tlr_tenantsBound = wtl_tenants_bound t\<rparr>) (wrr_telemetry w),
         srv_keyIssuing = map_option (\<lambda>k. \<lparr>kir_enabled = wki_enabled k, kir_dualControlRequired = wki_dual_control_required k, kir_keyValiditySecs = wki_key_validity_secs k\<rparr>) (wrr_key_issuing w),
         srv_egress = map_option (map (\<lambda>e. \<lparr>ge_id = eg_id e, ge_ceiling = eg_ceiling e\<rparr>)) (wrr_egress w)\<rparr>)"

definition sessionGroupLabel :: "string \<Rightarrow> string" where
  "sessionGroupLabel g =
     (if g = ''X25519MLKEM768'' then ''Hybrid post-quantum (X25519MLKEM768)''
      else if g = ''secp384r1'' then ''Classical P-384 floor (CNSA 1.0)''
      else ''Other ('' @ g @ '')'')"

section \<open>The role map of the console\<close>

text \<open>The console's own roles, grants and role map have the shape the backend renders.\<close>

type_synonym ConsoleRole = OperatorRole
type_synonym ConsoleRoleGrant = RbacGrantRow
type_synonym ConsoleRbacView = RbacConfigView

definition CONSOLE_ROLES :: "ConsoleRole list" where
  "CONSOLE_ROLES = [GlobalAdmin, TenantAdmin, TenantUser]"

text \<open>\<open>v === null || typeof v === 'string'\<close>\<close>

fun null_or_string :: "jsval \<Rightarrow> string option option" where
  "null_or_string JNull = Some None"
| "null_or_string (JStr s) = Some (Some s)"
| "null_or_string _ = None"

definition console_grant :: "jsval \<Rightarrow> ConsoleRoleGrant option" where
  "console_grant g =
     (if \<not> is_object g then None
      else do {
        key \<leftarrow> as_string (get_prop g ''key'');
        role \<leftarrow> narrow_string (narrow_in CONSOLE_ROLES role_name) (get_prop g ''role'');
        tenant \<leftarrow> null_or_string (get_prop g ''tenant'');
        Some \<lparr>gr_key = key, gr_role = role, gr_tenant = tenant\<rparr>
      })"

definition toConsoleGrants :: "jsval \<Rightarrow> ConsoleRoleGrant list option" where
  "toConsoleGrants raw = Option.bind (as_array raw) (traverse console_grant)"

definition toConsoleRbacView :: "jsval \<Rightarrow> ConsoleRbacView option" where
  "toConsoleRbacView raw =
     (if \<not> is_object raw then None
      else do {
        groupRoles \<leftarrow> toConsoleGrants (get_prop raw ''groupRoles'');
        localRbac \<leftarrow> toConsoleGrants (get_prop raw ''localRbac'');
        defaultTenant \<leftarrow> null_or_string (get_prop raw ''defaultTenant'');
        Some \<lparr>rv_groupRoles = groupRoles, rv_localRbac = localRbac, rv_defaultTenant = defaultTenant\<rparr>
      })"

end
