(* ===== verification/SettingsLaws.thy ===== *)
theory SettingsLaws
  imports SettingsViews Resolvers
begin

text \<open>
  The resolvers of the settings pages (\<open>apps/bff/src/engine/settings.ts\<close>) and what the pages show
  of the engine's answers: a refusal is shown as one, a receipt carries the engine's own causes,
  a section that was committed is read back, and the role map the backend serves is the one the
  console reads.
\<close>

section \<open>The engine as these resolvers see it\<close>

record 'w settings_engine =
  eng_settingsRead :: "('w, WireSettingsQuery, WireSettings) verb"
  eng_settingsCommit :: "('w, WireSettingsCommit, WireSettingsCommitted) verb"
  eng_settingsReports :: "('w, WireSettingsReportsQuery, WireSettingsReports) verb"
  eng_settingsPropose :: "('w, WireSettingsCommit, WireSettingsProposed) verb"
  eng_settingsApprovals :: "('w, WireSettingsApprovalsQuery, WireSettingsApprovals) verb"
  eng_settingsApprove :: "('w, WireSettingsApprove, WireSettingsCommitted) verb"
  eng_settingsHistory :: "('w, WireSettingsHistoryQuery, WireSettingsHistory) verb"
  eng_settingsRollback :: "('w, WireSettingsRollback, WireSettingsCommitted) verb"

section \<open>Resolvers\<close>

definition settings_query :: "string option \<Rightarrow> jsnum \<Rightarrow> WireSettingsQuery" where
  "settings_query surface i = \<lparr>request_id = i, operator = None, sq_surface = surface\<rparr>"

definition resolveSettings :: "'w settings_engine \<Rightarrow> OperatorPrincipal \<Rightarrow> string option \<Rightarrow> ('w, SettingsView option) resolver" where
  "resolveSettings engine who surface = and_then requestId (\<lambda>i.
     and_then (ask (eng_settingsRead engine) (\<lambda>q. Settings (ReqSettingsRead q)) who (settings_query surface i))
       (unless_refused SettingsUnavailable wst_refused toSettingsView))"

definition commit_request :: "SettingsCommitRequest \<Rightarrow> jsnum \<Rightarrow> WireSettingsCommit" where
  "commit_request change i = (case toWireSettingsCommitFields change of (edits, sections) \<Rightarrow>
     \<lparr>request_id = i, operator = None, sc_edits = edits, sc_sections = sections\<rparr>)"

definition resolveSettingsCommit :: "'w settings_engine \<Rightarrow> OperatorPrincipal \<Rightarrow> SettingsCommitRequest \<Rightarrow> ('w, SettingsReceipt) resolver" where
  "resolveSettingsCommit engine who change = and_then requestId (\<lambda>i.
     and_then (ask (eng_settingsCommit engine) (\<lambda>q. Settings (ReqSettingsCommit q)) who (commit_request change i))
       (\<lambda>w. give (toSettingsReceipt w)))"

definition resolveSettingsReports :: "'w settings_engine \<Rightarrow> OperatorPrincipal \<Rightarrow> string list \<Rightarrow> ('w, SettingsReportsView option) resolver" where
  "resolveSettingsReports engine who reports = and_then requestId (\<lambda>i.
     and_then (ask (eng_settingsReports engine) (\<lambda>q. Settings (ReqSettingsReports q)) who
         \<lparr>request_id = i, operator = None, sr_reports = reports\<rparr>)
       (\<lambda>w. give (toSettingsReportsView w)))"

definition resolveSettingsPropose ::
    "'w settings_engine \<Rightarrow> OperatorPrincipal \<Rightarrow> SettingsCommitRequest \<Rightarrow> ('w, SettingsProposalReceipt) resolver" where
  "resolveSettingsPropose engine who change = and_then requestId (\<lambda>i.
     and_then (ask (eng_settingsPropose engine) (\<lambda>q. Settings (ReqSettingsPropose q)) who (commit_request change i))
       (\<lambda>w. give (toSettingsProposalReceipt w)))"

definition resolveSettingsApprovals :: "'w settings_engine \<Rightarrow> OperatorPrincipal \<Rightarrow> ('w, PendingProposal list option) resolver" where
  "resolveSettingsApprovals engine who = and_then requestId (\<lambda>i.
     and_then (ask (eng_settingsApprovals engine) (\<lambda>q. Settings (ReqSettingsApprovals q)) who
         \<lparr>request_id = i, operator = None\<rparr>)
       (\<lambda>w. give (toPendingProposals w)))"

definition resolveSettingsApprove :: "'w settings_engine \<Rightarrow> OperatorPrincipal \<Rightarrow> jsnum \<Rightarrow> ('w, SettingsReceipt) resolver" where
  "resolveSettingsApprove engine who proposal = and_then requestId (\<lambda>i.
     and_then (ask (eng_settingsApprove engine) (\<lambda>q. Settings (ReqSettingsApprove q)) who
         \<lparr>request_id = i, operator = None, sa_proposal = proposal\<rparr>)
       (\<lambda>w. give (toSettingsReceipt w)))"

definition resolveSettingsHistory :: "'w settings_engine \<Rightarrow> OperatorPrincipal \<Rightarrow> jsnum \<Rightarrow> ('w, SettingsHistoryView option) resolver" where
  "resolveSettingsHistory engine who limit = and_then requestId (\<lambda>i.
     and_then (ask (eng_settingsHistory engine) (\<lambda>q. Settings (ReqSettingsHistory q)) who
         \<lparr>request_id = i, operator = None, sh_limit = Some limit\<rparr>)
       (\<lambda>w. give (toSettingsHistoryView w)))"

definition resolveSettingsRollback :: "'w settings_engine \<Rightarrow> OperatorPrincipal \<Rightarrow> jsnum \<Rightarrow> ('w, SettingsReceipt) resolver" where
  "resolveSettingsRollback engine who to = and_then requestId (\<lambda>i.
     and_then (ask (eng_settingsRollback engine) (\<lambda>q. Settings (ReqSettingsRollback q)) who
         \<lparr>request_id = i, operator = None, sb_to = to\<rparr>)
       (\<lambda>w. give (toSettingsReceipt w)))"

lemmas settings_resolvers =
  resolveSettings_def resolveSettingsCommit_def resolveSettingsReports_def resolveSettingsPropose_def
  resolveSettingsApprovals_def resolveSettingsApprove_def resolveSettingsHistory_def resolveSettingsRollback_def

section \<open>What is shown\<close>

interpretation settings_read: refusable_read SettingsUnavailable "eng_settingsRead engine" "\<lambda>q. Settings (ReqSettingsRead q)" who
    "settings_query surface" wst_refused toSettingsView "resolveSettings engine who surface"
  by unfold_locales (simp add: resolveSettings_def)

definition wire_setting :: "SettingRow \<Rightarrow> WireSettingRow" where
  "wire_setting row = \<lparr>wsg_bound = srow_bound row, wsg_change_via = srow_changeVia row, wsg_default_value = srow_defaultValue row,
     wsg_editable = srow_editable row, wsg_key = srow_key row, wsg_live_apply = srow_liveApply row,
     wsg_origin = setting_origin_tag (srow_origin row), wsg_summary = srow_summary row, wsg_surface = srow_surface row,
     wsg_ui_binding = srow_uiBinding row, wsg_value = srow_value row, wsg_value_type = srow_valueType row\<rparr>"


interpretation setting_view: exact_projection wire_setting toSettingRow
proof
  show "toSettingRow (wire_setting x) = Some x" for x
    by (simp add: toSettingRow_def wire_setting_def setting_origin.narrow_in_tag)
  show "wire_setting a = w" if "toSettingRow w = Some a" for w a
    using that by (auto simp: toSettingRow_def wire_setting_def Option.bind_eq_Some_conv dest: setting_origin.tag_narrow_in)
qed

text \<open>The sections as the engine reports them once a patch over them is committed.\<close>

definition overlaid :: "WireSectionPatch \<Rightarrow> WireSectionPatch \<Rightarrow> WireSectionPatch" where
  "overlaid new old =
     \<lparr>sc_dual_control = (case sc_dual_control new of None \<Rightarrow> sc_dual_control old | v \<Rightarrow> v),
      sc_egress_destinations = (case sc_egress_destinations new of None \<Rightarrow> sc_egress_destinations old | v \<Rightarrow> v),
      sc_lug_exposure = (case sc_lug_exposure new of None \<Rightarrow> sc_lug_exposure old | v \<Rightarrow> v),
      sc_disabled_decoder_families = (case sc_disabled_decoder_families new of None \<Rightarrow> sc_disabled_decoder_families old | v \<Rightarrow> v),
      sc_source_format_map = (case sc_source_format_map new of None \<Rightarrow> sc_source_format_map old | v \<Rightarrow> v),
      sc_soc_narrative_model_ref = (case sc_soc_narrative_model_ref new of None \<Rightarrow> sc_soc_narrative_model_ref old | v \<Rightarrow> v)\<rparr>"

definition sections_after :: "SectionPatch \<Rightarrow> SectionValues \<Rightarrow> SectionValues" where
  "sections_after p v =
     \<lparr>sv_dualControl = (case dualControl p of None \<Rightarrow> sv_dualControl v | Some x \<Rightarrow> x),
      sv_egressDestinations = (case egressDestinations p of None \<Rightarrow> sv_egressDestinations v | Some x \<Rightarrow> x),
      sv_lugExposure = (case lugExposure p of None \<Rightarrow> sv_lugExposure v | Some x \<Rightarrow> x),
      sv_disabledDecoderFamilies = (case disabledDecoderFamilies p of None \<Rightarrow> sv_disabledDecoderFamilies v | Some x \<Rightarrow> x),
      sv_sourceFormatMap = (case sourceFormatMap p of None \<Rightarrow> sv_sourceFormatMap v | Some x \<Rightarrow> x),
      sv_socNarrativeModelRef = (case socNarrativeModelRef p of None \<Rightarrow> sv_socNarrativeModelRef v | Some x \<Rightarrow> textOrNull (Some x))\<rparr>"

lemma section_parts_read:
  "map (\<lambda>e. \<lparr>ge_id = eg_id e, ge_ceiling = eg_ceiling e\<rparr>) (map wire_egress es) = es"
  "map (\<lambda>m. \<lparr>fm_source = sf_source m, fm_format = sf_format m\<rparr>) (map wire_source_format fs) = fs"
  "toLug (wire_lug l) = l"
  by (induction es) (simp_all add: wire_egress_def, induction fs, simp_all add: wire_source_format_def wire_lug_def toLug_def)

lemma section_values_Some:
  "toSectionValues (Some q) = Some v \<longleftrightarrow>
     sc_dual_control q = Some (sv_dualControl v) \<and>
     map_option (map (\<lambda>e. \<lparr>ge_id = eg_id e, ge_ceiling = eg_ceiling e\<rparr>)) (sc_egress_destinations q) = Some (sv_egressDestinations v) \<and>
     map_option toLug (sc_lug_exposure q) = Some (sv_lugExposure v) \<and>
     sc_disabled_decoder_families q = Some (sv_disabledDecoderFamilies v) \<and>
     map_option (map (\<lambda>m. \<lparr>fm_source = sf_source m, fm_format = sf_format m\<rparr>)) (sc_source_format_map q) = Some (sv_sourceFormatMap v) \<and>
     map_option (\<lambda>s. textOrNull (Some s)) (sc_soc_narrative_model_ref q) = Some (sv_socNarrativeModelRef v)"
  by (cases v) (auto simp: toSectionValues_def Option.bind_eq_Some_conv textOrNull_def)

lemma sections_read_back:
  assumes "toSectionValues (Some old) = Some v"
  shows "toSectionValues (Some (overlaid (toWireSectionPatch p) old)) = Some (sections_after p v)"
  using assms unfolding section_values_Some
  by (elim conjE, intro conjI) (simp_all add: overlaid_def toWireSectionPatch_def sections_after_def section_parts_read del: map_map split: option.split)

section \<open>The role map\<close>

lemma grant_read_back: "console_grant (grant_row_json row) = Some row"
  by (cases "gr_role row"; cases "gr_tenant row")
    (simp_all add: console_grant_def grant_row_json_def nullable_text_def CONSOLE_ROLES_def narrow_in_def
      is_object_def get_prop_def as_string_def)

lemma grants_read_back: "toConsoleGrants (JArr (map grant_row_json rows)) = Some rows"
  by (induction rows) (simp_all add: toConsoleGrants_def as_array_def grant_read_back)

lemma role_map_json: "toConsoleRbacView (rbac_view_json v) = Some v"
  by (cases "rv_defaultTenant v") (simp_all add: toConsoleRbacView_def rbac_view_json_def grants_read_back nullable_text_def
      is_object_def get_prop_def)

section \<open>Receipts\<close>

lemma refusals_verbatim:
  "map sfr_causeTag (toRefusals rs) = map wsf_cause rs \<and> map sfr_key (toRefusals rs) = map wsf_key rs"
  by (simp add: toRefusals_def)

lemma build_printed:
  assumes "list_all lower_hex commit" and "length commit = 40 \<or> length commit = 64"
  shows "parseEngineBuild (commit @ (if dirty then ''-dirty'' else [])) = CommitBuild commit dirty"
proof -
  have plain: "takeWhile lower_hex (commit @ rest) = commit @ takeWhile lower_hex rest"
      "dropWhile lower_hex (commit @ rest) = dropWhile lower_hex rest" for rest
    using assms(1) by (auto simp: list_all_iff)
  have suffix: "takeWhile lower_hex ''-dirty'' = []" "dropWhile lower_hex ''-dirty'' = ''-dirty''" by (simp_all add: lower_hex_def)
  have "parseEngineBuild (commit @ rest) = CommitBuild commit (rest \<noteq> [])" if "rest = [] \<or> rest = ''-dirty''" for rest
    unfolding parseEngineBuild_def plain Let_def using assms(2) that suffix by auto
  from this [of "[]"] this [of "''-dirty''"] show ?thesis by (cases dirty) simp_all
qed

lemma build_parsed:
  "parseEngineBuild version = CommitBuild commit dirty \<Longrightarrow>
   version = commit @ (if dirty then ''-dirty'' else []) \<and> list_all lower_hex commit \<and> (length commit = 40 \<or> length commit = 64)"
proof -
  assume b: "parseEngineBuild version = CommitBuild commit dirty"
  define c d where cd: "c = takeWhile lower_hex version" "d = dropWhile lower_hex version"
  have "version = c @ d" "list_all lower_hex c" by (auto simp: cd list_all_iff dest: set_takeWhileD)
  moreover have "(if (length c = 40 \<or> length c = 64) \<and> (d = [] \<or> d = ''-dirty'') then CommitBuild c (d \<noteq> []) else Unstamped version)
      = CommitBuild commit dirty"
    using b unfolding parseEngineBuild_def Let_def cd .
  ultimately show ?thesis by (auto split: if_splits)
qed

lemma build_iff:
  "parseEngineBuild version = CommitBuild commit dirty \<longleftrightarrow>
     version = commit @ (if dirty then ''-dirty'' else []) \<and> list_all lower_hex commit \<and> (length commit = 40 \<or> length commit = 64)"
  using build_printed build_parsed by blast

section \<open>Properties\<close>

text \<open>
  C27.  The settings pages say what the engine said.  The governed settings are missing exactly
  when the engine refused them, shown exactly when the origin of every row is known, and then row
  for row; a page of approvals, versions or reports is missing exactly when the engine refused it;
  a receipt is refused exactly when the engine's is, names every refused edit with the engine's
  own cause, and announces a proposal only where the engine made one; and a build is named as a
  commit exactly when the engine reported one.
\<close>
theorem settings_pages_honest:
  "honest_read SettingsUnavailable (eng_settingsRead engine) who (settings_query surface) wst_refused toSettingsView
     (resolveSettings engine who surface) \<and>
   (toSettingsView w = Some v \<longleftrightarrow> \<not> wst_refused w \<and> wst_rows w = map wire_setting (stv_rows v) \<and>
      v = \<lparr>stv_version = wst_version w, stv_rows = stv_rows v, stv_surfaces = wst_surfaces w,
        stv_dualControlRequired = wst_dual_control_required w, stv_sectionValues = toSectionValues (wst_section_values w),
        stv_identity = toIdentityValues (wst_identity_values w)\<rparr>) \<and>
   (toPendingProposals approvals = None \<longleftrightarrow> wsa_refused approvals) \<and>
   (toSettingsHistoryView past = None \<longleftrightarrow> wsh_refused past) \<and>
   (toSettingsReportsView reports = None \<longleftrightarrow> wrr_refused reports) \<and>
   sre_refused (toSettingsReceipt c) = wct_refused c \<and>
   map sfr_causeTag (sre_refusedEdits (toSettingsReceipt c)) = map wsf_cause (wct_refused_edits c) \<and>
   map sfr_key (sre_refusedEdits (toSettingsReceipt c)) = map wsf_key (wct_refused_edits c) \<and>
   (spr_proposal (toSettingsProposalReceipt p) = Some n \<longleftrightarrow> \<not> wsp_refused p \<and> wsp_proposal p = n \<and> \<not> is_zero n) \<and>
   (parseEngineBuild version = CommitBuild commit dirty \<longleftrightarrow>
      version = commit @ (if dirty then ''-dirty'' else []) \<and> list_all lower_hex commit \<and> (length commit = 40 \<or> length commit = 64))"
proof (intro conjI settings_read.honest build_iff)
  show "toSettingsView w = Some v \<longleftrightarrow> \<not> wst_refused w \<and> wst_rows w = map wire_setting (stv_rows v) \<and>
      v = \<lparr>stv_version = wst_version w, stv_rows = stv_rows v, stv_surfaces = wst_surfaces w,
        stv_dualControlRequired = wst_dual_control_required w, stv_sectionValues = toSectionValues (wst_section_values w),
        stv_identity = toIdentityValues (wst_identity_values w)\<rparr>"
    by (cases v) (auto simp: toSettingsView_def Option.bind_eq_Some_conv setting_view.traverse_Some_render)
qed (auto simp: toPendingProposals_def toSettingsHistoryView_def toSettingsReportsView_def toSettingsReceipt_def
    toSettingsProposalReceipt_def refusals_verbatim)


end
