(* ===== verification/SocViews.thy ===== *)
theory SocViews
  imports SocCommands Numbers
begin

text \<open>
  What the operations centre shows: the projections of the engine's replies in
  \<open>packages/contracts/src/soc.ts\<close>.  A reply has the type \<open>generated/wire-dto.ts\<close> declares for
  it, with an \<open>option\<close> for a property that may be absent or \<open>null\<close>; a projection is the view
  or \<open>None\<close>, when the reply is a refusal or carries a tag the console does not know.
\<close>

section \<open>Registries\<close>

datatype AuthorityState = Automatic | ApprovalRequired | ReviewRequired | Contained

fun authority_tag :: "AuthorityState \<Rightarrow> string" where
  "authority_tag Automatic = ''automatic''"
| "authority_tag ApprovalRequired = ''approval_required''"
| "authority_tag ReviewRequired = ''review_required''"
| "authority_tag Contained = ''contained''"

definition AUTHORITY_STATES :: "AuthorityState list" where
  "AUTHORITY_STATES = [Automatic, ApprovalRequired, ReviewRequired, Contained]"

definition toAuthority :: "string \<Rightarrow> AuthorityState option" where
  "toAuthority = narrow_in AUTHORITY_STATES authority_tag"

lemma authority_listed: "a \<in> set AUTHORITY_STATES"
  by (cases a) (simp_all add: AUTHORITY_STATES_def)

interpretation authority: tag_list AUTHORITY_STATES authority_tag
  rewrites "narrow_in AUTHORITY_STATES authority_tag = toAuthority"
  by (unfold_locales, rule authority_listed, simp_all add: AUTHORITY_STATES_def toAuthority_def)

datatype IncidentPosture = ObserveOnly | CandidateIncident | EscalateIncident

fun posture_tag :: "IncidentPosture \<Rightarrow> string" where
  "posture_tag ObserveOnly = ''observe-only''"
| "posture_tag CandidateIncident = ''candidate''"
| "posture_tag EscalateIncident = ''escalate''"

definition INCIDENT_POSTURES :: "IncidentPosture list" where
  "INCIDENT_POSTURES = [ObserveOnly, CandidateIncident, EscalateIncident]"

definition toPosture :: "string \<Rightarrow> IncidentPosture option" where
  "toPosture = narrow_in INCIDENT_POSTURES posture_tag"

lemma posture_listed: "a \<in> set INCIDENT_POSTURES"
  by (cases a) (simp_all add: INCIDENT_POSTURES_def)

interpretation posture: tag_list INCIDENT_POSTURES posture_tag
  rewrites "narrow_in INCIDENT_POSTURES posture_tag = toPosture"
  by (unfold_locales, rule posture_listed, simp_all add: INCIDENT_POSTURES_def toPosture_def)

datatype ConfidenceTier = HighConfidence | MediumConfidence | LowConfidence | Contested

fun confidence_tag :: "ConfidenceTier \<Rightarrow> string" where
  "confidence_tag HighConfidence = ''HIGH''"
| "confidence_tag MediumConfidence = ''MEDIUM''"
| "confidence_tag LowConfidence = ''LOW''"
| "confidence_tag Contested = ''CONTESTED''"

definition CONFIDENCE_TIERS :: "ConfidenceTier list" where
  "CONFIDENCE_TIERS = [HighConfidence, MediumConfidence, LowConfidence, Contested]"

definition toConfidence :: "string \<Rightarrow> ConfidenceTier option" where
  "toConfidence = narrow_in CONFIDENCE_TIERS confidence_tag"

lemma confidence_listed: "a \<in> set CONFIDENCE_TIERS"
  by (cases a) (simp_all add: CONFIDENCE_TIERS_def)

interpretation confidence: tag_list CONFIDENCE_TIERS confidence_tag
  rewrites "narrow_in CONFIDENCE_TIERS confidence_tag = toConfidence"
  by (unfold_locales, rule confidence_listed, simp_all add: CONFIDENCE_TIERS_def toConfidence_def)

datatype LineageLane = AttackPath | EvidenceLane | DecisionLane

fun lane_tag :: "LineageLane \<Rightarrow> string" where
  "lane_tag AttackPath = ''attack_path''"
| "lane_tag EvidenceLane = ''evidence''"
| "lane_tag DecisionLane = ''decision''"

definition LINEAGE_LANES :: "LineageLane list" where
  "LINEAGE_LANES = [AttackPath, EvidenceLane, DecisionLane]"

definition toLane :: "string \<Rightarrow> LineageLane option" where
  "toLane = narrow_in LINEAGE_LANES lane_tag"

lemma lane_listed: "a \<in> set LINEAGE_LANES"
  by (cases a) (simp_all add: LINEAGE_LANES_def)

interpretation lane: tag_list LINEAGE_LANES lane_tag
  rewrites "narrow_in LINEAGE_LANES lane_tag = toLane"
  by (unfold_locales, rule lane_listed, simp_all add: LINEAGE_LANES_def toLane_def)

datatype LineageNodeKind = SubjectNode | NetworkNode | ProcessNode | EvidenceNode | DecisionNode | ResponseNode

fun node_kind_tag :: "LineageNodeKind \<Rightarrow> string" where
  "node_kind_tag SubjectNode = ''subject''"
| "node_kind_tag NetworkNode = ''network''"
| "node_kind_tag ProcessNode = ''process''"
| "node_kind_tag EvidenceNode = ''evidence''"
| "node_kind_tag DecisionNode = ''decision''"
| "node_kind_tag ResponseNode = ''response''"

definition LINEAGE_NODE_KINDS :: "LineageNodeKind list" where
  "LINEAGE_NODE_KINDS = [SubjectNode, NetworkNode, ProcessNode, EvidenceNode, DecisionNode, ResponseNode]"

definition toNodeKind :: "string \<Rightarrow> LineageNodeKind option" where
  "toNodeKind = narrow_in LINEAGE_NODE_KINDS node_kind_tag"

lemma node_kind_listed: "a \<in> set LINEAGE_NODE_KINDS"
  by (cases a) (simp_all add: LINEAGE_NODE_KINDS_def)

interpretation node_kind: tag_list LINEAGE_NODE_KINDS node_kind_tag
  rewrites "narrow_in LINEAGE_NODE_KINDS node_kind_tag = toNodeKind"
  by (unfold_locales, rule node_kind_listed, simp_all add: LINEAGE_NODE_KINDS_def toNodeKind_def)

datatype EdgeState = Observed | Inferred | VerifiedEdge | PendingEdge

fun edge_state_tag :: "EdgeState \<Rightarrow> string" where
  "edge_state_tag Observed = ''observed''"
| "edge_state_tag Inferred = ''inferred''"
| "edge_state_tag VerifiedEdge = ''verified''"
| "edge_state_tag PendingEdge = ''pending''"

definition EDGE_STATES :: "EdgeState list" where
  "EDGE_STATES = [Observed, Inferred, VerifiedEdge, PendingEdge]"

definition toEdgeState :: "string \<Rightarrow> EdgeState option" where
  "toEdgeState = narrow_in EDGE_STATES edge_state_tag"

lemma edge_state_listed: "a \<in> set EDGE_STATES"
  by (cases a) (simp_all add: EDGE_STATES_def)

interpretation edge_state: tag_list EDGE_STATES edge_state_tag
  rewrites "narrow_in EDGE_STATES edge_state_tag = toEdgeState"
  by (unfold_locales, rule edge_state_listed, simp_all add: EDGE_STATES_def toEdgeState_def)

datatype PlanStepState = ProposedStep | ApprovedStep | ExecutedStep | RefusedStep

fun step_state_tag :: "PlanStepState \<Rightarrow> string" where
  "step_state_tag ProposedStep = ''proposed''"
| "step_state_tag ApprovedStep = ''approved''"
| "step_state_tag ExecutedStep = ''executed''"
| "step_state_tag RefusedStep = ''refused''"

definition PLAN_STEP_STATES :: "PlanStepState list" where
  "PLAN_STEP_STATES = [ProposedStep, ApprovedStep, ExecutedStep, RefusedStep]"

definition toStepState :: "string \<Rightarrow> PlanStepState option" where
  "toStepState = narrow_in PLAN_STEP_STATES step_state_tag"

lemma step_state_listed: "a \<in> set PLAN_STEP_STATES"
  by (cases a) (simp_all add: PLAN_STEP_STATES_def)

interpretation step_state: tag_list PLAN_STEP_STATES step_state_tag
  rewrites "narrow_in PLAN_STEP_STATES step_state_tag = toStepState"
  by (unfold_locales, rule step_state_listed, simp_all add: PLAN_STEP_STATES_def toStepState_def)

datatype WithheldRuling = Overstated | Unsupported

fun withheld_ruling_tag :: "WithheldRuling \<Rightarrow> string" where
  "withheld_ruling_tag Overstated = ''overstated''"
| "withheld_ruling_tag Unsupported = ''unsupported''"

definition WITHHELD_RULINGS :: "WithheldRuling list" where
  "WITHHELD_RULINGS = [Overstated, Unsupported]"

definition toWithheldRuling :: "string \<Rightarrow> WithheldRuling option" where
  "toWithheldRuling = narrow_in WITHHELD_RULINGS withheld_ruling_tag"

lemma withheld_ruling_listed: "a \<in> set WITHHELD_RULINGS"
  by (cases a) (simp_all add: WITHHELD_RULINGS_def)

interpretation withheld_ruling: tag_list WITHHELD_RULINGS withheld_ruling_tag
  rewrites "narrow_in WITHHELD_RULINGS withheld_ruling_tag = toWithheldRuling"
  by (unfold_locales, rule withheld_ruling_listed, simp_all add: WITHHELD_RULINGS_def toWithheldRuling_def)

section \<open>Replies\<close>

record WireIncidentRow =
  ir_anchor :: string
  ir_authority :: string
  ir_confidence :: string
  ir_credibility_milli :: "jsnum option"
  ir_destination :: "string option"
  ir_evidence_count :: jsnum
  ir_finding :: string
  ir_implied_probability_milli :: "jsnum option"
  ir_incident_id :: string
  ir_last_seen :: jsnum
  ir_opened_at :: jsnum
  ir_posture :: string
  ir_rule_id :: string
  ir_subject :: string
  ir_subject_name :: "string option"

record WireSocIncidentList =
  il_explanation :: "string option"
  il_next_cursor :: "string option"
  il_refused :: bool
  il_rows :: "WireIncidentRow list"
  il_total :: "jsnum option"

record WireLineageNode =
  wn_id :: string
  wn_kind :: string
  wn_label :: string
  wn_lane :: string
  wn_sublabel :: string

record WireLineageEdge =
  we_from :: string
  we_state :: string
  we_to :: string

record WirePlanStep =
  wps_action :: "string option"
  wps_authority :: string
  wps_explanation :: "string option"
  wps_ordinal :: jsnum
  wps_reversibility :: "string option"
  wps_rollback :: "string option"
  wps_state :: string
  wps_title :: string

record WireSocIncidentDetail =
  wid_edges :: "WireLineageEdge list"
  wid_evidence :: "string list"
  wid_narrative_ref :: "string option"
  wid_nodes :: "WireLineageNode list"
  wid_plan :: "WirePlanStep list"
  wid_plan_approved :: bool
  wid_plan_revision :: jsnum
  wid_refused :: bool
  wid_row :: WireIncidentRow

record WireWithheldClaim =
  ww_cited :: "string list"
  ww_explanation :: string
  ww_ruling :: string
  ww_section :: string
  ww_text :: string

record WireSocNarrative =
  wna_cited_evidence :: "string list"
  wna_found :: bool
  wna_headline :: string
  wna_impact :: "string list"
  wna_input_hash :: string
  wna_model_ref :: string
  wna_narrative :: "string list"
  wna_needs_human_review :: bool
  wna_published :: bool
  wna_refusal :: "string option"
  wna_response :: "string list"
  wna_withheld :: "WireWithheldClaim list"

record WireSocPlanEffect =
  wpf_approved :: bool
  wpf_enforcement_active :: bool
  wpf_incident :: string
  wpf_revision :: jsnum
  wpf_steps :: "WirePlanStep list"

record WireCoverageBlocker =
  cbk_name :: string
  cbk_rules :: jsnum

record WireDetectCoverage =
  wdc_blocking_fields :: "WireCoverageBlocker list"
  wdc_blocking_logsources :: "WireCoverageBlocker list"
  wdc_evaluable :: jsnum
  wdc_rules_loaded :: jsnum
  wdc_source :: string
  wdc_truncated :: bool
  wdc_unevaluable :: jsnum

text \<open>The properties of a technique and of the summary that the console reads.\<close>

record WireTechniqueSummary =
  wts_anchor :: string
  wts_fires :: jsnum
  wts_muted_fp_feedback :: jsnum
  wts_muted_ratified :: jsnum

record WireDetectSummary =
  wds_active_alerts :: jsnum
  wds_active_alerts_refused_tenants :: "jsnum option"
  wds_auto_contained :: jsnum
  wds_count_unit :: "string option"
  wds_coverage :: "WireDetectCoverage option"
  wds_enabled :: bool
  wds_events_analyzed :: jsnum
  wds_muted_total :: jsnum
  wds_summary_refused :: bool
  wds_sustained_total :: "jsnum option"
  wds_techniques :: "WireTechniqueSummary list"
  wds_window_hours :: "jsnum option"

section \<open>Views\<close>

record SocIncidentRow =
  sir_incidentId :: string
  sir_ruleId :: string
  sir_anchor :: string
  sir_subject :: string
  sir_subjectName :: "string option"
  sir_destination :: "string option"
  sir_finding :: string
  sir_authority :: AuthorityState
  sir_posture :: IncidentPosture
  sir_confidence :: ConfidenceTier
  sir_credibilityMilli :: "jsnum option"
  sir_impliedProbabilityMilli :: "jsnum option"
  sir_openedAt :: jsnum
  sir_lastSeen :: jsnum
  sir_evidenceCount :: jsnum

record SocIncidentPage =
  sip_rows :: "SocIncidentRow list"
  sip_total :: jsnum
  sip_nextCursor :: "string option"

record LineageNode =
  ln_id :: string
  ln_lane :: LineageLane
  ln_kind :: LineageNodeKind
  ln_label :: string
  ln_sublabel :: string

record LineageEdge =
  le_from :: string
  le_to :: string
  le_state :: EdgeState

record EvidenceRow =
  ev_leg :: string

record ResponseStep =
  rs_ordinal :: jsnum
  rs_title :: string
  rs_action :: "ResponseAction option"
  rs_authority :: AuthorityState
  rs_state :: PlanStepState
  rs_explanation :: string

record SocIncidentDetail =
  sid_row :: SocIncidentRow
  sid_nodes :: "LineageNode list"
  sid_edges :: "LineageEdge list"
  sid_evidence :: "EvidenceRow list"
  sid_plan :: "ResponseStep list"
  sid_planRevision :: jsnum
  sid_planApproved :: bool
  sid_narrativeRef :: "string option"

record WithheldClaim =
  wc_section :: string
  wc_text :: string
  wc_ruling :: WithheldRuling
  wc_explanation :: string
  wc_cited :: "string list"

record VerdictNarrative =
  vn_found :: bool
  vn_published :: bool
  vn_refusal :: "string option"
  vn_headline :: string
  vn_narrative :: "string list"
  vn_impact :: "string list"
  vn_response :: "string list"
  vn_citedEvidence :: "string list"
  vn_withheld :: "WithheldClaim list"
  vn_needsHumanReview :: bool
  vn_modelRef :: string
  vn_inputHash :: string

record SocPlanEffect =
  pe_incidentId :: string
  pe_revision :: jsnum
  pe_approved :: bool
  pe_steps :: "ResponseStep list"
  pe_enforcementActive :: bool

record SocCoverageBlocker =
  scb_name :: string
  scb_rules :: jsnum

record SocCoverage =
  sc_source :: string
  sc_rulesLoaded :: jsnum
  sc_evaluable :: jsnum
  sc_unevaluable :: jsnum
  sc_blockingLogsources :: "SocCoverageBlocker list"
  sc_blockingFields :: "SocCoverageBlocker list"
  sc_truncated :: bool

record SocSuppressingInputs =
  ssi_anchor :: string
  ssi_falsePositiveFeedback :: jsnum
  ssi_ratifiedBaseline :: jsnum
  ssi_firings :: jsnum

record SocKpis =
  sk_coverage :: "SocCoverage option"
  sk_eventsAnalyzed :: jsnum
  sk_noiseCollapsed :: jsnum
  sk_totalFirings :: jsnum
  sk_sustained :: "jsnum option"
  sk_windowHours :: "jsnum option"
  sk_ruleEvaluations :: bool
  sk_materialIncidents :: jsnum
  sk_materialRefusedTenants :: "jsnum option"
  sk_autoContained :: jsnum
  sk_decisionWaiting :: nat
  sk_detectionEnabled :: bool
  sk_suppressingInputs :: "SocSuppressingInputs list"

section \<open>Projections\<close>

text \<open>\<open>v === undefined || v === '' ? null : v\<close>\<close>

definition unless_blank :: "string option \<Rightarrow> string option" where
  "unless_blank v = (if v = Some [] then None else v)"

text \<open>The outer \<open>None\<close> is \<open>null\<close>, an unknown tag; the inner one is a step without an action.\<close>

definition toResponseAction :: "string option \<Rightarrow> ResponseAction option option" where
  "toResponseAction tag = (case tag of
       None \<Rightarrow> Some None
     | Some s \<Rightarrow> if s = [] then Some None
                 else map_option Some (narrow_in RESPONSE_ACTIONS response_action_tag (toLowerCase s)))"

definition toIncidentRow :: "WireIncidentRow \<Rightarrow> SocIncidentRow option" where
  "toIncidentRow row = do {
     authority \<leftarrow> toAuthority (ir_authority row);
     posture \<leftarrow> toPosture (ir_posture row);
     confidence \<leftarrow> toConfidence (ir_confidence row);
     Some \<lparr>sir_incidentId = ir_incident_id row, sir_ruleId = ir_rule_id row, sir_anchor = ir_anchor row,
       sir_subject = ir_subject row, sir_subjectName = ir_subject_name row, sir_destination = ir_destination row,
       sir_finding = ir_finding row, sir_authority = authority, sir_posture = posture, sir_confidence = confidence,
       sir_credibilityMilli = ir_credibility_milli row, sir_impliedProbabilityMilli = ir_implied_probability_milli row,
       sir_openedAt = ir_opened_at row, sir_lastSeen = ir_last_seen row, sir_evidenceCount = ir_evidence_count row\<rparr>
   }"

definition toIncidentQueue :: "WireSocIncidentList \<Rightarrow> SocIncidentRow list option" where
  "toIncidentQueue l = (if il_refused l then None else traverse toIncidentRow (il_rows l))"

definition toIncidentPage :: "WireSocIncidentList \<Rightarrow> SocIncidentPage option" where
  "toIncidentPage l = do {
     rows \<leftarrow> toIncidentQueue l;
     Some \<lparr>sip_rows = rows, sip_total = (case il_total l of None \<Rightarrow> NInt (int (length rows)) | Some n \<Rightarrow> n),
       sip_nextCursor = il_next_cursor l\<rparr>
   }"

definition toLineageNode :: "WireLineageNode \<Rightarrow> LineageNode option" where
  "toLineageNode node = do {
     lane \<leftarrow> toLane (wn_lane node);
     kind \<leftarrow> toNodeKind (wn_kind node);
     Some \<lparr>ln_id = wn_id node, ln_lane = lane, ln_kind = kind, ln_label = wn_label node, ln_sublabel = wn_sublabel node\<rparr>
   }"

definition toLineageEdge :: "WireLineageEdge \<Rightarrow> LineageEdge option" where
  "toLineageEdge edge = do {
     state \<leftarrow> toEdgeState (we_state edge);
     Some \<lparr>le_from = we_from edge, le_to = we_to edge, le_state = state\<rparr>
   }"

definition toResponseStep :: "WirePlanStep \<Rightarrow> ResponseStep option" where
  "toResponseStep s = do {
     authority \<leftarrow> toAuthority (wps_authority s);
     state \<leftarrow> toStepState (wps_state s);
     action \<leftarrow> toResponseAction (wps_action s);
     Some \<lparr>rs_ordinal = wps_ordinal s, rs_title = wps_title s, rs_action = action, rs_authority = authority,
       rs_state = state, rs_explanation = (case wps_explanation s of None \<Rightarrow> [] | Some e \<Rightarrow> e)\<rparr>
   }"

definition toIncidentDetail :: "WireSocIncidentDetail \<Rightarrow> SocIncidentDetail option" where
  "toIncidentDetail detail =
     (if wid_refused detail then None
      else do {
        row \<leftarrow> toIncidentRow (wid_row detail);
        nodes \<leftarrow> traverse toLineageNode (wid_nodes detail);
        edges \<leftarrow> traverse toLineageEdge (wid_edges detail);
        plan \<leftarrow> traverse toResponseStep (wid_plan detail);
        Some \<lparr>sid_row = row, sid_nodes = nodes, sid_edges = edges,
          sid_evidence = map (\<lambda>leg. \<lparr>ev_leg = leg\<rparr>) (wid_evidence detail), sid_plan = plan,
          sid_planRevision = wid_plan_revision detail, sid_planApproved = wid_plan_approved detail,
          sid_narrativeRef = unless_blank (wid_narrative_ref detail)\<rparr>
      })"

definition toWithheldClaim :: "WireWithheldClaim \<Rightarrow> WithheldClaim option" where
  "toWithheldClaim c = do {
     ruling \<leftarrow> toWithheldRuling (ww_ruling c);
     Some \<lparr>wc_section = ww_section c, wc_text = ww_text c, wc_ruling = ruling, wc_explanation = ww_explanation c,
       wc_cited = ww_cited c\<rparr>
   }"

definition toVerdictNarrative :: "WireSocNarrative \<Rightarrow> VerdictNarrative option" where
  "toVerdictNarrative n = do {
     withheld \<leftarrow> traverse toWithheldClaim (wna_withheld n);
     Some \<lparr>vn_found = wna_found n, vn_published = wna_published n, vn_refusal = unless_blank (wna_refusal n),
       vn_headline = wna_headline n, vn_narrative = wna_narrative n, vn_impact = wna_impact n,
       vn_response = wna_response n, vn_citedEvidence = wna_cited_evidence n, vn_withheld = withheld,
       vn_needsHumanReview = wna_needs_human_review n, vn_modelRef = wna_model_ref n, vn_inputHash = wna_input_hash n\<rparr>
   }"

definition toPlanEffect :: "WireSocPlanEffect \<Rightarrow> SocPlanEffect option" where
  "toPlanEffect e = do {
     steps \<leftarrow> traverse toResponseStep (wpf_steps e);
     Some \<lparr>pe_incidentId = wpf_incident e, pe_revision = wpf_revision e, pe_approved = wpf_approved e, pe_steps = steps,
       pe_enforcementActive = wpf_enforcement_active e\<rparr>
   }"

definition toWirePlanSteps :: "ResponseStepDraft list \<Rightarrow> WirePlanStepInput list" where
  "toWirePlanSteps steps = map (\<lambda>s. \<lparr>st_title = rd_title s,
     st_action = Some (case rd_action s of None \<Rightarrow> [] | Some a \<Rightarrow> response_action_tag a)\<rparr>) steps"

fun isWaitingOnAHuman :: "AuthorityState \<Rightarrow> bool" where
  "isWaitingOnAHuman a = (a = ApprovalRequired \<or> a = ReviewRequired)"

definition toSocCoverage :: "WireDetectCoverage option \<Rightarrow> SocCoverage option" where
  "toSocCoverage coverage = map_option (\<lambda>c.
     let blockers = map (\<lambda>row. \<lparr>scb_name = cbk_name row, scb_rules = cbk_rules row\<rparr>)
     in \<lparr>sc_source = wdc_source c, sc_rulesLoaded = wdc_rules_loaded c, sc_evaluable = wdc_evaluable c,
         sc_unevaluable = wdc_unevaluable c, sc_blockingLogsources = blockers (wdc_blocking_logsources c),
         sc_blockingFields = blockers (wdc_blocking_fields c), sc_truncated = wdc_truncated c\<rparr>) coverage"

definition toSocKpis :: "WireDetectSummary \<Rightarrow> SocIncidentRow list \<Rightarrow> SocKpis option" where
  "toSocKpis summary queue =
     (if wds_summary_refused summary then None
      else Some
        \<lparr>sk_coverage = toSocCoverage (wds_coverage summary),
         sk_eventsAnalyzed = wds_events_analyzed summary, sk_noiseCollapsed = wds_muted_total summary,
         sk_totalFirings = foldl (\<lambda>total row. num_add total (wts_fires row)) (NInt 0) (wds_techniques summary),
         sk_sustained = wds_sustained_total summary, sk_windowHours = wds_window_hours summary,
         sk_ruleEvaluations = (wds_count_unit summary = Some ''RuleEvaluations''),
         sk_materialIncidents = wds_active_alerts summary,
         sk_materialRefusedTenants = wds_active_alerts_refused_tenants summary,
         sk_autoContained = wds_auto_contained summary,
         sk_decisionWaiting = length (filter (\<lambda>row. isWaitingOnAHuman (sir_authority row)) queue),
         sk_detectionEnabled = wds_enabled summary,
         sk_suppressingInputs = map (\<lambda>row. \<lparr>ssi_anchor = wts_anchor row, ssi_falsePositiveFeedback = wts_muted_fp_feedback row,
           ssi_ratifiedBaseline = wts_muted_ratified row, ssi_firings = wts_fires row\<rparr>) (wds_techniques summary)\<rparr>)"

definition suppressingInputsFor :: "SocKpis \<Rightarrow> string \<Rightarrow> SocSuppressingInputs option" where
  "suppressingInputsFor kpis anchor = List.find (\<lambda>row. ssi_anchor row = anchor) (sk_suppressingInputs kpis)"

fun authorityLabel :: "AuthorityState \<Rightarrow> string" where
  "authorityLabel Automatic = ''Automatic''"
| "authorityLabel ApprovalRequired = ''Approval required''"
| "authorityLabel ReviewRequired = ''Review required''"
| "authorityLabel Contained = ''Contained''"

fun postureLabel :: "IncidentPosture \<Rightarrow> string" where
  "postureLabel ObserveOnly = ''Observe only''"
| "postureLabel CandidateIncident = ''Candidate''"
| "postureLabel EscalateIncident = ''Escalate''"

fun confidenceLabel :: "ConfidenceTier \<Rightarrow> string" where
  "confidenceLabel HighConfidence = ''High''"
| "confidenceLabel MediumConfidence = ''Medium''"
| "confidenceLabel LowConfidence = ''Low''"
| "confidenceLabel Contested = ''Contested''"

section \<open>Evidence depth\<close>

datatype TelemetryAnchor = Unanchored | WindowUnavailable | Anchored

fun telemetry_anchor_tag :: "TelemetryAnchor \<Rightarrow> string" where
  "telemetry_anchor_tag Unanchored = ''unanchored''"
| "telemetry_anchor_tag WindowUnavailable = ''window_unavailable''"
| "telemetry_anchor_tag Anchored = ''anchored''"

definition TELEMETRY_ANCHORS :: "TelemetryAnchor list" where
  "TELEMETRY_ANCHORS = [Unanchored, WindowUnavailable, Anchored]"

lemma telemetry_anchor_listed: "a \<in> set TELEMETRY_ANCHORS"
  by (cases a) (simp_all add: TELEMETRY_ANCHORS_def)

interpretation telemetry_anchor: tag_list TELEMETRY_ANCHORS telemetry_anchor_tag
  by (unfold_locales, rule telemetry_anchor_listed, simp_all add: TELEMETRY_ANCHORS_def)

datatype ObservationOutcome = ResolvedObservation | AgedOut | RestrictedObservation

fun observation_outcome_tag :: "ObservationOutcome \<Rightarrow> string" where
  "observation_outcome_tag ResolvedObservation = ''resolved''"
| "observation_outcome_tag AgedOut = ''aged_out''"
| "observation_outcome_tag RestrictedObservation = ''restricted''"

definition OBSERVATION_OUTCOMES :: "ObservationOutcome list" where
  "OBSERVATION_OUTCOMES = [ResolvedObservation, AgedOut, RestrictedObservation]"

lemma observation_outcome_listed: "a \<in> set OBSERVATION_OUTCOMES"
  by (cases a) (simp_all add: OBSERVATION_OUTCOMES_def)

interpretation observation_outcome: tag_list OBSERVATION_OUTCOMES observation_outcome_tag
  by (unfold_locales, rule observation_outcome_listed, simp_all add: OBSERVATION_OUTCOMES_def)

datatype EvidenceKind = DataComponent | EvidenceLeg

fun evidence_kind_tag :: "EvidenceKind \<Rightarrow> string" where
  "evidence_kind_tag DataComponent = ''data_component''"
| "evidence_kind_tag EvidenceLeg = ''leg''"

definition EVIDENCE_KINDS :: "EvidenceKind list" where
  "EVIDENCE_KINDS = [DataComponent, EvidenceLeg]"

lemma evidence_kind_listed: "a \<in> set EVIDENCE_KINDS"
  by (cases a) (simp_all add: EVIDENCE_KINDS_def)

interpretation evidence_kind: tag_list EVIDENCE_KINDS evidence_kind_tag
  by (unfold_locales, rule evidence_kind_listed, simp_all add: EVIDENCE_KINDS_def)

datatype IncidentAct = PlanProposed | PlanWithheld | PlanModified | PlanApproved | ActContained | ActDispositioned | ActAssigned | ActAcked | ActNoted | ActClosed | SiemEnriched

fun incident_act_tag :: "IncidentAct \<Rightarrow> string" where
  "incident_act_tag PlanProposed = ''plan_proposed''"
| "incident_act_tag PlanWithheld = ''plan_withheld''"
| "incident_act_tag PlanModified = ''plan_modified''"
| "incident_act_tag PlanApproved = ''plan_approved''"
| "incident_act_tag ActContained = ''contained''"
| "incident_act_tag ActDispositioned = ''dispositioned''"
| "incident_act_tag ActAssigned = ''assigned''"
| "incident_act_tag ActAcked = ''acked''"
| "incident_act_tag ActNoted = ''noted''"
| "incident_act_tag ActClosed = ''closed''"
| "incident_act_tag SiemEnriched = ''siem_enriched''"

definition INCIDENT_ACTS :: "IncidentAct list" where
  "INCIDENT_ACTS = [PlanProposed, PlanWithheld, PlanModified, PlanApproved, ActContained, ActDispositioned, ActAssigned, ActAcked, ActNoted, ActClosed, SiemEnriched]"

lemma incident_act_listed: "a \<in> set INCIDENT_ACTS"
  by (cases a) (simp_all add: INCIDENT_ACTS_def)

interpretation incident_act: tag_list INCIDENT_ACTS incident_act_tag
  by (unfold_locales, rule incident_act_listed, simp_all add: INCIDENT_ACTS_def)

datatype ImpactBand = InformationalImpact | LowImpact | MediumImpact | HighImpact | CriticalImpact

fun impact_band_tag :: "ImpactBand \<Rightarrow> string" where
  "impact_band_tag InformationalImpact = ''Informational''"
| "impact_band_tag LowImpact = ''Low''"
| "impact_band_tag MediumImpact = ''Medium''"
| "impact_band_tag HighImpact = ''High''"
| "impact_band_tag CriticalImpact = ''Critical''"

definition IMPACT_BANDS :: "ImpactBand list" where
  "IMPACT_BANDS = [InformationalImpact, LowImpact, MediumImpact, HighImpact, CriticalImpact]"

lemma impact_band_listed: "a \<in> set IMPACT_BANDS"
  by (cases a) (simp_all add: IMPACT_BANDS_def)

interpretation impact_band: tag_list IMPACT_BANDS impact_band_tag
  by (unfold_locales, rule impact_band_listed, simp_all add: IMPACT_BANDS_def)

datatype ImpactSentenceState = SentenceNotAssessed | SentenceRefused | SentencePublished

fun sentence_state_tag :: "ImpactSentenceState \<Rightarrow> string" where
  "sentence_state_tag SentenceNotAssessed = ''not_assessed''"
| "sentence_state_tag SentenceRefused = ''refused''"
| "sentence_state_tag SentencePublished = ''published''"

definition IMPACT_SENTENCE_STATES :: "ImpactSentenceState list" where
  "IMPACT_SENTENCE_STATES = [SentenceNotAssessed, SentenceRefused, SentencePublished]"

lemma sentence_state_listed: "a \<in> set IMPACT_SENTENCE_STATES"
  by (cases a) (simp_all add: IMPACT_SENTENCE_STATES_def)

interpretation sentence_state: tag_list IMPACT_SENTENCE_STATES sentence_state_tag
  by (unfold_locales, rule sentence_state_listed, simp_all add: IMPACT_SENTENCE_STATES_def)

datatype RunState = RunStarted | RunRunning | RunRecorded | RunRefused

fun run_state_tag :: "RunState \<Rightarrow> string" where
  "run_state_tag RunStarted = ''started''"
| "run_state_tag RunRunning = ''running''"
| "run_state_tag RunRecorded = ''recorded''"
| "run_state_tag RunRefused = ''refused''"

definition RUN_STATES :: "RunState list" where
  "RUN_STATES = [RunStarted, RunRunning, RunRecorded, RunRefused]"

lemma run_state_listed: "a \<in> set RUN_STATES"
  by (cases a) (simp_all add: RUN_STATES_def)

interpretation run_state: tag_list RUN_STATES run_state_tag
  by (unfold_locales, rule run_state_listed, simp_all add: RUN_STATES_def)

record WireCitedEvidence =
  wce_entry :: string
  wce_kind :: string

record WireObservationRow =
  wor_category :: "string option"
  wor_fields :: "(string \<times> string) list"
  wor_observation_id :: string
  wor_observed_at :: jsnum
  wor_outcome :: string

record WireSocTelemetry =
  wt_anchor :: string
  wt_cited_evidence :: "WireCitedEvidence list"
  wt_explanation :: "string option"
  wt_observations :: "WireObservationRow list"
  wt_refused :: bool

record WireIncidentAct =
  wia_act :: string
  wia_at_seconds :: jsnum
  wia_detail :: "string option"
  wia_principal :: string

record WireSocAudit =
  wau_acts :: "WireIncidentAct list"
  wau_explanation :: "string option"
  wau_refused :: bool

record WireSocActOutcome =
  wao_act :: "string option"
  wao_closed_now :: bool
  wao_explanation :: "string option"
  wao_note_ref :: "string option"
  wao_refused :: bool

record WireIncidentNote =
  win_at_seconds :: jsnum
  win_note_ref :: string
  win_principal :: string
  win_text :: string

record WireSocNotes =
  wnt_explanation :: "string option"
  wnt_notes :: "WireIncidentNote list"
  wnt_refused :: bool

record WireSocDispositionOutcome =
  wdo_closed_now :: bool
  wdo_disposition :: "string option"
  wdo_explanation :: "string option"
  wdo_refused :: bool

record WireImpactFactor =
  wif_basis :: string
  wif_factor :: string
  wif_weight_milli :: jsnum

record WireSocImpact =
  wim_band :: string
  wim_factors :: "WireImpactFactor list"
  wim_refused :: bool
  wim_sentence :: "string option"
  wim_sentence_state :: string
  wim_total_milli :: jsnum

record WireSocRunState =
  wrs_detail :: "string option"
  wrs_state :: string

record CitedEvidenceRef =
  ce_entry :: string
  ce_kind :: EvidenceKind

record TelemetryObservation =
  to_observationId :: string
  to_outcome :: ObservationOutcome
  to_observedAt :: jsnum
  to_category :: "string option"
  to_fields :: "(string \<times> string) list"

record IncidentTelemetry =
  it_anchor :: TelemetryAnchor
  it_citedEvidence :: "CitedEvidenceRef list"
  it_observations :: "TelemetryObservation list"

record IncidentActRow =
  iac_act :: IncidentAct
  iac_principal :: string
  iac_atSeconds :: jsnum
  iac_detail :: "string option"

record IncidentNote =
  ino_principal :: string
  ino_atSeconds :: jsnum
  ino_noteRef :: string
  ino_text :: string

datatype CaseActResult = CaseActRecorded CaseAct bool "string option" | CaseActRefused string

datatype DispositionResult = DispositionRecorded Disposition bool | DispositionRefused string

record ImpactFactorRow =
  ifr_factor :: string
  ifr_weightMilli :: jsnum
  ifr_basis :: string

record BusinessImpact =
  bi_band :: ImpactBand
  bi_totalMilli :: jsnum
  bi_factors :: "ImpactFactorRow list"
  bi_sentenceState :: ImpactSentenceState
  bi_sentence :: "string option"

record CognitionRunState =
  cr_state :: RunState
  cr_detail :: "string option"

definition toCitedEvidence :: "WireCitedEvidence \<Rightarrow> CitedEvidenceRef option" where
  "toCitedEvidence cited = do {
     kind \<leftarrow> narrow_in EVIDENCE_KINDS evidence_kind_tag (wce_kind cited);
     Some \<lparr>ce_entry = wce_entry cited, ce_kind = kind\<rparr>
   }"

definition toTelemetryObservation :: "WireObservationRow \<Rightarrow> TelemetryObservation option" where
  "toTelemetryObservation row = do {
     outcome \<leftarrow> narrow_in OBSERVATION_OUTCOMES observation_outcome_tag (wor_outcome row);
     Some \<lparr>to_observationId = wor_observation_id row, to_outcome = outcome, to_observedAt = wor_observed_at row,
       to_category = unless_blank (wor_category row), to_fields = wor_fields row\<rparr>
   }"

definition toIncidentTelemetry :: "WireSocTelemetry \<Rightarrow> IncidentTelemetry option" where
  "toIncidentTelemetry w =
     (if wt_refused w then None
      else do {
        anchor \<leftarrow> narrow_in TELEMETRY_ANCHORS telemetry_anchor_tag (wt_anchor w);
        citedEvidence \<leftarrow> traverse toCitedEvidence (wt_cited_evidence w);
        observations \<leftarrow> traverse toTelemetryObservation (wt_observations w);
        Some \<lparr>it_anchor = anchor, it_citedEvidence = citedEvidence, it_observations = observations\<rparr>
      })"

definition toIncidentAct :: "WireIncidentAct \<Rightarrow> IncidentActRow option" where
  "toIncidentAct row = do {
     act \<leftarrow> narrow_in INCIDENT_ACTS incident_act_tag (wia_act row);
     Some \<lparr>iac_act = act, iac_principal = wia_principal row, iac_atSeconds = wia_at_seconds row,
       iac_detail = unless_blank (wia_detail row)\<rparr>
   }"

definition toAuditTrail :: "WireSocAudit \<Rightarrow> IncidentActRow list option" where
  "toAuditTrail w = (if wau_refused w then None else traverse toIncidentAct (wau_acts w))"

text \<open>\<open>wire.explanation ?? ''\<close>\<close>

definition or_empty :: "string option \<Rightarrow> string" where
  "or_empty v = (case v of None \<Rightarrow> [] | Some s \<Rightarrow> s)"

definition toCaseActResult :: "WireSocActOutcome \<Rightarrow> CaseActResult option" where
  "toCaseActResult w =
     (if wao_refused w then Some (CaseActRefused (or_empty (wao_explanation w)))
      else do {
        act \<leftarrow> narrow_in CASE_ACTS case_act_tag (or_empty (wao_act w));
        Some (CaseActRecorded act (wao_closed_now w) (unless_blank (wao_note_ref w)))
      })"

definition toIncidentNotes :: "WireSocNotes \<Rightarrow> IncidentNote list option" where
  "toIncidentNotes w =
     (if wnt_refused w then None
      else Some (map (\<lambda>note. \<lparr>ino_principal = win_principal note, ino_atSeconds = win_at_seconds note,
        ino_noteRef = win_note_ref note, ino_text = win_text note\<rparr>) (wnt_notes w)))"

definition toDispositionResult :: "WireSocDispositionOutcome \<Rightarrow> DispositionResult option" where
  "toDispositionResult w =
     (if wdo_refused w then Some (DispositionRefused (or_empty (wdo_explanation w)))
      else do {
        disposition \<leftarrow> narrow_in DISPOSITIONS disposition_tag (or_empty (wdo_disposition w));
        Some (DispositionRecorded disposition (wdo_closed_now w))
      })"

definition toBusinessImpact :: "WireSocImpact \<Rightarrow> BusinessImpact option" where
  "toBusinessImpact w =
     (if wim_refused w then None
      else do {
        band \<leftarrow> narrow_in IMPACT_BANDS impact_band_tag (wim_band w);
        sentenceState \<leftarrow> narrow_in IMPACT_SENTENCE_STATES sentence_state_tag (wim_sentence_state w);
        let sentence = unless_blank (wim_sentence w) in
        if sentenceState = SentencePublished \<and> sentence = None then None
        else Some \<lparr>bi_band = band, bi_totalMilli = wim_total_milli w,
          bi_factors = map (\<lambda>f. \<lparr>ifr_factor = wif_factor f, ifr_weightMilli = wif_weight_milli f, ifr_basis = wif_basis f\<rparr>) (wim_factors w),
          bi_sentenceState = sentenceState, bi_sentence = sentence\<rparr>
      })"

definition toCognitionRunState :: "WireSocRunState \<Rightarrow> CognitionRunState option" where
  "toCognitionRunState w = do {
     state \<leftarrow> narrow_in RUN_STATES run_state_tag (wrs_state w);
     Some \<lparr>cr_state = state, cr_detail = unless_blank (wrs_detail w)\<rparr>
   }"

section \<open>The report and the weekly volume\<close>

datatype ReportSectionName = ExecutiveSummary | WhatHappened | BusinessImpactSection | ImmediateActions | SeverityJustification | ConfidenceExplanation

fun section_name_tag :: "ReportSectionName \<Rightarrow> string" where
  "section_name_tag ExecutiveSummary = ''executive_summary''"
| "section_name_tag WhatHappened = ''what_happened''"
| "section_name_tag BusinessImpactSection = ''business_impact''"
| "section_name_tag ImmediateActions = ''immediate_actions''"
| "section_name_tag SeverityJustification = ''severity_justification''"
| "section_name_tag ConfidenceExplanation = ''confidence_explanation''"

definition REPORT_SECTION_NAMES :: "ReportSectionName list" where
  "REPORT_SECTION_NAMES = [ExecutiveSummary, WhatHappened, BusinessImpactSection, ImmediateActions, SeverityJustification, ConfidenceExplanation]"

lemma section_name_listed: "a \<in> set REPORT_SECTION_NAMES"
  by (cases a) (simp_all add: REPORT_SECTION_NAMES_def)

interpretation section_name: tag_list REPORT_SECTION_NAMES section_name_tag
  by (unfold_locales, rule section_name_listed, simp_all add: REPORT_SECTION_NAMES_def)

datatype ReportSectionSource = ModelSource | EngineSource | TemplateSource

fun section_source_tag :: "ReportSectionSource \<Rightarrow> string" where
  "section_source_tag ModelSource = ''model''"
| "section_source_tag EngineSource = ''engine''"
| "section_source_tag TemplateSource = ''template''"

definition REPORT_SECTION_SOURCES :: "ReportSectionSource list" where
  "REPORT_SECTION_SOURCES = [ModelSource, EngineSource, TemplateSource]"

lemma section_source_listed: "a \<in> set REPORT_SECTION_SOURCES"
  by (cases a) (simp_all add: REPORT_SECTION_SOURCES_def)

interpretation section_source: tag_list REPORT_SECTION_SOURCES section_source_tag
  by (unfold_locales, rule section_source_listed, simp_all add: REPORT_SECTION_SOURCES_def)

datatype ReportNarrativeState = NarrativePublished | NarrativeRefused | NarrativeAbsent

fun narrative_state_tag :: "ReportNarrativeState \<Rightarrow> string" where
  "narrative_state_tag NarrativePublished = ''published''"
| "narrative_state_tag NarrativeRefused = ''refused''"
| "narrative_state_tag NarrativeAbsent = ''absent''"

definition REPORT_NARRATIVE_STATES :: "ReportNarrativeState list" where
  "REPORT_NARRATIVE_STATES = [NarrativePublished, NarrativeRefused, NarrativeAbsent]"

lemma narrative_state_listed: "a \<in> set REPORT_NARRATIVE_STATES"
  by (cases a) (simp_all add: REPORT_NARRATIVE_STATES_def)

interpretation narrative_state: tag_list REPORT_NARRATIVE_STATES narrative_state_tag
  by (unfold_locales, rule narrative_state_listed, simp_all add: REPORT_NARRATIVE_STATES_def)

record WireReportSection =
  wrp_lines :: "string list"
  wrp_name :: string
  wrp_source :: string

record WireSocReport =
  wsr_cited_evidence :: "string list"
  wsr_explanation :: "string option"
  wsr_generated_at :: jsnum
  wsr_incident :: string
  wsr_input_hash :: string
  wsr_model_ref :: "string option"
  wsr_narrative_detail :: "string option"
  wsr_narrative_state :: string
  wsr_needs_human_review :: bool
  wsr_refused :: bool
  wsr_sections :: "WireReportSection list"

record ReportSection =
  rp_name :: ReportSectionName
  rp_source :: ReportSectionSource
  rp_lines :: "string list"

record SocReport =
  sr_incidentId :: string
  sr_generatedAt :: jsnum
  sr_narrativeState :: ReportNarrativeState
  sr_narrativeDetail :: "string option"
  sr_modelRef :: "string option"
  sr_inputHash :: string
  sr_reportSections :: "ReportSection list"
  sr_citedEvidence :: "string list"
  sr_needsHumanReview :: bool

definition toReportSection :: "WireReportSection \<Rightarrow> ReportSection option" where
  "toReportSection w = do {
     sname \<leftarrow> narrow_in REPORT_SECTION_NAMES section_name_tag (wrp_name w);
     source \<leftarrow> narrow_in REPORT_SECTION_SOURCES section_source_tag (wrp_source w);
     Some \<lparr>rp_name = sname, rp_source = source, rp_lines = wrp_lines w\<rparr>
   }"

text \<open>The loop over the sections: \<open>seen\<close> holds the names so far, and a name that repeats is \<open>null\<close>.\<close>

fun report_sections :: "ReportSectionName list \<Rightarrow> WireReportSection list \<Rightarrow> ReportSection list option" where
  "report_sections seen [] = Some []"
| "report_sections seen (w # ws) = (case toReportSection w of
       None \<Rightarrow> None
     | Some s \<Rightarrow> if rp_name s \<in> set seen then None
                 else map_option (Cons s) (report_sections (rp_name s # seen) ws))"

definition toSocReport :: "WireSocReport \<Rightarrow> SocReport option" where
  "toSocReport w =
     (if wsr_refused w then None
      else do {
        state \<leftarrow> narrow_in REPORT_NARRATIVE_STATES narrative_state_tag (wsr_narrative_state w);
        sections \<leftarrow> report_sections [] (wsr_sections w);
        Some \<lparr>sr_incidentId = wsr_incident w, sr_generatedAt = wsr_generated_at w, sr_narrativeState = state,
          sr_narrativeDetail = unless_blank (wsr_narrative_detail w), sr_modelRef = unless_blank (wsr_model_ref w),
          sr_inputHash = wsr_input_hash w, sr_reportSections = sections, sr_citedEvidence = wsr_cited_evidence w,
          sr_needsHumanReview = wsr_needs_human_review w\<rparr>
      })"

fun reportSectionLabel :: "ReportSectionName \<Rightarrow> string" where
  "reportSectionLabel ExecutiveSummary = ''Executive summary''"
| "reportSectionLabel WhatHappened = ''What happened''"
| "reportSectionLabel BusinessImpactSection = ''Business impact''"
| "reportSectionLabel ImmediateActions = ''Immediate actions''"
| "reportSectionLabel SeverityJustification = ''Severity justification''"
| "reportSectionLabel ConfidenceExplanation = ''Confidence explanation''"

fun reportSourceLabel :: "ReportSectionSource \<Rightarrow> string" where
  "reportSourceLabel ModelSource = ''model (adjudicated)''"
| "reportSourceLabel EngineSource = ''engine (record)''"
| "reportSourceLabel TemplateSource = ''template (declared fallback)''"

record WireSocWeekRow =
  wwr_demoted :: jsnum
  wwr_dropped :: jsnum
  wwr_events_analyzed :: jsnum
  wwr_fires :: jsnum
  wwr_incidents_closed :: jsnum
  wwr_incidents_opened :: jsnum
  wwr_muted :: jsnum
  wwr_opened :: jsnum
  wwr_promoted :: jsnum
  wwr_techniques_fired :: jsnum
  wwr_transitioned :: jsnum
  wwr_week_start_seconds :: jsnum

record WireSocWeeklySummary =
  wsw_coverage :: "WireDetectCoverage option"
  wsw_episodes_truncated :: bool
  wsw_explanation :: "string option"
  wsw_refused :: bool
  wsw_until_seconds :: jsnum
  wsw_weeks :: "WireSocWeekRow list"

record SocWeekRow =
  swr_weekStartSeconds :: jsnum
  swr_fires :: jsnum
  swr_opened :: jsnum
  swr_promoted :: jsnum
  swr_transitioned :: jsnum
  swr_demoted :: jsnum
  swr_dropped :: jsnum
  swr_muted :: jsnum
  swr_eventsAnalyzed :: jsnum
  swr_techniquesFired :: jsnum
  swr_incidentsOpened :: jsnum
  swr_incidentsClosed :: jsnum

record SocWeekly =
  swk_weeks :: "SocWeekRow list"
  swk_coverage :: "SocCoverage option"
  swk_episodesTruncated :: bool
  swk_untilSeconds :: jsnum

definition toWeekRow :: "WireSocWeekRow \<Rightarrow> SocWeekRow" where
  "toWeekRow row =
     \<lparr>swr_weekStartSeconds = wwr_week_start_seconds row, swr_fires = wwr_fires row, swr_opened = wwr_opened row,
      swr_promoted = wwr_promoted row, swr_transitioned = wwr_transitioned row, swr_demoted = wwr_demoted row,
      swr_dropped = wwr_dropped row, swr_muted = wwr_muted row, swr_eventsAnalyzed = wwr_events_analyzed row,
      swr_techniquesFired = wwr_techniques_fired row, swr_incidentsOpened = wwr_incidents_opened row,
      swr_incidentsClosed = wwr_incidents_closed row\<rparr>"

fun weeks_in_order :: "SocWeekRow list \<Rightarrow> bool" where
  "weeks_in_order (prev # cur # rest) =
     (\<not> num_le (swr_weekStartSeconds cur) (swr_weekStartSeconds prev) \<and> weeks_in_order (cur # rest))"
| "weeks_in_order _ = True"

definition toSocWeekly :: "WireSocWeeklySummary \<Rightarrow> SocWeekly option" where
  "toSocWeekly w =
     (let weeks = map toWeekRow (wsw_weeks w)
      in if wsw_refused w \<or> \<not> weeks_in_order weeks then None
         else Some \<lparr>swk_weeks = weeks, swk_coverage = toSocCoverage (wsw_coverage w),
           swk_episodesTruncated = wsw_episodes_truncated w, swk_untilSeconds = wsw_until_seconds w\<rparr>)"

section \<open>Settings\<close>

definition SOC_TIER_MILLI_MAX :: int where
  "SOC_TIER_MILLI_MAX = 1000"

definition socTiersOrdered :: "jsnum \<Rightarrow> jsnum \<Rightarrow> bool" where
  "socTiersOrdered low high \<longleftrightarrow> isInteger low \<and> isInteger high \<and> 0 \<le> toBigInt low \<and> toBigInt low \<le> toBigInt high
     \<and> toBigInt high \<le> SOC_TIER_MILLI_MAX"

record WireConfigSettingRow =
  csr_bound :: string
  csr_default_value :: string
  csr_key :: string
  csr_live_apply :: string
  csr_summary :: string
  csr_ui_binding :: string
  csr_value_type :: string

record WireSocSettings =
  wss_dual_control_required :: bool
  wss_explanation :: "string option"
  wss_narrative_model_ref :: "string option"
  wss_refused :: bool
  wss_registry :: "WireConfigSettingRow list"
  wss_siem_writeback :: WireSiemWritebackSettings
  wss_tiers :: WireSocTierSettings
  wss_version :: jsnum

record WireSocSettingsCommitted =
  wsc_dual_control_required :: bool
  wsc_explanation :: "string option"
  wsc_refused :: bool
  wsc_version :: jsnum
  wsc_violations :: "string list"

record ConfigSettingRow =
  cs_key :: string
  cs_valueType :: string
  cs_defaultValue :: string
  cs_bound :: string
  cs_liveApply :: string
  cs_uiBinding :: string
  cs_summary :: string

record SocSettings =
  ss_version :: jsnum
  ss_tiers :: SocTierSettings
  ss_siemWriteback :: SiemWritebackSettings
  ss_narrativeModelRef :: "string option"
  ss_dualControlRequired :: bool
  ss_registry :: "ConfigSettingRow list"

record SocSettingsReceipt =
  ssr_version :: jsnum
  ssr_dualControlRequired :: bool
  ssr_violations :: "string list"
  ssr_refused :: bool
  ssr_explanation :: "string option"

definition toSiemWritebackSettings :: "WireSiemWritebackSettings \<Rightarrow> SiemWritebackSettings option" where
  "toSiemWritebackSettings w = do {
     vendor \<leftarrow> narrow_in SIEM_VENDORS siem_vendor_tag (sm_vendor w);
     ceiling \<leftarrow> narrow_in CLASSIFICATION_TAGS classification_tag (sm_ceiling w);
     Some \<lparr>w_enabled = sm_enabled w, w_vendor = vendor, w_host = sm_host w, w_stream = sm_stream w,
       w_caseUrlBase = sm_case_url_base w, w_ceiling = ceiling\<rparr>
   }"

definition toSocSettings :: "WireSocSettings \<Rightarrow> SocSettings option" where
  "toSocSettings w =
     (if wss_refused w then None
      else do {
        siemWriteback \<leftarrow> toSiemWritebackSettings (wss_siem_writeback w);
        Some \<lparr>ss_version = wss_version w,
          ss_tiers = \<lparr>t_pLowMilli = ti_p_low_milli (wss_tiers w), t_pHighMilli = ti_p_high_milli (wss_tiers w)\<rparr>,
          ss_siemWriteback = siemWriteback, ss_narrativeModelRef = unless_blank (wss_narrative_model_ref w),
          ss_dualControlRequired = wss_dual_control_required w,
          ss_registry = map (\<lambda>row. \<lparr>cs_key = csr_key row, cs_valueType = csr_value_type row,
            cs_defaultValue = csr_default_value row, cs_bound = csr_bound row, cs_liveApply = csr_live_apply row,
            cs_uiBinding = csr_ui_binding row, cs_summary = csr_summary row\<rparr>) (wss_registry w)\<rparr>
      })"

definition toSocSettingsReceipt :: "WireSocSettingsCommitted \<Rightarrow> SocSettingsReceipt" where
  "toSocSettingsReceipt w =
     \<lparr>ssr_version = wsc_version w, ssr_dualControlRequired = wsc_dual_control_required w,
      ssr_violations = wsc_violations w, ssr_refused = wsc_refused w, ssr_explanation = unless_blank (wsc_explanation w)\<rparr>"

end
