(* ===== verification/SocResolvers.thy ===== *)
theory SocResolvers
  imports SocViews Resolvers
begin

text \<open>
  The resolvers of the operations centre (\<open>apps/bff/src/engine/soc.ts\<close>): what each asks of the
  engine and what it makes of the answer.  An error carries its class; its message is not shown.
\<close>

section \<open>The engine as these resolvers see it\<close>

record 'w soc_engine =
  eng_detectSummary :: "('w, WireDetectSummaryQuery, WireDetectSummary) verb"
  eng_socIncidentList :: "('w, WireSocIncidentListQuery, WireSocIncidentList) verb"
  eng_socIncidentDetail :: "('w, WireSocIncidentDetailQuery, WireSocIncidentDetail) verb"
  eng_socNarrative :: "('w, WireSocNarrativeQuery, WireSocNarrative) verb"
  eng_socTelemetry :: "('w, WireSocTelemetryQuery, WireSocTelemetry) verb"
  eng_socAudit :: "('w, WireSocAuditQuery, WireSocAudit) verb"
  eng_socImpact :: "('w, WireSocImpactQuery, WireSocImpact) verb"
  eng_socReport :: "('w, WireSocReportQuery, WireSocReport) verb"
  eng_socWeekly :: "('w, WireSocWeeklyQuery, WireSocWeeklySummary) verb"
  eng_socSettingsRead :: "('w, WireSocSettingsQuery, WireSocSettings) verb"
  eng_socSettingsCommit :: "('w, WireSocSettingsCommit, WireSocSettingsCommitted) verb"
  eng_socCognitionRun :: "('w, WireSocCognitionRun, WireSocRunState) verb"
  eng_socPlanApprove :: "('w, WireSocPlanApprove, WireSocPlanEffect) verb"
  eng_socPlanModify :: "('w, WireSocPlanModify, WireSocPlanEffect) verb"
  eng_socIncidentAct :: "('w, WireSocIncidentAct, WireSocActOutcome) verb"
  eng_socNotes :: "('w, WireSocNotesQuery, WireSocNotes) verb"
  eng_socDisposition :: "('w, WireSocDisposition, WireSocDispositionOutcome) verb"

section \<open>The queue\<close>

definition QUEUE_PAGE :: int where
  "QUEUE_PAGE = 200"

definition QUEUE_MAX_PAGES :: nat where
  "QUEUE_MAX_PAGES = 100"

definition page_request :: "'w soc_engine \<Rightarrow> OperatorPrincipal \<Rightarrow> string option \<Rightarrow> ('w, WireSocIncidentList) resolver" where
  "page_request engine who cursor = and_then requestId (\<lambda>i.
     ask (eng_socIncidentList engine) (\<lambda>q. Soc (ReqSocIncidentList q)) who
       \<lparr>request_id = i, operator = None, si_limit = NInt QUEUE_PAGE, si_cursor = cursor\<rparr>)"

text \<open>The loop over the rows of a page, with the identifiers seen so far.\<close>

fun collect_rows :: "string set \<Rightarrow> SocIncidentRow list \<Rightarrow> SocIncidentRow list \<Rightarrow> string set \<times> SocIncidentRow list" where
  "collect_rows seen rows [] = (seen, rows)"
| "collect_rows seen rows (x # xs) =
     (if sir_incidentId x \<in> seen then collect_rows seen rows xs
      else collect_rows (insert (sir_incidentId x) seen) (rows @ [x]) xs)"

fun queue_pages ::
    "'w soc_engine \<Rightarrow> OperatorPrincipal \<Rightarrow> nat \<Rightarrow> string option \<Rightarrow> string set \<Rightarrow> SocIncidentRow list \<Rightarrow>
      ('w, SocIncidentRow list) resolver" where
  "queue_pages engine who 0 cursor seen rows = throw SocUnavailable"
| "queue_pages engine who (Suc pages) cursor seen rows =
     and_then (page_request engine who cursor) (\<lambda>l. case toIncidentPage l of
       None \<Rightarrow> throw SocUnavailable
     | Some page \<Rightarrow> (case collect_rows seen rows (sip_rows page) of (seen', rows') \<Rightarrow>
         (case sip_nextCursor page of
            None \<Rightarrow> give rows'
          | Some next \<Rightarrow> queue_pages engine who pages (Some next) seen' rows')))"

definition resolveIncidentQueue :: "'w soc_engine \<Rightarrow> OperatorPrincipal \<Rightarrow> ('w, SocIncidentRow list) resolver" where
  "resolveIncidentQueue engine who = queue_pages engine who QUEUE_MAX_PAGES None {} []"

section \<open>Reads\<close>

text \<open>\<open>{ request_id: requestId(), incident }\<close>\<close>

definition of_incident :: "string \<Rightarrow> jsnum \<Rightarrow> WireIncident" where
  "of_incident subject i = \<lparr>request_id = i, operator = None, incident = subject\<rparr>"

definition resolveIncidentDetail :: "'w soc_engine \<Rightarrow> OperatorPrincipal \<Rightarrow> string \<Rightarrow> ('w, SocIncidentDetail option) resolver" where
  "resolveIncidentDetail engine who subject = and_then requestId (\<lambda>i.
     and_then (ask (eng_socIncidentDetail engine) (\<lambda>q. Soc (ReqSocIncidentDetail q)) who (of_incident subject i))
       (unless_refused SocUnavailable wid_refused toIncidentDetail))"

definition resolveNarrative :: "'w soc_engine \<Rightarrow> OperatorPrincipal \<Rightarrow> string \<Rightarrow> ('w, VerdictNarrative) resolver" where
  "resolveNarrative engine who subject = and_then requestId (\<lambda>i.
     and_then (ask (eng_socNarrative engine) (\<lambda>q. Soc (ReqSocNarrative q)) who (of_incident subject i))
       (\<lambda>w. or_throw SocUnavailable (toVerdictNarrative w)))"

definition resolveSocKpis :: "bool \<Rightarrow> 'w soc_engine \<Rightarrow> OperatorPrincipal \<Rightarrow> ('w, SocKpis) resolver" where
  "resolveSocKpis first engine who = and_then requestId (\<lambda>i.
     and_then (promise_all first
         (ask (eng_detectSummary engine) (\<lambda>q. Soc (ReqDetectSummary q)) who \<lparr>request_id = i, operator = None\<rparr>)
         (resolveIncidentQueue engine who))
       (\<lambda>(summary, queue). or_throw SocUnavailable (toSocKpis summary queue)))"

definition resolveIncidentTelemetry :: "'w soc_engine \<Rightarrow> OperatorPrincipal \<Rightarrow> string \<Rightarrow> ('w, IncidentTelemetry option) resolver" where
  "resolveIncidentTelemetry engine who subject = and_then requestId (\<lambda>i.
     and_then (ask (eng_socTelemetry engine) (\<lambda>q. Soc (ReqSocTelemetry q)) who (of_incident subject i))
       (unless_refused SocUnavailable wt_refused toIncidentTelemetry))"

definition resolveAuditTrail :: "'w soc_engine \<Rightarrow> OperatorPrincipal \<Rightarrow> string \<Rightarrow> ('w, IncidentActRow list option) resolver" where
  "resolveAuditTrail engine who subject = and_then requestId (\<lambda>i.
     and_then (ask (eng_socAudit engine) (\<lambda>q. Soc (ReqSocAudit q)) who (of_incident subject i))
       (unless_refused SocUnavailable wau_refused toAuditTrail))"

definition resolveBusinessImpact :: "'w soc_engine \<Rightarrow> OperatorPrincipal \<Rightarrow> string \<Rightarrow> ('w, BusinessImpact option) resolver" where
  "resolveBusinessImpact engine who subject = and_then requestId (\<lambda>i.
     and_then (ask (eng_socImpact engine) (\<lambda>q. Soc (ReqSocImpact q)) who (of_incident subject i))
       (unless_refused SocUnavailable wim_refused toBusinessImpact))"

definition resolveIncidentReport :: "'w soc_engine \<Rightarrow> OperatorPrincipal \<Rightarrow> string \<Rightarrow> ('w, SocReport option) resolver" where
  "resolveIncidentReport engine who subject = and_then requestId (\<lambda>i.
     and_then (ask (eng_socReport engine) (\<lambda>q. Soc (ReqSocReport q)) who (of_incident subject i))
       (unless_refused SocUnavailable wsr_refused toSocReport))"

definition MAX_WEEKLY_WEEKS :: int where
  "MAX_WEEKLY_WEEKS = 12"

definition resolveWeekly :: "'w soc_engine \<Rightarrow> OperatorPrincipal \<Rightarrow> jsnum \<Rightarrow> ('w, SocWeekly option) resolver" where
  "resolveWeekly engine who weeks = and_then requestId (\<lambda>i.
     and_then (ask (eng_socWeekly engine) (\<lambda>q. Soc (ReqSocWeekly q)) who
         \<lparr>request_id = i, operator = None,
          sw_weeks = math_min (math_max (NInt 1) (math_trunc weeks)) (NInt MAX_WEEKLY_WEEKS), sw_until_seconds = None\<rparr>)
       (unless_refused SocUnavailable wsw_refused toSocWeekly))"

definition resolveSocSettings :: "'w soc_engine \<Rightarrow> OperatorPrincipal \<Rightarrow> ('w, SocSettings option) resolver" where
  "resolveSocSettings engine who = and_then requestId (\<lambda>i.
     and_then (ask (eng_socSettingsRead engine) (\<lambda>q. Soc (ReqSocSettingsRead q)) who \<lparr>request_id = i, operator = None\<rparr>)
       (unless_refused SocUnavailable wss_refused toSocSettings))"

definition resolveIncidentNotes :: "'w soc_engine \<Rightarrow> OperatorPrincipal \<Rightarrow> string \<Rightarrow> ('w, IncidentNote list option) resolver" where
  "resolveIncidentNotes engine who subject = and_then requestId (\<lambda>i.
     and_then (ask (eng_socNotes engine) (\<lambda>q. Soc (ReqSocNotes q)) who (of_incident subject i))
       (\<lambda>w. give (toIncidentNotes w)))"

section \<open>Commands\<close>

definition resolveApprovePlan :: "'w soc_engine \<Rightarrow> OperatorPrincipal \<Rightarrow> string \<Rightarrow> jsnum \<Rightarrow> ('w, SocPlanEffect) resolver" where
  "resolveApprovePlan engine who subject atRevision = and_then requestId (\<lambda>i.
     and_then (ask (eng_socPlanApprove engine) (\<lambda>q. Soc (ReqSocPlanApprove q)) who
         \<lparr>request_id = i, operator = None, incident = subject, pa_at_revision = atRevision\<rparr>)
       (\<lambda>effect. or_throw SocUnavailable (toPlanEffect effect)))"

definition resolveModifyPlan ::
    "'w soc_engine \<Rightarrow> OperatorPrincipal \<Rightarrow> string \<Rightarrow> ResponseStepDraft list \<Rightarrow> ('w, SocPlanEffect) resolver" where
  "resolveModifyPlan engine who subject steps = and_then requestId (\<lambda>i.
     and_then (ask (eng_socPlanModify engine) (\<lambda>q. Soc (ReqSocPlanModify q)) who
         \<lparr>request_id = i, operator = None, incident = subject, pm_steps = toWirePlanSteps steps\<rparr>)
       (\<lambda>effect. or_throw SocUnavailable (toPlanEffect effect)))"

definition resolveSocSettingsCommit ::
    "'w soc_engine \<Rightarrow> OperatorPrincipal \<Rightarrow> SocSettingsPatch \<Rightarrow> ('w, SocSettingsReceipt) resolver" where
  "resolveSocSettingsCommit engine who patch = and_then requestId (\<lambda>i.
     and_then (ask (eng_socSettingsCommit engine) (\<lambda>q. Soc (ReqSocSettingsCommit q)) who
         (case toWireSocSettingsCommitFields patch of (tiers, siem) \<Rightarrow>
            \<lparr>request_id = i, operator = None, sk_tiers = tiers, sk_siem_writeback = siem\<rparr>))
       (\<lambda>w. give (toSocSettingsReceipt w)))"

definition resolveCognitionRun :: "'w soc_engine \<Rightarrow> OperatorPrincipal \<Rightarrow> string \<Rightarrow> ('w, CognitionRunState) resolver" where
  "resolveCognitionRun engine who subject = and_then requestId (\<lambda>i.
     and_then (ask (eng_socCognitionRun engine) (\<lambda>q. Soc (ReqSocCognitionRun q)) who (of_incident subject i))
       (\<lambda>w. or_throw SocUnavailable (toCognitionRunState w)))"

definition resolveCaseAct :: "'w soc_engine \<Rightarrow> OperatorPrincipal \<Rightarrow> string \<Rightarrow> CaseActDraft \<Rightarrow> ('w, CaseActResult) resolver" where
  "resolveCaseAct engine who subject draft = and_then requestId (\<lambda>i.
     and_then (ask (eng_socIncidentAct engine) (\<lambda>q. Soc (ReqSocIncidentAct q)) who (toWireCaseAct draft subject i))
       (\<lambda>w. or_throw SocUnavailable (toCaseActResult w)))"

definition resolveDisposition ::
    "'w soc_engine \<Rightarrow> OperatorPrincipal \<Rightarrow> string \<Rightarrow> DispositionDraft \<Rightarrow> ('w, DispositionResult) resolver" where
  "resolveDisposition engine who subject draft = and_then requestId (\<lambda>i.
     and_then (ask (eng_socDisposition engine) (\<lambda>q. Soc (ReqSocDisposition q)) who (toWireDisposition draft subject i))
       (\<lambda>w. or_throw SocUnavailable (toDispositionResult w)))"

end
