(* ===== verification/SocLaws.thy ===== *)
theory SocLaws
  imports SocResolvers
begin

text \<open>
  The operations centre, from the engine's answers to what an analyst sees: rows, lineages and
  settings are what the engine sent, the queue is the whole of the engine's queue, and every
  request goes out for the operator who asked.
\<close>

section \<open>Rows, nodes and edges\<close>

definition wire_row :: "SocIncidentRow \<Rightarrow> WireIncidentRow" where
  "wire_row x = \<lparr>ir_anchor = sir_anchor x, ir_authority = authority_tag (sir_authority x),
     ir_confidence = confidence_tag (sir_confidence x), ir_credibility_milli = sir_credibilityMilli x,
     ir_destination = sir_destination x, ir_evidence_count = sir_evidenceCount x, ir_finding = sir_finding x,
     ir_implied_probability_milli = sir_impliedProbabilityMilli x, ir_incident_id = sir_incidentId x,
     ir_last_seen = sir_lastSeen x, ir_opened_at = sir_openedAt x, ir_posture = SocViews.posture_tag (sir_posture x),
     ir_rule_id = sir_ruleId x, ir_subject = sir_subject x, ir_subject_name = sir_subjectName x\<rparr>"

definition wire_node :: "LineageNode \<Rightarrow> WireLineageNode" where
  "wire_node x = \<lparr>wn_id = ln_id x, wn_kind = node_kind_tag (ln_kind x), wn_label = ln_label x,
     wn_lane = lane_tag (ln_lane x), wn_sublabel = ln_sublabel x\<rparr>"

definition wire_edge :: "LineageEdge \<Rightarrow> WireLineageEdge" where
  "wire_edge x = \<lparr>we_from = le_from x, we_state = edge_state_tag (le_state x), we_to = le_to x\<rparr>"

lemmas soc_tags =
  authority.project_Some SocViews.posture.project_Some confidence.project_Some lane.project_Some node_kind.project_Some
  edge_state.project_Some step_state.project_Some withheld_ruling.project_Some

interpretation row_view: exact_projection wire_row toIncidentRow
proof
  show "toIncidentRow (wire_row x) = Some x" for x
    by (simp add: toIncidentRow_def wire_row_def)
  show "wire_row a = w" if "toIncidentRow w = Some a" for w a
    using that by (auto simp: toIncidentRow_def wire_row_def Option.bind_eq_Some_conv soc_tags)
qed

interpretation node_view: exact_projection wire_node toLineageNode
proof
  show "toLineageNode (wire_node x) = Some x" for x
    by (simp add: toLineageNode_def wire_node_def)
  show "wire_node a = w" if "toLineageNode w = Some a" for w a
    using that by (auto simp: toLineageNode_def wire_node_def Option.bind_eq_Some_conv soc_tags)
qed

interpretation edge_view: exact_projection wire_edge toLineageEdge
proof
  show "toLineageEdge (wire_edge x) = Some x" for x
    by (simp add: toLineageEdge_def wire_edge_def)
  show "wire_edge a = w" if "toLineageEdge w = Some a" for w a
    using that by (auto simp: toLineageEdge_def wire_edge_def Option.bind_eq_Some_conv soc_tags)
qed

text \<open>
  A step shown is the step sent: authority, state, title and place as they were, no explanation
  shown as empty, and an action read without regard to case.
\<close>

definition step_shown :: "WirePlanStep \<Rightarrow> ResponseStep \<Rightarrow> bool" where
  "step_shown w s \<longleftrightarrow> wps_ordinal w = rs_ordinal s \<and> wps_title w = rs_title s
     \<and> wps_authority w = authority_tag (rs_authority s) \<and> wps_state w = step_state_tag (rs_state s)
     \<and> rs_explanation s = (case wps_explanation w of None \<Rightarrow> [] | Some e \<Rightarrow> e)
     \<and> (case rs_action s of
          None \<Rightarrow> wps_action w = None \<or> wps_action w = Some []
        | Some a \<Rightarrow> \<exists>t. wps_action w = Some t \<and> toLowerCase t = response_action_tag a)"

lemma response_tag_ne: "response_action_tag a \<noteq> []"
  by (cases a) simp_all

lemma action_read:
  "toResponseAction tag = Some a \<longleftrightarrow> (case a of
     None \<Rightarrow> tag = None \<or> tag = Some []
   | Some x \<Rightarrow> \<exists>t. tag = Some t \<and> t \<noteq> [] \<and> toLowerCase t = response_action_tag x)"
  by (auto simp: toResponseAction_def response_action.project_Some split: option.split)

lemma step_projection: "toResponseStep w = Some s \<longleftrightarrow> step_shown w s"
proof -
  have "step_shown w s" if "toResponseStep w = Some s"
  proof -
    from that obtain a st ac where tags: "toAuthority (wps_authority w) = Some a" "toStepState (wps_state w) = Some st"
        "toResponseAction (wps_action w) = Some ac"
      and s: "s = \<lparr>rs_ordinal = wps_ordinal w, rs_title = wps_title w, rs_action = ac, rs_authority = a,
        rs_state = st, rs_explanation = (case wps_explanation w of None \<Rightarrow> [] | Some e \<Rightarrow> e)\<rparr>"
      by (auto simp: toResponseStep_def Option.bind_eq_Some_conv)
    then show ?thesis by (cases ac) (auto simp: step_shown_def soc_tags action_read)
  qed
  moreover have "toResponseStep w = Some s" if "step_shown w s"
  proof -
    have "toLowerCase [] = []" by simp
    then have "toLowerCase t = response_action_tag a \<Longrightarrow> t \<noteq> []" for t a
      using response_tag_ne [of a] by metis
    then have "toResponseAction (wps_action w) = Some (rs_action s)"
      using that unfolding action_read step_shown_def by (cases "rs_action s") auto
    then show ?thesis using that by (auto simp: toResponseStep_def step_shown_def)
  qed
  ultimately show ?thesis by blast
qed

lemma steps_projection: "traverse toResponseStep ws = Some ss \<longleftrightarrow> list_all2 step_shown ws ss"
  by (rule traverse_shown) (rule step_projection)

lemma queue_exact: "toIncidentQueue l = Some rows \<longleftrightarrow> \<not> il_refused l \<and> il_rows l = map wire_row rows"
  by (auto simp: toIncidentQueue_def row_view.traverse_Some_render)

lemma detail_exact:
  "toIncidentDetail d = Some v \<longleftrightarrow> \<not> wid_refused d \<and> wid_row d = wire_row (sid_row v)
     \<and> wid_nodes d = map wire_node (sid_nodes v) \<and> wid_edges d = map wire_edge (sid_edges v)
     \<and> list_all2 step_shown (wid_plan d) (sid_plan v) \<and> map ev_leg (sid_evidence v) = wid_evidence d
     \<and> sid_planRevision v = wid_plan_revision d \<and> sid_planApproved v = wid_plan_approved d
     \<and> sid_narrativeRef v = unless_blank (wid_narrative_ref d)"
  (is "?l \<longleftrightarrow> ?r")
proof
  assume ?l
  then show ?r
    by (auto simp: toIncidentDetail_def Option.bind_eq_Some_conv row_view.project_Some node_view.traverse_Some_render
        edge_view.traverse_Some_render steps_projection comp_def split: if_splits)
next
  assume r: ?r
  have "map (\<lambda>leg. \<lparr>ev_leg = leg\<rparr>) (map ev_leg es) = es" for es :: "EvidenceRow list"
    by (induction es) simp_all
  then have "map (\<lambda>leg. \<lparr>ev_leg = leg\<rparr>) (wid_evidence d) = sid_evidence v"
    using r by metis
  moreover have "traverse toResponseStep (wid_plan d) = Some (sid_plan v)"
    using r by (simp add: steps_projection)
  ultimately show ?l using r by (simp add: toIncidentDetail_def)
qed

section \<open>The queue\<close>

text \<open>The rows of a walk, each incident at its first sighting.\<close>

fun first_sightings :: "SocIncidentRow list \<Rightarrow> SocIncidentRow list" where
  "first_sightings [] = []"
| "first_sightings (x # xs) = x # filter (\<lambda>y. sir_incidentId y \<noteq> sir_incidentId x) (first_sightings xs)"

lemma first_sightings_ids: "sir_incidentId ` set (first_sightings xs) = sir_incidentId ` set xs"
proof (induction xs)
  case (Cons x xs)
  have "sir_incidentId ` set (first_sightings (x # xs)) = insert (sir_incidentId x) (sir_incidentId ` set (first_sightings xs))"
    by (auto simp: image_iff)
  then show ?case using Cons by simp
qed simp

lemma first_sightings_distinct: "distinct (map sir_incidentId (first_sightings xs))"
  by (induction xs) (auto intro: distinct_map_filter)

lemma first_sightings_subset: "set (first_sightings xs) \<subseteq> set xs"
  by (induction xs) auto

lemma first_sightings_append:
  "first_sightings (xs @ ys) =
     first_sightings xs @ filter (\<lambda>y. sir_incidentId y \<notin> sir_incidentId ` set xs) (first_sightings ys)"
  by (induction xs) (auto simp: filter_filter intro!: filter_cong)

lemma collect_rows_eq:
  "collect_rows seen rows xs =
     (seen \<union> sir_incidentId ` set xs, rows @ filter (\<lambda>x. sir_incidentId x \<notin> seen) (first_sightings xs))"
proof (induction xs arbitrary: seen rows)
  case (Cons x xs)
  show ?case
  proof (cases "sir_incidentId x \<in> seen")
    case True
    then have "filter (\<lambda>y. sir_incidentId y \<notin> seen) (filter (\<lambda>y. sir_incidentId y \<noteq> sir_incidentId x) ys) =
        filter (\<lambda>y. sir_incidentId y \<notin> seen) ys" for ys
      unfolding filter_filter by (intro filter_cong) auto
    note drop = this [of "first_sightings xs"]
    show ?thesis using True by (simp add: Cons.IH drop insert_absorb del: filter_filter)
  next
    case False
    then show ?thesis by (simp add: Cons.IH)
  qed
qed simp

text \<open>
  What the engine's queue is, whatever the engine does between two pages: the pages reached from
  no cursor by following each page's own cursor, until a page has none.
\<close>

inductive queue_walk ::
    "'w soc_engine \<Rightarrow> OperatorPrincipal \<Rightarrow> string option \<Rightarrow> 'w backend \<Rightarrow> SocIncidentPage list \<Rightarrow> 'w backend \<Rightarrow> bool"
  for engine who where
  final_page: "page_request engine who cursor b = (Some (Inr l), b') \<Longrightarrow> toIncidentPage l = Some page \<Longrightarrow>
    sip_nextCursor page = None \<Longrightarrow> queue_walk engine who cursor b [page] b'"
| next_page: "page_request engine who cursor b = (Some (Inr l), b') \<Longrightarrow> toIncidentPage l = Some page \<Longrightarrow>
    sip_nextCursor page = Some c \<Longrightarrow> queue_walk engine who (Some c) b' pages b'' \<Longrightarrow>
    queue_walk engine who cursor b (page # pages) b''"

inductive_cases queue_walkE: "queue_walk engine who cursor b pages b'"

definition queue_rows :: "SocIncidentPage list \<Rightarrow> SocIncidentRow list" where
  "queue_rows pages = first_sightings (concat (map sip_rows pages))"

lemma queue_pages_sound:
  "queue_pages engine who n cursor seen rows b = (Some (Inr out), b') \<Longrightarrow>
   \<exists>pages. queue_walk engine who cursor b pages b' \<and> length pages \<le> n \<and>
     out = rows @ filter (\<lambda>x. sir_incidentId x \<notin> seen) (queue_rows pages)"
proof (induction n arbitrary: cursor seen rows b)
  case 0
  then show ?case by (simp add: throw_def)
next
  case (Suc n)
  from Suc.prems obtain l b1 where first: "page_request engine who cursor b = (Some (Inr l), b1)"
    by (auto simp: and_then_def split: prod.splits option.splits sum.splits)
  with Suc.prems obtain page where page: "toIncidentPage l = Some page"
    by (cases "toIncidentPage l") (auto simp: and_then_def throw_def)
  let ?rows = "rows @ filter (\<lambda>x. sir_incidentId x \<notin> seen) (first_sightings (sip_rows page))"
  let ?seen = "seen \<union> sir_incidentId ` set (sip_rows page)"
  show ?case
  proof (cases "sip_nextCursor page")
    case None
    with Suc.prems first page have "out = ?rows" "b' = b1"
      by (auto simp: and_then_def collect_rows_eq give_def)
    then show ?thesis using final_page [OF first page None]
      by (intro exI [of _ "[page]"]) (simp add: queue_rows_def)
  next
    case (Some c)
    with Suc.prems first page have "queue_pages engine who n (Some c) ?seen ?rows b1 = (Some (Inr out), b')"
      by (simp add: and_then_def collect_rows_eq)
    from Suc.IH [OF this] obtain pages where walk: "queue_walk engine who (Some c) b1 pages b'" "length pages \<le> n"
      and out: "out = ?rows @ filter (\<lambda>x. sir_incidentId x \<notin> ?seen) (queue_rows pages)" by blast
    have "out = rows @ filter (\<lambda>x. sir_incidentId x \<notin> seen) (queue_rows (page # pages))"
      by (auto simp: out queue_rows_def first_sightings_append filter_filter intro: filter_cong)
    with walk show ?thesis using next_page [OF first page Some walk(1)]
      by (intro exI [of _ "page # pages"]) simp
  qed
qed

lemma queue_pages_complete:
  "queue_walk engine who cursor b pages b' \<Longrightarrow> length pages \<le> n \<Longrightarrow>
   queue_pages engine who n cursor seen rows b =
     (Some (Inr (rows @ filter (\<lambda>x. sir_incidentId x \<notin> seen) (queue_rows pages))), b')"
proof (induction arbitrary: n seen rows rule: queue_walk.induct)
  case (final_page cursor b l b' page)
  then obtain k where "n = Suc k" by (cases n) auto
  with final_page show ?case by (simp add: and_then_def collect_rows_eq give_def queue_rows_def)
next
  case (next_page cursor b l b' page c pages b'')
  then obtain k where n: "n = Suc k" "length pages \<le> k" by (cases n) auto
  let ?rows = "rows @ filter (\<lambda>x. sir_incidentId x \<notin> seen) (first_sightings (sip_rows page))"
  let ?seen = "seen \<union> sir_incidentId ` set (sip_rows page)"
  have "queue_pages engine who n cursor seen rows b = queue_pages engine who k (Some c) ?seen ?rows b'"
    using next_page n by (simp add: and_then_def collect_rows_eq)
  also have "\<dots> = (Some (Inr (?rows @ filter (\<lambda>x. sir_incidentId x \<notin> ?seen) (queue_rows pages))), b'')"
    using next_page.IH n by blast
  also have "?rows @ filter (\<lambda>x. sir_incidentId x \<notin> ?seen) (queue_rows pages) =
      rows @ filter (\<lambda>x. sir_incidentId x \<notin> seen) (queue_rows (page # pages))"
    by (auto simp: queue_rows_def first_sightings_append filter_filter intro: filter_cong)
  finally show ?case .
qed

lemma queue_iff:
  "resolveIncidentQueue engine who b = (Some (Inr rows), b') \<longleftrightarrow>
   (\<exists>pages. queue_walk engine who None b pages b' \<and> length pages \<le> QUEUE_MAX_PAGES \<and> rows = queue_rows pages)"
  unfolding resolveIncidentQueue_def
  using queue_pages_sound [of engine who QUEUE_MAX_PAGES None "{}" "[]" b rows b']
    queue_pages_complete [of engine who None b _ b' QUEUE_MAX_PAGES "{}" "[]"]
  by auto

lemma kpis_iff:
  "resolveSocKpis first engine who b = (Some (Inr kpis), b') \<longleftrightarrow>
   (\<exists>summary b1 pages. and_then requestId (\<lambda>i. ask (eng_detectSummary engine) (\<lambda>q. Soc (ReqDetectSummary q)) who
        \<lparr>request_id = i, operator = None\<rparr>) b = (Some (Inr summary), b1) \<and>
      queue_walk engine who None b1 pages b' \<and> length pages \<le> QUEUE_MAX_PAGES \<and>
      toSocKpis summary (queue_rows pages) = Some kpis)"
  (is "_ \<longleftrightarrow> ?r")
proof -
  define summary where "summary = and_then requestId (\<lambda>i. ask (eng_detectSummary engine) (\<lambda>q. Soc (ReqDetectSummary q)) who
    \<lparr>request_id = i, operator = None\<rparr>) b"
  have split: "resolveSocKpis first engine who b = (case summary of (res, b1) \<Rightarrow>
      case resolveIncidentQueue engine who b1 of (res', b2) \<Rightarrow>
        (case settle_all first res res' of
           Some (Inr (s, queue)) \<Rightarrow> or_throw SocUnavailable (toSocKpis s queue) b2
         | Some (Inl e) \<Rightarrow> (Some (Inl e), b2) | None \<Rightarrow> (None, b2)))"
    by (auto simp: resolveSocKpis_def summary_def and_then_def requestId_def promise_all_def split: prod.splits option.splits sum.splits)
  have "resolveSocKpis first engine who b = (Some (Inr kpis), b') \<longleftrightarrow>
      (\<exists>s b1 queue. summary = (Some (Inr s), b1) \<and> resolveIncidentQueue engine who b1 = (Some (Inr queue), b')
         \<and> toSocKpis s queue = Some kpis)"
    unfolding split
    by (cases summary; cases "fst summary"; cases "resolveIncidentQueue engine who (snd summary)"; cases "fst (resolveIncidentQueue engine who (snd summary))")
      (auto simp: or_throw_def give_def throw_def split: sum.splits option.splits elim: settle_all.elims)
  then show ?thesis by (auto simp: queue_iff summary_def)
qed

section \<open>Reports, weeks and settings\<close>

definition wire_section :: "ReportSection \<Rightarrow> WireReportSection" where
  "wire_section s = \<lparr>wrp_lines = rp_lines s, wrp_name = section_name_tag (rp_name s), wrp_source = section_source_tag (rp_source s)\<rparr>"

interpretation section_view: exact_projection wire_section toReportSection
proof
  show "toReportSection (wire_section x) = Some x" for x
    by (simp add: toReportSection_def wire_section_def)
  show "wire_section a = w" if "toReportSection w = Some a" for w a
    using that by (auto simp: toReportSection_def wire_section_def Option.bind_eq_Some_conv
        section_name.project_Some section_source.project_Some)
qed

lemma report_sections_iff:
  "report_sections seen ws = Some ss \<longleftrightarrow>
     ws = map wire_section ss \<and> distinct (map rp_name ss) \<and> set (map rp_name ss) \<inter> set seen = {}"
proof (induction ws arbitrary: seen ss)
  case (Cons w ws)
  show ?case
  proof (cases "toReportSection w")
    case None
    then have "w \<notin> range wire_section" by (simp add: section_view.project_None)
    then show ?thesis using None by (cases ss) auto
  next
    case (Some s)
    then have w: "w = wire_section s" by (simp add: section_view.project_Some)
    show ?thesis
      by (cases ss) (auto simp: w Cons.IH section_view.render_inject)
  qed
qed auto

lemma report_exact:
  "toSocReport w = Some v \<longleftrightarrow> \<not> wsr_refused w \<and> wsr_sections w = map wire_section (sr_reportSections v)
     \<and> distinct (map rp_name (sr_reportSections v)) \<and> wsr_narrative_state w = narrative_state_tag (sr_narrativeState v)
     \<and> sr_incidentId v = wsr_incident w \<and> sr_generatedAt v = wsr_generated_at w
     \<and> sr_narrativeDetail v = unless_blank (wsr_narrative_detail w) \<and> sr_modelRef v = unless_blank (wsr_model_ref w)
     \<and> sr_inputHash v = wsr_input_hash w \<and> sr_citedEvidence v = wsr_cited_evidence w
     \<and> sr_needsHumanReview v = wsr_needs_human_review w"
  (is "?l \<longleftrightarrow> ?r")
proof
  assume ?l
  then show ?r
    by (auto simp: toSocReport_def Option.bind_eq_Some_conv narrative_state.project_Some report_sections_iff split: if_splits)
next
  assume r: ?r
  then have "report_sections [] (wsr_sections w) = Some (sr_reportSections v)" by (simp add: report_sections_iff)
  then show ?l using r by (simp add: toSocReport_def)
qed

lemma weeks_in_order_iff:
  "weeks_in_order ws \<longleftrightarrow>
     (\<forall>i. Suc i < length ws \<longrightarrow> \<not> num_le (swr_weekStartSeconds (ws ! Suc i)) (swr_weekStartSeconds (ws ! i)))"
proof (induction ws rule: weeks_in_order.induct)
  case (1 prev cur rest)
  then show ?case by (auto simp: nth_Cons less_Suc_eq_0_disj split: nat.splits)
qed auto

lemma tiers_order:
  "socTiersOrdered low high \<longleftrightarrow> isInteger low \<and> isInteger high \<and> {toBigInt low .. toBigInt high} \<subseteq> {0 .. SOC_TIER_MILLI_MAX}
     \<and> toBigInt low \<le> toBigInt high"
  by (auto simp: socTiersOrdered_def)

text \<open>What the engine answers once a patch over \<open>before\<close> is committed.\<close>

definition committed :: "SocSettingsPatch \<Rightarrow> WireSocSettings \<Rightarrow> WireSocSettings" where
  "committed patch before = (case toWireSocSettingsCommitFields patch of (tiers, siem) \<Rightarrow>
     before\<lparr>wss_tiers := (case tiers of None \<Rightarrow> wss_tiers before | Some t \<Rightarrow> t),
            wss_siem_writeback := (case siem of None \<Rightarrow> wss_siem_writeback before | Some s \<Rightarrow> s)\<rparr>)"

lemma siem_read_back:
  "toSiemWritebackSettings \<lparr>sm_enabled = w_enabled s, sm_vendor = siem_vendor_tag (w_vendor s), sm_host = w_host s,
     sm_stream = w_stream s, sm_case_url_base = w_caseUrlBase s, sm_ceiling = SocCommands.classification_tag (w_ceiling s)\<rparr> = Some s"
  by (simp add: toSiemWritebackSettings_def siem_vendor.narrow_in_tag SocCommands.classification.narrow_in_tag)

lemma settings_read_back:
  assumes "toSocSettings before = Some view"
  shows "toSocSettings (committed patch before) = Some (view
    \<lparr>ss_tiers := (case p_tiers patch of None \<Rightarrow> ss_tiers view | Some t \<Rightarrow> t),
     ss_siemWriteback := (case p_siemWriteback patch of None \<Rightarrow> ss_siemWriteback view | Some s \<Rightarrow> s)\<rparr>)"
  using assms
  by (auto simp: toSocSettings_def committed_def toWireSocSettingsCommitFields_def siem_read_back Option.bind_eq_Some_conv
      split: if_splits option.splits)

section \<open>Calls\<close>

text \<open>What the routes call, and what it gives; \<open>first\<close> resolves the race of the two reads of the strip.\<close>

datatype soc_view =
    KpisShown SocKpis | WeeklyShown "SocWeekly option" | QueueShown "SocIncidentRow list"
  | DetailShown "SocIncidentDetail option" | NotesShown "IncidentNote list option"
  | TelemetryShown "IncidentTelemetry option" | AuditShown "IncidentActRow list option"
  | ImpactShown "BusinessImpact option" | ReportShown "SocReport option" | NarrativeShown VerdictNarrative
  | RunShown CognitionRunState | CaseActShown CaseActResult | DispositionShown DispositionResult
  | PlanShown SocPlanEffect

fun resolve_soc :: "bool \<Rightarrow> 'w soc_engine \<Rightarrow> OperatorPrincipal \<Rightarrow> soc_call \<Rightarrow> ('w, soc_view) resolver" where
  "resolve_soc first engine who ResolveSocKpis = shown_as KpisShown (resolveSocKpis first engine who)"
| "resolve_soc first engine who (ResolveWeekly weeks) = shown_as WeeklyShown (resolveWeekly engine who weeks)"
| "resolve_soc first engine who ResolveIncidentQueue = shown_as QueueShown (resolveIncidentQueue engine who)"
| "resolve_soc first engine who (ResolveIncidentDetail s) = shown_as DetailShown (resolveIncidentDetail engine who s)"
| "resolve_soc first engine who (ResolveIncidentNotes s) = shown_as NotesShown (resolveIncidentNotes engine who s)"
| "resolve_soc first engine who (ResolveIncidentTelemetry s) = shown_as TelemetryShown (resolveIncidentTelemetry engine who s)"
| "resolve_soc first engine who (ResolveAuditTrail s) = shown_as AuditShown (resolveAuditTrail engine who s)"
| "resolve_soc first engine who (ResolveBusinessImpact s) = shown_as ImpactShown (resolveBusinessImpact engine who s)"
| "resolve_soc first engine who (ResolveIncidentReport s) = shown_as ReportShown (resolveIncidentReport engine who s)"
| "resolve_soc first engine who (ResolveNarrative s) = shown_as NarrativeShown (resolveNarrative engine who s)"
| "resolve_soc first engine who (ResolveCognitionRun s) = shown_as RunShown (resolveCognitionRun engine who s)"
| "resolve_soc first engine who (ResolveCaseAct s draft) = shown_as CaseActShown (resolveCaseAct engine who s draft)"
| "resolve_soc first engine who (ResolveDisposition s draft) = shown_as DispositionShown (resolveDisposition engine who s draft)"
| "resolve_soc first engine who (ResolveApprovePlan s revision) = shown_as PlanShown (resolveApprovePlan engine who s revision)"
| "resolve_soc first engine who (ResolveModifyPlan s steps) = shown_as PlanShown (resolveModifyPlan engine who s steps)"

text \<open>The request each call sends, but for the two that walk the queue.\<close>

fun soc_request :: "soc_call \<Rightarrow> jsnum \<Rightarrow> SocRequest option" where
  "soc_request ResolveSocKpis i = None"
| "soc_request ResolveIncidentQueue i = None"
| "soc_request (ResolveWeekly weeks) i = Some (ReqSocWeekly \<lparr>request_id = i, operator = None,
     sw_weeks = math_min (math_max (NInt 1) (math_trunc weeks)) (NInt MAX_WEEKLY_WEEKS), sw_until_seconds = None\<rparr>)"
| "soc_request (ResolveIncidentDetail s) i = Some (ReqSocIncidentDetail (of_incident s i))"
| "soc_request (ResolveIncidentNotes s) i = Some (ReqSocNotes (of_incident s i))"
| "soc_request (ResolveIncidentTelemetry s) i = Some (ReqSocTelemetry (of_incident s i))"
| "soc_request (ResolveAuditTrail s) i = Some (ReqSocAudit (of_incident s i))"
| "soc_request (ResolveBusinessImpact s) i = Some (ReqSocImpact (of_incident s i))"
| "soc_request (ResolveIncidentReport s) i = Some (ReqSocReport (of_incident s i))"
| "soc_request (ResolveNarrative s) i = Some (ReqSocNarrative (of_incident s i))"
| "soc_request (ResolveCognitionRun s) i = Some (ReqSocCognitionRun (of_incident s i))"
| "soc_request (ResolveCaseAct s draft) i = Some (ReqSocIncidentAct (toWireCaseAct draft s i))"
| "soc_request (ResolveDisposition s draft) i = Some (ReqSocDisposition (toWireDisposition draft s i))"
| "soc_request (ResolveApprovePlan s revision) i =
     Some (ReqSocPlanApprove \<lparr>request_id = i, operator = None, incident = s, pa_at_revision = revision\<rparr>)"
| "soc_request (ResolveModifyPlan s steps) i =
     Some (ReqSocPlanModify \<lparr>request_id = i, operator = None, incident = s, pm_steps = toWirePlanSteps steps\<rparr>)"

lemma speaks_page: "speaks who 1 (page_request engine who cursor)"
  unfolding page_request_def by (rule speaks_bind [OF speaks_pure(3) speaks_ask]) simp

lemma speaks_queue_pages: "speaks who n (queue_pages engine who n cursor seen rows)"
proof (induction n arbitrary: cursor seen rows)
  case (Suc n)
  have quiet: "speaks who n (give x :: ('w, SocIncidentRow list) resolver)" "speaks who n (throw e :: ('w, SocIncidentRow list) resolver)" for x e
    by (rule speaks_mono [OF speaks_pure(1)], simp, rule speaks_mono [OF speaks_pure(2)], simp)
  show ?case unfolding queue_pages.simps
    by (rule speaks_bind [OF speaks_page, where j = n]) (auto simp: Suc quiet split: option.split prod.split)
qed (simp add: speaks_pure)

lemma speaks_queue [speak_intros]: "speaks who QUEUE_MAX_PAGES (resolveIncidentQueue engine who)"
  by (simp add: resolveIncidentQueue_def speaks_queue_pages)

lemma speaks_kpis: "speaks who (Suc QUEUE_MAX_PAGES) (resolveSocKpis first engine who)"
proof -
  have "speaks who 0 (case x of (s, q) \<Rightarrow> or_throw SocUnavailable (toSocKpis s q))" for x
    by (cases x) (simp add: speaks_pure)
  then have "speaks who (0 + (1 + QUEUE_MAX_PAGES + 0)) (resolveSocKpis first engine who)"
    unfolding resolveSocKpis_def by (intro speak_intros) auto
  then show ?thesis by simp
qed

lemmas soc_resolvers =
  resolveWeekly_def resolveIncidentDetail_def resolveIncidentNotes_def resolveIncidentTelemetry_def resolveAuditTrail_def
  resolveBusinessImpact_def resolveIncidentReport_def resolveNarrative_def resolveCognitionRun_def resolveCaseAct_def
  resolveDisposition_def resolveApprovePlan_def resolveModifyPlan_def

lemma soc_single:
  "soc_request call (NInt ((bk_ids b + 1) mod 1000000000)) = Some q \<Longrightarrow>
   asked (resolve_soc first engine who call) b = [(who, Soc q)]"
  by (cases call) (auto simp: asked_shows soc_resolvers asked_one)

lemma soc_speaks: "speaks who (Suc QUEUE_MAX_PAGES) (resolve_soc first engine who call)"
  by (cases call)
    (auto intro!: speaks_shown speaks_kpis speaks_mono [OF speaks_queue] speaks_one speaks_unless_refused speaks_pure
      simp: soc_resolvers)

interpretation detail_read: refusable_read SocUnavailable "eng_socIncidentDetail engine" "\<lambda>q. Soc (ReqSocIncidentDetail q)" who
    "of_incident s" wid_refused toIncidentDetail "resolveIncidentDetail engine who s"
  by unfold_locales (simp add: resolveIncidentDetail_def)

interpretation telemetry_read: refusable_read SocUnavailable "eng_socTelemetry engine" "\<lambda>q. Soc (ReqSocTelemetry q)" who
    "of_incident s" wt_refused toIncidentTelemetry "resolveIncidentTelemetry engine who s"
  by unfold_locales (simp add: resolveIncidentTelemetry_def)

interpretation audit_read: refusable_read SocUnavailable "eng_socAudit engine" "\<lambda>q. Soc (ReqSocAudit q)" who
    "of_incident s" wau_refused toAuditTrail "resolveAuditTrail engine who s"
  by unfold_locales (simp add: resolveAuditTrail_def)

interpretation impact_read: refusable_read SocUnavailable "eng_socImpact engine" "\<lambda>q. Soc (ReqSocImpact q)" who
    "of_incident s" wim_refused toBusinessImpact "resolveBusinessImpact engine who s"
  by unfold_locales (simp add: resolveBusinessImpact_def)

interpretation report_read: refusable_read SocUnavailable "eng_socReport engine" "\<lambda>q. Soc (ReqSocReport q)" who
    "of_incident s" wsr_refused toSocReport "resolveIncidentReport engine who s"
  by unfold_locales (simp add: resolveIncidentReport_def)

interpretation weekly_read: refusable_read SocUnavailable "eng_socWeekly engine" "\<lambda>q. Soc (ReqSocWeekly q)" who
    "\<lambda>i. \<lparr>request_id = i, operator = None, sw_weeks = math_min (math_max (NInt 1) (math_trunc weeks)) (NInt MAX_WEEKLY_WEEKS),
       sw_until_seconds = None\<rparr>" wsw_refused toSocWeekly "resolveWeekly engine who weeks"
  by unfold_locales (simp add: resolveWeekly_def)

interpretation soc_settings_read: refusable_read SocUnavailable "eng_socSettingsRead engine" "\<lambda>q. Soc (ReqSocSettingsRead q)" who
    "\<lambda>i. \<lparr>request_id = i, operator = None\<rparr>" wss_refused toSocSettings "resolveSocSettings engine who"
  by unfold_locales (simp add: resolveSocSettings_def)

section \<open>Properties\<close>

text \<open>
  C25.  The decision queue an analyst sees is the engine's whole queue.  The resolver answers
  exactly when the pages, followed from cursor to cursor, come to an end within a hundred and each
  can be shown; its answer is then every incident of every page, once, at its first place in the
  engine's order.  The KPI strip counts its waiting decisions over that same queue, read after
  the summary.
\<close>
theorem incident_queue_whole:
  "(resolveIncidentQueue engine who b = (Some (Inr rows), b') \<longleftrightarrow>
     (\<exists>pages. queue_walk engine who None b pages b' \<and> length pages \<le> QUEUE_MAX_PAGES \<and> rows = queue_rows pages)) \<and>
   distinct (map sir_incidentId (queue_rows ps)) \<and>
   sir_incidentId ` set (queue_rows ps) = sir_incidentId ` set (concat (map sip_rows ps)) \<and>
   set (queue_rows ps) \<subseteq> set (concat (map sip_rows ps)) \<and>
   (resolveSocKpis first engine who b = (Some (Inr kpis), b') \<longleftrightarrow>
     (\<exists>summary b1 pages. and_then requestId (\<lambda>i. ask (eng_detectSummary engine) (\<lambda>q. Soc (ReqDetectSummary q)) who
          \<lparr>request_id = i, operator = None\<rparr>) b = (Some (Inr summary), b1) \<and>
        queue_walk engine who None b1 pages b' \<and> length pages \<le> QUEUE_MAX_PAGES \<and>
        toSocKpis summary (queue_rows pages) = Some kpis))"
  by (intro conjI queue_iff kpis_iff)
    (simp_all only: queue_rows_def first_sightings_distinct first_sightings_ids first_sightings_subset)

text \<open>
  C26.  What the queue and the incident drawer show is what the engine sent.  A queue is shown
  exactly when the engine did not refuse it and its rows are the wire form of the rows shown; an
  incident exactly when its row, nodes and edges are the wire form of those shown, and each plan
  step shows the title, authority and state of its own.  An unknown tag anywhere shows nothing.
\<close>
theorem incident_views_exact:
  "(toIncidentQueue l = Some rows \<longleftrightarrow> \<not> il_refused l \<and> il_rows l = map wire_row rows) \<and>
   (toIncidentDetail d = Some v \<longleftrightarrow> \<not> wid_refused d \<and> wid_row d = wire_row (sid_row v)
     \<and> wid_nodes d = map wire_node (sid_nodes v) \<and> wid_edges d = map wire_edge (sid_edges v)
     \<and> list_all2 step_shown (wid_plan d) (sid_plan v) \<and> map ev_leg (sid_evidence v) = wid_evidence d
     \<and> sid_planRevision v = wid_plan_revision d \<and> sid_planApproved v = wid_plan_approved d
     \<and> sid_narrativeRef v = unless_blank (wid_narrative_ref d)) \<and>
   inj wire_row \<and> inj wire_node \<and> inj wire_edge"
  using queue_exact detail_exact row_view.render_inject node_view.render_inject edge_view.render_inject
  by (simp add: inj_def)

text \<open>
  The reads of one incident tell the truth about it.  The incident, its telemetry, its audit
  trail, its impact and its report are reported missing exactly when the engine refused, shown
  exactly when the console knows every tag in the answer, and otherwise unavailable.
\<close>
theorem incident_reads_honest:
  "honest_read SocUnavailable (eng_socIncidentDetail engine) who (of_incident s) wid_refused toIncidentDetail (resolveIncidentDetail engine who s) \<and>
   honest_read SocUnavailable (eng_socTelemetry engine) who (of_incident s) wt_refused toIncidentTelemetry (resolveIncidentTelemetry engine who s) \<and>
   honest_read SocUnavailable (eng_socAudit engine) who (of_incident s) wau_refused toAuditTrail (resolveAuditTrail engine who s) \<and>
   honest_read SocUnavailable (eng_socImpact engine) who (of_incident s) wim_refused toBusinessImpact (resolveBusinessImpact engine who s) \<and>
   honest_read SocUnavailable (eng_socReport engine) who (of_incident s) wsr_refused toSocReport (resolveIncidentReport engine who s)"
  by (intro conjI detail_read.honest telemetry_read.honest audit_read.honest impact_read.honest report_read.honest)

text \<open>
  Whatever the operations centre is asked, the engine is asked for the operator who asked,
  at most a hundred and one times; and every call that does not walk the queue sends exactly one
  request: the one its arguments name, under a fresh number.
\<close>
theorem soc_asks_for_caller:
  "list_all (\<lambda>(p, _). p = who) (asked (resolve_soc first engine who call) b) \<and>
   length (asked (resolve_soc first engine who call) b) \<le> 101 \<and>
   (case soc_request call (NInt ((bk_ids b + 1) mod 1000000000)) of
      None \<Rightarrow> call = ResolveSocKpis \<or> call = ResolveIncidentQueue
    | Some q \<Rightarrow> asked (resolve_soc first engine who call) b = [(who, Soc q)])"
proof -
  have "call = ResolveSocKpis \<or> call = ResolveIncidentQueue" if "soc_request call i = None" for i
    using that by (cases call) auto
  then show ?thesis
    using speaks_asked [OF soc_speaks [of who first engine call], of b]
    by (auto simp: QUEUE_MAX_PAGES_def soc_single split: option.split)
qed

end
