(* ===== verification/Surfaces.thy ===== *)
theory Surfaces
  imports Catalog Overview SettingsLaws SocLaws ServerLaws
begin

text \<open>
  The calls of the server, resolved: which resolver of \<open>apps/bff/src/engine\<close> each call of
  \<open>server.ts\<close> runs, over the engine the resolvers share, and whom the engine is asked for.  The
  bundle distribution is modelled with its sidecar in \<open>Distribute\<close>.
\<close>

section \<open>Resolving a call\<close>

text \<open>
  What the resolvers get from their surroundings: the engine by module, the reverse resolver's
  reader, the collation and which of two rejections comes first.
\<close>

record 'w surroundings =
  su_entities :: "'w entity_engine"
  su_overview :: "'w overview_engine"
  su_zones :: "'w zone_engine"
  su_users :: "'w users_engine"
  su_catalog :: "'w catalog_engine"
  su_soc :: "'w soc_engine"
  su_settings :: "'w settings_engine"
  su_models :: "'w model_engine"
  su_names :: name_reader
  su_localeCompare :: "string \<Rightarrow> string \<Rightarrow> int"
  su_first :: bool

datatype entity_shown =
    DrawerShown EntityDetailView | Isolated IsolateEffect | LogExported LogExportView | LogShown LogPage
  | DecisionShown LogDetailView | SankeyShown OverviewSankey | ConnectionsShown OverviewConnectionList
  | MembersShown OverviewMemberList

fun resolve_entity :: "'w surroundings \<Rightarrow> OperatorPrincipal \<Rightarrow> entity_call \<Rightarrow> ('w, entity_shown) resolver" where
  "resolve_entity su who (ResolveEntityDetail ref) = shown_as DrawerShown (resolveEntityDetail (su_entities su) who ref)"
| "resolve_entity su who (ResolveIsolate ref request now) = shown_as Isolated (resolveIsolate (su_entities su) who ref request now)"
| "resolve_entity su who (ResolveLogExport request now) = shown_as LogExported (resolveLogExport (su_entities su) who request now)"
| "resolve_entity su who (ResolveLogQuery f) = shown_as LogShown (resolveLogQuery (su_entities su) who f)"
| "resolve_entity su who (ResolveLogExplain decision) = shown_as DecisionShown (resolveLogExplain (su_entities su) who decision)"
| "resolve_entity su who (ResolveOverviewSankey q) =
     shown_as SankeyShown (resolveOverviewSankey (su_localeCompare su) (su_names su) (su_overview su) who q)"
| "resolve_entity su who (ResolveEntityConnections subject kind) =
     shown_as ConnectionsShown (resolveEntityConnections (su_overview su) who subject kind)"
| "resolve_entity su who (ResolveClassMembers container) =
     shown_as MembersShown (resolveClassMembers (su_names su) (su_overview su) who container)"

datatype zone_shown =
    TreeShown VtzTree | ZoneShown VtzDetailView | ConvergenceShown BundleConvergenceView | ZoneChanged VtzMutationResult

text \<open>\<open>None\<close> is the distribution.\<close>

fun resolve_zone :: "'w surroundings \<Rightarrow> OperatorPrincipal \<Rightarrow> zone_call \<Rightarrow> ('w, zone_shown) resolver option" where
  "resolve_zone su who (ResolveVtzTree limit) = Some (shown_as TreeShown (resolveVtzTree (su_zones su) who limit))"
| "resolve_zone su who (ResolveVtzDetail zone) = Some (shown_as ZoneShown (resolveVtzDetail (su_zones su) who zone))"
| "resolve_zone su who (ResolveBundleConvergence zone) =
     Some (shown_as ConvergenceShown (resolveBundleConvergence (su_zones su) who zone))"
| "resolve_zone su who (ResolveVtz command) = Some (shown_as ZoneChanged (run_vtz_command (su_zones su) who command))"
| "resolve_zone su who (ResolveDistribute port zone members) = None"

datatype settings_shown =
    SettingsPage "SettingsView option" | SettingsChanged SettingsReceipt | ReportsPage "SettingsReportsView option"
  | ProposalMade SettingsProposalReceipt | ApprovalsPage "PendingProposal list option" | HistoryPage "SettingsHistoryView option"
  | SocPage "SocSettings option" | SocChanged SocSettingsReceipt | ModelsPage "ModelAccessView option"
  | GrantChanged "AgentGrantOutcome option"

fun resolve_settings :: "'w surroundings \<Rightarrow> OperatorPrincipal \<Rightarrow> settings_call \<Rightarrow> ('w, settings_shown) resolver" where
  "resolve_settings su who (ResolveSettings surface) = shown_as SettingsPage (resolveSettings (su_settings su) who surface)"
| "resolve_settings su who (ResolveSettingsCommit change) = shown_as SettingsChanged (resolveSettingsCommit (su_settings su) who change)"
| "resolve_settings su who (ResolveSettingsReports reports) = shown_as ReportsPage (resolveSettingsReports (su_settings su) who reports)"
| "resolve_settings su who (ResolveSettingsPropose change) = shown_as ProposalMade (resolveSettingsPropose (su_settings su) who change)"
| "resolve_settings su who ResolveSettingsApprovals = shown_as ApprovalsPage (resolveSettingsApprovals (su_settings su) who)"
| "resolve_settings su who (ResolveSettingsApprove proposal) = shown_as SettingsChanged (resolveSettingsApprove (su_settings su) who proposal)"
| "resolve_settings su who (ResolveSettingsHistory limit) = shown_as HistoryPage (resolveSettingsHistory (su_settings su) who limit)"
| "resolve_settings su who (ResolveSettingsRollback to) = shown_as SettingsChanged (resolveSettingsRollback (su_settings su) who to)"
| "resolve_settings su who ResolveSocSettings = shown_as SocPage (resolveSocSettings (su_soc su) who)"
| "resolve_settings su who (ResolveSocSettingsCommit change) = shown_as SocChanged (resolveSocSettingsCommit (su_soc su) who change)"
| "resolve_settings su who (ResolveModelAccess days now) =
     shown_as ModelsPage (resolveModelAccess (su_models su) who (toBigInt days) now)"
| "resolve_settings su who (ApplyAgentGrant change) = shown_as GrantChanged (applyAgentGrant (su_models su) who change)"

datatype surface_view =
    EntitySurface entity_shown | ZoneSurface zone_shown | DirectorySurface directory_view | CatalogSurface catalog_view
  | SocSurface soc_view | SettingsSurface settings_shown

fun resolve_call :: "'w surroundings \<Rightarrow> OperatorPrincipal \<Rightarrow> engine_call \<Rightarrow> ('w, surface_view) resolver option" where
  "resolve_call su who (EntityCall c) = Some (shown_as EntitySurface (resolve_entity su who c))"
| "resolve_call su who (ZoneCall c) = map_option (shown_as ZoneSurface) (resolve_zone su who c)"
| "resolve_call su who (DirectoryCall c) =
     Some (shown_as DirectorySurface (resolve_directory (su_localeCompare su) (su_first su) (su_users su) who c))"
| "resolve_call su who (CatalogCall c) = Some (shown_as CatalogSurface (resolve_catalog (su_catalog su) who c))"
| "resolve_call su who (SocCall c) = Some (shown_as SocSurface (resolve_soc (su_first su) (su_soc su) who c))"
| "resolve_call su who (SettingsCall c) = Some (shown_as SettingsSurface (resolve_settings su who c))"

section \<open>Whom the engine is asked for\<close>

lemma entity_speaks: "speaks who 5 (resolve_entity su who c)"
proof -
  have one: "speaks who (Suc 0) m \<Longrightarrow> speaks who 5 m" for m :: "('w, 'v) resolver" by (erule speaks_mono) simp
  note single = one [OF speaks_once [simplified]]
  have members: "speaks who 5 (resolveClassMembers reader engine who container)" for reader engine container
    unfolding resolveClassMembers_def
    by (auto intro!: single speaks_mono [OF speaks_pure(2)] speaks_pure split: option.split)
  show ?thesis
    by (cases c) (auto intro!: speaks_shown speaks_entity_detail members single speaks_pure
        simp: resolveIsolate_def resolveLogExport_def resolveLogQuery_def resolveLogExplain_def resolveOverviewSankey_def
          resolveEntityConnections_def)
qed

lemma zone_speaks: "resolve_zone su who c = Some m \<Longrightarrow> speaks who 1 m"
  by (cases c) (auto intro!: speaks_shown zone_read_speaks [simplified] zone_command_speaks [simplified])

lemma settings_speaks: "speaks who 1 (resolve_settings su who c)"
  by (cases c) (auto intro!: speaks_shown speaks_one speaks_unless_refused speaks_pure
      simp: settings_resolvers resolveSocSettings_def resolveSocSettingsCommit_def resolveModelAccess_def applyAgentGrant_def
      split: sum.split)

lemma call_speaks:
  assumes "resolve_call su who call = Some m"
  shows "speaks who 101 m"
proof (cases call)
  case (EntityCall c)
  then show ?thesis using assms by (auto intro!: speaks_shown speaks_mono [OF entity_speaks])
next
  case (ZoneCall c)
  then show ?thesis using assms by (auto intro!: speaks_shown speaks_mono [OF zone_speaks])
next
  case (DirectoryCall c)
  then show ?thesis using assms by (auto intro!: speaks_shown speaks_mono [OF directory_speaks])
next
  case (CatalogCall c)
  then show ?thesis using assms by (auto intro!: speaks_shown speaks_mono [OF catalog_speaks])
next
  case (SocCall c)
  then show ?thesis using assms by (auto intro!: speaks_shown speaks_mono [OF soc_speaks] simp: QUEUE_MAX_PAGES_def)
next
  case (SettingsCall c)
  then show ?thesis using assms by (auto intro!: speaks_shown speaks_mono [OF settings_speaks])
qed



end
