(* ===== verification/Spec2Isabelle.thy ===== *)
theory Spec2Isabelle
  imports Dispatch Auth Forge OperatorEngine ClientQueue Distribute ServerLaws Bindings
    Surfaces
begin

text \<open>
  \<^bold>\<open>ForgeCentral: the console's server side and its wire stack.\<close>

  \<^bold>\<open>The program.\<close>  ForgeCentral is the operator console of the Crucible engine.  A browser
  application talks to a backend (\<open>apps/bff\<close>), which logs operators in with OIDC device
  codes, keeps their sessions, and brokers every read and command to the engine over the
  Crucible wire protocol (\<open>packages/wire\<close>): CBOR payloads in framed messages on one
  connection that runs through a local crypto sidecar.  \<open>packages/contracts\<close> holds the
  generated wire types and the narrowing of engine replies to what the console shows.

  \<^bold>\<open>Theories and sources\<close> (paths under \<open>src/\<close>).

  \<^item> \<open>Prelude\<close>, \<open>JsValue\<close>, \<open>Json\<close>: results, parser laws, numbers, strings, objects,
    \<open>JSON.parse\<close> and \<open>JSON.stringify\<close> as the sources use them.
  \<^item> \<open>Cbor\<close>, \<open>Frame\<close>, \<open>Transport\<close>, \<open>Async\<close>, \<open>Handshake\<close>, \<open>WireDto\<close>, \<open>Payload\<close>,
    \<open>PayloadShape\<close>, \<open>Dispatch\<close>: \<open>packages/wire/src\<close> file by file, and the request side of
    \<open>packages/contracts/src/generated/wire-dto.ts\<close>.
  \<^item> \<open>Rbac\<close>, \<open>Stores\<close>, \<open>Auth\<close>: \<open>apps/bff/src/auth\<close>, \<open>cache.ts\<close> and
    \<open>engine/principal.ts\<close>: role grants, session, login and read caches, cookies, the token
    claims, the login router.
  \<^item> \<open>Tags\<close>, \<open>Objects\<close>, \<open>Vtz\<close>, \<open>Policies\<close>, \<open>Forge\<close>: the contracts of objects, trust
    zones, policies and policy bundles.
  \<^item> \<open>WireClient\<close>, \<open>ClientQueue\<close>, \<open>OperatorEngine\<close>: \<open>engine/wire-client.ts\<close>, once as
    the sequential behaviour of each operation and once as a step relation over
    interleaved calls, and the facade \<open>engine/operator-engine.ts\<close>.
  \<^item> \<open>Sidecar\<close>, \<open>Distribute\<close>: the signing, session and secret clients and
    \<open>engine/distribute.ts\<close>.
  \<^item> \<open>SocCommands\<close>, \<open>SettingsCommands\<close>: the authoring side of \<open>contracts/src/soc.ts\<close>,
    \<open>settings.ts\<close> and \<open>model-access.ts\<close>.
  \<^item> \<open>Numbers\<close>: arithmetic and printing of numbers and dates.
  \<^item> \<open>Resolvers\<close>: what the resolvers of \<open>apps/bff/src/engine\<close> share, and their laws.
  \<^item> \<open>SocViews\<close>, \<open>SocResolvers\<close>, \<open>SocLaws\<close>: the reading side of \<open>contracts/src/soc.ts\<close>,
    \<open>engine/soc.ts\<close>, and what the two show of the engine's answers.
  \<^item> \<open>SettingsViews\<close>, \<open>SettingsLaws\<close>: the reading side of \<open>contracts/src/settings.ts\<close>,
    \<open>engine/settings.ts\<close>, and what the settings pages say.
  \<^item> \<open>ModelAccess\<close>: \<open>contracts/src/model-access.ts\<close> and \<open>engine/model-access.ts\<close>.
  \<^item> \<open>Routes\<close>, \<open>Bindings\<close>: \<open>apps/bff/src/routes.ts\<close> and the registry of
    \<open>packages/bindings/src\<close> with its rules.
  \<^item> \<open>Users\<close>: \<open>contracts/src/users.ts\<close>, \<open>engine/users.ts\<close> and \<open>engine/idam.ts\<close>.
  \<^item> \<open>Entities\<close>: \<open>contracts/src/entity.ts\<close> and \<open>logs.ts\<close>, \<open>engine/entity-detail.ts\<close>,
    \<open>isolate.ts\<close> and \<open>logs.ts\<close>.
  \<^item> \<open>ReverseDns\<close>, \<open>Overview\<close>: \<open>engine/reverse-dns.ts\<close>; \<open>contracts/src/overview.ts\<close>,
    \<open>engine/overview.ts\<close> and \<open>destination-classifier.ts\<close>.
  \<^item> \<open>Catalog\<close>: \<open>engine/objects.ts\<close>, \<open>policies.ts\<close> and \<open>vtz.ts\<close>.
  \<^item> \<open>Surfaces\<close>: which resolver each call of the server runs.
  \<^item> \<open>Http\<close>, \<open>Requests\<close>, \<open>Static\<close>, \<open>Config\<close>, \<open>Server\<close>, \<open>ServerLaws\<close>:
    \<open>apps/bff/src/server.ts\<close> with the parsers of its requests, \<open>static.ts\<close>, \<open>config.ts\<close>,
    and what every handler keeps to.

  \<^bold>\<open>How the code corresponds.\<close>  A class is a record and one function per method; an
  \<open>async\<close> function over a transport is an \<open>async\<close> computation of \<open>Async\<close> whose outcome is
  resolved, rejected or pending; a thrown error is the left of a sum; object literals that
  are encoded are lists of entries in their order.  Event handlers (transport, sidecar
  sockets) are transitions folded over a list of events.  The interleaving of calls on
  the engine client is the step relation of \<open>ClientQueue\<close>.  A handler of the server is a
  function from its dependencies, an environment, a request and the state to nothing (it
  does not claim the request) or to the answer, the calls made and the new state; the
  environment gives the answers of calls and what other requests did meanwhile.  A resolver is a
  function of its module's request counter and of the world behind the engine to the outcome of
  its promise; it records what it asked, and for whom.

  \<^bold>\<open>Interfaces.\<close>  The contract lists are instances of the locale \<open>tag_list\<close> of \<open>Tags\<close>, the
  sidecar clients of \<open>line_exchange\<close> of \<open>Sidecar\<close>, the authoring parsers of \<open>authoring\<close>
  of \<open>SocCommands\<close>, the tables of handlers of \<open>handler_table\<close> of \<open>ServerLaws\<close>, the reads
  that the engine may refuse of \<open>refusable_read\<close> of \<open>Resolvers\<close>, the surfaces that show an answer
  or refuse it of \<open>whole_surface\<close> of \<open>Catalog\<close>, the orders that lists are sorted by of
  \<open>comparator\<close> and \<open>collation\<close> of \<open>Users\<close>; the stores, codecs and channels state
  their laws as locales in their theories.  What is not under \<open>src/\<close> is a parameter: the
  hash and the token verifier of the login, the string coercion of unknown values, the
  network under the transport, the sidecar, the engine behind a reply, the collation of
  \<open>localeCompare\<close> and the answers of reverse lookups.

  \<^bold>\<open>What is shown.\<close>  Codecs: round trips, prefix freedom, exact acceptance.  Transport:
  frames arrive in order, once, under every interleaving; failures settle every waiter.
  Requests: every variant encodes what it carries, no variant drops the operator.
  Authority: roles, tenants and tiers come only from configured grants, from the token
  through the request of the browser to the payload on the wire (this theory).  Server:
  nothing is reached without a session, every call is attributed and well formed, cached
  answers stay in their tenant, every request is answered.  The route table and the
  registry of bindings are one index; files outside the application are never read; the
  configuration is safe or the process does not start.  Stores: lookups are sound, complete and
  bounded.  Client: one connection, every call settles exactly once after at most two
  attempts, every run ends, and the refinement of an abstract link.  Contracts: what is
  shown is the whole reply or a refusal, and what was authored is read back.
  Distribution: nothing but a signed bundle of the zone's own rules is committed.  Operations
  centre: the queue shown is the engine's whole queue, each view is exactly what the engine sent,
  a refusal is never shown as an answer.  Model
  access: every row of spend is counted once, under its agent and day.  Settings: the pages say
  what the engine said, and what was committed is read back.  Users, objects, policies and
  zones: the whole answer of the engine or a refusal, and a command is reported as the engine
  took it.  Entities: a drawer that degrades by section and invents nothing.  Overview: no
  destination lost or shown twice, named only by what was looked up.  And for every surface,
  whatever the browser sends, the engine is asked for the operator of the session only.

  \<^bold>\<open>Bounds and fuel.\<close>  \<open>json_parse\<close> runs on twice the length of its text plus two, which
  \<open>parse_fuel\<close> shows to be enough; the CBOR reader's recursion is bounded by its input.
  Numbers are integers or the bit patterns of doubles; integers that JavaScript would
  round are kept in the range of doubles where the code computes them.

  \<^bold>\<open>Assumptions.\<close>  Engine replies have the types the contract declares; the sources cast
  them without a check.  Strings have no lone surrogates, and the names whose case the code
  changes are ASCII.  A comparator that is not an order may sort a list in any order.  A promise that the event loop
  owes a callback gets it.

  \<^bold>\<open>Not modelled.\<close>  The browser application (\<open>apps/console\<close>) and the component library
  (\<open>packages/design\<close>): rendering.  The Rust sidecar and the scripts.  Logging, process
  start, the API document, branded identifiers and error classes.  Reply types of the wire
  that no surface of the console shows.
\<close>

section \<open>From login to the wire\<close>

text \<open>The operator of a session as the facade puts it on a request, and as the request encodes it.\<close>

lemma brokered_payload:
  assumes "facade other net actor request = Some act" "request_operator request \<noteq> None"
  shows "\<exists>sent reply d body. act = recorded d (call net (dispatch_op other net sent reply)) \<and>
    request_value sent = Some (JObj [(request_tag request, JObj body)]) \<and>
    map_of body ''operator'' = Some (delegation (delegation_of actor request))"
proof -
  obtain sent reply d where b: "act = recorded d (call net (dispatch_op other net sent reply))"
    "sent = with_operator (Some (delegation_of actor request)) request"
    using facade_brokers [OF assms(1)] unfolding brokers_def by blast
  have "request_operator sent = Some (Some (delegation_of actor request))" "request_tag sent = request_tag request"
    using with_operator_laws(1,3) assms(2) b(2) by simp_all
  then show ?thesis using request_delegates [of sent] b(1) by (fastforce simp: delegates_def tagged_def)
qed



end
